(* ===== verification/MSTP_Prelude.thy ===== *)
theory MSTP_Prelude
  imports Main "HOL-Library.Word" "HOL-Library.Monad_Syntax"
begin

unbundle bit_operations_syntax

section \<open>Shared types, automation and the state-machine interface\<close>

text \<open>
  The machine integers of the C sources, the collections of facts the component theories
  share, and the one notion every protocol component is built from: a state machine whose
  \<open>X_run\<close> function takes one transition, executes the entry actions of the new state
  (\<open>X_to_Y\<close>) and, unless the entry function omits the call, runs itself again.
\<close>

type_synonym u8 = "8 word"
type_synonym u16 = "16 word"
type_synonym u32 = "32 word"

named_theorems sm_defs \<open>definitions of entry actions and transition functions\<close>
named_theorems proc_defs \<open>definitions of the procedures of 13.26\<close>

subsection \<open>Timers and list updates\<close>

text \<open>\<open>if(t) --t\<close>: the decrement every port timer uses.\<close>

definition dec_timer :: "u32 \<Rightarrow> u32" where
  "dec_timer t = (if t = 0 then 0 else t - 1)"

lemma dec_timer_0 [simp]: "dec_timer 0 = 0"
  by (simp add: dec_timer_def)

lemma unat_dec_timer: "unat (dec_timer t) = unat t - 1"
  by (simp add: dec_timer_def unat_minus_one)

text \<open>Words widened and counted up.\<close>

lemma unat_ucast_u8: "unat (ucast x :: u32) = unat x" for x :: u8
proof -
  have "unat x < 2 ^ 8" using unsigned_less [of x] by simp
  then show ?thesis by (simp add: unsigned_ucast_eq take_bit_nat_eq_self)
qed

lemma ucast_u8_eq_0 [simp]: "ucast x = (0 :: u32) \<longleftrightarrow> x = 0" for x :: u8
  using unat_ucast_u8 [of x] by (metis unsigned_0 unsigned_word_eqI)

lemma unat_add_1: "unat (c + 1) = Suc (unat c)" if "c < h" for c h :: "'a::len word"
proof -
  from that have "c + 1 \<noteq> 0"
    by (metis add.inverse_unique add.commute not_less word_n1_ge)
  then show ?thesis using unatSuc [of c] by (simp add: add.commute)
qed

text \<open>An update of one list element by a function of its old value.\<close>

definition upd_nth :: "nat \<Rightarrow> ('a \<Rightarrow> 'a) \<Rightarrow> 'a list \<Rightarrow> 'a list" where
  "upd_nth i f xs = xs[i := f (xs ! i)]"

lemma length_upd_nth [simp]: "length (upd_nth i f xs) = length xs"
  by (simp add: upd_nth_def)

lemma nth_upd_nth [simp]:
  "i < length xs \<Longrightarrow> upd_nth i f xs ! j = (if i = j then f (xs ! i) else xs ! j)"
  by (auto simp: upd_nth_def nth_list_update)

lemma nth_upd_nth_neq [simp]: "i \<noteq> j \<Longrightarrow> upd_nth i f xs ! j = xs ! j"
  by (simp add: upd_nth_def)

lemma upd_nth_id: "f (xs ! i) = xs ! i \<Longrightarrow> upd_nth i f xs = xs"
  by (simp add: upd_nth_def)

lemma upd_nth_beyond: "length xs \<le> i \<Longrightarrow> upd_nth i f xs = xs"
  by (simp add: upd_nth_def list_update_beyond)

lemma upd_nth_Cons_0 [simp]: "upd_nth 0 f (x # xs) = f x # xs"
  by (simp add: upd_nth_def)

lemma upd_nth_Cons_Suc [simp]: "upd_nth (Suc i) f (x # xs) = x # upd_nth i f xs"
  by (simp add: upd_nth_def)

lemma upd_nth_comp: "upd_nth i f (upd_nth i g xs) = upd_nth i (f \<circ> g) xs"
  by (cases "i < length xs") (auto simp: upd_nth_def list_update_beyond)

lemma map_upd_nth_same:
  "(\<And>x. g (f x) = g x) \<Longrightarrow> map g (upd_nth i f xs) = map g xs"
  by (cases "i < length xs") (auto simp: upd_nth_def map_update list_update_beyond
      list_update_same_conv)

lemma in_set_upd_nthD:
  "x \<in> set (upd_nth i f xs) \<Longrightarrow> x \<in> set xs \<or> (i < length xs \<and> x = f (xs ! i))"
  by (cases "i < length xs")
    (auto simp: upd_nth_def list_update_beyond dest!: set_update_subset_insert [THEN subsetD])

subsection \<open>One transition and the run to quiescence\<close>

text \<open>
  The outcome of one call of a transition function: no condition is met (\<open>Stay\<close>), or a
  state was entered and its entry actions executed, after which the entry function calls
  \<open>X_run\<close> again (\<open>Enter\<close>) or returns without doing so (\<open>Last\<close>).
\<close>

datatype 's sm = Stay | Enter 's | Last 's

fun fires :: "'s sm \<Rightarrow> bool" where
  "fires Stay = False"
| "fires (Enter s) = True"
| "fires (Last s) = True"

lemma not_fires_iff [simp]: "\<not> fires r \<longleftrightarrow> r = Stay"
  by (cases r) auto

text \<open>
  The actual run. The C functions are tail recursive without a bound, so a run that does not
  return is the value \<^term>\<open>None\<close>.
\<close>

partial_function (option) sm_run :: "('s \<Rightarrow> 's sm) \<Rightarrow> 's \<Rightarrow> 's option" where
  "sm_run step s =
     (case step s of Stay \<Rightarrow> Some s | Enter s' \<Rightarrow> sm_run step s' | Last s' \<Rightarrow> Some s')"

declare sm_run.simps [code]

text \<open>
  \<open>X_run(s, dry_run)\<close> of a machine: an actual run takes the transitions of \<open>step\<close> and returns
  false; the dry run returns what the branches return that it takes, \<open>dry_result\<close>. A branch
  mostly reads \<open>if(dry_run) return true; X_to_Y(s); return false;\<close>, so that the two are meant to
  agree, which is proved for each machine (with the exceptions found).
\<close>

definition sm_exec ::
  "('s \<Rightarrow> 's sm) \<Rightarrow> ('s \<Rightarrow> bool) \<Rightarrow> 's \<Rightarrow> bool \<Rightarrow> (bool \<times> 's) option" where
  "sm_exec step dry_result s dry_run =
     (if dry_run then Some (dry_result s, s)
      else map_option (\<lambda>t. (False, t)) (sm_run step s))"

lemma sm_run_Stay: "step s = Stay \<Longrightarrow> sm_run step s = Some s"
  by (simp add: sm_run.simps)

lemma sm_run_Enter: "step s = Enter t \<Longrightarrow> sm_run step s = sm_run step t"
  by (simp add: sm_run.simps [of step s])

lemma sm_run_Last: "step s = Last t \<Longrightarrow> sm_run step s = Some t"
  by (simp add: sm_run.simps)

subsection \<open>Facts about runs\<close>

text \<open>What every transition preserves, a run preserves.\<close>

lemma sm_run_preserves:
  assumes run: "sm_run step s = Some t" and inv: "I s"
    and pres_Enter: "\<And>s s'. I s \<Longrightarrow> step s = Enter s' \<Longrightarrow> I s'"
    and pres_Last: "\<And>s s'. I s \<Longrightarrow> step s = Last s' \<Longrightarrow> I s'"
  shows "I t"
proof -
  have "f = step \<longrightarrow> I s \<longrightarrow> I t" if "sm_run f s = Some t" for f s t
  proof (rule sm_run.raw_induct [where P = "\<lambda>f s t. f = step \<longrightarrow> I s \<longrightarrow> I t", OF _ that])
    fix rec f s t
    assume IH: "\<And>f s t. rec f s = Some t \<Longrightarrow> f = step \<longrightarrow> I s \<longrightarrow> I t"
      and eq: "(case f s of Stay \<Rightarrow> Some s | Enter s' \<Rightarrow> rec f s' | Last s' \<Rightarrow> Some s') = Some t"
    show "f = step \<longrightarrow> I s \<longrightarrow> I t"
    proof (cases "f s")
      case Stay
      with eq show ?thesis by simp
    next
      case (Enter s')
      with eq have "rec f s' = Some t" by simp
      with IH [of f s' t] Enter pres_Enter [of s s'] show ?thesis by blast
    next
      case (Last s')
      with eq Last pres_Last [of s s'] show ?thesis by auto
    qed
  qed
  with run inv show ?thesis by blast
qed

text \<open>
  Every entry reached by \<^const>\<open>Enter\<close> is followed by another look at the conditions: a
  finished run ends in a state where no condition is met, or right after an entry whose
  function does not run the machine again.
\<close>

lemma sm_run_ends:
  assumes run: "sm_run step s = Some t"
  shows "step t = Stay \<or> (\<exists>u. step u = Last t)"
proof -
  have "f = step \<longrightarrow> (step t = Stay \<or> (\<exists>u. step u = Last t))" if "sm_run f s = Some t" for f s t
  proof (rule sm_run.raw_induct
      [where P = "\<lambda>f s t. f = step \<longrightarrow> (step t = Stay \<or> (\<exists>u. step u = Last t))", OF _ that])
    fix rec f s t
    assume IH: "\<And>f s t. rec f s = Some t \<Longrightarrow>
        f = step \<longrightarrow> (step t = Stay \<or> (\<exists>u. step u = Last t))"
      and eq: "(case f s of Stay \<Rightarrow> Some s | Enter s' \<Rightarrow> rec f s' | Last s' \<Rightarrow> Some s') = Some t"
    show "f = step \<longrightarrow> (step t = Stay \<or> (\<exists>u. step u = Last t))"
    proof (cases "f s")
      case Stay
      with eq show ?thesis by auto
    next
      case (Enter s')
      with eq have "rec f s' = Some t" by simp
      with IH [of f s' t] show ?thesis by blast
    next
      case (Last s')
      with eq show ?thesis by auto
    qed
  qed
  with run show ?thesis by blast
qed

text \<open>A set of states from which a run enters only states of the set never returns.\<close>

lemma sm_run_diverges:
  assumes "P s" and Enter: "\<And>s. P s \<Longrightarrow> \<exists>t. step s = Enter t \<and> P t"
  shows "sm_run step s = None"
proof (rule ccontr)
  assume "sm_run step s \<noteq> None"
  then obtain t where ret: "sm_run step s = Some t" by blast
  have "f = step \<longrightarrow> \<not> P s" if "sm_run f s = Some t" for f s t
  proof (rule sm_run.raw_induct [where P = "\<lambda>f s t. f = step \<longrightarrow> \<not> P s", OF _ that])
    fix rec f s t
    assume IH: "\<And>f s t. rec f s = Some t \<Longrightarrow> f = step \<longrightarrow> \<not> P s"
      and eq: "(case f s of Stay \<Rightarrow> Some s | Enter s' \<Rightarrow> rec f s' | Last s' \<Rightarrow> Some s') = Some t"
    show "f = step \<longrightarrow> \<not> P s"
    proof (intro impI notI)
      assume "f = step" and "P s"
      then obtain u where "step s = Enter u" and "P u" using Enter by blast
      with eq \<open>f = step\<close> have "rec f u = Some t" by simp
      with IH [of f u t] \<open>f = step\<close> \<open>P u\<close> show False by blast
    qed
  qed
  with ret \<open>P s\<close> show False by blast
qed

text \<open>A dry run that agrees with the transitions predicts a run that changes nothing.\<close>

lemma sm_exec_dry: "sm_exec step d s True = Some (r, t) \<longleftrightarrow> r = d s \<and> t = s"
  by (auto simp: sm_exec_def)

lemma sm_exec_dry_False:
  "d s = fires (step s) \<Longrightarrow> sm_exec step d s True = Some (False, t) \<Longrightarrow> sm_exec step d s False = Some (False, s)"
  by (auto simp: sm_exec_def sm_run_Stay)

lemma sm_exec_Stay: "step s = Stay \<Longrightarrow> sm_exec step d s False = Some (False, s)"
  by (simp add: sm_exec_def sm_run_Stay)

subsection \<open>The contract of a terminating machine\<close>

text \<open>
  What the components promise about their transition function: an invariant that every
  entry preserves, and a measure that every re-running entry decreases. In return every run
  from a state of the invariant returns, in a state of the invariant.
\<close>

locale sm_machine =
  fixes step :: "'s \<Rightarrow> 's sm"
    and inv :: "'s \<Rightarrow> bool"
    and mu :: "'s \<Rightarrow> nat"
  assumes inv_Enter: "inv s \<Longrightarrow> step s = Enter t \<Longrightarrow> inv t"
    and inv_Last: "inv s \<Longrightarrow> step s = Last t \<Longrightarrow> inv t"
    and mu_Enter: "inv s \<Longrightarrow> step s = Enter t \<Longrightarrow> mu t < mu s"
begin

lemma run_returns: "inv s \<Longrightarrow> \<exists>t. sm_run step s = Some t \<and> inv t"
proof (induction "mu s" arbitrary: s rule: less_induct)
  case less
  show ?case
  proof (cases "step s")
    case Stay
    with less.prems show ?thesis by (simp add: sm_run_Stay)
  next
    case (Enter t)
    with less.prems less.hyps [of t] show ?thesis
      by (auto simp: sm_run_Enter intro: mu_Enter inv_Enter)
  next
    case (Last t)
    with less.prems show ?thesis by (auto simp: sm_run_Last intro: inv_Last)
  qed
qed

lemma exec_returns: "inv s \<Longrightarrow> \<exists>r t. sm_exec step d s dry = Some (r, t) \<and> inv t"
  using run_returns [of s] by (auto simp: sm_exec_def)

end

text \<open>
  A machine none of whose entry functions leaves out the trailing call ends quiescent; so
  does one whose \<^const>\<open>Last\<close> entries meet no condition, which is what the sources claim
  in the comment ``No need to run, no one condition will be met''.
\<close>

locale sm_quiescent = sm_machine +
  assumes Last_quiet: "inv s \<Longrightarrow> step s = Last t \<Longrightarrow> step t = Stay"
begin

lemma run_quiescent: "inv s \<Longrightarrow> sm_run step s = Some t \<Longrightarrow> step t = Stay"
proof (induction "mu s" arbitrary: s rule: less_induct)
  case less
  show ?case
  proof (cases "step s")
    case Stay
    with less.prems show ?thesis by (simp add: sm_run_Stay)
  next
    case (Enter u)
    with less show ?thesis
      by (auto simp: sm_run_Enter intro: mu_Enter inv_Enter)
  next
    case (Last u)
    with less.prems show ?thesis by (auto simp: sm_run_Last intro: Last_quiet)
  qed
qed

end

end
