(* ===== verification/MSTP_Types.thy ===== *)
theory MSTP_Types
  imports MSTP_Prelude
begin

section \<open>The data of the protocol (\<^verbatim>\<open>mstp.h\<close>)\<close>

text \<open>
  Structures of \<^verbatim>\<open>mstpd/src/mstp.h\<close> as records, its enumerations as datatypes, its
  integers as words. Multi-byte big-endian fields (\<^verbatim>\<open>__be16\<close>, \<^verbatim>\<open>__be32\<close>, MAC
  addresses) hold their host value: the code compares them with \<^verbatim>\<open>memcmp\<close>, which on
  big-endian octets is the comparison of the values. A field that two structures share gets
  the structure's initial in front (\<open>br_Max_Age\<close>, \<open>msti_flags\<close>).
\<close>

subsection \<open>Identifiers and vectors\<close>

datatype bridge_identifier_t = BridgeId (priority: u16) (mac_address: "48 word")

text \<open>\<^verbatim>\<open>_ncmp\<close> on two bridge identifiers compares the priority octets, then the address.\<close>

instantiation bridge_identifier_t :: linorder
begin

definition less_eq_bridge_identifier_t :: "bridge_identifier_t \<Rightarrow> bridge_identifier_t \<Rightarrow> bool" where
  "less_eq_bridge_identifier_t a b \<longleftrightarrow>
     priority a < priority b \<or> (priority a = priority b \<and> mac_address a \<le> mac_address b)"

definition less_bridge_identifier_t :: "bridge_identifier_t \<Rightarrow> bridge_identifier_t \<Rightarrow> bool" where
  "less_bridge_identifier_t a b \<longleftrightarrow>
     priority a < priority b \<or> (priority a = priority b \<and> mac_address a < mac_address b)"

instance
  by standard (auto simp: less_eq_bridge_identifier_t_def less_bridge_identifier_t_def
      bridge_identifier_t.expand)

end

type_synonym port_identifier_t = u16

text \<open>
  \<^verbatim>\<open>GET_PRIORITY_FROM_IDENTIFIER\<close> and \<^verbatim>\<open>SET_PRIORITY_IN_IDENTIFIER\<close> touch the upper
  four bits of the first octet, the upper four bits of the 16-bit value.
\<close>

definition GET_PRIORITY_FROM_IDENTIFIER :: "u16 \<Rightarrow> u8" where
  "GET_PRIORITY_FROM_IDENTIFIER i = ucast (drop_bit 8 i) AND 0xF0"

definition SET_PRIORITY_IN_IDENTIFIER :: "u8 \<Rightarrow> u16 \<Rightarrow> u16" where
  "SET_PRIORITY_IN_IDENTIFIER pri i = (i AND 0x0FFF) OR push_bit 8 (ucast (pri AND 0xF0))"

definition set_bridge_priority :: "u8 \<Rightarrow> bridge_identifier_t \<Rightarrow> bridge_identifier_t" where
  "set_bridge_priority pri b =
     BridgeId (SET_PRIORITY_IN_IDENTIFIER pri (priority b)) (mac_address b)"

record mst_configuration_identifier_t =
  selector :: u8
  configuration_name :: "u8 list"
  revision_level :: u16
  configuration_digest :: "u8 list"

record port_priority_vector_t =
  RRootID :: bridge_identifier_t
  IntRootPathCost :: u32
  DesignatedBridgeID :: bridge_identifier_t
  DesignatedPortID :: port_identifier_t
  RootID :: bridge_identifier_t
  ExtRootPathCost :: u32

record times_t =
  remainingHops :: u8
  Forward_Delay :: u8
  Max_Age :: u8
  Message_Age :: u8
  Hello_Time :: u8

subsection \<open>Messages\<close>

record msti_configuration_message_t =
  msti_flags :: u8
  mstiRRootID :: bridge_identifier_t
  mstiIntRootPathCost :: u32
  bridgeIdentifierPriority :: u8
  portIdentifierPriority :: u8
  msti_remainingHops :: u8

record bpdu_t =
  protocolIdentifier :: u16
  protocolVersion :: u8
  bpduType :: u8
  flags :: u8
  cistRootID :: bridge_identifier_t
  cistExtRootPathCost :: u32
  cistRRootID :: bridge_identifier_t
  cistPortID :: port_identifier_t
  MessageAge :: "u8 \<times> u8"
  MaxAge :: "u8 \<times> u8"
  HelloTime :: "u8 \<times> u8"
  ForwardDelay :: "u8 \<times> u8"
  version1_len :: u8
  version3_len :: u16
  mstConfigurationIdentifier :: mst_configuration_identifier_t
  cistIntRootPathCost :: u32
  cistBridgeID :: bridge_identifier_t
  cistRemainingHops :: u8
  mstConfiguration :: "msti_configuration_message_t list"

text \<open>Offsets in the packed \<^verbatim>\<open>bpdu_t\<close>.\<close>

abbreviation (input) TCN_BPDU_SIZE :: int where "TCN_BPDU_SIZE \<equiv> 4"
abbreviation (input) CONFIG_BPDU_SIZE :: int where "CONFIG_BPDU_SIZE \<equiv> 35"
abbreviation (input) RST_BPDU_SIZE :: int where "RST_BPDU_SIZE \<equiv> 36"
abbreviation (input) MST_BPDU_SIZE_WO_MSTI_MSGS :: int where "MST_BPDU_SIZE_WO_MSTI_MSGS \<equiv> 102"
abbreviation (input) MST_BPDU_VER3LEN_WO_MSTI_MSGS :: int where "MST_BPDU_VER3LEN_WO_MSTI_MSGS \<equiv> 64"
abbreviation (input) sizeof_msti_msg :: int where "sizeof_msti_msg \<equiv> 16"
abbreviation (input) MAX_STANDARD_MSTIS :: int where "MAX_STANDARD_MSTIS \<equiv> 64"
abbreviation (input) MAX_IMPLEMENTATION_MSTIS :: nat where "MAX_IMPLEMENTATION_MSTIS \<equiv> 63"
abbreviation (input) MAX_PATH_COST :: u32 where "MAX_PATH_COST \<equiv> 200000000"
abbreviation (input) MAX_VID :: nat where "MAX_VID \<equiv> 4094"
abbreviation (input) MAX_FID :: nat where "MAX_FID \<equiv> 4095"
abbreviation (input) MAX_MSTID :: nat where "MAX_MSTID \<equiv> 4094"

abbreviation (input) protoSTP :: u8 where "protoSTP \<equiv> 0"
abbreviation (input) protoRSTP :: u8 where "protoRSTP \<equiv> 2"
abbreviation (input) protoMSTP :: u8 where "protoMSTP \<equiv> 3"

abbreviation (input) bpduTypeConfig :: u8 where "bpduTypeConfig \<equiv> 0"
abbreviation (input) bpduTypeRST :: u8 where "bpduTypeRST \<equiv> 2"
abbreviation (input) bpduTypeTCN :: u8 where "bpduTypeTCN \<equiv> 128"

abbreviation (input) encodedRoleMaster :: u8 where "encodedRoleMaster \<equiv> 0"
abbreviation (input) encodedRoleAlternateBackup :: u8 where "encodedRoleAlternateBackup \<equiv> 1"
abbreviation (input) encodedRoleRoot :: u8 where "encodedRoleRoot \<equiv> 2"
abbreviation (input) encodedRoleDesignated :: u8 where "encodedRoleDesignated \<equiv> 3"

abbreviation (input) offsetTc :: nat where "offsetTc \<equiv> 0"
abbreviation (input) offsetProposal :: nat where "offsetProposal \<equiv> 1"
abbreviation (input) offsetRole :: nat where "offsetRole \<equiv> 2"
abbreviation (input) offsetLearnig :: nat where "offsetLearnig \<equiv> 4"
abbreviation (input) offsetForwarding :: nat where "offsetForwarding \<equiv> 5"
abbreviation (input) offsetAgreement :: nat where "offsetAgreement \<equiv> 6"
abbreviation (input) offsetTcAck :: nat where "offsetTcAck \<equiv> 7"
abbreviation (input) offsetMaster :: nat where "offsetMaster \<equiv> 7"

definition BPDU_FLAGS_ROLE_SET :: "u8 \<Rightarrow> u8" where
  "BPDU_FLAGS_ROLE_SET r = push_bit offsetRole (r AND 3)"

definition BPDU_FLAGS_ROLE_GET :: "u8 \<Rightarrow> u8" where
  "BPDU_FLAGS_ROLE_GET f = drop_bit offsetRole f AND 3"

text \<open>\<^verbatim>\<open>f & (1 << off)\<close> and \<^verbatim>\<open>f |= (1 << off)\<close>.\<close>

definition has_flag :: "u8 \<Rightarrow> nat \<Rightarrow> bool" where
  "has_flag f off \<longleftrightarrow> f AND push_bit off 1 \<noteq> 0"

definition or_flag :: "nat \<Rightarrow> bool \<Rightarrow> u8 \<Rightarrow> u8" where
  "or_flag off c f = (if c then f OR push_bit off 1 else f)"

lemma has_flag_bit: "has_flag f off \<longleftrightarrow> bit f off"
  by (simp add: has_flag_def push_bit_eq_mult and_exp_eq_0_iff_not_bit)

subsection \<open>Enumerations\<close>

datatype port_info_t = OtherInfo | SuperiorDesignatedInfo | RepeatedDesignatedInfo
  | InferiorDesignatedInfo | InferiorRootAlternateInfo

datatype port_info_origin_t = ioDisabled | ioMine | ioAged | ioReceived

datatype port_role_t = roleDisabled | roleRoot | roleDesignated | roleAlternate
  | roleBackup | roleMaster

datatype admin_p2p_t = p2pAuto | p2pForceTrue | p2pForceFalse

datatype br_state_t = BR_STATE_DISABLED | BR_STATE_LISTENING | BR_STATE_LEARNING
  | BR_STATE_FORWARDING | BR_STATE_BLOCKING

datatype PRSM_states_t = PRSM_DISCARD | PRSM_RECEIVE

datatype PPMSM_states_t = PPMSM_CHECKING_RSTP | PPMSM_SELECTING_STP | PPMSM_SENSING

datatype BDSM_states_t = BDSM_EDGE | BDSM_NOT_EDGE

datatype PTSM_states_t = PTSM_TRANSMIT_INIT | PTSM_TRANSMIT_CONFIG | PTSM_TRANSMIT_TCN
  | PTSM_TRANSMIT_RSTP | PTSM_TRANSMIT_PERIODIC | PTSM_IDLE

datatype PISM_states_t = PISM_DISABLED | PISM_AGED | PISM_UPDATE | PISM_SUPERIOR_DESIGNATED
  | PISM_REPEATED_DESIGNATED | PISM_INFERIOR_DESIGNATED | PISM_NOT_DESIGNATED | PISM_OTHER
  | PISM_CURRENT | PISM_RECEIVE

datatype PRSSM_states_t = PRSSM_INIT_TREE | PRSSM_ROLE_SELECTION

datatype PRTSM_states_t = PRTSM_INIT_PORT | PRTSM_DISABLE_PORT | PRTSM_DISABLED_PORT
  | PRTSM_MASTER_PROPOSED | PRTSM_MASTER_AGREED | PRTSM_MASTER_SYNCED | PRTSM_MASTER_RETIRED
  | PRTSM_MASTER_FORWARD | PRTSM_MASTER_LEARN | PRTSM_MASTER_DISCARD | PRTSM_MASTER_PORT
  | PRTSM_ROOT_PROPOSED | PRTSM_ROOT_AGREED | PRTSM_ROOT_SYNCED | PRTSM_REROOT
  | PRTSM_ROOT_FORWARD | PRTSM_ROOT_LEARN | PRTSM_REROOTED | PRTSM_ROOT_PORT
  | PRTSM_DESIGNATED_PROPOSE | PRTSM_DESIGNATED_AGREED | PRTSM_DESIGNATED_SYNCED
  | PRTSM_DESIGNATED_RETIRED | PRTSM_DESIGNATED_FORWARD | PRTSM_DESIGNATED_LEARN
  | PRTSM_DESIGNATED_DISCARD | PRTSM_DESIGNATED_PORT
  | PRTSM_BLOCK_PORT | PRTSM_BACKUP_PORT | PRTSM_ALTERNATE_PROPOSED | PRTSM_ALTERNATE_AGREED
  | PRTSM_ALTERNATE_PORT

datatype PSTSM_states_t = PSTSM_DISCARDING | PSTSM_LEARNING | PSTSM_FORWARDING

datatype TCSM_states_t = TCSM_INACTIVE | TCSM_LEARNING | TCSM_DETECTED | TCSM_NOTIFIED_TCN
  | TCSM_NOTIFIED_TC | TCSM_PROPAGATING | TCSM_ACKNOWLEDGED | TCSM_ACTIVE

subsection \<open>The per-port per-tree, port, tree and bridge structures\<close>

text \<open>
  The pointer \<^verbatim>\<open>rcvdMstiConfig\<close> into \<^verbatim>\<open>prt->rcvdBpduData.mstConfiguration\<close> is the
  index it points at, \<^term>\<open>None\<close> for the null pointer.
\<close>

record per_tree_port_t =
  MSTID :: u16
  state :: br_state_t
  fdWhile :: u32
  rrWhile :: u32
  rbWhile :: u32
  tcWhile :: u32
  rcvdInfoWhile :: u32
  agree :: bool
  agreed :: bool
  disputed :: bool
  forward :: bool
  forwarding :: bool
  learn :: bool
  learning :: bool
  rcvdInfo :: port_info_t
  infoIs :: port_info_origin_t
  proposed :: bool
  proposing :: bool
  rcvdMsg :: bool
  rcvdTc :: bool
  reRoot :: bool
  reselect :: bool
  selected :: bool
  fdbFlush :: bool
  tcProp :: bool
  updtInfo :: bool
  sync :: bool
  synced :: bool
  portId :: port_identifier_t
  role :: port_role_t
  selectedRole :: port_role_t
  designatedPriority :: port_priority_vector_t
  msgPriority :: port_priority_vector_t
  portPriority :: port_priority_vector_t
  designatedTimes :: times_t
  msgTimes :: times_t
  portTimes :: times_t
  master :: bool
  mastered :: bool
  InternalPortPathCost :: u32
  AdminInternalPortPathCost :: u32
  start_time :: u32
  PISM_state :: PISM_states_t
  PRTSM_state :: PRTSM_states_t
  PSTSM_state :: PSTSM_states_t
  TCSM_state :: TCSM_states_t
  calledFromFlushRoutine :: bool
  rcvdMstiConfig :: "nat option"

text \<open>
  The calls a port makes to its environment, in order: the kernel bridge state, the flush of
  the forwarding database, the ageing time, a transmitted frame, an administrative shutdown.
\<close>

datatype mstp_out = KernelState br_state_t | KernelFlush | AgeingTime u32
  | TxBpdu bpdu_t int | Shutdown

record port_t =
  port_number :: u16
  port_trees :: "per_tree_port_t list"
  mdelayWhile :: u32
  helloWhen :: u32
  edgeDelayWhile :: u32
  txCount :: u32
  operEdge :: bool
  portEnabled :: bool
  infoInternal :: bool
  rcvdInternal :: bool
  mcheck :: bool
  rcvdBpdu :: bool
  rcvdRSTP :: bool
  rcvdSTP :: bool
  rcvdTcAck :: bool
  rcvdTcn :: bool
  sendRSTP :: bool
  tcAck :: bool
  newInfo :: bool
  newInfoMsti :: bool
  operPointToPointMAC :: bool
  restrictedRole :: bool
  restrictedTcn :: bool
  ExternalPortPathCost :: u32
  AdminExternalPortPathCost :: u32
  AdminP2P :: admin_p2p_t
  AdminEdgePort :: bool
  AutoEdge :: bool
  BpduGuardPort :: bool
  BpduGuardError :: bool
  NetworkPort :: bool
  BaInconsistent :: bool
  dontTxmtBpdu :: bool
  bpduFilterPort :: bool
  rapidAgeingWhile :: u32
  brAssuRcvdInfoWhile :: u32
  PRSM_state :: PRSM_states_t
  PPMSM_state :: PPMSM_states_t
  BDSM_state :: BDSM_states_t
  PTSM_state :: PTSM_states_t
  rcvdBpduData :: bpdu_t
  rcvdBpduNumOfMstis :: int
  deleted :: bool
  port_name :: string
  port_speed :: int
  port_duplex :: int
  num_rx_bpdu_filtered :: u32
  num_rx_bpdu :: u32
  num_rx_tcn :: u32
  num_tx_bpdu :: u32
  num_tx_tcn :: u32
  num_trans_fwd :: u32
  num_trans_blk :: u32
  outs :: "mstp_out list"

record tree_t =
  tree_MSTID :: u16
  BridgeIdentifier :: bridge_identifier_t
  rootPortId :: port_identifier_t
  rootPriority :: port_priority_vector_t
  BridgePriority :: port_priority_vector_t
  BridgeTimes :: times_t
  rootTimes :: times_t
  time_since_topology_change :: u32
  topology_change_count :: u32
  topology_change :: bool
  topology_change_port :: string
  last_topology_change_port :: string
  PRSSM_state :: PRSSM_states_t

record bridge_t =
  ports :: "port_t list"
  trees :: "tree_t list"
  bridgeEnabled :: bool
  MstConfigId :: mst_configuration_identifier_t
  ForceProtocolVersion :: u8
  MaxHops :: u8
  br_Forward_Delay :: u8
  br_Max_Age :: u8
  br_Hello_Time :: u8
  Transmit_Hold_Count :: u32
  Migrate_Time :: u32
  Ageing_Time :: u32
  vid2fid :: "nat \<Rightarrow> u16"
  fid2mstid :: "nat \<Rightarrow> u16"
  uptime :: u32

subsection \<open>Zeroed structures, as \<^verbatim>\<open>calloc\<close> returns them\<close>

definition zero_vector :: port_priority_vector_t where
  "zero_vector = \<lparr>RRootID = BridgeId 0 0, IntRootPathCost = 0, DesignatedBridgeID = BridgeId 0 0,
     DesignatedPortID = 0, RootID = BridgeId 0 0, ExtRootPathCost = 0\<rparr>"

definition zero_times :: times_t where
  "zero_times = \<lparr>remainingHops = 0, Forward_Delay = 0, Max_Age = 0, Message_Age = 0,
     Hello_Time = 0\<rparr>"

definition zero_tree :: tree_t where
  "zero_tree = \<lparr>tree_MSTID = 0, BridgeIdentifier = BridgeId 0 0, rootPortId = 0,
     rootPriority = zero_vector, BridgePriority = zero_vector, BridgeTimes = zero_times,
     rootTimes = zero_times, time_since_topology_change = 0, topology_change_count = 0,
     topology_change = False, topology_change_port = [], last_topology_change_port = [],
     PRSSM_state = PRSSM_INIT_TREE\<rparr>"

definition zero_ptp :: per_tree_port_t where
  "zero_ptp = \<lparr>MSTID = 0, state = BR_STATE_DISABLED, fdWhile = 0, rrWhile = 0, rbWhile = 0,
     tcWhile = 0, rcvdInfoWhile = 0, agree = False, agreed = False, disputed = False,
     forward = False, forwarding = False, learn = False, learning = False, rcvdInfo = OtherInfo,
     infoIs = ioDisabled, proposed = False, proposing = False, rcvdMsg = False, rcvdTc = False,
     reRoot = False, reselect = False, selected = False, fdbFlush = False, tcProp = False,
     updtInfo = False, sync = False, synced = False, portId = 0, role = roleDisabled,
     selectedRole = roleDisabled, designatedPriority = zero_vector, msgPriority = zero_vector,
     portPriority = zero_vector, designatedTimes = zero_times, msgTimes = zero_times,
     portTimes = zero_times, master = False, mastered = False, InternalPortPathCost = 0,
     AdminInternalPortPathCost = 0, start_time = 0, PISM_state = PISM_DISABLED,
     PRTSM_state = PRTSM_INIT_PORT, PSTSM_state = PSTSM_DISCARDING,
     TCSM_state = TCSM_INACTIVE, calledFromFlushRoutine = False, rcvdMstiConfig = None\<rparr>"

definition blank_bridge_id :: bridge_identifier_t where
  "blank_bridge_id = BridgeId 0 0"

definition blank_msti :: msti_configuration_message_t where
  "blank_msti = \<lparr>msti_flags = 0, mstiRRootID = blank_bridge_id, mstiIntRootPathCost = 0,
     bridgeIdentifierPriority = 0, portIdentifierPriority = 0, msti_remainingHops = 0\<rparr>"

definition blank_bpdu :: bpdu_t where
  "blank_bpdu = \<lparr>protocolIdentifier = 0, protocolVersion = 0, bpduType = 0, flags = 0,
     cistRootID = blank_bridge_id, cistExtRootPathCost = 0, cistRRootID = blank_bridge_id, cistPortID = 0,
     MessageAge = (0, 0), MaxAge = (0, 0), HelloTime = (0, 0), ForwardDelay = (0, 0),
     version1_len = 0, version3_len = 0,
     mstConfigurationIdentifier = \<lparr>selector = 0, configuration_name = replicate 32 0,
       revision_level = 0, configuration_digest = replicate 16 0\<rparr>,
     cistIntRootPathCost = 0, cistBridgeID = blank_bridge_id, cistRemainingHops = 0,
     mstConfiguration = replicate 64 blank_msti\<rparr>"

definition zero_port :: port_t where
  "zero_port = \<lparr>port_number = 0, port_trees = [], mdelayWhile = 0, helloWhen = 0,
     edgeDelayWhile = 0, txCount = 0, operEdge = False, portEnabled = False, infoInternal = False,
     rcvdInternal = False, mcheck = False, rcvdBpdu = False, rcvdRSTP = False, rcvdSTP = False,
     rcvdTcAck = False, rcvdTcn = False, sendRSTP = False, tcAck = False, newInfo = False,
     newInfoMsti = False, operPointToPointMAC = False, restrictedRole = False,
     restrictedTcn = False, ExternalPortPathCost = 0, AdminExternalPortPathCost = 0,
     AdminP2P = p2pAuto, AdminEdgePort = False, AutoEdge = False, BpduGuardPort = False,
     BpduGuardError = False, NetworkPort = False, BaInconsistent = False, dontTxmtBpdu = False,
     bpduFilterPort = False, rapidAgeingWhile = 0, brAssuRcvdInfoWhile = 0,
     PRSM_state = PRSM_DISCARD, PPMSM_state = PPMSM_CHECKING_RSTP, BDSM_state = BDSM_EDGE,
     PTSM_state = PTSM_TRANSMIT_INIT, rcvdBpduData = blank_bpdu, rcvdBpduNumOfMstis = 0,
     deleted = False, port_name = [], port_speed = 0, port_duplex = 0, num_rx_bpdu_filtered = 0,
     num_rx_bpdu = 0, num_rx_tcn = 0, num_tx_bpdu = 0, num_tx_tcn = 0, num_trans_fwd = 0,
     num_trans_blk = 0, outs = []\<rparr>"

definition zero_bridge :: bridge_t where
  "zero_bridge = \<lparr>ports = [], trees = [], bridgeEnabled = False,
     MstConfigId = \<lparr>selector = 0, configuration_name = replicate 32 0, revision_level = 0,
       configuration_digest = replicate 16 0\<rparr>,
     ForceProtocolVersion = 0, MaxHops = 0, br_Forward_Delay = 0, br_Max_Age = 0,
     br_Hello_Time = 0, Transmit_Hold_Count = 0, Migrate_Time = 0, Ageing_Time = 0,
     vid2fid = \<lambda>_. 0, fid2mstid = \<lambda>_. 0, uptime = 0\<rparr>"

end
