(* ===== verification/MSTP_Vectors.thy ===== *)
theory MSTP_Vectors
  imports MSTP_Types "HOL-Library.Product_Lexorder"
begin

section \<open>Priority vectors and timers (13.9 to 13.11, 13.26.1)\<close>

text \<open>
  The comparisons of \<^verbatim>\<open>mstp.c\<close> that every role decision rests on, and the proof that
  the hand-written cascade is the lexicographic order of the vector's components.
\<close>

subsection \<open>The comparisons of the code\<close>

text \<open>\<^verbatim>\<open>_ncmp(x, y)\<close>: the sign of \<^verbatim>\<open>memcmp\<close> on two values of an ordered type.\<close>

definition ncmp :: "'a::linorder \<Rightarrow> 'a \<Rightarrow> int" where
  "ncmp x y = (if x < y then -1 else if x = y then 0 else 1)"

definition samePriorityAndTimers ::
  "port_priority_vector_t \<Rightarrow> port_priority_vector_t \<Rightarrow> times_t \<Rightarrow> times_t \<Rightarrow> bool \<Rightarrow> bool" where
  "samePriorityAndTimers vec1 vec2 time1 time2 cist =
    (if cist \<and> Forward_Delay time1 \<noteq> Forward_Delay time2 then False
     else if cist \<and> Max_Age time1 \<noteq> Max_Age time2 then False
     else if cist \<and> Message_Age time1 \<noteq> Message_Age time2 then False
     else if cist \<and> Hello_Time time1 \<noteq> Hello_Time time2 then False
     else if cist \<and> RootID vec1 \<noteq> RootID vec2 then False
     else if cist \<and> ExtRootPathCost vec1 \<noteq> ExtRootPathCost vec2 then False
     else if remainingHops time1 \<noteq> remainingHops time2 then False
     else if RRootID vec1 \<noteq> RRootID vec2 then False
     else if IntRootPathCost vec1 \<noteq> IntRootPathCost vec2 then False
     else if DesignatedBridgeID vec1 \<noteq> DesignatedBridgeID vec2 then False
     else if DesignatedPortID vec1 \<noteq> DesignatedPortID vec2 then False
     else True)"

definition betterorsamePriority ::
  "port_priority_vector_t \<Rightarrow> port_priority_vector_t \<Rightarrow> port_identifier_t \<Rightarrow> port_identifier_t
    \<Rightarrow> bool \<Rightarrow> bool" where
  "betterorsamePriority vec1 vec2 pId1 pId2 cist =
    (if cist \<and> 0 < ncmp (RootID vec1) (RootID vec2) then False
     else if cist \<and> 0 > ncmp (RootID vec1) (RootID vec2) then True
     else if cist \<and> 0 < ncmp (ExtRootPathCost vec1) (ExtRootPathCost vec2) then False
     else if cist \<and> 0 > ncmp (ExtRootPathCost vec1) (ExtRootPathCost vec2) then True
     else if 0 < ncmp (RRootID vec1) (RRootID vec2) then False
     else if 0 > ncmp (RRootID vec1) (RRootID vec2) then True
     else if 0 < ncmp (IntRootPathCost vec1) (IntRootPathCost vec2) then False
     else if 0 > ncmp (IntRootPathCost vec1) (IntRootPathCost vec2) then True
     else if 0 < ncmp (DesignatedBridgeID vec1) (DesignatedBridgeID vec2) then False
     else if 0 > ncmp (DesignatedBridgeID vec1) (DesignatedBridgeID vec2) then True
     else if 0 < ncmp (DesignatedPortID vec1) (DesignatedPortID vec2) then False
     else if 0 > ncmp (DesignatedPortID vec1) (DesignatedPortID vec2) then True
     else pId1 \<le> pId2)"

text \<open>13.26.1: \<^verbatim>\<open>0 == ptp->MSTID\<close> tells the CIST.\<close>

definition betterorsameInfo :: "per_tree_port_t \<Rightarrow> port_info_origin_t \<Rightarrow> bool" where
  "betterorsameInfo ptp newInfoIs =
    (if newInfoIs = ioReceived \<and> infoIs ptp = ioReceived
     then betterorsamePriority (msgPriority ptp) (portPriority ptp) 0 0 (MSTID ptp = 0)
     else if newInfoIs = ioMine \<and> infoIs ptp = ioMine
     then betterorsamePriority (designatedPriority ptp) (portPriority ptp) 0 0 (MSTID ptp = 0)
     else False)"

subsection \<open>The specification: a lexicographic order\<close>

text \<open>
  What the standard orders by: for the CIST the whole vector and the port identifier that
  breaks ties, for an MSTI the vector without the two CIST-only components.
\<close>

type_synonym vector_key =
  "bridge_identifier_t \<times> u32 \<times> bridge_identifier_t \<times> u32 \<times> bridge_identifier_t \<times> u16 \<times> u16"

definition vector_key :: "bool \<Rightarrow> port_priority_vector_t \<Rightarrow> port_identifier_t \<Rightarrow> vector_key" where
  "vector_key cist v p =
    (if cist then RootID v else BridgeId 0 0, if cist then ExtRootPathCost v else 0,
     RRootID v, IntRootPathCost v, DesignatedBridgeID v, DesignatedPortID v, p)"

definition times_key :: "bool \<Rightarrow> times_t \<Rightarrow> u8 \<times> u8 \<times> u8 \<times> u8 \<times> u8" where
  "times_key cist t =
    (remainingHops t, if cist then Forward_Delay t else 0, if cist then Max_Age t else 0,
     if cist then Message_Age t else 0, if cist then Hello_Time t else 0)"

lemma ncmp_pos [simp]: "0 < ncmp x y \<longleftrightarrow> y < x"
  by (auto simp: ncmp_def)

lemma ncmp_neg [simp]: "ncmp x y < 0 \<longleftrightarrow> x < y"
  by (auto simp: ncmp_def)

text \<open>One stage of the cascade is one component of the order.\<close>

lemma ncmp_stage:
  "(if 0 < ncmp x y then False else if ncmp x y < 0 then True else a \<le> b) \<longleftrightarrow> (x, a) \<le> (y, b)"
  for x y :: "'a::linorder" and a b :: "'b::linorder"
  by (auto simp: less_eq_prod_def)

lemma betterorsamePriority_key:
  "betterorsamePriority v w p q cist \<longleftrightarrow> vector_key cist v p \<le> vector_key cist w q"
  unfolding betterorsamePriority_def vector_key_def
  by (cases cist) (simp_all only: ncmp_stage simp_thms if_True if_False, simp)

lemma samePriorityAndTimers_key:
  "samePriorityAndTimers v w s t cist \<longleftrightarrow>
     vector_key cist v 0 = vector_key cist w 0 \<and> times_key cist s = times_key cist t"
  by (cases cist) (auto simp: samePriorityAndTimers_def vector_key_def times_key_def)

text \<open>The consequences the role decisions use.\<close>

lemma betterorsamePriority_refl [simp]: "betterorsamePriority v v p p cist"
  by (simp add: betterorsamePriority_key)

lemma betterorsamePriority_trans:
  "betterorsamePriority u v p q cist \<Longrightarrow> betterorsamePriority v w q r cist
    \<Longrightarrow> betterorsamePriority u w p r cist"
  by (auto simp: betterorsamePriority_key)

lemma betterorsamePriority_total:
  "betterorsamePriority v w p q cist \<or> betterorsamePriority w v q p cist"
  by (auto simp: betterorsamePriority_key)

lemma samePriority_if_better_both:
  assumes "betterorsamePriority v w 0 0 cist" and "betterorsamePriority w v 0 0 cist"
    and "times_key cist s = times_key cist t"
  shows "samePriorityAndTimers v w s t cist"
  using assms by (simp add: betterorsamePriority_key samePriorityAndTimers_key)

subsection \<open>Properties\<close>

text \<open>
  C9. The cascade of \<^verbatim>\<open>memcmp\<close> comparisons in \<open>betterorsamePriority\<close> is the
  lexicographic order on (root, external cost, regional root, internal cost, designated
  bridge, designated port, tie-breaking port identifier), the first two compared for the
  CIST only.
\<close>

theorem betterorsamePriority_lexicographic:
  "betterorsamePriority v w p q cist \<longleftrightarrow>
     (if cist
      then (RootID v, ExtRootPathCost v, RRootID v, IntRootPathCost v, DesignatedBridgeID v,
            DesignatedPortID v, p)
         \<le> (RootID w, ExtRootPathCost w, RRootID w, IntRootPathCost w, DesignatedBridgeID w,
            DesignatedPortID w, q)
      else (RRootID v, IntRootPathCost v, DesignatedBridgeID v, DesignatedPortID v, p)
         \<le> (RRootID w, IntRootPathCost w, DesignatedBridgeID w, DesignatedPortID w, q))"
  by (cases cist) (simp_all add: betterorsamePriority_key vector_key_def)

end
