(* ===== verification/MSTP_State.thy ===== *)
theory MSTP_State
  imports MSTP_Vectors
begin

section \<open>Access to the linked structures, and the calls to the environment\<close>

text \<open>
  The code links bridge, trees, ports and per-tree ports by list heads. Here the bridge holds
  the list of its trees and the list of its ports, and a port the list of its per-tree ports,
  in the order of the bridge's trees: entry \<open>k\<close> of a port belongs to tree \<open>k\<close>, and entry
  0 to the CIST. A per-tree port is named by its port's index \<open>p\<close> and its tree's index
  \<open>k\<close>. The list \<^verbatim>\<open>tree->ports\<close> is column \<open>k\<close> in the order of the bridge's ports
  (\<open>MSTP_IN_port_create_and_add_tail\<close> and \<open>MSTP_IN_create_msti\<close> keep both orders).

  The second half models the calls of \<^verbatim>\<open>bridge_track.c\<close> and \<^verbatim>\<open>driver_deps.c\<close>: their
  effect on the protocol's structures, and the request to the kernel, recorded in the port's
  \<open>outs\<close>.
\<close>

subsection \<open>Reading and updating\<close>

abbreviation ptp_of :: "port_t \<Rightarrow> nat \<Rightarrow> per_tree_port_t" where
  "ptp_of prt k \<equiv> port_trees prt ! k"

abbreviation cist_of :: "port_t \<Rightarrow> per_tree_port_t" where
  "cist_of prt \<equiv> port_trees prt ! 0"

definition upd_ptp :: "nat \<Rightarrow> (per_tree_port_t \<Rightarrow> per_tree_port_t) \<Rightarrow> port_t \<Rightarrow> port_t" where
  "upd_ptp k f prt = port_trees_update (upd_nth k f) prt"

text \<open>\<^verbatim>\<open>FOREACH_PTP_IN_PORT\<close> and \<^verbatim>\<open>list_for_each_entry_continue\<close> after entry \<open>k\<close>.\<close>

definition map_ptps :: "(per_tree_port_t \<Rightarrow> per_tree_port_t) \<Rightarrow> port_t \<Rightarrow> port_t" where
  "map_ptps f prt = port_trees_update (map f) prt"

definition map_ptps_after ::
  "nat \<Rightarrow> (per_tree_port_t \<Rightarrow> per_tree_port_t) \<Rightarrow> port_t \<Rightarrow> port_t" where
  "map_ptps_after k f prt =
     port_trees_update (\<lambda>ts. take (Suc k) ts @ map f (drop (Suc k) ts)) prt"

abbreviation port_at :: "bridge_t \<Rightarrow> nat \<Rightarrow> port_t" where
  "port_at br p \<equiv> ports br ! p"

abbreviation ptp_at :: "bridge_t \<Rightarrow> nat \<Rightarrow> nat \<Rightarrow> per_tree_port_t" where
  "ptp_at br p k \<equiv> ptp_of (port_at br p) k"

abbreviation tree_at :: "bridge_t \<Rightarrow> nat \<Rightarrow> tree_t" where
  "tree_at br k \<equiv> trees br ! k"

definition upd_port :: "nat \<Rightarrow> (port_t \<Rightarrow> port_t) \<Rightarrow> bridge_t \<Rightarrow> bridge_t" where
  "upd_port p f br = ports_update (upd_nth p f) br"

definition upd_tree :: "nat \<Rightarrow> (tree_t \<Rightarrow> tree_t) \<Rightarrow> bridge_t \<Rightarrow> bridge_t" where
  "upd_tree k f br = trees_update (upd_nth k f) br"

abbreviation upd_ptp_at ::
  "nat \<Rightarrow> nat \<Rightarrow> (per_tree_port_t \<Rightarrow> per_tree_port_t) \<Rightarrow> bridge_t \<Rightarrow> bridge_t" where
  "upd_ptp_at p k f \<equiv> upd_port p (upd_ptp k f)"

text \<open>\<^verbatim>\<open>FOREACH_PTP_IN_TREE\<close>: the column of a tree, and an update of each of its entries.\<close>

definition tree_ptps :: "bridge_t \<Rightarrow> nat \<Rightarrow> per_tree_port_t list" where
  "tree_ptps br k = map (\<lambda>prt. ptp_of prt k) (ports br)"

definition map_tree_ptps ::
  "nat \<Rightarrow> (per_tree_port_t \<Rightarrow> per_tree_port_t) \<Rightarrow> bridge_t \<Rightarrow> bridge_t" where
  "map_tree_ptps k f br = ports_update (map (upd_ptp k f)) br"

subsection \<open>Macros\<close>

definition rstpVersion :: "bridge_t \<Rightarrow> bool" where
  "rstpVersion br \<longleftrightarrow> protoRSTP \<le> ForceProtocolVersion br"

definition assurancePort :: "port_t \<Rightarrow> bool" where
  "assurancePort prt \<longleftrightarrow> NetworkPort prt \<and> operPointToPointMAC prt \<and> sendRSTP prt"

text \<open>\<^verbatim>\<open>newInfoXst = TRUE\<close>: \<open>newInfo\<close> for the CIST, \<open>newInfoMsti\<close> for an MSTI.\<close>

definition set_newInfoXst :: "u16 \<Rightarrow> port_t \<Rightarrow> port_t" where
  "set_newInfoXst mstid prt =
     (if mstid = 0 then prt\<lparr>newInfo := True\<rparr> else prt\<lparr>newInfoMsti := True\<rparr>)"

definition compute_pcost :: "int \<Rightarrow> u32" where
  "compute_pcost speed =
     (if speed > 0 then (if speed < 20000000 then of_int (20000000 div speed) else 1)
      else MAX_PATH_COST)"

subsection \<open>The environment\<close>

definition emit :: "mstp_out \<Rightarrow> port_t \<Rightarrow> port_t" where
  "emit ev prt = outs_update (\<lambda>xs. xs @ [ev]) prt"

definition driver_set_new_state :: "br_state_t \<Rightarrow> br_state_t" where
  "driver_set_new_state new_state = new_state"

definition driver_set_ageing_time :: "u32 \<Rightarrow> u32" where
  "driver_set_ageing_time t = t"

definition MSTP_OUT_set_state :: "nat \<Rightarrow> br_state_t \<Rightarrow> port_t \<Rightarrow> port_t" where
  "MSTP_OUT_set_state k new_state prt =
    (if state (ptp_of prt k) = new_state then prt
     else let st = driver_set_new_state new_state;
              prt1 = upd_ptp k (\<lambda>ptp. ptp\<lparr>state := st\<rparr>) prt;
              prt2 = (case st of
                        BR_STATE_FORWARDING \<Rightarrow> prt1\<lparr>num_trans_fwd := num_trans_fwd prt1 + 1\<rparr>
                      | BR_STATE_BLOCKING \<Rightarrow> prt1\<lparr>num_trans_blk := num_trans_blk prt1 + 1\<rparr>
                      | _ \<Rightarrow> prt1)
          in if MSTID (ptp_of prt k) = 0 then emit (KernelState st) prt2 else prt2)"

text \<open>
  \<^verbatim>\<open>driver_flush_all_fids\<close> completes at once by calling \<open>MSTP_IN_all_fids_flushed\<close>,
  which clears \<open>fdbFlush\<close> and, since \<open>calledFromFlushRoutine\<close> is set around the only call
  of \<open>MSTP_OUT_flush_all_fids\<close>, does not run the state machines.
\<close>

definition MSTP_OUT_flush_all_fids :: "nat \<Rightarrow> port_t \<Rightarrow> port_t" where
  "MSTP_OUT_flush_all_fids k prt =
    (let prt1 = (if MSTID (ptp_of prt k) = 0 then emit KernelFlush prt else prt)
     in upd_ptp k (\<lambda>ptp. ptp\<lparr>fdbFlush := False\<rparr>) prt1)"

definition MSTP_OUT_set_ageing_time :: "u32 \<Rightarrow> port_t \<Rightarrow> port_t" where
  "MSTP_OUT_set_ageing_time ageingTime prt =
     emit (AgeingTime (driver_set_ageing_time ageingTime)) prt"

definition MSTP_OUT_tx_bpdu :: "bpdu_t \<Rightarrow> int \<Rightarrow> port_t \<Rightarrow> port_t" where
  "MSTP_OUT_tx_bpdu b sz prt =
    (let prt1 = prt\<lparr>num_tx_bpdu := num_tx_bpdu prt + 1\<rparr>;
         prt2 = (if protocolVersion b = protoSTP \<and> bpduType b = bpduTypeTCN
                    \<or> has_flag (flags b) offsetTc
                 then prt1\<lparr>num_tx_tcn := num_tx_tcn prt1 + 1\<rparr> else prt1)
     in emit (TxBpdu b sz) prt2)"

definition MSTP_OUT_shutdown_port :: "port_t \<Rightarrow> port_t" where
  "MSTP_OUT_shutdown_port prt = emit Shutdown prt"

subsection \<open>Facts about the accessors\<close>

lemma port_trees_upd_ptp [simp]: "port_trees (upd_ptp k f prt) = upd_nth k f (port_trees prt)"
  by (simp add: upd_ptp_def)

lemma port_trees_map_ptps [simp]: "port_trees (map_ptps f prt) = map f (port_trees prt)"
  by (simp add: map_ptps_def)

lemma port_trees_map_ptps_after [simp]:
  "port_trees (map_ptps_after k f prt) =
     take (Suc k) (port_trees prt) @ map f (drop (Suc k) (port_trees prt))"
  by (simp add: map_ptps_after_def)

lemma ports_upd_port [simp]: "ports (upd_port p f br) = upd_nth p f (ports br)"
  by (simp add: upd_port_def)

lemma ports_upd_tree [simp]: "ports (upd_tree k f br) = ports br"
  by (simp add: upd_tree_def)

lemma trees_upd_port [simp]: "trees (upd_port p f br) = trees br"
  by (simp add: upd_port_def)

lemma trees_upd_tree [simp]: "trees (upd_tree k f br) = upd_nth k f (trees br)"
  by (simp add: upd_tree_def)

lemma ports_map_tree_ptps [simp]: "ports (map_tree_ptps k f br) = map (upd_ptp k f) (ports br)"
  by (simp add: map_tree_ptps_def)

lemma trees_map_tree_ptps [simp]: "trees (map_tree_ptps k f br) = trees br"
  by (simp add: map_tree_ptps_def)

lemma upd_port_id: "f (port_at br p) = port_at br p \<Longrightarrow> upd_port p f br = br"
  by (simp add: upd_port_def upd_nth_id)

lemma port_trees_emit [simp]: "port_trees (emit ev prt) = port_trees prt"
  by (simp add: emit_def)

lemma length_tree_ptps [simp]: "length (tree_ptps br k) = length (ports br)"
  by (simp add: tree_ptps_def)

lemma nth_tree_ptps [simp]: "p < length (ports br) \<Longrightarrow> tree_ptps br k ! p = ptp_at br p k"
  by (simp add: tree_ptps_def)

subsection \<open>Path costs\<close>

lemma pcost_le: "0 < s \<Longrightarrow> 20000000 div s \<le> (20000000::int)"
  using zdiv_mono2 [of 20000000 1 s] by simp

lemma uint_compute_pcost:
  "uint (compute_pcost speed) = (if speed \<le> 0 then 200000000 else max 1 (20000000 div speed))"
proof (cases "0 < speed \<and> speed < 20000000")
  case True
  then have "1 \<le> 20000000 div speed" and "20000000 div speed \<le> 20000000"
    by (simp_all add: int_one_le_iff_zero_less pos_imp_zdiv_pos_iff pcost_le)
  moreover from this have "uint (of_int (20000000 div speed) :: u32) = 20000000 div speed"
    by (simp add: uint_word_of_int take_bit_int_eq_self)
  ultimately show ?thesis
    using True by (simp add: compute_pcost_def)
next
  case False
  then show ?thesis
  proof (cases "0 < speed")
    case True
    with False have "20000000 \<le> speed" by simp
    then have "20000000 div speed \<le> 1"
      by (cases "speed = 20000000") (simp_all add: div_pos_pos_trivial)
    with True \<open>20000000 \<le> speed\<close> show ?thesis by (simp add: compute_pcost_def)
  next
    case False
    then show ?thesis by (simp add: compute_pcost_def)
  qed
qed

text \<open>
  The path cost of Table 13-3: every link costs between 1 and the maximum, and a faster
  link never costs more than a slower one (a link of unknown speed costs the maximum).
\<close>

theorem compute_pcost_antitone:
  assumes "speed \<le> speed'"
  shows "compute_pcost speed' \<le> compute_pcost speed
    \<and> 1 \<le> compute_pcost speed' \<and> compute_pcost speed \<le> MAX_PATH_COST"
proof -
  have bound: "1 \<le> uint (compute_pcost s) \<and> uint (compute_pcost s) \<le> 200000000" for s
  proof (cases "0 < s")
    case True
    then have "20000000 div s \<le> 20000000" by (rule pcost_le)
    with True show ?thesis by (simp add: uint_compute_pcost)
  qed (simp add: uint_compute_pcost)
  moreover have "uint (compute_pcost speed') \<le> uint (compute_pcost speed)"
  proof (cases "0 < speed")
    case True
    with assms have "20000000 div speed' \<le> 20000000 div speed"
      by (intro zdiv_mono2) auto
    with True assms show ?thesis by (simp add: uint_compute_pcost)
  next
    case False
    then show ?thesis using bound [of speed'] by (simp add: uint_compute_pcost)
  qed
  ultimately show ?thesis by (simp add: word_le_def)
qed

lemma compute_pcost_antitone_witness:
  "compute_pcost 1000 = 20000 \<and> compute_pcost 10000 \<le> compute_pcost 1000"
  using compute_pcost_antitone [of 1000 10000] by (simp add: compute_pcost_def)

end
