(* ===== verification/MSTP_Procedures.thy ===== *)
theory MSTP_Procedures
  imports MSTP_State
begin

section \<open>The state machine procedures (13.26)\<close>

text \<open>
  One definition per procedure of \<^verbatim>\<open>mstp.c\<close>, in its order. A procedure that touches one
  port only is a function on the port (with the entry of the tree as an index); one that
  touches a whole tree is a function on the bridge.
\<close>

subsection \<open>Topology change bookkeeping\<close>

text \<open>
  \<^verbatim>\<open>set_TopologyChange(tree, true, port)\<close> and \<^verbatim>\<open>set_TopologyChange(tree, false, port)\<close>.
\<close>

definition set_TopologyChange :: "nat \<Rightarrow> bool \<Rightarrow> nat \<Rightarrow> bridge_t \<Rightarrow> bridge_t" where
  "set_TopologyChange k hint_SetToYes p br =
    (let tree = tree_at br k; prev_tc_not_set = (\<not> topology_change tree) in
     if hint_SetToYes then
       upd_tree k (\<lambda>t. t\<lparr>topology_change := True, time_since_topology_change := 0,
         topology_change_count :=
           (if prev_tc_not_set then topology_change_count t + 1 else topology_change_count t),
         topology_change_port := last_topology_change_port t,
         last_topology_change_port := port_name (port_at br p)\<rparr>) br
     else if prev_tc_not_set then br
     else if list_ex (\<lambda>ptp. tcWhile ptp \<noteq> 0) (tree_ptps br k) then
       upd_tree k (\<lambda>t. t\<lparr>topology_change := True, time_since_topology_change := 0\<rparr>) br
     else upd_tree k (\<lambda>t. t\<lparr>topology_change := False\<rparr>) br)"

subsection \<open>Received messages\<close>

definition clearAllRcvdMsgs :: "port_t \<Rightarrow> port_t" where
  "clearAllRcvdMsgs prt = map_ptps (\<lambda>ptp. ptp\<lparr>rcvdMsg := False\<rparr>) prt"

definition clearReselectTree :: "nat \<Rightarrow> bridge_t \<Rightarrow> bridge_t" where
  "clearReselectTree k br = map_tree_ptps k (\<lambda>ptp. ptp\<lparr>reselect := False\<rparr>) br"

definition fromSameRegion :: "bridge_t \<Rightarrow> port_t \<Rightarrow> bool" where
  "fromSameRegion br prt \<longleftrightarrow>
     \<not> protocolVersion (rcvdBpduData prt) < protoMSTP
     \<and> MstConfigId br = mstConfigurationIdentifier (rcvdBpduData prt)"

definition newTcWhile :: "nat \<Rightarrow> nat \<Rightarrow> bridge_t \<Rightarrow> bridge_t" where
  "newTcWhile p k br =
    (let prt = port_at br p; ptp = ptp_of prt k; times = rootTimes (tree_at br k) in
     if tcWhile ptp \<noteq> 0 then br
     else if sendRSTP prt then
       upd_port p (set_newInfoXst (MSTID ptp))
         (set_TopologyChange k True p
           (upd_ptp_at p k
             (\<lambda>x. x\<lparr>tcWhile := ucast (Hello_Time (portTimes (cist_of prt))) + 1\<rparr>) br))
     else
       set_TopologyChange k True p
         (upd_ptp_at p k
           (\<lambda>x. x\<lparr>tcWhile := ucast (Max_Age times) + ucast (Forward_Delay times)\<rparr>) br))"

text \<open>\<^verbatim>\<open>ptp->rcvdMstiConfig\<close> dereferenced; no fact is available about a null pointer.\<close>

definition rcvd_msti :: "port_t \<Rightarrow> nat \<Rightarrow> msti_configuration_message_t" where
  "rcvd_msti prt k = mstConfiguration (rcvdBpduData prt) ! the (rcvdMstiConfig (ptp_of prt k))"

definition NEAREST_WHOLE_SECOND :: "u8 \<times> u8 \<Rightarrow> u8" where
  "NEAREST_WHOLE_SECOND msgTime = (if snd msgTime < 128 then fst msgTime else fst msgTime + 1)"

text \<open>
  13.26.6. The role a message conveys: designated or not; \<^term>\<open>None\<close> where the code
  returns \<^term>\<open>OtherInfo\<close>.
\<close>

definition cist_msg_role :: "bpdu_t \<Rightarrow> bool option" where
  "cist_msg_role b =
    (if protocolVersion b \<noteq> protoSTP then
       (let r = BPDU_FLAGS_ROLE_GET (flags b) in
        if r = encodedRoleAlternateBackup \<or> r = encodedRoleRoot then Some False
        else if r = encodedRoleDesignated then Some True
        else if protocolVersion b = protoRSTP then Some True
        else None)
     else Some True)"

definition msti_msg_role :: "msti_configuration_message_t \<Rightarrow> bool option" where
  "msti_msg_role m =
    (let r = BPDU_FLAGS_ROLE_GET (msti_flags m) in
     if r = encodedRoleAlternateBackup \<or> r = encodedRoleRoot then Some False
     else if r = encodedRoleDesignated then Some True
     else None)"

definition read_cist_msg :: "bridge_t \<Rightarrow> bpdu_t \<Rightarrow> per_tree_port_t \<Rightarrow> per_tree_port_t" where
  "read_cist_msg br b ptp =
    (let mPri = (msgPriority ptp)\<lparr>RRootID := cistRRootID b, DesignatedPortID := cistPortID b,
                  RootID := cistRootID b, ExtRootPathCost := cistExtRootPathCost b\<rparr>;
         mTimes = (msgTimes ptp)\<lparr>Forward_Delay := NEAREST_WHOLE_SECOND (ForwardDelay b),
                  Max_Age := NEAREST_WHOLE_SECOND (MaxAge b),
                  Message_Age := NEAREST_WHOLE_SECOND (MessageAge b),
                  Hello_Time := NEAREST_WHOLE_SECOND (HelloTime b)\<rparr>
     in if protocolVersion b < protoMSTP
        then ptp\<lparr>msgPriority := mPri\<lparr>IntRootPathCost := 0, DesignatedBridgeID := cistRRootID b\<rparr>,
                 msgTimes := mTimes\<lparr>remainingHops := MaxHops br\<rparr>\<rparr>
        else ptp\<lparr>msgPriority := mPri\<lparr>IntRootPathCost := cistIntRootPathCost b,
                                     DesignatedBridgeID := cistBridgeID b\<rparr>,
                 msgTimes := mTimes\<lparr>remainingHops := cistRemainingHops b\<rparr>\<rparr>)"

definition read_msti_msg ::
  "bpdu_t \<Rightarrow> msti_configuration_message_t \<Rightarrow> per_tree_port_t \<Rightarrow> per_tree_port_t" where
  "read_msti_msg b m ptp =
     ptp\<lparr>msgPriority := (msgPriority ptp)\<lparr>RRootID := mstiRRootID m,
           IntRootPathCost := mstiIntRootPathCost m,
           DesignatedBridgeID := set_bridge_priority (bridgeIdentifierPriority m)
             (BridgeId (MSTID ptp) (mac_address (cistBridgeID b))),
           DesignatedPortID :=
             SET_PRIORITY_IN_IDENTIFIER (portIdentifierPriority m) (cistPortID b)\<rparr>,
         msgTimes := (msgTimes ptp)\<lparr>remainingHops := msti_remainingHops m\<rparr>\<rparr>"

text \<open>The comparison of the message with the port's priority vector, clauses a) to d).\<close>

definition classify_info :: "bool \<Rightarrow> bool \<Rightarrow> per_tree_port_t \<Rightarrow> port_info_t" where
  "classify_info roleIsDesignated cist ptp =
    (let mPri = msgPriority ptp; mTimes = msgTimes ptp;
         msg_Better_port = (\<not> betterorsamePriority (portPriority ptp) mPri 0 0 cist) in
     if roleIsDesignated then
       (if msg_Better_port
           \<or> (mac_address (DesignatedBridgeID mPri)
                = mac_address (DesignatedBridgeID (portPriority ptp))
              \<and> (DesignatedPortID mPri XOR DesignatedPortID (portPriority ptp)) AND 0x0FFF = 0)
        then SuperiorDesignatedInfo
        else
          (let same = samePriorityAndTimers mPri (portPriority ptp) mTimes (portTimes ptp) cist in
           if \<not> same \<and> betterorsamePriority mPri (portPriority ptp) 0 0 cist
           then SuperiorDesignatedInfo
           else if same \<and> infoIs ptp = ioReceived then RepeatedDesignatedInfo
           else InferiorDesignatedInfo))
     else if \<not> msg_Better_port then InferiorRootAlternateInfo
     else OtherInfo)"

definition rcvInfo :: "bridge_t \<Rightarrow> nat \<Rightarrow> port_t \<Rightarrow> port_info_t \<times> port_t" where
  "rcvInfo br k prt =
    (let b = rcvdBpduData prt in
     if bpduType b = bpduTypeTCN then
       (OtherInfo, map_ptps (\<lambda>x. x\<lparr>rcvdTc := True\<rparr>) (prt\<lparr>rcvdTcn := True\<rparr>))
     else if MSTID (ptp_of prt k) = 0 then
       (case cist_msg_role b of
          None \<Rightarrow> (OtherInfo, prt)
        | Some d \<Rightarrow>
            (let prt' = upd_ptp k (read_cist_msg br b) prt
             in (classify_info d True (ptp_of prt' k), prt')))
     else if protocolVersion b < protoMSTP then (OtherInfo, prt)
     else
       (case msti_msg_role (rcvd_msti prt k) of
          None \<Rightarrow> (OtherInfo, prt)
        | Some d \<Rightarrow>
            (let prt' = upd_ptp k (read_msti_msg b (rcvd_msti prt k)) prt
             in (classify_info d False (ptp_of prt' k), prt'))))"

subsection \<open>Recording a message\<close>

definition recordAgreement :: "bridge_t \<Rightarrow> nat \<Rightarrow> port_t \<Rightarrow> port_t" where
  "recordAgreement br k prt =
    (let b = rcvdBpduData prt in
     if MSTID (ptp_of prt k) = 0 then
       (let prt1 = upd_ptp k (\<lambda>x.
              if rstpVersion br \<and> operPointToPointMAC prt \<and> has_flag (flags b) offsetAgreement
              then x\<lparr>agreed := True, proposing := False\<rparr> else x\<lparr>agreed := False\<rparr>) prt;
            cist_agreed = agreed (ptp_of prt1 k); cist_proposing = proposing (ptp_of prt1 k)
        in if \<not> rcvdInternal prt
           then map_ptps_after k
                  (\<lambda>x. x\<lparr>agreed := cist_agreed, proposing := cist_proposing\<rparr>) prt1
           else prt1)
     else
       (let cist = cist_of prt in
        if operPointToPointMAC prt \<and> cistRootID b = RootID (portPriority cist)
           \<and> cistExtRootPathCost b = ExtRootPathCost (portPriority cist)
           \<and> cistRRootID b = RRootID (portPriority cist)
           \<and> has_flag (msti_flags (rcvd_msti prt k)) offsetAgreement
        then upd_ptp k (\<lambda>x. x\<lparr>agreed := True, proposing := False\<rparr>) prt
        else upd_ptp k (\<lambda>x. x\<lparr>agreed := False\<rparr>) prt))"

definition recordDispute :: "nat \<Rightarrow> port_t \<Rightarrow> port_t" where
  "recordDispute k prt =
    (let f = (\<lambda>x. x\<lparr>disputed := True, agreed := False\<rparr>) in
     if MSTID (ptp_of prt k) = 0 then
       (if has_flag (flags (rcvdBpduData prt)) offsetLearnig then
          (let prt1 = upd_ptp k f prt
           in if \<not> rcvdInternal prt then map_ptps_after k f prt1 else prt1)
        else prt)
     else if has_flag (msti_flags (rcvd_msti prt k)) offsetLearnig then upd_ptp k f prt
     else prt)"

definition recordMastered :: "nat \<Rightarrow> port_t \<Rightarrow> port_t" where
  "recordMastered k prt =
    (if MSTID (ptp_of prt k) = 0 then
       (if \<not> rcvdInternal prt then map_ptps_after k (\<lambda>x. x\<lparr>mastered := False\<rparr>) prt else prt)
     else upd_ptp k (\<lambda>x. x\<lparr>mastered := operPointToPointMAC prt
                         \<and> has_flag (msti_flags (rcvd_msti prt k)) offsetMaster\<rparr>) prt)"

definition recordPriority :: "nat \<Rightarrow> port_t \<Rightarrow> port_t" where
  "recordPriority k prt = upd_ptp k (\<lambda>x. x\<lparr>portPriority := msgPriority x\<rparr>) prt"

definition recordProposal :: "nat \<Rightarrow> port_t \<Rightarrow> port_t" where
  "recordProposal k prt =
    (if MSTID (ptp_of prt k) = 0 then
       (let prt1 = (if has_flag (flags (rcvdBpduData prt)) offsetProposal
                    then upd_ptp k (\<lambda>x. x\<lparr>proposed := True\<rparr>) prt else prt);
            cist_proposed = proposed (ptp_of prt1 k)
        in if \<not> rcvdInternal prt
           then map_ptps_after k (\<lambda>x. x\<lparr>proposed := cist_proposed\<rparr>) prt1 else prt1)
     else if has_flag (msti_flags (rcvd_msti prt k)) offsetProposal
     then upd_ptp k (\<lambda>x. x\<lparr>proposed := True\<rparr>) prt
     else prt)"

definition recordTimes :: "nat \<Rightarrow> port_t \<Rightarrow> port_t" where
  "recordTimes k prt =
     upd_ptp k (\<lambda>x. x\<lparr>portTimes := (msgTimes x)\<lparr>Hello_Time := Hello_Time (portTimes x)\<rparr>\<rparr>) prt"

subsection \<open>Flushing\<close>

definition set_fdbFlush :: "bridge_t \<Rightarrow> nat \<Rightarrow> port_t \<Rightarrow> port_t" where
  "set_fdbFlush br k prt =
    (if operEdge prt \<or> deleted prt then upd_ptp k (\<lambda>x. x\<lparr>fdbFlush := False\<rparr>) prt
     else if rstpVersion br then
       upd_ptp k (\<lambda>x. x\<lparr>calledFromFlushRoutine := False\<rparr>)
         (MSTP_OUT_flush_all_fids k
           (upd_ptp k (\<lambda>x. x\<lparr>fdbFlush := True, calledFromFlushRoutine := True\<rparr>) prt))
     else
       (let FwdDelay = ucast (Forward_Delay (designatedTimes (cist_of prt)));
            prt1 = (MSTP_OUT_set_ageing_time FwdDelay prt)\<lparr>rapidAgeingWhile := FwdDelay\<rparr>
        in upd_ptp k (\<lambda>x. x\<lparr>fdbFlush := False\<rparr>) prt1))"

subsection \<open>Distributing a received BPDU to the trees\<close>

text \<open>The index of the first MSTI message for a tree, among the \<open>n\<close> the BPDU conveys.\<close>

fun find_msti :: "u16 \<Rightarrow> msti_configuration_message_t list \<Rightarrow> int \<Rightarrow> nat \<Rightarrow> nat option" where
  "find_msti mstid [] n i = None"
| "find_msti mstid (m # ms) n i =
     (if int i < n then
        (if priority (mstiRRootID m) AND 0x0FFF = mstid then Some i
         else find_msti mstid ms n (Suc i))
      else None)"

definition setRcvdMsgs :: "port_t \<Rightarrow> port_t" where
  "setRcvdMsgs prt =
    (let prt1 = upd_ptp 0 (\<lambda>x. x\<lparr>rcvdMsg := True\<rparr>) prt in
     if rcvdInternal prt then
       map_ptps_after 0 (\<lambda>x.
         case find_msti (MSTID x) (mstConfiguration (rcvdBpduData prt)) (rcvdBpduNumOfMstis prt) 0 of
           None \<Rightarrow> x
         | Some i \<Rightarrow> x\<lparr>rcvdMsg := True, rcvdMstiConfig := Some i\<rparr>) prt1
     else prt1)"

subsection \<open>Tree-wide flags\<close>

definition setReRootTree :: "nat \<Rightarrow> bridge_t \<Rightarrow> bridge_t" where
  "setReRootTree k br = map_tree_ptps k (\<lambda>x. x\<lparr>reRoot := True\<rparr>) br"

definition setSelectedTree :: "nat \<Rightarrow> bridge_t \<Rightarrow> bridge_t" where
  "setSelectedTree k br = map_tree_ptps k (\<lambda>x. x\<lparr>selected := True\<rparr>) br"

definition setSyncTree :: "nat \<Rightarrow> bridge_t \<Rightarrow> bridge_t" where
  "setSyncTree k br = map_tree_ptps k (\<lambda>x. x\<lparr>sync := True\<rparr>) br"

definition setTcFlags :: "nat \<Rightarrow> port_t \<Rightarrow> port_t" where
  "setTcFlags k prt =
    (if MSTID (ptp_of prt k) = 0 then
       (let cistFlags = flags (rcvdBpduData prt);
            prt1 = (if has_flag cistFlags offsetTcAck then prt\<lparr>rcvdTcAck := True\<rparr> else prt)
        in if has_flag cistFlags offsetTc then
             (let prt2 = upd_ptp k (\<lambda>x. x\<lparr>rcvdTc := True\<rparr>) prt1
              in if \<not> rcvdInternal prt
                 then map_ptps_after k (\<lambda>x. x\<lparr>proposed := True\<rparr>) prt2 else prt2)
           else prt1)
     else if has_flag (msti_flags (rcvd_msti prt k)) offsetTc
     then upd_ptp k (\<lambda>x. x\<lparr>rcvdTc := True\<rparr>) prt
     else prt)"

text \<open>\<^verbatim>\<open>ptp != ptp_1\<close>: every port of the tree but the port \<open>p\<close> itself.\<close>

definition setTcPropTree :: "nat \<Rightarrow> nat \<Rightarrow> bridge_t \<Rightarrow> bridge_t" where
  "setTcPropTree p k br =
    (if restrictedTcn (port_at br p) then br
     else upd_ptp_at p k (\<lambda>x. x\<lparr>tcProp := tcProp (ptp_at br p k)\<rparr>)
            (map_tree_ptps k (\<lambda>x. x\<lparr>tcProp := True\<rparr>) br))"

definition syncMaster :: "bridge_t \<Rightarrow> bridge_t" where
  "syncMaster br =
     ports_update (map (\<lambda>prt.
       if infoInternal prt
       then map_ptps_after 0
              (\<lambda>x. x\<lparr>agree := False, agreed := False, synced := False, sync := True\<rparr>) prt
       else prt)) br"

subsection \<open>Versions and timers\<close>

definition updtBPDUVersion :: "port_t \<Rightarrow> port_t" where
  "updtBPDUVersion prt =
    (if protoRSTP \<le> protocolVersion (rcvdBpduData prt) then prt\<lparr>rcvdRSTP := True\<rparr>
     else prt\<lparr>rcvdSTP := True\<rparr>)"

definition updtRcvdInfoWhile :: "nat \<Rightarrow> port_t \<Rightarrow> port_t" where
  "updtRcvdInfoWhile k prt =
    (let t = portTimes (cist_of prt);
         message_age = ucast (Message_Age t) :: u32; max_age = ucast (Max_Age t) :: u32;
         hello = ucast (Hello_Time t) :: u32
     in if (\<not> rcvdInternal prt \<and> message_age + 1 \<le> max_age)
           \<or> (rcvdInternal prt \<and> 1 < remainingHops (portTimes (ptp_of prt k)))
        then upd_ptp k (\<lambda>x. x\<lparr>rcvdInfoWhile := 3 * hello\<rparr>) prt
        else upd_ptp k (\<lambda>x. x\<lparr>rcvdInfoWhile := 0\<rparr>) prt)"

definition updtbrAssuRcvdInfoWhile :: "port_t \<Rightarrow> port_t" where
  "updtbrAssuRcvdInfoWhile prt =
     prt\<lparr>brAssuRcvdInfoWhile := 3 * ucast (Hello_Time (portTimes (cist_of prt)))\<rparr>"

definition updtRolesDisabledTree :: "nat \<Rightarrow> bridge_t \<Rightarrow> bridge_t" where
  "updtRolesDisabledTree k br = map_tree_ptps k (\<lambda>x. x\<lparr>selectedRole := roleDisabled\<rparr>) br"

definition reselectMSTIs :: "port_t \<Rightarrow> port_t" where
  "reselectMSTIs prt = map_ptps_after 0 (\<lambda>x. x\<lparr>reselect := True\<rparr>) prt"

end
