(* ===== verification/MSTP_Transmit.thy ===== *)
theory MSTP_Transmit
  imports MSTP_Procedures
begin

section \<open>Building and sending BPDUs (13.26.19, 13.26.20, 13.26.a)\<close>

text \<open>
  The structure \<^verbatim>\<open>bpdu_t b\<close> starts with indeterminate contents; \<open>blank\<close> is an arbitrary
  such structure, and only the first \<open>size\<close> octets, all of which are assigned, are sent. The
  transmit procedures start from \<open>blank_bpdu\<close>; what is sent does not depend on it.
\<close>

text \<open>The assignments common to the Configuration, RST and MST BPDU.\<close>

definition put_cist_common ::
  "per_tree_port_t \<Rightarrow> bridge_identifier_t \<Rightarrow> bpdu_t \<Rightarrow> bpdu_t" where
  "put_cist_common cist rroot b =
    b\<lparr>cistRootID := RootID (designatedPriority cist),
      cistExtRootPathCost := ExtRootPathCost (designatedPriority cist),
      cistRRootID := rroot,
      cistPortID := DesignatedPortID (designatedPriority cist),
      MessageAge := (Message_Age (designatedTimes cist), 0),
      MaxAge := (Max_Age (designatedTimes cist), 0),
      HelloTime := (Hello_Time (portTimes cist), 0),
      ForwardDelay := (Forward_Delay (designatedTimes cist), 0)\<rparr>"

definition cannot_transmit :: "port_t \<Rightarrow> bool" where
  "cannot_transmit prt \<longleftrightarrow>
     deleted prt \<or> role (cist_of prt) = roleDisabled \<or> dontTxmtBpdu prt"

definition config_bpdu :: "bpdu_t \<Rightarrow> port_t \<Rightarrow> bpdu_t" where
  "config_bpdu blank prt =
    (let cist = cist_of prt in
     put_cist_common cist (DesignatedBridgeID (designatedPriority cist))
       (blank\<lparr>protocolIdentifier := 0, protocolVersion := protoSTP, bpduType := bpduTypeConfig,
              flags := or_flag offsetTcAck (tcAck prt)
                         (if tcWhile cist \<noteq> 0 then push_bit offsetTc 1 else 0)\<rparr>))"

definition txConfig :: "port_t \<Rightarrow> port_t" where
  "txConfig prt =
    (if cannot_transmit prt then prt
     else MSTP_OUT_tx_bpdu (config_bpdu blank_bpdu prt) CONFIG_BPDU_SIZE prt)"

definition message_role_from_port_role :: "per_tree_port_t \<Rightarrow> u8" where
  "message_role_from_port_role ptp =
    (case role ptp of
       roleRoot \<Rightarrow> encodedRoleRoot
     | roleDesignated \<Rightarrow> encodedRoleDesignated
     | roleAlternate \<Rightarrow> encodedRoleAlternateBackup
     | roleBackup \<Rightarrow> encodedRoleAlternateBackup
     | roleMaster \<Rightarrow> encodedRoleMaster
     | roleDisabled \<Rightarrow> encodedRoleAlternateBackup)"

text \<open>The flags the CIST part of an RST BPDU and an MSTI message have in common.\<close>

definition tree_flags :: "per_tree_port_t \<Rightarrow> u8" where
  "tree_flags ptp =
     or_flag offsetAgreement (agree ptp)
      (or_flag offsetForwarding (forwarding ptp)
        (or_flag offsetLearnig (learning ptp)
          (or_flag offsetProposal (proposing ptp)
            (or_flag offsetTc (tcWhile ptp \<noteq> 0)
              (BPDU_FLAGS_ROLE_SET (message_role_from_port_role ptp))))))"

definition msti_message :: "per_tree_port_t \<Rightarrow> msti_configuration_message_t" where
  "msti_message ptp =
    \<lparr>msti_flags = or_flag offsetMaster (master ptp) (tree_flags ptp),
     mstiRRootID = RRootID (designatedPriority ptp),
     mstiIntRootPathCost = IntRootPathCost (designatedPriority ptp),
     bridgeIdentifierPriority =
       GET_PRIORITY_FROM_IDENTIFIER (priority (DesignatedBridgeID (designatedPriority ptp))),
     portIdentifierPriority =
       GET_PRIORITY_FROM_IDENTIFIER (DesignatedPortID (designatedPriority ptp)),
     msti_remainingHops = remainingHops (designatedTimes ptp)\<rparr>"

definition rst_bpdu :: "bpdu_t \<Rightarrow> port_t \<Rightarrow> bpdu_t" where
  "rst_bpdu blank prt =
    (let cist = cist_of prt in
     put_cist_common cist (RRootID (designatedPriority cist))
       (blank\<lparr>protocolIdentifier := 0, bpduType := bpduTypeRST, flags := tree_flags cist,
              version1_len := 0\<rparr>))"

text \<open>
  The MSTI messages fill the slots of \<^verbatim>\<open>b.mstConfiguration\<close> from the first on; the slots
  after them keep their indeterminate contents and are not sent.
\<close>

definition mst_bpdu :: "bridge_t \<Rightarrow> bpdu_t \<Rightarrow> port_t \<Rightarrow> bpdu_t" where
  "mst_bpdu br blank prt =
    (let cist = cist_of prt;
         msgs = map msti_message (drop 1 (port_trees prt))
     in (rst_bpdu blank prt)\<lparr>protocolVersion := protoMSTP,
          mstConfigurationIdentifier := MstConfigId br,
          cistIntRootPathCost := IntRootPathCost (designatedPriority cist),
          cistBridgeID := DesignatedBridgeID (designatedPriority cist),
          cistRemainingHops := remainingHops (designatedTimes cist),
          mstConfiguration := msgs @ drop (length msgs) (mstConfiguration blank),
          version3_len :=
            of_int (MST_BPDU_VER3LEN_WO_MSTI_MSGS + sizeof_msti_msg * int (length msgs))\<rparr>)"

definition txMstp :: "bridge_t \<Rightarrow> port_t \<Rightarrow> port_t" where
  "txMstp br prt =
    (if cannot_transmit prt then prt
     else if ForceProtocolVersion br < protoMSTP then
       MSTP_OUT_tx_bpdu ((rst_bpdu blank_bpdu prt)\<lparr>protocolVersion := protoRSTP\<rparr>) RST_BPDU_SIZE prt
     else
       MSTP_OUT_tx_bpdu (mst_bpdu br blank_bpdu prt)
         (MST_BPDU_SIZE_WO_MSTI_MSGS
            + sizeof_msti_msg * int (length (drop 1 (port_trees prt)))) prt)"

definition txTcn :: "port_t \<Rightarrow> port_t" where
  "txTcn prt =
    (if cannot_transmit prt then prt
     else MSTP_OUT_tx_bpdu
            (blank_bpdu\<lparr>protocolIdentifier := 0, protocolVersion := protoSTP,
              bpduType := bpduTypeTCN\<rparr>)
            TCN_BPDU_SIZE prt)"

end
