(* ===== verification/MSTP_PortMachines.thy ===== *)
theory MSTP_PortMachines
  imports MSTP_Transmit
begin

section \<open>The per-port state machines (13.28 to 13.31)\<close>

text \<open>
  Port Receive, Port Protocol Migration, Bridge Detection and Port Transmit. Each
  \<open>X_to_Y\<close> is the entry of state \<open>Y\<close> up to its trailing call of \<open>X_run\<close>; \<open>X_step\<close> is
  the switch of \<open>X_run\<close>, with \<^const>\<open>Enter\<close> for an entry function that calls
  \<open>X_run\<close> again and \<^const>\<open>Last\<close> for one that does not; \<open>X_run\<close> adds the dry run.
\<close>

subsection \<open>13.28 Port Receive\<close>

text \<open>\<^verbatim>\<open>PRSM_to_DISCARD(prt, true)\<close>: would the entry change anything?\<close>

definition PRSM_to_DISCARD_dry :: "bridge_t \<Rightarrow> port_t \<Rightarrow> bool" where
  "PRSM_to_DISCARD_dry br prt \<longleftrightarrow>
     PRSM_state prt \<noteq> PRSM_DISCARD \<or> rcvdBpdu prt \<or> rcvdRSTP prt \<or> rcvdSTP prt
     \<or> edgeDelayWhile prt \<noteq> Migrate_Time br \<or> list_ex rcvdMsg (port_trees prt)"

definition PRSM_to_DISCARD :: "bridge_t \<Rightarrow> port_t \<Rightarrow> port_t" where
  "PRSM_to_DISCARD br prt =
     (clearAllRcvdMsgs (prt\<lparr>PRSM_state := PRSM_DISCARD, rcvdBpdu := False, rcvdRSTP := False,
        rcvdSTP := False\<rparr>))\<lparr>edgeDelayWhile := Migrate_Time br\<rparr>"

definition PRSM_to_RECEIVE :: "bridge_t \<Rightarrow> port_t \<Rightarrow> port_t" where
  "PRSM_to_RECEIVE br prt =
    (let prt1 = updtBPDUVersion (prt\<lparr>PRSM_state := PRSM_RECEIVE\<rparr>);
         prt2 = setRcvdMsgs (prt1\<lparr>rcvdInternal := fromSameRegion br prt1\<rparr>)
     in prt2\<lparr>operEdge := False, rcvdBpdu := False, edgeDelayWhile := Migrate_Time br\<rparr>)"

definition PRSM_run :: "bridge_t \<Rightarrow> port_t \<Rightarrow> bool \<Rightarrow> bool \<times> port_t" where
  "PRSM_run br prt dry_run =
    (if (rcvdBpdu prt \<or> edgeDelayWhile prt \<noteq> Migrate_Time br) \<and> \<not> portEnabled prt then
       (if dry_run then (PRSM_to_DISCARD_dry br prt, prt) else (False, PRSM_to_DISCARD br prt))
     else case PRSM_state prt of
       PRSM_DISCARD \<Rightarrow>
         (if rcvdBpdu prt \<and> portEnabled prt then
            (if dry_run then (True, prt) else (False, PRSM_to_RECEIVE br prt))
          else (False, prt))
     | PRSM_RECEIVE \<Rightarrow>
         (let rcvdAnyMsg = list_ex rcvdMsg (port_trees prt) in
          if rcvdBpdu prt \<and> portEnabled prt \<and> \<not> rcvdAnyMsg then
            (if dry_run then (True, prt) else (False, PRSM_to_RECEIVE br prt))
          else (False, prt)))"

subsection \<open>13.29 Port Protocol Migration\<close>

definition PPMSM_to_CHECKING_RSTP :: "bridge_t \<Rightarrow> port_t \<Rightarrow> port_t" where
  "PPMSM_to_CHECKING_RSTP br prt =
     prt\<lparr>PPMSM_state := PPMSM_CHECKING_RSTP, mcheck := False, sendRSTP := rstpVersion br,
         mdelayWhile := Migrate_Time br\<rparr>"

definition PPMSM_to_SELECTING_STP :: "bridge_t \<Rightarrow> port_t \<Rightarrow> port_t" where
  "PPMSM_to_SELECTING_STP br prt =
     prt\<lparr>PPMSM_state := PPMSM_SELECTING_STP, sendRSTP := False, mdelayWhile := Migrate_Time br\<rparr>"

definition PPMSM_to_SENSING :: "port_t \<Rightarrow> port_t" where
  "PPMSM_to_SENSING prt =
     prt\<lparr>PPMSM_state := PPMSM_SENSING, rcvdRSTP := False, rcvdSTP := False\<rparr>"

definition PPMSM_step :: "bridge_t \<Rightarrow> port_t \<Rightarrow> port_t sm" where
  "PPMSM_step br prt =
    (case PPMSM_state prt of
       PPMSM_CHECKING_RSTP \<Rightarrow>
         (if mdelayWhile prt \<noteq> Migrate_Time br \<and> \<not> portEnabled prt
          then Last (PPMSM_to_CHECKING_RSTP br prt)
          else if mdelayWhile prt = 0 then Enter (PPMSM_to_SENSING prt)
          else Stay)
     | PPMSM_SELECTING_STP \<Rightarrow>
         (if mdelayWhile prt = 0 \<or> \<not> portEnabled prt \<or> mcheck prt
          then Enter (PPMSM_to_SENSING prt) else Stay)
     | PPMSM_SENSING \<Rightarrow>
         (if \<not> portEnabled prt \<or> mcheck prt
             \<or> (rstpVersion br \<and> \<not> sendRSTP prt \<and> rcvdRSTP prt)
          then Last (PPMSM_to_CHECKING_RSTP br prt)
          else if sendRSTP prt \<and> rcvdSTP prt then Enter (PPMSM_to_SELECTING_STP br prt)
          else Stay))"

text \<open>The dry run: what the branches taken with \<^verbatim>\<open>dry_run\<close> return.\<close>

definition PPMSM_run_dry :: "bridge_t \<Rightarrow> port_t \<Rightarrow> bool" where
  "PPMSM_run_dry br prt =
    (case PPMSM_state prt of
       PPMSM_CHECKING_RSTP \<Rightarrow>
         (if mdelayWhile prt \<noteq> Migrate_Time br \<and> \<not> portEnabled prt
          then True
          else if mdelayWhile prt = 0 then True
          else False)
     | PPMSM_SELECTING_STP \<Rightarrow>
         (if mdelayWhile prt = 0 \<or> \<not> portEnabled prt \<or> mcheck prt
          then True else False)
     | PPMSM_SENSING \<Rightarrow>
         (if \<not> portEnabled prt \<or> mcheck prt
             \<or> (rstpVersion br \<and> \<not> sendRSTP prt \<and> rcvdRSTP prt)
          then True
          else if sendRSTP prt \<and> rcvdSTP prt then True
          else False))"

definition PPMSM_run :: "bridge_t \<Rightarrow> port_t \<Rightarrow> bool \<Rightarrow> (bool \<times> port_t) option" where
  "PPMSM_run br prt dry_run = sm_exec (PPMSM_step br) (PPMSM_run_dry br) prt dry_run"

lemma PPMSM_dry_fires [simp]: "PPMSM_run_dry br prt = fires (PPMSM_step br prt)"
  unfolding PPMSM_run_dry_def PPMSM_step_def by (cases "PPMSM_state prt") (simp_all del: not_fires_iff)

subsection \<open>13.30 Bridge Detection\<close>

definition BDSM_to_EDGE :: "port_t \<Rightarrow> port_t" where
  "BDSM_to_EDGE prt = prt\<lparr>BDSM_state := BDSM_EDGE, operEdge := True\<rparr>"

definition BDSM_to_NOT_EDGE :: "port_t \<Rightarrow> port_t" where
  "BDSM_to_NOT_EDGE prt = prt\<lparr>BDSM_state := BDSM_NOT_EDGE, operEdge := False\<rparr>"

definition BDSM_begin :: "port_t \<Rightarrow> port_t" where
  "BDSM_begin prt = (if AdminEdgePort prt then BDSM_to_EDGE prt else BDSM_to_NOT_EDGE prt)"

definition BDSM_step :: "port_t \<Rightarrow> port_t sm" where
  "BDSM_step prt =
    (case BDSM_state prt of
       BDSM_EDGE \<Rightarrow>
         (if (\<not> portEnabled prt \<or> \<not> AutoEdge prt) \<and> \<not> AdminEdgePort prt \<or> \<not> operEdge prt
          then Last (BDSM_to_NOT_EDGE prt) else Stay)
     | BDSM_NOT_EDGE \<Rightarrow>
         (if \<not> portEnabled prt \<and> AdminEdgePort prt
             \<or> edgeDelayWhile prt = 0 \<and> AutoEdge prt \<and> sendRSTP prt \<and> proposing (cist_of prt)
          then Last (BDSM_to_EDGE prt) else Stay))"

definition BDSM_run_dry :: "port_t \<Rightarrow> bool" where
  "BDSM_run_dry prt =
    (case BDSM_state prt of
       BDSM_EDGE \<Rightarrow>
         (if (\<not> portEnabled prt \<or> \<not> AutoEdge prt) \<and> \<not> AdminEdgePort prt \<or> \<not> operEdge prt
          then True else False)
     | BDSM_NOT_EDGE \<Rightarrow>
         (if \<not> portEnabled prt \<and> AdminEdgePort prt
             \<or> edgeDelayWhile prt = 0 \<and> AutoEdge prt \<and> sendRSTP prt \<and> proposing (cist_of prt)
          then True else False))"

definition BDSM_run :: "port_t \<Rightarrow> bool \<Rightarrow> (bool \<times> port_t) option" where
  "BDSM_run prt dry_run = sm_exec BDSM_step BDSM_run_dry prt dry_run"

lemma BDSM_dry_fires [simp]: "BDSM_run_dry prt = fires (BDSM_step prt)"
  unfolding BDSM_run_dry_def BDSM_step_def
  by (cases "BDSM_state prt") (simp_all only: if_distrib [of fires] fires.simps BDSM_states_t.case)

subsection \<open>13.31 Port Transmit\<close>

definition PTSM_to_TRANSMIT_INIT_dry :: "port_t \<Rightarrow> bool" where
  "PTSM_to_TRANSMIT_INIT_dry prt \<longleftrightarrow>
     PTSM_state prt \<noteq> PTSM_TRANSMIT_INIT \<or> \<not> newInfo prt \<or> \<not> newInfoMsti prt \<or> txCount prt \<noteq> 0"

definition PTSM_to_TRANSMIT_INIT :: "port_t \<Rightarrow> port_t" where
  "PTSM_to_TRANSMIT_INIT prt =
     prt\<lparr>PTSM_state := PTSM_TRANSMIT_INIT, newInfo := True, newInfoMsti := True, txCount := 0\<rparr>"

definition PTSM_to_TRANSMIT_CONFIG :: "port_t \<Rightarrow> port_t" where
  "PTSM_to_TRANSMIT_CONFIG prt =
    (let prt1 = txConfig (prt\<lparr>PTSM_state := PTSM_TRANSMIT_CONFIG, newInfo := False\<rparr>)
     in prt1\<lparr>txCount := txCount prt1 + 1, tcAck := False\<rparr>)"

definition PTSM_to_TRANSMIT_TCN :: "port_t \<Rightarrow> port_t" where
  "PTSM_to_TRANSMIT_TCN prt =
    (let prt1 = txTcn (prt\<lparr>PTSM_state := PTSM_TRANSMIT_TCN, newInfo := False\<rparr>)
     in prt1\<lparr>txCount := txCount prt1 + 1\<rparr>)"

definition PTSM_to_TRANSMIT_RSTP :: "bridge_t \<Rightarrow> port_t \<Rightarrow> port_t" where
  "PTSM_to_TRANSMIT_RSTP br prt =
    (let prt1 = txMstp br (prt\<lparr>PTSM_state := PTSM_TRANSMIT_RSTP, newInfo := False,
                               newInfoMsti := False\<rparr>)
     in prt1\<lparr>txCount := txCount prt1 + 1, tcAck := False\<rparr>)"

definition designated_or_tc_root :: "per_tree_port_t \<Rightarrow> bool" where
  "designated_or_tc_root ptp \<longleftrightarrow>
     role ptp = roleDesignated \<or> (role ptp = roleRoot \<and> tcWhile ptp \<noteq> 0)"

definition PTSM_to_TRANSMIT_PERIODIC :: "port_t \<Rightarrow> port_t" where
  "PTSM_to_TRANSMIT_PERIODIC prt =
     prt\<lparr>PTSM_state := PTSM_TRANSMIT_PERIODIC,
         newInfo := newInfo prt \<or> designated_or_tc_root (cist_of prt),
         newInfoMsti := newInfoMsti prt
           \<or> list_ex designated_or_tc_root (drop 1 (port_trees prt))\<rparr>"

definition PTSM_to_IDLE :: "port_t \<Rightarrow> port_t" where
  "PTSM_to_IDLE prt =
     prt\<lparr>PTSM_state := PTSM_IDLE, helloWhen := ucast (Hello_Time (portTimes (cist_of prt)))\<rparr>"

text \<open>The conditions of state \<^verbatim>\<open>PTSM_IDLE\<close>.\<close>

definition PTSM_idle_step :: "bridge_t \<Rightarrow> port_t \<Rightarrow> port_t sm" where
  "PTSM_idle_step br prt =
    (let cist = cist_of prt; mstis = drop 1 (port_trees prt);
         mstiMasterPort = list_ex (\<lambda>ptp. role ptp = roleMaster) mstis
     in if list_ex (\<lambda>ptp. \<not> selected ptp \<or> updtInfo ptp) (cist # mstis) then Stay
        else if helloWhen prt = 0 then Enter (PTSM_to_TRANSMIT_PERIODIC prt)
        else if \<not> txCount prt < Transmit_Hold_Count br then Stay
        else if bpduFilterPort prt then Stay
        else if sendRSTP prt then
          (if newInfo prt \<or> (newInfoMsti prt \<and> \<not> mstiMasterPort) \<or> assurancePort prt
           then Enter (PTSM_to_TRANSMIT_RSTP br prt) else Stay)
        else if newInfo prt \<and> role cist = roleDesignated then Enter (PTSM_to_TRANSMIT_CONFIG prt)
        else if newInfo prt \<and> role cist = roleRoot then Enter (PTSM_to_TRANSMIT_TCN prt)
        else Stay)"

definition PTSM_step :: "bridge_t \<Rightarrow> port_t \<Rightarrow> port_t sm" where
  "PTSM_step br prt =
    (if \<not> portEnabled prt then Last (PTSM_to_TRANSMIT_INIT prt)
     else if PTSM_state prt = PTSM_IDLE then PTSM_idle_step br prt
     else Enter (PTSM_to_IDLE prt))"

definition PTSM_idle_dry :: "bridge_t \<Rightarrow> port_t \<Rightarrow> bool" where
  "PTSM_idle_dry br prt =
    (let cist = cist_of prt; mstis = drop 1 (port_trees prt);
         mstiMasterPort = list_ex (\<lambda>ptp. role ptp = roleMaster) mstis
     in if list_ex (\<lambda>ptp. \<not> selected ptp \<or> updtInfo ptp) (cist # mstis) then False
        else if helloWhen prt = 0 then True
        else if \<not> txCount prt < Transmit_Hold_Count br then False
        else if bpduFilterPort prt then False
        else if sendRSTP prt then
          (if newInfo prt \<or> (newInfoMsti prt \<and> \<not> mstiMasterPort) \<or> assurancePort prt
           then True else False)
        else if newInfo prt \<and> role cist = roleDesignated then True
        else if newInfo prt \<and> role cist = roleRoot then True
        else False)"

definition PTSM_run_dry :: "bridge_t \<Rightarrow> port_t \<Rightarrow> bool" where
  "PTSM_run_dry br prt =
    (if \<not> portEnabled prt then PTSM_to_TRANSMIT_INIT_dry prt
     else if PTSM_state prt = PTSM_IDLE then PTSM_idle_dry br prt
     else True)"

definition PTSM_run :: "bridge_t \<Rightarrow> port_t \<Rightarrow> bool \<Rightarrow> (bool \<times> port_t) option" where
  "PTSM_run br prt dry_run = sm_exec (PTSM_step br) (PTSM_run_dry br) prt dry_run"

text \<open>On a port that is down the dry run asks whether the entry would change anything.\<close>

lemma PTSM_dry_fires [simp]: "portEnabled prt \<Longrightarrow> PTSM_run_dry br prt = fires (PTSM_step br prt)"
  by (simp add: PTSM_run_dry_def PTSM_step_def PTSM_idle_dry_def PTSM_idle_step_def Let_def)

lemma PTSM_dry_disabled [simp]:
  "\<not> portEnabled prt \<Longrightarrow> PTSM_run_dry br prt = PTSM_to_TRANSMIT_INIT_dry prt"
  by (simp add: PTSM_run_dry_def)

subsection \<open>Facts about Port Receive\<close>

lemma list_ex_clearAllRcvdMsgs: "list_ex rcvdMsg (port_trees (clearAllRcvdMsgs prt)) = False"
  by (simp add: clearAllRcvdMsgs_def list_ex_iff)

lemma clearAllRcvdMsgs_id: "\<not> list_ex rcvdMsg (port_trees prt) \<Longrightarrow> clearAllRcvdMsgs prt = prt"
  by (auto simp: clearAllRcvdMsgs_def map_ptps_def list_ex_iff intro!: port_t.equality map_idI)

text \<open>
  The entry would change something exactly when it changes something: the dry run of
  \<open>PRSM_to_DISCARD\<close> is the question whether the port is a fixed point of the entry.
\<close>

lemma PRSM_to_DISCARD_dry_False: "\<not> PRSM_to_DISCARD_dry br prt \<Longrightarrow> PRSM_to_DISCARD br prt = prt"
  by (auto simp: PRSM_to_DISCARD_dry_def PRSM_to_DISCARD_def clearAllRcvdMsgs_id)

lemma PRSM_dry_sound: "PRSM_run br prt True = (False, t) \<Longrightarrow> t = prt \<and> PRSM_run br prt False = (False, prt)"
  by (auto simp: PRSM_run_def PRSM_to_DISCARD_dry_False Let_def
      split: if_splits PRSM_states_t.splits)

lemma PRSM_to_DISCARD_fields [simp]:
  "rcvdBpdu (PRSM_to_DISCARD br prt) = False"
  "edgeDelayWhile (PRSM_to_DISCARD br prt) = Migrate_Time br"
  "portEnabled (PRSM_to_DISCARD br prt) = portEnabled prt"
  "PRSM_state (PRSM_to_DISCARD br prt) = PRSM_DISCARD"
  by (simp_all add: PRSM_to_DISCARD_def clearAllRcvdMsgs_def map_ptps_def)

lemma PRSM_to_RECEIVE_fields [simp]:
  "rcvdBpdu (PRSM_to_RECEIVE br prt) = False"
  "edgeDelayWhile (PRSM_to_RECEIVE br prt) = Migrate_Time br"
  "operEdge (PRSM_to_RECEIVE br prt) = False"
  by (simp_all add: PRSM_to_RECEIVE_def Let_def)

text \<open>
  The comment ``No need to run, no one condition will be met'' holds for both entries of the
  Port Receive machine: after one call of \<open>PRSM_run\<close> a second one finds nothing to do, and
  a received frame waits only while messages of the previous one are unread on some tree.
\<close>

theorem PRSM_run_quiescent:
  "case PRSM_run br prt False of (_, t) \<Rightarrow>
     PRSM_run br t True = (False, t)
     \<and> (rcvdBpdu t \<longrightarrow> portEnabled t \<and> PRSM_state t = PRSM_RECEIVE \<and> list_ex rcvdMsg (port_trees t))"
proof -
  have disc: "PRSM_run br (PRSM_to_DISCARD br prt) True = (False, PRSM_to_DISCARD br prt)"
    by (simp add: PRSM_run_def)
  have rec: "PRSM_run br (PRSM_to_RECEIVE br prt) True = (False, PRSM_to_RECEIVE br prt)"
    by (simp add: PRSM_run_def Let_def split: PRSM_states_t.split)
  show ?thesis
    using disc rec
    by (auto simp: PRSM_run_def [of br prt] Let_def split: PRSM_states_t.splits if_splits)
qed

text \<open>A second frame while the CIST message of the first is unread: it waits.\<close>

lemma PRSM_run_quiescent_witness:
  "let prt = zero_port\<lparr>portEnabled := True, rcvdBpdu := True, PRSM_state := PRSM_RECEIVE,
               port_trees := [zero_ptp\<lparr>rcvdMsg := True\<rparr>]\<rparr>
   in case PRSM_run zero_bridge prt False of (_, t) \<Rightarrow>
        rcvdBpdu t \<and> list_ex rcvdMsg (port_trees t) \<and> PRSM_run zero_bridge t True = (False, t)"
  using PRSM_run_quiescent [of zero_bridge "zero_port\<lparr>portEnabled := True, rcvdBpdu := True,
      PRSM_state := PRSM_RECEIVE, port_trees := [zero_ptp\<lparr>rcvdMsg := True\<rparr>]\<rparr>"]
  by (simp add: PRSM_run_def zero_ptp_def Let_def)

subsection \<open>Facts about Port Protocol Migration\<close>

definition PPMSM_mu :: "port_t \<Rightarrow> nat" where
  "PPMSM_mu prt = 2 * of_bool (sendRSTP prt) + of_bool (PPMSM_state prt \<noteq> PPMSM_SENSING)"

lemma PPMSM_step_migrate:
  assumes "Migrate_Time br \<noteq> 0"
  shows "PPMSM_step br prt = Last t \<Longrightarrow> PPMSM_step br t = Stay"
    and "PPMSM_step br prt = Enter t \<Longrightarrow> PPMSM_mu t < PPMSM_mu prt"
  using assms
  by (cases "PPMSM_state prt"; clarsimp simp: PPMSM_step_def PPMSM_mu_def PPMSM_to_CHECKING_RSTP_def
      PPMSM_to_SENSING_def PPMSM_to_SELECTING_STP_def split: if_split_asm)+

text \<open>The machine as an instance of the contract, for a bridge whose migration time is not 0.\<close>

interpretation ppmsm: sm_quiescent "PPMSM_step br" "\<lambda>_. Migrate_Time br \<noteq> 0" PPMSM_mu for br
  by unfold_locales (auto intro: PPMSM_step_migrate)

text \<open>
  With a nonzero migration time the Port Protocol Migration machine returns from every
  state and stops where no transition is enabled. A port that sends RSTP then is not
  remembering an unanswered STP frame, unless it is still in the start-up interval.
\<close>

theorem PPMSM_run_settles:
  assumes "Migrate_Time br \<noteq> 0"
  shows "\<exists>t. PPMSM_run br prt False = Some (False, t) \<and> PPMSM_run br t True = Some (False, t)
    \<and> (PPMSM_state t = PPMSM_SENSING \<longrightarrow> portEnabled t \<and> \<not> (sendRSTP t \<and> rcvdSTP t))"
proof -
  from assms obtain t where run: "sm_run (PPMSM_step br) prt = Some t"
    using ppmsm.run_returns [of br prt] by blast
  moreover from assms run have "PPMSM_step br t = Stay"
    using ppmsm.run_quiescent [of br prt t] by blast
  moreover from this have "PPMSM_state t = PPMSM_SENSING \<longrightarrow> portEnabled t \<and> \<not> (sendRSTP t \<and> rcvdSTP t)"
    by (auto simp: PPMSM_step_def split: if_splits)
  ultimately show ?thesis
    by (auto simp: PPMSM_run_def sm_exec_def)
qed

lemma PPMSM_run_settles_witness:
  "\<exists>t. PPMSM_run (zero_bridge\<lparr>Migrate_Time := 3\<rparr>) zero_port False = Some (False, t)"
  using PPMSM_run_settles [of "zero_bridge\<lparr>Migrate_Time := 3\<rparr>" zero_port] by auto

subsection \<open>Facts about Bridge Detection\<close>

text \<open>
  The machine never re-runs itself. A port taken for an edge has \<open>operEdge\<close> set, and the
  converse can fail only between the clearing of \<open>operEdge\<close> by a received frame and the next run.
\<close>

definition BDSM_stable :: "port_t \<Rightarrow> bool" where
  "BDSM_stable prt \<longleftrightarrow> edgeDelayWhile prt \<noteq> 0
     \<and> (portEnabled prt \<or> BDSM_state prt = BDSM_NOT_EDGE \<or> operEdge prt)"

lemma BDSM_step_Last:
  assumes "BDSM_step prt = Last t"
  shows "(operEdge t \<longleftrightarrow> BDSM_state t = BDSM_EDGE) \<and> portEnabled t = portEnabled prt
    \<and> edgeDelayWhile t = edgeDelayWhile prt
    \<and> (BDSM_stable prt \<longrightarrow> BDSM_stable t \<and> BDSM_step t = Stay \<and> (operEdge t \<longrightarrow> AdminEdgePort prt))"
  using assms
  by (cases "BDSM_state prt"; clarsimp simp: BDSM_step_def BDSM_to_EDGE_def BDSM_to_NOT_EDGE_def
      BDSM_stable_def split: if_split_asm; auto)

lemma BDSM_step_no_Enter: "BDSM_step prt \<noteq> Enter t"
  by (simp add: BDSM_step_def split: BDSM_states_t.split)

interpretation bdsm: sm_quiescent BDSM_step BDSM_stable "\<lambda>_. 0"
  by unfold_locales (auto simp: BDSM_step_no_Enter dest: BDSM_step_Last)

text \<open>
  One run of Bridge Detection makes \<open>operEdge\<close> agree with the machine's state. While the
  edge delay timer runs (and an edge port that is down still counts as an edge) the result
  is stable, and a port becomes an edge only by administration: an automatic edge needs an
  expired edge delay.
\<close>

theorem BDSM_run_operEdge:
  assumes "BDSM_state prt = BDSM_NOT_EDGE \<longrightarrow> \<not> operEdge prt"
  shows "\<exists>t. BDSM_run prt False = Some (False, t)
    \<and> (operEdge t \<longleftrightarrow> BDSM_state t = BDSM_EDGE)
    \<and> (BDSM_stable prt \<longrightarrow> BDSM_run t True = Some (False, t)
         \<and> (operEdge t \<longrightarrow> operEdge prt \<or> AdminEdgePort prt))"
proof (cases "BDSM_step prt")
  case Stay
  with assms have "operEdge prt \<longleftrightarrow> BDSM_state prt = BDSM_EDGE"
    by (cases "BDSM_state prt") (auto simp: BDSM_step_def split: if_splits)
  with Stay show ?thesis by (simp add: BDSM_run_def sm_exec_def sm_run_Stay)
next
  case (Last t)
  then show ?thesis
    using BDSM_step_Last [OF Last] by (auto simp: BDSM_run_def sm_exec_def sm_run_Last)
qed (simp add: BDSM_step_no_Enter)

lemma BDSM_run_operEdge_witness:
  "\<exists>t. BDSM_run (zero_port\<lparr>edgeDelayWhile := 3\<rparr>) False = Some (False, t)
    \<and> (operEdge t \<longleftrightarrow> BDSM_state t = BDSM_EDGE)"
  using BDSM_run_operEdge [of "zero_port\<lparr>edgeDelayWhile := 3\<rparr>"] by (auto simp: zero_port_def)

subsection \<open>Facts about Port Transmit\<close>

text \<open>What the entries do to the fields the machine looks at.\<close>

lemma tx_bpdu_fields [simp]:
  "outs (MSTP_OUT_tx_bpdu b sz prt) = outs prt @ [TxBpdu b sz]"
  "port_trees (MSTP_OUT_tx_bpdu b sz prt) = port_trees prt"
  "txCount (MSTP_OUT_tx_bpdu b sz prt) = txCount prt"
  "portEnabled (MSTP_OUT_tx_bpdu b sz prt) = portEnabled prt"
  "bpduFilterPort (MSTP_OUT_tx_bpdu b sz prt) = bpduFilterPort prt"
  "sendRSTP (MSTP_OUT_tx_bpdu b sz prt) = sendRSTP prt"
  "deleted (MSTP_OUT_tx_bpdu b sz prt) = deleted prt"
  "dontTxmtBpdu (MSTP_OUT_tx_bpdu b sz prt) = dontTxmtBpdu prt"
  "PTSM_state (MSTP_OUT_tx_bpdu b sz prt) = PTSM_state prt"
  "helloWhen (MSTP_OUT_tx_bpdu b sz prt) = helloWhen prt"
  by (simp_all add: MSTP_OUT_tx_bpdu_def emit_def Let_def)

text \<open>A transmit entry: the port's static part stays, one frame at most goes out.\<close>

definition same_sender :: "port_t \<Rightarrow> port_t \<Rightarrow> bool" where
  "same_sender p q \<longleftrightarrow> port_trees q = port_trees p \<and> portEnabled q = portEnabled p
     \<and> bpduFilterPort q = bpduFilterPort p \<and> sendRSTP q = sendRSTP p \<and> deleted q = deleted p
     \<and> dontTxmtBpdu q = dontTxmtBpdu p"

lemma same_sender_refl [simp]: "same_sender p p"
  by (simp add: same_sender_def)

lemma same_sender_trans: "same_sender p q \<Longrightarrow> same_sender q r \<Longrightarrow> same_sender p r"
  by (simp add: same_sender_def)

definition frame_allowed :: "port_t \<Rightarrow> mstp_out \<Rightarrow> bool" where
  "frame_allowed prt ev =
    (case ev of
       TxBpdu b sz \<Rightarrow>
         (if sendRSTP prt then bpduType b = bpduTypeRST \<and> protoRSTP \<le> protocolVersion b
          else protocolVersion b = protoSTP
               \<and> (bpduType b = bpduTypeConfig \<and> role (cist_of prt) = roleDesignated
                  \<or> bpduType b = bpduTypeTCN \<and> role (cist_of prt) = roleRoot))
     | _ \<Rightarrow> False)"

definition transmits :: "port_t \<Rightarrow> port_t \<Rightarrow> bool" where
  "transmits p q \<longleftrightarrow> same_sender p q \<and> PTSM_state q \<noteq> PTSM_IDLE \<and> txCount q = txCount p + 1
     \<and> (outs q = outs p
        \<or> (\<exists>ev. outs q = outs p @ [ev] \<and> \<not> cannot_transmit p \<and> frame_allowed p ev))"

lemma transmits_RSTP: "sendRSTP prt \<Longrightarrow> transmits prt (PTSM_to_TRANSMIT_RSTP br prt)"
  by (auto simp: transmits_def same_sender_def PTSM_to_TRANSMIT_RSTP_def txMstp_def Let_def
      cannot_transmit_def frame_allowed_def rst_bpdu_def mst_bpdu_def put_cist_common_def)

lemma transmits_CONFIG:
  "\<not> sendRSTP prt \<Longrightarrow> role (cist_of prt) = roleDesignated
    \<Longrightarrow> transmits prt (PTSM_to_TRANSMIT_CONFIG prt)"
  by (auto simp: transmits_def same_sender_def PTSM_to_TRANSMIT_CONFIG_def txConfig_def Let_def
      cannot_transmit_def frame_allowed_def config_bpdu_def put_cist_common_def)

lemma transmits_TCN:
  "\<not> sendRSTP prt \<Longrightarrow> role (cist_of prt) = roleRoot \<Longrightarrow> transmits prt (PTSM_to_TRANSMIT_TCN prt)"
  by (auto simp: transmits_def same_sender_def PTSM_to_TRANSMIT_TCN_def txTcn_def Let_def
      cannot_transmit_def frame_allowed_def)

text \<open>The three kinds of transition of an enabled port.\<close>

definition ready_to_send :: "bridge_t \<Rightarrow> port_t \<Rightarrow> bool" where
  "ready_to_send br prt \<longleftrightarrow> portEnabled prt \<and> txCount prt < Transmit_Hold_Count br
     \<and> \<not> bpduFilterPort prt
     \<and> list_all (\<lambda>ptp. selected ptp \<and> \<not> updtInfo ptp) (cist_of prt # drop 1 (port_trees prt))"

lemma PTSM_step_cases:
  assumes "PTSM_step br prt = Enter t"
  obtains
    (idle) "portEnabled prt" "PTSM_state prt \<noteq> PTSM_IDLE" "t = PTSM_to_IDLE prt"
  | (periodic) "portEnabled prt" "PTSM_state prt = PTSM_IDLE" "helloWhen prt = 0"
      "t = PTSM_to_TRANSMIT_PERIODIC prt"
  | (send) "PTSM_state prt = PTSM_IDLE" "helloWhen prt \<noteq> 0" "ready_to_send br prt"
      "transmits prt t"
  using assms
  by (auto simp: PTSM_step_def PTSM_idle_step_def ready_to_send_def Let_def list_ex_iff list_all_iff
      intro: transmits_RSTP transmits_CONFIG transmits_TCN split: if_splits)

lemma PTSM_step_Last: "PTSM_step br prt = Last t \<longleftrightarrow> \<not> portEnabled prt \<and> t = PTSM_to_TRANSMIT_INIT prt"
  by (auto simp: PTSM_step_def PTSM_idle_step_def Let_def split: if_splits)

subsection \<open>Termination: the hold count and the hello timer\<close>

definition PTSM_mu :: "bridge_t \<Rightarrow> port_t \<Rightarrow> nat" where
  "PTSM_mu br prt = 4 * (unat (Transmit_Hold_Count br) - unat (txCount prt))
     + (if PTSM_state prt \<noteq> PTSM_IDLE then 1 else if helloWhen prt = 0 then 2 else 0)"

definition hello_nonzero :: "port_t \<Rightarrow> bool" where
  "hello_nonzero prt \<longleftrightarrow> Hello_Time (portTimes (cist_of prt)) \<noteq> 0"

lemma PTSM_step_Enter:
  assumes "hello_nonzero prt" and "PTSM_step br prt = Enter t"
  shows "same_sender prt t" and "PTSM_mu br t < PTSM_mu br prt"
proof -
  have hello: "ucast (Hello_Time (portTimes (cist_of prt))) \<noteq> (0 :: u32)"
    using assms(1) by (simp add: hello_nonzero_def)
  have "same_sender prt t \<and> PTSM_mu br t < PTSM_mu br prt"
    using assms(2)
  proof (cases rule: PTSM_step_cases)
    case idle
    then show ?thesis
      using hello by (simp add: PTSM_to_IDLE_def same_sender_def PTSM_mu_def)
  next
    case periodic
    then show ?thesis
      by (simp add: PTSM_to_TRANSMIT_PERIODIC_def same_sender_def PTSM_mu_def)
  next
    case send
    then have "txCount prt < Transmit_Hold_Count br" and t: "txCount t = txCount prt + 1"
      "PTSM_state t \<noteq> PTSM_IDLE" and same: "same_sender prt t"
      by (auto simp: ready_to_send_def transmits_def)
    then have "unat (txCount t) = Suc (unat (txCount prt))"
      and "unat (txCount prt) < unat (Transmit_Hold_Count br)"
      by (simp_all add: unat_add_1 word_less_nat_alt)
    then show ?thesis using send t same by (simp add: PTSM_mu_def)
  qed
  then show "same_sender prt t" and "PTSM_mu br t < PTSM_mu br prt" by blast+
qed

lemma same_sender_hello: "same_sender p q \<Longrightarrow> hello_nonzero q = hello_nonzero p"
  by (simp add: same_sender_def hello_nonzero_def)

interpretation ptsm: sm_machine "PTSM_step br" hello_nonzero "PTSM_mu br" for br
proof
  show "hello_nonzero t" if "hello_nonzero s" and "PTSM_step br s = Enter t" for s t
    using PTSM_step_Enter(1) [OF that] that by (simp add: same_sender_hello)
  show "PTSM_mu br t < PTSM_mu br s" if "hello_nonzero s" and "PTSM_step br s = Enter t" for s t
    by (rule PTSM_step_Enter(2) [OF that])
  show "hello_nonzero t" if "hello_nonzero s" and "PTSM_step br s = Last t" for s t
    using that by (auto simp: PTSM_step_Last PTSM_to_TRANSMIT_INIT_def hello_nonzero_def)
qed


text \<open>
  The Port Transmit machine returns whenever the hello time in use is not 0 (with a hello time of
  0 the C recursion would alternate between \<^verbatim>\<open>TRANSMIT_PERIODIC\<close> and \<^verbatim>\<open>IDLE\<close> without
  end), and an enabled port is left idle with its hello timer running, unless its role is
  being reselected.
\<close>

theorem PTSM_run_returns:
  assumes "Hello_Time (portTimes (cist_of prt)) \<noteq> 0"
  shows "\<exists>t. PTSM_run br prt False = Some (False, t)
    \<and> (portEnabled prt \<longrightarrow> PTSM_state t = PTSM_IDLE \<and> PTSM_run br t True = Some (False, t)
         \<and> (list_all (\<lambda>ptp. selected ptp \<and> \<not> updtInfo ptp)
              (cist_of prt # drop 1 (port_trees prt)) \<longrightarrow> helloWhen t \<noteq> 0))"
proof -
  from assms obtain t where run: "sm_run (PTSM_step br) prt = Some t"
    using ptsm.run_returns [of prt br] by (auto simp: hello_nonzero_def)
  have same: "same_sender prt t" if "portEnabled prt"
  proof -
    have "hello_nonzero t \<and> portEnabled t \<and> same_sender prt t"
    proof (rule sm_run_preserves [OF run])
      show "hello_nonzero prt \<and> portEnabled prt \<and> same_sender prt prt"
        using assms that by (simp add: hello_nonzero_def)
      fix s s'
      assume s: "hello_nonzero s \<and> portEnabled s \<and> same_sender prt s"
      show "hello_nonzero s' \<and> portEnabled s' \<and> same_sender prt s'" if "PTSM_step br s = Enter s'"
        using PTSM_step_Enter(1) [of s br s'] that s
        by (auto simp: same_sender_def hello_nonzero_def)
      show "hello_nonzero s' \<and> portEnabled s' \<and> same_sender prt s'" if "PTSM_step br s = Last s'"
        using that s by (simp add: PTSM_step_Last)
    qed
    then show ?thesis by blast
  qed
  have stay: "PTSM_step br t = Stay" if "portEnabled prt"
    using sm_run_ends [OF run] same [OF that] that
    by (auto simp: PTSM_step_Last PTSM_to_TRANSMIT_INIT_def same_sender_def)
  have "PTSM_state t = PTSM_IDLE \<and> PTSM_run br t True = Some (False, t)
      \<and> (list_all (\<lambda>ptp. selected ptp \<and> \<not> updtInfo ptp)
           (cist_of prt # drop 1 (port_trees prt)) \<longrightarrow> helloWhen t \<noteq> 0)" if "portEnabled prt"
    using stay [OF that] same [OF that] that
    by (auto simp: PTSM_run_def sm_exec_def same_sender_def PTSM_step_def PTSM_idle_step_def Let_def
        list_ex_iff list_all_iff split: if_splits)
  with run show ?thesis by (auto simp: PTSM_run_def sm_exec_def)
qed

lemma PTSM_run_returns_witness:
  "\<exists>t. PTSM_run zero_bridge
         (zero_port\<lparr>port_trees := [zero_ptp\<lparr>portTimes := zero_times\<lparr>Hello_Time := 2\<rparr>\<rparr>]\<rparr>) False
       = Some (False, t)"
  using PTSM_run_returns [of "zero_port\<lparr>port_trees :=
      [zero_ptp\<lparr>portTimes := zero_times\<lparr>Hello_Time := 2\<rparr>\<rparr>]\<rparr>" zero_bridge]
  by (auto simp: zero_port_def)

subsection \<open>Rate limit and kind of the frames sent\<close>

text \<open>What one run has sent so far, against the transmit counter.\<close>

definition sent_so_far :: "bridge_t \<Rightarrow> port_t \<Rightarrow> mstp_out list \<Rightarrow> port_t \<Rightarrow> bool" where
  "sent_so_far br p fs q \<longleftrightarrow> same_sender p q \<and> outs q = outs p @ fs
     \<and> unat (txCount p) + length fs \<le> unat (txCount q)
     \<and> unat (txCount q) \<le> max (unat (txCount p)) (unat (Transmit_Hold_Count br))
     \<and> list_all (frame_allowed p) fs
     \<and> (fs \<noteq> [] \<longrightarrow> \<not> cannot_transmit p \<and> \<not> bpduFilterPort p)"

lemma same_sender_frames:
  assumes "same_sender p q"
  shows "frame_allowed q ev = frame_allowed p ev" and "cannot_transmit q = cannot_transmit p"
    and "bpduFilterPort q = bpduFilterPort p"
  using assms
  by (simp_all add: same_sender_def frame_allowed_def cannot_transmit_def split: mstp_out.split)

lemma sent_so_far_step:
  assumes sent: "sent_so_far br p fs q" and step: "PTSM_step br q = Enter t"
  shows "\<exists>fs'. sent_so_far br p fs' t"
  using step
proof (cases rule: PTSM_step_cases)
  case idle
  with sent have "sent_so_far br p fs t"
    by (simp add: sent_so_far_def same_sender_def PTSM_to_IDLE_def)
  then show ?thesis ..
next
  case periodic
  with sent have "sent_so_far br p fs t"
    by (simp add: sent_so_far_def same_sender_def PTSM_to_TRANSMIT_PERIODIC_def)
  then show ?thesis ..
next
  case send
  from sent have pq: "same_sender p q" by (simp add: sent_so_far_def)
  from send have tx: "txCount q < Transmit_Hold_Count br" and filter: "\<not> bpduFilterPort p"
    and qt: "transmits q t"
    using same_sender_frames(3) [OF pq] by (auto simp: ready_to_send_def)
  then have count: "unat (txCount t) = Suc (unat (txCount q))"
    "unat (txCount q) < unat (Transmit_Hold_Count br)" and pt: "same_sender p t"
    using pq by (auto simp: transmits_def unat_add_1 word_less_nat_alt intro: same_sender_trans)
  from qt consider "outs t = outs q"
    | ev where "outs t = outs q @ [ev]" "\<not> cannot_transmit q" "frame_allowed q ev"
    by (auto simp: transmits_def)
  then show ?thesis
  proof cases
    case 1
    with sent count pt have "sent_so_far br p fs t" by (auto simp: sent_so_far_def)
    then show ?thesis ..
  next
    case 2
    with sent count pt filter have "sent_so_far br p (fs @ [ev]) t"
      by (auto simp: sent_so_far_def same_sender_frames [OF pq])
    then show ?thesis ..
  qed
qed

text \<open>
  C39. The transmit limit: one run of the Port Transmit machine sends no more frames than the
  hold count leaves room for, none while the BPDU filter is on, the port is disabled, its
  CIST role is Disabled or transmission is switched off, and only frames of the kind the
  protocol migration has selected: RST or MST frames when \<open>sendRSTP\<close> is set, otherwise
  Configuration frames from a designated and TCN frames from a root port.
\<close>

theorem PTSM_run_rate_limit:
  assumes "PTSM_run br prt False = Some (r, t)"
  shows "\<exists>fs. outs t = outs prt @ fs
    \<and> length fs \<le> unat (Transmit_Hold_Count br) - unat (txCount prt)
    \<and> list_all (frame_allowed prt) fs
    \<and> (fs \<noteq> [] \<longrightarrow> portEnabled prt \<and> \<not> bpduFilterPort prt \<and> \<not> cannot_transmit prt)"
proof (cases "portEnabled prt")
  case False
  with assms have "t = PTSM_to_TRANSMIT_INIT prt"
    by (auto simp: PTSM_run_def sm_exec_def PTSM_step_def sm_run_Last)
  then show ?thesis by (simp add: PTSM_to_TRANSMIT_INIT_def)
next
  case True
  from assms have run: "sm_run (PTSM_step br) prt = Some t"
    by (auto simp: PTSM_run_def sm_exec_def)
  have "\<exists>fs. sent_so_far br prt fs t"
  proof (rule sm_run_preserves [OF run, where I = "\<lambda>q. \<exists>fs. sent_so_far br prt fs q"])
    have "sent_so_far br prt [] prt" by (simp add: sent_so_far_def)
    then show "\<exists>fs. sent_so_far br prt fs prt" ..
    show "\<exists>fs. sent_so_far br prt fs s'" if "\<exists>fs. sent_so_far br prt fs s" "PTSM_step br s = Enter s'"
      for s s' using that sent_so_far_step by blast
    show "\<exists>fs. sent_so_far br prt fs s'" if "\<exists>fs. sent_so_far br prt fs s" "PTSM_step br s = Last s'"
      for s s' using that True by (auto simp: PTSM_step_Last sent_so_far_def same_sender_def)
  qed
  then obtain fs where fs: "sent_so_far br prt fs t" ..
  then have "length fs \<le> unat (Transmit_Hold_Count br) - unat (txCount prt)"
    by (auto simp: sent_so_far_def)
  with fs True show ?thesis by (auto simp: sent_so_far_def)
qed

definition sending_port :: port_t where
  "sending_port = zero_port\<lparr>portEnabled := True, sendRSTP := True, newInfo := True,
     port_trees := [zero_ptp\<lparr>role := roleDesignated, selected := True,
       portTimes := zero_times\<lparr>Hello_Time := 2\<rparr>\<rparr>]\<rparr>"

lemma sending_port_sends_one:
  "map_option (\<lambda>(r, t). length (outs t))
     (PTSM_run (zero_bridge\<lparr>Transmit_Hold_Count := 6\<rparr>) sending_port False) = Some 1"
  by code_simp

lemma PTSM_run_rate_limit_witness:
  "\<exists>r t fs. PTSM_run (zero_bridge\<lparr>Transmit_Hold_Count := 6\<rparr>) sending_port False = Some (r, t)
     \<and> outs t = fs \<and> length fs = 1 \<and> list_all (frame_allowed sending_port) fs"
proof -
  obtain r t where run: "PTSM_run (zero_bridge\<lparr>Transmit_Hold_Count := 6\<rparr>) sending_port False = Some (r, t)"
    and one: "length (outs t) = 1"
    using sending_port_sends_one by auto
  from PTSM_run_rate_limit [OF run] have "list_all (frame_allowed sending_port) (outs t)"
    by (auto simp: sending_port_def zero_port_def)
  with run one show ?thesis by blast
qed

end
