(* ===== verification/MSTP_PortInfo.thy ===== *)
theory MSTP_PortInfo
  imports MSTP_PortMachines
begin

section \<open>13.32 Port Information\<close>

text \<open>
  The machine that ages, updates and replaces the priority information a port holds for a
  tree. It writes its own entry \<open>k\<close> and, for the CIST entry of a boundary port, the
  entries after it.
\<close>

definition PISM_to_DISABLED :: "nat \<Rightarrow> port_t \<Rightarrow> port_t" where
  "PISM_to_DISABLED k prt =
     upd_ptp k (\<lambda>x. x\<lparr>PISM_state := PISM_DISABLED, rcvdMsg := False, proposing := False,
       proposed := False, agree := False, agreed := False, rcvdInfoWhile := 0,
       infoIs := ioDisabled, reselect := True, selected := False\<rparr>) prt"

definition PISM_to_AGED :: "nat \<Rightarrow> port_t \<Rightarrow> port_t" where
  "PISM_to_AGED k prt =
     upd_ptp k (\<lambda>x. x\<lparr>PISM_state := PISM_AGED, infoIs := ioAged, reselect := True,
       selected := False\<rparr>) prt"

definition PISM_to_UPDATE :: "nat \<Rightarrow> port_t \<Rightarrow> port_t" where
  "PISM_to_UPDATE k prt =
    (let upd = (\<lambda>x. let agreed' = agreed x \<and> betterorsameInfo x ioMine
                in x\<lparr>PISM_state := PISM_UPDATE, proposing := False, proposed := False,
                     agreed := agreed', synced := synced x \<and> agreed',
                     portPriority := designatedPriority x, portTimes := designatedTimes x,
                     updtInfo := False, infoIs := ioMine\<rparr>)
     in set_newInfoXst (MSTID (ptp_of prt k)) (upd_ptp k upd prt))"

definition PISM_to_SUPERIOR_DESIGNATED :: "bridge_t \<Rightarrow> nat \<Rightarrow> port_t \<Rightarrow> port_t" where
  "PISM_to_SUPERIOR_DESIGNATED br k prt =
    (let p1 = upd_ptp k (\<lambda>x. x\<lparr>PISM_state := PISM_SUPERIOR_DESIGNATED, agreed := False,
                              proposing := False\<rparr>) (prt\<lparr>infoInternal := rcvdInternal prt\<rparr>);
         p2 = setTcFlags k (recordProposal k p1);
         p3 = upd_ptp k (\<lambda>x. x\<lparr>agree := agree x \<and> betterorsameInfo x ioReceived\<rparr>) p2;
         p4 = recordAgreement br k p3;
         p5 = upd_ptp k (\<lambda>x. x\<lparr>synced := synced x \<and> agreed x\<rparr>) p4;
         p6 = updtRcvdInfoWhile k (recordTimes k (recordPriority k p5))
     in upd_ptp k (\<lambda>x. x\<lparr>infoIs := ioReceived, reselect := True, selected := False,
                         rcvdMsg := False\<rparr>) p6)"

definition PISM_to_REPEATED_DESIGNATED :: "bridge_t \<Rightarrow> nat \<Rightarrow> port_t \<Rightarrow> port_t" where
  "PISM_to_REPEATED_DESIGNATED br k prt =
    (let p1 = upd_ptp k (\<lambda>x. x\<lparr>PISM_state := PISM_REPEATED_DESIGNATED\<rparr>)
                (prt\<lparr>infoInternal := rcvdInternal prt\<rparr>);
         p2 = recordAgreement br k (setTcFlags k (recordProposal k p1))
     in upd_ptp k (\<lambda>x. x\<lparr>rcvdMsg := False\<rparr>) (updtRcvdInfoWhile k p2))"

definition PISM_to_INFERIOR_DESIGNATED :: "nat \<Rightarrow> port_t \<Rightarrow> port_t" where
  "PISM_to_INFERIOR_DESIGNATED k prt =
     upd_ptp k (\<lambda>x. x\<lparr>rcvdMsg := False\<rparr>)
       (recordDispute k (upd_ptp k (\<lambda>x. x\<lparr>PISM_state := PISM_INFERIOR_DESIGNATED\<rparr>) prt))"

definition PISM_to_NOT_DESIGNATED :: "bridge_t \<Rightarrow> nat \<Rightarrow> port_t \<Rightarrow> port_t" where
  "PISM_to_NOT_DESIGNATED br k prt =
     upd_ptp k (\<lambda>x. x\<lparr>rcvdMsg := False\<rparr>)
       (setTcFlags k (recordAgreement br k
         (upd_ptp k (\<lambda>x. x\<lparr>PISM_state := PISM_NOT_DESIGNATED\<rparr>) prt)))"

definition PISM_to_OTHER :: "nat \<Rightarrow> port_t \<Rightarrow> port_t" where
  "PISM_to_OTHER k prt = upd_ptp k (\<lambda>x. x\<lparr>PISM_state := PISM_OTHER, rcvdMsg := False\<rparr>) prt"

definition PISM_to_CURRENT :: "nat \<Rightarrow> port_t \<Rightarrow> port_t" where
  "PISM_to_CURRENT k prt = upd_ptp k (\<lambda>x. x\<lparr>PISM_state := PISM_CURRENT\<rparr>) prt"

definition PISM_to_RECEIVE :: "bridge_t \<Rightarrow> nat \<Rightarrow> port_t \<Rightarrow> port_t" where
  "PISM_to_RECEIVE br k prt =
    (case rcvInfo br k (upd_ptp k (\<lambda>x. x\<lparr>PISM_state := PISM_RECEIVE\<rparr>) prt) of
       (info, p1) \<Rightarrow> recordMastered k (upd_ptp k (\<lambda>x. x\<lparr>rcvdInfo := info\<rparr>) p1))"

text \<open>13.25.12, 13.25.13, 13.25.16 and 13.25.17.\<close>

definition rcvdXstMsg :: "nat \<Rightarrow> port_t \<Rightarrow> bool" where
  "rcvdXstMsg k prt \<longleftrightarrow>
    (if MSTID (ptp_of prt k) = 0 then rcvdMsg (ptp_of prt k)
     else \<not> rcvdMsg (cist_of prt) \<and> rcvdMsg (ptp_of prt k))"

definition updtXstInfo :: "nat \<Rightarrow> port_t \<Rightarrow> bool" where
  "updtXstInfo k prt \<longleftrightarrow>
    (if MSTID (ptp_of prt k) = 0 then updtInfo (ptp_of prt k)
     else updtInfo (ptp_of prt k) \<or> updtInfo (cist_of prt))"

definition PISM_step :: "bridge_t \<Rightarrow> nat \<Rightarrow> port_t \<Rightarrow> port_t sm" where
  "PISM_step br k prt =
    (let ptp = ptp_of prt k in
     if \<not> portEnabled prt \<and> infoIs ptp \<noteq> ioDisabled then Enter (PISM_to_DISABLED k prt)
     else case PISM_state ptp of
       PISM_DISABLED \<Rightarrow>
         (if portEnabled prt then Enter (PISM_to_AGED k prt)
          else if rcvdMsg ptp then Enter (PISM_to_DISABLED k prt)
          else Stay)
     | PISM_AGED \<Rightarrow>
         (if selected ptp \<and> updtInfo ptp then Enter (PISM_to_UPDATE k prt) else Stay)
     | PISM_UPDATE \<Rightarrow> Enter (PISM_to_CURRENT k prt)
     | PISM_SUPERIOR_DESIGNATED \<Rightarrow> Enter (PISM_to_CURRENT k prt)
     | PISM_REPEATED_DESIGNATED \<Rightarrow> Enter (PISM_to_CURRENT k prt)
     | PISM_INFERIOR_DESIGNATED \<Rightarrow> Enter (PISM_to_CURRENT k prt)
     | PISM_NOT_DESIGNATED \<Rightarrow> Enter (PISM_to_CURRENT k prt)
     | PISM_OTHER \<Rightarrow> Enter (PISM_to_CURRENT k prt)
     | PISM_CURRENT \<Rightarrow>
         (if rcvdXstMsg k prt \<and> \<not> updtXstInfo k prt then Enter (PISM_to_RECEIVE br k prt)
          else if infoIs ptp = ioReceived \<and> rcvdInfoWhile ptp = 0 \<and> \<not> updtInfo ptp
                  \<and> \<not> rcvdXstMsg k prt then Enter (PISM_to_AGED k prt)
          else if selected ptp \<and> updtInfo ptp then Enter (PISM_to_UPDATE k prt)
          else Stay)
     | PISM_RECEIVE \<Rightarrow>
         (case rcvdInfo ptp of
            SuperiorDesignatedInfo \<Rightarrow> Enter (PISM_to_SUPERIOR_DESIGNATED br k prt)
          | RepeatedDesignatedInfo \<Rightarrow> Enter (PISM_to_REPEATED_DESIGNATED br k prt)
          | InferiorDesignatedInfo \<Rightarrow> Enter (PISM_to_INFERIOR_DESIGNATED k prt)
          | InferiorRootAlternateInfo \<Rightarrow> Enter (PISM_to_NOT_DESIGNATED br k prt)
          | OtherInfo \<Rightarrow> Enter (PISM_to_OTHER k prt)))"

text \<open>The dry run: what the branches taken with \<^verbatim>\<open>dry_run\<close> return.\<close>

definition PISM_run_dry :: "bridge_t \<Rightarrow> nat \<Rightarrow> port_t \<Rightarrow> bool" where
  "PISM_run_dry br k prt =
    (let ptp = ptp_of prt k in
     if \<not> portEnabled prt \<and> infoIs ptp \<noteq> ioDisabled then True
     else case PISM_state ptp of
       PISM_DISABLED \<Rightarrow>
         (if portEnabled prt then True
          else if rcvdMsg ptp then True
          else False)
     | PISM_AGED \<Rightarrow>
         (if selected ptp \<and> updtInfo ptp then True else False)
     | PISM_UPDATE \<Rightarrow> True
     | PISM_SUPERIOR_DESIGNATED \<Rightarrow> True
     | PISM_REPEATED_DESIGNATED \<Rightarrow> True
     | PISM_INFERIOR_DESIGNATED \<Rightarrow> True
     | PISM_NOT_DESIGNATED \<Rightarrow> True
     | PISM_OTHER \<Rightarrow> True
     | PISM_CURRENT \<Rightarrow>
         (if rcvdXstMsg k prt \<and> \<not> updtXstInfo k prt then True
          else if infoIs ptp = ioReceived \<and> rcvdInfoWhile ptp = 0 \<and> \<not> updtInfo ptp
                  \<and> \<not> rcvdXstMsg k prt then True
          else if selected ptp \<and> updtInfo ptp then True
          else False)
     | PISM_RECEIVE \<Rightarrow>
         (case rcvdInfo ptp of
            SuperiorDesignatedInfo \<Rightarrow> True
          | RepeatedDesignatedInfo \<Rightarrow> True
          | InferiorDesignatedInfo \<Rightarrow> True
          | InferiorRootAlternateInfo \<Rightarrow> True
          | OtherInfo \<Rightarrow> True))"

definition PISM_run :: "bridge_t \<Rightarrow> nat \<Rightarrow> port_t \<Rightarrow> bool \<Rightarrow> (bool \<times> port_t) option" where
  "PISM_run br k prt dry_run = sm_exec (PISM_step br k) (PISM_run_dry br k) prt dry_run"

lemma PISM_dry_fires [simp]: "PISM_run_dry br k prt = fires (PISM_step br k prt)"
  unfolding PISM_run_dry_def PISM_step_def Let_def
  by (cases "PISM_state (ptp_of prt k)"; cases "rcvdInfo (ptp_of prt k)")
    (simp_all only: if_distrib [of fires] fires.simps PISM_states_t.case port_info_t.case)

subsection \<open>What the procedures leave alone\<close>

text \<open>
  The fields of an entry the machine decides by; recording a message, its flags and its
  timers changes none of them on any entry.
\<close>

definition pism_key :: "per_tree_port_t \<Rightarrow> PISM_states_t \<times> bool \<times> bool \<times> port_info_origin_t" where
  "pism_key x = (PISM_state x, rcvdMsg x, updtInfo x, infoIs x)"

definition pism_view ::
  "port_t \<Rightarrow> bool \<times> (PISM_states_t \<times> bool \<times> bool \<times> port_info_origin_t) list" where
  "pism_view prt = (portEnabled prt, map pism_key (port_trees prt))"

lemma map_after_same:
  assumes "\<And>x. g (f x) = g x"
  shows "map g (take n xs @ map f (drop n xs)) = map g xs"
proof -
  have "map g (map f ys) = map g ys" for ys using assms by simp
  then show ?thesis by (metis append_take_drop_id map_append)
qed

lemma pism_view_upd_ptp:
  "(\<And>x. pism_key (f x) = pism_key x) \<Longrightarrow> pism_view (upd_ptp k f prt) = pism_view prt"
  by (simp add: pism_view_def map_upd_nth_same) (simp add: upd_ptp_def)

lemma pism_view_after:
  "(\<And>x. pism_key (f x) = pism_key x) \<Longrightarrow> pism_view (map_ptps_after k f prt) = pism_view prt"
  by (simp add: pism_view_def map_after_same del: map_append) (simp add: map_ptps_after_def)

lemma pism_view_map:
  "(\<And>x. pism_key (f x) = pism_key x) \<Longrightarrow> pism_view (map_ptps f prt) = pism_view prt"
  by (simp add: pism_view_def comp_def) (simp add: map_ptps_def)

lemmas pism_view_intros = pism_view_upd_ptp pism_view_after pism_view_map

lemma pism_view_newInfo: "pism_view (set_newInfoXst m prt) = pism_view prt"
  by (simp add: pism_view_def set_newInfoXst_def)

lemma pism_view_procedures:
  "pism_view (recordProposal k prt) = pism_view prt"
  "pism_view (setTcFlags k prt) = pism_view prt"
  "pism_view (recordAgreement br k prt) = pism_view prt"
  "pism_view (recordDispute k prt) = pism_view prt"
  "pism_view (recordMastered k prt) = pism_view prt"
  "pism_view (recordPriority k prt) = pism_view prt"
  "pism_view (recordTimes k prt) = pism_view prt"
  "pism_view (updtRcvdInfoWhile k prt) = pism_view prt"
  by (simp_all add: recordProposal_def setTcFlags_def recordAgreement_def recordDispute_def
      recordMastered_def recordPriority_def recordTimes_def updtRcvdInfoWhile_def Let_def
      pism_key_def pism_view_intros)
    (simp_all add: pism_view_def)

lemma pism_view_rcvInfo: "pism_view (snd (rcvInfo br k prt)) = pism_view prt"
  by (simp add: rcvInfo_def read_cist_msg_def read_msti_msg_def Let_def pism_view_intros pism_key_def
      split: option.split)
    (simp add: pism_view_def)

text \<open>The effect of each entry on what the machine decides by.\<close>

lemma pism_view_set:
  assumes "\<And>x. pism_key (f x) = h (pism_key x)"
  shows "pism_view (upd_ptp k f prt) = apsnd (upd_nth k h) (pism_view prt)"
proof -
  have "map pism_key (upd_nth k f xs) = upd_nth k h (map pism_key xs)" for xs
    by (cases "k < length xs")
      (simp_all add: upd_nth_def map_update assms upd_nth_beyond list_update_beyond)
  then show ?thesis by (simp add: pism_view_def) (simp add: upd_ptp_def)
qed

lemma apsnd_upd_nth_comp:
  "apsnd (upd_nth k f) (apsnd (upd_nth k g) p) = apsnd (upd_nth k (\<lambda>x. f (g x))) p"
  by (cases p) (simp add: upd_nth_comp comp_def)

lemma pism_view_internal: "pism_view (prt\<lparr>infoInternal := b\<rparr>) = pism_view prt"
  by (simp add: pism_view_def)

definition enter_key ::
  "PISM_states_t \<Rightarrow> PISM_states_t \<times> bool \<times> bool \<times> port_info_origin_t
    \<Rightarrow> PISM_states_t \<times> bool \<times> bool \<times> port_info_origin_t" where
  "enter_key s' v =
    (case v of (s, msg, upd, info) \<Rightarrow>
       (s', msg \<and> (s' = PISM_AGED \<or> s' = PISM_UPDATE \<or> s' = PISM_CURRENT \<or> s' = PISM_RECEIVE),
        upd \<and> s' \<noteq> PISM_UPDATE,
        if s' = PISM_DISABLED then ioDisabled else if s' = PISM_AGED then ioAged
        else if s' = PISM_UPDATE then ioMine else if s' = PISM_SUPERIOR_DESIGNATED then ioReceived
        else info))"

lemma pism_view_entries:
  "pism_view (PISM_to_DISABLED k prt) = apsnd (upd_nth k (enter_key PISM_DISABLED)) (pism_view prt)"
  "pism_view (PISM_to_AGED k prt) = apsnd (upd_nth k (enter_key PISM_AGED)) (pism_view prt)"
  "pism_view (PISM_to_UPDATE k prt) = apsnd (upd_nth k (enter_key PISM_UPDATE)) (pism_view prt)"
  "pism_view (PISM_to_OTHER k prt) = apsnd (upd_nth k (enter_key PISM_OTHER)) (pism_view prt)"
  "pism_view (PISM_to_CURRENT k prt) = apsnd (upd_nth k (enter_key PISM_CURRENT)) (pism_view prt)"
  unfolding PISM_to_DISABLED_def PISM_to_AGED_def PISM_to_UPDATE_def PISM_to_OTHER_def
    PISM_to_CURRENT_def Let_def pism_view_newInfo
  by (rule pism_view_set; simp add: pism_key_def enter_key_def)+

lemma enter_key_message:
  "enter_key PISM_REPEATED_DESIGNATED = (\<lambda>x. (PISM_REPEATED_DESIGNATED, False, snd (snd x)))"
  "enter_key PISM_INFERIOR_DESIGNATED = (\<lambda>x. (PISM_INFERIOR_DESIGNATED, False, snd (snd x)))"
  "enter_key PISM_NOT_DESIGNATED = (\<lambda>x. (PISM_NOT_DESIGNATED, False, snd (snd x)))"
  "enter_key PISM_SUPERIOR_DESIGNATED =
     (\<lambda>x. (PISM_SUPERIOR_DESIGNATED, False, fst (snd (snd x)), ioReceived))"
  by (auto simp: fun_eq_iff enter_key_def)

lemma pism_view_message_entries:
  "pism_view (PISM_to_REPEATED_DESIGNATED br k prt) =
     apsnd (upd_nth k (enter_key PISM_REPEATED_DESIGNATED)) (pism_view prt)"
  "pism_view (PISM_to_INFERIOR_DESIGNATED k prt) =
     apsnd (upd_nth k (enter_key PISM_INFERIOR_DESIGNATED)) (pism_view prt)"
  "pism_view (PISM_to_NOT_DESIGNATED br k prt) =
     apsnd (upd_nth k (enter_key PISM_NOT_DESIGNATED)) (pism_view prt)"
proof -
  have last: "pism_view (upd_ptp k (\<lambda>x. x\<lparr>rcvdMsg := False\<rparr>) p) =
      apsnd (upd_nth k (\<lambda>(s, msg, upd, info). (s, False, upd, info))) (pism_view p)" for p
    by (rule pism_view_set) (simp add: pism_key_def)
  have first: "pism_view (upd_ptp k (\<lambda>x. x\<lparr>PISM_state := s'\<rparr>) p) =
      apsnd (upd_nth k (\<lambda>(s, msg, upd, info). (s', msg, upd, info))) (pism_view p)" for s' p
    by (rule pism_view_set) (simp add: pism_key_def)
  show "pism_view (PISM_to_REPEATED_DESIGNATED br k prt) =
      apsnd (upd_nth k (enter_key PISM_REPEATED_DESIGNATED)) (pism_view prt)"
    by (simp add: PISM_to_REPEATED_DESIGNATED_def Let_def last first pism_view_procedures
        pism_view_internal apsnd_upd_nth_comp enter_key_message case_prod_unfold)
  show "pism_view (PISM_to_INFERIOR_DESIGNATED k prt) =
      apsnd (upd_nth k (enter_key PISM_INFERIOR_DESIGNATED)) (pism_view prt)"
    by (simp add: PISM_to_INFERIOR_DESIGNATED_def last first pism_view_procedures
        apsnd_upd_nth_comp enter_key_message case_prod_unfold)
  show "pism_view (PISM_to_NOT_DESIGNATED br k prt) =
      apsnd (upd_nth k (enter_key PISM_NOT_DESIGNATED)) (pism_view prt)"
    by (simp add: PISM_to_NOT_DESIGNATED_def last first pism_view_procedures
        apsnd_upd_nth_comp enter_key_message case_prod_unfold)
qed

lemma pism_view_SUPERIOR_DESIGNATED:
  "pism_view (PISM_to_SUPERIOR_DESIGNATED br k prt) =
     apsnd (upd_nth k (enter_key PISM_SUPERIOR_DESIGNATED)) (pism_view prt)"
proof -
  have last: "pism_view (upd_ptp k (\<lambda>x. x\<lparr>infoIs := ioReceived, reselect := True, selected := False,
        rcvdMsg := False\<rparr>) p) =
      apsnd (upd_nth k (\<lambda>(s, msg, upd, info). (s, False, upd, ioReceived))) (pism_view p)" for p
    by (rule pism_view_set) (simp add: pism_key_def)
  have first: "pism_view (upd_ptp k (\<lambda>x. x\<lparr>PISM_state := PISM_SUPERIOR_DESIGNATED, agreed := False,
        proposing := False\<rparr>) p) =
      apsnd (upd_nth k (\<lambda>(s, msg, upd, info). (PISM_SUPERIOR_DESIGNATED, msg, upd, info)))
        (pism_view p)" for p
    by (rule pism_view_set) (simp add: pism_key_def)
  have mid: "pism_view (upd_ptp k (\<lambda>x. x\<lparr>agree := agree x \<and> betterorsameInfo x ioReceived\<rparr>) p) = pism_view p"
    "pism_view (upd_ptp k (\<lambda>x. x\<lparr>synced := synced x \<and> agreed x\<rparr>) p) = pism_view p" for p
    by (rule pism_view_upd_ptp, simp add: pism_key_def)+
  show ?thesis
    by (simp add: PISM_to_SUPERIOR_DESIGNATED_def Let_def last first mid pism_view_procedures
        pism_view_internal apsnd_upd_nth_comp enter_key_message case_prod_unfold)
qed

lemma pism_view_RECEIVE:
  "pism_view (PISM_to_RECEIVE br k prt) = apsnd (upd_nth k (enter_key PISM_RECEIVE)) (pism_view prt)"
proof -
  have "pism_view (upd_ptp k (\<lambda>x. x\<lparr>rcvdInfo := info\<rparr>) p) = pism_view p" for info p
    by (rule pism_view_upd_ptp) (simp add: pism_key_def)
  moreover have "pism_view (upd_ptp k (\<lambda>x. x\<lparr>PISM_state := PISM_RECEIVE\<rparr>) prt) =
      apsnd (upd_nth k (enter_key PISM_RECEIVE)) (pism_view prt)"
    by (rule pism_view_set) (simp add: pism_key_def enter_key_def)
  moreover have "pism_view p1 = pism_view p" if "rcvInfo br k p = (info, p1)" for info p p1
    using pism_view_rcvInfo [of br k p] that by simp
  ultimately show ?thesis
    by (simp add: PISM_to_RECEIVE_def pism_view_procedures split: prod.split)
qed

subsection \<open>Termination\<close>

text \<open>
  A pending update weighs most, then stale information of a disabled port, then an unread
  message; each transition pays for what it leaves behind.
\<close>

definition pism_weight :: "bool \<Rightarrow> PISM_states_t \<times> bool \<times> bool \<times> port_info_origin_t \<Rightarrow> nat" where
  "pism_weight enabled v =
    (case v of (s, msg, upd, info) \<Rightarrow>
       64 * of_bool upd + 32 * of_bool (\<not> enabled \<and> info \<noteq> ioDisabled)
       + (if s = PISM_RECEIVE then 40
          else 48 * of_bool msg
               + (if s = PISM_AGED then 1 else if s = PISM_CURRENT \<or> s = PISM_DISABLED then 2 else 3)))"

definition PISM_mu :: "nat \<Rightarrow> port_t \<Rightarrow> nat" where
  "PISM_mu k prt = pism_weight (portEnabled prt) (pism_key (ptp_of prt k))"

definition has_entry :: "nat \<Rightarrow> port_t \<Rightarrow> bool" where
  "has_entry k prt \<longleftrightarrow> k < length (port_trees prt)"

lemma pism_view_entry:
  assumes "has_entry k prt" and "pism_view t = apsnd (upd_nth k h) (pism_view prt)"
  shows "has_entry k t" and "portEnabled t = portEnabled prt"
    and "pism_key (ptp_of t k) = h (pism_key (ptp_of prt k))"
proof -
  have pe: "portEnabled t = portEnabled prt"
    and keys: "map pism_key (port_trees t) = upd_nth k h (map pism_key (port_trees prt))"
    using assms(2) by (simp_all add: pism_view_def)
  then have len: "length (port_trees t) = length (port_trees prt)"
    by (metis length_map length_upd_nth)
  show "has_entry k t" using assms(1) len by (simp add: has_entry_def)
  show "portEnabled t = portEnabled prt" by (rule pe)
  have "pism_key (ptp_of t k) = map pism_key (port_trees t) ! k"
    using assms(1) len by (simp add: has_entry_def)
  then show "pism_key (ptp_of t k) = h (pism_key (ptp_of prt k))"
    using assms(1) keys by (simp add: has_entry_def)
qed

lemma PISM_step_cases:
  assumes "PISM_step br k prt = Enter t"
  defines "x \<equiv> ptp_of prt k"
  obtains
    (DISABLED) "t = PISM_to_DISABLED k prt"
      "\<not> portEnabled prt \<and> infoIs x \<noteq> ioDisabled \<or> PISM_state x = PISM_DISABLED \<and> rcvdMsg x"
  | (AGED) "t = PISM_to_AGED k prt" "portEnabled prt"
      "PISM_state x = PISM_DISABLED \<or> PISM_state x = PISM_CURRENT \<and> infoIs x = ioReceived"
  | (UPDATE) "t = PISM_to_UPDATE k prt" "updtInfo x" "selected x"
      "PISM_state x = PISM_AGED \<or> PISM_state x = PISM_CURRENT"
  | (CURRENT) "t = PISM_to_CURRENT k prt"
      "PISM_state x \<noteq> PISM_DISABLED" "PISM_state x \<noteq> PISM_AGED" "PISM_state x \<noteq> PISM_CURRENT"
      "PISM_state x \<noteq> PISM_RECEIVE"
  | (RECEIVE) "t = PISM_to_RECEIVE br k prt" "PISM_state x = PISM_CURRENT" "rcvdMsg x"
  | (SUPERIOR) "t = PISM_to_SUPERIOR_DESIGNATED br k prt" "PISM_state x = PISM_RECEIVE"
  | (REPEATED) "t = PISM_to_REPEATED_DESIGNATED br k prt" "PISM_state x = PISM_RECEIVE"
  | (INFERIOR) "t = PISM_to_INFERIOR_DESIGNATED k prt" "PISM_state x = PISM_RECEIVE"
  | (NOT_DESIGNATED) "t = PISM_to_NOT_DESIGNATED br k prt" "PISM_state x = PISM_RECEIVE"
  | (OTHER) "t = PISM_to_OTHER k prt" "PISM_state x = PISM_RECEIVE"
proof (cases "\<not> portEnabled prt \<and> infoIs x \<noteq> ioDisabled")
  case True
  with assms have "t = PISM_to_DISABLED k prt"
    by (simp add: PISM_step_def Let_def)
  with True show ?thesis by (intro DISABLED) auto
next
  case False
  note step = assms(1) [unfolded PISM_step_def Let_def, folded x_def]
  have rx: "rcvdXstMsg k prt \<Longrightarrow> rcvdMsg x"
    by (simp add: rcvdXstMsg_def x_def split: if_splits)
  show ?thesis
  proof (cases "PISM_state x")
    case PISM_DISABLED
    with step False show ?thesis by (auto intro: DISABLED AGED split: if_splits)
  next
    case PISM_AGED
    with step False show ?thesis by (auto intro: UPDATE split: if_splits)
  next
    case PISM_CURRENT
    with step False rx show ?thesis
      by (auto intro: RECEIVE AGED UPDATE split: if_splits)
  next
    case PISM_RECEIVE
    with step False show ?thesis
      by (cases "rcvdInfo x")
        (auto intro: SUPERIOR REPEATED INFERIOR NOT_DESIGNATED OTHER split: if_splits)
  qed (use step False in \<open>auto intro: CURRENT split: if_splits\<close>)
qed

lemma PISM_step_view:
  assumes "PISM_step br k prt = Enter t"
  shows "\<exists>s'. pism_view t = apsnd (upd_nth k (enter_key s')) (pism_view prt)
    \<and> pism_weight (portEnabled prt) (enter_key s' (pism_key (ptp_of prt k)))
         < pism_weight (portEnabled prt) (pism_key (ptp_of prt k))"
proof -
  note views = pism_view_entries pism_view_message_entries pism_view_SUPERIOR_DESIGNATED
    pism_view_RECEIVE
  note weights = pism_weight_def enter_key_def pism_key_def
  show ?thesis
    using assms
  proof (cases rule: PISM_step_cases)
    case DISABLED
    then show ?thesis by (auto simp: views weights intro!: exI [of _ PISM_DISABLED])
  next
    case AGED
    then show ?thesis by (auto simp: views weights intro!: exI [of _ PISM_AGED])
  next
    case UPDATE
    then show ?thesis by (auto simp: views weights intro!: exI [of _ PISM_UPDATE])
  next
    case CURRENT
    then show ?thesis by (auto simp: views weights intro!: exI [of _ PISM_CURRENT])
  next
    case RECEIVE
    then show ?thesis by (auto simp: views weights intro!: exI [of _ PISM_RECEIVE])
  next
    case SUPERIOR
    then show ?thesis by (auto simp: views weights intro!: exI [of _ PISM_SUPERIOR_DESIGNATED])
  next
    case REPEATED
    then show ?thesis by (auto simp: views weights intro!: exI [of _ PISM_REPEATED_DESIGNATED])
  next
    case INFERIOR
    then show ?thesis by (auto simp: views weights intro!: exI [of _ PISM_INFERIOR_DESIGNATED])
  next
    case NOT_DESIGNATED
    then show ?thesis by (auto simp: views weights intro!: exI [of _ PISM_NOT_DESIGNATED])
  next
    case OTHER
    then show ?thesis by (auto simp: views weights intro!: exI [of _ PISM_OTHER])
  qed
qed

lemma PISM_step_no_Last: "PISM_step br k prt \<noteq> Last t"
  by (simp add: PISM_step_def Let_def split: PISM_states_t.split port_info_t.split)

interpretation pism: sm_quiescent "PISM_step br k" "has_entry k" "PISM_mu k" for br k
proof
  fix s t
  assume s: "has_entry k s" and step: "PISM_step br k s = Enter t"
  from PISM_step_view [OF step] obtain s' where
    view: "pism_view t = apsnd (upd_nth k (enter_key s')) (pism_view s)"
    and less: "pism_weight (portEnabled s) (enter_key s' (pism_key (ptp_of s k)))
      < pism_weight (portEnabled s) (pism_key (ptp_of s k))" by blast
  show "has_entry k t" by (rule pism_view_entry(1) [OF s view])
  show "PISM_mu k t < PISM_mu k s"
    using less pism_view_entry(2,3) [OF s view] by (simp add: PISM_mu_def)
qed (simp_all add: PISM_step_no_Last)

lemma PISM_stay_iff_settled:
  assumes "PISM_step br k t = Stay"
  shows "if portEnabled t
    then PISM_state (ptp_of t k) = PISM_AGED \<or> PISM_state (ptp_of t k) = PISM_CURRENT
    else infoIs (ptp_of t k) = ioDisabled"
  using assms
  by (cases "PISM_state (ptp_of t k)"; cases "rcvdInfo (ptp_of t k)")
    (auto simp: PISM_step_def Let_def split: if_splits)

text \<open>
  Port Information returns from every state and ends where nothing more is to be done: the
  port holds current or aged information, or none when it is disabled, and a message that
  may be processed has been.
\<close>

theorem PISM_run_settles:
  assumes "k < length (port_trees prt)"
  shows "\<exists>t. PISM_run br k prt False = Some (False, t) \<and> PISM_run br k t True = Some (False, t)
    \<and> portEnabled t = portEnabled prt \<and> length (port_trees t) = length (port_trees prt)
    \<and> (if portEnabled prt
       then PISM_state (ptp_of t k) = PISM_AGED \<or> PISM_state (ptp_of t k) = PISM_CURRENT
       else infoIs (ptp_of t k) = ioDisabled)
    \<and> (PISM_state (ptp_of t k) = PISM_CURRENT \<longrightarrow> rcvdXstMsg k t \<longrightarrow> updtXstInfo k t)"
proof -
  from assms obtain t where run: "sm_run (PISM_step br k) prt = Some t"
    using pism.run_returns [of k prt br] by (auto simp: has_entry_def)
  have stay: "PISM_step br k t = Stay"
    using pism.run_quiescent [OF _ run] assms by (simp add: has_entry_def)
  let ?same = "\<lambda>s. portEnabled s = portEnabled prt \<and> length (port_trees s) = length (port_trees prt)"
  have same: "?same t"
  proof (rule sm_run_preserves [OF run, where I = ?same])
    fix s s'
    assume s: "?same s" and "PISM_step br k s = Enter s'"
    from PISM_step_view [OF this(2)] obtain h
      where view: "pism_view s' = apsnd (upd_nth k h) (pism_view s)" by blast
    then have "map pism_key (port_trees s') = upd_nth k h (map pism_key (port_trees s))"
      and "portEnabled s' = portEnabled s" by (simp_all add: pism_view_def)
    with s show "?same s'" by (metis length_map length_upd_nth)
  qed (simp_all add: PISM_step_no_Last)
  have "PISM_state (ptp_of t k) = PISM_CURRENT \<longrightarrow> rcvdXstMsg k t \<longrightarrow> updtXstInfo k t"
    using stay by (auto simp: PISM_step_def Let_def split: if_splits)
  with run stay same PISM_stay_iff_settled [OF stay] show ?thesis
    by (auto simp: PISM_run_def sm_exec_def)
qed

lemma PISM_run_settles_witness:
  "\<exists>t. PISM_run zero_bridge 0 (zero_port\<lparr>portEnabled := True, port_trees := [zero_ptp]\<rparr>) False
      = Some (False, t)"
  using PISM_run_settles [of 0 "zero_port\<lparr>portEnabled := True, port_trees := [zero_ptp]\<rparr>" zero_bridge]
  by auto

end
