(* ===== verification/MSTP_Roles.thy ===== *)
theory MSTP_Roles
  imports MSTP_PortInfo
begin

section \<open>13.33 Port Role Selection\<close>

text \<open>
  \<open>updtRolesTree\<close> computes the root priority vector of a tree, the designated vectors of its
  ports, and the role each port is to take; the Port Role Selection machine runs it whenever
  a port of the tree asks for reselection.
\<close>

subsection \<open>Clauses a) and b): the root priority vector\<close>

definition root_path_priority ::
  "tree_t \<Rightarrow> port_t \<Rightarrow> per_tree_port_t \<Rightarrow> port_priority_vector_t" where
  "root_path_priority tree prt ptp =
    (let v = portPriority ptp in
     if rcvdInternal prt then
       v\<lparr>IntRootPathCost := IntRootPathCost v + InternalPortPathCost ptp\<rparr>
     else if tree_MSTID tree = 0 then
       v\<lparr>ExtRootPathCost := ExtRootPathCost v + ExternalPortPathCost prt,
         RRootID := BridgeIdentifier tree, IntRootPathCost := 0\<rparr>
     else v)"

definition is_root_candidate :: "tree_t \<Rightarrow> port_t \<Rightarrow> per_tree_port_t \<Rightarrow> bool" where
  "is_root_candidate tree prt ptp \<longleftrightarrow>
     infoIs ptp = ioReceived \<and> \<not> restrictedRole prt
     \<and> DesignatedBridgeID (portPriority ptp) \<noteq> BridgeIdentifier tree"

text \<open>
  The loop over the ports. Its state is \<^verbatim>\<open>tree->rootPriority\<close>, \<^verbatim>\<open>tree->rootPortId\<close>
  and \<^verbatim>\<open>root_ptp\<close>, the index of the best candidate so far.
\<close>

type_synonym root_choice = "port_priority_vector_t \<times> port_identifier_t \<times> nat option"

fun select_root :: "tree_t \<Rightarrow> nat \<Rightarrow> port_t list \<Rightarrow> nat \<Rightarrow> root_choice \<Rightarrow> root_choice" where
  "select_root tree k [] i best = best"
| "select_root tree k (prt # prts) i (rootPri, rootPid, root_ptp) =
    (let ptp = ptp_of prt k; rp = root_path_priority tree prt ptp in
     if is_root_candidate tree prt ptp
        \<and> betterorsamePriority rp rootPri (portId ptp) rootPid (tree_MSTID tree = 0)
     then select_root tree k prts (Suc i) (rp, portId ptp, Some i)
     else select_root tree k prts (Suc i) (rootPri, rootPid, root_ptp))"

definition root_choice :: "bridge_t \<Rightarrow> nat \<Rightarrow> root_choice" where
  "root_choice br k =
    (let tree = tree_at br k in select_root tree k (ports br) 0 (BridgePriority tree, 0, None))"

subsection \<open>Clause c): the root times\<close>

definition root_times :: "bridge_t \<Rightarrow> nat \<Rightarrow> nat option \<Rightarrow> times_t" where
  "root_times br k root_ptp =
    (case root_ptp of
       None \<Rightarrow> BridgeTimes (tree_at br k)
     | Some r \<Rightarrow>
         (let t = portTimes (ptp_at br r k) in
          if rcvdInternal (port_at br r) then
            (if remainingHops t \<noteq> 0 then t\<lparr>remainingHops := remainingHops t - 1\<rparr> else t)
          else t\<lparr>Message_Age := Message_Age t + 1\<rparr>))"

subsection \<open>Clauses d) and e): the designated vectors and times\<close>

definition set_designated :: "tree_t \<Rightarrow> port_t \<Rightarrow> per_tree_port_t \<Rightarrow> per_tree_port_t" where
  "set_designated tree prt ptp =
    (let v = (rootPriority tree)\<lparr>DesignatedBridgeID := BridgeIdentifier tree,
                                DesignatedPortID := portId ptp\<rparr>;
         v' = (if tree_MSTID tree = 0 \<and> \<not> sendRSTP prt
               then v\<lparr>RRootID := BridgeIdentifier tree\<rparr> else v)
     in ptp\<lparr>designatedPriority := v',
            designatedTimes := (rootTimes tree)\<lparr>Hello_Time := Hello_Time (portTimes ptp)\<rparr>\<rparr>)"

subsection \<open>Clauses f) to m): the roles\<close>

definition not_same_as_designated :: "per_tree_port_t \<Rightarrow> bool \<Rightarrow> bool" where
  "not_same_as_designated ptp cist \<longleftrightarrow>
     \<not> samePriorityAndTimers (portPriority ptp) (designatedPriority ptp)
         (portTimes ptp) (designatedTimes ptp) cist"

text \<open>Clause g): an MSTI at a port whose CIST information was received from another region.\<close>

definition boundary_role :: "port_t \<Rightarrow> per_tree_port_t \<Rightarrow> per_tree_port_t" where
  "boundary_role prt ptp =
    (let cr = selectedRole (cist_of prt);
         ptp1 = ptp\<lparr>selectedRole := (if cr = roleRoot then roleMaster else cr)\<rparr>
     in if not_same_as_designated ptp False then ptp1\<lparr>updtInfo := True\<rparr> else ptp1)"

text \<open>Clauses j) to m): received information.\<close>

definition received_role :: "tree_t \<Rightarrow> bool \<Rightarrow> per_tree_port_t \<Rightarrow> per_tree_port_t" where
  "received_role tree is_root ptp =
    (if is_root then ptp\<lparr>selectedRole := roleRoot, updtInfo := False\<rparr>
     else if betterorsamePriority (portPriority ptp) (designatedPriority ptp) 0 0
               (tree_MSTID tree = 0)
     then ptp\<lparr>selectedRole :=
                (if DesignatedBridgeID (portPriority ptp) \<noteq> BridgeIdentifier tree
                 then roleAlternate else roleBackup),
              updtInfo := False\<rparr>
     else ptp\<lparr>selectedRole := roleDesignated, updtInfo := True\<rparr>)"

definition select_role :: "tree_t \<Rightarrow> nat \<Rightarrow> nat option \<Rightarrow> nat \<Rightarrow> port_t \<Rightarrow> port_t" where
  "select_role tree k root_ptp i prt =
    (let ptp = ptp_of prt k; cist = (tree_MSTID tree = 0) in
     if infoIs ptp = ioDisabled then upd_ptp k (\<lambda>x. x\<lparr>selectedRole := roleDisabled\<rparr>) prt
     else if \<not> cist \<and> infoIs (cist_of prt) = ioReceived \<and> \<not> infoInternal prt then
       upd_ptp k (boundary_role prt) prt
     else if infoIs ptp = ioAged then
       upd_ptp k (\<lambda>x. x\<lparr>selectedRole := roleDesignated, updtInfo := True\<rparr>) prt
     else if infoIs ptp = ioMine then
       upd_ptp k (\<lambda>x.
         if not_same_as_designated ptp cist
         then x\<lparr>selectedRole := roleDesignated, updtInfo := True\<rparr>
         else x\<lparr>selectedRole := roleDesignated\<rparr>) prt
     else
       (let prt1 = upd_ptp k (received_role tree (root_ptp = Some i)) prt
        in if cist \<and> selectedRole (ptp_of prt1 k) \<noteq> role (ptp_of prt1 k)
           then reselectMSTIs prt1 else prt1))"

text \<open>The third loop. A port's CIST entry is at hand in the port itself.\<close>

definition select_roles :: "nat \<Rightarrow> nat option \<Rightarrow> bridge_t \<Rightarrow> bridge_t" where
  "select_roles k root_ptp br =
     br\<lparr>ports := map (\<lambda>i. select_role (tree_at br k) k root_ptp i (port_at br i))
                   [0..<length (ports br)]\<rparr>"

definition updtRolesTree :: "nat \<Rightarrow> bridge_t \<Rightarrow> bridge_t" where
  "updtRolesTree k br =
    (let prevRRootID = RRootID (rootPriority (tree_at br k));
         prevExtRootPathCost = ExtRootPathCost (rootPriority (tree_at br k));
         cist = (tree_MSTID (tree_at br k) = 0)
     in case root_choice br k of (rootPri, rootPid, root_ptp) \<Rightarrow>
       (let br1 = upd_tree k (\<lambda>t. t\<lparr>rootPriority := rootPri, rootPortId := rootPid,
                    rootTimes := root_times br k root_ptp\<rparr>) br;
            br2 = ports_update (map (\<lambda>prt.
                    upd_ptp k (set_designated (tree_at br1 k) prt) prt)) br1;
            br3 = (if cist \<and> RRootID rootPri \<noteq> prevRRootID
                      \<and> (ExtRootPathCost rootPri \<noteq> 0 \<or> prevExtRootPathCost \<noteq> 0)
                   then syncMaster br2 else br2)
        in select_roles k root_ptp br3))"

subsection \<open>The machine\<close>

definition PRSSM_to_INIT_TREE :: "nat \<Rightarrow> bridge_t \<Rightarrow> bridge_t" where
  "PRSSM_to_INIT_TREE k br =
     updtRolesDisabledTree k (upd_tree k (\<lambda>t. t\<lparr>PRSSM_state := PRSSM_INIT_TREE\<rparr>) br)"

definition PRSSM_to_ROLE_SELECTION :: "nat \<Rightarrow> bridge_t \<Rightarrow> bridge_t" where
  "PRSSM_to_ROLE_SELECTION k br =
     setSelectedTree k (updtRolesTree k (clearReselectTree k
       (upd_tree k (\<lambda>t. t\<lparr>PRSSM_state := PRSSM_ROLE_SELECTION\<rparr>) br)))"

definition PRSSM_step :: "nat \<Rightarrow> bridge_t \<Rightarrow> bridge_t sm" where
  "PRSSM_step k br =
    (case PRSSM_state (tree_at br k) of
       PRSSM_INIT_TREE \<Rightarrow> Last (PRSSM_to_ROLE_SELECTION k br)
     | PRSSM_ROLE_SELECTION \<Rightarrow>
         (if list_ex reselect (tree_ptps br k) then Last (PRSSM_to_ROLE_SELECTION k br)
          else Stay))"

definition PRSSM_run_dry :: "nat \<Rightarrow> bridge_t \<Rightarrow> bool" where
  "PRSSM_run_dry k br =
    (case PRSSM_state (tree_at br k) of
       PRSSM_INIT_TREE \<Rightarrow> True
     | PRSSM_ROLE_SELECTION \<Rightarrow>
         (if list_ex reselect (tree_ptps br k) then True
          else False))"

definition PRSSM_run :: "nat \<Rightarrow> bridge_t \<Rightarrow> bool \<Rightarrow> (bool \<times> bridge_t) option" where
  "PRSSM_run k br dry_run = sm_exec (PRSSM_step k) (PRSSM_run_dry k) br dry_run"

lemma PRSSM_dry_fires [simp]: "PRSSM_run_dry k br = fires (PRSSM_step k br)"
  by (simp add: PRSSM_run_dry_def PRSSM_step_def split: PRSSM_states_t.split)

subsection \<open>The root priority vector is the best one\<close>

text \<open>The choice comes from port \<open>j\<close>.\<close>

definition chosen_from :: "tree_t \<Rightarrow> nat \<Rightarrow> port_t \<Rightarrow> nat \<Rightarrow> root_choice \<Rightarrow> bool" where
  "chosen_from tree k prt j c \<longleftrightarrow>
     is_root_candidate tree prt (ptp_of prt k)
     \<and> c = (root_path_priority tree prt (ptp_of prt k), portId (ptp_of prt k), Some j)"

lemma select_root_best:
  assumes "select_root tree k prts i (pv, pp, pr) = (v, pid, r)"
  defines "better \<equiv> \<lambda>a b p q. betterorsamePriority a b p q (tree_MSTID tree = 0)"
  shows "better v pv pid pp
    \<and> (\<forall>prt \<in> set prts. is_root_candidate tree prt (ptp_of prt k) \<longrightarrow>
         better v (root_path_priority tree prt (ptp_of prt k)) pid (portId (ptp_of prt k)))
    \<and> ((v, pid, r) = (pv, pp, pr)
       \<or> (\<exists>j < length prts. chosen_from tree k (prts ! j) (i + j) (v, pid, r)))"
  using assms(1)
proof (induction prts arbitrary: i pv pp pr)
  case Nil
  then show ?case by (simp add: better_def)
next
  case (Cons prt prts)
  let ?x = "ptp_of prt k" and ?rp = "root_path_priority tree prt (ptp_of prt k)"
  have later: "\<exists>j < length (prt # prts). chosen_from tree k ((prt # prts) ! j) (i + j) c"
    if "\<exists>j < length prts. chosen_from tree k (prts ! j) (Suc i + j) c" for c
  proof -
    from that obtain j where "j < length prts" "chosen_from tree k (prts ! j) (Suc i + j) c" by blast
    then show ?thesis by (intro exI [of _ "Suc j"]) simp
  qed
  show ?case
  proof (cases "is_root_candidate tree prt ?x \<and> better ?rp pv (portId ?x) pp")
    case True
    then have "select_root tree k prts (Suc i) (?rp, portId ?x, Some i) = (v, pid, r)"
      using Cons.prems by (simp add: better_def Let_def)
    from Cons.IH [OF this] have IH: "better v ?rp pid (portId ?x)"
      "\<forall>prt \<in> set prts. is_root_candidate tree prt (ptp_of prt k) \<longrightarrow>
         better v (root_path_priority tree prt (ptp_of prt k)) pid (portId (ptp_of prt k))"
      "(v, pid, r) = (?rp, portId ?x, Some i)
       \<or> (\<exists>j < length prts. chosen_from tree k (prts ! j) (Suc i + j) (v, pid, r))" by blast+
    from IH(1) True have "better v pv pid pp"
      by (auto simp: better_def intro: betterorsamePriority_trans)
    moreover have "\<exists>j < length (prt # prts). chosen_from tree k ((prt # prts) ! j) (i + j) (v, pid, r)"
      using IH(3)
    proof
      assume "(v, pid, r) = (?rp, portId ?x, Some i)"
      with True show ?thesis by (intro exI [of _ 0]) (simp add: chosen_from_def)
    qed (rule later)
    ultimately show ?thesis using IH(1,2) by simp
  next
    case False
    then have "select_root tree k prts (Suc i) (pv, pp, pr) = (v, pid, r)"
      using Cons.prems by (auto simp: better_def Let_def)
    note IH = Cons.IH [OF this]
    have "better v ?rp pid (portId ?x)" if "is_root_candidate tree prt ?x"
    proof -
      from that False have "better pv ?rp pp (portId ?x)"
        using betterorsamePriority_total [of pv ?rp pp "portId ?x" "tree_MSTID tree = 0"]
        by (auto simp: better_def)
      with IH show ?thesis by (auto simp: better_def intro: betterorsamePriority_trans)
    qed
    with IH later show ?thesis by auto
  qed
qed

text \<open>
  C8. Clauses a) and b) of 13.26.23: the vector \<open>updtRolesTree\<close> takes as root priority vector is
  at least as good as the bridge's own and as every root path priority vector its ports
  offer, and it is one of them: the bridge's own if no port is root port, otherwise that of
  the root port, a port with received information from another bridge and without a
  restricted role.
\<close>

theorem root_choice_optimal:
  "case root_choice br k of (v, pid, r) \<Rightarrow>
     let tree = tree_at br k; better = (\<lambda>a b p q. betterorsamePriority a b p q (tree_MSTID tree = 0))
     in better v (BridgePriority tree) pid 0
        \<and> (\<forall>prt \<in> set (ports br). is_root_candidate tree prt (ptp_of prt k) \<longrightarrow>
             better v (root_path_priority tree prt (ptp_of prt k)) pid (portId (ptp_of prt k)))
        \<and> (case r of
             None \<Rightarrow> v = BridgePriority tree \<and> pid = 0
           | Some i \<Rightarrow> i < length (ports br)
               \<and> is_root_candidate tree (port_at br i) (ptp_at br i k)
               \<and> v = root_path_priority tree (port_at br i) (ptp_at br i k)
               \<and> pid = portId (ptp_at br i k))"
proof -
  obtain v pid r where c: "root_choice br k = (v, pid, r)" by (metis prod_cases3)
  then have "select_root (tree_at br k) k (ports br) 0 (BridgePriority (tree_at br k), 0, None) = (v, pid, r)"
    by (simp add: root_choice_def Let_def)
  from select_root_best [OF this] c show ?thesis
    by (auto simp: Let_def chosen_from_def)
qed

subsection \<open>The ports after a role selection\<close>

lemma trees_syncMaster [simp]: "trees (syncMaster br) = trees br"
  by (simp add: syncMaster_def)

text \<open>The bridge the third loop of \<open>updtRolesTree\<close> starts from.\<close>

definition role_inputs :: "nat \<Rightarrow> bridge_t \<Rightarrow> bridge_t" where
  "role_inputs k br =
    (case root_choice br k of (rootPri, rootPid, root_ptp) \<Rightarrow>
       let prev = rootPriority (tree_at br k);
           br1 = upd_tree k (\<lambda>t. t\<lparr>rootPriority := rootPri, rootPortId := rootPid,
                   rootTimes := root_times br k root_ptp\<rparr>) br;
           br2 = ports_update (map (\<lambda>prt. upd_ptp k (set_designated (tree_at br1 k) prt) prt)) br1
       in if tree_MSTID (tree_at br k) = 0 \<and> RRootID rootPri \<noteq> RRootID prev
             \<and> (ExtRootPathCost rootPri \<noteq> 0 \<or> ExtRootPathCost prev \<noteq> 0)
          then syncMaster br2 else br2)"

lemma updtRolesTree_select:
  "updtRolesTree k br = select_roles k (snd (snd (root_choice br k))) (role_inputs k br)"
  by (simp add: updtRolesTree_def role_inputs_def Let_def split: prod.split)

text \<open>What role selection reads of an entry and does not change before the roles are chosen.\<close>

definition role_kept :: "per_tree_port_t \<Rightarrow> per_tree_port_t \<Rightarrow> bool" where
  "role_kept x y \<longleftrightarrow> infoIs y = infoIs x \<and> portPriority y = portPriority x
     \<and> portTimes y = portTimes x \<and> portId y = portId x \<and> role y = role x
     \<and> selectedRole y = selectedRole x \<and> reselect y = reselect x \<and> selected y = selected x
     \<and> updtInfo y = updtInfo x"

lemma role_kept_refl [simp]: "role_kept x x"
  by (simp add: role_kept_def)

lemma role_kept_set_designated [simp]: "role_kept x (set_designated tree prt x)"
  by (simp add: role_kept_def set_designated_def Let_def)

definition port_kept :: "port_t \<Rightarrow> port_t \<Rightarrow> bool" where
  "port_kept p q \<longleftrightarrow> length (port_trees q) = length (port_trees p) \<and> infoInternal q = infoInternal p
     \<and> (\<forall>j < length (port_trees p). role_kept (ptp_of p j) (ptp_of q j))"

lemma port_kept_trans: "port_kept p q \<Longrightarrow> port_kept q r \<Longrightarrow> port_kept p r"
  by (auto simp: port_kept_def role_kept_def)

lemma nth_take_map_drop:
  "j < length xs \<Longrightarrow> (take n xs @ map f (drop n xs)) ! j = (if j < n then xs ! j else f (xs ! j))"
  by (auto simp: nth_append)

lemma port_kept_upd_ptp:
  "(\<And>x. role_kept x (f x)) \<Longrightarrow> port_kept p (upd_ptp k f p)"
  by (cases "k < length (port_trees p)")
    (simp_all add: port_kept_def upd_nth_beyond, simp_all add: upd_ptp_def)

lemma port_kept_after:
  "(\<And>x. role_kept x (f x)) \<Longrightarrow> port_kept p (map_ptps_after k f p)"
  by (simp add: port_kept_def nth_take_map_drop) (simp add: map_ptps_after_def)

lemma designated_after:
  "(\<And>x. designatedPriority (f x) = designatedPriority x) \<Longrightarrow> j < length (port_trees p)
    \<Longrightarrow> designatedPriority (ptp_of (map_ptps_after k f p) j) = designatedPriority (ptp_of p j)"
  by (simp add: nth_take_map_drop)

lemma role_inputs_port:
  assumes "p < length (ports br)" and "k < length (port_trees (port_at br p))"
  shows "length (ports (role_inputs k br)) = length (ports br)
    \<and> port_kept (port_at br p) (port_at (role_inputs k br) p)
    \<and> tree_MSTID (tree_at (role_inputs k br) k) = tree_MSTID (tree_at br k)
    \<and> BridgeIdentifier (tree_at (role_inputs k br) k) = BridgeIdentifier (tree_at br k)"
proof -
  obtain v pid r where c: "root_choice br k = (v, pid, r)" by (metis prod_cases3)
  let ?br1 = "upd_tree k (\<lambda>t. t\<lparr>rootPriority := v, rootPortId := pid, rootTimes := root_times br k r\<rparr>) br"
  let ?f = "\<lambda>prt. upd_ptp k (set_designated (tree_at ?br1 k) prt) prt"
  let ?g = "\<lambda>x. x\<lparr>agree := False, agreed := False, synced := False, sync := True\<rparr>"
  let ?br2 = "ports_update (map ?f) ?br1"
  have kept2: "port_kept (port_at br p) (port_at ?br2 p)"
    using assms by (simp add: port_kept_upd_ptp)
  have kept3: "port_kept (port_at ?br2 p) (port_at (syncMaster ?br2) p)"
    using assms by (simp add: syncMaster_def port_kept_after role_kept_def)
      (simp add: port_kept_def)
  have trees: "tree_MSTID (tree_at ?br2 k) = tree_MSTID (tree_at br k)"
    "BridgeIdentifier (tree_at ?br2 k) = BridgeIdentifier (tree_at br k)"
    by (cases "k < length (trees br)", simp_all add: upd_nth_beyond)+
  have inp: "role_inputs k br = ?br2 \<or> role_inputs k br = syncMaster ?br2"
    by (simp add: role_inputs_def c Let_def)
  have kept: "port_kept (port_at br p) (port_at (role_inputs k br) p)"
    using inp kept2 port_kept_trans [OF kept2 kept3] by (elim disjE) (simp_all only:)
  have "length (ports (role_inputs k br)) = length (ports br)"
    using inp by (elim disjE) (simp_all only: syncMaster_def, simp_all)
  moreover have "trees (role_inputs k br) = trees ?br2"
    using inp by (elim disjE) (simp_all only: trees_syncMaster)
  moreover note kept trees
  ultimately show ?thesis by simp
qed

subsection \<open>The role chosen\<close>

definition msti_boundary :: "nat \<Rightarrow> port_t \<Rightarrow> bool" where
  "msti_boundary k prt \<longleftrightarrow> k \<noteq> 0 \<and> infoIs (cist_of prt) = ioReceived \<and> \<not> infoInternal prt"

definition chosen_role :: "tree_t \<Rightarrow> nat \<Rightarrow> nat option \<Rightarrow> nat \<Rightarrow> port_t \<Rightarrow> port_role_t" where
  "chosen_role tree k r i prt =
    (let x = ptp_of prt k in
     if infoIs x = ioDisabled then roleDisabled
     else if msti_boundary k prt then
       (if selectedRole (cist_of prt) = roleRoot then roleMaster else selectedRole (cist_of prt))
     else if infoIs x \<noteq> ioReceived then roleDesignated
     else if r = Some i then roleRoot
     else if betterorsamePriority (portPriority x) (designatedPriority x) 0 0 (k = 0) then
       (if DesignatedBridgeID (portPriority x) \<noteq> BridgeIdentifier tree then roleAlternate
        else roleBackup)
     else roleDesignated)"

lemma select_role_at:
  assumes "k < length (port_trees prt)" and "tree_MSTID tree = 0 \<longleftrightarrow> k = 0"
  shows "selectedRole (ptp_of (select_role tree k r i prt) k) = chosen_role tree k r i prt
    \<and> infoIs (ptp_of (select_role tree k r i prt) k) = infoIs (ptp_of prt k)
    \<and> portPriority (ptp_of (select_role tree k r i prt) k) = portPriority (ptp_of prt k)
    \<and> designatedPriority (ptp_of (select_role tree k r i prt) k) = designatedPriority (ptp_of prt k)
    \<and> reselect (ptp_of (select_role tree k r i prt) k) = reselect (ptp_of prt k)
    \<and> infoIs (cist_of (select_role tree k r i prt)) = infoIs (cist_of prt)
    \<and> infoInternal (select_role tree k r i prt) = infoInternal prt"
proof -
  have ext: "infoInternal (upd_ptp j f q) = infoInternal q"
    "infoInternal (map_ptps_after j f q) = infoInternal q" for j f q
    by (simp_all add: upd_ptp_def map_ptps_after_def)
  show ?thesis
    using assms
    by (cases "k = 0"; cases "infoIs (ptp_of prt k)")
      (simp_all add: select_role_def chosen_role_def msti_boundary_def Let_def boundary_role_def
        received_role_def reselectMSTIs_def ext nth_take_map_drop)
qed

lemma port_select_roles:
  "p < length (ports br) \<Longrightarrow> port_at (select_roles k r br) p = select_role (tree_at br k) k r p (port_at br p)"
  by (simp add: select_roles_def)

text \<open>One port after the whole of \<open>updtRolesTree\<close>.\<close>

lemma updtRolesTree_port:
  assumes "p < length (ports br)" and "k < length (port_trees (port_at br p))"
    and "tree_MSTID (tree_at br k) = 0 \<longleftrightarrow> k = 0"
  defines "br' \<equiv> updtRolesTree k br"
  shows "length (ports br') = length (ports br)
    \<and> selectedRole (ptp_at br' p k)
        = chosen_role (tree_at (role_inputs k br) k) k (snd (snd (root_choice br k))) p
            (port_at (role_inputs k br) p)
    \<and> infoIs (ptp_at br' p k) = infoIs (ptp_at br p k)
    \<and> portPriority (ptp_at br' p k) = portPriority (ptp_at br p k)
    \<and> designatedPriority (ptp_at br' p k) = designatedPriority (ptp_at (role_inputs k br) p k)
    \<and> reselect (ptp_at br' p k) = reselect (ptp_at br p k)
    \<and> msti_boundary k (port_at (role_inputs k br) p) = msti_boundary k (port_at br p)
    \<and> selectedRole (cist_of (port_at (role_inputs k br) p)) = selectedRole (ptp_at br p 0)"
proof -
  note inp = role_inputs_port [OF assms(1,2)]
  let ?q = "port_at (role_inputs k br) p"
  from inp have len: "k < length (port_trees ?q)" and p: "p < length (ports (role_inputs k br))"
    and cist: "tree_MSTID (tree_at (role_inputs k br) k) = 0 \<longleftrightarrow> k = 0"
    and kept: "port_kept (port_at br p) ?q"
    using assms by (auto simp: port_kept_def)
  have pos: "0 < length (port_trees (port_at br p))" by (rule le_less_trans [OF le0 assms(2)])
  have x: "role_kept (ptp_at br p k) (ptp_of ?q k)"
    and c: "role_kept (cist_of (port_at br p)) (cist_of ?q)"
    and i: "infoInternal ?q = infoInternal (port_at br p)"
    using kept assms(2) pos by (auto simp: port_kept_def)
  have "length (ports br') = length (ports br)"
    using inp by (simp add: br'_def updtRolesTree_select select_roles_def)
  moreover have "port_at br' p = select_role (tree_at (role_inputs k br) k) k
      (snd (snd (root_choice br k))) p ?q"
    using p by (simp add: br'_def updtRolesTree_select port_select_roles)
  ultimately show ?thesis
    using select_role_at [OF len cist, of "snd (snd (root_choice br k))" p] x c i
    by (simp add: role_kept_def msti_boundary_def)
qed

text \<open>
  C7. Clauses f) to m) of 13.26.23 as the code has them, in every port after \<open>updtRolesTree\<close>: f) a
  port without information is Disabled; g) for an MSTI, at a port whose CIST information came
  from another region, a CIST Root port is Master and any other CIST role is taken over (which is
  13.13 f), where the standard's clause 2) has the Alternate role only); at any other port, Root is
  the port the root vector came from and no other, Alternate and Backup ports have received
  information at least as good as the bridge's own, of another bridge and of this one
  respectively, a Designated port has either received nothing, or something strictly worse than
  what it sends, and no port is Master.
\<close>

theorem updtRolesTree_roles:
  assumes "p < length (ports br)" and "k < length (port_trees (port_at br p))"
    and "tree_MSTID (tree_at br k) = 0 \<longleftrightarrow> k = 0"
  shows "let x = ptp_at (updtRolesTree k br) p k; own = BridgeIdentifier (tree_at br k);
             cist_role = selectedRole (ptp_at br p 0);
             heard_better = betterorsamePriority (portPriority x) (designatedPriority x) 0 0 (k = 0)
         in if infoIs x = ioDisabled then selectedRole x = roleDisabled
            else if k \<noteq> 0 \<and> infoIs (ptp_at br p 0) = ioReceived \<and> \<not> infoInternal (port_at br p)
            then selectedRole x = (if cist_role = roleRoot then roleMaster else cist_role)
            else (selectedRole x = roleRoot \<longleftrightarrow>
                   infoIs x = ioReceived \<and> snd (snd (root_choice br k)) = Some p)
              \<and> (selectedRole x = roleAlternate \<longrightarrow>
                   infoIs x = ioReceived \<and> heard_better \<and> DesignatedBridgeID (portPriority x) \<noteq> own)
              \<and> (selectedRole x = roleBackup \<longrightarrow>
                   infoIs x = ioReceived \<and> heard_better \<and> DesignatedBridgeID (portPriority x) = own)
              \<and> (selectedRole x = roleDesignated \<and> infoIs x = ioReceived \<longrightarrow>
                   \<not> heard_better
                   \<and> betterorsamePriority (designatedPriority x) (portPriority x) 0 0 (k = 0))
              \<and> selectedRole x \<notin> {roleMaster, roleDisabled}"
proof -
  let ?q = "port_at (role_inputs k br) p"
  note out = updtRolesTree_port [OF assms] and inp = role_inputs_port [OF assms(1,2)]
  have kept: "infoIs (ptp_of ?q k) = infoIs (ptp_at br p k)"
    "portPriority (ptp_of ?q k) = portPriority (ptp_at br p k)"
    using inp assms(2) by (auto simp: port_kept_def role_kept_def)
  have total: "betterorsamePriority v w 0 0 c \<or> betterorsamePriority w v 0 0 c" for v w c
    by (rule betterorsamePriority_total)
  show ?thesis
  proof (cases "msti_boundary k (port_at br p)")
    case True
    with out kept show ?thesis
      by (cases "infoIs (ptp_at br p k)") (simp_all add: chosen_role_def Let_def, simp_all add: msti_boundary_def)
  next
    case False
    then have no: "\<not> (k \<noteq> 0 \<and> infoIs (ptp_at br p 0) = ioReceived \<and> \<not> infoInternal (port_at br p))"
      by (simp add: msti_boundary_def)
    from out inp kept False total show ?thesis unfolding if_not_P [OF no] Let_def
      by (cases "infoIs (ptp_at br p k)") (auto simp: chosen_role_def Let_def)
  qed
qed

text \<open>Witness material: a bridge that hears a better root on port 0.\<close>

definition hearing_port :: "bridge_identifier_t \<Rightarrow> port_t" where
  "hearing_port b = zero_port\<lparr>portEnabled := True, port_trees :=
     [zero_ptp\<lparr>infoIs := ioReceived, portPriority := zero_vector\<lparr>RootID := b, RRootID := b,
        DesignatedBridgeID := b\<rparr>\<rparr>]\<rparr>"

definition hearing_bridge :: bridge_t where
  "hearing_bridge = zero_bridge\<lparr>bridgeEnabled := True, ports := [hearing_port (BridgeId 1 1)],
     trees := [zero_tree\<lparr>BridgeIdentifier := BridgeId 2 2, BridgePriority :=
       zero_vector\<lparr>RootID := BridgeId 2 2, RRootID := BridgeId 2 2,
                   DesignatedBridgeID := BridgeId 2 2\<rparr>\<rparr>]\<rparr>"

lemma hearing_bridge_fields:
  "ports hearing_bridge = [hearing_port (BridgeId 1 1)]"
  "length (port_trees (hearing_port b)) = 1"
  "tree_MSTID (tree_at hearing_bridge 0) = 0"
  by (simp_all add: hearing_bridge_def hearing_port_def zero_tree_def)

text \<open>The neighbour's vector is chosen, as it beats the bridge's own.\<close>

lemma root_choice_optimal_witness:
  "case root_choice hearing_bridge 0 of (v, pid, r) \<Rightarrow>
     r = Some 0 \<and> v = root_path_priority (tree_at hearing_bridge 0) (port_at hearing_bridge 0)
                       (ptp_at hearing_bridge 0 0)
     \<and> betterorsamePriority v (BridgePriority (tree_at hearing_bridge 0)) pid 0 True"
proof -
  have root: "snd (snd (root_choice hearing_bridge 0)) = Some 0"
    by code_simp
  from root_choice_optimal [of hearing_bridge 0] show ?thesis
    using root by (auto simp: hearing_bridge_fields Let_def split: prod.splits)
qed

lemma updtRolesTree_roles_witness:
  "snd (snd (root_choice hearing_bridge 0)) = Some 0
   \<and> selectedRole (ptp_at (updtRolesTree 0 hearing_bridge) 0 0) = roleRoot"
proof -
  have root: "snd (snd (root_choice hearing_bridge 0)) = Some 0"
    by code_simp
  have "infoIs (ptp_at (updtRolesTree 0 hearing_bridge) 0 0) = ioReceived"
    by code_simp
  with root show ?thesis
    using updtRolesTree_roles [of 0 hearing_bridge 0]
    by (simp add: hearing_bridge_fields msti_boundary_def Let_def)
qed

subsection \<open>Port Role Selection settles\<close>

definition tree_ok :: "nat \<Rightarrow> bridge_t \<Rightarrow> bool" where
  "tree_ok k br \<longleftrightarrow> k < length (trees br) \<and> (tree_MSTID (tree_at br k) = 0 \<longleftrightarrow> k = 0)
     \<and> (\<forall>p < length (ports br). k < length (port_trees (port_at br p)))"

lemma PRSSM_state_updtRolesTree:
  "PRSSM_state (tree_at (updtRolesTree k br) k) = PRSSM_state (tree_at br k)"
  by (cases "k < length (trees br)")
    (auto simp: updtRolesTree_def select_roles_def Let_def upd_nth_beyond split: prod.split)

lemma length_select_role:
  "length (port_trees (select_role tree k r i prt)) = length (port_trees prt)"
  by (auto simp: select_role_def Let_def reselectMSTIs_def)

lemma ROLE_SELECTION_result:
  assumes "tree_ok k br"
  defines "t \<equiv> PRSSM_to_ROLE_SELECTION k br"
  shows "length (ports t) = length (ports br) \<and> PRSSM_state (tree_at t k) = PRSSM_ROLE_SELECTION
    \<and> (\<forall>p < length (ports t). selected (ptp_at t p k) \<and> \<not> reselect (ptp_at t p k))"
proof -
  let ?b = "clearReselectTree k (upd_tree k (\<lambda>t. t\<lparr>PRSSM_state := PRSSM_ROLE_SELECTION\<rparr>) br)"
  let ?u = "updtRolesTree k ?b"
  have t: "t = setSelectedTree k ?u"
    by (simp add: t_def PRSSM_to_ROLE_SELECTION_def)
  have b: "length (ports ?b) = length (ports br)"
    "tree_MSTID (tree_at ?b k) = 0 \<longleftrightarrow> k = 0" "PRSSM_state (tree_at ?b k) = PRSSM_ROLE_SELECTION"
    using assms by (simp_all add: tree_ok_def clearReselectTree_def)
  have entry: "k < length (port_trees (port_at ?b p)) \<and> \<not> reselect (ptp_at ?b p k)"
    if "p < length (ports br)" for p
    using assms that by (simp add: tree_ok_def clearReselectTree_def)
  have u: "length (ports ?u) = length (ports br) \<and> \<not> reselect (ptp_at ?u p k)
      \<and> k < length (port_trees (port_at ?u p))"
    if p: "p < length (ports br)" for p
  proof -
    have port: "p < length (ports ?b)" "k < length (port_trees (port_at ?b p))"
      using p b entry by auto
    note out = updtRolesTree_port [OF port b(2)]
    have "port_at ?u p = select_role (tree_at (role_inputs k ?b) k) k
        (snd (snd (root_choice ?b k))) p (port_at (role_inputs k ?b) p)"
      using role_inputs_port [OF port] port by (simp add: updtRolesTree_select port_select_roles)
    then have "length (port_trees (port_at ?u p)) = length (port_trees (port_at (role_inputs k ?b) p))"
      by (simp only: length_select_role)
    with out role_inputs_port [OF port] entry [OF p] b(1) show ?thesis
      by (simp add: port_kept_def)
  qed
  have len: "length (ports ?u) = length (ports br)"
    using b(1) by (simp add: updtRolesTree_def select_roles_def Let_def syncMaster_def split: prod.split)
  have "selected (ptp_at t p k) \<and> \<not> reselect (ptp_at t p k)" if "p < length (ports br)" for p
    using u [OF that] that by (simp add: t setSelectedTree_def)
  then show ?thesis
    using len b(3) PRSSM_state_updtRolesTree [of k ?b] by (simp add: t setSelectedTree_def)
qed

lemma PRSSM_step_no_Enter [simp]: "PRSSM_step k s \<noteq> Enter t"
  by (simp add: PRSSM_step_def split: PRSSM_states_t.split)

interpretation prssm: sm_quiescent "PRSSM_step k" "\<lambda>br. tree_ok k br \<or> PRSSM_step k br = Stay" "\<lambda>_. 0" for k
proof
  have last: "PRSSM_step k t = Stay"
    if "tree_ok k s \<or> PRSSM_step k s = Stay" and "PRSSM_step k s = Last t" for s t
  proof -
    from that have "tree_ok k s" and t: "t = PRSSM_to_ROLE_SELECTION k s"
      by (auto simp: PRSSM_step_def split: PRSSM_states_t.splits if_splits)
    from ROLE_SELECTION_result [OF this(1)] have
      "PRSSM_state (tree_at t k) = PRSSM_ROLE_SELECTION" "\<not> list_ex reselect (tree_ptps t k)"
      by (auto simp: t list_ex_iff tree_ptps_def in_set_conv_nth)
    then show ?thesis by (simp add: PRSSM_step_def)
  qed
  show "tree_ok k t \<or> PRSSM_step k t = Stay"
    if "tree_ok k s \<or> PRSSM_step k s = Stay" and "PRSSM_step k s = Last t" for s t
    using last [OF that] by simp
  show "PRSSM_step k t = Stay"
    if "tree_ok k s \<or> PRSSM_step k s = Stay" and "PRSSM_step k s = Last t" for s t
    by (rule last [OF that])
qed simp_all

text \<open>
  One run of Port Role Selection answers every request of its tree: no port of the tree is
  left asking for reselection, and if any did all of them have their selected role marked as
  valid. The comment that no condition is met after \<^verbatim>\<open>ROLE_SELECTION\<close> holds.
\<close>

theorem PRSSM_run_settles:
  assumes "tree_ok k br"
  shows "\<exists>t. PRSSM_run k br False = Some (False, t) \<and> PRSSM_run k t True = Some (False, t)
    \<and> length (ports t) = length (ports br)
    \<and> (\<forall>p < length (ports t). \<not> reselect (ptp_at t p k))
    \<and> ((\<exists>p < length (ports br). reselect (ptp_at br p k)) \<longrightarrow>
         (\<forall>p < length (ports t). selected (ptp_at t p k)))"
proof -
  from assms obtain t where run: "sm_run (PRSSM_step k) br = Some t"
    using prssm.run_returns by blast
  have stay: "PRSSM_step k t = Stay"
    using assms by (intro prssm.run_quiescent [OF _ run]) simp
  consider "t = br" "PRSSM_step k br = Stay" | "t = PRSSM_to_ROLE_SELECTION k br"
    using run by (cases "PRSSM_step k br")
      (auto simp: sm_run_Stay sm_run_Last PRSSM_step_def split: PRSSM_states_t.splits if_splits)
  then have "length (ports t) = length (ports br) \<and> (\<forall>p < length (ports t). \<not> reselect (ptp_at t p k))
    \<and> ((\<exists>p < length (ports br). reselect (ptp_at br p k)) \<longrightarrow>
         (\<forall>p < length (ports t). selected (ptp_at t p k)))"
  proof cases
    case 1
    then have "\<not> list_ex reselect (tree_ptps br k)"
      by (auto simp: PRSSM_step_def split: PRSSM_states_t.splits if_splits)
    with 1 show ?thesis by (auto simp: list_ex_iff tree_ptps_def dest: bspec [OF _ nth_mem])
  next
    case 2
    with ROLE_SELECTION_result [OF assms] show ?thesis by auto
  qed
  with run stay show ?thesis by (auto simp: PRSSM_run_def sm_exec_def)
qed

lemma PRSSM_run_settles_witness:
  "\<exists>t. PRSSM_run 0 hearing_bridge False = Some (False, t)"
proof -
  have "length (trees hearing_bridge) = 1" by (simp add: hearing_bridge_def)
  then have "tree_ok 0 hearing_bridge" by (simp add: tree_ok_def hearing_bridge_fields)
  from PRSSM_run_settles [OF this] show ?thesis by blast
qed

end
