(* ===== verification/MSTP_RoleTransitions.thy ===== *)
theory MSTP_RoleTransitions
  imports MSTP_Roles
begin

section \<open>13.34 Port Role Transitions\<close>

text \<open>
  The machine that makes a port follow its selected role, with the proposal/agreement
  handshake. It writes its own entry, the \<open>sync\<close> and \<open>reRoot\<close> flags of its whole tree and
  some flags of its port. \<^verbatim>\<open>MaxAge\<close>, \<^verbatim>\<open>FwdDelay\<close>, \<^verbatim>\<open>forwardDelay\<close> and
  \<^verbatim>\<open>HelloTime\<close> are the static variables of \<open>PRTSM_runr\<close>, computed by the outermost call
  and handed down the recursion.
\<close>

subsection \<open>Disabled Port\<close>

definition PRTSM_to_INIT_PORT :: "nat \<Rightarrow> nat \<Rightarrow> bridge_t \<Rightarrow> bridge_t" where
  "PRTSM_to_INIT_PORT p k br =
    (let t = designatedTimes (cist_of (port_at br p)) in
     upd_ptp_at p k (\<lambda>x. x\<lparr>PRTSM_state := PRTSM_INIT_PORT, role := roleDisabled, learn := False,
       forward := False, synced := False, sync := True, reRoot := True,
       rrWhile := ucast (Forward_Delay t), fdWhile := ucast (Max_Age t), rbWhile := 0\<rparr>) br)"

definition PRTSM_to_DISABLE_PORT :: "nat \<Rightarrow> nat \<Rightarrow> bridge_t \<Rightarrow> bridge_t" where
  "PRTSM_to_DISABLE_PORT p k br =
     upd_ptp_at p k (\<lambda>x. x\<lparr>PRTSM_state := PRTSM_DISABLE_PORT, role := roleDisabled,
       learn := False, forward := False\<rparr>) br"

definition PRTSM_to_DISABLED_PORT :: "u32 \<Rightarrow> nat \<Rightarrow> nat \<Rightarrow> bridge_t \<Rightarrow> bridge_t" where
  "PRTSM_to_DISABLED_PORT maxAge p k br =
     upd_ptp_at p k (\<lambda>x. x\<lparr>PRTSM_state := PRTSM_DISABLED_PORT, fdWhile := maxAge,
       synced := True, rrWhile := 0, sync := False, reRoot := False\<rparr>) br"

subsection \<open>Master Port\<close>

definition PRTSM_to_MASTER_PROPOSED :: "nat \<Rightarrow> nat \<Rightarrow> bridge_t \<Rightarrow> bridge_t" where
  "PRTSM_to_MASTER_PROPOSED p k br =
     upd_ptp_at p k (\<lambda>x. x\<lparr>proposed := False\<rparr>)
       (setSyncTree k (upd_ptp_at p k (\<lambda>x. x\<lparr>PRTSM_state := PRTSM_MASTER_PROPOSED\<rparr>) br))"

definition PRTSM_to_MASTER_AGREED :: "nat \<Rightarrow> nat \<Rightarrow> bridge_t \<Rightarrow> bridge_t" where
  "PRTSM_to_MASTER_AGREED p k br =
     upd_ptp_at p k (\<lambda>x. x\<lparr>PRTSM_state := PRTSM_MASTER_AGREED, proposed := False,
       sync := False, agree := True\<rparr>) br"

definition PRTSM_to_MASTER_SYNCED :: "nat \<Rightarrow> nat \<Rightarrow> bridge_t \<Rightarrow> bridge_t" where
  "PRTSM_to_MASTER_SYNCED p k br =
     upd_ptp_at p k (\<lambda>x. x\<lparr>PRTSM_state := PRTSM_MASTER_SYNCED, rrWhile := 0, synced := True,
       sync := False\<rparr>) br"

definition PRTSM_to_MASTER_RETIRED :: "nat \<Rightarrow> nat \<Rightarrow> bridge_t \<Rightarrow> bridge_t" where
  "PRTSM_to_MASTER_RETIRED p k br =
     upd_ptp_at p k (\<lambda>x. x\<lparr>PRTSM_state := PRTSM_MASTER_RETIRED, reRoot := False\<rparr>) br"

definition PRTSM_to_MASTER_FORWARD :: "nat \<Rightarrow> nat \<Rightarrow> bridge_t \<Rightarrow> bridge_t" where
  "PRTSM_to_MASTER_FORWARD p k br =
     upd_ptp_at p k (\<lambda>x. x\<lparr>PRTSM_state := PRTSM_MASTER_FORWARD, forward := True, fdWhile := 0,
       agreed := sendRSTP (port_at br p)\<rparr>) br"

definition PRTSM_to_MASTER_LEARN :: "u32 \<Rightarrow> nat \<Rightarrow> nat \<Rightarrow> bridge_t \<Rightarrow> bridge_t" where
  "PRTSM_to_MASTER_LEARN forwardDelay p k br =
     upd_ptp_at p k (\<lambda>x. x\<lparr>PRTSM_state := PRTSM_MASTER_LEARN, learn := True,
       fdWhile := forwardDelay\<rparr>) br"

definition PRTSM_to_MASTER_DISCARD :: "u32 \<Rightarrow> nat \<Rightarrow> nat \<Rightarrow> bridge_t \<Rightarrow> bridge_t" where
  "PRTSM_to_MASTER_DISCARD forwardDelay p k br =
     upd_ptp_at p k (\<lambda>x. x\<lparr>PRTSM_state := PRTSM_MASTER_DISCARD, learn := False,
       forward := False, disputed := False, fdWhile := forwardDelay\<rparr>) br"

definition PRTSM_to_MASTER_PORT :: "nat \<Rightarrow> nat \<Rightarrow> bridge_t \<Rightarrow> bridge_t" where
  "PRTSM_to_MASTER_PORT p k br =
     upd_ptp_at p k (\<lambda>x. x\<lparr>PRTSM_state := PRTSM_MASTER_PORT, role := roleMaster\<rparr>) br"

subsection \<open>Root Port\<close>

definition PRTSM_to_ROOT_PROPOSED :: "nat \<Rightarrow> nat \<Rightarrow> bridge_t \<Rightarrow> bridge_t" where
  "PRTSM_to_ROOT_PROPOSED p k br =
     upd_ptp_at p k (\<lambda>x. x\<lparr>proposed := False\<rparr>)
       (setSyncTree k (upd_ptp_at p k (\<lambda>x. x\<lparr>PRTSM_state := PRTSM_ROOT_PROPOSED\<rparr>) br))"

definition PRTSM_to_ROOT_AGREED :: "nat \<Rightarrow> nat \<Rightarrow> bridge_t \<Rightarrow> bridge_t" where
  "PRTSM_to_ROOT_AGREED p k br =
     upd_port p (\<lambda>prt. set_newInfoXst (MSTID (ptp_of prt k)) prt)
       (upd_ptp_at p k (\<lambda>x. x\<lparr>PRTSM_state := PRTSM_ROOT_AGREED, proposed := False,
         sync := False, agree := True\<rparr>) br)"

definition PRTSM_to_ROOT_SYNCED :: "nat \<Rightarrow> nat \<Rightarrow> bridge_t \<Rightarrow> bridge_t" where
  "PRTSM_to_ROOT_SYNCED p k br =
     upd_ptp_at p k (\<lambda>x. x\<lparr>PRTSM_state := PRTSM_ROOT_SYNCED, synced := True, sync := False\<rparr>) br"

definition PRTSM_to_REROOT :: "nat \<Rightarrow> nat \<Rightarrow> bridge_t \<Rightarrow> bridge_t" where
  "PRTSM_to_REROOT p k br =
     setReRootTree k (upd_ptp_at p k (\<lambda>x. x\<lparr>PRTSM_state := PRTSM_REROOT\<rparr>) br)"

definition PRTSM_to_ROOT_FORWARD :: "nat \<Rightarrow> nat \<Rightarrow> bridge_t \<Rightarrow> bridge_t" where
  "PRTSM_to_ROOT_FORWARD p k br =
     upd_ptp_at p k (\<lambda>x. x\<lparr>PRTSM_state := PRTSM_ROOT_FORWARD, fdWhile := 0, forward := True\<rparr>) br"

definition PRTSM_to_ROOT_LEARN :: "u32 \<Rightarrow> nat \<Rightarrow> nat \<Rightarrow> bridge_t \<Rightarrow> bridge_t" where
  "PRTSM_to_ROOT_LEARN forwardDelay p k br =
     upd_ptp_at p k (\<lambda>x. x\<lparr>PRTSM_state := PRTSM_ROOT_LEARN, fdWhile := forwardDelay,
       learn := True\<rparr>) br"

definition PRTSM_to_REROOTED :: "nat \<Rightarrow> nat \<Rightarrow> bridge_t \<Rightarrow> bridge_t" where
  "PRTSM_to_REROOTED p k br =
     upd_ptp_at p k (\<lambda>x. x\<lparr>PRTSM_state := PRTSM_REROOTED, reRoot := False\<rparr>) br"

definition PRTSM_to_ROOT_PORT :: "u32 \<Rightarrow> nat \<Rightarrow> nat \<Rightarrow> bridge_t \<Rightarrow> bridge_t" where
  "PRTSM_to_ROOT_PORT fwdDelay p k br =
     upd_ptp_at p k (\<lambda>x. x\<lparr>PRTSM_state := PRTSM_ROOT_PORT, role := roleRoot,
       rrWhile := fwdDelay\<rparr>) br"

subsection \<open>Designated Port\<close>

definition PRTSM_to_DESIGNATED_PROPOSE :: "nat \<Rightarrow> nat \<Rightarrow> bridge_t \<Rightarrow> bridge_t" where
  "PRTSM_to_DESIGNATED_PROPOSE p k br =
    (let br1 = upd_ptp_at p k (\<lambda>x. x\<lparr>PRTSM_state := PRTSM_DESIGNATED_PROPOSE,
                                     proposing := True\<rparr>) br
     in upd_port p (\<lambda>prt.
          if MSTID (ptp_of prt k) = 0 then
            prt\<lparr>edgeDelayWhile := (if operPointToPointMAC prt then Migrate_Time br
                                   else ucast (Max_Age (designatedTimes (ptp_of prt k)))),
                newInfo := True\<rparr>
          else prt\<lparr>newInfoMsti := True\<rparr>) br1)"

definition PRTSM_to_DESIGNATED_AGREED :: "nat \<Rightarrow> nat \<Rightarrow> bridge_t \<Rightarrow> bridge_t" where
  "PRTSM_to_DESIGNATED_AGREED p k br =
     upd_port p (\<lambda>prt. set_newInfoXst (MSTID (ptp_of prt k)) prt)
       (upd_ptp_at p k (\<lambda>x. x\<lparr>PRTSM_state := PRTSM_DESIGNATED_AGREED, proposed := False,
         sync := False, agree := True\<rparr>) br)"

definition PRTSM_to_DESIGNATED_SYNCED :: "nat \<Rightarrow> nat \<Rightarrow> bridge_t \<Rightarrow> bridge_t" where
  "PRTSM_to_DESIGNATED_SYNCED p k br =
     upd_ptp_at p k (\<lambda>x. x\<lparr>PRTSM_state := PRTSM_DESIGNATED_SYNCED, rrWhile := 0,
       synced := True, sync := False\<rparr>) br"

definition PRTSM_to_DESIGNATED_RETIRED :: "nat \<Rightarrow> nat \<Rightarrow> bridge_t \<Rightarrow> bridge_t" where
  "PRTSM_to_DESIGNATED_RETIRED p k br =
     upd_ptp_at p k (\<lambda>x. x\<lparr>PRTSM_state := PRTSM_DESIGNATED_RETIRED, reRoot := False\<rparr>) br"

definition PRTSM_to_DESIGNATED_FORWARD :: "nat \<Rightarrow> nat \<Rightarrow> bridge_t \<Rightarrow> bridge_t" where
  "PRTSM_to_DESIGNATED_FORWARD p k br =
     upd_ptp_at p k (\<lambda>x. x\<lparr>PRTSM_state := PRTSM_DESIGNATED_FORWARD, forward := True, fdWhile := 0,
       agreed := sendRSTP (port_at br p)\<rparr>) br"

definition PRTSM_to_DESIGNATED_LEARN :: "u32 \<Rightarrow> nat \<Rightarrow> nat \<Rightarrow> bridge_t \<Rightarrow> bridge_t" where
  "PRTSM_to_DESIGNATED_LEARN forwardDelay p k br =
     upd_ptp_at p k (\<lambda>x. x\<lparr>PRTSM_state := PRTSM_DESIGNATED_LEARN, learn := True,
       fdWhile := forwardDelay\<rparr>) br"

definition PRTSM_to_DESIGNATED_DISCARD :: "u32 \<Rightarrow> nat \<Rightarrow> nat \<Rightarrow> bridge_t \<Rightarrow> bridge_t" where
  "PRTSM_to_DESIGNATED_DISCARD forwardDelay p k br =
     upd_ptp_at p k (\<lambda>x. x\<lparr>PRTSM_state := PRTSM_DESIGNATED_DISCARD, learn := False,
       forward := False, disputed := False, fdWhile := forwardDelay\<rparr>) br"

definition PRTSM_to_DESIGNATED_PORT :: "nat \<Rightarrow> nat \<Rightarrow> bridge_t \<Rightarrow> bridge_t" where
  "PRTSM_to_DESIGNATED_PORT p k br =
     upd_ptp_at p k (\<lambda>x. x\<lparr>PRTSM_state := PRTSM_DESIGNATED_PORT, role := roleDesignated\<rparr>) br"

subsection \<open>Alternate and Backup Port\<close>

definition PRTSM_to_BLOCK_PORT :: "nat \<Rightarrow> nat \<Rightarrow> bridge_t \<Rightarrow> bridge_t" where
  "PRTSM_to_BLOCK_PORT p k br =
     upd_ptp_at p k (\<lambda>x. x\<lparr>PRTSM_state := PRTSM_BLOCK_PORT, role := selectedRole x,
       learn := False, forward := False\<rparr>) br"

definition PRTSM_to_BACKUP_PORT :: "u32 \<Rightarrow> nat \<Rightarrow> nat \<Rightarrow> bridge_t \<Rightarrow> bridge_t" where
  "PRTSM_to_BACKUP_PORT helloTime p k br =
     upd_ptp_at p k (\<lambda>x. x\<lparr>PRTSM_state := PRTSM_BACKUP_PORT, rbWhile := 2 * helloTime\<rparr>) br"

definition PRTSM_to_ALTERNATE_PROPOSED :: "nat \<Rightarrow> nat \<Rightarrow> bridge_t \<Rightarrow> bridge_t" where
  "PRTSM_to_ALTERNATE_PROPOSED p k br =
     upd_ptp_at p k (\<lambda>x. x\<lparr>proposed := False\<rparr>)
       (setSyncTree k (upd_ptp_at p k (\<lambda>x. x\<lparr>PRTSM_state := PRTSM_ALTERNATE_PROPOSED\<rparr>) br))"

definition PRTSM_to_ALTERNATE_AGREED :: "nat \<Rightarrow> nat \<Rightarrow> bridge_t \<Rightarrow> bridge_t" where
  "PRTSM_to_ALTERNATE_AGREED p k br =
     upd_port p (\<lambda>prt. set_newInfoXst (MSTID (ptp_of prt k)) prt)
       (upd_ptp_at p k (\<lambda>x. x\<lparr>PRTSM_state := PRTSM_ALTERNATE_AGREED, proposed := False,
         agree := True\<rparr>) br)"

definition PRTSM_to_ALTERNATE_PORT :: "u32 \<Rightarrow> nat \<Rightarrow> nat \<Rightarrow> bridge_t \<Rightarrow> bridge_t" where
  "PRTSM_to_ALTERNATE_PORT forwardDelay p k br =
     upd_ptp_at p k (\<lambda>x. x\<lparr>PRTSM_state := PRTSM_ALTERNATE_PORT, fdWhile := forwardDelay,
       synced := True, rrWhile := 0, sync := False, reRoot := False\<rparr>) br"

subsection \<open>Conditions\<close>

text \<open>13.25.1, as the loop over the ports of the tree computes it.\<close>

definition synced_enough :: "nat \<Rightarrow> per_tree_port_t \<Rightarrow> nat \<Rightarrow> per_tree_port_t \<Rightarrow> bool" where
  "synced_enough p ptp q ptp_1 \<longleftrightarrow>
     \<not> (\<not> selected ptp_1 \<or> role ptp_1 \<noteq> selectedRole ptp_1 \<or> updtInfo ptp_1)
     \<and> (case role ptp of
          roleRoot \<Rightarrow> \<not> (roleRoot \<noteq> role ptp_1 \<and> \<not> synced ptp_1)
        | roleAlternate \<Rightarrow> \<not> (roleRoot \<noteq> role ptp_1 \<and> \<not> synced ptp_1)
        | roleDesignated \<Rightarrow> \<not> (p \<noteq> q \<and> \<not> synced ptp_1)
        | roleMaster \<Rightarrow> \<not> (p \<noteq> q \<and> \<not> synced ptp_1)
        | _ \<Rightarrow> False)"

definition allSynced :: "nat \<Rightarrow> nat \<Rightarrow> bridge_t \<Rightarrow> bool" where
  "allSynced p k br \<longleftrightarrow>
     list_all (\<lambda>q. synced_enough p (ptp_at br p k) q (ptp_at br q k)) [0..<length (ports br)]"

text \<open>17.20.10 of 802.1D.\<close>

definition reRooted :: "nat \<Rightarrow> nat \<Rightarrow> bridge_t \<Rightarrow> bool" where
  "reRooted p k br \<longleftrightarrow>
     list_all (\<lambda>q. \<not> (p \<noteq> q \<and> rrWhile (ptp_at br q k) \<noteq> 0)) [0..<length (ports br)]"

record prtsm_vars =
  v_MaxAge :: u32
  v_FwdDelay :: u32
  v_forwardDelay :: u32
  v_HelloTime :: u32

definition prtsm_vars_of :: "port_t \<Rightarrow> prtsm_vars" where
  "prtsm_vars_of prt =
    (let cist = cist_of prt; fwd = ucast (Forward_Delay (designatedTimes cist));
         hello = ucast (Hello_Time (portTimes cist))
     in \<lparr>v_MaxAge = ucast (Max_Age (designatedTimes cist)), v_FwdDelay = fwd,
         v_forwardDelay = (if sendRSTP prt then hello else fwd), v_HelloTime = hello\<rparr>)"

subsection \<open>The switch, by role\<close>

definition prtsm_role_change :: "prtsm_vars \<Rightarrow> nat \<Rightarrow> nat \<Rightarrow> bridge_t \<Rightarrow> bridge_t" where
  "prtsm_role_change v p k br =
    (case selectedRole (ptp_at br p k) of
       roleDisabled \<Rightarrow> PRTSM_to_DISABLE_PORT p k br
     | roleMaster \<Rightarrow> PRTSM_to_MASTER_PORT p k br
     | roleRoot \<Rightarrow> PRTSM_to_ROOT_PORT (v_FwdDelay v) p k br
     | roleDesignated \<Rightarrow> PRTSM_to_DESIGNATED_PORT p k br
     | roleAlternate \<Rightarrow> PRTSM_to_BLOCK_PORT p k br
     | roleBackup \<Rightarrow> PRTSM_to_BLOCK_PORT p k br)"

definition prtsm_disabled_port :: "prtsm_vars \<Rightarrow> nat \<Rightarrow> nat \<Rightarrow> bridge_t \<Rightarrow> bridge_t sm" where
  "prtsm_disabled_port v p k br =
    (let ptp = ptp_at br p k in
     if selected ptp \<and> \<not> updtInfo ptp
        \<and> (sync ptp \<or> reRoot ptp \<or> \<not> synced ptp \<or> fdWhile ptp \<noteq> v_MaxAge v)
     then Enter (PRTSM_to_DISABLED_PORT (v_MaxAge v) p k br) else Stay)"

definition prtsm_master_port :: "prtsm_vars \<Rightarrow> nat \<Rightarrow> nat \<Rightarrow> bridge_t \<Rightarrow> bridge_t sm" where
  "prtsm_master_port v p k br =
    (let prt = port_at br p; ptp = ptp_of prt k; all_synced = allSynced p k br in
     if \<not> (selected ptp \<and> \<not> updtInfo ptp) then Stay
     else if reRoot ptp \<and> rrWhile ptp = 0 then Enter (PRTSM_to_MASTER_RETIRED p k br)
     else if \<not> learning ptp \<and> \<not> forwarding ptp \<and> \<not> synced ptp \<or> agreed ptp \<and> \<not> synced ptp
             \<or> operEdge prt \<and> \<not> synced ptp \<or> sync ptp \<and> synced ptp
     then Enter (PRTSM_to_MASTER_SYNCED p k br)
     else if all_synced \<and> \<not> agree ptp \<or> proposed ptp \<and> agree ptp
     then Enter (PRTSM_to_MASTER_AGREED p k br)
     else if proposed ptp \<and> \<not> agree ptp then Enter (PRTSM_to_MASTER_PROPOSED p k br)
     else if (fdWhile ptp = 0 \<or> all_synced) \<and> learn ptp \<and> \<not> forward ptp
     then Enter (PRTSM_to_MASTER_FORWARD p k br)
     else if (fdWhile ptp = 0 \<or> all_synced) \<and> \<not> learn ptp
     then Enter (PRTSM_to_MASTER_LEARN (v_forwardDelay v) p k br)
     else if (sync ptp \<and> \<not> synced ptp \<or> reRoot ptp \<and> rrWhile ptp \<noteq> 0 \<or> disputed ptp)
             \<and> \<not> operEdge prt \<and> (learn ptp \<or> forward ptp)
     then Enter (PRTSM_to_MASTER_DISCARD (v_forwardDelay v) p k br)
     else Stay)"

definition prtsm_root_port :: "prtsm_vars \<Rightarrow> nat \<Rightarrow> nat \<Rightarrow> bridge_t \<Rightarrow> bridge_t sm" where
  "prtsm_root_port v p k br =
    (let prt = port_at br p; ptp = ptp_of prt k; all_synced = allSynced p k br;
         may_pass = (fdWhile ptp = 0 \<or> reRooted p k br \<and> rbWhile ptp = 0 \<and> rstpVersion br) in
     if \<not> (selected ptp \<and> \<not> updtInfo ptp) then Stay
     else if \<not> forward ptp \<and> \<not> reRoot ptp then Enter (PRTSM_to_REROOT p k br)
     else if agreed ptp \<and> \<not> synced ptp \<or> sync ptp \<and> synced ptp
     then Enter (PRTSM_to_ROOT_SYNCED p k br)
     else if all_synced \<and> \<not> agree ptp \<or> proposed ptp \<and> agree ptp
     then Enter (PRTSM_to_ROOT_AGREED p k br)
     else if proposed ptp \<and> \<not> agree ptp then Enter (PRTSM_to_ROOT_PROPOSED p k br)
     else if may_pass \<and> \<not> learn ptp then Enter (PRTSM_to_ROOT_LEARN (v_forwardDelay v) p k br)
     else if may_pass \<and> \<not> forward ptp then Enter (PRTSM_to_ROOT_FORWARD p k br)
     else if reRoot ptp \<and> forward ptp then Enter (PRTSM_to_REROOTED p k br)
     else if rrWhile ptp \<noteq> v_FwdDelay v then Enter (PRTSM_to_ROOT_PORT (v_FwdDelay v) p k br)
     else Stay)"

definition prtsm_designated_port :: "prtsm_vars \<Rightarrow> nat \<Rightarrow> nat \<Rightarrow> bridge_t \<Rightarrow> bridge_t sm" where
  "prtsm_designated_port v p k br =
    (let prt = port_at br p; ptp = ptp_of prt k; all_synced = allSynced p k br;
         may_pass = ((fdWhile ptp = 0 \<or> agreed ptp \<or> operEdge prt)
                     \<and> (rrWhile ptp = 0 \<or> \<not> reRoot ptp) \<and> \<not> sync ptp
                     \<and> \<not> BaInconsistent prt) in
     if \<not> (selected ptp \<and> \<not> updtInfo ptp) then Stay
     else if reRoot ptp \<and> rrWhile ptp = 0 then Enter (PRTSM_to_DESIGNATED_RETIRED p k br)
     else if \<not> learning ptp \<and> \<not> forwarding ptp \<and> \<not> synced ptp \<or> agreed ptp \<and> \<not> synced ptp
             \<or> operEdge prt \<and> \<not> synced ptp \<or> sync ptp \<and> synced ptp
     then Enter (PRTSM_to_DESIGNATED_SYNCED p k br)
     else if all_synced \<and> (proposed ptp \<or> \<not> agree ptp)
     then Enter (PRTSM_to_DESIGNATED_AGREED p k br)
     else if \<not> forward ptp \<and> \<not> agreed ptp \<and> \<not> proposing ptp \<and> \<not> operEdge prt
     then Enter (PRTSM_to_DESIGNATED_PROPOSE p k br)
     else if may_pass \<and> \<not> learn ptp
     then Enter (PRTSM_to_DESIGNATED_LEARN (v_forwardDelay v) p k br)
     else if may_pass \<and> \<not> forward ptp then Enter (PRTSM_to_DESIGNATED_FORWARD p k br)
     else if (sync ptp \<and> \<not> synced ptp \<or> reRoot ptp \<and> rrWhile ptp \<noteq> 0 \<or> disputed ptp
              \<or> BaInconsistent prt)
             \<and> \<not> operEdge prt \<and> (learn ptp \<or> forward ptp)
     then Enter (PRTSM_to_DESIGNATED_DISCARD (v_forwardDelay v) p k br)
     else Stay)"

definition prtsm_alternate_port :: "prtsm_vars \<Rightarrow> nat \<Rightarrow> nat \<Rightarrow> bridge_t \<Rightarrow> bridge_t sm" where
  "prtsm_alternate_port v p k br =
    (let ptp = ptp_at br p k; all_synced = allSynced p k br in
     if \<not> (selected ptp \<and> \<not> updtInfo ptp) then Stay
     else if all_synced \<and> \<not> agree ptp \<or> proposed ptp \<and> agree ptp
     then Enter (PRTSM_to_ALTERNATE_AGREED p k br)
     else if proposed ptp \<and> \<not> agree ptp then Enter (PRTSM_to_ALTERNATE_PROPOSED p k br)
     else if rbWhile ptp \<noteq> 2 * v_HelloTime v \<and> role ptp = roleBackup
     then Enter (PRTSM_to_BACKUP_PORT (v_HelloTime v) p k br)
     else if fdWhile ptp \<noteq> v_forwardDelay v \<or> sync ptp \<or> reRoot ptp \<or> \<not> synced ptp
     then Enter (PRTSM_to_ALTERNATE_PORT (v_forwardDelay v) p k br)
     else Stay)"

definition PRTSM_step :: "prtsm_vars \<Rightarrow> nat \<Rightarrow> nat \<Rightarrow> bridge_t \<Rightarrow> bridge_t sm" where
  "PRTSM_step v p k br =
    (let ptp = ptp_at br p k; ready = (selected ptp \<and> \<not> updtInfo ptp);
         blocked = (ready \<and> \<not> learning ptp \<and> \<not> forwarding ptp) in
     if role ptp \<noteq> selectedRole ptp \<and> ready then Enter (prtsm_role_change v p k br)
     else case PRTSM_state ptp of
       PRTSM_INIT_PORT \<Rightarrow> Enter (PRTSM_to_DISABLE_PORT p k br)
     | PRTSM_DISABLE_PORT \<Rightarrow>
         (if blocked then Enter (PRTSM_to_DISABLED_PORT (v_MaxAge v) p k br) else Stay)
     | PRTSM_DISABLED_PORT \<Rightarrow> prtsm_disabled_port v p k br
     | PRTSM_MASTER_PROPOSED \<Rightarrow> Enter (PRTSM_to_MASTER_PORT p k br)
     | PRTSM_MASTER_AGREED \<Rightarrow> Enter (PRTSM_to_MASTER_PORT p k br)
     | PRTSM_MASTER_SYNCED \<Rightarrow> Enter (PRTSM_to_MASTER_PORT p k br)
     | PRTSM_MASTER_RETIRED \<Rightarrow> Enter (PRTSM_to_MASTER_PORT p k br)
     | PRTSM_MASTER_FORWARD \<Rightarrow> Enter (PRTSM_to_MASTER_PORT p k br)
     | PRTSM_MASTER_LEARN \<Rightarrow> Enter (PRTSM_to_MASTER_PORT p k br)
     | PRTSM_MASTER_DISCARD \<Rightarrow> Enter (PRTSM_to_MASTER_PORT p k br)
     | PRTSM_MASTER_PORT \<Rightarrow> prtsm_master_port v p k br
     | PRTSM_ROOT_PROPOSED \<Rightarrow> Enter (PRTSM_to_ROOT_PORT (v_FwdDelay v) p k br)
     | PRTSM_ROOT_AGREED \<Rightarrow> Enter (PRTSM_to_ROOT_PORT (v_FwdDelay v) p k br)
     | PRTSM_ROOT_SYNCED \<Rightarrow> Enter (PRTSM_to_ROOT_PORT (v_FwdDelay v) p k br)
     | PRTSM_REROOT \<Rightarrow> Enter (PRTSM_to_ROOT_PORT (v_FwdDelay v) p k br)
     | PRTSM_ROOT_FORWARD \<Rightarrow> Enter (PRTSM_to_ROOT_PORT (v_FwdDelay v) p k br)
     | PRTSM_ROOT_LEARN \<Rightarrow> Enter (PRTSM_to_ROOT_PORT (v_FwdDelay v) p k br)
     | PRTSM_REROOTED \<Rightarrow> Enter (PRTSM_to_ROOT_PORT (v_FwdDelay v) p k br)
     | PRTSM_ROOT_PORT \<Rightarrow> prtsm_root_port v p k br
     | PRTSM_DESIGNATED_PROPOSE \<Rightarrow> Enter (PRTSM_to_DESIGNATED_PORT p k br)
     | PRTSM_DESIGNATED_AGREED \<Rightarrow> Enter (PRTSM_to_DESIGNATED_PORT p k br)
     | PRTSM_DESIGNATED_SYNCED \<Rightarrow> Enter (PRTSM_to_DESIGNATED_PORT p k br)
     | PRTSM_DESIGNATED_RETIRED \<Rightarrow> Enter (PRTSM_to_DESIGNATED_PORT p k br)
     | PRTSM_DESIGNATED_FORWARD \<Rightarrow> Enter (PRTSM_to_DESIGNATED_PORT p k br)
     | PRTSM_DESIGNATED_LEARN \<Rightarrow> Enter (PRTSM_to_DESIGNATED_PORT p k br)
     | PRTSM_DESIGNATED_DISCARD \<Rightarrow> Enter (PRTSM_to_DESIGNATED_PORT p k br)
     | PRTSM_DESIGNATED_PORT \<Rightarrow> prtsm_designated_port v p k br
     | PRTSM_BLOCK_PORT \<Rightarrow>
         (if blocked then Enter (PRTSM_to_ALTERNATE_PORT (v_forwardDelay v) p k br) else Stay)
     | PRTSM_BACKUP_PORT \<Rightarrow> Enter (PRTSM_to_ALTERNATE_PORT (v_forwardDelay v) p k br)
     | PRTSM_ALTERNATE_PROPOSED \<Rightarrow> Enter (PRTSM_to_ALTERNATE_PORT (v_forwardDelay v) p k br)
     | PRTSM_ALTERNATE_AGREED \<Rightarrow> Enter (PRTSM_to_ALTERNATE_PORT (v_forwardDelay v) p k br)
     | PRTSM_ALTERNATE_PORT \<Rightarrow> prtsm_alternate_port v p k br)"

text \<open>The dry run: what the branches taken with \<^verbatim>\<open>dry_run\<close> return.\<close>

definition prtsm_disabled_port_dry :: "prtsm_vars \<Rightarrow> nat \<Rightarrow> nat \<Rightarrow> bridge_t \<Rightarrow> bool" where
  "prtsm_disabled_port_dry v p k br =
    (let ptp = ptp_at br p k in
     if selected ptp \<and> \<not> updtInfo ptp
        \<and> (sync ptp \<or> reRoot ptp \<or> \<not> synced ptp \<or> fdWhile ptp \<noteq> v_MaxAge v)
     then True else False)"

definition prtsm_master_port_dry :: "prtsm_vars \<Rightarrow> nat \<Rightarrow> nat \<Rightarrow> bridge_t \<Rightarrow> bool" where
  "prtsm_master_port_dry v p k br =
    (let prt = port_at br p; ptp = ptp_of prt k; all_synced = allSynced p k br in
     if \<not> (selected ptp \<and> \<not> updtInfo ptp) then False
     else if reRoot ptp \<and> rrWhile ptp = 0 then True
     else if \<not> learning ptp \<and> \<not> forwarding ptp \<and> \<not> synced ptp \<or> agreed ptp \<and> \<not> synced ptp
             \<or> operEdge prt \<and> \<not> synced ptp \<or> sync ptp \<and> synced ptp
     then True
     else if all_synced \<and> \<not> agree ptp \<or> proposed ptp \<and> agree ptp
     then True
     else if proposed ptp \<and> \<not> agree ptp then True
     else if (fdWhile ptp = 0 \<or> all_synced) \<and> learn ptp \<and> \<not> forward ptp
     then True
     else if (fdWhile ptp = 0 \<or> all_synced) \<and> \<not> learn ptp
     then True
     else if (sync ptp \<and> \<not> synced ptp \<or> reRoot ptp \<and> rrWhile ptp \<noteq> 0 \<or> disputed ptp)
             \<and> \<not> operEdge prt \<and> (learn ptp \<or> forward ptp)
     then True
     else False)"

definition prtsm_root_port_dry :: "prtsm_vars \<Rightarrow> nat \<Rightarrow> nat \<Rightarrow> bridge_t \<Rightarrow> bool" where
  "prtsm_root_port_dry v p k br =
    (let prt = port_at br p; ptp = ptp_of prt k; all_synced = allSynced p k br;
         may_pass = (fdWhile ptp = 0 \<or> reRooted p k br \<and> rbWhile ptp = 0 \<and> rstpVersion br) in
     if \<not> (selected ptp \<and> \<not> updtInfo ptp) then False
     else if \<not> forward ptp \<and> \<not> reRoot ptp then True
     else if agreed ptp \<and> \<not> synced ptp \<or> sync ptp \<and> synced ptp
     then True
     else if all_synced \<and> \<not> agree ptp \<or> proposed ptp \<and> agree ptp
     then True
     else if proposed ptp \<and> \<not> agree ptp then True
     else if may_pass \<and> \<not> learn ptp then True
     else if may_pass \<and> \<not> forward ptp then True
     else if reRoot ptp \<and> forward ptp then True
     else if rrWhile ptp \<noteq> v_FwdDelay v then True
     else False)"

definition prtsm_designated_port_dry :: "prtsm_vars \<Rightarrow> nat \<Rightarrow> nat \<Rightarrow> bridge_t \<Rightarrow> bool" where
  "prtsm_designated_port_dry v p k br =
    (let prt = port_at br p; ptp = ptp_of prt k; all_synced = allSynced p k br;
         may_pass = ((fdWhile ptp = 0 \<or> agreed ptp \<or> operEdge prt)
                     \<and> (rrWhile ptp = 0 \<or> \<not> reRoot ptp) \<and> \<not> sync ptp
                     \<and> \<not> BaInconsistent prt) in
     if \<not> (selected ptp \<and> \<not> updtInfo ptp) then False
     else if reRoot ptp \<and> rrWhile ptp = 0 then True
     else if \<not> learning ptp \<and> \<not> forwarding ptp \<and> \<not> synced ptp \<or> agreed ptp \<and> \<not> synced ptp
             \<or> operEdge prt \<and> \<not> synced ptp \<or> sync ptp \<and> synced ptp
     then True
     else if all_synced \<and> (proposed ptp \<or> \<not> agree ptp)
     then True
     else if \<not> forward ptp \<and> \<not> agreed ptp \<and> \<not> proposing ptp \<and> \<not> operEdge prt
     then True
     else if may_pass \<and> \<not> learn ptp
     then True
     else if may_pass \<and> \<not> forward ptp then True
     else if (sync ptp \<and> \<not> synced ptp \<or> reRoot ptp \<and> rrWhile ptp \<noteq> 0 \<or> disputed ptp
              \<or> BaInconsistent prt)
             \<and> \<not> operEdge prt \<and> (learn ptp \<or> forward ptp)
     then True
     else False)"

definition prtsm_alternate_port_dry :: "prtsm_vars \<Rightarrow> nat \<Rightarrow> nat \<Rightarrow> bridge_t \<Rightarrow> bool" where
  "prtsm_alternate_port_dry v p k br =
    (let ptp = ptp_at br p k; all_synced = allSynced p k br in
     if \<not> (selected ptp \<and> \<not> updtInfo ptp) then False
     else if all_synced \<and> \<not> agree ptp \<or> proposed ptp \<and> agree ptp
     then True
     else if proposed ptp \<and> \<not> agree ptp then True
     else if rbWhile ptp \<noteq> 2 * v_HelloTime v \<and> role ptp = roleBackup
     then True
     else if fdWhile ptp \<noteq> v_forwardDelay v \<or> sync ptp \<or> reRoot ptp \<or> \<not> synced ptp
     then True
     else False)"

definition PRTSM_run_dry :: "prtsm_vars \<Rightarrow> nat \<Rightarrow> nat \<Rightarrow> bridge_t \<Rightarrow> bool" where
  "PRTSM_run_dry v p k br =
    (let ptp = ptp_at br p k; ready = (selected ptp \<and> \<not> updtInfo ptp);
         blocked = (ready \<and> \<not> learning ptp \<and> \<not> forwarding ptp) in
     if role ptp \<noteq> selectedRole ptp \<and> ready then True
     else case PRTSM_state ptp of
       PRTSM_INIT_PORT \<Rightarrow> True
     | PRTSM_DISABLE_PORT \<Rightarrow>
         (if blocked then True else False)
     | PRTSM_DISABLED_PORT \<Rightarrow> prtsm_disabled_port_dry v p k br
     | PRTSM_MASTER_PROPOSED \<Rightarrow> True
     | PRTSM_MASTER_AGREED \<Rightarrow> True
     | PRTSM_MASTER_SYNCED \<Rightarrow> True
     | PRTSM_MASTER_RETIRED \<Rightarrow> True
     | PRTSM_MASTER_FORWARD \<Rightarrow> True
     | PRTSM_MASTER_LEARN \<Rightarrow> True
     | PRTSM_MASTER_DISCARD \<Rightarrow> True
     | PRTSM_MASTER_PORT \<Rightarrow> prtsm_master_port_dry v p k br
     | PRTSM_ROOT_PROPOSED \<Rightarrow> True
     | PRTSM_ROOT_AGREED \<Rightarrow> True
     | PRTSM_ROOT_SYNCED \<Rightarrow> True
     | PRTSM_REROOT \<Rightarrow> True
     | PRTSM_ROOT_FORWARD \<Rightarrow> True
     | PRTSM_ROOT_LEARN \<Rightarrow> True
     | PRTSM_REROOTED \<Rightarrow> True
     | PRTSM_ROOT_PORT \<Rightarrow> prtsm_root_port_dry v p k br
     | PRTSM_DESIGNATED_PROPOSE \<Rightarrow> True
     | PRTSM_DESIGNATED_AGREED \<Rightarrow> True
     | PRTSM_DESIGNATED_SYNCED \<Rightarrow> True
     | PRTSM_DESIGNATED_RETIRED \<Rightarrow> True
     | PRTSM_DESIGNATED_FORWARD \<Rightarrow> True
     | PRTSM_DESIGNATED_LEARN \<Rightarrow> True
     | PRTSM_DESIGNATED_DISCARD \<Rightarrow> True
     | PRTSM_DESIGNATED_PORT \<Rightarrow> prtsm_designated_port_dry v p k br
     | PRTSM_BLOCK_PORT \<Rightarrow>
         (if blocked then True else False)
     | PRTSM_BACKUP_PORT \<Rightarrow> True
     | PRTSM_ALTERNATE_PROPOSED \<Rightarrow> True
     | PRTSM_ALTERNATE_AGREED \<Rightarrow> True
     | PRTSM_ALTERNATE_PORT \<Rightarrow> prtsm_alternate_port_dry v p k br)"

definition PRTSM_run :: "nat \<Rightarrow> nat \<Rightarrow> bridge_t \<Rightarrow> bool \<Rightarrow> (bool \<times> bridge_t) option" where
  "PRTSM_run p k br dry_run =
    (let v = prtsm_vars_of (port_at br p)
     in sm_exec (PRTSM_step v p k) (PRTSM_run_dry v p k) br dry_run)"

lemma prtsm_roles_dry [simp]:
  "prtsm_disabled_port_dry v p k br = fires (prtsm_disabled_port v p k br)"
  "prtsm_master_port_dry v p k br = fires (prtsm_master_port v p k br)"
  "prtsm_root_port_dry v p k br = fires (prtsm_root_port v p k br)"
  "prtsm_designated_port_dry v p k br = fires (prtsm_designated_port v p k br)"
  "prtsm_alternate_port_dry v p k br = fires (prtsm_alternate_port v p k br)"
  by (simp_all only: prtsm_disabled_port_dry_def prtsm_disabled_port_def prtsm_master_port_dry_def
      prtsm_master_port_def prtsm_root_port_dry_def prtsm_root_port_def prtsm_designated_port_dry_def
      prtsm_designated_port_def prtsm_alternate_port_dry_def prtsm_alternate_port_def Let_def
      if_distrib [of fires] fires.simps)

lemma PRTSM_dry_fires [simp]: "PRTSM_run_dry v p k br = fires (PRTSM_step v p k br)"
  by (cases "PRTSM_state (ptp_at br p k)") (simp_all add: PRTSM_run_dry_def PRTSM_step_def Let_def)

end
