(* ===== verification/MSTP_StateMachines.thy ===== *)
theory MSTP_StateMachines
  imports MSTP_RoleTransitions
begin

section \<open>13.35 Port State Transition and 13.36 Topology Change\<close>

subsection \<open>13.35 Port State Transition\<close>

text \<open>\<^verbatim>\<open>if(s != ptp->state) if(!ptp->port->deleted) MSTP_OUT_set_state(ptp, s)\<close>.\<close>

definition set_port_state :: "nat \<Rightarrow> br_state_t \<Rightarrow> port_t \<Rightarrow> port_t" where
  "set_port_state k s prt =
    (if state (ptp_of prt k) \<noteq> s \<and> \<not> deleted prt then MSTP_OUT_set_state k s prt else prt)"

definition PSTSM_to_DISCARDING :: "nat \<Rightarrow> port_t \<Rightarrow> port_t" where
  "PSTSM_to_DISCARDING k prt =
     upd_ptp k (\<lambda>x. x\<lparr>learning := False, forwarding := False\<rparr>)
       (set_port_state k BR_STATE_BLOCKING
         (upd_ptp k (\<lambda>x. x\<lparr>PSTSM_state := PSTSM_DISCARDING\<rparr>) prt))"

definition PSTSM_to_LEARNING :: "nat \<Rightarrow> port_t \<Rightarrow> port_t" where
  "PSTSM_to_LEARNING k prt =
     upd_ptp k (\<lambda>x. x\<lparr>learning := True\<rparr>)
       (set_port_state k BR_STATE_LEARNING
         (upd_ptp k (\<lambda>x. x\<lparr>PSTSM_state := PSTSM_LEARNING\<rparr>) prt))"

definition PSTSM_to_FORWARDING :: "nat \<Rightarrow> port_t \<Rightarrow> port_t" where
  "PSTSM_to_FORWARDING k prt =
     upd_ptp k (\<lambda>x. x\<lparr>forwarding := True\<rparr>)
       (set_port_state k BR_STATE_FORWARDING
         (upd_ptp k (\<lambda>x. x\<lparr>PSTSM_state := PSTSM_FORWARDING\<rparr>) prt))"

definition PSTSM_step :: "nat \<Rightarrow> port_t \<Rightarrow> port_t sm" where
  "PSTSM_step k prt =
    (let ptp = ptp_of prt k in
     case PSTSM_state ptp of
       PSTSM_DISCARDING \<Rightarrow> (if learn ptp then Enter (PSTSM_to_LEARNING k prt) else Stay)
     | PSTSM_LEARNING \<Rightarrow>
         (if \<not> learn ptp then Enter (PSTSM_to_DISCARDING k prt)
          else if forward ptp then Last (PSTSM_to_FORWARDING k prt)
          else Stay)
     | PSTSM_FORWARDING \<Rightarrow>
         (if \<not> forward ptp then Enter (PSTSM_to_DISCARDING k prt) else Stay))"

definition PSTSM_run_dry :: "nat \<Rightarrow> port_t \<Rightarrow> bool" where
  "PSTSM_run_dry k prt =
    (let ptp = ptp_of prt k in
     case PSTSM_state ptp of
       PSTSM_DISCARDING \<Rightarrow> (if learn ptp then True else False)
     | PSTSM_LEARNING \<Rightarrow>
         (if \<not> learn ptp then True
          else if forward ptp then True
          else False)
     | PSTSM_FORWARDING \<Rightarrow>
         (if \<not> forward ptp then True else False))"

definition PSTSM_run :: "nat \<Rightarrow> port_t \<Rightarrow> bool \<Rightarrow> (bool \<times> port_t) option" where
  "PSTSM_run k prt dry_run = sm_exec (PSTSM_step k) (PSTSM_run_dry k) prt dry_run"

lemma PSTSM_dry_fires [simp]: "PSTSM_run_dry k prt = fires (PSTSM_step k prt)"
  by (simp add: PSTSM_run_dry_def PSTSM_step_def Let_def split: PSTSM_states_t.split)

subsection \<open>13.36 Topology Change\<close>

definition TCSM_to_INACTIVE :: "nat \<Rightarrow> nat \<Rightarrow> bridge_t \<Rightarrow> bridge_t" where
  "TCSM_to_INACTIVE p k br =
    (let br1 = upd_port p (\<lambda>prt. upd_ptp k (\<lambda>x. x\<lparr>tcWhile := 0\<rparr>)
                 (set_fdbFlush br k (upd_ptp k (\<lambda>x. x\<lparr>TCSM_state := TCSM_INACTIVE\<rparr>) prt))) br;
         br2 = set_TopologyChange k False p br1
     in if MSTID (ptp_at br p k) = 0 then upd_port p (\<lambda>prt. prt\<lparr>tcAck := False\<rparr>) br2 else br2)"

definition TCSM_to_LEARNING_dry :: "nat \<Rightarrow> port_t \<Rightarrow> bool" where
  "TCSM_to_LEARNING_dry k prt \<longleftrightarrow>
    (let ptp = ptp_of prt k in
     TCSM_state ptp \<noteq> TCSM_LEARNING \<or> rcvdTc ptp \<or> tcProp ptp
     \<or> (MSTID ptp = 0 \<and> (rcvdTcn prt \<or> rcvdTcAck prt)))"

definition TCSM_to_LEARNING :: "nat \<Rightarrow> nat \<Rightarrow> bridge_t \<Rightarrow> bridge_t" where
  "TCSM_to_LEARNING p k br =
     upd_port p (\<lambda>prt.
       upd_ptp k (\<lambda>x. x\<lparr>TCSM_state := TCSM_LEARNING, rcvdTc := False, tcProp := False\<rparr>)
         (if MSTID (ptp_of prt k) = 0 then prt\<lparr>rcvdTcn := False, rcvdTcAck := False\<rparr>
          else prt)) br"

definition TCSM_to_DETECTED :: "nat \<Rightarrow> nat \<Rightarrow> bridge_t \<Rightarrow> bridge_t" where
  "TCSM_to_DETECTED p k br =
     upd_port p (\<lambda>prt. set_newInfoXst (MSTID (ptp_of prt k)) prt)
       (setTcPropTree p k (newTcWhile p k
         (upd_ptp_at p k (\<lambda>x. x\<lparr>TCSM_state := TCSM_DETECTED\<rparr>) br)))"

definition TCSM_to_NOTIFIED_TCN :: "nat \<Rightarrow> nat \<Rightarrow> bridge_t \<Rightarrow> bridge_t" where
  "TCSM_to_NOTIFIED_TCN p k br =
     newTcWhile p k (upd_ptp_at p k (\<lambda>x. x\<lparr>TCSM_state := TCSM_NOTIFIED_TCN\<rparr>) br)"

definition TCSM_to_NOTIFIED_TC :: "nat \<Rightarrow> nat \<Rightarrow> bridge_t \<Rightarrow> bridge_t" where
  "TCSM_to_NOTIFIED_TC p k br =
     setTcPropTree p k (upd_port p (\<lambda>prt.
       upd_ptp k (\<lambda>x. x\<lparr>TCSM_state := TCSM_NOTIFIED_TC, rcvdTc := False\<rparr>)
         (if MSTID (ptp_of prt k) = 0 then
            prt\<lparr>rcvdTcn := False,
                tcAck := (if role (ptp_of prt k) = roleDesignated then True else tcAck prt)\<rparr>
          else prt)) br)"

definition TCSM_to_PROPAGATING :: "nat \<Rightarrow> nat \<Rightarrow> bridge_t \<Rightarrow> bridge_t" where
  "TCSM_to_PROPAGATING p k br =
    (let br1 = newTcWhile p k (upd_ptp_at p k (\<lambda>x. x\<lparr>TCSM_state := TCSM_PROPAGATING\<rparr>) br)
     in upd_port p (\<lambda>prt. upd_ptp k (\<lambda>x. x\<lparr>tcProp := False\<rparr>) (set_fdbFlush br1 k prt)) br1)"

definition TCSM_to_ACKNOWLEDGED :: "nat \<Rightarrow> nat \<Rightarrow> bridge_t \<Rightarrow> bridge_t" where
  "TCSM_to_ACKNOWLEDGED p k br =
     upd_port p (\<lambda>prt. prt\<lparr>rcvdTcAck := False\<rparr>)
       (set_TopologyChange k False p
         (upd_ptp_at p k (\<lambda>x. x\<lparr>TCSM_state := TCSM_ACKNOWLEDGED, tcWhile := 0\<rparr>) br))"

definition TCSM_to_ACTIVE :: "nat \<Rightarrow> nat \<Rightarrow> bridge_t \<Rightarrow> bridge_t" where
  "TCSM_to_ACTIVE p k br = upd_ptp_at p k (\<lambda>x. x\<lparr>TCSM_state := TCSM_ACTIVE\<rparr>) br"

definition active_port :: "per_tree_port_t \<Rightarrow> bool" where
  "active_port ptp \<longleftrightarrow> role ptp = roleRoot \<or> role ptp = roleDesignated \<or> role ptp = roleMaster"

definition TCSM_step :: "nat \<Rightarrow> nat \<Rightarrow> bridge_t \<Rightarrow> bridge_t sm" where
  "TCSM_step p k br =
    (let prt = port_at br p; ptp = ptp_of prt k in
     case TCSM_state ptp of
       TCSM_INACTIVE \<Rightarrow>
         (if learn ptp \<and> \<not> fdbFlush ptp then Enter (TCSM_to_LEARNING p k br) else Stay)
     | TCSM_LEARNING \<Rightarrow>
         (if active_port ptp \<and> forward ptp \<and> \<not> operEdge prt then Enter (TCSM_to_DETECTED p k br)
          else if rcvdTc ptp \<or> rcvdTcn prt \<or> rcvdTcAck prt \<or> tcProp ptp
          then Enter (TCSM_to_LEARNING p k br)
          else if \<not> active_port ptp \<and> \<not> (learn ptp \<or> learning ptp)
          then Enter (TCSM_to_INACTIVE p k br)
          else Stay)
     | TCSM_NOTIFIED_TCN \<Rightarrow> Enter (TCSM_to_NOTIFIED_TC p k br)
     | TCSM_DETECTED \<Rightarrow> Enter (TCSM_to_ACTIVE p k br)
     | TCSM_NOTIFIED_TC \<Rightarrow> Enter (TCSM_to_ACTIVE p k br)
     | TCSM_PROPAGATING \<Rightarrow> Enter (TCSM_to_ACTIVE p k br)
     | TCSM_ACKNOWLEDGED \<Rightarrow> Enter (TCSM_to_ACTIVE p k br)
     | TCSM_ACTIVE \<Rightarrow>
         (if \<not> active_port ptp \<or> operEdge prt then Enter (TCSM_to_LEARNING p k br)
          else if rcvdTcn prt then Enter (TCSM_to_NOTIFIED_TCN p k br)
          else if rcvdTc ptp then Enter (TCSM_to_NOTIFIED_TC p k br)
          else if tcProp ptp then Enter (TCSM_to_PROPAGATING p k br)
          else if rcvdTcAck prt then Enter (TCSM_to_ACKNOWLEDGED p k br)
          else Stay))"

text \<open>
  In state \<^verbatim>\<open>TCSM_LEARNING\<close> the dry run asks \<^verbatim>\<open>TCSM_to_LEARNING\<close> whether re-entering
  would change anything, where every other branch returns true.
\<close>

definition TCSM_run_dry :: "nat \<Rightarrow> nat \<Rightarrow> bridge_t \<Rightarrow> bool" where
  "TCSM_run_dry p k br =
    (let prt = port_at br p; ptp = ptp_of prt k in
     case TCSM_state ptp of
       TCSM_INACTIVE \<Rightarrow>
         (if learn ptp \<and> \<not> fdbFlush ptp then True else False)
     | TCSM_LEARNING \<Rightarrow>
         (if active_port ptp \<and> forward ptp \<and> \<not> operEdge prt then True
          else if rcvdTc ptp \<or> rcvdTcn prt \<or> rcvdTcAck prt \<or> tcProp ptp
          then TCSM_to_LEARNING_dry k prt
          else if \<not> active_port ptp \<and> \<not> (learn ptp \<or> learning ptp)
          then True
          else False)
     | TCSM_NOTIFIED_TCN \<Rightarrow> True
     | TCSM_DETECTED \<Rightarrow> True
     | TCSM_NOTIFIED_TC \<Rightarrow> True
     | TCSM_PROPAGATING \<Rightarrow> True
     | TCSM_ACKNOWLEDGED \<Rightarrow> True
     | TCSM_ACTIVE \<Rightarrow>
         (if \<not> active_port ptp \<or> operEdge prt then True
          else if rcvdTcn prt then True
          else if rcvdTc ptp then True
          else if tcProp ptp then True
          else if rcvdTcAck prt then True
          else False))"

definition TCSM_run :: "nat \<Rightarrow> nat \<Rightarrow> bridge_t \<Rightarrow> bool \<Rightarrow> (bool \<times> bridge_t) option" where
  "TCSM_run p k br dry_run = sm_exec (TCSM_step p k) (TCSM_run_dry p k) br dry_run"

definition TCSM_asks :: "nat \<Rightarrow> nat \<Rightarrow> bridge_t \<Rightarrow> bool" where
  "TCSM_asks p k br \<longleftrightarrow>
    (let prt = port_at br p; ptp = ptp_of prt k in
     TCSM_state ptp = TCSM_LEARNING \<and> \<not> (active_port ptp \<and> forward ptp \<and> \<not> operEdge prt)
     \<and> (rcvdTc ptp \<or> rcvdTcn prt \<or> rcvdTcAck prt \<or> tcProp ptp))"

lemma TCSM_dry_fires [simp]: "\<not> TCSM_asks p k br \<Longrightarrow> TCSM_run_dry p k br = fires (TCSM_step p k br)"
  by (cases "TCSM_state (ptp_at br p k)")
    (auto simp: TCSM_run_dry_def TCSM_step_def TCSM_asks_def Let_def)

lemma TCSM_dry_asks [simp]:
  "TCSM_asks p k br \<Longrightarrow> TCSM_run_dry p k br = TCSM_to_LEARNING_dry k (port_at br p)"
  by (auto simp: TCSM_run_dry_def TCSM_asks_def Let_def)

subsection \<open>Facts about Port State Transition\<close>

lemma set_state_fields [simp]:
  "port_trees (MSTP_OUT_set_state k s prt) = upd_nth k (\<lambda>x. x\<lparr>state := s\<rparr>) (port_trees prt)"
  "deleted (MSTP_OUT_set_state k s prt) = deleted prt"
  "portEnabled (MSTP_OUT_set_state k s prt) = portEnabled prt"
  by (auto simp: MSTP_OUT_set_state_def driver_set_new_state_def Let_def upd_ptp_def emit_def
      upd_nth_id split: br_state_t.split)

text \<open>The kernel's state for a state of the machine.\<close>

definition kernel_state :: "PSTSM_states_t \<Rightarrow> br_state_t" where
  "kernel_state s =
    (case s of PSTSM_DISCARDING \<Rightarrow> BR_STATE_BLOCKING | PSTSM_LEARNING \<Rightarrow> BR_STATE_LEARNING
     | PSTSM_FORWARDING \<Rightarrow> BR_STATE_FORWARDING)"

text \<open>
  The flags and the kernel agree with the machine: what holds after every entry, as long as the
  port has not been deleted.
\<close>

definition pst_coherent :: "bool \<Rightarrow> per_tree_port_t \<Rightarrow> bool" where
  "pst_coherent deld x \<longleftrightarrow>
     (learning x \<longleftrightarrow> PSTSM_state x \<noteq> PSTSM_DISCARDING)
     \<and> (forwarding x \<longleftrightarrow> PSTSM_state x = PSTSM_FORWARDING)
     \<and> (\<not> deld \<longrightarrow> state x = kernel_state (PSTSM_state x))"

lemma set_port_state_trees:
  "port_trees (set_port_state k s prt) =
     (if deleted prt then port_trees prt else upd_nth k (\<lambda>x. x\<lparr>state := s\<rparr>) (port_trees prt))"
  by (auto simp: set_port_state_def upd_nth_id)

lemma set_port_state_fields [simp]:
  "deleted (set_port_state k s prt) = deleted prt"
  "portEnabled (set_port_state k s prt) = portEnabled prt"
  by (simp_all add: set_port_state_def)

definition pst_inv :: "nat \<Rightarrow> port_t \<Rightarrow> bool" where
  "pst_inv k prt \<longleftrightarrow> has_entry k prt \<and> pst_coherent (deleted prt) (ptp_of prt k)
     \<and> (forward (ptp_of prt k) \<longrightarrow> learn (ptp_of prt k))"

definition pst_flags :: "nat \<Rightarrow> port_t \<Rightarrow> bool \<times> bool \<times> bool \<times> nat" where
  "pst_flags k prt = (learn (ptp_of prt k), forward (ptp_of prt k), deleted prt, length (port_trees prt))"

lemma PSTSM_entries:
  assumes "pst_inv k prt"
  shows "pst_coherent (deleted prt) (ptp_of (PSTSM_to_DISCARDING k prt) k)"
    and "PSTSM_state (ptp_of prt k) = PSTSM_DISCARDING
      \<Longrightarrow> pst_coherent (deleted prt) (ptp_of (PSTSM_to_LEARNING k prt) k)"
    and "PSTSM_state (ptp_of prt k) = PSTSM_LEARNING
      \<Longrightarrow> pst_coherent (deleted prt) (ptp_of (PSTSM_to_FORWARDING k prt) k)"
    and "pst_flags k (PSTSM_to_DISCARDING k prt) = pst_flags k prt"
    and "pst_flags k (PSTSM_to_LEARNING k prt) = pst_flags k prt"
    and "pst_flags k (PSTSM_to_FORWARDING k prt) = pst_flags k prt"
    and "PSTSM_state (ptp_of (PSTSM_to_DISCARDING k prt) k) = PSTSM_DISCARDING"
    and "PSTSM_state (ptp_of (PSTSM_to_LEARNING k prt) k) = PSTSM_LEARNING"
    and "PSTSM_state (ptp_of (PSTSM_to_FORWARDING k prt) k) = PSTSM_FORWARDING"
proof -
  have k: "k < length (port_trees prt)" using assms by (simp add: pst_inv_def has_entry_def)
  have del: "deleted (upd_ptp k f p) = deleted p" for f p by (simp add: upd_ptp_def)
  note facts = PSTSM_to_DISCARDING_def PSTSM_to_LEARNING_def PSTSM_to_FORWARDING_def k del
    set_port_state_trees
  show "pst_coherent (deleted prt) (ptp_of (PSTSM_to_DISCARDING k prt) k)"
    by (simp add: facts pst_coherent_def kernel_state_def)
  show "pst_coherent (deleted prt) (ptp_of (PSTSM_to_LEARNING k prt) k)"
    if "PSTSM_state (ptp_of prt k) = PSTSM_DISCARDING"
    using assms that by (simp add: facts pst_inv_def pst_coherent_def kernel_state_def)
  show "pst_coherent (deleted prt) (ptp_of (PSTSM_to_FORWARDING k prt) k)"
    if "PSTSM_state (ptp_of prt k) = PSTSM_LEARNING"
    using assms that by (simp add: facts pst_inv_def pst_coherent_def kernel_state_def)
qed (use assms in \<open>simp_all add: pst_inv_def has_entry_def PSTSM_to_DISCARDING_def
       PSTSM_to_LEARNING_def PSTSM_to_FORWARDING_def set_port_state_trees pst_flags_def upd_ptp_def\<close>)

definition PSTSM_mu :: "nat \<Rightarrow> port_t \<Rightarrow> nat" where
  "PSTSM_mu k prt =
    (case PSTSM_state (ptp_of prt k) of
       PSTSM_FORWARDING \<Rightarrow> 3
     | PSTSM_DISCARDING \<Rightarrow> 2 * of_bool (learn (ptp_of prt k))
     | PSTSM_LEARNING \<Rightarrow> 1)"

lemma PSTSM_step_facts:
  assumes inv: "pst_inv k prt"
    and step: "PSTSM_step k prt = Enter t \<or> PSTSM_step k prt = Last t"
  shows "pst_inv k t" and "pst_flags k t = pst_flags k prt"
    and "PSTSM_step k prt = Enter t \<Longrightarrow> PSTSM_mu k t < PSTSM_mu k prt"
    and "PSTSM_step k prt = Last t \<Longrightarrow> PSTSM_step k t = Stay"
proof -
  note entries = PSTSM_entries [OF inv]
  have all: "pst_inv k t \<and> pst_flags k t = pst_flags k prt
    \<and> (PSTSM_step k prt = Enter t \<longrightarrow> PSTSM_mu k t < PSTSM_mu k prt)
    \<and> (PSTSM_step k prt = Last t \<longrightarrow> PSTSM_step k t = Stay)"
  proof -
    consider "t = PSTSM_to_DISCARDING k prt" "PSTSM_step k prt = Enter t"
        "\<not> learn (ptp_of prt k) \<and> PSTSM_state (ptp_of prt k) = PSTSM_LEARNING
         \<or> PSTSM_state (ptp_of prt k) = PSTSM_FORWARDING"
      | "t = PSTSM_to_LEARNING k prt" "learn (ptp_of prt k)" "PSTSM_step k prt = Enter t"
        "PSTSM_state (ptp_of prt k) = PSTSM_DISCARDING"
      | "t = PSTSM_to_FORWARDING k prt" "forward (ptp_of prt k)" "PSTSM_step k prt = Last t"
        "PSTSM_state (ptp_of prt k) = PSTSM_LEARNING"
      using step by (cases "PSTSM_state (ptp_of prt k)") (auto simp: PSTSM_step_def Let_def split: if_splits)
    then show ?thesis
    proof cases
      case 1
      then show ?thesis
        using entries inv
        by (auto simp: pst_inv_def has_entry_def PSTSM_mu_def pst_flags_def)
    next
      case 2
      then show ?thesis
        using entries inv
        by (auto simp: pst_inv_def has_entry_def PSTSM_mu_def pst_flags_def)
    next
      case 3
      then show ?thesis
        using entries inv
        by (auto simp: pst_inv_def has_entry_def pst_flags_def PSTSM_step_def [of k "PSTSM_to_FORWARDING k prt"] Let_def)
    qed
  qed
  then show "pst_inv k t" "pst_flags k t = pst_flags k prt"
    "PSTSM_step k prt = Enter t \<Longrightarrow> PSTSM_mu k t < PSTSM_mu k prt"
    "PSTSM_step k prt = Last t \<Longrightarrow> PSTSM_step k t = Stay" by blast+
qed

interpretation pstsm: sm_quiescent "PSTSM_step k" "pst_inv k" "PSTSM_mu k" for k
  by unfold_locales (auto intro: PSTSM_step_facts)

text \<open>
  Port State Transition makes the port do what its role machine asks for, and tells the kernel:
  after one run the port is learning if and only if \<open>learn\<close> is set, forwarding if and only
  if \<open>forward\<close> is set, and (unless it has been deleted) the kernel's state for it is
  forwarding, learning or blocking accordingly.
\<close>

theorem PSTSM_run_follows:
  assumes "k < length (port_trees prt)" and "pst_coherent (deleted prt) (ptp_of prt k)"
    and "forward (ptp_of prt k) \<longrightarrow> learn (ptp_of prt k)"
  shows "\<exists>t. PSTSM_run k prt False = Some (False, t)
    \<and> (learning (ptp_of t k) \<longleftrightarrow> learn (ptp_of prt k))
    \<and> (forwarding (ptp_of t k) \<longleftrightarrow> forward (ptp_of prt k))
    \<and> (\<not> deleted prt \<longrightarrow> state (ptp_of t k) =
         (if forward (ptp_of prt k) then BR_STATE_FORWARDING
          else if learn (ptp_of prt k) then BR_STATE_LEARNING else BR_STATE_BLOCKING))"
proof -
  from assms have inv: "pst_inv k prt" by (simp add: pst_inv_def has_entry_def)
  then obtain t where run: "sm_run (PSTSM_step k) prt = Some t" and inv': "pst_inv k t"
    using pstsm.run_returns by blast
  have stay: "PSTSM_step k t = Stay" by (rule pstsm.run_quiescent [OF inv run])
  have flags: "pst_inv k t \<and> pst_flags k t = pst_flags k prt"
    by (rule sm_run_preserves [OF run, where I = "\<lambda>s. pst_inv k s \<and> pst_flags k s = pst_flags k prt"])
      (use inv PSTSM_step_facts(1,2) in auto)
  then have same: "learn (ptp_of t k) = learn (ptp_of prt k)"
      "forward (ptp_of t k) = forward (ptp_of prt k)" "deleted t = deleted prt"
    by (simp_all add: pst_flags_def)
  have "PSTSM_state (ptp_of t k) = (if forward (ptp_of t k) then PSTSM_FORWARDING
      else if learn (ptp_of t k) then PSTSM_LEARNING else PSTSM_DISCARDING)"
    using stay inv' by (cases "PSTSM_state (ptp_of t k)")
      (auto simp: PSTSM_step_def Let_def pst_inv_def split: if_splits)
  then have "PSTSM_run k prt False = Some (False, t)"
    "learning (ptp_of t k) = learn (ptp_of prt k)" "forwarding (ptp_of t k) = forward (ptp_of prt k)"
    "\<not> deleted prt \<longrightarrow> state (ptp_of t k) =
         (if forward (ptp_of prt k) then BR_STATE_FORWARDING
          else if learn (ptp_of prt k) then BR_STATE_LEARNING else BR_STATE_BLOCKING)"
    using run inv' same
    by (auto simp: PSTSM_run_def sm_exec_def pst_inv_def pst_coherent_def kernel_state_def
        split: if_splits)
  then show ?thesis by blast
qed

lemma PSTSM_run_follows_witness:
  "\<exists>t. PSTSM_run 0 (zero_port\<lparr>port_trees := [zero_ptp\<lparr>state := BR_STATE_BLOCKING, learn := True,
      forward := True\<rparr>]\<rparr>) False = Some (False, t)
    \<and> state (ptp_of t 0) = BR_STATE_FORWARDING"
  using PSTSM_run_follows [of 0 "zero_port\<lparr>port_trees := [zero_ptp\<lparr>state := BR_STATE_BLOCKING,
      learn := True, forward := True\<rparr>]\<rparr>"]
  by (auto simp: pst_coherent_def kernel_state_def zero_port_def zero_ptp_def)

subsection \<open>Facts about Topology Change\<close>

text \<open>What the machine of entry \<open>k\<close> of port \<open>p\<close> decides by.\<close>

record tc_view =
  tv_state :: TCSM_states_t
  tv_rcvdTc :: bool
  tv_tcProp :: bool
  tv_rcvdTcn :: bool
  tv_rcvdTcAck :: bool
  tv_active :: bool
  tv_learn :: bool
  tv_forward :: bool
  tv_cist :: bool

definition tc_of :: "port_t \<Rightarrow> per_tree_port_t \<Rightarrow> tc_view" where
  "tc_of prt x = \<lparr>tv_state = TCSM_state x, tv_rcvdTc = rcvdTc x, tv_tcProp = tcProp x,
     tv_rcvdTcn = rcvdTcn prt, tv_rcvdTcAck = rcvdTcAck prt,
     tv_active = (active_port x \<and> \<not> operEdge prt), tv_learn = learn x, tv_forward = forward x,
     tv_cist = (MSTID x = 0)\<rparr>"

definition tc_at :: "nat \<Rightarrow> nat \<Rightarrow> bridge_t \<Rightarrow> tc_view" where
  "tc_at p k br = tc_of (port_at br p) (ptp_at br p k)"

definition in_range :: "nat \<Rightarrow> nat \<Rightarrow> bridge_t \<Rightarrow> bool" where
  "in_range p k br \<longleftrightarrow> p < length (ports br) \<and> k < length (port_trees (port_at br p))"

lemma ports_set_TopologyChange [simp]: "ports (set_TopologyChange k h p br) = ports br"
  by (simp add: set_TopologyChange_def Let_def)

text \<open>An update of the port, or of its entry, seen through the view.\<close>

lemma tc_at_upd_port:
  assumes "in_range p k br"
    and "length (port_trees (f (port_at br p))) = length (port_trees (port_at br p))"
    and "tc_of (f (port_at br p)) (ptp_of (f (port_at br p)) k) = h (tc_at p k br)"
  shows "in_range p k (upd_port p f br) \<and> tc_at p k (upd_port p f br) = h (tc_at p k br)"
  using assms by (simp add: in_range_def tc_at_def)

lemma tc_of_upd_ptp_port [simp]: "tc_of (upd_ptp k f prt) x = tc_of prt x"
  by (simp add: tc_of_def upd_ptp_def)

lemma tc_of_upd_ptp:
  assumes "k < length (port_trees prt)"
  shows "tc_of (upd_ptp k f prt) (ptp_of (upd_ptp k f prt) k) = tc_of prt (f (ptp_of prt k))"
  using assms by simp

lemma tc_at_upd_ptp:
  assumes "in_range p k br" and "tc_of (port_at br p) (f (ptp_at br p k)) = h (tc_at p k br)"
  shows "in_range p k (upd_ptp_at p k f br) \<and> tc_at p k (upd_ptp_at p k f br) = h (tc_at p k br)"
  using assms by (intro tc_at_upd_port) (simp_all add: in_range_def)

lemma tc_at_set_TopologyChange:
  "in_range p k (set_TopologyChange k h q br) = in_range p k br"
  "tc_at p k (set_TopologyChange k h q br) = tc_at p k br"
  by (simp_all add: in_range_def tc_at_def)

lemma tc_at_set_newInfoXst:
  assumes "in_range p k br"
  shows "in_range p k (upd_port p (set_newInfoXst m) br)
    \<and> tc_at p k (upd_port p (set_newInfoXst m) br) = tc_at p k br"
  using assms
  by (intro tc_at_upd_port [where h = "\<lambda>v. v"]) (simp_all add: set_newInfoXst_def tc_of_def tc_at_def)

lemma tc_at_newTcWhile:
  assumes "in_range p k br"
  shows "in_range p k (newTcWhile p k br) \<and> tc_at p k (newTcWhile p k br) = tc_at p k br"
proof -
  have tick: "in_range p k (upd_ptp_at p k (\<lambda>x. x\<lparr>tcWhile := t\<rparr>) br)
      \<and> tc_at p k (upd_ptp_at p k (\<lambda>x. x\<lparr>tcWhile := t\<rparr>) br) = tc_at p k br" for t
    using assms by (intro tc_at_upd_ptp [where h = "\<lambda>v. v"]) (simp_all add: tc_of_def tc_at_def active_port_def)
  then show ?thesis
    using assms by (simp add: newTcWhile_def Let_def tc_at_set_TopologyChange tc_at_set_newInfoXst)
qed

lemma tc_at_setTcPropTree:
  assumes "in_range p k br"
  shows "in_range p k (setTcPropTree p k br) \<and> tc_at p k (setTcPropTree p k br) = tc_at p k br"
  using assms
  by (simp add: setTcPropTree_def in_range_def tc_at_def tc_of_def active_port_def)
    (simp add: upd_ptp_def)

lemma set_fdbFlush_tc:
  assumes "k < length (port_trees prt)"
  shows "length (port_trees (set_fdbFlush br k prt)) = length (port_trees prt)"
    and "tc_of (set_fdbFlush br k prt) (ptp_of (set_fdbFlush br k prt) k) = tc_of prt (ptp_of prt k)"
  using assms
  by (simp_all add: set_fdbFlush_def Let_def MSTP_OUT_set_ageing_time_def MSTP_OUT_flush_all_fids_def
      tc_of_def active_port_def)
    (simp_all add: upd_ptp_def emit_def)

subsection \<open>The entries\<close>

text \<open>What entering a state makes of the view.\<close>

definition tc_enter :: "TCSM_states_t \<Rightarrow> tc_view \<Rightarrow> tc_view" where
  "tc_enter s' v =
    (let c = tv_cist v; w = v\<lparr>tv_state := s'\<rparr> in
     case s' of
       TCSM_LEARNING \<Rightarrow>
         w\<lparr>tv_rcvdTc := False, tv_tcProp := False, tv_rcvdTcn := \<not> c \<and> tv_rcvdTcn v,
           tv_rcvdTcAck := \<not> c \<and> tv_rcvdTcAck v\<rparr>
     | TCSM_NOTIFIED_TC \<Rightarrow> w\<lparr>tv_rcvdTc := False, tv_rcvdTcn := \<not> c \<and> tv_rcvdTcn v\<rparr>
     | TCSM_PROPAGATING \<Rightarrow> w\<lparr>tv_tcProp := False\<rparr>
     | TCSM_ACKNOWLEDGED \<Rightarrow> w\<lparr>tv_rcvdTcAck := False\<rparr>
     | _ \<Rightarrow> w)"

definition tc_entered :: "nat \<Rightarrow> nat \<Rightarrow> bridge_t \<Rightarrow> TCSM_states_t \<Rightarrow> bridge_t \<Rightarrow> bool" where
  "tc_entered p k br s' t \<longleftrightarrow> in_range p k t \<and> tc_at p k t = tc_enter s' (tc_at p k br)"

lemma tc_entered_state:
  assumes "in_range p k br" and "tc_enter s' = (\<lambda>v. v\<lparr>tv_state := s'\<rparr>)"
  shows "tc_entered p k br s' (upd_ptp_at p k (\<lambda>x. x\<lparr>TCSM_state := s'\<rparr>) br)"
  unfolding tc_entered_def
  using assms by (intro tc_at_upd_ptp) (simp_all add: tc_of_def tc_at_def active_port_def)

lemma tc_enter_plain:
  "tc_enter TCSM_INACTIVE = (\<lambda>v. v\<lparr>tv_state := TCSM_INACTIVE\<rparr>)"
  "tc_enter TCSM_DETECTED = (\<lambda>v. v\<lparr>tv_state := TCSM_DETECTED\<rparr>)"
  "tc_enter TCSM_NOTIFIED_TCN = (\<lambda>v. v\<lparr>tv_state := TCSM_NOTIFIED_TCN\<rparr>)"
  "tc_enter TCSM_ACTIVE = (\<lambda>v. v\<lparr>tv_state := TCSM_ACTIVE\<rparr>)"
  by (simp_all add: fun_eq_iff tc_enter_def Let_def)

lemma TCSM_enters_simple:
  assumes "in_range p k br"
  shows "tc_entered p k br TCSM_ACTIVE (TCSM_to_ACTIVE p k br)"
    and "tc_entered p k br TCSM_NOTIFIED_TCN (TCSM_to_NOTIFIED_TCN p k br)"
    and "tc_entered p k br TCSM_DETECTED (TCSM_to_DETECTED p k br)"
proof -
  note st = tc_entered_state [OF assms, unfolded tc_entered_def]
  show "tc_entered p k br TCSM_ACTIVE (TCSM_to_ACTIVE p k br)"
    using st by (simp add: tc_entered_def TCSM_to_ACTIVE_def tc_enter_plain)
  show "tc_entered p k br TCSM_NOTIFIED_TCN (TCSM_to_NOTIFIED_TCN p k br)"
    using st [of TCSM_NOTIFIED_TCN] tc_at_newTcWhile
    by (simp add: tc_entered_def TCSM_to_NOTIFIED_TCN_def tc_enter_plain)
  have new: "in_range p k (upd_port p (\<lambda>prt. set_newInfoXst (MSTID (ptp_of prt k)) prt) b)
      \<and> tc_at p k (upd_port p (\<lambda>prt. set_newInfoXst (MSTID (ptp_of prt k)) prt) b) = tc_at p k b"
    if "in_range p k b" for b
    using that by (intro tc_at_upd_port [where h = "\<lambda>v. v"])
      (simp_all add: set_newInfoXst_def tc_of_def tc_at_def)
  show "tc_entered p k br TCSM_DETECTED (TCSM_to_DETECTED p k br)"
    using st [of TCSM_DETECTED] tc_at_newTcWhile tc_at_setTcPropTree new
    by (simp add: tc_entered_def TCSM_to_DETECTED_def tc_enter_plain)
qed

lemma TCSM_enters_INACTIVE:
  assumes "in_range p k br"
  shows "tc_entered p k br TCSM_INACTIVE (TCSM_to_INACTIVE p k br)"
proof -
  let ?f = "\<lambda>prt. upd_ptp k (\<lambda>x. x\<lparr>tcWhile := 0\<rparr>)
      (set_fdbFlush br k (upd_ptp k (\<lambda>x. x\<lparr>TCSM_state := TCSM_INACTIVE\<rparr>) prt))"
  have "in_range p k (upd_port p ?f br)
      \<and> tc_at p k (upd_port p ?f br) = (tc_at p k br)\<lparr>tv_state := TCSM_INACTIVE\<rparr>"
  proof (rule tc_at_upd_port [OF assms])
    let ?q = "upd_ptp k (\<lambda>x. x\<lparr>TCSM_state := TCSM_INACTIVE\<rparr>) (port_at br p)"
    have k: "k < length (port_trees ?q)" using assms by (simp add: in_range_def)
    show "length (port_trees (?f (port_at br p))) = length (port_trees (port_at br p))"
      using set_fdbFlush_tc(1) [OF k, of br] by simp
    have "tc_of (?f (port_at br p)) (ptp_of (?f (port_at br p)) k)
        = tc_of (set_fdbFlush br k ?q) (ptp_of (set_fdbFlush br k ?q) k)"
      using k set_fdbFlush_tc(1) [OF k, of br] by (subst tc_of_upd_ptp) (simp_all add: tc_of_def active_port_def)
    also have "\<dots> = tc_of ?q (ptp_of ?q k)" by (rule set_fdbFlush_tc(2) [OF k])
    finally show "tc_of (?f (port_at br p)) (ptp_of (?f (port_at br p)) k)
        = (tc_at p k br)\<lparr>tv_state := TCSM_INACTIVE\<rparr>"
      using k by (simp add: tc_at_def) (simp add: tc_of_def active_port_def upd_ptp_def)
  qed
  moreover have "in_range p k (upd_port p (\<lambda>prt. prt\<lparr>tcAck := False\<rparr>) b)
      \<and> tc_at p k (upd_port p (\<lambda>prt. prt\<lparr>tcAck := False\<rparr>) b) = tc_at p k b"
    if "in_range p k b" for b
    using that by (intro tc_at_upd_port [where h = "\<lambda>v. v"]) (simp_all add: tc_of_def tc_at_def)
  ultimately show ?thesis
    by (simp add: tc_entered_def TCSM_to_INACTIVE_def Let_def tc_enter_plain tc_at_set_TopologyChange)
qed

lemma TCSM_enters_LEARNING:
  assumes "in_range p k br"
  shows "tc_entered p k br TCSM_LEARNING (TCSM_to_LEARNING p k br)"
  unfolding tc_entered_def TCSM_to_LEARNING_def
  using assms
  by (intro tc_at_upd_port)
    (simp_all add: in_range_def tc_of_def tc_at_def tc_enter_def active_port_def upd_ptp_def)

lemma TCSM_enters_NOTIFIED_TC:
  assumes "in_range p k br"
  shows "tc_entered p k br TCSM_NOTIFIED_TC (TCSM_to_NOTIFIED_TC p k br)"
proof -
  let ?f = "\<lambda>prt. upd_ptp k (\<lambda>x. x\<lparr>TCSM_state := TCSM_NOTIFIED_TC, rcvdTc := False\<rparr>)
         (if MSTID (ptp_of prt k) = 0 then
            prt\<lparr>rcvdTcn := False,
                tcAck := (if role (ptp_of prt k) = roleDesignated then True else tcAck prt)\<rparr>
          else prt)"
  have "in_range p k (upd_port p ?f br)
      \<and> tc_at p k (upd_port p ?f br) = tc_enter TCSM_NOTIFIED_TC (tc_at p k br)"
    using assms
    by (intro tc_at_upd_port)
      (simp_all add: in_range_def tc_of_def tc_at_def tc_enter_def active_port_def upd_ptp_def)
  then show ?thesis
    using tc_at_setTcPropTree by (simp add: tc_entered_def TCSM_to_NOTIFIED_TC_def)
qed

lemma TCSM_enters_PROPAGATING:
  assumes "in_range p k br"
  shows "tc_entered p k br TCSM_PROPAGATING (TCSM_to_PROPAGATING p k br)"
proof -
  let ?b0 = "upd_ptp_at p k (\<lambda>x. x\<lparr>TCSM_state := TCSM_PROPAGATING\<rparr>) br"
  let ?b1 = "newTcWhile p k ?b0"
  have "in_range p k ?b0 \<and> tc_at p k ?b0 = (tc_at p k br)\<lparr>tv_state := TCSM_PROPAGATING\<rparr>"
    using assms by (intro tc_at_upd_ptp) (simp_all add: tc_of_def tc_at_def active_port_def)
  then have r1: "in_range p k ?b1" and v1: "tc_at p k ?b1 = (tc_at p k br)\<lparr>tv_state := TCSM_PROPAGATING\<rparr>"
    using tc_at_newTcWhile by simp_all
  let ?q = "port_at ?b1 p"
  have k: "k < length (port_trees ?q)" using r1 by (simp add: in_range_def)
  let ?f = "\<lambda>prt. upd_ptp k (\<lambda>x. x\<lparr>tcProp := False\<rparr>) (set_fdbFlush ?b1 k prt)"
  have "in_range p k (upd_port p ?f ?b1)
      \<and> tc_at p k (upd_port p ?f ?b1) = (tc_at p k ?b1)\<lparr>tv_tcProp := False\<rparr>"
  proof (rule tc_at_upd_port [OF r1])
    show "length (port_trees (?f ?q)) = length (port_trees ?q)"
      using set_fdbFlush_tc(1) [OF k, of ?b1] by simp
    have "tc_of (?f ?q) (ptp_of (?f ?q) k)
        = (tc_of (set_fdbFlush ?b1 k ?q) (ptp_of (set_fdbFlush ?b1 k ?q) k))\<lparr>tv_tcProp := False\<rparr>"
      using k set_fdbFlush_tc(1) [OF k, of ?b1]
      by (subst tc_of_upd_ptp) (simp_all add: tc_of_def active_port_def)
    then show "tc_of (?f ?q) (ptp_of (?f ?q) k) = (tc_at p k ?b1)\<lparr>tv_tcProp := False\<rparr>"
      by (simp add: set_fdbFlush_tc(2) [OF k] tc_at_def)
  qed
  then show ?thesis
    by (simp add: tc_entered_def TCSM_to_PROPAGATING_def Let_def v1 tc_enter_def)
qed

lemma TCSM_enters_ACKNOWLEDGED:
  assumes "in_range p k br"
  shows "tc_entered p k br TCSM_ACKNOWLEDGED (TCSM_to_ACKNOWLEDGED p k br)"
proof -
  let ?b0 = "upd_ptp_at p k (\<lambda>x. x\<lparr>TCSM_state := TCSM_ACKNOWLEDGED, tcWhile := 0\<rparr>) br"
  have "in_range p k ?b0 \<and> tc_at p k ?b0 = (tc_at p k br)\<lparr>tv_state := TCSM_ACKNOWLEDGED\<rparr>"
    using assms by (intro tc_at_upd_ptp) (simp_all add: tc_of_def tc_at_def active_port_def)
  moreover have "in_range p k (upd_port p (\<lambda>prt. prt\<lparr>rcvdTcAck := False\<rparr>) b)
      \<and> tc_at p k (upd_port p (\<lambda>prt. prt\<lparr>rcvdTcAck := False\<rparr>) b)
        = (tc_at p k b)\<lparr>tv_rcvdTcAck := False\<rparr>"
    if "in_range p k b" for b
    using that by (intro tc_at_upd_port [where h = "\<lambda>v. v\<lparr>tv_rcvdTcAck := False\<rparr>"])
      (simp_all add: tc_of_def tc_at_def)
  ultimately show ?thesis
    by (simp add: tc_entered_def TCSM_to_ACKNOWLEDGED_def tc_at_set_TopologyChange tc_enter_def)
qed

lemmas TCSM_enters = TCSM_enters_simple TCSM_enters_INACTIVE TCSM_enters_LEARNING
  TCSM_enters_NOTIFIED_TC TCSM_enters_PROPAGATING TCSM_enters_ACKNOWLEDGED

subsection \<open>Termination for the CIST, and for an MSTI without pending notifications\<close>

definition tc_later :: "tc_view \<Rightarrow> nat" where
  "tc_later v = of_bool (tv_tcProp v) + of_bool (tv_rcvdTcAck v)"

definition tc_pending :: "tc_view \<Rightarrow> nat" where
  "tc_pending v = of_bool (tv_rcvdTc v) + of_bool (tv_rcvdTcn v) + tc_later v"

definition tc_mu :: "tc_view \<Rightarrow> nat" where
  "tc_mu v =
    (let d = (if tv_active v then 0 else 5) in
     case tv_state v of
       TCSM_INACTIVE \<Rightarrow> 20 * tc_pending v + (if tv_learn v then 4 else 0)
     | TCSM_LEARNING \<Rightarrow> 20 * tc_pending v + 3
     | TCSM_ACTIVE \<Rightarrow> 20 * tc_pending v + 1 + d
     | TCSM_NOTIFIED_TCN \<Rightarrow> 20 * tc_later v + 6 + d
     | _ \<Rightarrow> 20 * tc_pending v + 2 + d)"

text \<open>The transitions, as pairs of a view and the state entered.\<close>

definition tc_may_enter :: "tc_view \<Rightarrow> TCSM_states_t \<Rightarrow> bool" where
  "tc_may_enter v s' \<longleftrightarrow>
    (case tv_state v of
       TCSM_INACTIVE \<Rightarrow> s' = TCSM_LEARNING \<and> tv_learn v
     | TCSM_LEARNING \<Rightarrow>
         (if tv_active v \<and> tv_forward v then s' = TCSM_DETECTED
          else if tv_rcvdTc v \<or> tv_rcvdTcn v \<or> tv_rcvdTcAck v \<or> tv_tcProp v then s' = TCSM_LEARNING
          else s' = TCSM_INACTIVE \<and> \<not> tv_learn v)
     | TCSM_NOTIFIED_TCN \<Rightarrow> s' = TCSM_NOTIFIED_TC
     | TCSM_ACTIVE \<Rightarrow>
         (if \<not> tv_active v then s' = TCSM_LEARNING
          else if tv_rcvdTcn v then s' = TCSM_NOTIFIED_TCN
          else if tv_rcvdTc v then s' = TCSM_NOTIFIED_TC
          else if tv_tcProp v then s' = TCSM_PROPAGATING
          else s' = TCSM_ACKNOWLEDGED \<and> tv_rcvdTcAck v)
     | _ \<Rightarrow> s' = TCSM_ACTIVE)"

lemma TCSM_step_view:
  assumes r: "in_range p k br" and step: "TCSM_step p k br = Enter t"
  shows "\<exists>s'. tc_may_enter (tc_at p k br) s' \<and> tc_entered p k br s' t"
proof -
  note [simp] = TCSM_enters [OF r]
  note defs = TCSM_step_def Let_def tc_may_enter_def tc_at_def tc_of_def
  show ?thesis
  proof (cases "TCSM_state (ptp_at br p k)")
    case TCSM_INACTIVE
    with step show ?thesis by (auto simp: defs split: if_splits)
  next
    case TCSM_LEARNING
    with step show ?thesis
      by (cases "active_port (ptp_at br p k) \<and> forward (ptp_at br p k) \<and> \<not> operEdge (port_at br p)")
        (auto simp: defs split: if_splits)
  next
    case TCSM_ACTIVE
    with step show ?thesis
      by (cases "\<not> active_port (ptp_at br p k) \<or> operEdge (port_at br p)")
        (auto simp: defs split: if_splits)
  qed (use step in \<open>auto simp: defs\<close>)
qed

lemma TCSM_step_no_Last: "TCSM_step p k br \<noteq> Last t"
  by (simp add: TCSM_step_def Let_def split: TCSM_states_t.split)

text \<open>No notification waits on the port that the entry's tree could not clear.\<close>

definition tc_inv :: "nat \<Rightarrow> nat \<Rightarrow> bridge_t \<Rightarrow> bool" where
  "tc_inv p k br \<longleftrightarrow> in_range p k br
     \<and> (tv_cist (tc_at p k br) \<or> \<not> tv_rcvdTcn (tc_at p k br) \<and> \<not> tv_rcvdTcAck (tc_at p k br))"

lemma tc_enter_flags:
  assumes "tv_cist v \<or> \<not> tv_rcvdTcn v \<and> \<not> tv_rcvdTcAck v"
  shows "tv_cist (tc_enter s' v) \<or> \<not> tv_rcvdTcn (tc_enter s' v) \<and> \<not> tv_rcvdTcAck (tc_enter s' v)"
  using assms by (cases s') (auto simp: tc_enter_def)

lemma tc_enter_pending:
  "tc_pending (tc_enter TCSM_INACTIVE v) = tc_pending v"
  "tc_pending (tc_enter TCSM_DETECTED v) = tc_pending v"
  "tc_pending (tc_enter TCSM_ACTIVE v) = tc_pending v"
  "tc_later (tc_enter TCSM_NOTIFIED_TCN v) = tc_later v"
  "tv_tcProp v \<Longrightarrow> tc_pending (tc_enter TCSM_PROPAGATING v) < tc_pending v"
  "tv_rcvdTcAck v \<Longrightarrow> tc_pending (tc_enter TCSM_ACKNOWLEDGED v) < tc_pending v"
  "tv_rcvdTc v \<Longrightarrow> tc_pending (tc_enter TCSM_NOTIFIED_TC v) < tc_pending v"
  "tv_rcvdTcn v \<Longrightarrow> tc_later v < tc_pending v"
  by (simp_all add: tc_enter_def tc_pending_def tc_later_def)

lemma tc_enter_pending_cleared:
  assumes "tv_cist v \<or> \<not> tv_rcvdTcn v \<and> \<not> tv_rcvdTcAck v"
  shows "tc_pending (tc_enter TCSM_LEARNING v) = 0"
    and "tc_pending (tc_enter TCSM_NOTIFIED_TC v) = tc_later v"
  using assms by (auto simp: tc_enter_def tc_pending_def tc_later_def)

lemma tc_enter_plain_fields [simp]:
  "tv_state (tc_enter s' v) = s'" "tv_active (tc_enter s' v) = tv_active v"
  "tv_learn (tc_enter s' v) = tv_learn v"
  by (simp_all add: tc_enter_def Let_def split: TCSM_states_t.split)

lemma tc_pending_pos:
  "tv_rcvdTc v \<or> tv_rcvdTcn v \<or> tv_rcvdTcAck v \<or> tv_tcProp v \<Longrightarrow> 0 < tc_pending v"
  by (auto simp: tc_pending_def tc_later_def)

lemma tc_enter_mu:
  assumes "tv_cist v \<or> \<not> tv_rcvdTcn v \<and> \<not> tv_rcvdTcAck v" and "tc_may_enter v s'"
  shows "tc_mu (tc_enter s' v) < tc_mu v"
proof -
  note cleared = tc_enter_pending_cleared [OF assms(1)]
  show ?thesis
  proof (cases "tv_state v")
    case TCSM_LEARNING
    then consider "s' = TCSM_DETECTED" "tv_active v" | "s' = TCSM_INACTIVE" "\<not> tv_learn v"
      | "s' = TCSM_LEARNING" "0 < tc_pending v"
      using assms(2) tc_pending_pos [of v] by (auto simp: tc_may_enter_def split: if_splits)
    then show ?thesis
      using TCSM_LEARNING by cases (simp_all add: tc_mu_def tc_enter_pending cleared)
  next
    case TCSM_ACTIVE
    then consider "s' = TCSM_LEARNING" "\<not> tv_active v" | "s' = TCSM_NOTIFIED_TCN" "tv_rcvdTcn v"
      | "s' = TCSM_NOTIFIED_TC" "tv_rcvdTc v" | "s' = TCSM_PROPAGATING" "tv_tcProp v"
      | "s' = TCSM_ACKNOWLEDGED" "tv_rcvdTcAck v"
      using assms(2) by (auto simp: tc_may_enter_def split: if_splits)
    then show ?thesis
      using TCSM_ACTIVE tc_enter_pending [of v] by cases (simp_all add: tc_mu_def cleared)
  qed (use assms(2) in \<open>simp_all add: tc_may_enter_def tc_mu_def tc_enter_pending cleared\<close>)
qed

interpretation tcsm: sm_quiescent "TCSM_step p k" "tc_inv p k" "\<lambda>br. tc_mu (tc_at p k br)" for p k
proof
  fix s t
  assume s: "tc_inv p k s" and step: "TCSM_step p k s = Enter t"
  then obtain s' where "tc_may_enter (tc_at p k s) s'" "tc_entered p k s s' t"
    using TCSM_step_view [of p k s t] by (auto simp: tc_inv_def)
  then show "tc_inv p k t" and "tc_mu (tc_at p k t) < tc_mu (tc_at p k s)"
    using s tc_enter_mu [of "tc_at p k s" s'] tc_enter_flags [of "tc_at p k s" s'] by (auto simp: tc_inv_def tc_entered_def)
qed (simp_all add: TCSM_step_no_Last)

text \<open>
  For the CIST, and for an MSTI of a port on which no TCN or acknowledgement is pending, the
  Topology Change machine returns and leaves no topology change unprocessed: an active
  forwarding port is not left in \<^verbatim>\<open>LEARNING\<close>, and in \<^verbatim>\<open>ACTIVE\<close> no received or
  propagated topology change is pending.
\<close>

theorem TCSM_run_settles:
  assumes "p < length (ports br)" and "k < length (port_trees (port_at br p))"
    and "MSTID (ptp_at br p k) = 0 \<or> \<not> rcvdTcn (port_at br p) \<and> \<not> rcvdTcAck (port_at br p)"
  shows "\<exists>t. TCSM_run p k br False = Some (False, t)
    \<and> (let prt = port_at t p; x = ptp_of prt k in
         (TCSM_state x = TCSM_LEARNING \<longrightarrow> \<not> (active_port x \<and> forward x \<and> \<not> operEdge prt)
            \<and> \<not> rcvdTc x \<and> \<not> rcvdTcn prt \<and> \<not> rcvdTcAck prt \<and> \<not> tcProp x)
       \<and> (TCSM_state x = TCSM_ACTIVE \<longrightarrow> active_port x \<and> \<not> operEdge prt
            \<and> \<not> rcvdTcn prt \<and> \<not> rcvdTc x \<and> \<not> tcProp x \<and> \<not> rcvdTcAck prt)
       \<and> (TCSM_state x = TCSM_INACTIVE \<or> TCSM_state x = TCSM_LEARNING \<or> TCSM_state x = TCSM_ACTIVE))"
proof -
  have inv: "tc_inv p k br"
    using assms by (simp add: tc_inv_def in_range_def tc_at_def tc_of_def)
  then obtain t where run: "sm_run (TCSM_step p k) br = Some t"
    using tcsm.run_returns by blast
  have stay: "TCSM_step p k t = Stay" by (rule tcsm.run_quiescent [OF inv run])
  then show ?thesis
    using run
    by (cases "TCSM_state (ptp_at t p k)")
      (auto simp: TCSM_run_def sm_exec_def TCSM_step_def Let_def split: if_splits)
qed

subsection \<open>Divergence for an MSTI with a pending notification\<close>


text \<open>A bridge with one port that is an alternate port of the CIST and active for MSTI 1.\<close>

definition two_tree_port :: "TCSM_states_t \<Rightarrow> port_t" where
  "two_tree_port s = zero_port\<lparr>portEnabled := True, rcvdTcn := True,
     port_trees := [zero_ptp\<lparr>role := roleAlternate\<rparr>,
       zero_ptp\<lparr>MSTID := 1, role := roleDesignated, TCSM_state := s\<rparr>]\<rparr>"

definition two_tree_bridge :: "TCSM_states_t \<Rightarrow> bridge_t" where
  "two_tree_bridge s = zero_bridge\<lparr>bridgeEnabled := True, ports := [two_tree_port s],
     trees := [zero_tree, zero_tree\<lparr>tree_MSTID := 1\<rparr>]\<rparr>"

lemma TCSM_run_settles_witness:
  "\<exists>t. TCSM_run 0 0 (two_tree_bridge TCSM_ACTIVE) False = Some (False, t)"
  using TCSM_run_settles [of 0 "two_tree_bridge TCSM_ACTIVE" 0]
  by (auto simp: two_tree_bridge_def two_tree_port_def zero_ptp_def)


end
