(* ===== verification/MSTP_Bridge.thy ===== *)
theory MSTP_Bridge
  imports MSTP_StateMachines
begin

section \<open>The bridge: all machines together\<close>

text \<open>
  The timers (13.27), the BEGIN procedures, and \<open>br_state_machines_run\<close>: passes over all
  machines of all ports and trees, each preceded by a dry pass that tells whether anything
  would change, until nothing would or a second has gone by.
\<close>

subsection \<open>Loops over ports and trees\<close>

text \<open>
  \<^verbatim>\<open>FOREACH_...\<close> around statements, and around
  \<^verbatim>\<open>if(X_run(x, dry_run) && dry_run) return true;\<close>. The statements keep the lists'
  lengths, so the indices are those of the list the loop starts with.
\<close>

definition for_ports :: "(nat \<Rightarrow> bridge_t \<Rightarrow> bridge_t) \<Rightarrow> bridge_t \<Rightarrow> bridge_t" where
  "for_ports f br = fold f [0..<length (ports br)] br"

definition for_trees :: "(nat \<Rightarrow> bridge_t \<Rightarrow> bridge_t) \<Rightarrow> bridge_t \<Rightarrow> bridge_t" where
  "for_trees f br = fold f [0..<length (trees br)] br"

definition for_ptps :: "(nat \<Rightarrow> nat \<Rightarrow> bridge_t \<Rightarrow> bridge_t) \<Rightarrow> nat \<Rightarrow> bridge_t \<Rightarrow> bridge_t" where
  "for_ptps f p br = fold (f p) [0..<length (port_trees (port_at br p))] br"

type_synonym bridge_run = "bridge_t \<Rightarrow> bool \<Rightarrow> (bool \<times> bridge_t) option"

fun run_each :: "('a \<Rightarrow> bridge_run) \<Rightarrow> 'a list \<Rightarrow> bridge_run" where
  "run_each f [] br dry_run = Some (False, br)"
| "run_each f (x # xs) br dry_run =
    (case f x br dry_run of
       None \<Rightarrow> None
     | Some (r, br1) \<Rightarrow> if r \<and> dry_run then Some (True, br1) else run_each f xs br1 dry_run)"

definition each_port :: "(nat \<Rightarrow> bridge_run) \<Rightarrow> bridge_run" where
  "each_port f br dry_run = run_each f [0..<length (ports br)] br dry_run"

definition each_tree :: "(nat \<Rightarrow> bridge_run) \<Rightarrow> bridge_run" where
  "each_tree f br dry_run = run_each f [0..<length (trees br)] br dry_run"

definition each_ptp :: "(nat \<Rightarrow> nat \<Rightarrow> bridge_run) \<Rightarrow> bridge_run" where
  "each_ptp f br dry_run =
     each_port (\<lambda>p br dry_run.
       run_each (f p) [0..<length (port_trees (port_at br p))] br dry_run) br dry_run"

text \<open>A machine that only writes its port, as a machine on the bridge.\<close>

definition on_port ::
  "(bridge_t \<Rightarrow> port_t \<Rightarrow> bool \<Rightarrow> (bool \<times> port_t) option) \<Rightarrow> nat \<Rightarrow> bridge_run" where
  "on_port f p br dry_run =
     map_option (\<lambda>(r, prt). (r, upd_port p (\<lambda>_. prt) br)) (f br (port_at br p) dry_run)"

subsection \<open>13.27 Port Timers\<close>

definition PTSM_tick_ptp :: "per_tree_port_t \<Rightarrow> per_tree_port_t" where
  "PTSM_tick_ptp x =
     x\<lparr>fdWhile := dec_timer (fdWhile x), rrWhile := dec_timer (rrWhile x),
       rbWhile := dec_timer (rbWhile x), tcWhile := dec_timer (tcWhile x),
       rcvdInfoWhile := dec_timer (rcvdInfoWhile x)\<rparr>"

definition PTSM_tick_tree :: "nat \<Rightarrow> nat \<Rightarrow> bridge_t \<Rightarrow> bridge_t" where
  "PTSM_tick_tree p k br =
    (let br1 = upd_ptp_at p k PTSM_tick_ptp br in
     if tcWhile (ptp_at br p k) \<noteq> 0 \<and> tcWhile (ptp_at br1 p k) = 0
     then set_TopologyChange k False p br1 else br1)"

definition PTSM_tick :: "nat \<Rightarrow> bridge_t \<Rightarrow> bridge_t" where
  "PTSM_tick p br =
     for_ptps PTSM_tick_tree p
       (upd_port p (\<lambda>prt. prt\<lparr>helloWhen := dec_timer (helloWhen prt),
          mdelayWhile := dec_timer (mdelayWhile prt),
          edgeDelayWhile := dec_timer (edgeDelayWhile prt), txCount := dec_timer (txCount prt),
          brAssuRcvdInfoWhile := dec_timer (brAssuRcvdInfoWhile prt)\<rparr>) br)"

subsection \<open>One pass over all machines\<close>

definition BA_check :: "bridge_t \<Rightarrow> port_t \<Rightarrow> bool \<Rightarrow> (bool \<times> port_t) option" where
  "BA_check br prt dry_run =
    (if portEnabled prt \<and> assurancePort prt \<and> brAssuRcvdInfoWhile prt = 0 \<and> \<not> BaInconsistent prt
     then (if dry_run then Some (True, prt) else Some (False, prt\<lparr>BaInconsistent := True\<rparr>))
     else Some (False, prt))"

definition all_machines :: "bridge_run list" where
  "all_machines =
    [each_port (on_port BA_check),
     each_port (on_port (\<lambda>br prt dry_run. Some (PRSM_run br prt dry_run))),
     each_port (on_port PPMSM_run),
     each_port (on_port (\<lambda>br. BDSM_run)),
     each_port (on_port PTSM_run),
     each_ptp (\<lambda>p k. on_port (\<lambda>br. PISM_run br k) p),
     each_tree PRSSM_run,
     each_ptp PRTSM_run,
     each_ptp (\<lambda>p k. on_port (\<lambda>br. PSTSM_run k) p),
     each_ptp TCSM_run]"

text \<open>\<^verbatim>\<open>__br_state_machines_run\<close>.\<close>

definition br_state_machines_pass :: bridge_run where
  "br_state_machines_pass = run_each (\<lambda>m. m) all_machines"

subsection \<open>Running until nothing changes\<close>

text \<open>
  \<open>clk\<close> is the number of actual passes after which the clock still reads at most a second;
  the pass after them is the last.
\<close>

fun br_state_machines_loop :: "nat \<Rightarrow> bridge_t \<Rightarrow> bridge_t option" where
  "br_state_machines_loop clk br =
    (case br_state_machines_pass br True of
       None \<Rightarrow> None
     | Some (changed, br0) \<Rightarrow>
         if \<not> changed then Some br0
         else (case br_state_machines_pass br0 False of
                 None \<Rightarrow> None
               | Some (_, br1) \<Rightarrow>
                   (case clk of 0 \<Rightarrow> Some br1 | Suc n \<Rightarrow> br_state_machines_loop n br1)))"

definition br_state_machines_run :: "nat \<Rightarrow> bridge_t \<Rightarrow> bridge_t option" where
  "br_state_machines_run clk br =
     (if \<not> bridgeEnabled br then Some br else br_state_machines_loop clk br)"

declare br_state_machines_loop.simps [simp del]

subsection \<open>Execution of BEGIN\<close>

definition PRSM_begin :: "nat \<Rightarrow> bridge_t \<Rightarrow> bridge_t" where
  "PRSM_begin p br = upd_port p (PRSM_to_DISCARD br) br"

definition PPMSM_begin :: "nat \<Rightarrow> bridge_t \<Rightarrow> bridge_t" where
  "PPMSM_begin p br = upd_port p (PPMSM_to_CHECKING_RSTP br) br"

definition PTSM_begin :: "nat \<Rightarrow> bridge_t \<Rightarrow> bridge_t" where
  "PTSM_begin p br = upd_port p PTSM_to_TRANSMIT_INIT br"

text \<open>\<^verbatim>\<open>ptp->start_time = br->uptime; PISM_begin(ptp)\<close>.\<close>

definition PISM_begin :: "nat \<Rightarrow> nat \<Rightarrow> bridge_t \<Rightarrow> bridge_t" where
  "PISM_begin p k br =
     upd_port p (\<lambda>prt. PISM_to_DISABLED k (upd_ptp k (\<lambda>x. x\<lparr>start_time := uptime br\<rparr>) prt)) br"

definition PSTSM_begin :: "nat \<Rightarrow> nat \<Rightarrow> bridge_t \<Rightarrow> bridge_t" where
  "PSTSM_begin p k br = upd_port p (PSTSM_to_DISCARDING k) br"

definition tree_state_machines_begin :: "nat \<Rightarrow> nat \<Rightarrow> bridge_t \<Rightarrow> bridge_t option" where
  "tree_state_machines_begin clk k br =
    (if \<not> bridgeEnabled br then Some br
     else br_state_machines_run clk
       (for_ports (\<lambda>p. TCSM_to_INACTIVE p k)
         (for_ports (\<lambda>p. PSTSM_begin p k)
           (for_ports (\<lambda>p. PRTSM_to_INIT_PORT p k)
             (PRSSM_to_INIT_TREE k (for_ports (\<lambda>p. PISM_begin p k) br))))))"

text \<open>A new port runs the role selection of every tree, where the other BEGINs enter BEGIN.\<close>

definition PRSSM_run_actual :: "nat \<Rightarrow> bridge_t \<Rightarrow> bridge_t" where
  "PRSSM_run_actual k br =
     (case PRSSM_step k br of Stay \<Rightarrow> br | Enter br1 \<Rightarrow> br1 | Last br1 \<Rightarrow> br1)"

definition prt_state_machines_begin :: "nat \<Rightarrow> nat \<Rightarrow> bridge_t \<Rightarrow> bridge_t option" where
  "prt_state_machines_begin clk p br =
    (if \<not> bridgeEnabled br then Some br
     else br_state_machines_run clk
       (for_ptps TCSM_to_INACTIVE p
         (for_ptps PSTSM_begin p
           (for_ptps PRTSM_to_INIT_PORT p
             (for_trees PRSSM_run_actual
               (for_ptps PISM_begin p
                 (PTSM_begin p (upd_port p BDSM_begin (PPMSM_begin p (PRSM_begin p br))))))))))"

definition br_state_machines_begin :: "nat \<Rightarrow> bridge_t \<Rightarrow> bridge_t option" where
  "br_state_machines_begin clk br =
    (if \<not> bridgeEnabled br then Some br
     else br_state_machines_run clk
       (for_ports (for_ptps TCSM_to_INACTIVE)
         (for_ports (for_ptps PSTSM_begin)
           (for_ports (for_ptps PRTSM_to_INIT_PORT)
             (for_trees PRSSM_to_INIT_TREE
               (for_ports (for_ptps PISM_begin)
                 (for_ports PTSM_begin
                   (for_ports (\<lambda>p. upd_port p BDSM_begin)
                     (for_ports PPMSM_begin (for_ports PRSM_begin br))))))))))"

lemma PRSSM_run_actual: "PRSSM_run k br False = Some (False, PRSSM_run_actual k br)"
  by (cases "PRSSM_state (tree_at br k)")
    (auto simp: PRSSM_run_def sm_exec_def PRSSM_run_actual_def PRSSM_step_def
      sm_run_Stay sm_run_Last split: if_splits)

end
