(* ===== verification/MSTP_Md5.thy ===== *)
theory MSTP_Md5
  imports MSTP_Prelude
begin

section \<open>The configuration digest: HMAC-MD5 (\<^verbatim>\<open>hmac_md5.c\<close>)\<close>

text \<open>
  The MD5 context with its block buffer and bit counter, the streaming interface
  \<open>MD5Init\<close>, \<open>MD5Update\<close>, \<open>MD5Final\<close>, and \<open>hmac_md5\<close>. An array of octets is a list;
  \<open>md5_repr\<close> says which message a context stands for, and the streaming interface is proved
  to compute the padded, block-wise digest of that message.
\<close>

subsection \<open>The transformation of one block\<close>

definition md5_F :: "u32 \<Rightarrow> u32 \<Rightarrow> u32 \<Rightarrow> u32" where
  "md5_F x y z = (x AND y) OR (NOT x AND z)"

definition md5_G :: "u32 \<Rightarrow> u32 \<Rightarrow> u32 \<Rightarrow> u32" where
  "md5_G x y z = (x AND z) OR (y AND NOT z)"

definition md5_H :: "u32 \<Rightarrow> u32 \<Rightarrow> u32 \<Rightarrow> u32" where
  "md5_H x y z = x XOR y XOR z"

definition md5_I :: "u32 \<Rightarrow> u32 \<Rightarrow> u32 \<Rightarrow> u32" where
  "md5_I x y z = y XOR (x OR NOT z)"

definition ROTATE_LEFT :: "u32 \<Rightarrow> nat \<Rightarrow> u32" where
  "ROTATE_LEFT x n = push_bit n x OR drop_bit (32 - n) x"

type_synonym md5_state = "u32 \<times> u32 \<times> u32 \<times> u32"

text \<open>
  One of the macros \<^verbatim>\<open>FF\<close>, \<^verbatim>\<open>GG\<close>, \<^verbatim>\<open>HH\<close>, \<^verbatim>\<open>II\<close>, given its function. The
  calls name the registers in turn \<^verbatim>\<open>(a,b,c,d)\<close>, \<^verbatim>\<open>(d,a,b,c)\<close>, \<^verbatim>\<open>(c,d,a,b)\<close>,
  \<^verbatim>\<open>(b,c,d,a)\<close>, which is a rotation of the state after each call.
\<close>

definition md5_op ::
  "(u32 \<Rightarrow> u32 \<Rightarrow> u32 \<Rightarrow> u32) \<Rightarrow> u32 list \<Rightarrow> nat \<times> nat \<times> u32 \<Rightarrow> md5_state \<Rightarrow> md5_state" where
  "md5_op f x call st =
    (case call of (k, s, ac) \<Rightarrow> case st of (a, b, c, d) \<Rightarrow>
       let a1 = a + (f b c d + x ! k + ac);
           a2 = ROTATE_LEFT a1 s + b
       in (d, a2, b, c))"

definition md5_round1 :: "(nat \<times> nat \<times> u32) list" where
  "md5_round1 =
    [(0, 7, 0xd76aa478), (1, 12, 0xe8c7b756), (2, 17, 0x242070db), (3, 22, 0xc1bdceee),
     (4, 7, 0xf57c0faf), (5, 12, 0x4787c62a), (6, 17, 0xa8304613), (7, 22, 0xfd469501),
     (8, 7, 0x698098d8), (9, 12, 0x8b44f7af), (10, 17, 0xffff5bb1), (11, 22, 0x895cd7be),
     (12, 7, 0x6b901122), (13, 12, 0xfd987193), (14, 17, 0xa679438e), (15, 22, 0x49b40821)]"

definition md5_round2 :: "(nat \<times> nat \<times> u32) list" where
  "md5_round2 =
    [(1, 5, 0xf61e2562), (6, 9, 0xc040b340), (11, 14, 0x265e5a51), (0, 20, 0xe9b6c7aa),
     (5, 5, 0xd62f105d), (10, 9, 0x2441453), (15, 14, 0xd8a1e681), (4, 20, 0xe7d3fbc8),
     (9, 5, 0x21e1cde6), (14, 9, 0xc33707d6), (3, 14, 0xf4d50d87), (8, 20, 0x455a14ed),
     (13, 5, 0xa9e3e905), (2, 9, 0xfcefa3f8), (7, 14, 0x676f02d9), (12, 20, 0x8d2a4c8a)]"

definition md5_round3 :: "(nat \<times> nat \<times> u32) list" where
  "md5_round3 =
    [(5, 4, 0xfffa3942), (8, 11, 0x8771f681), (11, 16, 0x6d9d6122), (14, 23, 0xfde5380c),
     (1, 4, 0xa4beea44), (4, 11, 0x4bdecfa9), (7, 16, 0xf6bb4b60), (10, 23, 0xbebfbc70),
     (13, 4, 0x289b7ec6), (0, 11, 0xeaa127fa), (3, 16, 0xd4ef3085), (6, 23, 0x4881d05),
     (9, 4, 0xd9d4d039), (12, 11, 0xe6db99e5), (15, 16, 0x1fa27cf8), (2, 23, 0xc4ac5665)]"

definition md5_round4 :: "(nat \<times> nat \<times> u32) list" where
  "md5_round4 =
    [(0, 6, 0xf4292244), (7, 10, 0x432aff97), (14, 15, 0xab9423a7), (5, 21, 0xfc93a039),
     (12, 6, 0x655b59c3), (3, 10, 0x8f0ccc92), (10, 15, 0xffeff47d), (1, 21, 0x85845dd1),
     (8, 6, 0x6fa87e4f), (15, 10, 0xfe2ce6e0), (6, 15, 0xa3014314), (13, 21, 0x4e0811a1),
     (4, 6, 0xf7537e82), (11, 10, 0xbd3af235), (2, 15, 0x2ad7d2bb), (9, 21, 0xeb86d391)]"

text \<open>\<^verbatim>\<open>Encode\<close> and \<^verbatim>\<open>Decode\<close>, little endian.\<close>

fun Encode :: "u32 list \<Rightarrow> u8 list" where
  "Encode [] = []"
| "Encode (w # ws) =
     ucast (w AND 0xFF) # ucast (drop_bit 8 w AND 0xFF) # ucast (drop_bit 16 w AND 0xFF)
     # ucast (drop_bit 24 w AND 0xFF) # Encode ws"

fun Decode :: "u8 list \<Rightarrow> u32 list" where
  "Decode (b0 # b1 # b2 # b3 # bs) =
     (ucast b0 OR push_bit 8 (ucast b1) OR push_bit 16 (ucast b2) OR push_bit 24 (ucast b3))
     # Decode bs"
| "Decode _ = []"

definition MD5Transform :: "md5_state \<Rightarrow> u8 list \<Rightarrow> md5_state" where
  "MD5Transform st block =
    (let x = Decode block;
         st1 = fold (md5_op md5_F x) md5_round1 st;
         st2 = fold (md5_op md5_G x) md5_round2 st1;
         st3 = fold (md5_op md5_H x) md5_round3 st2
     in case st of (a0, b0, c0, d0) \<Rightarrow>
        case fold (md5_op md5_I x) md5_round4 st3 of (a, b, c, d) \<Rightarrow>
          (a0 + a, b0 + b, c0 + c, d0 + d))"

subsection \<open>The streaming interface\<close>

record MD5_CTX =
  md5_state :: md5_state
  md5_count :: "u32 \<times> u32"
  md5_buffer :: "u8 list"

definition PADDING :: "u8 list" where
  "PADDING = 0x80 # replicate 63 0"

text \<open>A new context; the buffer's contents are left as they are.\<close>

definition MD5Init :: "u8 list \<Rightarrow> MD5_CTX" where
  "MD5Init buf = \<lparr>md5_state = (0x67452301, 0xefcdab89, 0x98badcfe, 0x10325476),
                  md5_count = (0, 0), md5_buffer = buf\<rparr>"

text \<open>
  Memory: \<open>octets_at mem i n\<close> reads \<open>n\<close> octets of an object from index \<open>i\<close> on, \<open>memcpy_at\<close>
  writes some into an array; both are \<^term>\<open>None\<close> past the end of the object.
\<close>

definition octets_at :: "'a list \<Rightarrow> nat \<Rightarrow> nat \<Rightarrow> 'a list option" where
  "octets_at mem i n = (if i + n \<le> length mem then Some (take n (drop i mem)) else None)"

definition memcpy_at :: "nat \<Rightarrow> 'a list \<Rightarrow> 'a list \<Rightarrow> 'a list option" where
  "memcpy_at i src dst =
     (if i + length src \<le> length dst then Some (take i dst @ src @ drop (i + length src) dst)
      else None)"

text \<open>
  The loop \<^verbatim>\<open>for(i = partLen; i + 63 < inputLen; i += 64)\<close>, whose \<^verbatim>\<open>unsigned int\<close>s wrap: when
  \<open>i + 63\<close> does, the test holds once more and \<open>&input[i]\<close> is read past the input's end.
\<close>

partial_function (option) md5_loop ::
  "u8 list \<Rightarrow> u32 \<Rightarrow> md5_state \<Rightarrow> u32 \<Rightarrow> (md5_state \<times> u32) option" where
  "md5_loop input inputLen st i =
     (if i + 63 < inputLen then
        Option.bind (octets_at input (unat i) 64)
          (\<lambda>block. md5_loop input inputLen (MD5Transform st block) (i + 64))
      else Some (st, i))"

definition md5_index :: "MD5_CTX \<Rightarrow> u32" where
  "md5_index ctx = drop_bit 3 (fst (md5_count ctx)) AND 0x3F"

definition md5_add_bits :: "u32 \<Rightarrow> u32 \<times> u32 \<Rightarrow> u32 \<times> u32" where
  "md5_add_bits inputLen count =
    (let c0 = fst count + push_bit 3 inputLen;
         c1 = (if c0 < push_bit 3 inputLen then snd count + 1
               else snd count)
     in (c0, c1 + drop_bit 29 inputLen))"

text \<open>
  \<open>input\<close> are the octets that can be read at the pointer \<^verbatim>\<open>input\<close>; \<^term>\<open>None\<close>: the routine reads or
  writes outside its objects (or does not return).
\<close>

definition MD5Update :: "MD5_CTX \<Rightarrow> u8 list \<Rightarrow> u32 \<Rightarrow> MD5_CTX option" where
  "MD5Update ctx input inputLen =
    (let index = md5_index ctx;
         ctx1 = ctx\<lparr>md5_count := md5_add_bits inputLen (md5_count ctx)\<rparr>;
         partLen = 64 - index
     in if partLen \<le> inputLen then
          do { part \<leftarrow> octets_at input 0 (unat partLen);
               buf \<leftarrow> memcpy_at (unat index) part (md5_buffer ctx);
               (st, i) \<leftarrow> md5_loop input inputLen (MD5Transform (md5_state ctx) buf) partLen;
               rest \<leftarrow> octets_at input (unat i) (unat (inputLen - i));
               buf1 \<leftarrow> memcpy_at 0 rest buf;
               Some (ctx1\<lparr>md5_state := st, md5_buffer := buf1\<rparr>) }
        else
          do { rest \<leftarrow> octets_at input 0 (unat inputLen);
               buf1 \<leftarrow> memcpy_at (unat index) rest (md5_buffer ctx);
               Some (ctx1\<lparr>md5_buffer := buf1\<rparr>) })"

definition MD5Final :: "MD5_CTX \<Rightarrow> u8 list option" where
  "MD5Final ctx =
    (let bits = Encode [fst (md5_count ctx), snd (md5_count ctx)];
         index = md5_index ctx;
         padLen = (if index < 56 then 56 - index else 120 - index)
     in do { ctx1 \<leftarrow> MD5Update ctx PADDING padLen;
             ctx2 \<leftarrow> MD5Update ctx1 bits 8;
             Some (case md5_state ctx2 of (a, b, c, d) \<Rightarrow> Encode [a, b, c, d]) })"

subsection \<open>RFC 2104\<close>

text \<open>
  The two contexts start with whatever is on the stack; \<open>junk\<close> stands for it. The chunks of a
  digest are given with their lengths. \<open>text_len\<close> and \<open>key_len\<close> are \<^verbatim>\<open>int\<close>s: a key longer than a
  block is replaced by its digest; a negative length is below 64, and the \<^verbatim>\<open>memcpy\<close> of that many
  octets, a huge \<^verbatim>\<open>size_t\<close>, overruns \<^verbatim>\<open>k_ipad[65]\<close>.
\<close>

fun md5_updates :: "(u8 list \<times> u32) list \<Rightarrow> MD5_CTX \<Rightarrow> MD5_CTX option" where
  "md5_updates [] ctx = Some ctx"
| "md5_updates ((input, inputLen) # chunks) ctx =
     Option.bind (MD5Update ctx input inputLen) (md5_updates chunks)"

definition md5_digest :: "u8 list \<Rightarrow> (u8 list \<times> u32) list \<Rightarrow> u8 list option" where
  "md5_digest junk chunks = Option.bind (md5_updates chunks (MD5Init junk)) MD5Final"

definition hmac_pad :: "u8 \<Rightarrow> u8 list \<Rightarrow> u8 list" where
  "hmac_pad b key = map (\<lambda>k. k XOR b) (take 64 (key @ replicate (65 - length key) 0))"

definition hmac_md5 :: "u8 list \<Rightarrow> u8 list \<Rightarrow> 32 word \<Rightarrow> u8 list \<Rightarrow> 32 word \<Rightarrow> u8 list option" where
  "hmac_md5 junk text text_len key key_len =
    do { (key1, len1) \<leftarrow> (if 64 < sint key_len
             then map_option (\<lambda>tk. (tk, 16)) (md5_digest junk [(key, key_len)])
             else Some (key, key_len));
         k \<leftarrow> (if sint len1 < 0 then None else octets_at key1 0 (unat len1));
         digest \<leftarrow> md5_digest junk [(hmac_pad 0x36 k, 64), (text, text_len)];
         md5_digest junk [(hmac_pad 0x5c k, 64), (digest, 16)] }"

subsection \<open>Specification: the digest of a whole message\<close>

function md5_blocks :: "md5_state \<Rightarrow> u8 list \<Rightarrow> md5_state \<times> u8 list" where
  "md5_blocks st input =
     (if 63 < length input then md5_blocks (MD5Transform st (take 64 input)) (drop 64 input)
      else (st, input))"
  by auto
termination
  by (relation "measure (\<lambda>(st, input). length input)") auto

declare md5_blocks.simps [simp del]

abbreviation md5_init :: md5_state where
  "md5_init \<equiv> (0x67452301, 0xefcdab89, 0x98badcfe, 0x10325476)"

text \<open>RFC 1321, 3.1 to 3.5: pad to 56 modulo 64, append the bit length, digest the blocks.\<close>

definition md5_pad_len :: "nat \<Rightarrow> nat" where
  "md5_pad_len n = (if n mod 64 < 56 then 56 - n mod 64 else 120 - n mod 64)"

definition md5_padded :: "u8 list \<Rightarrow> u8 list" where
  "md5_padded m =
     m @ (0x80 # replicate (md5_pad_len (length m) - 1) 0)
       @ Encode [of_nat (8 * length m), of_nat (8 * length m div 2 ^ 32)]"

definition md5_spec :: "u8 list \<Rightarrow> u8 list" where
  "md5_spec m = (case fst (md5_blocks md5_init (md5_padded m)) of (a, b, c, d) \<Rightarrow> Encode [a, b, c, d])"

definition hmac_md5_spec :: "u8 list \<Rightarrow> u8 list \<Rightarrow> u8 list" where
  "hmac_md5_spec text key =
    (let k = (if 64 < length key then md5_spec key else key) ;
         k_pad = k @ replicate (64 - length k) 0
     in md5_spec (map (\<lambda>b. b XOR 0x5c) k_pad @ md5_spec (map (\<lambda>b. b XOR 0x36) k_pad @ text)))"

text \<open>The context stands for the message it has absorbed.\<close>

definition md5_repr :: "MD5_CTX \<Rightarrow> u8 list \<Rightarrow> bool" where
  "md5_repr ctx m \<longleftrightarrow>
     length (md5_buffer ctx) = 64
     \<and> md5_blocks md5_init m = (md5_state ctx, take (length m mod 64) (md5_buffer ctx))
     \<and> md5_count ctx = (of_nat (8 * length m), of_nat (8 * length m div 2 ^ 32))"

subsection \<open>Blocks\<close>

lemma md5_blocks_short: "length xs < 64 \<Longrightarrow> md5_blocks st xs = (st, xs)"
  by (simp add: md5_blocks.simps)

lemma md5_blocks_long:
  "64 \<le> length xs \<Longrightarrow> md5_blocks st xs = md5_blocks (MD5Transform st (take 64 xs)) (drop 64 xs)"
  by (simp add: md5_blocks.simps [of st xs])

lemma md5_blocks_append:
  "md5_blocks st (xs @ ys) = (case md5_blocks st xs of (st', r) \<Rightarrow> md5_blocks st' (r @ ys))"
proof (induction st xs rule: md5_blocks.induct)
  case (1 st xs)
  show ?case
  proof (cases "63 < length xs")
    case True
    then show ?thesis
      using 1 by (simp add: md5_blocks_long [of "xs @ ys"] md5_blocks_long [of xs])
  qed (simp add: md5_blocks_short)
qed

lemma md5_blocks_rest:
  "snd (md5_blocks st xs) = drop (64 * (length xs div 64)) xs"
proof (induction st xs rule: md5_blocks.induct)
  case (1 st xs)
  show ?case
  proof (cases "63 < length xs")
    case True
    then have "length xs div 64 = Suc ((length xs - 64) div 64)"
      by (simp add: le_div_geq)
    then show ?thesis
      using 1 True by (simp add: md5_blocks_long [of xs] ac_simps)
  qed (simp add: md5_blocks_short)
qed

lemma length_md5_rest: "length (snd (md5_blocks st xs)) = length xs mod 64"
  by (simp add: md5_blocks_rest minus_mult_div_eq_mod)

subsection \<open>The bit counter\<close>

lemma unat_index_bits: "unat (drop_bit 3 w AND 0x3F) = unat w div 8 mod 64"
  for w :: u32
proof -
  have "drop_bit 3 w AND 0x3F = take_bit 6 (drop_bit 3 w)"
    by (simp add: take_bit_eq_mask mask_eq_exp_minus_1)
  then show ?thesis
    by (simp only: unsigned_take_bit_eq unat_drop_bit_eq) (simp add: drop_bit_eq_div take_bit_eq_mod)
qed

lemma count_index: "unat (drop_bit 3 (of_nat (8 * n) :: u32) AND 0x3F) = n mod 64"
proof -
  have "8 * n mod 2 ^ 32 = 8 * (n mod 2 ^ 29)"
    using mult_mod_right [of 8 n "2 ^ 29"] by simp
  then have "unat (of_nat (8 * n) :: u32) div 8 mod 64 = n mod 2 ^ 29 mod 64"
    by (simp only: unat_of_nat) simp
  also have "\<dots> = n mod 64"
    by (rule mod_mod_cancel) simp
  finally show ?thesis by (simp only: unat_index_bits)
qed

lemma repr_index: "md5_repr ctx m \<Longrightarrow> md5_index ctx = of_nat (length m mod 64)"
  using count_index [of "length m"] unfolding md5_repr_def md5_index_def
  by (metis fst_conv of_nat_unat ucast_id)

lemma unat_small: "n < 2 ^ 32 \<Longrightarrow> unat (of_nat n :: u32) = n"
  by (simp add: unat_of_nat)

lemma div_add_small: "a < M \<Longrightarrow> b < M \<Longrightarrow> (a + b) div M = (if M \<le> a + b then 1 else 0)"
  for a b M :: nat
  by (simp add: le_div_geq)

lemma wraps_iff: "a < M \<Longrightarrow> b < M \<Longrightarrow> (a + b) mod M < b \<longleftrightarrow> M \<le> a + b"
  for a b M :: nat
  by (cases "a + b < M") (auto simp: le_mod_geq)

text \<open>The carry from the low into the high word of the counter.\<close>

lemma count_carry:
  fixes n l :: nat
  assumes "l < 2 ^ 32"
  defines "low \<equiv> (of_nat (8 * n) :: u32) + push_bit 3 (of_nat l)"
  shows "low = of_nat (8 * (n + l))"
    and "(if low < push_bit 3 (of_nat l) then of_nat (8 * n div 2 ^ 32) + 1
          else of_nat (8 * n div 2 ^ 32)) + drop_bit 29 (of_nat l :: u32)
         = of_nat (8 * (n + l) div 2 ^ 32)"
proof -
  have push: "push_bit 3 (of_nat l) = (of_nat (8 * l) :: u32)"
    by (simp add: push_bit_eq_mult)
  show low: "low = of_nat (8 * (n + l))"
    unfolding low_def push by (simp only: distrib_left of_nat_add)
  have high: "drop_bit 29 (of_nat l :: u32) = of_nat (8 * l div 2 ^ 32)"
  proof -
    have "unat (drop_bit 29 (of_nat l :: u32)) = l div 2 ^ 29"
      using assms(1) by (simp only: unat_drop_bit_eq unat_of_nat) (simp add: drop_bit_eq_div)
    also have "\<dots> = 8 * l div 2 ^ 32"
      using div_mult_mult1 [of 8 l "2 ^ 29"] by simp
    finally have "(of_nat (unat (drop_bit 29 (of_nat l :: u32))) :: u32) = of_nat (8 * l div 2 ^ 32)"
      by (rule arg_cong)
    then show ?thesis by simp
  qed
  let ?M = "2 ^ 32 :: nat"
  have sum: "8 * (n + l) div ?M = 8 * n div ?M + 8 * l div ?M
      + (if ?M \<le> 8 * n mod ?M + 8 * l mod ?M then 1 else 0)"
  proof -
    have "(8 * n mod ?M + 8 * l mod ?M) div ?M
        = (if ?M \<le> 8 * n mod ?M + 8 * l mod ?M then 1 else 0)"
      by (rule div_add_small) (rule mod_less_divisor, simp)+
    then show ?thesis
      by (simp only: distrib_left div_add1_eq [of "8 * n" "8 * l"])
  qed
  have wrap: "low < push_bit 3 (of_nat l) \<longleftrightarrow> ?M \<le> 8 * n mod ?M + 8 * l mod ?M"
  proof -
    have "unat low = (8 * n mod ?M + 8 * l mod ?M) mod ?M"
      unfolding low by (simp only: unat_of_nat distrib_left mod_add_eq) simp
    moreover have "unat (push_bit 3 (of_nat l) :: u32) = 8 * l mod ?M"
      unfolding push by (simp only: unat_of_nat) simp
    ultimately show ?thesis
      using wraps_iff [of "8 * n mod ?M" ?M "8 * l mod ?M"] by (simp add: word_less_nat_alt)
  qed
  show "(if low < push_bit 3 (of_nat l) then of_nat (8 * n div 2 ^ 32) + 1
          else of_nat (8 * n div 2 ^ 32)) + drop_bit 29 (of_nat l :: u32)
         = of_nat (8 * (n + l) div 2 ^ 32)"
    unfolding wrap high sum by (simp only: of_nat_add of_nat_1 of_nat_0 split: if_split) simp
qed

subsection \<open>The streaming interface refines the specification\<close>

lemma octets_at_Some [simp]: "i + n \<le> length mem \<Longrightarrow> octets_at mem i n = Some (take n (drop i mem))"
  by (simp add: octets_at_def)

lemma octets_at_None [simp]: "length mem < i + n \<Longrightarrow> octets_at mem i n = None"
  by (simp add: octets_at_def)

lemma memcpy_at_Some:
  "i + length src \<le> length dst
    \<Longrightarrow> \<exists>dst'. memcpy_at i src dst = Some dst' \<and> length dst' = length dst
          \<and> take (i + length src) dst' = take i dst @ src"
  by (simp add: memcpy_at_def min_absorb2)

text \<open>The test of the loop, on the numbers its two \<^verbatim>\<open>unsigned int\<close>s stand for.\<close>

lemma loop_test:
  assumes "i \<le> l" "l < 2 ^ 32"
  shows "(of_nat i + 63 < (of_nat l :: u32)) \<longleftrightarrow> i + 63 < l \<or> 2 ^ 32 \<le> i + 63"
proof -
  have "unat (of_nat i + 63 :: u32) = (i + 63) mod 2 ^ 32"
    using unat_of_nat [where 'a = 32, of "i + 63"] by simp
  moreover have "unat (of_nat l :: u32) = l" using assms(2) by (rule unat_small)
  ultimately have "(of_nat i + 63 < (of_nat l :: u32)) \<longleftrightarrow> (i + 63) mod 2 ^ 32 < l"
    by (simp add: word_less_nat_alt)
  moreover have "(i + 63) mod 2 ^ 32 = (if i + 63 < 2 ^ 32 then i + 63 else i + 63 - 2 ^ 32)"
    using assms by (simp add: le_mod_geq)
  ultimately show ?thesis using assms by auto
qed

lemma md5_loop_step:
  assumes "i + 63 < l" "l < 2 ^ 32" "l \<le> length x"
  shows "md5_loop x (of_nat l) st (of_nat i)
    = md5_loop x (of_nat l) (MD5Transform st (take 64 (drop i x))) (of_nat (i + 64))"
proof -
  have "unat (of_nat i :: u32) = i" using assms by (intro unat_small) simp
  then show ?thesis
    using loop_test [of i l] assms by (simp add: md5_loop.simps [of x "of_nat l" st] add.commute)
qed

lemma mod_step: "i + 63 < l \<Longrightarrow> (l - i) mod 64 = (l - (i + 64)) mod 64" for i l :: nat
  using le_mod_geq [of 64 "l - i"] by (simp add: diff_diff_left)

text \<open>The loop stops after the last whole block, unless its index wraps there.\<close>

lemma md5_loop_spec:
  assumes "l \<le> length x" "l < 2 ^ 32" "i \<le> l" "l + 63 < 2 ^ 32 + (l - i) mod 64"
  shows "md5_loop x (of_nat l) st (of_nat i)
    = Some (fst (md5_blocks st (drop i (take l x))), of_nat (l - (l - i) mod 64))"
  using assms
proof (induction "l - i" arbitrary: st i rule: less_induct)
  case less
  show ?case
  proof (cases "i + 63 < l")
    case True
    then have "take 64 (drop i (take l x)) = take 64 (drop i x)"
      and "drop 64 (drop i (take l x)) = drop (i + 64) (take l x)"
      by (simp_all add: drop_take min_absorb1 add.commute)
    then have "md5_blocks st (drop i (take l x))
        = md5_blocks (MD5Transform st (take 64 (drop i x))) (drop (i + 64) (take l x))"
      using True less.prems by (simp add: md5_blocks_long)
    moreover have "md5_loop x (of_nat l) (MD5Transform st (take 64 (drop i x))) (of_nat (i + 64))
      = Some (fst (md5_blocks (MD5Transform st (take 64 (drop i x))) (drop (i + 64) (take l x))),
              of_nat (l - (l - (i + 64)) mod 64))"
      by (rule less.hyps) (use True less.prems mod_step [OF True] in auto)
    ultimately show ?thesis
      by (simp only: md5_loop_step [OF True less.prems(2,1)] mod_step [OF True])
  next
    case False
    then have "(l - i) mod 64 = l - i" "i + 63 < 2 ^ 32" using less.prems by auto
    then show ?thesis
      using False loop_test [OF less.prems(3,2)] less.prems
      by (simp add: md5_loop.simps [of x "of_nat l" st] md5_blocks_short)
  qed
qed

lemma md5_loop_wraps:
  assumes "l = length x" "l < 2 ^ 32" "i \<le> l" "2 ^ 32 + (l - i) mod 64 \<le> l + 63"
  shows "md5_loop x (of_nat l) st (of_nat i) = None"
  using assms
proof (induction "l - i" arbitrary: st i rule: less_induct)
  case less
  show ?case
  proof (cases "i + 63 < l")
    case True
    have "md5_loop x (of_nat l) (MD5Transform st (take 64 (drop i x))) (of_nat (i + 64)) = None"
      by (rule less.hyps) (use True less.prems mod_step [OF True] in auto)
    then show ?thesis
      using md5_loop_step [OF True less.prems(2), of x st] less.prems by simp
  next
    case False
    then have "(l - i) mod 64 = l - i" using less.prems by auto
    then have "2 ^ 32 \<le> i + 63" "length x < i + 64" using less.prems False by auto
    moreover have "unat (of_nat i :: u32) = i" using less.prems by (intro unat_small) simp
    ultimately have "of_nat i + 63 < (of_nat l :: u32)" "octets_at x (unat (of_nat i :: u32)) 64 = None"
      using loop_test [OF less.prems(3,2)] by simp_all
    then show ?thesis by (simp add: md5_loop.simps [of x "of_nat l" st])
  qed
qed

text \<open>
  An input of \<open>l\<close> octets is absorbed when its octets and the \<open>n mod 64\<close> already in the buffer are
  less than \<open>2 ^ 32\<close>.
\<close>

lemma absorbs_no_wrap:
  fixes n l :: nat
  assumes "n mod 64 + l < 2 ^ 32" "64 - n mod 64 \<le> l"
  shows "(l - (64 - n mod 64)) mod 64 = (n + l) mod 64" "l + 63 < 2 ^ 32 + (n + l) mod 64"
proof -
  have "(n + l) mod 64 = (n mod 64 + l) mod 64" by (simp add: mod_simps)
  moreover have "n mod 64 + l = l - (64 - n mod 64) + 64" using assms(2) by simp
  ultimately show "(l - (64 - n mod 64)) mod 64 = (n + l) mod 64" by (metis mod_add_self2)
  have "(n mod 64 + l) div 64 < 2 ^ 26" using assms(1) by (intro less_mult_imp_div_less) simp
  then have "(n mod 64 + l) div 64 * 64 + 63 < 2 ^ 32" by simp
  with div_mult_mod_eq [of "n mod 64 + l" 64] show "l + 63 < 2 ^ 32 + (n + l) mod 64"
    by (simp add: mod_simps)
qed

lemma absorbs_wrap:
  fixes n l :: nat
  assumes "2 ^ 32 \<le> n mod 64 + l" "l < 2 ^ 32"
  shows "(l - (64 - n mod 64)) mod 64 = (n + l) mod 64" "2 ^ 32 + (n + l) mod 64 \<le> l + 63"
proof -
  let ?s = "n mod 64 + l - 2 ^ 32"
  have n: "n mod 64 < 64" by simp
  have "(n + l) mod 64 = (n mod 64 + l) mod 64" by (simp add: mod_simps)
  also have "n mod 64 + l = ?s + 64 * 2 ^ 26" using assms by simp
  also have "(?s + 64 * 2 ^ 26) mod 64 = ?s mod 64" by (simp only: mod_mult_self2)
  also have "\<dots> = ?s" using assms n by (intro mod_less) linarith
  finally have r: "(n + l) mod 64 = ?s" .
  show "2 ^ 32 + (n + l) mod 64 \<le> l + 63" unfolding r using assms n by linarith
  have "(n + l) mod 64 = (n mod 64 + l) mod 64" by (simp add: mod_simps)
  moreover have "64 - n mod 64 \<le> l" using assms by simp
  then have "n mod 64 + l = l - (64 - n mod 64) + 64" using n by linarith
  ultimately show "(l - (64 - n mod 64)) mod 64 = (n + l) mod 64" by (metis mod_add_self2)
qed

lemma part_len: "i < 64 \<Longrightarrow> 64 - of_nat i = (of_nat (64 - i) :: u32)" for i :: nat
  by (simp add: of_nat_diff)

lemma le_of_nat32: "a < 2 ^ 32 \<Longrightarrow> b < 2 ^ 32 \<Longrightarrow> (of_nat a \<le> (of_nat b :: u32)) = (a \<le> b)"
  by (simp add: word_le_nat_alt unat_small)

lemma MD5Init_repr: "length junk = 64 \<Longrightarrow> md5_repr (MD5Init junk) []"
  by (simp add: md5_repr_def MD5Init_def md5_blocks_short)

lemma MD5Update_long:
  assumes i: "md5_index ctx = of_nat i" "i < 64" and l: "l \<le> length x" "l < 2 ^ 32" "64 - i \<le> l"
    and len: "length (md5_buffer ctx) = 64"
    and buf: "buf = take i (md5_buffer ctx) @ take (64 - i) x"
  shows "MD5Update ctx x (of_nat l) =
      Option.bind (md5_loop x (of_nat l) (MD5Transform (md5_state ctx) buf) (of_nat (64 - i)))
        (\<lambda>(st, j). Option.bind (octets_at x (unat j) (unat (of_nat l - j)))
          (\<lambda>rest. Option.bind (memcpy_at 0 rest buf)
            (\<lambda>buf1. Some (ctx\<lparr>md5_count := md5_add_bits (of_nat l) (md5_count ctx),
                                 md5_state := st, md5_buffer := buf1\<rparr>))))"
proof -
  have small: "64 - i < 2 ^ 32" "i < 2 ^ 32" using i by simp_all
  have "memcpy_at i (take (64 - i) x) (md5_buffer ctx) = Some buf"
    using i l len buf by (simp add: memcpy_at_def)
  then show ?thesis
    using l le_of_nat32 [OF small(1) l(2)]
    unfolding MD5Update_def Let_def i(1) part_len [OF i(2)] unat_small [OF small(1)] unat_small [OF small(2)]
    by (simp del: of_nat_diff)
qed

lemma md5_add_bits_spec:
  assumes "md5_repr ctx m" and "l < 2 ^ 32"
  shows "md5_add_bits (of_nat l) (md5_count ctx)
    = (of_nat (8 * (length m + l)), of_nat (8 * (length m + l) div 2 ^ 32))"
proof -
  have "md5_count ctx = (of_nat (8 * length m), of_nat (8 * length m div 2 ^ 32))"
    using assms(1) by (simp add: md5_repr_def)
  then show ?thesis
    by (simp only: md5_add_bits_def Let_def fst_conv snd_conv count_carry(2) [OF assms(2), of "length m"])
      (simp only: count_carry(1) [OF assms(2), of "length m"])
qed

text \<open>A whole block and more: the buffer is digested, then the blocks, the rest is kept.\<close>

lemma MD5Update_repr_long:
  assumes repr: "md5_repr ctx m" and l: "l \<le> length x" "l < 2 ^ 32" "64 - length m mod 64 \<le> l"
    and fits: "length m mod 64 + l < 2 ^ 32"
  shows "\<exists>ctx'. MD5Update ctx x (of_nat l) = Some ctx' \<and> md5_repr ctx' (m @ take l x)"
proof -
  let ?n = "length m" let ?i = "?n mod 64" and ?r = "(?n + l) mod 64" and ?x = "take l x"
  have i: "?i < 64" and r: "?r < 64" by simp_all
  have len: "length (md5_buffer ctx) = 64"
    and old: "md5_blocks md5_init m = (md5_state ctx, take ?i (md5_buffer ctx))"
    using repr by (auto simp: md5_repr_def)
  define buf where "buf = take ?i (md5_buffer ctx) @ take (64 - ?i) x"
  have lb: "length buf = 64" using i l len by (simp add: buf_def)
  define st where "st = fst (md5_blocks (MD5Transform (md5_state ctx) buf) (drop (64 - ?i) ?x))"
  note fit = absorbs_no_wrap [OF fits l(3)]
  have rl: "?r \<le> l" using fit(1) mod_less_eq_dividend [of "l - (64 - ?i)" 64] by linarith
  have loop: "md5_loop x (of_nat l) (MD5Transform (md5_state ctx) buf) (of_nat (64 - ?i))
      = Some (st, of_nat (l - ?r))"
    using md5_loop_spec [OF l(1,2,3)] fit by (simp add: st_def)
  have "md5_blocks md5_init (m @ ?x) = md5_blocks (md5_state ctx) (take ?i (md5_buffer ctx) @ ?x)"
    by (simp only: md5_blocks_append [of _ m] old prod.case)
  also have "take ?i (md5_buffer ctx) @ ?x = buf @ drop (64 - ?i) ?x"
    using l by (simp add: buf_def) (metis append_take_drop_id min.absorb1 take_take)
  also have "md5_blocks (md5_state ctx) \<dots> = md5_blocks (MD5Transform (md5_state ctx) buf) (drop (64 - ?i) ?x)"
    using lb by (simp add: md5_blocks_long)
  finally have state: "fst (md5_blocks md5_init (m @ ?x)) = st" by (simp add: st_def)
  have "64 * ((?n + l) div 64) = ?n + l - ?r" using minus_mod_eq_mult_div [of "?n + l" 64] by simp
  then have rest: "snd (md5_blocks md5_init (m @ ?x)) = drop (l - ?r) ?x"
    using l rl by (simp add: md5_blocks_rest) 
  have "unat (of_nat l - of_nat (l - ?r) :: u32) = ?r"
    using rl l(2) unat_small [of ?r] r by (simp add: of_nat_diff)
  moreover have "unat (of_nat (l - ?r) :: u32) = l - ?r" using l(2) by (intro unat_small) simp
  moreover have "take ?r (drop (l - ?r) x) = drop (l - ?r) ?x" using rl by (simp add: drop_take)
  moreover from memcpy_at_Some [of 0 "drop (l - ?r) ?x" buf] obtain buf1
    where "memcpy_at 0 (drop (l - ?r) ?x) buf = Some buf1" "length buf1 = 64"
      "take ?r buf1 = drop (l - ?r) ?x"
    using lb rl l r by auto
  ultimately have "MD5Update ctx x (of_nat l) = Some (ctx\<lparr>md5_count := md5_add_bits (of_nat l) (md5_count ctx),
      md5_state := st, md5_buffer := buf1\<rparr>)"
    using MD5Update_long [OF repr_index [OF repr] i l len buf_def] loop l rl by simp
  moreover have "md5_repr (ctx\<lparr>md5_count := md5_add_bits (of_nat l) (md5_count ctx),
      md5_state := st, md5_buffer := buf1\<rparr>) (m @ ?x)"
    using state rest l \<open>take ?r buf1 = drop (l - ?r) ?x\<close> \<open>length buf1 = 64\<close>
    by (simp add: md5_repr_def md5_add_bits_spec [OF repr l(2)] min_absorb2 prod_eq_iff)
  ultimately show ?thesis by blast
qed

lemma MD5Update_repr:
  assumes repr: "md5_repr ctx m" and l: "l \<le> length x" "l < 2 ^ 32"
    and fits: "length m mod 64 + l < 2 ^ 32"
  shows "\<exists>ctx'. MD5Update ctx x (of_nat l) = Some ctx' \<and> md5_repr ctx' (m @ take l x)"
proof (cases "64 - length m mod 64 \<le> l")
  case False
  let ?i = "length m mod 64" and ?x = "take l x"
  have len: "length (md5_buffer ctx) = 64"
    and old: "md5_blocks md5_init m = (md5_state ctx, take ?i (md5_buffer ctx))"
    using repr by (auto simp: md5_repr_def)
  have "md5_blocks md5_init (m @ ?x) = md5_blocks (md5_state ctx) (take ?i (md5_buffer ctx) @ ?x)"
    by (simp only: md5_blocks_append [of _ m] old prod.case)
  also have "\<dots> = (md5_state ctx, take ?i (md5_buffer ctx) @ ?x)"
    using False l len by (intro md5_blocks_short) simp
  finally have new: "md5_blocks md5_init (m @ ?x) = (md5_state ctx, take ?i (md5_buffer ctx) @ ?x)" .
  have i: "?i < 64" and small: "64 - ?i < 2 ^ 32" "?i < 2 ^ 32" by simp_all
  have sum: "(length m + l) mod 64 = ?i + l"
    using False mod_add_left_eq [of "length m" 64 l] by simp
  have "?i + l \<le> 64" using False by linarith
  from memcpy_at_Some [of ?i ?x "md5_buffer ctx"] obtain buf1
    where "memcpy_at ?i ?x (md5_buffer ctx) = Some buf1" "length buf1 = 64"
      "take (?i + l) buf1 = take ?i (md5_buffer ctx) @ ?x"
    using False len l \<open>?i + l \<le> 64\<close> by auto
  moreover from this have "MD5Update ctx x (of_nat l)
      = Some (ctx\<lparr>md5_count := md5_add_bits (of_nat l) (md5_count ctx), md5_buffer := buf1\<rparr>)"
    using False l le_of_nat32 [OF small(1) l(2)]
    unfolding MD5Update_def Let_def repr_index [OF repr] part_len [OF i] unat_small [OF small(2)]
      unat_small [OF l(2)]
    by (simp del: of_nat_diff)
  ultimately show ?thesis
    using new l by (simp add: md5_repr_def md5_add_bits_spec [OF repr l(2)] min_absorb2 sum)
qed (rule MD5Update_repr_long [OF repr l _ fits])

text \<open>Otherwise the loop's index wraps and the input is read past its end.\<close>

lemma MD5Update_wraps:
  assumes repr: "md5_repr ctx m" and l: "length x < 2 ^ 32"
    and wraps: "2 ^ 32 \<le> length m mod 64 + length x"
  shows "MD5Update ctx x (of_nat (length x)) = None"
proof -
  let ?i = "length m mod 64"
  have i: "?i < 64" by simp
  have part: "64 - ?i \<le> length x" using wraps by simp
  have "length (md5_buffer ctx) = 64" using repr by (simp add: md5_repr_def)
  note upd = MD5Update_long [OF repr_index [OF repr] i order.refl l part this refl]
  show ?thesis
    unfolding upd using md5_loop_wraps [OF refl l part] absorbs_wrap [OF wraps l] by simp
qed

lemma pad_len_word:
  assumes "i < 64"
  shows "(if (of_nat i :: u32) < 56 then 56 - of_nat i else 120 - of_nat i :: u32)
    = of_nat (if i < 56 then 56 - i else 120 - i)"
proof -
  have "unat (of_nat i :: u32) = i" using assms by (intro unat_small) simp
  then have "((of_nat i :: u32) < 56) = (i < 56)" by (simp add: word_less_nat_alt)
  then show ?thesis using assms by (simp add: of_nat_diff)
qed

lemma MD5Final_repr:
  assumes "md5_repr ctx m"
  shows "MD5Final ctx = Some (md5_spec m)"
proof -
  let ?n = "length m"
  let ?p = "md5_pad_len ?n"
  let ?pad = "take ?p PADDING"
  let ?bits = "Encode [of_nat (8 * ?n), of_nat (8 * ?n div 2 ^ 32)]"
  have pad_len: "1 \<le> ?p" "?p \<le> 64"
    by (auto simp: md5_pad_len_def)
  then have pad: "?pad = 0x80 # replicate (?p - 1) 0"
    by (simp add: PADDING_def take_Cons' min_absorb1)
  have word: "(if md5_index ctx < 56 then 56 - md5_index ctx else 120 - md5_index ctx) = of_nat ?p"
    unfolding repr_index [OF assms] md5_pad_len_def by (rule pad_len_word) simp
  have "length m mod 64 + ?p < 2 ^ 32" "?p \<le> length PADDING" "?p < 2 ^ 32"
    using pad_len by (simp_all add: PADDING_def)
  then obtain ctx1 where 1: "MD5Update ctx PADDING (of_nat ?p) = Some ctx1" "md5_repr ctx1 (m @ ?pad)"
    using MD5Update_repr [OF assms, of ?p PADDING] by blast
  have "length (m @ ?pad) mod 64 + 8 < 2 ^ 32" by (simp del: length_append)
  then obtain ctx2 where 2: "MD5Update ctx1 ?bits 8 = Some ctx2" "md5_repr ctx2 (md5_padded m)"
    using MD5Update_repr [OF 1(2), of 8 ?bits] by (auto simp: md5_padded_def pad)
  have "md5_count ctx = (of_nat (8 * ?n), of_nat (8 * ?n div 2 ^ 32))"
    using assms by (simp add: md5_repr_def)
  with 1 2 show ?thesis
    by (simp add: MD5Final_def md5_spec_def Let_def word md5_repr_def del: of_nat_mult Encode.simps)
qed

text \<open>
  Which chunks are absorbed: \<open>n\<close> octets came before them.
\<close>

fun chunks_fit :: "nat \<Rightarrow> u8 list list \<Rightarrow> bool" where
  "chunks_fit n [] \<longleftrightarrow> True"
| "chunks_fit n (x # xs) \<longleftrightarrow> n mod 64 + length x < 2 ^ 32 \<and> chunks_fit (n + length x) xs"

definition with_lengths :: "u8 list list \<Rightarrow> (u8 list \<times> u32) list" where
  "with_lengths = map (\<lambda>x. (x, of_nat (length x)))"

lemma with_lengths_simps [simp]:
  "with_lengths [] = []" "with_lengths (x # xs) = (x, of_nat (length x)) # with_lengths xs"
  by (simp_all add: with_lengths_def)

lemma md5_updates_repr:
  "md5_repr ctx m \<Longrightarrow> list_all (\<lambda>x. length x < 2 ^ 32) xs \<Longrightarrow> chunks_fit (length m) xs
    \<Longrightarrow> \<exists>ctx'. md5_updates (with_lengths xs) ctx = Some ctx' \<and> md5_repr ctx' (m @ concat xs)"
proof (induction xs arbitrary: ctx m)
  case (Cons x xs)
  then obtain ctx1 where "MD5Update ctx x (of_nat (length x)) = Some ctx1" "md5_repr ctx1 (m @ x)"
    using MD5Update_repr [of ctx m "length x" x] by auto
  with Cons.IH [of ctx1 "m @ x"] Cons.prems show ?case by simp
qed simp

lemma md5_updates_wraps:
  "md5_repr ctx m \<Longrightarrow> list_all (\<lambda>x. length x < 2 ^ 32) xs \<Longrightarrow> \<not> chunks_fit (length m) xs
    \<Longrightarrow> md5_updates (with_lengths xs) ctx = None"
proof (induction xs arbitrary: ctx m)
  case (Cons x xs)
  show ?case
  proof (cases "length m mod 64 + length x < 2 ^ 32")
    case True
    then obtain ctx1 where "MD5Update ctx x (of_nat (length x)) = Some ctx1" "md5_repr ctx1 (m @ x)"
      using MD5Update_repr [of ctx m "length x" x] Cons.prems by auto
    with True Cons.IH [of ctx1 "m @ x"] Cons.prems show ?thesis by simp
  next
    case False
    with MD5Update_wraps [of ctx m x] Cons.prems show ?thesis by simp
  qed
qed simp

lemma md5_digest_exact:
  assumes "length junk = 64" and "list_all (\<lambda>x. length x < 2 ^ 32) xs"
  shows "md5_digest junk (with_lengths xs) = (if chunks_fit 0 xs then Some (md5_spec (concat xs)) else None)"
  using md5_updates_repr [OF MD5Init_repr [OF assms(1)] assms(2)]
    md5_updates_wraps [OF MD5Init_repr [OF assms(1)] assms(2)] MD5Final_repr
  by (auto simp: md5_digest_def)

lemma length_md5_spec: "length (md5_spec m) = 16"
  by (simp add: md5_spec_def split: prod.split)

text \<open>The lengths as \<^verbatim>\<open>int\<close>s.\<close>

lemma sint_small: "n < 2 ^ 31 \<Longrightarrow> sint (of_nat n :: u32) = int n"
  by (simp add: signed_of_nat signed_take_bit_int_eq_self)

lemma sint_large:
  assumes "2 ^ 31 \<le> n" "n < 2 ^ 32"
  shows "sint (of_nat n :: u32) < 0"
proof -
  have "(int n + 2 ^ 31) mod 2 ^ 32 = int n + 2 ^ 31 - 2 ^ 32"
    using mod_add_self2 [of "int n + 2 ^ 31 - 2 ^ 32" "2 ^ 32"] assms by (simp add: mod_pos_pos_trivial add.commute)
  then show ?thesis
    using assms(2) by (simp add: signed_of_nat signed_take_bit_eq_take_bit_shift take_bit_eq_mod)
qed

lemma length_hmac_pad: "length (hmac_pad b k) = 64"
  by (simp add: hmac_pad_def)

lemma hmac_pad_spec: "length k \<le> 64 \<Longrightarrow> hmac_pad b k = map (\<lambda>x. x XOR b) (k @ replicate (64 - length k) 0)"
  by (simp add: hmac_pad_def min_absorb1)

lemma md5_digest_two:
  assumes "length junk = 64" "length x = 64" "length y < 2 ^ 32"
  shows "md5_digest junk [(x, 64), (y, of_nat (length y))] = Some (md5_spec (x @ y))"
  using md5_digest_exact [of junk "[x, y]"] assms by simp

lemma md5_digest_one:
  assumes "length junk = 64" "length x < 2 ^ 32"
  shows "md5_digest junk [(x, of_nat (length x))] = Some (md5_spec x)"
  using md5_digest_exact [of junk "[x]"] assms by simp

lemma hmac_md5_exact:
  assumes "length junk = 64" and "length text < 2 ^ 32" and "length key < 2 ^ 32"
  shows "hmac_md5 junk text (of_nat (length text)) key (of_nat (length key))
    = (if length key < 2 ^ 31 then Some (hmac_md5_spec text key) else None)"
proof (cases "length key < 2 ^ 31")
  case False
  then have "sint (of_nat (length key) :: u32) < 0" using assms by (intro sint_large) auto
  with False show ?thesis by (simp add: hmac_md5_def)
next
  case True
  let ?k = "if 64 < length key then md5_spec key else key"
  have key: "(if 64 < sint (of_nat (length key) :: u32)
       then map_option (\<lambda>tk. (tk, 16)) (md5_digest junk [(key, of_nat (length key))])
       else Some (key, of_nat (length key))) = Some (?k, of_nat (length ?k))"
    using assms by (simp add: sint_small [OF True] md5_digest_one length_md5_spec)
  have len: "length ?k \<le> 64" by (simp add: length_md5_spec)
  then have "length ?k < 2 ^ 31" "length ?k < 2 ^ 32" by simp_all
  then have k: "\<not> sint (of_nat (length ?k) :: u32) < 0" "unat (of_nat (length ?k) :: u32) = length ?k"
    by (simp_all only: sint_small unat_small)
  have "md5_digest junk [(hmac_pad b ?k, 64), (md5_spec x, 16)] = Some (md5_spec (hmac_pad b ?k @ md5_spec x))"
    for b x using md5_digest_two [OF assms(1) length_hmac_pad, of "md5_spec x"] by (simp add: length_md5_spec)
  then show ?thesis
    unfolding hmac_md5_def hmac_md5_spec_def key Let_def
    using True len k assms by (simp add: md5_digest_two length_hmac_pad hmac_pad_spec)
qed

subsection \<open>Properties\<close>

text \<open>
  C15. \<open>MD5Update\<close> is called on any chunks, each shorter than the 4 GiB an \<^verbatim>\<open>unsigned int\<close>
  length can express, whatever the buffer held. If, at every call, the octets waiting in the
  buffer and those of the chunk are together less than \<open>2 ^ 32\<close>, \<open>MD5Final\<close> returns the digest of
  the concatenation: block buffering, the carry of the 64-bit bit counter and the padding are
  right. If not, the loop's index wraps at that call and the chunk is read past its end.
\<close>

theorem md5_streaming:
  assumes "length junk = 64" and "list_all (\<lambda>x. length x < 2 ^ 32) chunks"
  shows "Option.bind (md5_updates (with_lengths chunks) (MD5Init junk)) MD5Final
    = (if chunks_fit 0 chunks then Some (md5_spec (concat chunks)) else None)"
  using md5_digest_exact [OF assms] by (simp add: md5_digest_def)

lemma md5_streaming_witness:
  "Option.bind (md5_updates [([0x61], 1), ([], 0), ([0x62, 0x63], 2)] (MD5Init (replicate 64 7))) MD5Final
    = Some (md5_spec [0x61, 0x62, 0x63])"
  using md5_streaming [of "replicate 64 7" "[[0x61], [], [0x62, 0x63]]"] by simp

text \<open>
  C16. \<open>hmac_md5\<close>, called with the lengths of a key and a text that are shorter than 4 GiB, is
  HMAC as RFC 2104 defines it over MD5 as long as the key's length is not negative as an
  \<^verbatim>\<open>int\<close>: a key longer than a block is hashed first, the inner digest covers the inner pad and the
  text, the outer one the outer pad and the inner digest. A key of \<open>2 ^ 31\<close> octets and more
  overruns the pads instead.
\<close>

theorem hmac_md5_rfc2104:
  assumes "length junk = 64" and "length text < 2 ^ 32" and "length key < 2 ^ 32"
  shows "hmac_md5 junk text (of_nat (length text)) key (of_nat (length key))
    = (if length key < 2 ^ 31 then Some (hmac_md5_spec text key) else None)"
  by (rule hmac_md5_exact [OF assms])

lemma hmac_md5_rfc2104_witness:
  "hmac_md5 (replicate 64 0) [1, 2] 2 [3] 1 = Some (hmac_md5_spec [1, 2] [3])"
  using hmac_md5_rfc2104 [of "replicate 64 0" "[1, 2]" "[3]"] by simp

end
