(* ===== verification/MSTP_Api.thy ===== *)
theory MSTP_Api
  imports MSTP_Bridge MSTP_Md5
begin

section \<open>External events (\<^verbatim>\<open>MSTP_IN_...\<close>): life cycle, timers, frames\<close>

text \<open>
  The entry points the daemon calls when bridges and ports come and go, when a second has
  passed and when a frame has arrived. \<open>clk\<close> bounds the run of the state machines that ends
  most of them (see \<^const>\<open>br_state_machines_run\<close>); the result is \<^term>\<open>None\<close> when that run
  does not return. Allocation is taken to succeed.
\<close>

subsection \<open>Configuration digest\<close>

definition be16_octets :: "u16 \<Rightarrow> u8 list" where
  "be16_octets w = [ucast (drop_bit 8 w), ucast w]"

definition vid2mstid :: "bridge_t \<Rightarrow> nat \<Rightarrow> u16" where
  "vid2mstid br vid =
     (if 1 \<le> vid \<and> vid \<le> MAX_VID then fid2mstid br (unat (vid2fid br vid)) else 0)"

definition HMAC_KEY :: "u8 list" where
  "HMAC_KEY = [0x13, 0xAC, 0x06, 0xA6, 0x2E, 0x47, 0xFD, 0x51,
               0xF9, 0x5D, 0x2B, 0xA2, 0x43, 0xCD, 0x03, 0x46]"

definition RecalcConfigDigest :: "bridge_t \<Rightarrow> bridge_t" where
  "RecalcConfigDigest br =
    (let vid2mstids = concat (map (\<lambda>vid. be16_octets (vid2mstid br vid)) [0..<MAX_VID + 2]);
         digest = the (hmac_md5 (replicate 64 0) vid2mstids (of_nat (length vid2mstids))
                         HMAC_KEY (of_nat (length HMAC_KEY)))
     in br\<lparr>MstConfigId := (MstConfigId br)\<lparr>configuration_digest := digest\<rparr>\<rparr>)"

text \<open>The routine returns here: the table has 8192 octets and the key 16.\<close>

lemma RecalcConfigDigest_digest:
  "configuration_digest (MstConfigId (RecalcConfigDigest br))
    = hmac_md5_spec (concat (map (\<lambda>vid. be16_octets (vid2mstid br vid)) [0..<MAX_VID + 2])) HMAC_KEY"
proof -
  let ?t = "concat (map (\<lambda>vid. be16_octets (vid2mstid br vid)) [0..<MAX_VID + 2])"
  have "length ?t = 2 * (MAX_VID + 2)"
    by (simp add: length_concat o_def be16_octets_def sum_list_triv)
  then have "length ?t < 2 ^ 32" by simp
  moreover have "length HMAC_KEY < 2 ^ 31" by (simp add: HMAC_KEY_def)
  ultimately show ?thesis
    by (simp add: RecalcConfigDigest_def Let_def hmac_md5_exact del: length_concat length_map)
qed

subsection \<open>Defaults\<close>

definition tree_default_internal_vars :: "tree_t \<Rightarrow> tree_t" where
  "tree_default_internal_vars tree =
     tree\<lparr>time_since_topology_change := 0, topology_change_count := 0, topology_change := False,
          topology_change_port := ''None'', last_topology_change_port := ''None''\<rparr>"

definition port_default_internal_vars :: "port_t \<Rightarrow> port_t" where
  "port_default_internal_vars prt =
     prt\<lparr>infoInternal := False, rcvdInternal := False, rcvdTcAck := False, rcvdTcn := False,
         rapidAgeingWhile := 0, brAssuRcvdInfoWhile := 0, BaInconsistent := False,
         num_rx_bpdu_filtered := 0, num_rx_bpdu := 0, num_rx_tcn := 0, num_tx_bpdu := 0,
         num_tx_tcn := 0, num_trans_fwd := 0, num_trans_blk := 0\<rparr>"

definition ptp_default_internal_vars :: "per_tree_port_t \<Rightarrow> per_tree_port_t" where
  "ptp_default_internal_vars ptp =
     ptp\<lparr>rcvdTc := False, tcProp := False, updtInfo := False, master := False, disputed := False,
         rcvdInfo := OtherInfo, mastered := False, msgPriority := zero_vector,
         msgTimes := zero_times\<rparr>"

definition set_BridgePriority :: "bridge_identifier_t \<Rightarrow> tree_t \<Rightarrow> tree_t" where
  "set_BridgePriority i tree =
     tree\<lparr>BridgeIdentifier := i,
          BridgePriority := (BridgePriority tree)\<lparr>RootID := i, RRootID := i,
                                                DesignatedBridgeID := i\<rparr>\<rparr>"

definition create_tree :: "bridge_t \<Rightarrow> 48 word \<Rightarrow> u16 \<Rightarrow> tree_t" where
  "create_tree br macaddr mstid =
     tree_default_internal_vars
       ((set_BridgePriority (BridgeId (0x8000 OR mstid) macaddr) (zero_tree\<lparr>tree_MSTID := mstid\<rparr>))
          \<lparr>BridgeTimes := \<lparr>remainingHops = MaxHops br, Forward_Delay = br_Forward_Delay br,
             Max_Age = br_Max_Age br, Message_Age = 0, Hello_Time = br_Hello_Time br\<rparr>\<rparr>)"

definition create_ptp :: "tree_t \<Rightarrow> port_t \<Rightarrow> per_tree_port_t" where
  "create_ptp tree prt =
     ptp_default_internal_vars
       (zero_ptp\<lparr>MSTID := tree_MSTID tree, state := BR_STATE_DISABLED,
          portId := 0x8000 OR port_number prt, AdminInternalPortPathCost := 0,
          InternalPortPathCost := compute_pcost (port_speed prt),
          portPriority := BridgePriority tree, portTimes := BridgeTimes tree,
          calledFromFlushRoutine := False\<rparr>)"

subsection \<open>Creation and deletion\<close>

text \<open>\<^verbatim>\<open>"%02hhX"\<close>, for the octets of the address from the first on.\<close>

definition hex_digit :: "u8 \<Rightarrow> u8" where
  "hex_digit n = (if n < 10 then 48 + n else 55 + n)"

definition hex_octet :: "u8 \<Rightarrow> u8 list" where
  "hex_octet b = [hex_digit (drop_bit 4 b), hex_digit (b AND 15)]"

definition mac_octets :: "48 word \<Rightarrow> u8 list" where
  "mac_octets mac = map (\<lambda>i. ucast (drop_bit (8 * i) mac)) [5, 4, 3, 2, 1, 0]"

definition MSTP_IN_bridge_create :: "48 word \<Rightarrow> bridge_t" where
  "MSTP_IN_bridge_create macaddr =
    (let cfg = \<lparr>selector = 0,
                configuration_name = concat (map hex_octet (mac_octets macaddr)) @ replicate 20 0,
                revision_level = 0, configuration_digest = replicate 16 0\<rparr>;
         br = RecalcConfigDigest
           \<lparr>ports = [], trees = [], bridgeEnabled = False, MstConfigId = cfg,
            ForceProtocolVersion = protoRSTP, MaxHops = 20, br_Forward_Delay = 15, br_Max_Age = 20,
            br_Hello_Time = 2, Transmit_Hold_Count = 6, Migrate_Time = 3, Ageing_Time = 300,
            vid2fid = \<lambda>_. 0, fid2mstid = \<lambda>_. 0, uptime = 0\<rparr>
     in br\<lparr>trees := [create_tree br macaddr 0]\<rparr>)"

text \<open>\<open>prt\<close> is the port the caller has allocated, with its name, speed and duplex.\<close>

definition MSTP_IN_port_create_and_add_tail ::
  "nat \<Rightarrow> port_t \<Rightarrow> u16 \<Rightarrow> bridge_t \<Rightarrow> bridge_t option" where
  "MSTP_IN_port_create_and_add_tail clk prt portno br =
    (let prt1 = port_default_internal_vars
           (prt\<lparr>port_number := portno, AdminExternalPortPathCost := 0, AdminP2P := p2pAuto,
                operPointToPointMAC := False, portEnabled := False, restrictedRole := False,
                restrictedTcn := False, ExternalPortPathCost := MAX_PATH_COST,
                AdminEdgePort := False, AutoEdge := True, BpduGuardPort := False,
                BpduGuardError := False, NetworkPort := False, dontTxmtBpdu := False,
                bpduFilterPort := False, deleted := False\<rparr>);
         prt2 = prt1\<lparr>port_trees := map (\<lambda>tree. create_ptp tree prt1) (trees br)\<rparr>
     in prt_state_machines_begin clk (length (ports br)) (br\<lparr>ports := ports br @ [prt2]\<rparr>))"

definition remove_nth :: "nat \<Rightarrow> 'a list \<Rightarrow> 'a list" where
  "remove_nth i xs = take i xs @ drop (Suc i) xs"

definition MSTP_IN_delete_port :: "nat \<Rightarrow> nat \<Rightarrow> nat \<Rightarrow> bridge_t \<Rightarrow> bridge_t option" where
  "MSTP_IN_delete_port clk clk' p br =
    (let br1 = upd_port p (\<lambda>prt. prt\<lparr>deleted := True\<rparr>) br in
     do {
       br2 \<leftarrow> (if portEnabled (port_at br1 p)
               then br_state_machines_run clk (upd_port p (\<lambda>prt. prt\<lparr>portEnabled := False\<rparr>) br1)
               else Some br1);
       br_state_machines_run clk' (ports_update (remove_nth p) br2)
     })"

fun delete_all_ports :: "nat \<Rightarrow> bridge_t \<Rightarrow> bridge_t option" where
  "delete_all_ports 0 br = Some br"
| "delete_all_ports (Suc n) br = do { br1 \<leftarrow> MSTP_IN_delete_port 0 0 0 br; delete_all_ports n br1 }"

definition MSTP_IN_delete_bridge :: "bridge_t \<Rightarrow> bridge_t option" where
  "MSTP_IN_delete_bridge br =
     do { br1 \<leftarrow> delete_all_ports (length (ports br)) (br\<lparr>bridgeEnabled := False\<rparr>);
          Some (br1\<lparr>trees := []\<rparr>) }"

subsection \<open>Address, administrative state\<close>

definition MSTP_IN_set_bridge_address :: "nat \<Rightarrow> 48 word \<Rightarrow> bridge_t \<Rightarrow> bridge_t option" where
  "MSTP_IN_set_bridge_address clk macaddr br =
    (let same = (\<lambda>tree. mac_address (BridgeIdentifier tree) = macaddr);
         upd = (\<lambda>tree. if same tree then tree
                       else set_BridgePriority
                              (BridgeId (priority (BridgeIdentifier tree)) macaddr) tree);
         br1 = trees_update (map upd) br
     in if list_all same (trees br) then Some br1 else br_state_machines_begin clk br1)"

definition reset_port :: "u32 \<Rightarrow> port_t \<Rightarrow> port_t" where
  "reset_port ageing prt =
    (let prt1 = (if rapidAgeingWhile prt \<noteq> 0 then MSTP_OUT_set_ageing_time ageing prt else prt);
         prt2 = port_default_internal_vars prt1
     in fold (\<lambda>k q. upd_ptp k ptp_default_internal_vars
                (if state (ptp_of q k) \<noteq> BR_STATE_DISABLED
                 then MSTP_OUT_set_state k BR_STATE_DISABLED q else q))
          [0..<length (port_trees prt2)] prt2)"

definition MSTP_IN_set_bridge_enable :: "nat \<Rightarrow> bool \<Rightarrow> bridge_t \<Rightarrow> bridge_t option" where
  "MSTP_IN_set_bridge_enable clk up br =
    (if bridgeEnabled br = up then Some br
     else br_state_machines_begin clk
       (br\<lparr>bridgeEnabled := up, uptime := 0,
           trees := map tree_default_internal_vars (trees br),
           ports := map (reset_port (Ageing_Time br)) (ports br)\<rparr>))"

definition auto_cost :: "u32 \<Rightarrow> u32 \<Rightarrow> u32" where
  "auto_cost admin computed = (if admin = 0 then computed else admin)"

definition oper_p2p :: "admin_p2p_t \<Rightarrow> int \<Rightarrow> bool" where
  "oper_p2p admin duplex =
     (case admin of p2pForceTrue \<Rightarrow> True | p2pForceFalse \<Rightarrow> False | p2pAuto \<Rightarrow> duplex \<noteq> 0)"

definition port_comes_up :: "port_t \<Rightarrow> port_t" where
  "port_comes_up prt =
     updtbrAssuRcvdInfoWhile
       (prt\<lparr>portEnabled := True, BpduGuardError := False, BaInconsistent := False,
            num_rx_bpdu_filtered := 0, num_rx_bpdu := 0, num_rx_tcn := 0, num_tx_bpdu := 0,
            num_tx_tcn := 0\<rparr>)"

definition set_port_up :: "int \<Rightarrow> int \<Rightarrow> port_t \<Rightarrow> bool \<times> port_t" where
  "set_port_up speed duplex prt =
    (let pcost = compute_pcost speed;
         ext = auto_cost (AdminExternalPortPathCost prt) pcost;
         int_cost = (\<lambda>ptp. auto_cost (AdminInternalPortPathCost ptp) pcost);
         p2p = oper_p2p (AdminP2P prt) duplex;
         changed = (ExternalPortPathCost prt \<noteq> ext
                    \<or> list_ex (\<lambda>ptp. InternalPortPathCost ptp \<noteq> int_cost ptp) (port_trees prt)
                    \<or> operPointToPointMAC prt \<noteq> p2p \<or> \<not> portEnabled prt);
         prt1 = map_ptps (\<lambda>ptp. ptp\<lparr>InternalPortPathCost := int_cost ptp\<rparr>)
                  (prt\<lparr>ExternalPortPathCost := ext, operPointToPointMAC := p2p\<rparr>)
     in (changed, if \<not> portEnabled prt then port_comes_up prt1 else prt1))"

definition MSTP_IN_set_port_enable ::
  "nat \<Rightarrow> nat \<Rightarrow> bool \<Rightarrow> int \<Rightarrow> int \<Rightarrow> bridge_t \<Rightarrow> bridge_t option" where
  "MSTP_IN_set_port_enable clk p up speed duplex br =
    (let prt = port_at br p in
     case (if up then set_port_up speed duplex prt
           else (portEnabled prt, prt\<lparr>portEnabled := False\<rparr>)) of
       (changed, prt1) \<Rightarrow>
         let br1 = upd_port p (\<lambda>_. prt1) br
         in if changed then br_state_machines_run clk br1 else Some br1)"

subsection \<open>Timers\<close>

definition rapid_ageing_tick :: "u32 \<Rightarrow> port_t \<Rightarrow> port_t" where
  "rapid_ageing_tick ageing prt =
    (if rapidAgeingWhile prt \<noteq> 0 then
       (let prt1 = prt\<lparr>rapidAgeingWhile := rapidAgeingWhile prt - 1\<rparr>
        in if rapidAgeingWhile prt1 = 0 \<and> \<not> deleted prt1
           then MSTP_OUT_set_ageing_time ageing prt1 else prt1)
     else prt)"

definition MSTP_IN_one_second :: "nat \<Rightarrow> bridge_t \<Rightarrow> bridge_t option" where
  "MSTP_IN_one_second clk br =
    (let br1 = br\<lparr>uptime := uptime br + 1\<rparr> in
     if \<not> bridgeEnabled br then Some br1
     else
       (let br2 = trees_update (map (\<lambda>tree.
              if \<not> topology_change tree
              then tree\<lparr>time_since_topology_change := time_since_topology_change tree + 1\<rparr>
              else tree)) br1
        in br_state_machines_run clk
             (for_ports (\<lambda>p b. upd_port p (rapid_ageing_tick (Ageing_Time b)) (PTSM_tick p b)) br2)))"

definition MSTP_IN_all_fids_flushed :: "nat \<Rightarrow> nat \<Rightarrow> nat \<Rightarrow> bridge_t \<Rightarrow> bridge_t option" where
  "MSTP_IN_all_fids_flushed clk p k br =
    (let br1 = upd_ptp_at p k (\<lambda>x. x\<lparr>fdbFlush := False\<rparr>) br in
     if \<not> bridgeEnabled br1 then Some br1
     else if \<not> calledFromFlushRoutine (ptp_at br1 p k) then
       do { (_, br2) \<leftarrow> TCSM_run p k br1 False; br_state_machines_run clk br2 }
     else Some br1)"

subsection \<open>Received frames\<close>

text \<open>
  \<^verbatim>\<open>size\<close> is an \<^verbatim>\<open>int\<close>, but \<^verbatim>\<open>offsetof\<close> and \<^verbatim>\<open>sizeof\<close> are of the unsigned type
  \<^verbatim>\<open>size_t\<close> (32 bits on the switch), so comparing with them converts it.
\<close>

definition as_size_t :: "int \<Rightarrow> int" where
  "as_size_t n = uint (word_of_int n :: u32)"

lemma as_size_t_nonneg: "0 \<le> n \<Longrightarrow> n < 2 ^ 32 \<Longrightarrow> as_size_t n = n"
  by (simp add: as_size_t_def uint_word_of_int take_bit_int_eq_self)

text \<open>
  14.4. \<^term>\<open>None\<close> for an invalid frame; otherwise the frame with the protocol version it is
  handled as, and the number of MSTI messages of an MST BPDU. \<open>mstis_size\<close> is an
  \<^verbatim>\<open>int\<close> too; it is at least zero wherever it meets an unsigned operand.
\<close>

definition msti_octets :: "bpdu_t \<Rightarrow> int" where
  "msti_octets b = uint (version3_len b) - MST_BPDU_VER3LEN_WO_MSTI_MSGS"

definition bad_mst_part :: "bpdu_t \<Rightarrow> int \<Rightarrow> bool" where
  "bad_mst_part b size' \<longleftrightarrow>
     MST_BPDU_SIZE_WO_MSTI_MSGS > as_size_t size' \<or> version1_len b \<noteq> 0 \<or> 0 > msti_octets b
     \<or> MAX_STANDARD_MSTIS * sizeof_msti_msg < msti_octets b
     \<or> msti_octets b mod sizeof_msti_msg \<noteq> 0"

definition validate_bpdu :: "bpdu_t \<Rightarrow> int \<Rightarrow> (bpdu_t \<times> int option) option" where
  "validate_bpdu b size' =
    (if TCN_BPDU_SIZE > as_size_t size' \<or> protocolIdentifier b \<noteq> 0 then None
     else if bpduType b = bpduTypeTCN then Some (b\<lparr>protocolVersion := protoSTP\<rparr>, None)
     else if bpduType b = bpduTypeConfig then
       (if CONFIG_BPDU_SIZE > as_size_t size' then None
        else Some (b\<lparr>protocolVersion := protoSTP\<rparr>, None))
     else if bpduType b = bpduTypeRST then
       (if protocolVersion b = protoRSTP then
          (if RST_BPDU_SIZE > as_size_t size' then None else Some (b, None))
        else if protoMSTP > protocolVersion b then None
        else if CONFIG_BPDU_SIZE > as_size_t size' then None
        else if bad_mst_part b size' then Some (b\<lparr>protocolVersion := protoRSTP\<rparr>, None)
        else Some (b\<lparr>protocolVersion := protoMSTP\<rparr>, Some (msti_octets b div sizeof_msti_msg)))
     else None)"

definition is_tc_bpdu :: "bpdu_t \<Rightarrow> bool" where
  "is_tc_bpdu b \<longleftrightarrow>
     (if protocolVersion b = protoSTP \<and> bpduType b = bpduTypeTCN then True
      else has_flag (flags b) offsetTc)"

definition accept_bpdu :: "bpdu_t \<Rightarrow> int option \<Rightarrow> port_t \<Rightarrow> port_t" where
  "accept_bpdu b n prt =
    (let prt1 = (case n of None \<Rightarrow> prt | Some m \<Rightarrow> prt\<lparr>rcvdBpduNumOfMstis := m\<rparr>);
         prt2 = (if is_tc_bpdu b then prt1\<lparr>num_rx_tcn := num_rx_tcn prt1 + 1\<rparr> else prt1)
     in updtbrAssuRcvdInfoWhile
          (prt2\<lparr>rcvdBpduData := b, rcvdBpdu := True, BaInconsistent := False\<rparr>))"

definition MSTP_IN_rx_bpdu ::
  "nat \<Rightarrow> nat \<Rightarrow> bpdu_t \<Rightarrow> int \<Rightarrow> bridge_t \<Rightarrow> bridge_t option" where
  "MSTP_IN_rx_bpdu clk p b size' br0 =
    (let br = upd_port p (\<lambda>prt. prt\<lparr>num_rx_bpdu := num_rx_bpdu prt + 1\<rparr>) br0;
         prt = port_at br p in
     if BpduGuardPort prt then
       Some (upd_port p (\<lambda>q. MSTP_OUT_shutdown_port (q\<lparr>BpduGuardError := True\<rparr>)) br)
     else if bpduFilterPort prt then
       Some (upd_port p (\<lambda>q. q\<lparr>num_rx_bpdu_filtered := num_rx_bpdu_filtered q + 1\<rparr>) br)
     else if \<not> bridgeEnabled br then Some br
     else if rcvdBpdu prt then Some br
     else case validate_bpdu b size' of
       None \<Rightarrow> Some br
     | Some (b', n) \<Rightarrow> br_state_machines_run clk (upd_port p (accept_bpdu b' n) br))"

end
