(* ===== verification/MSTP_Config.thy ===== *)
theory MSTP_Config
  imports MSTP_Api
begin

section \<open>Management (12.8, 12.10, 12.12): reading and setting parameters\<close>

text \<open>
  The \<^verbatim>\<open>MSTP_IN_get_...\<close> and \<^verbatim>\<open>MSTP_IN_set_...\<close> entry points. A parameter of a
  configuration structure with its \<^verbatim>\<open>set_\<close> flag is an optional value. A setter returns the
  value the C function returns and the new bridge; \<^term>\<open>None\<close> means that the run of the state
  machines it ends with does not return.
\<close>

subsection \<open>Status\<close>

record CIST_BridgeStatus =
  cbs_bridge_id :: bridge_identifier_t
  cbs_time_since_topology_change :: u32
  cbs_topology_change_count :: u32
  cbs_topology_change :: bool
  cbs_topology_change_port :: string
  cbs_last_topology_change_port :: string
  cbs_designated_root :: bridge_identifier_t
  cbs_root_path_cost :: u32
  cbs_root_port_id :: port_identifier_t
  cbs_root_max_age :: u8
  cbs_root_forward_delay :: u8
  cbs_bridge_max_age :: u8
  cbs_bridge_forward_delay :: u8
  cbs_tx_hold_count :: u32
  cbs_protocol_version :: u8
  cbs_regional_root :: bridge_identifier_t
  cbs_internal_path_cost :: u32
  cbs_enabled :: bool
  cbs_Ageing_Time :: u32
  cbs_max_hops :: u8
  cbs_bridge_hello_time :: u8

definition MSTP_IN_get_cist_bridge_status :: "bridge_t \<Rightarrow> CIST_BridgeStatus" where
  "MSTP_IN_get_cist_bridge_status br =
    (let cist = tree_at br 0 in
     \<lparr>cbs_bridge_id = BridgeIdentifier cist,
      cbs_time_since_topology_change = time_since_topology_change cist,
      cbs_topology_change_count = topology_change_count cist,
      cbs_topology_change = topology_change cist,
      cbs_topology_change_port = topology_change_port cist,
      cbs_last_topology_change_port = last_topology_change_port cist,
      cbs_designated_root = RootID (rootPriority cist),
      cbs_root_path_cost = ExtRootPathCost (rootPriority cist),
      cbs_root_port_id = rootPortId cist,
      cbs_root_max_age = Max_Age (rootTimes cist),
      cbs_root_forward_delay = Forward_Delay (rootTimes cist),
      cbs_bridge_max_age = br_Max_Age br,
      cbs_bridge_forward_delay = br_Forward_Delay br,
      cbs_tx_hold_count = Transmit_Hold_Count br,
      cbs_protocol_version = ForceProtocolVersion br,
      cbs_regional_root = RRootID (rootPriority cist),
      cbs_internal_path_cost = IntRootPathCost (rootPriority cist),
      cbs_enabled = bridgeEnabled br,
      cbs_Ageing_Time = Ageing_Time br,
      cbs_max_hops = MaxHops br,
      cbs_bridge_hello_time = br_Hello_Time br\<rparr>)"

record MSTI_BridgeStatus =
  mbs_bridge_id :: bridge_identifier_t
  mbs_time_since_topology_change :: u32
  mbs_topology_change_count :: u32
  mbs_topology_change :: bool
  mbs_topology_change_port :: string
  mbs_last_topology_change_port :: string
  mbs_regional_root :: bridge_identifier_t
  mbs_internal_path_cost :: u32
  mbs_root_port_id :: port_identifier_t

definition MSTP_IN_get_msti_bridge_status :: "tree_t \<Rightarrow> MSTI_BridgeStatus" where
  "MSTP_IN_get_msti_bridge_status tree =
     \<lparr>mbs_bridge_id = BridgeIdentifier tree,
      mbs_time_since_topology_change = time_since_topology_change tree,
      mbs_topology_change_count = topology_change_count tree,
      mbs_topology_change = topology_change tree,
      mbs_topology_change_port = topology_change_port tree,
      mbs_last_topology_change_port = last_topology_change_port tree,
      mbs_regional_root = RRootID (rootPriority tree),
      mbs_internal_path_cost = IntRootPathCost (rootPriority tree),
      mbs_root_port_id = rootPortId tree\<rparr>"

record CIST_PortStatus =
  cps_uptime :: u32
  cps_state :: br_state_t
  cps_port_id :: port_identifier_t
  cps_admin_external_port_path_cost :: u32
  cps_external_port_path_cost :: u32
  cps_designated_root :: bridge_identifier_t
  cps_designated_external_cost :: u32
  cps_designated_bridge :: bridge_identifier_t
  cps_designated_port :: port_identifier_t
  cps_tc_ack :: bool
  cps_port_hello_time :: u8
  cps_admin_edge_port :: bool
  cps_auto_edge_port :: bool
  cps_oper_edge_port :: bool
  cps_enabled :: bool
  cps_admin_p2p :: admin_p2p_t
  cps_oper_p2p :: bool
  cps_restricted_role :: bool
  cps_restricted_tcn :: bool
  cps_role :: port_role_t
  cps_disputed :: bool
  cps_designated_regional_root :: bridge_identifier_t
  cps_designated_internal_cost :: u32
  cps_admin_internal_port_path_cost :: u32
  cps_internal_port_path_cost :: u32
  cps_bpdu_guard_port :: bool
  cps_bpdu_guard_error :: bool
  cps_bpdu_filter_port :: bool
  cps_network_port :: bool
  cps_ba_inconsistent :: bool
  cps_num_rx_bpdu_filtered :: u32
  cps_num_rx_bpdu :: u32
  cps_num_rx_tcn :: u32
  cps_num_tx_bpdu :: u32
  cps_num_tx_tcn :: u32
  cps_num_trans_fwd :: u32
  cps_num_trans_blk :: u32
  cps_rcvdBpdu :: bool
  cps_rcvdRSTP :: bool
  cps_rcvdSTP :: bool
  cps_rcvdTcAck :: bool
  cps_rcvdTcn :: bool
  cps_sendRSTP :: bool

definition MSTP_IN_get_cist_port_status :: "bridge_t \<Rightarrow> port_t \<Rightarrow> CIST_PortStatus" where
  "MSTP_IN_get_cist_port_status br prt =
    (let cist = cist_of prt in
     \<lparr>cps_uptime = uptime br - start_time cist,
      cps_state = state cist,
      cps_port_id = portId cist,
      cps_admin_external_port_path_cost = AdminExternalPortPathCost prt,
      cps_external_port_path_cost = ExternalPortPathCost prt,
      cps_designated_root = RootID (portPriority cist),
      cps_designated_external_cost = ExtRootPathCost (portPriority cist),
      cps_designated_bridge = DesignatedBridgeID (portPriority cist),
      cps_designated_port = DesignatedPortID (portPriority cist),
      cps_tc_ack = tcAck prt,
      cps_port_hello_time = Hello_Time (portTimes cist),
      cps_admin_edge_port = AdminEdgePort prt,
      cps_auto_edge_port = AutoEdge prt,
      cps_oper_edge_port = operEdge prt,
      cps_enabled = portEnabled prt,
      cps_admin_p2p = AdminP2P prt,
      cps_oper_p2p = operPointToPointMAC prt,
      cps_restricted_role = restrictedRole prt,
      cps_restricted_tcn = restrictedTcn prt,
      cps_role = role cist,
      cps_disputed = disputed cist,
      cps_designated_regional_root = RRootID (portPriority cist),
      cps_designated_internal_cost = IntRootPathCost (portPriority cist),
      cps_admin_internal_port_path_cost = AdminInternalPortPathCost cist,
      cps_internal_port_path_cost = InternalPortPathCost cist,
      cps_bpdu_guard_port = BpduGuardPort prt,
      cps_bpdu_guard_error = BpduGuardError prt,
      cps_bpdu_filter_port = bpduFilterPort prt,
      cps_network_port = NetworkPort prt,
      cps_ba_inconsistent = BaInconsistent prt,
      cps_num_rx_bpdu_filtered = num_rx_bpdu_filtered prt,
      cps_num_rx_bpdu = num_rx_bpdu prt,
      cps_num_rx_tcn = num_rx_tcn prt,
      cps_num_tx_bpdu = num_tx_bpdu prt,
      cps_num_tx_tcn = num_tx_tcn prt,
      cps_num_trans_fwd = num_trans_fwd prt,
      cps_num_trans_blk = num_trans_blk prt,
      cps_rcvdBpdu = rcvdBpdu prt,
      cps_rcvdRSTP = rcvdRSTP prt,
      cps_rcvdSTP = rcvdSTP prt,
      cps_rcvdTcAck = rcvdTcAck prt,
      cps_rcvdTcn = rcvdTcn prt,
      cps_sendRSTP = sendRSTP prt\<rparr>)"

record MSTI_PortStatus =
  mps_uptime :: u32
  mps_state :: br_state_t
  mps_port_id :: port_identifier_t
  mps_admin_internal_port_path_cost :: u32
  mps_internal_port_path_cost :: u32
  mps_designated_regional_root :: bridge_identifier_t
  mps_designated_internal_cost :: u32
  mps_designated_bridge :: bridge_identifier_t
  mps_designated_port :: port_identifier_t
  mps_role :: port_role_t
  mps_disputed :: bool

definition MSTP_IN_get_msti_port_status :: "bridge_t \<Rightarrow> per_tree_port_t \<Rightarrow> MSTI_PortStatus" where
  "MSTP_IN_get_msti_port_status br ptp =
     \<lparr>mps_uptime = uptime br - start_time ptp,
      mps_state = state ptp,
      mps_port_id = portId ptp,
      mps_admin_internal_port_path_cost = AdminInternalPortPathCost ptp,
      mps_internal_port_path_cost = InternalPortPathCost ptp,
      mps_designated_regional_root = RRootID (portPriority ptp),
      mps_designated_internal_cost = IntRootPathCost (portPriority ptp),
      mps_designated_bridge = DesignatedBridgeID (portPriority ptp),
      mps_designated_port = DesignatedPortID (portPriority ptp),
      mps_role = role ptp,
      mps_disputed = disputed ptp\<rparr>"

subsection \<open>12.8.1.3 CIST bridge parameters\<close>

record CIST_BridgeConfig =
  cbc_bridge_max_age :: "u8 option"
  cbc_bridge_forward_delay :: "u8 option"
  cbc_protocol_version :: "u8 option"
  cbc_tx_hold_count :: "u32 option"
  cbc_max_hops :: "u8 option"
  cbc_bridge_hello_time :: "u8 option"
  cbc_bridge_ageing_time :: "u32 option"

text \<open>An absent parameter passes every check; \<open>or_else\<close> keeps the present value.\<close>

definition ok_if_set :: "('a \<Rightarrow> bool) \<Rightarrow> 'a option \<Rightarrow> bool" where
  "ok_if_set P x = (case x of None \<Rightarrow> True | Some v \<Rightarrow> P v)"

definition or_else :: "'a option \<Rightarrow> 'a \<Rightarrow> 'a" where
  "or_else x d = (case x of None \<Rightarrow> d | Some v \<Rightarrow> v)"

definition valid_bridge_config :: "bridge_t \<Rightarrow> CIST_BridgeConfig \<Rightarrow> bool" where
  "valid_bridge_config br cfg \<longleftrightarrow>
    (let new_max_age = or_else (cbc_bridge_max_age cfg) (br_Max_Age br);
         new_forward_delay = or_else (cbc_bridge_forward_delay cfg) (br_Forward_Delay br)
     in ok_if_set (\<lambda>v. \<not> (6 > v \<or> 40 < v)) (cbc_bridge_max_age cfg)
        \<and> ok_if_set (\<lambda>v. \<not> (4 > v \<or> 30 < v)) (cbc_bridge_forward_delay cfg)
        \<and> (cbc_bridge_max_age cfg = None \<and> cbc_bridge_forward_delay cfg = None
           \<or> \<not> 2 * (uint new_forward_delay - 1) < uint new_max_age)
        \<and> ok_if_set (\<lambda>v. v = protoSTP \<or> v = protoRSTP \<or> v = protoMSTP) (cbc_protocol_version cfg)
        \<and> ok_if_set (\<lambda>v. \<not> (1 > v \<or> 10 < v)) (cbc_tx_hold_count cfg)
        \<and> ok_if_set (\<lambda>v. \<not> (6 > v \<or> 40 < v)) (cbc_max_hops cfg)
        \<and> ok_if_set (\<lambda>v. \<not> (1 > v \<or> 10 < v)) (cbc_bridge_hello_time cfg)
        \<and> ok_if_set (\<lambda>v. \<not> (10 > v \<or> 1000000 < v)) (cbc_bridge_ageing_time cfg))"

text \<open>The ``finalize'' loop for changed bridge times.\<close>

definition propagate_bridge_times :: "bridge_t \<Rightarrow> bridge_t" where
  "propagate_bridge_times br =
     br\<lparr>trees := map (\<lambda>tree. tree\<lparr>BridgeTimes := (BridgeTimes tree)\<lparr>remainingHops := MaxHops br,
             Forward_Delay := br_Forward_Delay br, Max_Age := br_Max_Age br,
             Hello_Time := br_Hello_Time br\<rparr>\<rparr>) (trees br),
        ports := map (map_ptps (\<lambda>ptp. ptp\<lparr>selected := False, reselect := True,
             portTimes := (portTimes ptp)\<lparr>Hello_Time := br_Hello_Time br\<rparr>\<rparr>)) (ports br)\<rparr>"

definition MSTP_IN_set_cist_bridge_config ::
  "nat \<Rightarrow> CIST_BridgeConfig \<Rightarrow> bridge_t \<Rightarrow> (int \<times> bridge_t) option" where
  "MSTP_IN_set_cist_bridge_config clk cfg br =
    (if \<not> valid_bridge_config br cfg then Some (-1, br)
     else
       (let max_age = or_else (cbc_bridge_max_age cfg) (br_Max_Age br);
            fwd = or_else (cbc_bridge_forward_delay cfg) (br_Forward_Delay br);
            version = or_else (cbc_protocol_version cfg) (ForceProtocolVersion br);
            hold = or_else (cbc_tx_hold_count cfg) (Transmit_Hold_Count br);
            hops = or_else (cbc_max_hops cfg) (MaxHops br);
            hello = or_else (cbc_bridge_hello_time cfg) (br_Hello_Time br);
            ageing = or_else (cbc_bridge_ageing_time cfg) (Ageing_Time br);
            changedBridgeTimes = (max_age \<noteq> br_Max_Age br \<or> fwd \<noteq> br_Forward_Delay br
              \<or> hops \<noteq> MaxHops br \<or> hello \<noteq> br_Hello_Time br);
            init = (version \<noteq> ForceProtocolVersion br);
            changed = (changedBridgeTimes \<or> init \<or> hold \<noteq> Transmit_Hold_Count br);
            br1 = br\<lparr>br_Max_Age := max_age, br_Forward_Delay := fwd,
                     ForceProtocolVersion := version, Transmit_Hold_Count := hold,
                     MaxHops := hops, br_Hello_Time := hello, Ageing_Time := ageing\<rparr>;
            br2 = (if hold \<noteq> Transmit_Hold_Count br
                   then ports_update (map (\<lambda>prt. prt\<lparr>txCount := 0\<rparr>)) br1 else br1);
            br3 = (if changedBridgeTimes then propagate_bridge_times br2 else br2)
        in map_option (\<lambda>b. (0, b))
             (if changed \<and> bridgeEnabled br3 then
                (if init then br_state_machines_begin clk br3 else br_state_machines_run clk br3)
              else Some br3)))"

definition MSTP_IN_set_msti_bridge_config ::
  "nat \<Rightarrow> u8 \<Rightarrow> bridge_t \<Rightarrow> int \<times> bridge_t" where
  "MSTP_IN_set_msti_bridge_config k bridge_priority br =
    (if 15 < bridge_priority then (-1, br)
     else
       (let valuePri = push_bit 4 bridge_priority; i = BridgeIdentifier (tree_at br k) in
        if GET_PRIORITY_FROM_IDENTIFIER (priority i) = valuePri then (0, br)
        else (0, map_tree_ptps k (\<lambda>ptp. ptp\<lparr>selected := False, reselect := True\<rparr>)
                   (upd_tree k (set_BridgePriority (set_bridge_priority valuePri i)) br))))"

subsection \<open>12.8.2.3, 12.8.2.4, 12.8.2.5 Port parameters\<close>

record CIST_PortConfig =
  cpc_admin_external_port_path_cost :: "u32 option"
  cpc_admin_edge_port :: "bool option"
  cpc_auto_edge_port :: "bool option"
  cpc_admin_p2p :: "admin_p2p_t option"
  cpc_restricted_role :: "bool option"
  cpc_restricted_tcn :: "bool option"
  cpc_bpdu_guard_port :: "bool option"
  cpc_network_port :: "bool option"
  cpc_dont_txmt :: "bool option"
  cpc_bpdu_filter_port :: "bool option"

text \<open>One parameter at a time: whether it asks for a run, and the port after it.\<close>

definition cfg_external_cost :: "u32 option \<Rightarrow> port_t \<Rightarrow> bool \<times> port_t" where
  "cfg_external_cost v prt =
    (case v of None \<Rightarrow> (False, prt)
     | Some cost \<Rightarrow>
        (let prt1 = prt\<lparr>AdminExternalPortPathCost := cost\<rparr>;
             new = auto_cost cost (compute_pcost (port_speed prt))
         in if ExternalPortPathCost prt1 \<noteq> new then
              (True, upd_ptp 0 (\<lambda>c. c\<lparr>selected := False, reselect := True\<rparr>)
                       (prt1\<lparr>ExternalPortPathCost := new\<rparr>))
            else (False, prt1)))"

definition cfg_admin_p2p :: "admin_p2p_t option \<Rightarrow> port_t \<Rightarrow> bool \<times> port_t" where
  "cfg_admin_p2p v prt =
    (case v of None \<Rightarrow> (False, prt)
     | Some p2p \<Rightarrow>
        (let new = oper_p2p p2p (port_duplex prt)
         in (operPointToPointMAC prt \<noteq> new,
             prt\<lparr>AdminP2P := p2p, operPointToPointMAC := new\<rparr>)))"

definition cfg_admin_edge :: "bool option \<Rightarrow> port_t \<Rightarrow> bool \<times> port_t" where
  "cfg_admin_edge v prt =
    (case v of None \<Rightarrow> (False, prt)
     | Some e \<Rightarrow>
        if AdminEdgePort prt \<noteq> e then (True, BDSM_begin (prt\<lparr>AdminEdgePort := e\<rparr>))
        else (False, prt))"

definition cfg_network_port :: "bool option \<Rightarrow> port_t \<Rightarrow> bool \<times> port_t" where
  "cfg_network_port v prt =
    (case v of None \<Rightarrow> (False, prt)
     | Some n \<Rightarrow>
        if NetworkPort prt \<noteq> n then
          (True, prt\<lparr>NetworkPort := n, BaInconsistent := n \<and> BaInconsistent prt\<rparr>)
        else (False, prt))"

definition cfg_bpdu_filter :: "bool option \<Rightarrow> port_t \<Rightarrow> port_t" where
  "cfg_bpdu_filter v prt =
    (case v of None \<Rightarrow> prt
     | Some f \<Rightarrow> if bpduFilterPort prt \<noteq> f
                 then prt\<lparr>bpduFilterPort := f, num_rx_bpdu_filtered := 0\<rparr> else prt)"

definition set_cist_port :: "CIST_PortConfig \<Rightarrow> port_t \<Rightarrow> bool \<times> port_t" where
  "set_cist_port cfg prt =
    (let (ch1, p1) = cfg_external_cost (cpc_admin_external_port_path_cost cfg) prt;
         (ch2, p2) = cfg_admin_p2p (cpc_admin_p2p cfg) p1;
         (ch3, p3) = cfg_admin_edge (cpc_admin_edge_port cfg) p2;
         auto_edge = or_else (cpc_auto_edge_port cfg) (AutoEdge p3);
         r_role = or_else (cpc_restricted_role cfg) (restrictedRole p3);
         r_tcn = or_else (cpc_restricted_tcn cfg) (restrictedTcn p3);
         ch4 = (auto_edge \<noteq> AutoEdge p3 \<or> r_role \<noteq> restrictedRole p3
                \<or> r_tcn \<noteq> restrictedTcn p3);
         p4 = p3\<lparr>AutoEdge := auto_edge, restrictedRole := r_role, restrictedTcn := r_tcn,
                 BpduGuardPort := or_else (cpc_bpdu_guard_port cfg) (BpduGuardPort p3)\<rparr>;
         (ch5, p5) = cfg_network_port (cpc_network_port cfg) p4;
         p6 = p5\<lparr>dontTxmtBpdu := or_else (cpc_dont_txmt cfg) (dontTxmtBpdu p5)\<rparr>
     in (ch1 \<or> ch2 \<or> ch3 \<or> ch4 \<or> ch5, cfg_bpdu_filter (cpc_bpdu_filter_port cfg) p6))"

definition MSTP_IN_set_cist_port_config ::
  "nat \<Rightarrow> CIST_PortConfig \<Rightarrow> nat \<Rightarrow> bridge_t \<Rightarrow> (int \<times> bridge_t) option" where
  "MSTP_IN_set_cist_port_config clk cfg p br =
    (case set_cist_port cfg (port_at br p) of
       (changed, prt) \<Rightarrow>
         let br1 = upd_port p (\<lambda>_. prt) br
         in map_option (\<lambda>b. (0, b))
              (if changed \<and> portEnabled prt then br_state_machines_run clk br1 else Some br1))"

record MSTI_PortConfig =
  mpc_admin_internal_port_path_cost :: "u32 option"
  mpc_port_priority :: "u8 option"

definition cfg_port_priority :: "u8 option \<Rightarrow> per_tree_port_t \<Rightarrow> bool \<times> per_tree_port_t" where
  "cfg_port_priority v ptp =
    (case v of None \<Rightarrow> (False, ptp)
     | Some pri \<Rightarrow>
        (let valuePri = push_bit 4 pri in
         if GET_PRIORITY_FROM_IDENTIFIER (portId ptp) \<noteq> valuePri
         then (True, ptp\<lparr>portId := SET_PRIORITY_IN_IDENTIFIER valuePri (portId ptp)\<rparr>)
         else (False, ptp)))"

definition cfg_internal_cost :: "int \<Rightarrow> u32 option \<Rightarrow> per_tree_port_t \<Rightarrow> bool \<times> per_tree_port_t" where
  "cfg_internal_cost speed v ptp =
    (case v of None \<Rightarrow> (False, ptp)
     | Some cost \<Rightarrow>
        (let new = auto_cost cost (compute_pcost speed)
         in (InternalPortPathCost ptp \<noteq> new,
             ptp\<lparr>AdminInternalPortPathCost := cost, InternalPortPathCost := new\<rparr>)))"

definition MSTP_IN_set_msti_port_config ::
  "nat \<Rightarrow> MSTI_PortConfig \<Rightarrow> nat \<Rightarrow> nat \<Rightarrow> bridge_t \<Rightarrow> (int \<times> bridge_t) option" where
  "MSTP_IN_set_msti_port_config clk cfg p k br =
    (if \<not> ok_if_set (\<lambda>pri. \<not> 15 < pri) (mpc_port_priority cfg) then Some (-1, br)
     else
       (let prt = port_at br p;
            (ch1, ptp1) = cfg_port_priority (mpc_port_priority cfg) (ptp_of prt k);
            (ch2, ptp2) = cfg_internal_cost (port_speed prt)
                            (mpc_admin_internal_port_path_cost cfg) ptp1
        in map_option (\<lambda>b. (0, b))
             (if (ch1 \<or> ch2) \<and> portEnabled prt
              then br_state_machines_run clk
                     (upd_ptp_at p k (\<lambda>_. ptp2\<lparr>selected := False, reselect := True\<rparr>) br)
              else Some (upd_ptp_at p k (\<lambda>_. ptp2) br))))"

definition MSTP_IN_port_mcheck :: "nat \<Rightarrow> nat \<Rightarrow> bridge_t \<Rightarrow> (int \<times> bridge_t) option" where
  "MSTP_IN_port_mcheck clk p br =
    (if rstpVersion br \<and> portEnabled (port_at br p) \<and> bridgeEnabled br then
       map_option (\<lambda>b. (0, b))
         (br_state_machines_run clk
           (upd_port p (\<lambda>prt. upd_ptp 0 (\<lambda>c. c\<lparr>proposing := True\<rparr>) (prt\<lparr>mcheck := True\<rparr>)) br))
     else Some (0, br))"

subsection \<open>12.10, 12.12 VIDs, FIDs and MSTIs\<close>

definition vlan_ids :: "nat list" where
  "vlan_ids = [1..<MAX_VID + 1]"

definition vid_to_tree :: "bridge_t \<Rightarrow> nat \<Rightarrow> u16" where
  "vid_to_tree br vid = fid2mstid br (unat (vid2fid br vid))"

definition remap :: "nat \<Rightarrow> bool \<Rightarrow> bridge_t \<Rightarrow> (bool \<times> bridge_t) option" where
  "remap clk changed br =
     map_option (\<lambda>b. (True, b))
       (if changed then br_state_machines_begin clk (RecalcConfigDigest br) else Some br)"

definition MSTP_IN_set_vid2fid ::
  "nat \<Rightarrow> u16 \<Rightarrow> u16 \<Rightarrow> bridge_t \<Rightarrow> (bool \<times> bridge_t) option" where
  "MSTP_IN_set_vid2fid clk vid fid br =
    (if vid < 1 \<or> MAX_VID < unat vid \<or> MAX_FID < unat fid then Some (False, br)
     else remap clk (fid2mstid br (unat fid) \<noteq> vid_to_tree br (unat vid))
            (br\<lparr>vid2fid := (vid2fid br)(unat vid := fid)\<rparr>))"

definition MSTP_IN_set_all_vids2fids ::
  "nat \<Rightarrow> (nat \<Rightarrow> u16) \<Rightarrow> bridge_t \<Rightarrow> (bool \<times> bridge_t) option" where
  "MSTP_IN_set_all_vids2fids clk vids2fids br =
    (let keep = (\<lambda>vid. 1 \<le> vid \<and> vid \<le> MAX_VID \<and> MAX_FID < unat (vids2fids vid));
         new = (\<lambda>vid. if keep vid then vid2fid br vid else vids2fids vid);
         changed = list_ex (\<lambda>vid. \<not> keep vid
                     \<and> fid2mstid br (unat (vids2fids vid)) \<noteq> vid_to_tree br vid) vlan_ids
     in remap clk changed
          (br\<lparr>vid2fid := \<lambda>vid. if vid \<le> MAX_VID then new vid else vid2fid br vid\<rparr>))"

definition has_tree :: "bridge_t \<Rightarrow> u16 \<Rightarrow> bool" where
  "has_tree br mstid \<longleftrightarrow> list_ex (\<lambda>tree. tree_MSTID tree = mstid) (trees br)"

definition MSTP_IN_set_fid2mstid ::
  "nat \<Rightarrow> u16 \<Rightarrow> u16 \<Rightarrow> bridge_t \<Rightarrow> (bool \<times> bridge_t) option" where
  "MSTP_IN_set_fid2mstid clk fid mstid br =
    (if MAX_FID < unat fid then Some (False, br)
     else if \<not> has_tree br mstid then Some (False, br)
     else if fid2mstid br (unat fid) \<noteq> mstid then
       remap clk (list_ex (\<lambda>vid. vid2fid br vid = fid) vlan_ids)
         (br\<lparr>fid2mstid := (fid2mstid br)(unat fid := mstid)\<rparr>)
     else Some (True, br))"

definition MSTP_IN_set_all_fids2mstids ::
  "nat \<Rightarrow> (nat \<Rightarrow> u16) \<Rightarrow> bridge_t \<Rightarrow> (bool \<times> bridge_t) option" where
  "MSTP_IN_set_all_fids2mstids clk fids2mstids br =
    (let new = (\<lambda>fid. if MAX_MSTID < unat (fids2mstids fid) then fid2mstid br fid
                      else fids2mstids fid)
     in if list_ex (\<lambda>fid. \<not> has_tree br (new fid)) [0..<MAX_FID + 1] then Some (False, br)
        else
          (let br1 = br\<lparr>fid2mstid := \<lambda>fid. if fid \<le> MAX_FID then new fid else fid2mstid br fid\<rparr>
           in remap clk (list_ex (\<lambda>vid. vid_to_tree br vid \<noteq> vid_to_tree br1 vid) vlan_ids) br1))"

text \<open>At most 64 identifiers are stored, the CIST's included.\<close>

definition MSTP_IN_get_mstilist :: "bridge_t \<Rightarrow> u16 list" where
  "MSTP_IN_get_mstilist br = take (MAX_IMPLEMENTATION_MSTIS + 1) (map tree_MSTID (trees br))"

text \<open>The last tree with a smaller identifier, counting from \<open>i\<close>.\<close>

fun find_tree_after :: "u16 \<Rightarrow> tree_t list \<Rightarrow> nat \<Rightarrow> nat option \<Rightarrow> nat option" where
  "find_tree_after mstid [] i acc = acc"
| "find_tree_after mstid (tree # ts) i acc =
     find_tree_after mstid ts (Suc i) (if tree_MSTID tree < mstid then Some i else acc)"

definition insert_after :: "nat \<Rightarrow> 'a \<Rightarrow> 'a list \<Rightarrow> 'a list" where
  "insert_after i x xs = take (Suc i) xs @ x # drop (Suc i) xs"

definition add_tree :: "u16 \<Rightarrow> nat \<Rightarrow> bridge_t \<Rightarrow> bridge_t" where
  "add_tree mstid i br =
    (let tree = create_tree br (mac_address (BridgeIdentifier (tree_at br 0))) mstid
     in br\<lparr>ports := map (\<lambda>prt. port_trees_update (insert_after i (create_ptp tree prt)) prt)
                      (ports br),
           trees := insert_after i tree (trees br)\<rparr>)"

definition MSTP_IN_create_msti :: "nat \<Rightarrow> u16 \<Rightarrow> bridge_t \<Rightarrow> (bool \<times> bridge_t) option" where
  "MSTP_IN_create_msti clk mstid br =
    (if mstid < 1 \<or> MAX_MSTID < unat mstid then Some (False, br)
     else if has_tree br mstid then Some (True, br)
     else case find_tree_after mstid (trees br) 0 None of
       None \<Rightarrow> Some (False, br)
     | Some i \<Rightarrow>
         if MAX_IMPLEMENTATION_MSTIS < length (trees br) then Some (False, br)
         else map_option (\<lambda>b. (True, b))
                (tree_state_machines_begin clk (Suc i) (add_tree mstid i br)))"

fun tree_index :: "u16 \<Rightarrow> tree_t list \<Rightarrow> nat option" where
  "tree_index mstid [] = None"
| "tree_index mstid (tree # ts) =
    (if tree_MSTID tree = mstid then Some 0 else map_option Suc (tree_index mstid ts))"

definition remove_tree :: "nat \<Rightarrow> bridge_t \<Rightarrow> bridge_t" where
  "remove_tree i br =
     br\<lparr>ports := map (port_trees_update (remove_nth i)) (ports br),
        trees := remove_nth i (trees br)\<rparr>"

definition MSTP_IN_delete_msti :: "nat \<Rightarrow> u16 \<Rightarrow> bridge_t \<Rightarrow> (bool \<times> bridge_t) option" where
  "MSTP_IN_delete_msti clk mstid br =
    (if mstid < 1 \<or> MAX_MSTID < unat mstid then Some (False, br)
     else if list_ex (\<lambda>fid. fid2mstid br fid = mstid) [0..<MAX_FID + 1] then Some (False, br)
     else case tree_index mstid (trees br) of
       None \<Rightarrow> Some (True, br)
     | Some i \<Rightarrow> map_option (\<lambda>b. (True, b)) (br_state_machines_run clk (remove_tree i br)))"

definition c_string :: "nat \<Rightarrow> u8 list \<Rightarrow> u8 list" where
  "c_string n s = takeWhile (\<lambda>c. c \<noteq> 0) (take n s)"

definition MSTP_IN_set_mst_config_id ::
  "nat \<Rightarrow> u16 \<Rightarrow> u8 list \<Rightarrow> bridge_t \<Rightarrow> bridge_t option" where
  "MSTP_IN_set_mst_config_id clk revision name br =
    (let cfg = MstConfigId br;
         s = c_string 31 name
     in if c_string 32 name \<noteq> c_string 32 (configuration_name cfg)
           \<or> revision \<noteq> revision_level cfg
        then br_state_machines_begin clk
               (br\<lparr>MstConfigId := cfg\<lparr>revision_level := revision,
                   configuration_name := s @ replicate (32 - length s) 0\<rparr>\<rparr>)
        else Some br)"

end
