(* ===== verification/MSTP_RoleSafety.thy ===== *)
theory MSTP_RoleSafety
  imports MSTP_StateMachines
begin

text \<open>
  The proofs about the Port Role Transitions machine of \<^verbatim>\<open>mstp.c\<close>. Its step is shown
  to refine a decision table over one entry and what surrounds it (\<open>PRTSM_step_refines\<close>);
  on that table role and state belong together, forwarding and agreements are guarded, and the
  machine settles outside the Master role. In the Master role it need not.
\<close>

subsection \<open>The machine of one entry, given its surroundings\<close>

text \<open>
  What the decisions take from outside the entry: the synchronisation of the tree's other
  ports, the port and the bridge. \<open>prt_next\<close> is the state entered next, \<open>prt_enter\<close> what
  entering it does to the entry itself; \<open>PRTSM_step\<close> is shown to refine them, so the
  properties below are proved on the entry alone.
\<close>

record prt_env =
  e_allSynced :: bool
  e_reRooted :: bool
  e_operEdge :: bool
  e_BaInconsistent :: bool
  e_rstp :: bool
  e_sendRSTP :: bool
  e_vars :: prtsm_vars

definition prt_env_of :: "prtsm_vars \<Rightarrow> nat \<Rightarrow> nat \<Rightarrow> bridge_t \<Rightarrow> prt_env" where
  "prt_env_of v p k br =
     \<lparr>e_allSynced = allSynced p k br, e_reRooted = reRooted p k br,
      e_operEdge = operEdge (port_at br p), e_BaInconsistent = BaInconsistent (port_at br p),
      e_rstp = rstpVersion br, e_sendRSTP = sendRSTP (port_at br p), e_vars = v\<rparr>"

definition prt_ready :: "per_tree_port_t \<Rightarrow> bool" where
  "prt_ready x \<longleftrightarrow> selected x \<and> \<not> updtInfo x"

definition prt_enter :: "prt_env \<Rightarrow> PRTSM_states_t \<Rightarrow> per_tree_port_t \<Rightarrow> per_tree_port_t" where
  "prt_enter e s x0 =
    (let x = x0\<lparr>PRTSM_state := s\<rparr>; v = e_vars e in
     case s of
       PRTSM_INIT_PORT \<Rightarrow> x
     | PRTSM_DISABLE_PORT \<Rightarrow> x\<lparr>role := roleDisabled, learn := False, forward := False\<rparr>
     | PRTSM_DISABLED_PORT \<Rightarrow> x\<lparr>fdWhile := v_MaxAge v, synced := True, rrWhile := 0, sync := False,
           reRoot := False\<rparr>
     | PRTSM_MASTER_PROPOSED \<Rightarrow> x\<lparr>sync := True, proposed := False\<rparr>
     | PRTSM_MASTER_AGREED \<Rightarrow> x\<lparr>proposed := False, sync := False, agree := True\<rparr>
     | PRTSM_MASTER_SYNCED \<Rightarrow> x\<lparr>rrWhile := 0, synced := True, sync := False\<rparr>
     | PRTSM_MASTER_RETIRED \<Rightarrow> x\<lparr>reRoot := False\<rparr>
     | PRTSM_MASTER_FORWARD \<Rightarrow> x\<lparr>forward := True, fdWhile := 0, agreed := e_sendRSTP e\<rparr>
     | PRTSM_MASTER_LEARN \<Rightarrow> x\<lparr>learn := True, fdWhile := v_forwardDelay v\<rparr>
     | PRTSM_MASTER_DISCARD \<Rightarrow> x\<lparr>learn := False, forward := False, disputed := False,
           fdWhile := v_forwardDelay v\<rparr>
     | PRTSM_MASTER_PORT \<Rightarrow> x\<lparr>role := roleMaster\<rparr>
     | PRTSM_ROOT_PROPOSED \<Rightarrow> x\<lparr>sync := True, proposed := False\<rparr>
     | PRTSM_ROOT_AGREED \<Rightarrow> x\<lparr>proposed := False, sync := False, agree := True\<rparr>
     | PRTSM_ROOT_SYNCED \<Rightarrow> x\<lparr>synced := True, sync := False\<rparr>
     | PRTSM_REROOT \<Rightarrow> x\<lparr>reRoot := True\<rparr>
     | PRTSM_ROOT_FORWARD \<Rightarrow> x\<lparr>fdWhile := 0, forward := True\<rparr>
     | PRTSM_ROOT_LEARN \<Rightarrow> x\<lparr>fdWhile := v_forwardDelay v, learn := True\<rparr>
     | PRTSM_REROOTED \<Rightarrow> x\<lparr>reRoot := False\<rparr>
     | PRTSM_ROOT_PORT \<Rightarrow> x\<lparr>role := roleRoot, rrWhile := v_FwdDelay v\<rparr>
     | PRTSM_DESIGNATED_PROPOSE \<Rightarrow> x\<lparr>proposing := True\<rparr>
     | PRTSM_DESIGNATED_AGREED \<Rightarrow> x\<lparr>proposed := False, sync := False, agree := True\<rparr>
     | PRTSM_DESIGNATED_SYNCED \<Rightarrow> x\<lparr>rrWhile := 0, synced := True, sync := False\<rparr>
     | PRTSM_DESIGNATED_RETIRED \<Rightarrow> x\<lparr>reRoot := False\<rparr>
     | PRTSM_DESIGNATED_FORWARD \<Rightarrow> x\<lparr>forward := True, fdWhile := 0, agreed := e_sendRSTP e\<rparr>
     | PRTSM_DESIGNATED_LEARN \<Rightarrow> x\<lparr>learn := True, fdWhile := v_forwardDelay v\<rparr>
     | PRTSM_DESIGNATED_DISCARD \<Rightarrow> x\<lparr>learn := False, forward := False, disputed := False,
           fdWhile := v_forwardDelay v\<rparr>
     | PRTSM_DESIGNATED_PORT \<Rightarrow> x\<lparr>role := roleDesignated\<rparr>
     | PRTSM_BLOCK_PORT \<Rightarrow> x\<lparr>role := selectedRole x, learn := False, forward := False\<rparr>
     | PRTSM_BACKUP_PORT \<Rightarrow> x\<lparr>rbWhile := 2 * v_HelloTime v\<rparr>
     | PRTSM_ALTERNATE_PROPOSED \<Rightarrow> x\<lparr>sync := True, proposed := False\<rparr>
     | PRTSM_ALTERNATE_AGREED \<Rightarrow> x\<lparr>proposed := False, agree := True\<rparr>
     | PRTSM_ALTERNATE_PORT \<Rightarrow> x\<lparr>fdWhile := v_forwardDelay v, synced := True, rrWhile := 0,
           sync := False, reRoot := False\<rparr>)"

text \<open>The first state of a role, and the switch by role.\<close>

definition prt_role_entry :: "port_role_t \<Rightarrow> PRTSM_states_t" where
  "prt_role_entry r =
    (case r of roleDisabled \<Rightarrow> PRTSM_DISABLE_PORT | roleMaster \<Rightarrow> PRTSM_MASTER_PORT
     | roleRoot \<Rightarrow> PRTSM_ROOT_PORT | roleDesignated \<Rightarrow> PRTSM_DESIGNATED_PORT
     | roleAlternate \<Rightarrow> PRTSM_BLOCK_PORT | roleBackup \<Rightarrow> PRTSM_BLOCK_PORT)"

definition needs_sync :: "prt_env \<Rightarrow> per_tree_port_t \<Rightarrow> bool" where
  "needs_sync e x \<longleftrightarrow> \<not> learning x \<and> \<not> forwarding x \<and> \<not> synced x \<or> agreed x \<and> \<not> synced x
     \<or> e_operEdge e \<and> \<not> synced x \<or> sync x \<and> synced x"

definition prt_next_master :: "prt_env \<Rightarrow> per_tree_port_t \<Rightarrow> PRTSM_states_t option" where
  "prt_next_master e x =
    (if reRoot x \<and> rrWhile x = 0 then Some PRTSM_MASTER_RETIRED
     else if needs_sync e x then Some PRTSM_MASTER_SYNCED
     else if e_allSynced e \<and> \<not> agree x \<or> proposed x \<and> agree x then Some PRTSM_MASTER_AGREED
     else if proposed x \<and> \<not> agree x then Some PRTSM_MASTER_PROPOSED
     else if (fdWhile x = 0 \<or> e_allSynced e) \<and> learn x \<and> \<not> forward x then Some PRTSM_MASTER_FORWARD
     else if (fdWhile x = 0 \<or> e_allSynced e) \<and> \<not> learn x then Some PRTSM_MASTER_LEARN
     else if (sync x \<and> \<not> synced x \<or> reRoot x \<and> rrWhile x \<noteq> 0 \<or> disputed x)
             \<and> \<not> e_operEdge e \<and> (learn x \<or> forward x) then Some PRTSM_MASTER_DISCARD
     else None)"

definition root_may_pass :: "prt_env \<Rightarrow> per_tree_port_t \<Rightarrow> bool" where
  "root_may_pass e x \<longleftrightarrow> fdWhile x = 0 \<or> e_reRooted e \<and> rbWhile x = 0 \<and> e_rstp e"

definition prt_next_root :: "prt_env \<Rightarrow> per_tree_port_t \<Rightarrow> PRTSM_states_t option" where
  "prt_next_root e x =
    (if \<not> forward x \<and> \<not> reRoot x then Some PRTSM_REROOT
     else if agreed x \<and> \<not> synced x \<or> sync x \<and> synced x then Some PRTSM_ROOT_SYNCED
     else if e_allSynced e \<and> \<not> agree x \<or> proposed x \<and> agree x then Some PRTSM_ROOT_AGREED
     else if proposed x \<and> \<not> agree x then Some PRTSM_ROOT_PROPOSED
     else if root_may_pass e x \<and> \<not> learn x then Some PRTSM_ROOT_LEARN
     else if root_may_pass e x \<and> \<not> forward x then Some PRTSM_ROOT_FORWARD
     else if reRoot x \<and> forward x then Some PRTSM_REROOTED
     else if rrWhile x \<noteq> v_FwdDelay (e_vars e) then Some PRTSM_ROOT_PORT
     else None)"

definition designated_may_pass :: "prt_env \<Rightarrow> per_tree_port_t \<Rightarrow> bool" where
  "designated_may_pass e x \<longleftrightarrow> (fdWhile x = 0 \<or> agreed x \<or> e_operEdge e)
     \<and> (rrWhile x = 0 \<or> \<not> reRoot x) \<and> \<not> sync x \<and> \<not> e_BaInconsistent e"

definition prt_next_designated :: "prt_env \<Rightarrow> per_tree_port_t \<Rightarrow> PRTSM_states_t option" where
  "prt_next_designated e x =
    (if reRoot x \<and> rrWhile x = 0 then Some PRTSM_DESIGNATED_RETIRED
     else if needs_sync e x then Some PRTSM_DESIGNATED_SYNCED
     else if e_allSynced e \<and> (proposed x \<or> \<not> agree x) then Some PRTSM_DESIGNATED_AGREED
     else if \<not> forward x \<and> \<not> agreed x \<and> \<not> proposing x \<and> \<not> e_operEdge e
     then Some PRTSM_DESIGNATED_PROPOSE
     else if designated_may_pass e x \<and> \<not> learn x then Some PRTSM_DESIGNATED_LEARN
     else if designated_may_pass e x \<and> \<not> forward x then Some PRTSM_DESIGNATED_FORWARD
     else if (sync x \<and> \<not> synced x \<or> reRoot x \<and> rrWhile x \<noteq> 0 \<or> disputed x \<or> e_BaInconsistent e)
             \<and> \<not> e_operEdge e \<and> (learn x \<or> forward x) then Some PRTSM_DESIGNATED_DISCARD
     else None)"

definition prt_next_alternate :: "prt_env \<Rightarrow> per_tree_port_t \<Rightarrow> PRTSM_states_t option" where
  "prt_next_alternate e x =
    (if e_allSynced e \<and> \<not> agree x \<or> proposed x \<and> agree x then Some PRTSM_ALTERNATE_AGREED
     else if proposed x \<and> \<not> agree x then Some PRTSM_ALTERNATE_PROPOSED
     else if rbWhile x \<noteq> 2 * v_HelloTime (e_vars e) \<and> role x = roleBackup then Some PRTSM_BACKUP_PORT
     else if fdWhile x \<noteq> v_forwardDelay (e_vars e) \<or> sync x \<or> reRoot x \<or> \<not> synced x
     then Some PRTSM_ALTERNATE_PORT
     else None)"

text \<open>The states a role's entry functions lead to before the role's own state.\<close>

definition master_work :: "PRTSM_states_t list" where
  "master_work = [PRTSM_MASTER_PROPOSED, PRTSM_MASTER_AGREED, PRTSM_MASTER_SYNCED,
     PRTSM_MASTER_RETIRED, PRTSM_MASTER_FORWARD, PRTSM_MASTER_LEARN, PRTSM_MASTER_DISCARD]"

definition root_work :: "PRTSM_states_t list" where
  "root_work = [PRTSM_ROOT_PROPOSED, PRTSM_ROOT_AGREED, PRTSM_ROOT_SYNCED, PRTSM_REROOT,
     PRTSM_ROOT_FORWARD, PRTSM_ROOT_LEARN, PRTSM_REROOTED]"

definition designated_work :: "PRTSM_states_t list" where
  "designated_work = [PRTSM_DESIGNATED_PROPOSE, PRTSM_DESIGNATED_AGREED, PRTSM_DESIGNATED_SYNCED,
     PRTSM_DESIGNATED_RETIRED, PRTSM_DESIGNATED_FORWARD, PRTSM_DESIGNATED_LEARN,
     PRTSM_DESIGNATED_DISCARD]"

definition prt_next :: "prt_env \<Rightarrow> per_tree_port_t \<Rightarrow> PRTSM_states_t option" where
  "prt_next e x =
    (let s = PRTSM_state x; blocked = (prt_ready x \<and> \<not> learning x \<and> \<not> forwarding x) in
     if role x \<noteq> selectedRole x \<and> prt_ready x then Some (prt_role_entry (selectedRole x))
     else if s = PRTSM_INIT_PORT then Some PRTSM_DISABLE_PORT
     else if s = PRTSM_DISABLE_PORT then (if blocked then Some PRTSM_DISABLED_PORT else None)
     else if s = PRTSM_DISABLED_PORT then
       (if prt_ready x \<and> (sync x \<or> reRoot x \<or> \<not> synced x \<or> fdWhile x \<noteq> v_MaxAge (e_vars e))
        then Some PRTSM_DISABLED_PORT else None)
     else if s \<in> set master_work then Some PRTSM_MASTER_PORT
     else if s \<in> set root_work then Some PRTSM_ROOT_PORT
     else if s \<in> set designated_work then Some PRTSM_DESIGNATED_PORT
     else if s = PRTSM_MASTER_PORT then (if prt_ready x then prt_next_master e x else None)
     else if s = PRTSM_ROOT_PORT then (if prt_ready x then prt_next_root e x else None)
     else if s = PRTSM_DESIGNATED_PORT then (if prt_ready x then prt_next_designated e x else None)
     else if s = PRTSM_BLOCK_PORT then (if blocked then Some PRTSM_ALTERNATE_PORT else None)
     else if s = PRTSM_ALTERNATE_PORT then (if prt_ready x then prt_next_alternate e x else None)
     else Some PRTSM_ALTERNATE_PORT)"

text \<open>The entry function of each state.\<close>

definition prt_to :: "PRTSM_states_t \<Rightarrow> prtsm_vars \<Rightarrow> nat \<Rightarrow> nat \<Rightarrow> bridge_t \<Rightarrow> bridge_t" where
  "prt_to s v p k br =
    (case s of
       PRTSM_INIT_PORT \<Rightarrow> PRTSM_to_INIT_PORT p k br
     | PRTSM_DISABLE_PORT \<Rightarrow> PRTSM_to_DISABLE_PORT p k br
     | PRTSM_DISABLED_PORT \<Rightarrow> PRTSM_to_DISABLED_PORT (v_MaxAge v) p k br
     | PRTSM_MASTER_PROPOSED \<Rightarrow> PRTSM_to_MASTER_PROPOSED p k br
     | PRTSM_MASTER_AGREED \<Rightarrow> PRTSM_to_MASTER_AGREED p k br
     | PRTSM_MASTER_SYNCED \<Rightarrow> PRTSM_to_MASTER_SYNCED p k br
     | PRTSM_MASTER_RETIRED \<Rightarrow> PRTSM_to_MASTER_RETIRED p k br
     | PRTSM_MASTER_FORWARD \<Rightarrow> PRTSM_to_MASTER_FORWARD p k br
     | PRTSM_MASTER_LEARN \<Rightarrow> PRTSM_to_MASTER_LEARN (v_forwardDelay v) p k br
     | PRTSM_MASTER_DISCARD \<Rightarrow> PRTSM_to_MASTER_DISCARD (v_forwardDelay v) p k br
     | PRTSM_MASTER_PORT \<Rightarrow> PRTSM_to_MASTER_PORT p k br
     | PRTSM_ROOT_PROPOSED \<Rightarrow> PRTSM_to_ROOT_PROPOSED p k br
     | PRTSM_ROOT_AGREED \<Rightarrow> PRTSM_to_ROOT_AGREED p k br
     | PRTSM_ROOT_SYNCED \<Rightarrow> PRTSM_to_ROOT_SYNCED p k br
     | PRTSM_REROOT \<Rightarrow> PRTSM_to_REROOT p k br
     | PRTSM_ROOT_FORWARD \<Rightarrow> PRTSM_to_ROOT_FORWARD p k br
     | PRTSM_ROOT_LEARN \<Rightarrow> PRTSM_to_ROOT_LEARN (v_forwardDelay v) p k br
     | PRTSM_REROOTED \<Rightarrow> PRTSM_to_REROOTED p k br
     | PRTSM_ROOT_PORT \<Rightarrow> PRTSM_to_ROOT_PORT (v_FwdDelay v) p k br
     | PRTSM_DESIGNATED_PROPOSE \<Rightarrow> PRTSM_to_DESIGNATED_PROPOSE p k br
     | PRTSM_DESIGNATED_AGREED \<Rightarrow> PRTSM_to_DESIGNATED_AGREED p k br
     | PRTSM_DESIGNATED_SYNCED \<Rightarrow> PRTSM_to_DESIGNATED_SYNCED p k br
     | PRTSM_DESIGNATED_RETIRED \<Rightarrow> PRTSM_to_DESIGNATED_RETIRED p k br
     | PRTSM_DESIGNATED_FORWARD \<Rightarrow> PRTSM_to_DESIGNATED_FORWARD p k br
     | PRTSM_DESIGNATED_LEARN \<Rightarrow> PRTSM_to_DESIGNATED_LEARN (v_forwardDelay v) p k br
     | PRTSM_DESIGNATED_DISCARD \<Rightarrow> PRTSM_to_DESIGNATED_DISCARD (v_forwardDelay v) p k br
     | PRTSM_DESIGNATED_PORT \<Rightarrow> PRTSM_to_DESIGNATED_PORT p k br
     | PRTSM_BLOCK_PORT \<Rightarrow> PRTSM_to_BLOCK_PORT p k br
     | PRTSM_BACKUP_PORT \<Rightarrow> PRTSM_to_BACKUP_PORT (v_HelloTime v) p k br
     | PRTSM_ALTERNATE_PROPOSED \<Rightarrow> PRTSM_to_ALTERNATE_PROPOSED p k br
     | PRTSM_ALTERNATE_AGREED \<Rightarrow> PRTSM_to_ALTERNATE_AGREED p k br
     | PRTSM_ALTERNATE_PORT \<Rightarrow> PRTSM_to_ALTERNATE_PORT (v_forwardDelay v) p k br)"

lemmas PRTSM_to_defs = PRTSM_to_INIT_PORT_def PRTSM_to_DISABLE_PORT_def PRTSM_to_DISABLED_PORT_def
    PRTSM_to_MASTER_PROPOSED_def PRTSM_to_MASTER_AGREED_def PRTSM_to_MASTER_SYNCED_def
    PRTSM_to_MASTER_RETIRED_def PRTSM_to_MASTER_FORWARD_def PRTSM_to_MASTER_LEARN_def
    PRTSM_to_MASTER_DISCARD_def PRTSM_to_MASTER_PORT_def PRTSM_to_ROOT_PROPOSED_def
    PRTSM_to_ROOT_AGREED_def PRTSM_to_ROOT_SYNCED_def PRTSM_to_REROOT_def
    PRTSM_to_ROOT_FORWARD_def PRTSM_to_ROOT_LEARN_def PRTSM_to_REROOTED_def
    PRTSM_to_ROOT_PORT_def PRTSM_to_DESIGNATED_PROPOSE_def PRTSM_to_DESIGNATED_AGREED_def
    PRTSM_to_DESIGNATED_SYNCED_def PRTSM_to_DESIGNATED_RETIRED_def
    PRTSM_to_DESIGNATED_FORWARD_def PRTSM_to_DESIGNATED_LEARN_def
    PRTSM_to_DESIGNATED_DISCARD_def PRTSM_to_DESIGNATED_PORT_def PRTSM_to_BLOCK_PORT_def
    PRTSM_to_BACKUP_PORT_def PRTSM_to_ALTERNATE_PROPOSED_def PRTSM_to_ALTERNATE_AGREED_def
    PRTSM_to_ALTERNATE_PORT_def

definition prt_go :: "prtsm_vars \<Rightarrow> nat \<Rightarrow> nat \<Rightarrow> bridge_t \<Rightarrow> PRTSM_states_t option \<Rightarrow> bridge_t sm" where
  "prt_go v p k br s = (case s of None \<Rightarrow> Stay | Some s' \<Rightarrow> Enter (prt_to s' v p k br))"

lemma prt_go_simps:
  "prt_go v p k br None = Stay"
  "prt_go v p k br (Some s) = Enter (prt_to s v p k br)"
  "prt_go v p k br (if b then c else d) = (if b then prt_go v p k br c else prt_go v p k br d)"
  by (simp_all add: prt_go_def)

lemma prt_env_of_simps:
  "e_allSynced (prt_env_of v p k br) = allSynced p k br"
  "e_reRooted (prt_env_of v p k br) = reRooted p k br"
  "e_operEdge (prt_env_of v p k br) = operEdge (port_at br p)"
  "e_BaInconsistent (prt_env_of v p k br) = BaInconsistent (port_at br p)"
  "e_rstp (prt_env_of v p k br) = rstpVersion br"
  "e_sendRSTP (prt_env_of v p k br) = sendRSTP (port_at br p)"
  "e_vars (prt_env_of v p k br) = v"
  by (simp_all add: prt_env_of_def)

lemma not_ready_first: "(if \<not> a then Stay else b) = (if a then b else Stay)"
  by simp

lemmas prt_role_facts = Let_def prt_go_simps prt_env_of_simps needs_sync_def root_may_pass_def
  designated_may_pass_def prt_ready_def prt_to_def PRTSM_states_t.case not_ready_first

lemma role_switch:
  "prtsm_master_port v p k br = prt_go v p k br
     (if prt_ready (ptp_at br p k) then prt_next_master (prt_env_of v p k br) (ptp_at br p k) else None)"
  "prtsm_root_port v p k br = prt_go v p k br
     (if prt_ready (ptp_at br p k) then prt_next_root (prt_env_of v p k br) (ptp_at br p k) else None)"
  "prtsm_designated_port v p k br = prt_go v p k br
     (if prt_ready (ptp_at br p k) then prt_next_designated (prt_env_of v p k br) (ptp_at br p k) else None)"
  "prtsm_alternate_port v p k br = prt_go v p k br
     (if prt_ready (ptp_at br p k) then prt_next_alternate (prt_env_of v p k br) (ptp_at br p k) else None)"
  by (simp_all only: prtsm_master_port_def prt_next_master_def prtsm_root_port_def prt_next_root_def
      prtsm_designated_port_def prt_next_designated_def prtsm_alternate_port_def
      prt_next_alternate_def prt_role_facts)

text \<open>The step is the decision followed by the entry function of the state decided on.\<close>

lemma PRTSM_step_refines:
  "PRTSM_step v p k br = prt_go v p k br (prt_next (prt_env_of v p k br) (ptp_at br p k))"
proof (cases "role (ptp_at br p k) \<noteq> selectedRole (ptp_at br p k) \<and> prt_ready (ptp_at br p k)")
  case True
  then show ?thesis
    by (cases "selectedRole (ptp_at br p k)")
      (simp_all add: PRTSM_step_def prt_next_def prtsm_role_change_def prt_role_entry_def Let_def
        prt_go_simps prt_to_def prt_ready_def)
next
  case False
  note work = master_work_def root_work_def designated_work_def
  note top = PRTSM_step_def prt_next_def Let_def work role_switch prt_go_simps prt_to_def
    prtsm_disabled_port_def prt_env_of_simps
  have keep: "(role (ptp_at br p k) \<noteq> selectedRole (ptp_at br p k)
      \<and> selected (ptp_at br p k) \<and> \<not> updtInfo (ptp_at br p k)) = False"
    using False by (simp add: prt_ready_def)
  show ?thesis
    by (cases "PRTSM_state (ptp_at br p k)") (simp_all add: top prt_ready_def keep)
qed

subsection \<open>What an entry function does to its own entry and its port\<close>

lemma prt_to_entry:
  assumes "in_range p k br" and "s \<noteq> PRTSM_INIT_PORT"
  shows "ptp_at (prt_to s v p k br) p k = prt_enter (prt_env_of v p k br) s (ptp_at br p k)"
  using assms
  by (cases s)
    (simp_all add: prt_to_def PRTSM_to_defs prt_enter_def prt_env_of_simps in_range_def Let_def
      setSyncTree_def setReRootTree_def set_newInfoXst_def)

lemma prt_to_in_range: "in_range p k br \<Longrightarrow> in_range p k (prt_to s v p k br)"
  by (cases s)
    (simp_all add: prt_to_def PRTSM_to_defs in_range_def Let_def setSyncTree_def setReRootTree_def
      set_newInfoXst_def)

lemma upd_ptp_port_fields [simp]:
  "operEdge (upd_ptp k f prt) = operEdge prt"
  "BaInconsistent (upd_ptp k f prt) = BaInconsistent prt"
  "sendRSTP (upd_ptp k f prt) = sendRSTP prt"
  by (simp_all add: upd_ptp_def)

lemma prt_to_port_fields:
  assumes "in_range p k br"
  shows "operEdge (port_at (prt_to s v p k br) p) = operEdge (port_at br p)
    \<and> BaInconsistent (port_at (prt_to s v p k br) p) = BaInconsistent (port_at br p)
    \<and> sendRSTP (port_at (prt_to s v p k br) p) = sendRSTP (port_at br p)"
  using assms
  by (cases s)
    (simp_all add: prt_to_def PRTSM_to_defs in_range_def Let_def setSyncTree_def setReRootTree_def
      set_newInfoXst_def)

subsection \<open>Role and state belong together\<close>

text \<open>
  The role of an entry is the one its state stands for, a port that does not carry traffic in
  its role neither learns nor forwards, and forwarding implies learning.
\<close>

definition state_role :: "PRTSM_states_t \<Rightarrow> port_role_t \<Rightarrow> bool" where
  "state_role s r \<longleftrightarrow>
    (if s = PRTSM_MASTER_PORT \<or> s \<in> set master_work then r = roleMaster
     else if s = PRTSM_ROOT_PORT \<or> s \<in> set root_work then r = roleRoot
     else if s = PRTSM_DESIGNATED_PORT \<or> s \<in> set designated_work then r = roleDesignated
     else if s = PRTSM_INIT_PORT \<or> s = PRTSM_DISABLE_PORT \<or> s = PRTSM_DISABLED_PORT
     then r = roleDisabled
     else r = roleAlternate \<or> r = roleBackup)"

definition carries_traffic :: "port_role_t \<Rightarrow> bool" where
  "carries_traffic r \<longleftrightarrow> r = roleRoot \<or> r = roleDesignated \<or> r = roleMaster"

definition role_state_ok :: "per_tree_port_t \<Rightarrow> bool" where
  "role_state_ok x \<longleftrightarrow> state_role (PRTSM_state x) (role x)
     \<and> (\<not> carries_traffic (role x) \<longrightarrow> \<not> learn x \<and> \<not> forward x) \<and> (forward x \<longrightarrow> learn x)"

lemmas prt_works = master_work_def root_work_def designated_work_def

lemma prt_next_work:
  "prt_next_master e x = Some s \<Longrightarrow> s \<in> set master_work"
  "prt_next_root e x = Some s \<Longrightarrow> s \<in> set root_work \<or> s = PRTSM_ROOT_PORT"
  "prt_next_designated e x = Some s \<Longrightarrow> s \<in> set designated_work"
  "prt_next_alternate e x = Some s \<Longrightarrow> s \<in> {PRTSM_ALTERNATE_AGREED, PRTSM_ALTERNATE_PROPOSED,
     PRTSM_BACKUP_PORT, PRTSM_ALTERNATE_PORT}"
  by (auto simp: prt_next_master_def prt_next_root_def prt_next_designated_def
      prt_next_alternate_def prt_works split: if_splits)

text \<open>A decision, by the family of the state it is taken in.\<close>

lemma prt_next_cases:
  assumes "prt_next e x = Some s"
  obtains
    (change) "prt_ready x" "role x \<noteq> selectedRole x" "s = prt_role_entry (selectedRole x)"
  | (init) "PRTSM_state x = PRTSM_INIT_PORT" "s = PRTSM_DISABLE_PORT"
  | (disabled) "PRTSM_state x = PRTSM_DISABLE_PORT
       \<or> PRTSM_state x = PRTSM_DISABLED_PORT
         \<and> (sync x \<or> reRoot x \<or> \<not> synced x \<or> fdWhile x \<noteq> v_MaxAge (e_vars e))"
      "prt_ready x" "s = PRTSM_DISABLED_PORT"
  | (master_done) "PRTSM_state x \<in> set master_work" "s = PRTSM_MASTER_PORT"
  | (root_done) "PRTSM_state x \<in> set root_work" "s = PRTSM_ROOT_PORT"
  | (designated_done) "PRTSM_state x \<in> set designated_work" "s = PRTSM_DESIGNATED_PORT"
  | (master) "PRTSM_state x = PRTSM_MASTER_PORT" "prt_ready x" "role x = selectedRole x"
      "prt_next_master e x = Some s"
  | (root) "PRTSM_state x = PRTSM_ROOT_PORT" "prt_ready x" "role x = selectedRole x"
      "prt_next_root e x = Some s"
  | (designated) "PRTSM_state x = PRTSM_DESIGNATED_PORT" "prt_ready x" "role x = selectedRole x"
      "prt_next_designated e x = Some s"
  | (alternate_done) "PRTSM_state x \<in> {PRTSM_BLOCK_PORT, PRTSM_BACKUP_PORT,
        PRTSM_ALTERNATE_PROPOSED, PRTSM_ALTERNATE_AGREED}" "s = PRTSM_ALTERNATE_PORT"
  | (alternate) "PRTSM_state x = PRTSM_ALTERNATE_PORT" "prt_ready x" "role x = selectedRole x"
      "prt_next_alternate e x = Some s"
proof (cases "role x \<noteq> selectedRole x \<and> prt_ready x")
  case True
  with assms show ?thesis by (intro change) (auto simp: prt_next_def)
next
  case False
  then have keep: "(role x \<noteq> selectedRole x \<and> prt_ready x) = False" by simp
  note s = assms [unfolded prt_next_def Let_def keep if_False]
  show ?thesis
  proof (cases "PRTSM_state x \<in> set master_work \<union> set root_work \<union> set designated_work")
    case True
    with s show ?thesis
      by (auto simp: prt_works intro: master_done root_done designated_done)
  next
    case other: False
    show ?thesis
    proof (cases "PRTSM_state x \<in> {PRTSM_MASTER_PORT, PRTSM_ROOT_PORT, PRTSM_DESIGNATED_PORT}")
      case True
      with s False show ?thesis
        by (auto simp: prt_works intro: master root designated split: if_splits)
    next
      case rest: False
      with s other False show ?thesis
        by (cases "PRTSM_state x")
          (auto simp: prt_works intro: init disabled alternate_done alternate split: if_splits)
    qed
  qed
qed

lemma forward_after_learn:
  "prt_next_master e x = Some PRTSM_MASTER_FORWARD \<Longrightarrow> learn x"
  "prt_next_root e x = Some PRTSM_ROOT_FORWARD \<Longrightarrow> learn x"
  "prt_next_designated e x = Some PRTSM_DESIGNATED_FORWARD \<Longrightarrow> learn x"
  by (auto simp: prt_next_master_def prt_next_root_def prt_next_designated_def split: if_splits)

text \<open>The fields that matter, after an entry.\<close>

lemma prt_enter_fields:
  "PRTSM_state (prt_enter e s x) = s"
  "role (prt_enter e s x) =
     (if s = PRTSM_DISABLE_PORT then roleDisabled else if s = PRTSM_MASTER_PORT then roleMaster
      else if s = PRTSM_ROOT_PORT then roleRoot else if s = PRTSM_DESIGNATED_PORT then roleDesignated
      else if s = PRTSM_BLOCK_PORT then selectedRole x else role x)"
  "learn (prt_enter e s x) =
     (if s \<in> {PRTSM_DISABLE_PORT, PRTSM_MASTER_DISCARD, PRTSM_DESIGNATED_DISCARD, PRTSM_BLOCK_PORT}
      then False
      else if s \<in> {PRTSM_MASTER_LEARN, PRTSM_ROOT_LEARN, PRTSM_DESIGNATED_LEARN} then True
      else learn x)"
  "forward (prt_enter e s x) =
     (if s \<in> {PRTSM_DISABLE_PORT, PRTSM_MASTER_DISCARD, PRTSM_DESIGNATED_DISCARD, PRTSM_BLOCK_PORT}
      then False
      else if s \<in> {PRTSM_MASTER_FORWARD, PRTSM_ROOT_FORWARD, PRTSM_DESIGNATED_FORWARD} then True
      else forward x)"
  "selected (prt_enter e s x) = selected x"
  "updtInfo (prt_enter e s x) = updtInfo x"
  "selectedRole (prt_enter e s x) = selectedRole x"
  "MSTID (prt_enter e s x) = MSTID x"
  by (simp_all add: prt_enter_def Let_def split: PRTSM_states_t.split)

text \<open>A working state of a role the entry has keeps the role.\<close>

lemma role_state_ok_work:
  assumes "forward x \<longrightarrow> learn x"
    and "s \<in> set master_work \<and> role x = roleMaster \<and> (s = PRTSM_MASTER_FORWARD \<longrightarrow> learn x)
      \<or> s \<in> set root_work \<and> role x = roleRoot \<and> (s = PRTSM_ROOT_FORWARD \<longrightarrow> learn x)
      \<or> s \<in> set designated_work \<and> role x = roleDesignated
         \<and> (s = PRTSM_DESIGNATED_FORWARD \<longrightarrow> learn x)"
  shows "role_state_ok (prt_enter e s x)"
  using assms
  by (cases s) (simp_all add: role_state_ok_def prt_enter_fields state_role_def prt_works carries_traffic_def)

lemma role_state_ok_role:
  assumes "forward x \<longrightarrow> learn x"
  shows "role_state_ok (prt_enter e PRTSM_MASTER_PORT x)"
    and "role_state_ok (prt_enter e PRTSM_ROOT_PORT x)"
    and "role_state_ok (prt_enter e PRTSM_DESIGNATED_PORT x)"
    and "role_state_ok (prt_enter e PRTSM_DISABLE_PORT x)"
    and "selectedRole x = roleAlternate \<or> selectedRole x = roleBackup
      \<Longrightarrow> role_state_ok (prt_enter e PRTSM_BLOCK_PORT x)"
  using assms
  by (auto simp: role_state_ok_def prt_enter_fields state_role_def prt_works carries_traffic_def)

lemma role_state_ok_blocked:
  assumes "\<not> learn x" "\<not> forward x"
  shows "role x = roleDisabled \<Longrightarrow> role_state_ok (prt_enter e PRTSM_DISABLED_PORT x)"
    and "role x = roleAlternate \<or> role x = roleBackup \<Longrightarrow> s \<in> {PRTSM_ALTERNATE_AGREED,
      PRTSM_ALTERNATE_PROPOSED, PRTSM_BACKUP_PORT, PRTSM_ALTERNATE_PORT}
      \<Longrightarrow> role_state_ok (prt_enter e s x)"
  using assms
  by (auto simp: role_state_ok_def prt_enter_fields state_role_def prt_works carries_traffic_def)

lemma role_state_ok_enter:
  assumes ok: "role_state_ok x" and s: "prt_next e x = Some s"
  shows "role_state_ok (prt_enter e s x)"
proof -
  from ok have fl: "forward x \<longrightarrow> learn x" by (simp add: role_state_ok_def)
  show ?thesis
    using s
  proof (cases rule: prt_next_cases)
    case change
    then show ?thesis
      using role_state_ok_role [OF fl] by (cases "selectedRole x") (simp_all add: prt_role_entry_def)
  next
    case disabled
    with ok have "role x = roleDisabled"
      by (auto simp: role_state_ok_def state_role_def prt_works)
    moreover from this ok have "\<not> learn x" "\<not> forward x"
      by (simp_all add: role_state_ok_def carries_traffic_def)
    ultimately show ?thesis using disabled by (simp add: role_state_ok_blocked)
  next
    case master
    with ok have "role x = roleMaster" by (auto simp: role_state_ok_def state_role_def)
    with master show ?thesis
      using prt_next_work(1) forward_after_learn(1) by (intro role_state_ok_work [OF fl]) blast
  next
    case root
    with ok have "role x = roleRoot" by (auto simp: role_state_ok_def state_role_def prt_works)
    with root show ?thesis
      using prt_next_work(2) [OF root(4)] forward_after_learn(2) role_state_ok_role(2) [OF fl]
      by (auto intro: role_state_ok_work [OF fl])
  next
    case designated
    with ok have "role x = roleDesignated" by (auto simp: role_state_ok_def state_role_def prt_works)
    with designated show ?thesis
      using prt_next_work(3) forward_after_learn(3) by (intro role_state_ok_work [OF fl]) blast
  next
    case alternate_done
    with ok have "role x = roleAlternate \<or> role x = roleBackup"
      by (auto simp: role_state_ok_def state_role_def prt_works)
    moreover from this ok have "\<not> learn x" "\<not> forward x"
      by (auto simp: role_state_ok_def carries_traffic_def)
    ultimately show ?thesis using alternate_done by (simp add: role_state_ok_blocked)
  next
    case alternate
    with ok have "role x = roleAlternate \<or> role x = roleBackup"
      by (auto simp: role_state_ok_def state_role_def prt_works)
    moreover from this ok have "\<not> learn x" "\<not> forward x"
      by (auto simp: role_state_ok_def carries_traffic_def)
    ultimately show ?thesis
      using prt_next_work(4) [OF alternate(4)] by (intro role_state_ok_blocked(2))
  qed (use role_state_ok_role [OF fl] in simp_all)
qed

subsection \<open>Steps and runs on the bridge\<close>

lemma PRTSM_step_Enter:
  assumes "PRTSM_step v p k br = Enter t"
  obtains s where "prt_next (prt_env_of v p k br) (ptp_at br p k) = Some s" "t = prt_to s v p k br"
  using assms by (auto simp: PRTSM_step_refines prt_go_def split: option.splits)

lemma PRTSM_step_no_Last [simp]: "PRTSM_step v p k br \<noteq> Last t"
  by (simp add: PRTSM_step_refines prt_go_def split: option.split)

lemma prt_next_not_INIT: "prt_next e x = Some s \<Longrightarrow> s \<noteq> PRTSM_INIT_PORT"
  by (elim prt_next_cases)
    (auto simp: prt_role_entry_def prt_works split: port_role_t.splits dest!: prt_next_work)

lemma PRTSM_step_entry:
  assumes "in_range p k br" and "PRTSM_step v p k br = Enter t"
  obtains s where "prt_next (prt_env_of v p k br) (ptp_at br p k) = Some s" "in_range p k t"
    "ptp_at t p k = prt_enter (prt_env_of v p k br) s (ptp_at br p k)"
    "operEdge (port_at t p) = operEdge (port_at br p)"
    "BaInconsistent (port_at t p) = BaInconsistent (port_at br p)"
proof -
  from assms(2) obtain s where s: "prt_next (prt_env_of v p k br) (ptp_at br p k) = Some s"
    and t: "t = prt_to s v p k br" by (rule PRTSM_step_Enter)
  show ?thesis
    using prt_to_entry [OF assms(1) prt_next_not_INIT [OF s]] prt_to_in_range [OF assms(1)]
      prt_to_port_fields [OF assms(1)] s
    by (intro that) (simp_all add: t)
qed

text \<open>
  C6. Role and state of a port belong together, and no port forwards outside its role: from any
  state in which they agree, every run of the Port Role Transitions machine ends in one,
  and then a Disabled, Alternate or Backup port has neither \<open>learn\<close> nor \<open>forward\<close> set.
\<close>

theorem PRTSM_run_role_state_ok:
  assumes "p < length (ports br)" and "k < length (port_trees (port_at br p))"
    and "role_state_ok (ptp_at br p k)" and "PRTSM_run p k br dry = Some (r, t)"
  shows "role_state_ok (ptp_at t p k)
    \<and> (role (ptp_at t p k) \<in> {roleDisabled, roleAlternate, roleBackup} \<longrightarrow>
         \<not> learn (ptp_at t p k) \<and> \<not> forward (ptp_at t p k))"
proof -
  have "role_state_ok (ptp_at t p k)"
  proof (cases dry)
    case True
    with assms show ?thesis by (auto simp: PRTSM_run_def sm_exec_def)
  next
    case False
    with assms(4) have run: "sm_run (PRTSM_step (prtsm_vars_of (port_at br p)) p k) br = Some t"
      by (auto simp: PRTSM_run_def sm_exec_def)
    have "in_range p k t \<and> role_state_ok (ptp_at t p k)"
    proof (rule sm_run_preserves [OF run, where I = "\<lambda>b. in_range p k b \<and> role_state_ok (ptp_at b p k)"])
      show "in_range p k br \<and> role_state_ok (ptp_at br p k)"
        using assms by (simp add: in_range_def)
      fix s s'
      assume ok: "in_range p k s \<and> role_state_ok (ptp_at s p k)"
        and step: "PRTSM_step (prtsm_vars_of (port_at br p)) p k s = Enter s'"
      from ok have r: "in_range p k s" by blast
      from r step obtain u where
        u: "prt_next (prt_env_of (prtsm_vars_of (port_at br p)) p k s) (ptp_at s p k) = Some u"
          "ptp_at s' p k = prt_enter (prt_env_of (prtsm_vars_of (port_at br p)) p k s) u (ptp_at s p k)"
          "in_range p k s'"
        by (rule PRTSM_step_entry)
      from ok have "role_state_ok (ptp_at s p k)" by blast
      from role_state_ok_enter [OF this u(1)] u(2,3)
      show "in_range p k s' \<and> role_state_ok (ptp_at s' p k)" by simp
    qed simp
    then show ?thesis ..
  qed
  then show ?thesis by (auto simp: role_state_ok_def carries_traffic_def)
qed

text \<open>
  C5. What has to hold before a port may forward. One transition sets \<open>forward\<close> only on a port
  that already learns and whose selected role is valid and in effect, and: on a Root port
  only when its forward delay timer has expired or, with RSTP, all recent root ports have
  been retired and it was not recently a backup port; on a Designated port only when the
  delay has expired, its neighbour has agreed or it is an edge port, it is not asked to
  synchronise, not re-rooting, and not inconsistent with bridge assurance; on a Master port
  only when the delay has expired or the tree is synchronised.
\<close>

theorem PRTSM_forward_guard:
  assumes "p < length (ports br)" and "k < length (port_trees (port_at br p))"
    and "PRTSM_step v p k br = Enter t"
    and "\<not> forward (ptp_at br p k)" and "forward (ptp_at t p k)"
  shows "let prt = port_at br p; x = ptp_of prt k in
    learn x \<and> selected x \<and> \<not> updtInfo x \<and> role x = selectedRole x
    \<and> (PRTSM_state x = PRTSM_ROOT_PORT
         \<and> (fdWhile x = 0 \<or> reRooted p k br \<and> rbWhile x = 0 \<and> rstpVersion br)
       \<or> PRTSM_state x = PRTSM_DESIGNATED_PORT
         \<and> (fdWhile x = 0 \<or> agreed x \<or> operEdge prt) \<and> (rrWhile x = 0 \<or> \<not> reRoot x)
         \<and> \<not> sync x \<and> \<not> BaInconsistent prt
       \<or> PRTSM_state x = PRTSM_MASTER_PORT \<and> (fdWhile x = 0 \<or> allSynced p k br))"
proof -
  let ?e = "prt_env_of v p k br" and ?x = "ptp_at br p k"
  have "in_range p k br" using assms by (simp add: in_range_def)
  from this assms(3) obtain s where s: "prt_next ?e ?x = Some s"
    and entry: "ptp_at t p k = prt_enter ?e s ?x" by (rule PRTSM_step_entry)
  with assms(4,5) have fwd: "s \<in> {PRTSM_MASTER_FORWARD, PRTSM_ROOT_FORWARD, PRTSM_DESIGNATED_FORWARD}"
    by (simp add: prt_enter_fields split: if_splits)
  from s show ?thesis
  proof (cases rule: prt_next_cases)
    case change
    with fwd show ?thesis by (auto simp: prt_role_entry_def split: port_role_t.splits)
  next
    case master
    with fwd prt_next_work(1) [OF master(4)] have "s = PRTSM_MASTER_FORWARD" by (auto simp: prt_works)
    with master show ?thesis
      by (auto simp: prt_next_master_def prt_env_of_simps prt_ready_def Let_def split: if_splits)
  next
    case root
    with fwd prt_next_work(2) [OF root(4)] have "s = PRTSM_ROOT_FORWARD" by (auto simp: prt_works)
    with root show ?thesis
      by (auto simp: prt_next_root_def root_may_pass_def prt_env_of_simps prt_ready_def Let_def
          split: if_splits)
  next
    case designated
    with fwd prt_next_work(3) [OF designated(4)] have "s = PRTSM_DESIGNATED_FORWARD"
      by (auto simp: prt_works)
    with designated show ?thesis
      by (auto simp: prt_next_designated_def designated_may_pass_def prt_env_of_simps prt_ready_def
          Let_def split: if_splits)
  next
    case alternate
    with fwd prt_next_work(4) [OF alternate(4)] show ?thesis by auto
  qed (use fwd in auto)
qed

text \<open>
  An agreement is given only for a synchronised tree: one transition sets \<open>agree\<close> on a port
  only if every port of the tree has its selected role in effect and, apart from the port
  itself when it is Designated or Master and from root ports otherwise, is synchronised.
\<close>

theorem PRTSM_agree_guard:
  assumes "p < length (ports br)" and "k < length (port_trees (port_at br p))"
    and "PRTSM_step v p k br = Enter t"
    and "\<not> agree (ptp_at br p k)" and "agree (ptp_at t p k)"
  shows "\<forall>q < length (ports br). let y = ptp_at br q k in
    selected y \<and> \<not> updtInfo y \<and> role y = selectedRole y
    \<and> (if role (ptp_at br p k) = roleDesignated \<or> role (ptp_at br p k) = roleMaster
       then q \<noteq> p \<longrightarrow> synced y else role y \<noteq> roleRoot \<longrightarrow> synced y)"
proof -
  let ?e = "prt_env_of v p k br" and ?x = "ptp_at br p k"
  have "in_range p k br" using assms by (simp add: in_range_def)
  from this assms(3) obtain s where s: "prt_next ?e ?x = Some s"
    and entry: "ptp_at t p k = prt_enter ?e s ?x" by (rule PRTSM_step_entry)
  have agreed: "s \<in> {PRTSM_MASTER_AGREED, PRTSM_ROOT_AGREED, PRTSM_DESIGNATED_AGREED,
      PRTSM_ALTERNATE_AGREED}"
    using assms(4,5) entry by (cases s) (simp_all add: prt_enter_def Let_def)
  have "allSynced p k br"
    using s
  proof (cases rule: prt_next_cases)
    case change
    with agreed show ?thesis by (auto simp: prt_role_entry_def split: port_role_t.splits)
  next
    case master
    with agreed prt_next_work(1) [OF master(4)] have "s = PRTSM_MASTER_AGREED" by (auto simp: prt_works)
    with master(4) assms(4) show ?thesis
      by (auto simp: prt_next_master_def prt_env_of_simps split: if_splits)
  next
    case root
    with agreed prt_next_work(2) [OF root(4)] have "s = PRTSM_ROOT_AGREED" by (auto simp: prt_works)
    with root(4) assms(4) show ?thesis
      by (auto simp: prt_next_root_def prt_env_of_simps split: if_splits)
  next
    case designated
    with agreed prt_next_work(3) [OF designated(4)] have "s = PRTSM_DESIGNATED_AGREED"
      by (auto simp: prt_works)
    with designated(4) show ?thesis
      by (auto simp: prt_next_designated_def prt_env_of_simps split: if_splits)
  next
    case alternate
    with agreed prt_next_work(4) [OF alternate(4)] have "s = PRTSM_ALTERNATE_AGREED" by auto
    with alternate(4) assms(4) show ?thesis
      by (auto simp: prt_next_alternate_def prt_env_of_simps split: if_splits)
  qed (use agreed in auto)
  then have enough: "synced_enough p ?x q (ptp_at br q k)" if "q < length (ports br)" for q
    using that by (simp add: allSynced_def list_all_iff)
  have "let y = ptp_at br q k in selected y \<and> \<not> updtInfo y \<and> role y = selectedRole y
    \<and> (if role ?x = roleDesignated \<or> role ?x = roleMaster
       then q \<noteq> p \<longrightarrow> synced y else role y \<noteq> roleRoot \<longrightarrow> synced y)" if "q < length (ports br)" for q
    using enough [OF that] by (cases "role ?x") (auto simp: synced_enough_def Let_def)
  then show ?thesis by blast
qed

subsection \<open>Witnesses\<close>

definition ready_entry :: per_tree_port_t where
  "ready_entry = zero_ptp\<lparr>selected := True, role := roleDesignated, selectedRole := roleDesignated,
     PRTSM_state := PRTSM_DESIGNATED_PORT, synced := True\<rparr>"

definition ready_bridge :: "per_tree_port_t \<Rightarrow> bridge_t" where
  "ready_bridge x = zero_bridge\<lparr>bridgeEnabled := True,
     ports := [zero_port\<lparr>portEnabled := True, port_trees := [x]\<rparr>], trees := [zero_tree]\<rparr>"

lemma ready_bridge_shape [simp]:
  "ports (ready_bridge x) = [zero_port\<lparr>portEnabled := True, port_trees := [x]\<rparr>]"
  by (simp add: ready_bridge_def)

lemma PRTSM_run_role_state_ok_witness:
  "\<exists>r t. PRTSM_run 0 0 (ready_bridge ready_entry) False = Some (r, t) \<and> role_state_ok (ptp_at t 0 0)"
proof -
  have "(case PRTSM_run 0 0 (ready_bridge ready_entry) False of None \<Rightarrow> False | Some _ \<Rightarrow> True)"
    by code_simp
  then obtain r t where run: "PRTSM_run 0 0 (ready_bridge ready_entry) False = Some (r, t)"
    by (auto split: option.splits)
  have "role_state_ok ready_entry" by code_simp
  with PRTSM_run_role_state_ok [OF _ _ _ run] run show ?thesis by auto
qed

definition some_vars :: prtsm_vars where
  "some_vars = \<lparr>v_MaxAge = 20, v_FwdDelay = 15, v_forwardDelay = 15, v_HelloTime = 2\<rparr>"

lemma PRTSM_forward_guard_witness:
  "\<exists>t. PRTSM_step some_vars 0 0 (ready_bridge (ready_entry\<lparr>agree := True, agreed := True,
         learn := True\<rparr>)) = Enter t \<and> forward (ptp_at t 0 0)
     \<and> PRTSM_state (ptp_at (ready_bridge (ready_entry\<lparr>agree := True, agreed := True,
         learn := True\<rparr>)) 0 0) = PRTSM_DESIGNATED_PORT"
proof -
  let ?b = "ready_bridge (ready_entry\<lparr>agree := True, agreed := True, learn := True\<rparr>)"
  have "(case PRTSM_step some_vars 0 0 ?b of Enter t \<Rightarrow> forward (ptp_at t 0 0) | _ \<Rightarrow> False)"
    by code_simp
  then obtain t where t: "PRTSM_step some_vars 0 0 ?b = Enter t" "forward (ptp_at t 0 0)"
    by (auto split: sm.splits)
  from PRTSM_forward_guard [OF _ _ t(1) _ t(2)] t show ?thesis
    by (auto simp: ready_entry_def zero_ptp_def Let_def)
qed

lemma PRTSM_agree_guard_witness:
  "\<exists>t. PRTSM_step some_vars 0 0 (ready_bridge ready_entry) = Enter t \<and> agree (ptp_at t 0 0)
     \<and> selected (ptp_at (ready_bridge ready_entry) 0 0)"
proof -
  have "(case PRTSM_step some_vars 0 0 (ready_bridge ready_entry) of
           Enter t \<Rightarrow> agree (ptp_at t 0 0) | _ \<Rightarrow> False)"
    by code_simp
  then obtain t where t: "PRTSM_step some_vars 0 0 (ready_bridge ready_entry) = Enter t"
    "agree (ptp_at t 0 0)"
    by (auto split: sm.splits)
  from PRTSM_agree_guard [OF _ _ t(1) _ t(2)] t show ?thesis
    by (auto simp: ready_entry_def zero_ptp_def Let_def)
qed

subsection \<open>Termination outside the Master role\<close>

text \<open>
  The weight of an entry. Each flag a role's work clears weighs more than the work; a change of
  role weighs more than everything a role can have to do.
\<close>

abbreviation b2n :: "bool \<Rightarrow> nat" where
  "b2n b \<equiv> (if b then 1 else 0)"

definition sync_weight :: "per_tree_port_t \<Rightarrow> nat" where
  "sync_weight x = 2 * b2n (\<not> synced x) + b2n (sync x)"

definition handshake_weight :: "per_tree_port_t \<Rightarrow> nat" where
  "handshake_weight x = 4 * b2n (proposed x) + b2n (\<not> agree x)"

definition reroot_weight :: "per_tree_port_t \<Rightarrow> nat" where
  "reroot_weight x = (if \<not> forward x then (if \<not> reRoot x then 3 else 2) else b2n (reRoot x))"

definition designated_blocked :: "prt_env \<Rightarrow> per_tree_port_t \<Rightarrow> bool" where
  "designated_blocked e x \<longleftrightarrow> sync x \<or> reRoot x \<and> rrWhile x \<noteq> 0 \<or> e_BaInconsistent e"

definition pass_weight :: "prt_env \<Rightarrow> per_tree_port_t \<Rightarrow> nat" where
  "pass_weight e x =
    (if designated_blocked e x then (if learn x \<or> forward x then 4 else 3)
     else b2n (\<not> learn x) + b2n (\<not> forward x))"

definition root_weight :: "per_tree_port_t \<Rightarrow> nat" where
  "root_weight x = 3 * (sync_weight x + handshake_weight x + reroot_weight x + b2n (\<not> learn x))"

definition designated_weight :: "prt_env \<Rightarrow> per_tree_port_t \<Rightarrow> nat" where
  "designated_weight e x = 3 * (sync_weight x + handshake_weight x + b2n (\<not> proposing x)
     + b2n (reRoot x) + pass_weight e x + 3 * b2n (disputed x))"

definition alternate_weight :: "prt_env \<Rightarrow> per_tree_port_t \<Rightarrow> nat" where
  "alternate_weight e x = 4 * (handshake_weight x + b2n (rbWhile x \<noteq> 2 * v_HelloTime (e_vars e)))"

definition state_weight :: "prt_env \<Rightarrow> per_tree_port_t \<Rightarrow> nat" where
  "state_weight e x =
    (let s = PRTSM_state x in
     if s = PRTSM_INIT_PORT then 3
     else if s = PRTSM_DISABLE_PORT then 2
     else if s = PRTSM_DISABLED_PORT then
       b2n (sync x \<or> reRoot x \<or> \<not> synced x \<or> fdWhile x \<noteq> v_MaxAge (e_vars e))
     else if s = PRTSM_MASTER_PORT then 0
     else if s \<in> set master_work then 2
     else if s = PRTSM_ROOT_PORT then root_weight x + b2n (rrWhile x \<noteq> v_FwdDelay (e_vars e))
     else if s \<in> set root_work then root_weight x + 2
     else if s = PRTSM_DESIGNATED_PORT then designated_weight e x
     else if s \<in> set designated_work then designated_weight e x + 2
     else if s = PRTSM_ALTERNATE_PORT then alternate_weight e x
       + b2n (fdWhile x \<noteq> v_forwardDelay (e_vars e) \<or> sync x \<or> reRoot x \<or> \<not> synced x)
     else alternate_weight e x + 3)"

definition prt_mu :: "prt_env \<Rightarrow> per_tree_port_t \<Rightarrow> nat" where
  "prt_mu e x = 100 * b2n (role x \<noteq> selectedRole x) + state_weight e x"

lemma sync_weight_le: "sync_weight x \<le> 3"
  by (simp add: sync_weight_def)

lemma handshake_weight_le: "handshake_weight x \<le> 5"
  by (simp add: handshake_weight_def)

lemma reroot_weight_le: "reroot_weight x \<le> 3"
  by (simp add: reroot_weight_def)

lemma pass_weight_le: "pass_weight e x \<le> 4"
  by (simp add: pass_weight_def)

lemma root_weight_le: "root_weight x \<le> 36"
  using sync_weight_le [of x] handshake_weight_le [of x] reroot_weight_le [of x]
  by (simp add: root_weight_def)

lemma designated_weight_le: "designated_weight e x \<le> 51"
  using sync_weight_le [of x] handshake_weight_le [of x] pass_weight_le [of e x]
  by (simp add: designated_weight_def)

lemma alternate_weight_le: "alternate_weight e x \<le> 24"
  using handshake_weight_le [of x] by (simp add: alternate_weight_def)

lemma state_weight_bound: "state_weight e x < 100"
  using root_weight_le [of x] designated_weight_le [of e x] alternate_weight_le [of e x]
  by (simp add: state_weight_def Let_def)

text \<open>What each entry leaves alone.\<close>

lemma sync_weight_keep:
  "sync_weight (prt_enter e s x) =
     (if s \<in> {PRTSM_MASTER_PROPOSED, PRTSM_ROOT_PROPOSED, PRTSM_ALTERNATE_PROPOSED}
      then 2 * b2n (\<not> synced x) + 1
      else if s \<in> {PRTSM_MASTER_AGREED, PRTSM_ROOT_AGREED, PRTSM_DESIGNATED_AGREED}
      then 2 * b2n (\<not> synced x)
      else if s \<in> {PRTSM_DISABLED_PORT, PRTSM_MASTER_SYNCED, PRTSM_ROOT_SYNCED,
          PRTSM_DESIGNATED_SYNCED, PRTSM_ALTERNATE_PORT} then 0
      else sync_weight x)"
  by (cases s) (simp_all add: prt_enter_def sync_weight_def)

lemma handshake_weight_keep:
  "handshake_weight (prt_enter e s x) =
     (if s \<in> {PRTSM_MASTER_PROPOSED, PRTSM_ROOT_PROPOSED, PRTSM_ALTERNATE_PROPOSED}
      then b2n (\<not> agree x)
      else if s \<in> {PRTSM_MASTER_AGREED, PRTSM_ROOT_AGREED, PRTSM_DESIGNATED_AGREED,
        PRTSM_ALTERNATE_AGREED} then 0
      else handshake_weight x)"
  by (cases s) (simp_all add: prt_enter_def handshake_weight_def)

lemma reroot_weight_keep:
  "s \<in> {PRTSM_ROOT_SYNCED, PRTSM_ROOT_AGREED, PRTSM_ROOT_PROPOSED, PRTSM_ROOT_LEARN, PRTSM_ROOT_PORT} \<Longrightarrow>
     reroot_weight (prt_enter e s x) = reroot_weight x"
  by (auto simp: prt_enter_def reroot_weight_def)

lemma prt_enter_more_fields:
  "reRoot (prt_enter e s x) =
     (if s = PRTSM_REROOT then True
      else if s \<in> {PRTSM_DISABLED_PORT, PRTSM_MASTER_RETIRED, PRTSM_REROOTED,
        PRTSM_DESIGNATED_RETIRED, PRTSM_ALTERNATE_PORT} then False else reRoot x)"
  "proposing (prt_enter e s x) = (s = PRTSM_DESIGNATED_PROPOSE \<or> proposing x)"
  "disputed (prt_enter e s x) =
     (s \<notin> {PRTSM_MASTER_DISCARD, PRTSM_DESIGNATED_DISCARD} \<and> disputed x)"
  "rbWhile (prt_enter e s x) =
     (if s = PRTSM_BACKUP_PORT then 2 * v_HelloTime (e_vars e) else rbWhile x)"
  by (simp_all add: prt_enter_def Let_def split: PRTSM_states_t.split)

lemma blocked_keep:
  assumes "s \<in> {PRTSM_DESIGNATED_SYNCED, PRTSM_DESIGNATED_AGREED, PRTSM_DESIGNATED_PROPOSE,
    PRTSM_DESIGNATED_RETIRED, PRTSM_DESIGNATED_PORT}"
  shows "designated_blocked e (prt_enter e s x) \<Longrightarrow> designated_blocked e x"
  using assms
  by (elim insertE emptyE; hypsubst; simp add: prt_enter_def designated_blocked_def; blast)

lemma pass_weight_mono:
  assumes "designated_blocked e y \<Longrightarrow> designated_blocked e x" "learn y = learn x" "forward y = forward x"
  shows "pass_weight e y \<le> pass_weight e x"
  using assms
  by (cases "designated_blocked e y"; cases "designated_blocked e x"; cases "learn x"; cases "forward x")
    (simp_all add: pass_weight_def)

lemma pass_weight_keep:
  assumes "s \<in> {PRTSM_DESIGNATED_SYNCED, PRTSM_DESIGNATED_AGREED, PRTSM_DESIGNATED_PROPOSE,
    PRTSM_DESIGNATED_RETIRED, PRTSM_DESIGNATED_PORT}"
  shows "pass_weight e (prt_enter e s x) \<le> pass_weight e x"
  using blocked_keep [OF assms] assms by (intro pass_weight_mono) (auto simp: prt_enter_fields)

lemma not_blocked:
  assumes "designated_may_pass e x"
  shows "\<not> designated_blocked e x"
    and "\<not> designated_blocked e (prt_enter e PRTSM_DESIGNATED_LEARN x)"
    and "\<not> designated_blocked e (prt_enter e PRTSM_DESIGNATED_FORWARD x)"
  using assms
  by (simp_all add: prt_enter_def designated_blocked_def designated_may_pass_def) blast+

lemma pass_weight_learn:
  assumes "designated_may_pass e x"
  shows "\<not> learn x \<Longrightarrow> pass_weight e (prt_enter e PRTSM_DESIGNATED_LEARN x) + 1 \<le> pass_weight e x"
    and "\<not> forward x \<Longrightarrow> pass_weight e (prt_enter e PRTSM_DESIGNATED_FORWARD x) + 1 \<le> pass_weight e x"
  using not_blocked [OF assms] by (simp_all add: pass_weight_def prt_enter_fields)

lemma blocked_discard:
  "designated_blocked e (prt_enter e PRTSM_DESIGNATED_DISCARD x) = designated_blocked e x"
  by (simp add: prt_enter_def designated_blocked_def)

lemma pass_weight_discard:
  assumes "learn x \<or> forward x"
  shows "designated_blocked e x \<Longrightarrow>
      pass_weight e (prt_enter e PRTSM_DESIGNATED_DISCARD x) + 1 \<le> pass_weight e x"
    and "pass_weight e (prt_enter e PRTSM_DESIGNATED_DISCARD x) \<le> pass_weight e x + 2"
  using assms by (simp_all add: pass_weight_def prt_enter_fields blocked_discard)

lemmas weight_keeps = sync_weight_keep handshake_weight_keep prt_enter_more_fields prt_enter_fields

text \<open>Each piece of work takes at least one unit off its role's weight.\<close>

lemma handshake_down:
  "proposed x \<or> \<not> agree x \<Longrightarrow> 1 \<le> handshake_weight x"
  "proposed x \<Longrightarrow> \<not> agree x \<Longrightarrow> handshake_weight x = 5"
  by (auto simp: handshake_weight_def)

lemma sync_down:
  "sync x \<or> \<not> synced x \<Longrightarrow> 1 \<le> sync_weight x"
  "2 * b2n (\<not> synced x) \<le> sync_weight x"
  by (auto simp: sync_weight_def)

lemma root_work_weight:
  assumes "prt_next_root e x = Some s"
  shows "s = PRTSM_ROOT_PORT \<and> rrWhile x \<noteq> v_FwdDelay (e_vars e)
    \<or> root_weight (prt_enter e s x) + 3 \<le> root_weight x"
proof -
  note sync = sync_down [of x] and hand = handshake_down [of x]
  consider (reroot) "s = PRTSM_REROOT" "\<not> forward x" "\<not> reRoot x"
    | (synced) "s = PRTSM_ROOT_SYNCED" "sync x \<or> \<not> synced x"
    | (agreed) "s = PRTSM_ROOT_AGREED" "proposed x \<or> \<not> agree x"
    | (proposed) "s = PRTSM_ROOT_PROPOSED" "proposed x" "\<not> agree x"
    | (learn) "s = PRTSM_ROOT_LEARN" "\<not> learn x"
    | (forward) "s = PRTSM_ROOT_FORWARD" "\<not> forward x" "reRoot x"
    | (rerooted) "s = PRTSM_REROOTED" "forward x" "reRoot x"
    | (port) "s = PRTSM_ROOT_PORT" "rrWhile x \<noteq> v_FwdDelay (e_vars e)"
    using assms unfolding prt_next_root_def by (simp only: option.inject option.distinct split: if_split_asm) blast+
  then show ?thesis
  proof cases
    case reroot
    then show ?thesis by (simp add: root_weight_def weight_keeps reroot_weight_def)
  next
    case synced
    then show ?thesis using sync by (simp add: root_weight_def weight_keeps reroot_weight_keep)
  next
    case agreed
    then show ?thesis using hand sync by (simp add: root_weight_def weight_keeps reroot_weight_keep)
  next
    case proposed
    then show ?thesis using hand sync by (simp add: root_weight_def weight_keeps reroot_weight_keep)
  next
    case learn
    then show ?thesis by (simp add: root_weight_def weight_keeps reroot_weight_keep)
  next
    case forward
    then show ?thesis by (simp add: root_weight_def weight_keeps reroot_weight_def)
  next
    case rerooted
    then show ?thesis by (simp add: root_weight_def weight_keeps reroot_weight_def)
  qed simp
qed

lemma needs_sync_sync: "needs_sync e x \<Longrightarrow> sync x \<or> \<not> synced x"
  by (auto simp: needs_sync_def)

lemma blocked_or_disputed:
  "sync x \<and> \<not> synced x \<or> reRoot x \<and> rrWhile x \<noteq> 0 \<or> disputed x \<or> e_BaInconsistent e \<Longrightarrow>
     designated_blocked e x \<or> disputed x"
  by (auto simp: designated_blocked_def)

lemma designated_work_weight:
  assumes "prt_next_designated e x = Some s"
  shows "designated_weight e (prt_enter e s x) + 3 \<le> designated_weight e x"
proof -
  note sync = sync_down [of x] and hand = handshake_down [of x] and w = designated_weight_def weight_keeps
  consider (retired) "s = PRTSM_DESIGNATED_RETIRED" "reRoot x"
    | (synced) "s = PRTSM_DESIGNATED_SYNCED" "sync x \<or> \<not> synced x"
    | (agreed) "s = PRTSM_DESIGNATED_AGREED" "proposed x \<or> \<not> agree x"
    | (propose) "s = PRTSM_DESIGNATED_PROPOSE" "\<not> proposing x"
    | (learn) "s = PRTSM_DESIGNATED_LEARN" "designated_may_pass e x" "\<not> learn x"
    | (forward) "s = PRTSM_DESIGNATED_FORWARD" "designated_may_pass e x" "\<not> forward x"
    | (discard) "s = PRTSM_DESIGNATED_DISCARD" "designated_blocked e x \<or> disputed x" "learn x \<or> forward x"
    using assms needs_sync_sync [of e x] blocked_or_disputed [of x e]
    unfolding prt_next_designated_def
    by (simp only: option.inject option.distinct split: if_split_asm) simp_all
  then show ?thesis
  proof cases
    case retired
    then show ?thesis using pass_weight_keep [of s e x] by (simp add: w)
  next
    case synced
    then show ?thesis using sync pass_weight_keep [of s e x] by (simp add: w)
  next
    case agreed
    then show ?thesis using hand sync pass_weight_keep [of s e x] by (simp add: w)
  next
    case propose
    then show ?thesis using pass_weight_keep [of s e x] by (simp add: w)
  next
    case learn
    then show ?thesis using pass_weight_learn(1) [of e x] by (simp add: w)
  next
    case forward
    then show ?thesis using pass_weight_learn(2) [of e x] by (simp add: w)
  next
    case discard
    have eq: "designated_weight e (prt_enter e s x) + 3 * (3 * b2n (disputed x) + pass_weight e x)
        = designated_weight e x + 3 * pass_weight e (prt_enter e s x)"
      unfolding discard(1) designated_weight_def by (simp only: w) simp
    have "pass_weight e (prt_enter e s x) + 1 \<le> 3 * b2n (disputed x) + pass_weight e x"
    proof (cases "designated_blocked e x")
      case True
      with pass_weight_discard(1) [OF discard(3) True] show ?thesis by (simp add: discard(1))
    next
      case False
      with discard have "disputed x" by blast
      with pass_weight_discard(2) [OF discard(3), of e] show ?thesis by (simp add: discard(1))
    qed
    then have "3 * (pass_weight e (prt_enter e s x) + 1) \<le> 3 * (3 * b2n (disputed x) + pass_weight e x)"
      by (rule mult_le_mono2)
    then show ?thesis using eq by (simp only: add_mult_distrib2)
  qed
qed

lemma alternate_work_weight:
  assumes "prt_next_alternate e x = Some s"
  shows "s = PRTSM_ALTERNATE_PORT
      \<and> (fdWhile x \<noteq> v_forwardDelay (e_vars e) \<or> sync x \<or> reRoot x \<or> \<not> synced x)
    \<or> s \<noteq> PRTSM_ALTERNATE_PORT \<and> alternate_weight e (prt_enter e s x) + 4 \<le> alternate_weight e x"
proof -
  note hand = handshake_down [of x] and w = alternate_weight_def weight_keeps
  consider (agreed) "s = PRTSM_ALTERNATE_AGREED" "proposed x \<or> \<not> agree x"
    | (proposed) "s = PRTSM_ALTERNATE_PROPOSED" "proposed x" "\<not> agree x"
    | (backup) "s = PRTSM_BACKUP_PORT" "rbWhile x \<noteq> 2 * v_HelloTime (e_vars e)"
    | (port) "s = PRTSM_ALTERNATE_PORT"
        "fdWhile x \<noteq> v_forwardDelay (e_vars e) \<or> sync x \<or> reRoot x \<or> \<not> synced x"
    using assms unfolding prt_next_alternate_def
    by (simp only: option.inject option.distinct split: if_split_asm) blast+
  then show ?thesis
  proof cases
    case agreed
    then show ?thesis using hand by (simp add: w)
  next
    case proposed
    then show ?thesis using hand by (simp add: w)
  next
    case backup
    then show ?thesis by (simp add: w)
  qed simp
qed

text \<open>
  Entries of the machine that are not, and will not be, in the Master role: when the selected
  role is valid, it is not Master, and state and role agree.
\<close>

definition prt_settling :: "per_tree_port_t \<Rightarrow> bool" where
  "prt_settling x \<longleftrightarrow> role_state_ok x \<and> (prt_ready x \<longrightarrow> selectedRole x \<noteq> roleMaster)"

lemma prt_settling_enter: "prt_settling x \<Longrightarrow> prt_next e x = Some s \<Longrightarrow> prt_settling (prt_enter e s x)"
  by (simp add: prt_settling_def role_state_ok_enter prt_ready_def prt_enter_fields)

lemma same_role_mu:
  assumes "role y = role x" "selectedRole y = selectedRole x" "state_weight e y < state_weight e x"
  shows "prt_mu e y < prt_mu e x"
  using assms by (simp add: prt_mu_def)

lemma state_weight_work:
  "PRTSM_state x \<in> set root_work \<Longrightarrow> state_weight e x = root_weight x + 2"
  "PRTSM_state x \<in> set designated_work \<Longrightarrow> state_weight e x = designated_weight e x + 2"
  "PRTSM_state x \<in> set master_work \<Longrightarrow> state_weight e x = 2"
  "PRTSM_state x = PRTSM_ROOT_PORT \<Longrightarrow>
     state_weight e x = root_weight x + b2n (rrWhile x \<noteq> v_FwdDelay (e_vars e))"
  "PRTSM_state x = PRTSM_DESIGNATED_PORT \<Longrightarrow> state_weight e x = designated_weight e x"
  "PRTSM_state x = PRTSM_MASTER_PORT \<Longrightarrow> state_weight e x = 0"
  "PRTSM_state x = PRTSM_ALTERNATE_PORT \<Longrightarrow> state_weight e x = alternate_weight e x
     + b2n (fdWhile x \<noteq> v_forwardDelay (e_vars e) \<or> sync x \<or> reRoot x \<or> \<not> synced x)"
  "PRTSM_state x \<in> {PRTSM_BLOCK_PORT, PRTSM_BACKUP_PORT, PRTSM_ALTERNATE_PROPOSED,
     PRTSM_ALTERNATE_AGREED} \<Longrightarrow> state_weight e x = alternate_weight e x + 3"
  "PRTSM_state x = PRTSM_INIT_PORT \<Longrightarrow> state_weight e x = 3"
  "PRTSM_state x = PRTSM_DISABLE_PORT \<Longrightarrow> state_weight e x = 2"
  "PRTSM_state x = PRTSM_DISABLED_PORT \<Longrightarrow> state_weight e x =
     b2n (sync x \<or> reRoot x \<or> \<not> synced x \<or> fdWhile x \<noteq> v_MaxAge (e_vars e))"
  by (cases "PRTSM_state x"; simp only: state_weight_def prt_works Let_def list.set insert_iff empty_iff
      PRTSM_states_t.distinct if_True if_False simp_thms)+

lemma prt_enter_self:
  "state_weight e (prt_enter e PRTSM_DISABLED_PORT x) = 0"
  "state_weight e (prt_enter e PRTSM_ALTERNATE_PORT x) = alternate_weight e x"
  "state_weight e (prt_enter e PRTSM_ROOT_PORT x) = root_weight x"
  "state_weight e (prt_enter e PRTSM_DESIGNATED_PORT x) = designated_weight e x"
  "state_weight e (prt_enter e PRTSM_MASTER_PORT x) = 0"
  "state_weight e (prt_enter e PRTSM_DISABLE_PORT x) = 2"
  by (simp_all add: state_weight_def prt_works prt_enter_def alternate_weight_def root_weight_def
      designated_weight_def handshake_weight_def sync_weight_def reroot_weight_def pass_weight_def
      designated_blocked_def)

lemma prt_mu_decreases:
  assumes inv: "prt_settling x" and s: "prt_next e x = Some s"
  shows "prt_mu e (prt_enter e s x) < prt_mu e x"
proof -
  from inv have ok: "role_state_ok x" by (simp add: prt_settling_def)
  then have sr: "state_role (PRTSM_state x) (role x)" by (simp add: role_state_ok_def)
  note down = same_role_mu [OF _ prt_enter_fields(7)]
  from s show ?thesis
  proof (cases rule: prt_next_cases)
    case change
    then have "role (prt_enter e s x) = selectedRole x"
      by (cases "selectedRole x") (simp_all add: prt_enter_fields prt_role_entry_def)
    with change(2) state_weight_bound [of e "prt_enter e s x"] show ?thesis
      by (simp add: prt_mu_def prt_enter_fields)
  next
    case init
    with sr show ?thesis
      by (intro down) (simp_all add: prt_enter_fields state_role_def prt_works prt_enter_self state_weight_work)
  next
    case disabled
    with sr show ?thesis
      by (intro down) (auto simp: prt_enter_fields prt_enter_self state_weight_work)
  next
    case master_done
    with sr show ?thesis
      by (intro down) (simp_all add: prt_enter_fields state_role_def prt_enter_self state_weight_work)
  next
    case root_done
    with sr show ?thesis
      by (intro down) (auto simp: prt_enter_fields state_role_def prt_works prt_enter_self state_weight_work)
  next
    case designated_done
    with sr show ?thesis
      by (intro down) (auto simp: prt_enter_fields state_role_def prt_works prt_enter_self state_weight_work)
  next
    case master
    with sr inv show ?thesis by (simp add: prt_settling_def state_role_def)
  next
    case root
    with sr have role: "role x = roleRoot" by (simp add: state_role_def prt_works)
    show ?thesis
    proof (cases "s = PRTSM_ROOT_PORT")
      case True
      moreover have "root_weight (prt_enter e PRTSM_ROOT_PORT x) = root_weight x"
        by (simp add: root_weight_def weight_keeps reroot_weight_keep)
      ultimately show ?thesis
        using root root_work_weight [OF root(4)] role
        by (intro down) (auto simp: prt_enter_fields prt_enter_self state_weight_work)
    next
      case False
      then have work: "s \<in> set root_work" using prt_next_work(2) [OF root(4)] by blast
      then have "state_weight e (prt_enter e s x) = root_weight (prt_enter e s x) + 2"
        by (simp add: state_weight_work prt_enter_fields)
      moreover have "role (prt_enter e s x) = role x"
        using work by (auto simp: prt_enter_fields prt_works)
      ultimately show ?thesis
        using root root_work_weight [OF root(4)] False by (intro down) (simp_all add: state_weight_work)
    qed
  next
    case designated
    then have work: "s \<in> set designated_work" using prt_next_work(3) by blast
    then have "state_weight e (prt_enter e s x) = designated_weight e (prt_enter e s x) + 2"
      by (simp add: state_weight_work prt_enter_fields)
    moreover have "role (prt_enter e s x) = role x"
      using work by (auto simp: prt_enter_fields prt_works)
    ultimately show ?thesis
      using designated designated_work_weight [OF designated(4)]
      by (intro down) (simp_all add: state_weight_work)
  next
    case alternate_done
    then show ?thesis
      by (intro down) (simp_all add: prt_enter_fields prt_enter_self state_weight_work)
  next
    case alternate
    have role: "role (prt_enter e s x) = role x"
      using prt_next_work(4) [OF alternate(4)] by (auto simp: prt_enter_fields)
    show ?thesis
    proof (cases "s = PRTSM_ALTERNATE_PORT")
      case True
      with alternate alternate_work_weight [OF alternate(4)] role show ?thesis
        by (intro down) (auto simp: prt_enter_self state_weight_work)
    next
      case False
      then have "s \<in> {PRTSM_BLOCK_PORT, PRTSM_BACKUP_PORT, PRTSM_ALTERNATE_PROPOSED,
          PRTSM_ALTERNATE_AGREED}"
        using prt_next_work(4) [OF alternate(4)] by blast
      then have "state_weight e (prt_enter e s x) = alternate_weight e (prt_enter e s x) + 3"
        by (simp add: state_weight_work prt_enter_fields)
      with alternate alternate_work_weight [OF alternate(4)] False role show ?thesis
        by (intro down) (simp_all add: state_weight_work)
    qed
  qed
qed

subsection \<open>The machine settles\<close>

text \<open>
  The step of one entry with the variables computed before the run. The measure reads only
  those and the bridge assurance flag of the port, which no entry function touches.
\<close>

definition PRTSM_inv :: "bool \<Rightarrow> nat \<Rightarrow> nat \<Rightarrow> bridge_t \<Rightarrow> bool" where
  "PRTSM_inv ba p k br \<longleftrightarrow> in_range p k br \<and> prt_settling (ptp_at br p k)
     \<and> BaInconsistent (port_at br p) = ba"

definition PRTSM_mu :: "prtsm_vars \<Rightarrow> nat \<Rightarrow> nat \<Rightarrow> bridge_t \<Rightarrow> nat" where
  "PRTSM_mu v p k br = prt_mu (prt_env_of v p k br) (ptp_at br p k)"

lemma prt_mu_env:
  assumes "e_vars d = e_vars e" "e_BaInconsistent d = e_BaInconsistent e"
  shows "prt_mu d x = prt_mu e x"
proof -
  have "designated_weight d x = designated_weight e x" "alternate_weight d x = alternate_weight e x"
    using assms by (simp_all only: designated_weight_def alternate_weight_def pass_weight_def
        designated_blocked_def)
  then show ?thesis by (simp only: prt_mu_def state_weight_def assms)
qed

interpretation prtsm: sm_quiescent "PRTSM_step v p k" "PRTSM_inv ba p k" "PRTSM_mu v p k"
  for v ba p k
proof
  fix s t
  assume inv: "PRTSM_inv ba p k s" and step: "PRTSM_step v p k s = Enter t"
  let ?e = "prt_env_of v p k s" and ?x = "ptp_at s p k"
  from inv have r: "in_range p k s" and x: "prt_settling ?x" by (simp_all add: PRTSM_inv_def)
  from r step obtain u where u: "prt_next ?e ?x = Some u" "in_range p k t"
    "ptp_at t p k = prt_enter ?e u ?x" "BaInconsistent (port_at t p) = BaInconsistent (port_at s p)"
    by (rule PRTSM_step_entry)
  show "PRTSM_inv ba p k t"
    using inv u prt_settling_enter [OF x u(1)] by (simp add: PRTSM_inv_def)
  have "prt_mu (prt_env_of v p k t) (ptp_at t p k) = prt_mu ?e (prt_enter ?e u ?x)"
    unfolding u(3) by (rule prt_mu_env) (simp_all add: prt_env_of_simps u(4))
  with prt_mu_decreases [OF x u(1)] show "PRTSM_mu v p k t < PRTSM_mu v p k s"
    by (simp add: PRTSM_mu_def)
qed simp_all

text \<open>
  C14. Outside the Master role the Port Role Transitions machine settles: if role and state of an
  entry belong together and its valid selected role is not Master, the machine's run on it
  returns, and ends where no transition of it can be taken.
\<close>

theorem PRTSM_run_settles:
  assumes "p < length (ports br)" and "k < length (port_trees (port_at br p))"
    and "role_state_ok (ptp_at br p k)"
    and "selected (ptp_at br p k) \<and> \<not> updtInfo (ptp_at br p k) \<Longrightarrow>
      selectedRole (ptp_at br p k) \<noteq> roleMaster"
  shows "\<exists>t. PRTSM_run p k br False = Some (False, t)
    \<and> PRTSM_step (prtsm_vars_of (port_at br p)) p k t = Stay"
proof -
  have "PRTSM_inv (BaInconsistent (port_at br p)) p k br"
    using assms by (simp add: PRTSM_inv_def in_range_def prt_settling_def prt_ready_def)
  then show ?thesis
    using prtsm.run_returns prtsm.run_quiescent by (fastforce simp: PRTSM_run_def sm_exec_def)
qed

lemma PRTSM_run_settles_witness:
  "\<exists>t. PRTSM_run 0 0 (ready_bridge ready_entry) False = Some (False, t)
    \<and> PRTSM_step (prtsm_vars_of (port_at (ready_bridge ready_entry) 0)) 0 0 t = Stay"
proof (rule PRTSM_run_settles)
  show "role_state_ok (ptp_at (ready_bridge ready_entry) 0 0)" by code_simp
qed (simp_all add: ready_entry_def)

subsection \<open>The Master role\<close>

text \<open>The same tree, as far as its synchronisation is concerned.\<close>

lemma synced_enough_cong:
  assumes "role x = role x'" "selected y = selected y'" "updtInfo y = updtInfo y'"
    "synced y = synced y'" "role y = role y'" "selectedRole y = selectedRole y'"
  shows "synced_enough p x q y = synced_enough p x' q y'"
  by (simp only: synced_enough_def assms)

lemma allSynced_upd:
  assumes "p < length (ports br)" "k < length (port_trees (port_at br p))"
    and "selected (f (ptp_at br p k)) = selected (ptp_at br p k)"
    and "updtInfo (f (ptp_at br p k)) = updtInfo (ptp_at br p k)"
    and "synced (f (ptp_at br p k)) = synced (ptp_at br p k)"
    and "role (f (ptp_at br p k)) = role (ptp_at br p k)"
    and "selectedRole (f (ptp_at br p k)) = selectedRole (ptp_at br p k)"
  shows "allSynced p k (upd_ptp_at p k f br) = allSynced p k br"
proof -
  have "synced_enough p (ptp_at (upd_ptp_at p k f br) p k) q (ptp_at (upd_ptp_at p k f br) q k)
      = synced_enough p (ptp_at br p k) q (ptp_at br q k)" for q
  proof (cases "q = p")
    case True
    then show ?thesis using assms by (simp, intro synced_enough_cong) simp_all
  next
    case False
    then show ?thesis using assms by (simp, intro synced_enough_cong) simp_all
  qed
  then show ?thesis by (simp add: allSynced_def)
qed

definition master_pending :: "nat \<Rightarrow> nat \<Rightarrow> bridge_t \<Rightarrow> bool" where
  "master_pending p k br \<longleftrightarrow>
    (let prt = port_at br p; x = ptp_of prt k in
     in_range p k br \<and> allSynced p k br \<and> \<not> operEdge prt \<and> selected x \<and> \<not> updtInfo x
     \<and> role x = roleMaster \<and> selectedRole x = roleMaster \<and> synced x \<and> \<not> sync x
     \<and> agree x \<and> \<not> proposed x \<and> reRoot x \<and> rrWhile x \<noteq> 0)"

definition master_loop :: "PRTSM_states_t list" where
  "master_loop = [PRTSM_MASTER_PORT, PRTSM_MASTER_LEARN, PRTSM_MASTER_FORWARD, PRTSM_MASTER_DISCARD]"

lemma master_next:
  assumes "master_pending p k br" and "PRTSM_state (ptp_at br p k) \<in> set master_loop"
  obtains s where "prt_next (prt_env_of v p k br) (ptp_at br p k) = Some s" "s \<in> set master_loop"
proof (cases "PRTSM_state (ptp_at br p k) = PRTSM_MASTER_PORT")
  case True
  have "\<exists>s \<in> set master_loop. prt_next_master (prt_env_of v p k br) (ptp_at br p k) = Some s"
    using assms(1)
    by (simp add: master_pending_def prt_next_master_def prt_env_of_simps needs_sync_def
        master_loop_def Let_def)
  with True assms(1) that show ?thesis
    by (auto simp: prt_next_def master_pending_def prt_ready_def prt_works Let_def)
next
  case False
  with assms that [of PRTSM_MASTER_PORT] show ?thesis
    by (auto simp: prt_next_def master_pending_def prt_works master_loop_def Let_def)
qed

lemma master_pending_to:
  assumes inv: "master_pending p k br" and s: "s \<in> set master_loop"
  shows "master_pending p k (prt_to s v p k br)"
proof -
  from inv have r: "in_range p k br" by (simp add: master_pending_def Let_def)
  have all: "allSynced p k (prt_to s v p k br) = allSynced p k br"
    using s r inv
    by (auto simp: master_loop_def prt_to_def PRTSM_to_defs in_range_def master_pending_def Let_def
        allSynced_upd)
  have entry: "ptp_at (prt_to s v p k br) p k = prt_enter (prt_env_of v p k br) s (ptp_at br p k)"
    using s by (intro prt_to_entry [OF r]) (auto simp: master_loop_def)
  show ?thesis
    using inv s prt_to_in_range [OF r] prt_to_port_fields [OF r, of s v]
    unfolding master_pending_def Let_def all entry
    by (auto simp: prt_enter_def master_loop_def)
qed

text \<open>
  In the Master role it need not. The port's entry is synchronised and agreed, not proposed, and the
  whole tree is \<open>allSynced\<close>, the port is not an edge port, and it is asked to re-root while its own
  recent root timer still runs: then the run never returns. Nothing is left to do but
  to learn, forward and discard, each of which makes the next one due, and the machine calls
  itself after each; no timer counts down meanwhile.
\<close>

theorem PRTSM_run_master_diverges:
  assumes "p < length (ports br)" and "k < length (port_trees (port_at br p))"
    and "allSynced p k br" and "\<not> operEdge (port_at br p)"
    and "x = ptp_at br p k"
    and "PRTSM_state x = PRTSM_MASTER_PORT" and "role x = roleMaster" and "selectedRole x = roleMaster"
    and "selected x" and "\<not> updtInfo x" and "synced x" and "\<not> sync x" and "agree x"
    and "\<not> proposed x" and "reRoot x" and "rrWhile x \<noteq> 0"
  shows "PRTSM_run p k br False = None"
proof -
  let ?v = "prtsm_vars_of (port_at br p)"
  have "sm_run (PRTSM_step ?v p k) br = None"
  proof (rule sm_run_diverges
      [where P = "\<lambda>b. master_pending p k b \<and> PRTSM_state (ptp_at b p k) \<in> set master_loop"])
    show "master_pending p k br \<and> PRTSM_state (ptp_at br p k) \<in> set master_loop"
      using assms by (simp add: master_pending_def master_loop_def in_range_def Let_def)
    fix b
    assume b: "master_pending p k b \<and> PRTSM_state (ptp_at b p k) \<in> set master_loop"
    then obtain s where s: "prt_next (prt_env_of ?v p k b) (ptp_at b p k) = Some s" "s \<in> set master_loop"
      using master_next by blast
    from b have "in_range p k b" by (simp add: master_pending_def Let_def)
    then have "PRTSM_state (ptp_at (prt_to s ?v p k b) p k) = s"
      using prt_next_not_INIT [OF s(1)] by (simp add: prt_to_entry prt_enter_fields)
    with b s show "\<exists>t. PRTSM_step ?v p k b = Enter t
        \<and> master_pending p k t \<and> PRTSM_state (ptp_at t p k) \<in> set master_loop"
      by (simp add: PRTSM_step_refines prt_go_simps master_pending_to)
  qed
  then show ?thesis by (simp add: PRTSM_run_def sm_exec_def)
qed

definition master_entry :: per_tree_port_t where
  "master_entry = zero_ptp\<lparr>selected := True, role := roleMaster, selectedRole := roleMaster,
     PRTSM_state := PRTSM_MASTER_PORT, synced := True, agree := True, reRoot := True, rrWhile := 15\<rparr>"

lemma PRTSM_run_master_diverges_witness:
  "PRTSM_run 0 0 (ready_bridge master_entry) False = None"
proof (rule PRTSM_run_master_diverges [where x = master_entry])
  show "allSynced 0 0 (ready_bridge master_entry)" by code_simp
  show "\<not> operEdge (port_at (ready_bridge master_entry) 0)" by code_simp
  show "\<not> updtInfo master_entry" "\<not> sync master_entry" "\<not> proposed master_entry" by code_simp+
qed (simp_all add: master_entry_def)

end
