(* ===== verification/MSTP_Frame.thy ===== *)
theory MSTP_Frame
  imports MSTP_Config MSTP_RoleSafety
begin

section \<open>What the state machines never touch\<close>

text \<open>
  The shape of a bridge: the identifiers of the trees, the trees every port has an entry for,
  and all configuration (everything but the ports and trees themselves). No procedure, timer
  or machine changes it, so neither does any run of \<open>br_state_machines_run\<close>; only the
  management operations do, and those keep the bridge well formed.
\<close>

subsection \<open>Ports\<close>

definition port_shape :: "port_t \<Rightarrow> u16 list" where
  "port_shape prt = map MSTID (port_trees prt)"

lemma map_upd_nth_cong [simp]:
  "(\<And>x. g (f x) = g x) \<Longrightarrow> map g (upd_nth k f xs) = map g xs"
  by (rule map_upd_nth_same)

lemma map_MSTID_map [simp]: "(\<And>x. MSTID (f x) = MSTID x) \<Longrightarrow> map MSTID (map f xs) = map MSTID xs"
  by simp

lemma map_MSTID_after [simp]:
  "(\<And>x. MSTID (f x) = MSTID x) \<Longrightarrow>
     map MSTID (take n xs @ map f (drop n xs)) = map MSTID xs"
  by (metis (mono_tags, lifting) append_take_drop_id map_append map_map map_cong comp_apply)

lemma port_shape_upd [simp]:
  "(\<And>x. MSTID (f x) = MSTID x) \<Longrightarrow> port_shape (upd_ptp k f prt) = port_shape prt"
  "(\<And>x. MSTID (f x) = MSTID x) \<Longrightarrow> port_shape (map_ptps f prt) = port_shape prt"
  "(\<And>x. MSTID (f x) = MSTID x) \<Longrightarrow> port_shape (map_ptps_after k f prt) = port_shape prt"
  using map_MSTID_after [of f "Suc k" "port_trees prt"]
  by (simp_all add: port_shape_def o_def)

lemma port_shape_eqI: "port_trees q = port_trees prt \<Longrightarrow> port_shape q = port_shape prt"
  by (simp add: port_shape_def)

lemma port_shape_update [simp]:
  "port_shape (port_number_update g1 prt) = port_shape prt"
  "port_shape (mdelayWhile_update g2 prt) = port_shape prt"
  "port_shape (helloWhen_update g3 prt) = port_shape prt"
  "port_shape (edgeDelayWhile_update g4 prt) = port_shape prt"
  "port_shape (txCount_update g5 prt) = port_shape prt"
  "port_shape (operEdge_update g6 prt) = port_shape prt"
  "port_shape (portEnabled_update g7 prt) = port_shape prt"
  "port_shape (infoInternal_update g8 prt) = port_shape prt"
  "port_shape (rcvdInternal_update g9 prt) = port_shape prt"
  "port_shape (mcheck_update g10 prt) = port_shape prt"
  "port_shape (rcvdBpdu_update g11 prt) = port_shape prt"
  "port_shape (rcvdRSTP_update g12 prt) = port_shape prt"
  "port_shape (rcvdSTP_update g13 prt) = port_shape prt"
  "port_shape (rcvdTcAck_update g14 prt) = port_shape prt"
  "port_shape (rcvdTcn_update g15 prt) = port_shape prt"
  "port_shape (sendRSTP_update g16 prt) = port_shape prt"
  "port_shape (tcAck_update g17 prt) = port_shape prt"
  "port_shape (newInfo_update g18 prt) = port_shape prt"
  "port_shape (newInfoMsti_update g19 prt) = port_shape prt"
  "port_shape (operPointToPointMAC_update g20 prt) = port_shape prt"
  "port_shape (restrictedRole_update g21 prt) = port_shape prt"
  "port_shape (restrictedTcn_update g22 prt) = port_shape prt"
  "port_shape (ExternalPortPathCost_update g23 prt) = port_shape prt"
  "port_shape (AdminExternalPortPathCost_update g24 prt) = port_shape prt"
  "port_shape (AdminP2P_update g25 prt) = port_shape prt"
  "port_shape (AdminEdgePort_update g26 prt) = port_shape prt"
  "port_shape (AutoEdge_update g27 prt) = port_shape prt"
  "port_shape (BpduGuardPort_update g28 prt) = port_shape prt"
  "port_shape (BpduGuardError_update g29 prt) = port_shape prt"
  "port_shape (NetworkPort_update g30 prt) = port_shape prt"
  "port_shape (BaInconsistent_update g31 prt) = port_shape prt"
  "port_shape (dontTxmtBpdu_update g32 prt) = port_shape prt"
  "port_shape (bpduFilterPort_update g33 prt) = port_shape prt"
  "port_shape (rapidAgeingWhile_update g34 prt) = port_shape prt"
  "port_shape (brAssuRcvdInfoWhile_update g35 prt) = port_shape prt"
  "port_shape (PRSM_state_update g36 prt) = port_shape prt"
  "port_shape (PPMSM_state_update g37 prt) = port_shape prt"
  "port_shape (BDSM_state_update g38 prt) = port_shape prt"
  "port_shape (PTSM_state_update g39 prt) = port_shape prt"
  "port_shape (rcvdBpduData_update g40 prt) = port_shape prt"
  "port_shape (rcvdBpduNumOfMstis_update g41 prt) = port_shape prt"
  "port_shape (deleted_update g42 prt) = port_shape prt"
  "port_shape (port_name_update g43 prt) = port_shape prt"
  "port_shape (port_speed_update g44 prt) = port_shape prt"
  "port_shape (port_duplex_update g45 prt) = port_shape prt"
  "port_shape (num_rx_bpdu_filtered_update g46 prt) = port_shape prt"
  "port_shape (num_rx_bpdu_update g47 prt) = port_shape prt"
  "port_shape (num_rx_tcn_update g48 prt) = port_shape prt"
  "port_shape (num_tx_bpdu_update g49 prt) = port_shape prt"
  "port_shape (num_tx_tcn_update g50 prt) = port_shape prt"
  "port_shape (num_trans_fwd_update g51 prt) = port_shape prt"
  "port_shape (num_trans_blk_update g52 prt) = port_shape prt"
  "port_shape (outs_update g53 prt) = port_shape prt"
  by (simp_all add: port_shape_def)

text \<open>The procedures and entry functions on one port.\<close>

lemma port_shape_state [simp]:
  "port_shape (set_newInfoXst m prt) = port_shape prt"
  "port_shape (emit ev prt) = port_shape prt"
  "port_shape (MSTP_OUT_set_state k s prt) = port_shape prt"
  "port_shape (MSTP_OUT_flush_all_fids k prt) = port_shape prt"
  "port_shape (MSTP_OUT_set_ageing_time a prt) = port_shape prt"
  "port_shape (MSTP_OUT_tx_bpdu b n prt) = port_shape prt"
  "port_shape (MSTP_OUT_shutdown_port prt) = port_shape prt"
  by (simp_all add: set_newInfoXst_def emit_def MSTP_OUT_set_state_def MSTP_OUT_flush_all_fids_def
      MSTP_OUT_set_ageing_time_def MSTP_OUT_tx_bpdu_def MSTP_OUT_shutdown_port_def Let_def
      split: br_state_t.split)

lemma port_shape_procedures [simp]:
  "port_shape (clearAllRcvdMsgs prt) = port_shape prt"
  "port_shape (snd (rcvInfo br k prt)) = port_shape prt"
  "port_shape (recordAgreement br k prt) = port_shape prt"
  "port_shape (recordDispute k prt) = port_shape prt"
  "port_shape (recordMastered k prt) = port_shape prt"
  "port_shape (recordPriority k prt) = port_shape prt"
  "port_shape (recordProposal k prt) = port_shape prt"
  "port_shape (recordTimes k prt) = port_shape prt"
  "port_shape (set_fdbFlush br k prt) = port_shape prt"
  "port_shape (setRcvdMsgs prt) = port_shape prt"
  "port_shape (setTcFlags k prt) = port_shape prt"
  "port_shape (updtBPDUVersion prt) = port_shape prt"
  "port_shape (updtRcvdInfoWhile k prt) = port_shape prt"
  "port_shape (updtbrAssuRcvdInfoWhile prt) = port_shape prt"
  "port_shape (reselectMSTIs prt) = port_shape prt"
  by (simp_all add: clearAllRcvdMsgs_def rcvInfo_def recordAgreement_def recordDispute_def
      recordMastered_def recordPriority_def recordProposal_def recordTimes_def set_fdbFlush_def
      setRcvdMsgs_def setTcFlags_def updtBPDUVersion_def updtRcvdInfoWhile_def
      updtbrAssuRcvdInfoWhile_def reselectMSTIs_def read_cist_msg_def read_msti_msg_def Let_def
      split: option.split)

lemma port_shape_transmit [simp]:
  "port_shape (txConfig prt) = port_shape prt"
  "port_shape (txTcn prt) = port_shape prt"
  "port_shape (txMstp br prt) = port_shape prt"
  by (simp_all add: txConfig_def txTcn_def txMstp_def)

lemma port_shape_port_machines [simp]:
  "port_shape (PRSM_to_DISCARD br prt) = port_shape prt"
  "port_shape (PRSM_to_RECEIVE br prt) = port_shape prt"
  "port_shape (PPMSM_to_CHECKING_RSTP br prt) = port_shape prt"
  "port_shape (PPMSM_to_SELECTING_STP br prt) = port_shape prt"
  "port_shape (PPMSM_to_SENSING prt) = port_shape prt"
  "port_shape (BDSM_begin prt) = port_shape prt"
  "port_shape (BDSM_to_EDGE prt) = port_shape prt"
  "port_shape (BDSM_to_NOT_EDGE prt) = port_shape prt"
  "port_shape (PTSM_to_TRANSMIT_INIT prt) = port_shape prt"
  "port_shape (PTSM_to_TRANSMIT_CONFIG prt) = port_shape prt"
  "port_shape (PTSM_to_TRANSMIT_TCN prt) = port_shape prt"
  "port_shape (PTSM_to_TRANSMIT_RSTP br prt) = port_shape prt"
  "port_shape (PTSM_to_TRANSMIT_PERIODIC prt) = port_shape prt"
  "port_shape (PTSM_to_IDLE prt) = port_shape prt"
  by (simp_all add: PRSM_to_DISCARD_def PRSM_to_RECEIVE_def PPMSM_to_CHECKING_RSTP_def
      PPMSM_to_SELECTING_STP_def PPMSM_to_SENSING_def BDSM_begin_def BDSM_to_EDGE_def
      BDSM_to_NOT_EDGE_def PTSM_to_TRANSMIT_INIT_def PTSM_to_TRANSMIT_CONFIG_def
      PTSM_to_TRANSMIT_TCN_def PTSM_to_TRANSMIT_RSTP_def PTSM_to_TRANSMIT_PERIODIC_def
      PTSM_to_IDLE_def Let_def)

lemma port_shape_PISM [simp]:
  "port_shape (PISM_to_DISABLED k prt) = port_shape prt"
  "port_shape (PISM_to_AGED k prt) = port_shape prt"
  "port_shape (PISM_to_UPDATE k prt) = port_shape prt"
  "port_shape (PISM_to_SUPERIOR_DESIGNATED br k prt) = port_shape prt"
  "port_shape (PISM_to_REPEATED_DESIGNATED br k prt) = port_shape prt"
  "port_shape (PISM_to_INFERIOR_DESIGNATED k prt) = port_shape prt"
  "port_shape (PISM_to_NOT_DESIGNATED br k prt) = port_shape prt"
  "port_shape (PISM_to_OTHER k prt) = port_shape prt"
  "port_shape (PISM_to_CURRENT k prt) = port_shape prt"
  "port_shape (PISM_to_RECEIVE br k prt) = port_shape prt"
  by (simp_all add: PISM_to_DISABLED_def PISM_to_AGED_def PISM_to_UPDATE_def
      PISM_to_SUPERIOR_DESIGNATED_def PISM_to_REPEATED_DESIGNATED_def
      PISM_to_INFERIOR_DESIGNATED_def PISM_to_NOT_DESIGNATED_def PISM_to_OTHER_def
      PISM_to_CURRENT_def PISM_to_RECEIVE_def Let_def case_prod_beta)

lemma port_shape_PSTSM [simp]:
  "port_shape (set_port_state k s prt) = port_shape prt"
  "port_shape (PSTSM_to_DISCARDING k prt) = port_shape prt"
  "port_shape (PSTSM_to_LEARNING k prt) = port_shape prt"
  "port_shape (PSTSM_to_FORWARDING k prt) = port_shape prt"
  by (simp_all add: set_port_state_def PSTSM_to_DISCARDING_def PSTSM_to_LEARNING_def
      PSTSM_to_FORWARDING_def)

subsection \<open>The bridge\<close>

definition frame :: "bridge_t \<Rightarrow> u16 list list \<times> u16 list \<times> bridge_t" where
  "frame br = (map port_shape (ports br), map tree_MSTID (trees br), br\<lparr>ports := [], trees := []\<rparr>)"

lemma frame_upd_port [simp]:
  "(\<And>x. port_shape (f x) = port_shape x) \<Longrightarrow> frame (upd_port p f br) = frame br"
  by (simp add: frame_def upd_port_def)

lemma frame_put_port:
  assumes "port_shape q = port_shape (port_at br p)"
  shows "frame (upd_port p (\<lambda>_. q) br) = frame br"
proof -
  have "map port_shape (upd_nth p (\<lambda>_. q) (ports br)) = map port_shape (ports br)"
    using assms by (cases "p < length (ports br)")
      (simp_all add: upd_nth_def map_update list_update_same_conv list_update_beyond)
  then show ?thesis by (simp add: frame_def upd_port_def)
qed

lemma frame_upd_tree [simp]:
  "(\<And>t. tree_MSTID (f t) = tree_MSTID t) \<Longrightarrow> frame (upd_tree k f br) = frame br"
  by (simp add: frame_def upd_tree_def)

lemma frame_map_ports [simp]:
  "(\<And>x. port_shape (f x) = port_shape x) \<Longrightarrow> frame (ports_update (map f) br) = frame br"
  by (simp add: frame_def o_def)

lemma frame_map_trees [simp]:
  "(\<And>t. tree_MSTID (f t) = tree_MSTID t) \<Longrightarrow> frame (trees_update (map f) br) = frame br"
  by (simp add: frame_def o_def)

lemma frame_map_tree_ptps [simp]:
  "(\<And>x. MSTID (f x) = MSTID x) \<Longrightarrow> frame (map_tree_ptps k f br) = frame br"
  by (simp add: map_tree_ptps_def)

lemma frame_procedures [simp]:
  "frame (set_TopologyChange k h p br) = frame br"
  "frame (clearReselectTree k br) = frame br"
  "frame (newTcWhile p k br) = frame br"
  "frame (setReRootTree k br) = frame br"
  "frame (setSelectedTree k br) = frame br"
  "frame (setSyncTree k br) = frame br"
  "frame (setTcPropTree p k br) = frame br"
  "frame (syncMaster br) = frame br"
  "frame (updtRolesDisabledTree k br) = frame br"
  by (simp_all add: set_TopologyChange_def clearReselectTree_def newTcWhile_def setReRootTree_def
      setSelectedTree_def setSyncTree_def setTcPropTree_def syncMaster_def updtRolesDisabledTree_def
      Let_def)

lemma port_shape_select_role [simp]: "port_shape (select_role tree k r i prt) = port_shape prt"
  by (simp add: select_role_def boundary_role_def received_role_def Let_def)

lemma frame_select_roles [simp]: "frame (select_roles k r br) = frame br"
proof -
  have "map port_shape (ports (select_roles k r br)) = map port_shape (ports br)"
    by (rule nth_equalityI) (simp_all add: select_roles_def)
  then show ?thesis by (simp add: frame_def select_roles_def)
qed

lemma frame_updtRolesTree [simp]: "frame (updtRolesTree k br) = frame br"
  by (simp add: updtRolesTree_def set_designated_def Let_def split: prod.split)

lemma frame_PRSSM [simp]:
  "frame (PRSSM_to_INIT_TREE k br) = frame br"
  "frame (PRSSM_to_ROLE_SELECTION k br) = frame br"
  by (simp_all add: PRSSM_to_INIT_TREE_def PRSSM_to_ROLE_SELECTION_def)

subsection \<open>The machines\<close>

text \<open>A machine none of whose entry functions changes what \<open>obs\<close> observes of the state.\<close>

locale framed_machine =
  fixes step :: "'s \<Rightarrow> 's sm"
    and obs :: "'s \<Rightarrow> 'a"
  assumes obs_Enter: "step s = Enter t \<Longrightarrow> obs t = obs s"
    and obs_Last: "step s = Last t \<Longrightarrow> obs t = obs s"
begin

lemma run_obs: "sm_run step s = Some t \<Longrightarrow> obs t = obs s"
  by (erule sm_run_preserves [where I = "\<lambda>u. obs u = obs s"]) (auto dest: obs_Enter obs_Last)

lemma exec_obs: "sm_exec step d s dry = Some (r, t) \<Longrightarrow> obs t = obs s"
  by (auto simp: sm_exec_def run_obs split: if_splits)

end

interpretation ppmsm_frame: framed_machine "PPMSM_step br" port_shape for br
  by standard (auto simp: PPMSM_step_def split: PPMSM_states_t.splits if_splits)

interpretation bdsm_frame: framed_machine BDSM_step port_shape
  by standard (auto simp: BDSM_step_def split: BDSM_states_t.splits if_splits)

interpretation ptsm_frame: framed_machine "PTSM_step br" port_shape for br
  by standard (auto simp: PTSM_step_def PTSM_idle_step_def Let_def split: if_splits)

interpretation pism_frame: framed_machine "PISM_step br k" port_shape for br k
  by standard (auto simp: PISM_step_def Let_def split: PISM_states_t.splits port_info_t.splits if_splits)

interpretation pstsm_frame: framed_machine "PSTSM_step k" port_shape for k
  by standard (auto simp: PSTSM_step_def Let_def split: PSTSM_states_t.splits if_splits)

interpretation prssm_frame: framed_machine "PRSSM_step k" frame for k
  by standard (auto simp: PRSSM_step_def split: PRSSM_states_t.splits if_splits)

lemma frame_prt_to [simp]: "frame (prt_to s v p k br) = frame br"
  by (cases s) (simp_all add: prt_to_def PRTSM_to_defs Let_def)

interpretation prtsm_frame: framed_machine "PRTSM_step v p k" frame for v p k
  by standard (auto elim: PRTSM_step_Enter)

lemma frame_TCSM [simp]:
  "frame (TCSM_to_INACTIVE p k br) = frame br"
  "frame (TCSM_to_LEARNING p k br) = frame br"
  "frame (TCSM_to_DETECTED p k br) = frame br"
  "frame (TCSM_to_NOTIFIED_TCN p k br) = frame br"
  "frame (TCSM_to_NOTIFIED_TC p k br) = frame br"
  "frame (TCSM_to_PROPAGATING p k br) = frame br"
  "frame (TCSM_to_ACKNOWLEDGED p k br) = frame br"
  "frame (TCSM_to_ACTIVE p k br) = frame br"
  by (simp_all add: TCSM_to_INACTIVE_def TCSM_to_LEARNING_def TCSM_to_DETECTED_def
      TCSM_to_NOTIFIED_TCN_def TCSM_to_NOTIFIED_TC_def TCSM_to_PROPAGATING_def
      TCSM_to_ACKNOWLEDGED_def TCSM_to_ACTIVE_def Let_def)

interpretation tcsm_frame: framed_machine "TCSM_step p k" frame for p k
  by standard (auto simp: TCSM_step_def Let_def split: TCSM_states_t.splits if_splits)

subsection \<open>Runs over the bridge\<close>

definition keeps_frame :: "bridge_run \<Rightarrow> bool" where
  "keeps_frame m \<longleftrightarrow> (\<forall>br dry r t. m br dry = Some (r, t) \<longrightarrow> frame t = frame br)"

lemma keeps_frameI: "(\<And>br dry r t. m br dry = Some (r, t) \<Longrightarrow> frame t = frame br) \<Longrightarrow> keeps_frame m"
  by (simp add: keeps_frame_def)

lemma keeps_frameD: "keeps_frame m \<Longrightarrow> m br dry = Some (r, t) \<Longrightarrow> frame t = frame br"
  by (simp add: keeps_frame_def)

lemma run_each_frame:
  assumes "\<And>x. x \<in> set xs \<Longrightarrow> keeps_frame (f x)" and "run_each f xs br dry = Some (r, t)"
  shows "frame t = frame br"
  using assms
proof (induction xs arbitrary: br)
  case (Cons x xs)
  from Cons.prems(2) obtain r1 br1 where x: "f x br dry = Some (r1, br1)"
    and rest: "(r1 \<and> dry \<and> t = br1) \<or> run_each f xs br1 dry = Some (r, t)"
    by (auto split: option.splits prod.splits if_splits)
  have "frame br1 = frame br" using Cons.prems(1) x by (auto dest: keeps_frameD)
  with rest Cons.IH [OF Cons.prems(1)] show ?case by auto
qed simp

lemma each_frame:
  "(\<And>p. keeps_frame (f p)) \<Longrightarrow> keeps_frame (each_port f)"
  "(\<And>k. keeps_frame (h k)) \<Longrightarrow> keeps_frame (each_tree h)"
  "(\<And>p k. keeps_frame (g p k)) \<Longrightarrow> keeps_frame (each_ptp g)"
proof -
  show port: "keeps_frame (each_port f)" if "\<And>p. keeps_frame (f p)" for f
    by (rule keeps_frameI, unfold each_port_def, rule run_each_frame [OF that])
  show "keeps_frame (each_tree h)" if "\<And>k. keeps_frame (h k)"
    by (rule keeps_frameI, unfold each_tree_def, rule run_each_frame [OF that])
  assume g: "\<And>p k. keeps_frame (g p k)"
  have "keeps_frame (\<lambda>br dry. run_each (g p) [0..<length (port_trees (port_at br p))] br dry)" for p
    by (rule keeps_frameI, rule run_each_frame [OF g])
  from keeps_frameD [OF port, OF this] show "keeps_frame (each_ptp g)"
    by (intro keeps_frameI) (simp only: each_ptp_def)
qed

lemma on_port_frame [intro]:
  assumes "\<And>br prt dry r q. f br prt dry = Some (r, q) \<Longrightarrow> port_shape q = port_shape prt"
  shows "keeps_frame (on_port f p)"
  by (rule keeps_frameI) (auto simp: on_port_def intro!: frame_put_port dest: assms)

lemma machine_frames:
  "keeps_frame (on_port BA_check p)"
  "keeps_frame (on_port (\<lambda>br prt dry. Some (PRSM_run br prt dry)) p)"
  "keeps_frame (on_port PPMSM_run p)"
  "keeps_frame (on_port (\<lambda>br. BDSM_run) p)"
  "keeps_frame (on_port PTSM_run p)"
  "keeps_frame (on_port (\<lambda>br. PISM_run br k) p)"
  "keeps_frame (PRSSM_run k)"
  "keeps_frame (PRTSM_run p k)"
  "keeps_frame (on_port (\<lambda>br. PSTSM_run k) p)"
  "keeps_frame (TCSM_run p k)"
proof -
  show "keeps_frame (on_port BA_check p)"
    by (rule on_port_frame) (auto simp: BA_check_def split: if_splits)
  show "keeps_frame (on_port (\<lambda>br prt dry. Some (PRSM_run br prt dry)) p)"
    by (rule on_port_frame) (auto simp: PRSM_run_def Let_def split: if_splits PRSM_states_t.splits)
  show "keeps_frame (on_port PPMSM_run p)"
    by (rule on_port_frame) (auto simp: PPMSM_run_def dest: ppmsm_frame.exec_obs)
  show "keeps_frame (on_port (\<lambda>br. BDSM_run) p)"
    by (rule on_port_frame) (auto simp: BDSM_run_def dest: bdsm_frame.exec_obs)
  show "keeps_frame (on_port PTSM_run p)"
    by (rule on_port_frame) (auto simp: PTSM_run_def dest: ptsm_frame.exec_obs split: if_splits)
  show "keeps_frame (on_port (\<lambda>br. PISM_run br k) p)"
    by (rule on_port_frame) (auto simp: PISM_run_def dest: pism_frame.exec_obs)
  show "keeps_frame (PRSSM_run k)"
    by (rule keeps_frameI) (auto simp: PRSSM_run_def dest: prssm_frame.exec_obs)
  show "keeps_frame (PRTSM_run p k)"
    by (rule keeps_frameI) (auto simp: PRTSM_run_def Let_def dest: prtsm_frame.exec_obs)
  show "keeps_frame (on_port (\<lambda>br. PSTSM_run k) p)"
    by (rule on_port_frame) (auto simp: PSTSM_run_def dest: pstsm_frame.exec_obs)
  show "keeps_frame (TCSM_run p k)"
    by (rule keeps_frameI) (auto simp: TCSM_run_def Let_def dest: tcsm_frame.exec_obs split: if_splits)
qed

lemma pass_frame: "keeps_frame br_state_machines_pass"
proof (rule keeps_frameI)
  fix br dry r t
  assume run: "br_state_machines_pass br dry = Some (r, t)"
  have "keeps_frame m" if "m \<in> set all_machines" for m
    using that by (auto simp: all_machines_def intro!: each_frame machine_frames)
  from run_each_frame [OF this] run show "frame t = frame br"
    by (simp add: br_state_machines_pass_def)
qed

lemma loop_frame: "br_state_machines_loop clk br = Some t \<Longrightarrow> frame t = frame br"
proof (induction clk arbitrary: br)
  case 0
  then show ?case
    by (auto simp: br_state_machines_loop.simps [of 0 br] dest!: keeps_frameD [OF pass_frame]
        split: option.splits prod.splits if_splits)
next
  case (Suc n)
  then show ?case
    by (auto simp: br_state_machines_loop.simps [of "Suc n" br] dest!: keeps_frameD [OF pass_frame] Suc.IH
        split: option.splits prod.splits if_splits)
qed

lemma run_frame: "br_state_machines_run clk br = Some t \<Longrightarrow> frame t = frame br"
  by (auto simp: br_state_machines_run_def loop_frame split: if_splits)

lemma fold_frame: "(\<And>x b. frame (f x b) = frame b) \<Longrightarrow> frame (fold f xs br) = frame br"
  by (induction xs arbitrary: br) simp_all

lemma for_frame [simp]:
  "(\<And>p b. frame (f p b) = frame b) \<Longrightarrow> frame (for_ports f br) = frame br"
  "(\<And>k b. frame (f k b) = frame b) \<Longrightarrow> frame (for_trees f br) = frame br"
  "(\<And>p k b. frame (g p k b) = frame b) \<Longrightarrow> frame (for_ptps g p br) = frame br"
  by (simp_all add: for_ports_def for_trees_def for_ptps_def fold_frame)

lemma begin_frame [simp]:
  "frame (PRSM_begin p br) = frame br"
  "frame (PPMSM_begin p br) = frame br"
  "frame (PTSM_begin p br) = frame br"
  "frame (PISM_begin p k br) = frame br"
  "frame (PSTSM_begin p k br) = frame br"
  "frame (PRTSM_to_INIT_PORT p k br) = frame br"
  "frame (PRSSM_run_actual k br) = frame br"
  "frame (PTSM_tick p br) = frame br"
proof -
  show "frame (PRTSM_to_INIT_PORT p k br) = frame br"
    using frame_prt_to [of PRTSM_INIT_PORT undefined p k br] by (simp add: prt_to_def)
  show "frame (PRSSM_run_actual k br) = frame br"
    by (auto simp: PRSSM_run_actual_def split: sm.split dest: prssm_frame.obs_Enter prssm_frame.obs_Last)
  show "frame (PTSM_tick p br) = frame br"
    by (simp add: PTSM_tick_def PTSM_tick_tree_def PTSM_tick_ptp_def Let_def)
qed (simp_all add: PRSM_begin_def PPMSM_begin_def PTSM_begin_def PISM_begin_def PSTSM_begin_def)

lemma begins_frame:
  "br_state_machines_begin clk br = Some t \<Longrightarrow> frame t = frame br"
  "prt_state_machines_begin clk p br = Some t \<Longrightarrow> frame t = frame br"
  "tree_state_machines_begin clk k br = Some t \<Longrightarrow> frame t = frame br"
  by (auto simp: br_state_machines_begin_def prt_state_machines_begin_def
      tree_state_machines_begin_def dest!: run_frame split: if_splits)

end
