(* ===== verification/MSTP_Invariant.thy ===== *)
theory MSTP_Invariant
  imports MSTP_Frame
begin

section \<open>The invariant of a bridge\<close>

text \<open>
  What holds of every bridge the daemon can have: however the entry points of
  \<^verbatim>\<open>mstp.c\<close> have been called since \<open>MSTP_IN_bridge_create\<close>, the trees are in strict order
  of their identifiers with the CIST first, every port has exactly one entry per tree in that
  order, VIDs map to FIDs and FIDs to existing trees, and the parameters are in their ranges.
\<close>

subsection \<open>Definition\<close>

definition tree_ids :: "bridge_t \<Rightarrow> u16 list" where
  "tree_ids br = map tree_MSTID (trees br)"

definition shape_ok :: "bridge_t \<Rightarrow> bool" where
  "shape_ok br \<longleftrightarrow> sorted_wrt (<) (tree_ids br) \<and> tree_ids br \<noteq> [] \<and> hd (tree_ids br) = 0
     \<and> length (tree_ids br) \<le> MAX_IMPLEMENTATION_MSTIS + 1
     \<and> (\<forall>prt \<in> set (ports br). port_shape prt = tree_ids br)"

definition maps_ok :: "bridge_t \<Rightarrow> bool" where
  "maps_ok br \<longleftrightarrow> (\<forall>fid \<le> MAX_FID. fid2mstid br fid \<in> set (tree_ids br))
     \<and> (\<forall>vid. 1 \<le> vid \<and> vid \<le> MAX_VID \<longrightarrow> unat (vid2fid br vid) \<le> MAX_FID)"

definition params_ok :: "bridge_t \<Rightarrow> bool" where
  "params_ok br \<longleftrightarrow> 6 \<le> br_Max_Age br \<and> br_Max_Age br \<le> 40
     \<and> 4 \<le> br_Forward_Delay br \<and> br_Forward_Delay br \<le> 30
     \<and> uint (br_Max_Age br) \<le> 2 * (uint (br_Forward_Delay br) - 1)
     \<and> ForceProtocolVersion br \<in> {protoSTP, protoRSTP, protoMSTP}
     \<and> 1 \<le> Transmit_Hold_Count br \<and> Transmit_Hold_Count br \<le> 10
     \<and> 6 \<le> MaxHops br \<and> MaxHops br \<le> 40 \<and> 1 \<le> br_Hello_Time br \<and> br_Hello_Time br \<le> 10
     \<and> 10 \<le> Ageing_Time br \<and> Ageing_Time br \<le> 1000000 \<and> Migrate_Time br = 3"

definition bridge_ok :: "bridge_t \<Rightarrow> bool" where
  "bridge_ok br \<longleftrightarrow> shape_ok br \<and> maps_ok br \<and> params_ok br"

subsection \<open>It is a property of the frame\<close>

lemma frame_fields:
  assumes "frame t = frame br"
  shows "tree_ids t = tree_ids br" "map port_shape (ports t) = map port_shape (ports br)"
    and "t\<lparr>ports := [], trees := []\<rparr> = br\<lparr>ports := [], trees := []\<rparr>"
  using assms by (simp_all add: frame_def tree_ids_def)

lemma same_config:
  assumes "t\<lparr>ports := [], trees := []\<rparr> = br\<lparr>ports := [], trees := []\<rparr>"
  shows "fid2mstid t = fid2mstid br" "vid2fid t = vid2fid br" "params_ok t = params_ok br"
    "bridgeEnabled t = bridgeEnabled br" "MstConfigId t = MstConfigId br"
proof -
  have eq: "f (t\<lparr>ports := [], trees := []\<rparr>) = f (br\<lparr>ports := [], trees := []\<rparr>)" for f :: "bridge_t \<Rightarrow> 'a"
    using assms by simp
  show "fid2mstid t = fid2mstid br" "vid2fid t = vid2fid br" "bridgeEnabled t = bridgeEnabled br"
    "MstConfigId t = MstConfigId br"
    using eq [of fid2mstid] eq [of vid2fid] eq [of bridgeEnabled] eq [of MstConfigId] by simp_all
  show "params_ok t = params_ok br"
    using eq [of params_ok] by (simp add: params_ok_def)
qed

lemma all_shapes: "(\<forall>prt \<in> set ps. port_shape prt = s) \<longleftrightarrow> set (map port_shape ps) \<subseteq> {s}"
  by auto

lemma bridge_ok_frame:
  assumes "frame t = frame br"
  shows "bridge_ok t = bridge_ok br"
  using frame_fields [OF assms] same_config [OF frame_fields(3) [OF assms]]
  by (simp only: bridge_ok_def shape_ok_def maps_ok_def all_shapes)

subsection \<open>Creation\<close>

lemma params_created: "params_ok (MSTP_IN_bridge_create mac)"
  by (simp add: params_ok_def MSTP_IN_bridge_create_def RecalcConfigDigest_def Let_def)

lemma tree_MSTID_create_tree [simp]: "tree_MSTID (create_tree br mac m) = m"
  by (simp add: create_tree_def tree_default_internal_vars_def set_BridgePriority_def)

lemma bridge_ok_created: "bridge_ok (MSTP_IN_bridge_create mac)"
proof -
  have "tree_ids (MSTP_IN_bridge_create mac) = [0]"
    by (simp add: tree_ids_def MSTP_IN_bridge_create_def Let_def)
  then show ?thesis
    by (simp add: bridge_ok_def params_created shape_ok_def maps_ok_def)
      (simp add: MSTP_IN_bridge_create_def RecalcConfigDigest_def Let_def)
qed

subsection \<open>Ports\<close>

lemma bridge_ok_ports:
  assumes "bridge_ok br" and "\<forall>prt \<in> set (f (ports br)). port_shape prt = tree_ids br"
  shows "bridge_ok (ports_update f br)"
  using assms by (simp add: bridge_ok_def shape_ok_def maps_ok_def params_ok_def tree_ids_def)

lemma bridge_ok_shapes: "bridge_ok br \<Longrightarrow> prt \<in> set (ports br) \<Longrightarrow> port_shape prt = tree_ids br"
  by (simp add: bridge_ok_def shape_ok_def)

lemma bridge_ok_no_ports: "bridge_ok br \<Longrightarrow> tree_ids br \<noteq> []"
  by (simp add: bridge_ok_def shape_ok_def)

lemma MSTID_create_ptp [simp]: "MSTID (create_ptp tree prt) = tree_MSTID tree"
  by (simp add: create_ptp_def ptp_default_internal_vars_def)

lemma port_shape_create:
  "port_shape (prt\<lparr>port_trees := map (\<lambda>tree. create_ptp tree q) ts\<rparr>) = map tree_MSTID ts"
  by (simp add: port_shape_def)

lemma port_create_ok:
  assumes "bridge_ok br" and "MSTP_IN_port_create_and_add_tail clk prt n br = Some t"
  shows "bridge_ok t"
proof -
  from assms(2) obtain q where
    q: "prt_state_machines_begin clk (length (ports br)) (br\<lparr>ports := ports br @ [q]\<rparr>) = Some t"
    and shape: "port_shape q = tree_ids br"
    unfolding MSTP_IN_port_create_and_add_tail_def Let_def
    by (rule that) (simp only: port_shape_create tree_ids_def)
  have "\<forall>x \<in> set (ports br @ [q]). port_shape x = tree_ids br"
    using bridge_ok_shapes [OF assms(1)] shape by auto
  then have "bridge_ok (br\<lparr>ports := ports br @ [q]\<rparr>)"
    by (rule bridge_ok_ports [where f = "\<lambda>_. ports br @ [q]", OF assms(1)])
  then show ?thesis by (simp only: bridge_ok_frame [OF begins_frame(2) [OF q]])
qed

lemma bridge_ok_upd_port:
  assumes "\<And>x. port_shape (f x) = port_shape x"
  shows "bridge_ok (upd_port p f br) = bridge_ok br"
  by (rule bridge_ok_frame) (simp add: assms)

lemma set_remove_nth: "set (remove_nth i xs) \<subseteq> set xs"
  by (auto simp: remove_nth_def dest: in_set_takeD in_set_dropD)

lemma run_ok: "br_state_machines_run clk br = Some t \<Longrightarrow> bridge_ok br \<Longrightarrow> bridge_ok t"
  using bridge_ok_frame [OF run_frame] by blast

lemma begin_ok: "br_state_machines_begin clk br = Some t \<Longrightarrow> bridge_ok br \<Longrightarrow> bridge_ok t"
  using bridge_ok_frame [OF begins_frame(1)] by blast

lemma delete_port_ok:
  assumes "bridge_ok br" and "MSTP_IN_delete_port clk clk' p br = Some t"
  shows "bridge_ok t"
proof -
  let ?br1 = "upd_port p (\<lambda>prt. prt\<lparr>deleted := True\<rparr>) br"
  from assms(2) obtain br2 where br2: "(if portEnabled (port_at ?br1 p)
      then br_state_machines_run clk (upd_port p (\<lambda>prt. prt\<lparr>portEnabled := False\<rparr>) ?br1)
      else Some ?br1) = Some br2"
    and t: "br_state_machines_run clk' (ports_update (remove_nth p) br2) = Some t"
    by (auto simp: MSTP_IN_delete_port_def Let_def split: bind_splits)
  have ok1: "bridge_ok ?br1" and ok1': "bridge_ok (upd_port p (\<lambda>prt. prt\<lparr>portEnabled := False\<rparr>) ?br1)"
    using assms(1) by (simp_all add: bridge_ok_upd_port)
  with br2 have ok2: "bridge_ok br2"
    by (cases "portEnabled (port_at ?br1 p)") (auto dest: run_ok)
  have "bridge_ok (ports_update (remove_nth p) br2)"
    using bridge_ok_shapes [OF ok2]
    by (intro bridge_ok_ports [OF ok2]) (auto dest!: set_remove_nth [THEN subsetD])
  with t show ?thesis by (rule run_ok)
qed

lemma tree_ids_set_BridgePriority [simp]: "tree_MSTID (set_BridgePriority i tree) = tree_MSTID tree"
  by (simp add: set_BridgePriority_def)

lemma set_bridge_address_ok:
  assumes "bridge_ok br" and "MSTP_IN_set_bridge_address clk mac br = Some t"
  shows "bridge_ok t"
proof -
  let ?same = "\<lambda>tree. mac_address (BridgeIdentifier tree) = mac"
  let ?upd = "\<lambda>tree. if ?same tree then tree
    else set_BridgePriority (BridgeId (priority (BridgeIdentifier tree)) mac) tree"
  have "bridge_ok (trees_update (map ?upd) br) = bridge_ok br"
    by (rule bridge_ok_frame) simp
  with assms show ?thesis
    by (auto simp: MSTP_IN_set_bridge_address_def Let_def elim: begin_ok split: if_splits)
qed

lemma port_shape_reset_port: "port_shape (reset_port a prt) = port_shape prt"
proof -
  have "port_shape (fold (\<lambda>k q. upd_ptp k ptp_default_internal_vars
      (if state (ptp_of q k) \<noteq> BR_STATE_DISABLED then MSTP_OUT_set_state k BR_STATE_DISABLED q else q)) ks q)
    = port_shape q" for ks q
    by (induction ks arbitrary: q) (simp_all add: ptp_default_internal_vars_def)
  then show ?thesis by (simp add: reset_port_def port_default_internal_vars_def Let_def)
qed

lemma set_bridge_enable_ok:
  assumes "bridge_ok br" and "MSTP_IN_set_bridge_enable clk up br = Some t"
  shows "bridge_ok t"
proof -
  have "tree_MSTID \<circ> tree_default_internal_vars = tree_MSTID"
    by (simp add: fun_eq_iff tree_default_internal_vars_def)
  moreover have "port_shape prt = map tree_MSTID (trees br)" if "prt \<in> set (ports br)" for prt
    using bridge_ok_shapes [OF assms(1) that] by (simp add: tree_ids_def)
  ultimately have "bridge_ok (br\<lparr>bridgeEnabled := up, uptime := 0,
      trees := map tree_default_internal_vars (trees br),
      ports := map (reset_port (Ageing_Time br)) (ports br)\<rparr>)"
    using assms(1)
    by (simp add: bridge_ok_def shape_ok_def maps_ok_def params_ok_def tree_ids_def
        port_shape_reset_port)
  from begin_ok [OF _ this] assms show ?thesis
    by (cases "bridgeEnabled br = up") (simp_all add: MSTP_IN_set_bridge_enable_def)
qed

lemma bridge_ok_put_port:
  assumes "port_shape q = port_shape (port_at br p)"
  shows "bridge_ok (upd_port p (\<lambda>_. q) br) = bridge_ok br"
  by (rule bridge_ok_frame [OF frame_put_port [OF assms]])

lemma port_shape_set_port_up: "port_shape (snd (set_port_up sp dx prt)) = port_shape prt"
  by (simp add: set_port_up_def port_comes_up_def Let_def)

lemma set_port_enable_ok:
  assumes "bridge_ok br" and "MSTP_IN_set_port_enable clk p up sp dx br = Some t"
  shows "bridge_ok t"
proof -
  let ?r = "if up then set_port_up sp dx (port_at br p)
    else (portEnabled (port_at br p), (port_at br p)\<lparr>portEnabled := False\<rparr>)"
  have "port_shape (snd ?r) = port_shape (port_at br p)"
    by (simp add: port_shape_set_port_up)
  then have ok: "bridge_ok (upd_port p (\<lambda>_. snd ?r) br)"
    using assms(1) by (simp only: bridge_ok_put_port)
  have "(if fst ?r then br_state_machines_run clk (upd_port p (\<lambda>_. snd ?r) br)
      else Some (upd_port p (\<lambda>_. snd ?r) br)) = Some t"
    using assms(2) unfolding MSTP_IN_set_port_enable_def Let_def case_prod_beta .
  with ok show ?thesis by (cases "fst ?r") (auto dest: run_ok)
qed

subsection \<open>Timers and frames\<close>

lemma bridge_ok_uptime: "bridge_ok (br\<lparr>uptime := n\<rparr>) = bridge_ok br"
  by (simp add: bridge_ok_def shape_ok_def maps_ok_def params_ok_def tree_ids_def)

lemma one_second_ok:
  assumes "bridge_ok br" and "MSTP_IN_one_second clk br = Some t"
  shows "bridge_ok t"
proof (cases "bridgeEnabled br")
  case True
  let ?br1 = "br\<lparr>uptime := uptime br + 1\<rparr>"
  let ?tree = "\<lambda>tree. if \<not> topology_change tree
    then tree\<lparr>time_since_topology_change := time_since_topology_change tree + 1\<rparr> else tree"
  let ?br2 = "trees_update (map ?tree) ?br1"
  let ?br3 = "for_ports (\<lambda>p b. upd_port p (rapid_ageing_tick (Ageing_Time b)) (PTSM_tick p b)) ?br2"
  from True assms(2) have run: "br_state_machines_run clk ?br3 = Some t"
    by (simp add: MSTP_IN_one_second_def Let_def)
  have "port_shape (rapid_ageing_tick a prt) = port_shape prt" for a prt
    by (simp add: rapid_ageing_tick_def Let_def)
  then have "frame ?br3 = frame ?br2" by simp
  also have "\<dots> = frame ?br1" by simp
  finally have "bridge_ok ?br3 = bridge_ok ?br1" by (rule bridge_ok_frame)
  with run_ok [OF run] assms(1) show ?thesis by (simp only: bridge_ok_uptime)
next
  case False
  with assms show ?thesis by (auto simp: MSTP_IN_one_second_def Let_def bridge_ok_uptime)
qed

lemma all_fids_flushed_ok:
  assumes "bridge_ok br" and "MSTP_IN_all_fids_flushed clk p k br = Some t"
  shows "bridge_ok t"
proof -
  let ?br1 = "upd_ptp_at p k (\<lambda>x. x\<lparr>fdbFlush := False\<rparr>) br"
  have ok: "bridge_ok ?br1" using assms(1) by (simp add: bridge_ok_upd_port)
  show ?thesis
  proof (cases "bridgeEnabled ?br1 \<and> \<not> calledFromFlushRoutine (ptp_at ?br1 p k)")
    case True
    with assms(2) obtain r br2 where tc: "TCSM_run p k ?br1 False = Some (r, br2)"
      and run: "br_state_machines_run clk br2 = Some t"
      by (auto simp: MSTP_IN_all_fids_flushed_def Let_def split: bind_splits)
    from bridge_ok_frame [OF keeps_frameD [OF machine_frames(10) tc]] ok have "bridge_ok br2" by simp
    with run show ?thesis by (rule run_ok)
  next
    case False
    with assms(2) have "t = ?br1" by (auto simp: MSTP_IN_all_fids_flushed_def Let_def split: if_splits)
    with ok show ?thesis by simp
  qed
qed

text \<open>The ways \<^const>\<open>MSTP_IN_rx_bpdu\<close> can end.\<close>

lemma rx_outcome:
  assumes "(if a then Some x else if b then Some y else if c then Some z else if d then Some z
    else case v of None \<Rightarrow> Some z | Some (b', n) \<Rightarrow> f b' n) = Some t"
  shows "t = x \<or> t = y \<or> t = z \<or> (\<exists>b' n. f b' n = Some t)"
  using assms by (auto split: if_splits option.splits)

lemma rx_bpdu_ok:
  assumes "bridge_ok br" and "MSTP_IN_rx_bpdu clk p b n br = Some t"
  shows "bridge_ok t"
proof -
  let ?br = "upd_port p (\<lambda>prt. prt\<lparr>num_rx_bpdu := num_rx_bpdu prt + 1\<rparr>) br"
  have ok: "bridge_ok ?br" using assms(1) by (simp add: bridge_ok_upd_port)
  have accept: "port_shape (accept_bpdu b' m prt) = port_shape prt" for b' m prt
    by (simp add: accept_bpdu_def Let_def split: option.split)
  from rx_outcome [OF assms(2) [unfolded MSTP_IN_rx_bpdu_def Let_def]]
  show ?thesis
  proof (elim disjE exE)
    fix b' m
    assume "br_state_machines_run clk (upd_port p (accept_bpdu b' m) ?br) = Some t"
    then show ?thesis by (rule run_ok) (simp add: bridge_ok_upd_port accept ok)
  qed (use ok in \<open>simp_all add: bridge_ok_upd_port\<close>)
qed

subsection \<open>Bridge parameters\<close>

text \<open>The bridge with the parameters of a request in place.\<close>

definition with_params :: "CIST_BridgeConfig \<Rightarrow> bridge_t \<Rightarrow> bridge_t" where
  "with_params cfg br =
     br\<lparr>br_Max_Age := or_else (cbc_bridge_max_age cfg) (br_Max_Age br),
        br_Forward_Delay := or_else (cbc_bridge_forward_delay cfg) (br_Forward_Delay br),
        ForceProtocolVersion := or_else (cbc_protocol_version cfg) (ForceProtocolVersion br),
        Transmit_Hold_Count := or_else (cbc_tx_hold_count cfg) (Transmit_Hold_Count br),
        MaxHops := or_else (cbc_max_hops cfg) (MaxHops br),
        br_Hello_Time := or_else (cbc_bridge_hello_time cfg) (br_Hello_Time br),
        Ageing_Time := or_else (cbc_bridge_ageing_time cfg) (Ageing_Time br)\<rparr>"

lemma or_else_range:
  assumes "ok_if_set (\<lambda>v. \<not> (lo > v \<or> hi < v)) x" and "lo \<le> d" "d \<le> hi"
  shows "lo \<le> or_else x d \<and> or_else x d \<le> (hi :: 'a::linorder)"
  using assms by (cases x) (auto simp: or_else_def ok_if_set_def)

lemma params_with_params:
  assumes "params_ok br" and "valid_bridge_config br cfg"
  shows "params_ok (with_params cfg br)"
proof -
  note v = assms(2) [unfolded valid_bridge_config_def Let_def]
  note p = assms(1) [unfolded params_ok_def]
  have "6 \<le> or_else (cbc_bridge_max_age cfg) (br_Max_Age br)
      \<and> or_else (cbc_bridge_max_age cfg) (br_Max_Age br) \<le> 40"
    using v p by (intro or_else_range) blast+
  moreover have "4 \<le> or_else (cbc_bridge_forward_delay cfg) (br_Forward_Delay br)
      \<and> or_else (cbc_bridge_forward_delay cfg) (br_Forward_Delay br) \<le> 30"
    using v p by (intro or_else_range) blast+
  moreover have "uint (or_else (cbc_bridge_max_age cfg) (br_Max_Age br))
      \<le> 2 * (uint (or_else (cbc_bridge_forward_delay cfg) (br_Forward_Delay br)) - 1)"
    using v p by (cases "cbc_bridge_max_age cfg = None \<and> cbc_bridge_forward_delay cfg = None")
      (auto simp: or_else_def not_less)
  moreover have "or_else (cbc_protocol_version cfg) (ForceProtocolVersion br)
      \<in> {protoSTP, protoRSTP, protoMSTP}"
    using v p by (cases "cbc_protocol_version cfg") (simp_all add: or_else_def ok_if_set_def)
  moreover have "1 \<le> or_else (cbc_tx_hold_count cfg) (Transmit_Hold_Count br)
      \<and> or_else (cbc_tx_hold_count cfg) (Transmit_Hold_Count br) \<le> 10"
    using v p by (intro or_else_range) blast+
  moreover have "6 \<le> or_else (cbc_max_hops cfg) (MaxHops br)
      \<and> or_else (cbc_max_hops cfg) (MaxHops br) \<le> 40"
    using v p by (intro or_else_range) blast+
  moreover have "1 \<le> or_else (cbc_bridge_hello_time cfg) (br_Hello_Time br)
      \<and> or_else (cbc_bridge_hello_time cfg) (br_Hello_Time br) \<le> 10"
    using v p by (intro or_else_range) blast+
  moreover have "10 \<le> or_else (cbc_bridge_ageing_time cfg) (Ageing_Time br)
      \<and> or_else (cbc_bridge_ageing_time cfg) (Ageing_Time br) \<le> 1000000"
    using v p by (intro or_else_range) blast+
  ultimately show ?thesis
    using p by (simp add: params_ok_def with_params_def)
qed

lemma bridge_ok_with_params:
  "bridge_ok br \<Longrightarrow> valid_bridge_config br cfg \<Longrightarrow> bridge_ok (with_params cfg br)"
  by (simp add: bridge_ok_def params_with_params)
    (simp add: shape_ok_def maps_ok_def tree_ids_def with_params_def)

lemma frame_propagate [simp]: "frame (propagate_bridge_times br) = frame br"
proof -
  have "map port_shape (map (map_ptps f) ps) = map port_shape ps"
    if "\<And>x. MSTID (f x) = MSTID x" for f ps
    using that by simp
  moreover have "map tree_MSTID (map f ts) = map tree_MSTID ts"
    if "\<And>x. tree_MSTID (f x) = tree_MSTID x" for f ts
    using that by simp
  ultimately show ?thesis by (simp add: frame_def propagate_bridge_times_def)
qed

lemma config_outcome:
  assumes "map_option (\<lambda>b. (x, b)) (if c then (if d then f else g) else Some h) = Some (r, t)"
  shows "r = x \<and> (t = h \<or> g = Some t \<or> f = Some t)"
  using assms by (auto split: if_splits)

text \<open>What the operation does with a valid request, before the machines run.\<close>

lemma set_cist_bridge_config_cases:
  assumes "MSTP_IN_set_cist_bridge_config clk cfg br = Some (r, t)"
  obtains (rejected) "\<not> valid_bridge_config br cfg" "r = -1" "t = br"
  | (accepted) b where "valid_bridge_config br cfg" "r = 0" "frame b = frame (with_params cfg br)"
      "t = b \<or> br_state_machines_run clk b = Some t \<or> br_state_machines_begin clk b = Some t"
proof (cases "valid_bridge_config br cfg")
  case False
  with assms show ?thesis by (intro rejected) (simp_all add: MSTP_IN_set_cist_bridge_config_def)
next
  case True
  let ?br1 = "with_params cfg br"
  let ?hold = "or_else (cbc_tx_hold_count cfg) (Transmit_Hold_Count br) \<noteq> Transmit_Hold_Count br"
  let ?br2 = "if ?hold then ports_update (map (\<lambda>prt. prt\<lparr>txCount := 0\<rparr>)) ?br1 else ?br1"
  have f2: "frame ?br2 = frame ?br1" by simp
  then have f3: "frame (if c then propagate_bridge_times ?br2 else ?br2) = frame ?br1" for c by simp
  let ?b = "\<lambda>c. if c then propagate_bridge_times ?br2 else ?br2"
  obtain c1 c2 c3 where "map_option (\<lambda>b. (0, b))
      (if c1 then (if c2 then br_state_machines_begin clk (?b c3) else br_state_machines_run clk (?b c3))
       else Some (?b c3)) = Some (r, t)"
    using assms True unfolding MSTP_IN_set_cist_bridge_config_def Let_def with_params_def [symmetric]
    by (simp only: not_True_eq_False if_False)
  from config_outcome [OF this] True f3 [of c3] show ?thesis
    by (intro accepted [where b = "?b c3"]) blast+
qed

lemma set_cist_bridge_config_ok:
  assumes "bridge_ok br" and "MSTP_IN_set_cist_bridge_config clk cfg br = Some (r, t)"
  shows "bridge_ok t"
  using assms(2)
proof (cases rule: set_cist_bridge_config_cases)
  case rejected
  with assms(1) show ?thesis by simp
next
  case (accepted b)
  have "bridge_ok b"
    using bridge_ok_frame [OF accepted(3)] bridge_ok_with_params [OF assms(1) accepted(1)] by blast
  with accepted(4) show ?thesis using run_ok begin_ok by blast
qed

lemma set_msti_bridge_config_ok:
  assumes "bridge_ok br" shows "bridge_ok (snd (MSTP_IN_set_msti_bridge_config k pri br))"
proof -
  have "frame (snd (MSTP_IN_set_msti_bridge_config k pri br)) = frame br"
    by (simp add: MSTP_IN_set_msti_bridge_config_def Let_def)
  from bridge_ok_frame [OF this] assms show ?thesis by blast
qed

subsection \<open>Port parameters\<close>

lemma port_shape_set_cist_port: "port_shape (snd (set_cist_port cfg prt)) = port_shape prt"
proof -
  have "port_shape (snd (cfg_external_cost v prt)) = port_shape prt" for v prt
    by (simp add: cfg_external_cost_def Let_def split: option.split)
  moreover have "port_shape (snd (cfg_admin_p2p v prt)) = port_shape prt" for v prt
    by (simp add: cfg_admin_p2p_def Let_def split: option.split)
  moreover have "port_shape (snd (cfg_admin_edge v prt)) = port_shape prt" for v prt
    by (simp add: cfg_admin_edge_def Let_def split: option.split)
  moreover have "port_shape (snd (cfg_network_port v prt)) = port_shape prt" for v prt
    by (simp add: cfg_network_port_def Let_def split: option.split)
  moreover have "port_shape (cfg_bpdu_filter v prt) = port_shape prt" for v prt
    by (simp add: cfg_bpdu_filter_def Let_def split: option.split)
  ultimately show ?thesis
    by (simp add: set_cist_port_def Let_def case_prod_beta)
qed

lemma set_cist_port_config_ok:
  assumes "bridge_ok br" and "MSTP_IN_set_cist_port_config clk cfg p br = Some (r, t)"
  shows "bridge_ok t"
proof -
  let ?b = "upd_port p (\<lambda>_. snd (set_cist_port cfg (port_at br p))) br"
  have ok: "bridge_ok ?b"
    using assms(1) bridge_ok_put_port [OF port_shape_set_cist_port] by simp
  have "t = ?b \<or> br_state_machines_run clk ?b = Some t"
    using assms(2) unfolding MSTP_IN_set_cist_port_config_def case_prod_beta Let_def
    by (auto split: if_splits)
  with ok show ?thesis using run_ok by blast
qed

lemma MSTID_cfg_ptp:
  "MSTID (snd (cfg_port_priority v x)) = MSTID x"
  "MSTID (snd (cfg_internal_cost sp c x)) = MSTID x"
  by (simp_all add: cfg_port_priority_def cfg_internal_cost_def Let_def split: option.split)

lemma port_shape_put_ptp:
  assumes "MSTID y = MSTID (ptp_of prt k)"
  shows "port_shape (upd_ptp k (\<lambda>_. y) prt) = port_shape prt"
  using assms by (cases "k < length (port_trees prt)")
    (simp_all add: port_shape_def upd_nth_def map_update list_update_same_conv list_update_beyond)

lemma bridge_ok_put_ptp:
  assumes "MSTID y = MSTID (ptp_at br p k)"
  shows "bridge_ok (upd_ptp_at p k (\<lambda>_. y) br) = bridge_ok br"
proof -
  have "upd_ptp_at p k (\<lambda>_. y) br = upd_port p (\<lambda>_. upd_ptp k (\<lambda>_. y) (port_at br p)) br"
    by (simp add: upd_port_def upd_nth_def)
  then show ?thesis using bridge_ok_put_port [OF port_shape_put_ptp [OF assms]] by simp
qed

lemma set_msti_port_config_ok:
  assumes "bridge_ok br" and "MSTP_IN_set_msti_port_config clk cfg p k br = Some (r, t)"
  shows "bridge_ok t"
proof -
  let ?x = "snd (cfg_internal_cost (port_speed (port_at br p)) (mpc_admin_internal_port_path_cost cfg)
      (snd (cfg_port_priority (mpc_port_priority cfg) (ptp_at br p k))))"
  have id: "MSTID ?x = MSTID (ptp_at br p k)" "MSTID (?x\<lparr>selected := False, reselect := True\<rparr>) = MSTID (ptp_at br p k)"
    by (simp_all add: MSTID_cfg_ptp)
  have ok: "bridge_ok (upd_ptp_at p k (\<lambda>_. ?x) br)"
    "bridge_ok (upd_ptp_at p k (\<lambda>_. ?x\<lparr>selected := False, reselect := True\<rparr>) br)"
    using assms(1) bridge_ok_put_ptp [OF id(1)] bridge_ok_put_ptp [OF id(2)] by simp_all
  have "t = br \<or> t = upd_ptp_at p k (\<lambda>_. ?x) br
      \<or> br_state_machines_run clk (upd_ptp_at p k (\<lambda>_. ?x\<lparr>selected := False, reselect := True\<rparr>) br) = Some t"
    using assms(2) unfolding MSTP_IN_set_msti_port_config_def case_prod_beta Let_def
    by (auto split: if_splits)
  with ok assms(1) show ?thesis using run_ok by blast
qed

lemma port_mcheck_ok:
  assumes "bridge_ok br" and "MSTP_IN_port_mcheck clk p br = Some (r, t)"
  shows "bridge_ok t"
proof -
  let ?b = "upd_port p (\<lambda>prt. upd_ptp 0 (\<lambda>c. c\<lparr>proposing := True\<rparr>) (prt\<lparr>mcheck := True\<rparr>)) br"
  have "t = br \<or> br_state_machines_run clk ?b = Some t"
    using assms(2) unfolding MSTP_IN_port_mcheck_def by (auto split: if_splits)
  moreover have "bridge_ok ?b" using assms(1) by (simp add: bridge_ok_upd_port)
  ultimately show ?thesis using run_ok assms(1) by blast
qed

subsection \<open>VIDs and FIDs\<close>

lemma bridge_ok_digest: "bridge_ok (RecalcConfigDigest br) = bridge_ok br"
  by (simp add: RecalcConfigDigest_def Let_def bridge_ok_def shape_ok_def maps_ok_def params_ok_def
      tree_ids_def)

lemma remap_ok:
  assumes "remap clk changed b = Some (r, t)" and "bridge_ok b"
  shows "bridge_ok t"
proof -
  have "t = b \<or> br_state_machines_begin clk (RecalcConfigDigest b) = Some t"
    using assms(1) by (auto simp: remap_def split: if_splits)
  then show ?thesis using assms(2) begin_ok bridge_ok_digest by blast
qed

lemma bridge_ok_maps:
  assumes "bridge_ok br"
    and "\<forall>fid \<le> MAX_FID. f fid \<in> set (tree_ids br)"
    and "\<forall>vid. 1 \<le> vid \<and> vid \<le> MAX_VID \<longrightarrow> unat (v vid) \<le> MAX_FID"
  shows "bridge_ok (br\<lparr>fid2mstid := f, vid2fid := v\<rparr>)"
  using assms by (simp add: bridge_ok_def shape_ok_def maps_ok_def params_ok_def tree_ids_def)

lemma bridge_ok_maps_present:
  assumes "bridge_ok br"
  shows "\<forall>fid \<le> MAX_FID. fid2mstid br fid \<in> set (tree_ids br)"
    and "\<forall>vid. 1 \<le> vid \<and> vid \<le> MAX_VID \<longrightarrow> unat (vid2fid br vid) \<le> MAX_FID"
  using assms by (simp_all add: bridge_ok_def maps_ok_def)

lemma bridge_ok_vid2fid:
  assumes "bridge_ok br" and "\<forall>vid. 1 \<le> vid \<and> vid \<le> MAX_VID \<longrightarrow> unat (v vid) \<le> MAX_FID"
  shows "bridge_ok (br\<lparr>vid2fid := v\<rparr>)"
  using bridge_ok_maps [OF assms(1) bridge_ok_maps_present(1) [OF assms(1)] assms(2)] by simp

lemma bridge_ok_fid2mstid:
  assumes "bridge_ok br" and "\<forall>fid \<le> MAX_FID. f fid \<in> set (tree_ids br)"
  shows "bridge_ok (br\<lparr>fid2mstid := f\<rparr>)"
  using bridge_ok_maps [OF assms(1) assms(2) bridge_ok_maps_present(2) [OF assms(1)]] by simp

lemma has_tree_iff: "has_tree br m \<longleftrightarrow> m \<in> set (tree_ids br)"
  by (auto simp: has_tree_def tree_ids_def list_ex_iff)

lemma set_vid2fid_ok:
  assumes "bridge_ok br" and "MSTP_IN_set_vid2fid clk vid fid br = Some (r, t)"
  shows "bridge_ok t"
proof (cases "vid < 1 \<or> MAX_VID < unat vid \<or> MAX_FID < unat fid")
  case True
  with assms show ?thesis by (simp only: MSTP_IN_set_vid2fid_def if_True option.inject prod.inject)
next
  case False
  then have "\<forall>v. 1 \<le> v \<and> v \<le> MAX_VID \<longrightarrow> unat (((vid2fid br)(unat vid := fid)) v) \<le> MAX_FID"
    using bridge_ok_maps_present(2) [OF assms(1)] by simp
  from bridge_ok_vid2fid [OF assms(1) this] False assms(2) show ?thesis
    unfolding MSTP_IN_set_vid2fid_def by (simp only: if_False) (rule remap_ok)
qed

lemma set_all_vids2fids_ok:
  assumes "bridge_ok br" and "MSTP_IN_set_all_vids2fids clk f br = Some (r, t)"
  shows "bridge_ok t"
  using assms(2) unfolding MSTP_IN_set_all_vids2fids_def Let_def
proof (rule remap_ok, intro bridge_ok_vid2fid [OF assms(1)] allI impI)
  fix vid
  assume "1 \<le> vid \<and> vid \<le> MAX_VID"
  then show "unat (if vid \<le> MAX_VID
      then if 1 \<le> vid \<and> vid \<le> MAX_VID \<and> MAX_FID < unat (f vid) then vid2fid br vid else f vid
      else vid2fid br vid) \<le> MAX_FID"
    using bridge_ok_maps_present(2) [OF assms(1)] by simp
qed

lemma set_fid2mstid_ok:
  assumes "bridge_ok br" and "MSTP_IN_set_fid2mstid clk fid m br = Some (r, t)"
  shows "bridge_ok t"
proof (cases "MAX_FID < unat fid \<or> \<not> has_tree br m \<or> fid2mstid br (unat fid) = m")
  case True
  with assms show ?thesis by (auto simp: MSTP_IN_set_fid2mstid_def split: if_splits)
next
  case False
  then have "\<forall>n \<le> MAX_FID. ((fid2mstid br)(unat fid := m)) n \<in> set (tree_ids br)"
    using bridge_ok_maps_present(1) [OF assms(1)] by (simp add: has_tree_iff)
  note ok = bridge_ok_fid2mstid [OF assms(1) this]
  from assms(2) False have "remap clk (list_ex (\<lambda>vid. vid2fid br vid = fid) vlan_ids)
      (br\<lparr>fid2mstid := (fid2mstid br)(unat fid := m)\<rparr>) = Some (r, t)"
    unfolding MSTP_IN_set_fid2mstid_def by (simp only: if_True if_False de_Morgan_disj simp_thms)
  then show ?thesis using ok by (rule remap_ok)
qed

lemma set_all_fids2mstids_ok:
  assumes "bridge_ok br" and "MSTP_IN_set_all_fids2mstids clk f br = Some (r, t)"
  shows "bridge_ok t"
proof -
  let ?new = "\<lambda>fid. if MAX_MSTID < unat (f fid) then fid2mstid br fid else f fid"
  let ?f = "\<lambda>fid. if fid \<le> MAX_FID then ?new fid else fid2mstid br fid"
  show ?thesis
  proof (cases "list_ex (\<lambda>fid. \<not> has_tree br (?new fid)) [0..<MAX_FID + 1]")
    case True
    with assms show ?thesis by (simp only: MSTP_IN_set_all_fids2mstids_def Let_def if_True option.inject prod.inject)
  next
    case False
    then have "?new fid \<in> set (tree_ids br)" if "fid < MAX_FID + 1" for fid
      using that by (simp add: list_ex_iff has_tree_iff del: upt_Suc)
    then have "\<forall>fid \<le> MAX_FID. ?f fid \<in> set (tree_ids br)" by simp
    from bridge_ok_fid2mstid [OF assms(1) this] False assms(2) show ?thesis
      unfolding MSTP_IN_set_all_fids2mstids_def Let_def by (simp only: if_False) (rule remap_ok)
  qed
qed

lemma set_mst_config_id_ok:
  assumes "bridge_ok br" and "MSTP_IN_set_mst_config_id clk revision name br = Some t"
  shows "bridge_ok t"
proof -
  have "bridge_ok (br\<lparr>MstConfigId := i\<rparr>)" for i
    using assms(1) by (simp add: bridge_ok_def shape_ok_def maps_ok_def params_ok_def tree_ids_def)
  moreover from assms(2) have "t = br \<or> (\<exists>i. br_state_machines_begin clk (br\<lparr>MstConfigId := i\<rparr>) = Some t)"
    unfolding MSTP_IN_set_mst_config_id_def Let_def by (auto split: if_splits)
  ultimately show ?thesis using assms(1) begin_ok by blast
qed

subsection \<open>MSTIs\<close>

lemma map_insert_after: "map f (insert_after i x xs) = insert_after i (f x) (map f xs)"
  by (simp add: insert_after_def take_map drop_map)

lemma map_remove_nth: "map f (remove_nth i xs) = remove_nth i (map f xs)"
  by (simp add: remove_nth_def take_map drop_map)

lemma find_tree_after_sorted:
  assumes "sorted_wrt (<) (map tree_MSTID ts)"
  shows "find_tree_after m ts n acc =
    (let j = length (takeWhile (\<lambda>t. tree_MSTID t < m) ts)
     in if j = 0 then acc else Some (n + j - 1))"
  using assms
proof (induction ts arbitrary: n acc)
  case (Cons t ts)
  show ?case
  proof (cases "tree_MSTID t < m")
    case True
    with Cons show ?thesis by (simp add: Let_def)
  next
    case False
    with Cons.prems have "takeWhile (\<lambda>t. tree_MSTID t < m) ts = []"
      by (cases ts) auto
    with Cons False show ?thesis by (simp add: Let_def)
  qed
qed simp

lemma insert_after_sorted:
  assumes "sorted_wrt (<) (xs :: u16 list)" "m \<notin> set xs"
    and "Suc i = length (takeWhile (\<lambda>x. x < m) xs)"
  shows "insert_after i m xs = takeWhile (\<lambda>x. x < m) xs @ m # dropWhile (\<lambda>x. x < m) xs"
    and "sorted_wrt (<) (insert_after i m xs)"
proof -
  let ?P = "\<lambda>x. x < m"
  show eq: "insert_after i m xs = takeWhile ?P xs @ m # dropWhile ?P xs"
    unfolding insert_after_def assms(3) by (simp add: takeWhile_eq_take [symmetric] dropWhile_eq_drop [symmetric])
  have split: "sorted_wrt (<) (takeWhile ?P xs @ dropWhile ?P xs)" using assms(1) by simp
  have "m < x" if "x \<in> set (dropWhile ?P xs)" for x
  proof (cases "dropWhile ?P xs")
    case (Cons y ys)
    then have "\<not> y < m" by (metis hd_dropWhile list.distinct(1) list.sel(1))
    moreover have "y \<in> set xs" using Cons by (metis list.set_intros(1) set_dropWhileD)
    ultimately have "m < y" using assms(2) by (metis linorder_less_linear)
    moreover from split Cons that have "x = y \<or> y < x" by (auto simp: sorted_wrt_append)
    ultimately show ?thesis by auto
  next
    case Nil
    with that show ?thesis by (simp only: list.set empty_iff)
  qed
  moreover from split have "sorted_wrt (<) (takeWhile ?P xs)" "sorted_wrt (<) (dropWhile ?P xs)"
    "\<forall>x \<in> set (takeWhile ?P xs). \<forall>y \<in> set (dropWhile ?P xs). x < y"
    unfolding sorted_wrt_append by blast+
  ultimately show "sorted_wrt (<) (insert_after i m xs)"
    unfolding eq by (simp add: sorted_wrt_append) (auto dest: set_takeWhileD)
qed

lemma bridge_ok_shape: "bridge_ok br \<Longrightarrow> sorted_wrt (<) (tree_ids br) \<and> tree_ids br \<noteq> []
    \<and> hd (tree_ids br) = 0 \<and> length (tree_ids br) \<le> MAX_IMPLEMENTATION_MSTIS + 1"
  by (simp add: bridge_ok_def shape_ok_def)

lemma tree_ids_add_tree: "tree_ids (add_tree m i br) = insert_after i m (tree_ids br)"
  by (simp add: tree_ids_def add_tree_def Let_def map_insert_after)

lemma shapes_add_tree:
  "map port_shape (ports (add_tree m i br)) = map (insert_after i m) (map port_shape (ports br))"
  by (simp add: add_tree_def Let_def port_shape_def map_insert_after)

lemma add_tree_config: "(add_tree m i br)\<lparr>ports := [], trees := []\<rparr> = br\<lparr>ports := [], trees := []\<rparr>"
  by (simp add: add_tree_def Let_def)

lemma set_insert_after: "set (insert_after i x xs) = insert x (set xs)"
proof -
  have "set xs = set (take (Suc i) xs @ drop (Suc i) xs)" by simp
  then show ?thesis unfolding insert_after_def set_append by auto
qed

lemma length_insert_after: "length (insert_after i x xs) = Suc (length xs)"
  by (simp add: insert_after_def)

lemma insert_after_nonempty: "insert_after i x xs \<noteq> []"
  by (simp add: insert_after_def)

lemma length_tree_ids: "length (tree_ids br) = length (trees br)"
  by (simp add: tree_ids_def)

lemma add_tree_ok:
  assumes ok: "bridge_ok br" and new: "m \<notin> set (tree_ids br)"
    and pos: "find_tree_after m (trees br) 0 None = Some i"
    and room: "length (trees br) \<le> MAX_IMPLEMENTATION_MSTIS"
  shows "bridge_ok (add_tree m i br)"
proof -
  let ?ids = "tree_ids br"
  from ok have sorted: "sorted_wrt (<) ?ids" and ids: "?ids \<noteq> []" "hd ?ids = 0"
    by (simp_all add: bridge_ok_shape)
  have "length (takeWhile (\<lambda>t. tree_MSTID t < m) (trees br)) = length (takeWhile (\<lambda>x. x < m) ?ids)"
    by (simp add: tree_ids_def takeWhile_map o_def)
  moreover have "(let j = length (takeWhile (\<lambda>t. tree_MSTID t < m) (trees br))
      in if j = 0 then None else Some (0 + j - 1)) = Some i"
    using pos find_tree_after_sorted [of "trees br" m 0 None] sorted by (simp only: tree_ids_def)
  ultimately have i: "Suc i = length (takeWhile (\<lambda>x. x < m) ?ids)"
    by (simp only: Let_def option.inject option.distinct split: if_split_asm)
  note ins = insert_after_sorted [OF sorted new i]
  have "takeWhile (\<lambda>x. x < m) ?ids \<noteq> []" using i by auto
  then have "hd (insert_after i m ?ids) = 0"
    unfolding ins(1) using ids by (simp add: hd_append) (cases ?ids; auto split: if_splits)
  moreover have "length (insert_after i m ?ids) = Suc (length ?ids)"
    by (rule length_insert_after)
  moreover have "\<forall>prt \<in> set (ports (add_tree m i br)). port_shape prt = insert_after i m ?ids"
    using ok shapes_add_tree [of m i br]
    by (auto simp: all_shapes bridge_ok_def shape_ok_def)
  ultimately have "shape_ok (add_tree m i br)"
    using ins(2) room length_tree_ids [of br] insert_after_nonempty [of i m ?ids]
    by (simp add: shape_ok_def tree_ids_add_tree)
  moreover have "maps_ok (add_tree m i br)"
    using ok same_config [OF add_tree_config [of m i br]]
    by (simp add: maps_ok_def bridge_ok_def tree_ids_add_tree set_insert_after)
  ultimately show ?thesis
    using ok same_config [OF add_tree_config [of m i br]] by (simp add: bridge_ok_def)
qed

lemma create_msti_ok:
  assumes "bridge_ok br" and "MSTP_IN_create_msti clk m br = Some (r, t)"
  shows "bridge_ok t"
proof -
  consider "t = br"
    | (new) i where "\<not> has_tree br m" "find_tree_after m (trees br) 0 None = Some i"
        "\<not> MAX_IMPLEMENTATION_MSTIS < length (trees br)"
        "tree_state_machines_begin clk (Suc i) (add_tree m i br) = Some t"
    using assms(2) unfolding MSTP_IN_create_msti_def
    by (auto split: if_splits option.splits)
  then show ?thesis
  proof cases
    case new
    then have "bridge_ok (add_tree m i br)"
      using assms(1) by (intro add_tree_ok) (simp_all add: has_tree_iff)
    with bridge_ok_frame [OF begins_frame(3) [OF new(4)]] show ?thesis by blast
  qed (use assms(1) in simp)
qed

lemma tree_index_Some:
  "tree_index m ts = Some i \<Longrightarrow> i < length ts \<and> tree_MSTID (ts ! i) = m"
  by (induction ts arbitrary: i) (auto split: if_splits)

lemma remove_nth_sorted:
  assumes "sorted_wrt (<) (xs :: u16 list)" "i < length xs"
  shows "sorted_wrt (<) (remove_nth i xs)" and "set (remove_nth i xs) = set xs - {xs ! i}"
proof -
  have xs: "xs = take i xs @ xs ! i # drop (Suc i) xs" using assms(2) by (rule id_take_nth_drop)
  from assms(1) have parts: "sorted_wrt (<) (take i xs @ xs ! i # drop (Suc i) xs)"
    using xs by (simp only: xs [symmetric])
  then show "sorted_wrt (<) (remove_nth i xs)"
    by (auto simp: remove_nth_def sorted_wrt_append)
  have "set xs = insert (xs ! i) (set (take i xs) \<union> set (drop (Suc i) xs))"
    by (subst xs) simp
  moreover have "xs ! i \<notin> set (take i xs) \<union> set (drop (Suc i) xs)"
    using parts by (auto simp: sorted_wrt_append)
  ultimately show "set (remove_nth i xs) = set xs - {xs ! i}"
    by (simp add: remove_nth_def)
qed

lemma remove_nth_hd: "0 < i \<Longrightarrow> i < length xs \<Longrightarrow> hd (remove_nth i xs) = hd xs \<and> remove_nth i xs \<noteq> []"
  by (cases xs; cases i) (simp_all add: remove_nth_def)

lemma remove_tree_facts:
  "tree_ids (remove_tree i br) = remove_nth i (tree_ids br)"
  "map port_shape (ports (remove_tree i br)) = map (remove_nth i) (map port_shape (ports br))"
  "(remove_tree i br)\<lparr>ports := [], trees := []\<rparr> = br\<lparr>ports := [], trees := []\<rparr>"
  by (simp_all add: remove_tree_def tree_ids_def port_shape_def map_remove_nth)

lemma remove_tree_ok:
  assumes ok: "bridge_ok br" and pos: "tree_index m (trees br) = Some i" and m: "m \<noteq> 0"
    and free: "\<forall>fid \<le> MAX_FID. fid2mstid br fid \<noteq> m"
  shows "bridge_ok (remove_tree i br)"
proof -
  let ?ids = "tree_ids br"
  have sorted: "sorted_wrt (<) ?ids" and ids: "?ids \<noteq> []" "hd ?ids = 0"
    "length ?ids \<le> MAX_IMPLEMENTATION_MSTIS + 1"
    using ok unfolding bridge_ok_def shape_ok_def by blast+
  from tree_index_Some [OF pos] have i: "i < length ?ids" "?ids ! i = m"
    by (simp_all add: tree_ids_def)
  have "i \<noteq> 0" using i(2) ids m by (metis hd_conv_nth)
  then have hd: "hd (remove_nth i ?ids) = hd ?ids \<and> remove_nth i ?ids \<noteq> []"
    using i by (intro remove_nth_hd) simp_all
  have len: "length (remove_nth i ?ids) \<le> length ?ids" by (simp add: remove_nth_def)
  note rem = remove_nth_sorted [OF sorted i(1), unfolded i(2)]
  have "\<forall>prt \<in> set (ports (remove_tree i br)). port_shape prt = remove_nth i ?ids"
    using ok remove_tree_facts(2) [of i br] by (auto simp: all_shapes bridge_ok_def shape_ok_def)
  then have "shape_ok (remove_tree i br)"
    using rem(1) hd len ids by (simp add: shape_ok_def remove_tree_facts(1))
  moreover have "maps_ok (remove_tree i br)"
    using ok free same_config [OF remove_tree_facts(3) [of i br]] rem(2)
    by (simp add: maps_ok_def bridge_ok_def remove_tree_facts(1))
  ultimately show ?thesis
    using ok same_config [OF remove_tree_facts(3) [of i br]] by (simp add: bridge_ok_def)
qed

lemma delete_msti_ok:
  assumes "bridge_ok br" and "MSTP_IN_delete_msti clk m br = Some (r, t)"
  shows "bridge_ok t"
proof -
  consider "t = br"
    | (gone) i where "\<not> m < 1" "\<not> list_ex (\<lambda>fid. fid2mstid br fid = m) [0..<MAX_FID + 1]"
        "tree_index m (trees br) = Some i" "br_state_machines_run clk (remove_tree i br) = Some t"
    using assms(2) unfolding MSTP_IN_delete_msti_def
    by (simp only: option.inject prod.inject map_option_eq_Some not_False_eq_True de_Morgan_disj
        split: if_split_asm option.split_asm) blast+
  then show ?thesis
  proof cases
    case gone
    have "\<forall>fid \<le> MAX_FID. fid2mstid br fid \<noteq> m"
      using gone(2) by (auto simp: list_ex_iff simp del: upt_Suc)
    moreover have "m \<noteq> 0" using gone(1) by auto
    ultimately have "bridge_ok (remove_tree i br)"
      using assms(1) gone(3) by (intro remove_tree_ok)
    with gone(4) show ?thesis by (rule run_ok)
  qed (use assms(1) in simp)
qed

section \<open>Every history of calls\<close>

text \<open>
  The calls that change a bridge, as the daemon's other files make them. The arguments are those
  of the C functions; a port is its position in the list of ports and a tree its position in the
  list of trees. The daemon names only ports and trees that exist; the invariant does not depend on
  it.
\<close>

datatype api_call =
    Port_create port_t u16
  | Delete_port nat
  | Set_bridge_address "48 word"
  | Set_bridge_enable bool
  | Set_port_enable nat bool int int
  | One_second
  | All_fids_flushed nat nat
  | Rx_bpdu nat bpdu_t int
  | Set_cist_bridge_config CIST_BridgeConfig
  | Set_msti_bridge_config nat u8
  | Set_cist_port_config CIST_PortConfig nat
  | Set_msti_port_config MSTI_PortConfig nat nat
  | Port_mcheck nat
  | Set_vid2fid u16 u16
  | Set_all_vids2fids "nat \<Rightarrow> u16"
  | Set_fid2mstid u16 u16
  | Set_all_fids2mstids "nat \<Rightarrow> u16"
  | Create_msti u16
  | Delete_msti u16
  | Set_mst_config_id u16 "u8 list"

text \<open>The state after the call; the result code is dropped, \<open>None\<close> is a call that does not return.\<close>

fun api_step :: "nat \<Rightarrow> api_call \<Rightarrow> bridge_t \<Rightarrow> bridge_t option" where
  "api_step clk (Port_create prt n) br = MSTP_IN_port_create_and_add_tail clk prt n br"
| "api_step clk (Delete_port p) br = MSTP_IN_delete_port clk clk p br"
| "api_step clk (Set_bridge_address mac) br = MSTP_IN_set_bridge_address clk mac br"
| "api_step clk (Set_bridge_enable up) br = MSTP_IN_set_bridge_enable clk up br"
| "api_step clk (Set_port_enable p up sp dx) br = MSTP_IN_set_port_enable clk p up sp dx br"
| "api_step clk One_second br = MSTP_IN_one_second clk br"
| "api_step clk (All_fids_flushed p k) br = MSTP_IN_all_fids_flushed clk p k br"
| "api_step clk (Rx_bpdu p b n) br = MSTP_IN_rx_bpdu clk p b n br"
| "api_step clk (Set_cist_bridge_config cfg) br =
     map_option snd (MSTP_IN_set_cist_bridge_config clk cfg br)"
| "api_step clk (Set_msti_bridge_config k pri) br = Some (snd (MSTP_IN_set_msti_bridge_config k pri br))"
| "api_step clk (Set_cist_port_config cfg p) br =
     map_option snd (MSTP_IN_set_cist_port_config clk cfg p br)"
| "api_step clk (Set_msti_port_config cfg p k) br =
     map_option snd (MSTP_IN_set_msti_port_config clk cfg p k br)"
| "api_step clk (Port_mcheck p) br = map_option snd (MSTP_IN_port_mcheck clk p br)"
| "api_step clk (Set_vid2fid vid fid) br = map_option snd (MSTP_IN_set_vid2fid clk vid fid br)"
| "api_step clk (Set_all_vids2fids f) br = map_option snd (MSTP_IN_set_all_vids2fids clk f br)"
| "api_step clk (Set_fid2mstid fid m) br = map_option snd (MSTP_IN_set_fid2mstid clk fid m br)"
| "api_step clk (Set_all_fids2mstids f) br = map_option snd (MSTP_IN_set_all_fids2mstids clk f br)"
| "api_step clk (Create_msti m) br = map_option snd (MSTP_IN_create_msti clk m br)"
| "api_step clk (Delete_msti m) br = map_option snd (MSTP_IN_delete_msti clk m br)"
| "api_step clk (Set_mst_config_id r name) br = MSTP_IN_set_mst_config_id clk r name br"

inductive reachable :: "bridge_t \<Rightarrow> bool" where
  created: "reachable (MSTP_IN_bridge_create mac)"
| called: "reachable br \<Longrightarrow> api_step clk c br = Some t \<Longrightarrow> reachable t"

lemma map_snd_ok:
  "map_option snd x = Some t \<Longrightarrow> (\<And>r s. x = Some (r, s) \<Longrightarrow> bridge_ok s) \<Longrightarrow> bridge_ok t"
  by (cases x) auto

lemmas calls_ok = port_create_ok delete_port_ok set_bridge_address_ok set_bridge_enable_ok
  set_port_enable_ok one_second_ok all_fids_flushed_ok rx_bpdu_ok set_mst_config_id_ok

lemmas result_calls_ok = set_cist_bridge_config_ok set_cist_port_config_ok set_msti_port_config_ok
  port_mcheck_ok set_vid2fid_ok set_all_vids2fids_ok set_fid2mstid_ok set_all_fids2mstids_ok
  create_msti_ok delete_msti_ok

lemma api_step_ok:
  assumes "bridge_ok br" and "api_step clk c br = Some t"
  shows "bridge_ok t"
  using assms(2)
  by (cases c; simp_all only: api_step.simps option.inject)
    (erule calls_ok [OF assms(1)] | (erule map_snd_ok, erule result_calls_ok [OF assms(1)])
      | (erule subst, rule set_msti_bridge_config_ok [OF assms(1)]))+

text \<open>
  C1. The invariant of the daemon's data. Whatever calls are made on a bridge after its creation,
  its trees stay in strict order of identifiers with the CIST first and at most 64 of them, every
  port carries exactly one entry per tree in that order, every FID maps to an existing tree and
  every VID to a valid FID, and the timer parameters stay within the standard's ranges, with
  2 * (Forward Delay - 1) at least Max Age.
\<close>

theorem reachable_bridge_ok: "reachable br \<Longrightarrow> bridge_ok br"
  by (induction rule: reachable.induct) (use bridge_ok_created api_step_ok in blast)+

lemma after_create:
  "bridgeEnabled (MSTP_IN_bridge_create mac) = False"
  "map tree_MSTID (trees (MSTP_IN_bridge_create mac)) = [0]"
  "ports (MSTP_IN_bridge_create mac) = []"
  by (simp_all add: MSTP_IN_bridge_create_def Let_def RecalcConfigDigest_def)

text \<open>A bridge with two MSTIs, the second inserted before the first.\<close>

theorem reachable_bridge_ok_witness:
  "\<exists>a b. api_step 0 (Create_msti 9) (MSTP_IN_bridge_create 1) = Some a
     \<and> api_step 0 (Create_msti 5) a = Some b \<and> tree_ids b = [0, 5, 9] \<and> bridge_ok b"
proof -
  let ?c = "MSTP_IN_bridge_create 1"
  obtain t where t: "trees ?c = [t]" "tree_MSTID t = 0"
    using after_create(2) [of 1] by auto
  define a where "a = add_tree 9 0 ?c"
  have a: "api_step 0 (Create_msti 9) ?c = Some a"
    by (simp add: MSTP_IN_create_msti_def has_tree_def t a_def tree_state_machines_begin_def
        add_tree_def Let_def after_create)
  obtain u where u: "trees a = [t, u]" "tree_MSTID u = 9"
    using t by (simp add: a_def add_tree_def Let_def insert_after_def)
  have off: "\<not> bridgeEnabled a" by (simp add: a_def add_tree_def Let_def after_create)
  define b where "b = add_tree 5 0 a"
  have b: "api_step 0 (Create_msti 5) a = Some b"
    by (simp add: MSTP_IN_create_msti_def has_tree_def t u b_def tree_state_machines_begin_def
        add_tree_def Let_def off)
  have "reachable b" using called [OF called [OF created a] b] .
  then have "bridge_ok b" by (rule reachable_bridge_ok)
  moreover have "tree_ids b = [0, 5, 9]"
    by (simp add: tree_ids_def b_def add_tree_def Let_def u t insert_after_def)
  ultimately show ?thesis using a b by blast
qed

end
