(* ===== verification/MSTP_Track.thy ===== *)
theory MSTP_Track
  imports MSTP_Invariant
begin

section \<open>The daemon's bridges (\<^verbatim>\<open>bridge_track.c\<close>): interfaces that come and go\<close>

text \<open>
  The list \<^verbatim>\<open>bridges\<close> of \<^verbatim>\<open>bridge_track.c\<close> and the handlers of what the kernel reports: which
  interface is a port of which bridge, whether it is up, its address, and the frames it receives.

  The members \<^verbatim>\<open>sysdeps\<close> of a bridge and of a port are kept beside the structure of the protocol:
  \<open>br_ifs\<close> has one entry per port, in the order of the ports. (Name, speed and duplex of a port are
  members of \<^typ>\<open>port_t\<close>.) A pointer to a bridge is its position in the list, one to a port its
  position in the bridge's list of ports. \<^term>\<open>None\<close> is a call that does not return.
\<close>

subsection \<open>Data\<close>

record sysdep_if_data =
  if_index :: int
  if_macaddr :: "48 word"
  if_up :: bool

record bridge_sys =
  br_if_index :: int
  br_macaddr :: "48 word"
  br_name :: string
  br_up :: bool
  br_ifs :: "sysdep_if_data list"
  protocol :: bridge_t

type_synonym mstpd = "bridge_sys list"

text \<open>
  What the kernel answers while one event is handled: names and numbers of interfaces, addresses,
  flags, speeds (in \<^verbatim>\<open>netif_utils.c\<close>; a negative number or \<^term>\<open>None\<close> is an error), and how many
  passes of the state machines the clock allows at each of the calls of the protocol.
\<close>

datatype run_at = At_address | At_enable | At_port_create | At_port_enable | At_delete | At_deleted
  | At_second | At_frame

record kernel =
  index_to_name :: "int \<Rightarrow> string option"
  get_hwaddr :: "string \<Rightarrow> 48 word option"
  get_flags :: "string \<Rightarrow> int"
  get_bridge_portno :: "string \<Rightarrow> int"
  ethtool_get_speed_duplex :: "string \<Rightarrow> (int \<times> int) option"
  passes :: "run_at \<Rightarrow> int \<Rightarrow> nat"

abbreviation (input) IFF_UP :: nat where "IFF_UP \<equiv> 0"
abbreviation (input) IFF_RUNNING :: nat where "IFF_RUNNING \<equiv> 6"
abbreviation (input) MAX_PORT_NUMBER :: int where "MAX_PORT_NUMBER \<equiv> 4095"

subsection \<open>Finding\<close>

fun first_index :: "('a \<Rightarrow> bool) \<Rightarrow> 'a list \<Rightarrow> nat option" where
  "first_index P [] = None"
| "first_index P (x # xs) = (if P x then Some 0 else map_option Suc (first_index P xs))"

definition find_br :: "int \<Rightarrow> mstpd \<Rightarrow> nat option" where
  "find_br i bs = first_index (\<lambda>b. br_if_index b = i) bs"

definition find_if :: "int \<Rightarrow> bridge_sys \<Rightarrow> nat option" where
  "find_if i b = first_index (\<lambda>x. if_index x = i) (br_ifs b)"

text \<open>An operation of the protocol on a bridge, and an operation on one bridge of the list.\<close>

definition on_protocol :: "(bridge_t \<Rightarrow> bridge_t option) \<Rightarrow> bridge_sys \<Rightarrow> bridge_sys option" where
  "on_protocol f b = map_option (\<lambda>t. b\<lparr>protocol := t\<rparr>) (f (protocol b))"

definition on_bridge :: "nat \<Rightarrow> (bridge_sys \<Rightarrow> bridge_sys option) \<Rightarrow> mstpd \<Rightarrow> mstpd option" where
  "on_bridge n f bs = map_option (\<lambda>b. bs[n := b]) (f (bs ! n))"

abbreviation port_of :: "bridge_sys \<Rightarrow> nat \<Rightarrow> port_t" where
  "port_of b p \<equiv> ports (protocol b) ! p"

definition upd_if :: "nat \<Rightarrow> (sysdep_if_data \<Rightarrow> sysdep_if_data) \<Rightarrow> bridge_sys \<Rightarrow> bridge_sys" where
  "upd_if p f = br_ifs_update (upd_nth p f)"

subsection \<open>Creating and deleting bridges and ports\<close>

definition create_br :: "kernel \<Rightarrow> int \<Rightarrow> mstpd \<Rightarrow> mstpd option" where
  "create_br k i bs =
     (case index_to_name k i of None \<Rightarrow> None
      | Some name \<Rightarrow>
          (case get_hwaddr k name of None \<Rightarrow> None
           | Some mac \<Rightarrow>
               Some (bs @ [\<lparr>br_if_index = i, br_macaddr = mac, br_name = name, br_up = False,
                            br_ifs = [], protocol = MSTP_IN_bridge_create mac\<rparr>])))"

text \<open>\<^term>\<open>Some None\<close>: the port could not be created, and nothing has changed.\<close>

definition create_if :: "kernel \<Rightarrow> int \<Rightarrow> bridge_sys \<Rightarrow> bridge_sys option option" where
  "create_if k i b =
     (case index_to_name k i of None \<Rightarrow> Some None
      | Some name \<Rightarrow>
          (case get_hwaddr k name of None \<Rightarrow> Some None
           | Some mac \<Rightarrow>
               let portno = get_bridge_portno k name
               in if 0 > portno then Some None
                  else if portno = 0 \<or> portno > MAX_PORT_NUMBER then Some None
                  else map_option
                    (\<lambda>t. Some (b\<lparr>br_ifs := br_ifs b @ [\<lparr>if_index = i, if_macaddr = mac, if_up = False\<rparr>],
                                protocol := t\<rparr>))
                    (MSTP_IN_port_create_and_add_tail (passes k At_port_create i)
                       (zero_port\<lparr>port_name := name\<rparr>) (of_int portno) (protocol b))))"

definition delete_if :: "kernel \<Rightarrow> nat \<Rightarrow> bridge_sys \<Rightarrow> bridge_sys option" where
  "delete_if k p b =
     (let i = if_index (br_ifs b ! p)
      in map_option (\<lambda>t. b\<lparr>br_ifs := remove_nth p (br_ifs b), protocol := t\<rparr>)
           (MSTP_IN_delete_port (passes k At_delete i) (passes k At_deleted i) p (protocol b)))"

definition delete_if_byindex :: "kernel \<Rightarrow> int \<Rightarrow> bridge_sys \<Rightarrow> (bool \<times> bridge_sys) option" where
  "delete_if_byindex k i b =
     (case find_if i b of None \<Rightarrow> Some (False, b)
      | Some p \<Rightarrow> map_option (Pair True) (delete_if k p b))"

definition delete_br_byindex :: "int \<Rightarrow> mstpd \<Rightarrow> (bool \<times> mstpd) option" where
  "delete_br_byindex i bs =
     (case find_br i bs of None \<Rightarrow> Some (False, bs)
      | Some n \<Rightarrow> map_option (\<lambda>_. (True, remove_nth n bs)) (MSTP_IN_delete_bridge (protocol (bs ! n))))"

text \<open>
  The loops that take an interface from the first bridge that has it, \<open>skip\<close> being the position of
  the bridge they leave out.
\<close>

fun delete_elsewhere :: "kernel \<Rightarrow> int \<Rightarrow> nat option \<Rightarrow> mstpd \<Rightarrow> mstpd option" where
  "delete_elsewhere k i skip [] = Some []"
| "delete_elsewhere k i skip (b # bs) =
     (if skip = Some 0 then map_option ((#) b) (delete_elsewhere k i None bs)
      else case delete_if_byindex k i b of None \<Rightarrow> None
        | Some (True, b1) \<Rightarrow> Some (b1 # bs)
        | Some (False, b1) \<Rightarrow>
            map_option ((#) b1) (delete_elsewhere k i (map_option (\<lambda>n. n - 1) skip) bs))"

subsection \<open>Address and state of interfaces\<close>

text \<open>\<^verbatim>\<open>check_mac_address\<close>: the new address if it is known and differs.\<close>

definition check_mac_address :: "kernel \<Rightarrow> string \<Rightarrow> 48 word \<Rightarrow> 48 word option" where
  "check_mac_address k name addr =
     (case get_hwaddr k name of None \<Rightarrow> None
      | Some temp_addr \<Rightarrow> if temp_addr = addr then None else Some temp_addr)"

definition set_br_address :: "kernel \<Rightarrow> bridge_sys \<Rightarrow> bridge_sys option" where
  "set_br_address k b =
     (case check_mac_address k (br_name b) (br_macaddr b) of None \<Rightarrow> Some b
      | Some mac \<Rightarrow>
          on_protocol (MSTP_IN_set_bridge_address (passes k At_address (br_if_index b)) mac)
            (b\<lparr>br_macaddr := mac\<rparr>))"

definition set_br_up :: "kernel \<Rightarrow> bool \<Rightarrow> bridge_sys \<Rightarrow> bridge_sys option" where
  "set_br_up k up b =
     (let changed = (up \<noteq> br_up b)
      in case set_br_address k (if changed then b\<lparr>br_up := up\<rparr> else b) of None \<Rightarrow> None
         | Some b1 \<Rightarrow>
             if changed
             then on_protocol (MSTP_IN_set_bridge_enable (passes k At_enable (br_if_index b)) (br_up b1)) b1
             else Some b1)"

text \<open>The speed and duplex an interface that is up gets, and whether anything differs.\<close>

definition link_params :: "kernel \<Rightarrow> string \<Rightarrow> int \<times> int" where
  "link_params k name =
     (case ethtool_get_speed_duplex k name of None \<Rightarrow> (10, 0)
      | Some (speed, duplex) \<Rightarrow>
          (if speed < 0 then 10 else speed, if duplex < 0 then 0 else duplex))"

definition set_if_up :: "kernel \<Rightarrow> bool \<Rightarrow> nat \<Rightarrow> bridge_sys \<Rightarrow> bridge_sys option" where
  "set_if_up k up p b =
     (case (case check_mac_address k (port_name (port_of b p)) (if_macaddr (br_ifs b ! p)) of
              None \<Rightarrow> Some b
            | Some mac \<Rightarrow> set_br_address k (upd_if p (if_macaddr_update (\<lambda>_. mac)) b)) of
        None \<Rightarrow> None
      | Some b1 \<Rightarrow>
          let prt = port_of b1 p; was_up = if_up (br_ifs b1 ! p);
              (speed, duplex) = (if up then link_params k (port_name prt)
                                 else (port_speed prt, port_duplex prt));
              changed = (if up then speed \<noteq> port_speed prt \<or> duplex \<noteq> port_duplex prt \<or> \<not> was_up
                         else was_up);
              b2 = upd_if p (if_up_update (\<lambda>_. up)) (b1\<lparr>protocol :=
                     upd_port p (\<lambda>prt. prt\<lparr>port_speed := speed, port_duplex := duplex\<rparr>) (protocol b1)\<rparr>)
          in if changed
             then on_protocol (MSTP_IN_set_port_enable (passes k At_port_enable (if_index (br_ifs b ! p)))
                                 p up speed duplex) b2
             else Some b2)"

subsection \<open>Notifications\<close>

text \<open>
  \<^verbatim>\<open>bridge_notify\<close> for a port of the bridge at position \<open>n\<close>: \<open>attach_if\<close> is the part that gives an
  unknown interface to the bridge, after taking it from another one.
\<close>

definition attach_if :: "kernel \<Rightarrow> int \<Rightarrow> nat \<Rightarrow> mstpd \<Rightarrow> (bool \<times> mstpd) option" where
  "attach_if k i n bs =
     (case delete_elsewhere k i (Some n) bs of None \<Rightarrow> None
      | Some bs1 \<Rightarrow>
          (case create_if k i (bs1 ! n) of None \<Rightarrow> None
           | Some None \<Rightarrow> Some (False, bs1)
           | Some (Some b) \<Rightarrow> Some (True, bs1[n := b])))"

definition notify_slave :: "kernel \<Rightarrow> nat \<Rightarrow> int \<Rightarrow> bool \<Rightarrow> bool \<Rightarrow> mstpd \<Rightarrow> (int \<times> mstpd) option" where
  "notify_slave k n i newlink running bs =
     (case find_if i (bs ! n) of
        Some p \<Rightarrow>
          if \<not> newlink then map_option (Pair 0) (on_bridge n (delete_if k p) bs)
          else map_option (Pair 0) (on_bridge n (set_if_up k running p) bs)
      | None \<Rightarrow>
          if \<not> newlink then Some (- 1, bs)
          else (case attach_if k i n bs of None \<Rightarrow> None
            | Some (False, bs1) \<Rightarrow> Some (- 1, bs1)
            | Some (True, bs1) \<Rightarrow>
                map_option (Pair 0)
                  (on_bridge n (set_if_up k running (length (br_ifs (bs1 ! n)) - 1)) bs1)))"

definition bridge_notify :: "kernel \<Rightarrow> int \<Rightarrow> int \<Rightarrow> bool \<Rightarrow> u32 \<Rightarrow> mstpd \<Rightarrow> (int \<times> mstpd) option" where
  "bridge_notify k br_index i newlink flgs bs =
     (let up = bit flgs IFF_UP; running = (up \<and> bit flgs IFF_RUNNING)
      in if br_index \<ge> 0 \<and> br_index \<noteq> i then
           (case find_br br_index bs of None \<Rightarrow> Some (- 2, bs)
            | Some n \<Rightarrow>
                let br_flags = get_flags k (br_name (bs ! n))
                in case (if br_flags \<ge> 0 then on_bridge n (set_br_up k (bit br_flags IFF_UP)) bs else Some bs) of
                     None \<Rightarrow> None
                   | Some bs1 \<Rightarrow> notify_slave k n i newlink running bs1)
         else if \<not> newlink then
           (case delete_br_byindex i bs of None \<Rightarrow> None
            | Some (True, bs1) \<Rightarrow> Some (0, bs1)
            | Some (False, bs1) \<Rightarrow> map_option (Pair 0) (delete_elsewhere k i None bs1))
         else if br_index = i then
           (case find_br br_index bs of None \<Rightarrow> Some (- 2, bs)
            | Some n \<Rightarrow> map_option (Pair 0) (on_bridge n (set_br_up k up) bs))
         else Some (0, bs))"

definition bridge_one_second :: "kernel \<Rightarrow> mstpd \<Rightarrow> mstpd option" where
  "bridge_one_second k bs =
     those (map (\<lambda>b. on_protocol (MSTP_IN_one_second (passes k At_second (br_if_index b))) b) bs)"

definition bridge_track_fini :: "kernel \<Rightarrow> mstpd \<Rightarrow> mstpd option" where
  "bridge_track_fini k bs = those (map (set_br_up k False) bs)"

subsection \<open>Frames\<close>

record llc_header =
  dest_addr :: "48 word"
  src_addr :: "48 word"
  len8023 :: u16
  d_sap :: u8
  s_sap :: u8
  llc_ctrl :: u8

abbreviation (input) LLC_PDU_LEN_U :: int where "LLC_PDU_LEN_U \<equiv> 3"
abbreviation (input) LLC_PDU_TYPE_U :: u8 where "LLC_PDU_TYPE_U \<equiv> 3"
abbreviation (input) LLC_SAP_BSPAN :: u8 where "LLC_SAP_BSPAN \<equiv> 0x42"
abbreviation (input) SIZEOF_LLC_HEADER :: int where "SIZEOF_LLC_HEADER \<equiv> 17"
abbreviation (input) ETH_DATA_LEN :: int where "ETH_DATA_LEN \<equiv> 1500"
abbreviation (input) ETH_HLEN :: int where "ETH_HLEN \<equiv> 14"

definition bridge_group_address :: "48 word" where
  "bridge_group_address = 0x0180C2000000"

text \<open>The header \<^verbatim>\<open>MSTP_OUT_tx_bpdu\<close> puts before a BPDU of \<open>size\<close> octets.\<close>

definition tx_header :: "48 word \<Rightarrow> int \<Rightarrow> llc_header" where
  "tx_header mac sz =
     \<lparr>dest_addr = bridge_group_address, src_addr = mac, len8023 = of_int (sz + LLC_PDU_LEN_U),
      d_sap = LLC_SAP_BSPAN, s_sap = LLC_SAP_BSPAN, llc_ctrl = LLC_PDU_TYPE_U\<rparr>"

fun find_rcv_port :: "int \<Rightarrow> mstpd \<Rightarrow> (nat \<times> nat) option" where
  "find_rcv_port i [] = None"
| "find_rcv_port i (b # bs) =
     (case find_if i b of Some p \<Rightarrow> Some (0, p)
      | None \<Rightarrow> map_option (\<lambda>(n, p). (Suc n, p)) (find_rcv_port i bs))"

text \<open>
  The tests of the header: \<^verbatim>\<open>len\<close> is an \<^verbatim>\<open>int\<close>, compared with unsigned numbers. The length
  field is the number it stands for in network order.
\<close>

definition llc_frame_ok :: "llc_header \<Rightarrow> int \<Rightarrow> bool" where
  "llc_frame_ok h len \<longleftrightarrow>
     as_size_t len > SIZEOF_LLC_HEADER \<and> dest_addr h = bridge_group_address
     \<and> uint (len8023 h) \<le> ETH_DATA_LEN \<and> uint (len8023 h) \<le> as_size_t (len - ETH_HLEN)
     \<and> uint (len8023 h) \<ge> LLC_PDU_LEN_U
     \<and> d_sap h = LLC_SAP_BSPAN \<and> s_sap h = LLC_SAP_BSPAN \<and> llc_ctrl h AND 3 = LLC_PDU_TYPE_U"

definition bridge_bpdu_rcv :: "kernel \<Rightarrow> int \<Rightarrow> llc_header \<Rightarrow> bpdu_t \<Rightarrow> int \<Rightarrow> mstpd \<Rightarrow> mstpd option" where
  "bridge_bpdu_rcv k i h b len bs =
     (case find_rcv_port i bs of None \<Rightarrow> Some bs
      | Some (n, p) \<Rightarrow>
          if \<not> if_up (br_ifs (bs ! n) ! p) then Some bs
          else if \<not> llc_frame_ok h len then Some bs
          else on_bridge n (on_protocol (MSTP_IN_rx_bpdu (passes k At_frame i) p b
                 (uint (len8023 h) - LLC_PDU_LEN_U))) bs)"

text \<open>\<^verbatim>\<open>packet_rcv\<close>: \<open>cc\<close> is the result of \<^verbatim>\<open>recvfrom\<close>.\<close>

definition packet_rcv :: "kernel \<Rightarrow> int \<Rightarrow> llc_header \<Rightarrow> bpdu_t \<Rightarrow> int \<Rightarrow> mstpd \<Rightarrow> mstpd option" where
  "packet_rcv k i h b cc bs = (if cc \<le> 0 then Some bs else bridge_bpdu_rcv k i h b cc bs)"

end
