(* ===== verification/MSTP_Control.thy ===== *)
theory MSTP_Control
  imports MSTP_Track
begin

section \<open>The commands of the control program (\<^verbatim>\<open>CTL_...\<close> of \<^verbatim>\<open>bridge_track.c\<close>)\<close>

text \<open>
  Every command names a bridge, and a port or tree where it concerns one, by number; if there is none
  the answer is -1 and nothing changes. What reads returns \<^term>\<open>None\<close> for -1. What changes a bridge
  returns the result of the protocol's entry point and the new list; \<^term>\<open>None\<close> is again a call that
  does not return, and \<open>clk\<close> the number of passes the clock allows.
\<close>

subsection \<open>The checks\<close>

definition CTL_CHECK_BRIDGE_PORT :: "int \<Rightarrow> int \<Rightarrow> mstpd \<Rightarrow> (nat \<times> nat) option" where
  "CTL_CHECK_BRIDGE_PORT br_index port_index bs =
     (case find_br br_index bs of None \<Rightarrow> None
      | Some n \<Rightarrow> map_option (Pair n) (find_if port_index (bs ! n)))"

definition CTL_CHECK_BRIDGE_TREE :: "int \<Rightarrow> u16 \<Rightarrow> mstpd \<Rightarrow> (nat \<times> nat) option" where
  "CTL_CHECK_BRIDGE_TREE br_index mstid bs =
     (case find_br br_index bs of None \<Rightarrow> None
      | Some n \<Rightarrow> map_option (Pair n) (first_index (\<lambda>t. tree_MSTID t = mstid) (trees (protocol (bs ! n)))))"

definition CTL_CHECK_BRIDGE_PERTREEPORT :: "int \<Rightarrow> int \<Rightarrow> u16 \<Rightarrow> mstpd \<Rightarrow> (nat \<times> nat \<times> nat) option" where
  "CTL_CHECK_BRIDGE_PERTREEPORT br_index port_index mstid bs =
     (case CTL_CHECK_BRIDGE_PORT br_index port_index bs of None \<Rightarrow> None
      | Some (n, p) \<Rightarrow>
          map_option (\<lambda>k. (n, p, k))
            (first_index (\<lambda>x. MSTID x = mstid) (port_trees (port_of (bs ! n) p))))"

subsection \<open>Reading\<close>

text \<open>The name of the first port of the tree with the identifier of the root port.\<close>

definition root_port_name :: "bridge_t \<Rightarrow> nat \<Rightarrow> port_identifier_t \<Rightarrow> string" where
  "root_port_name br k root_port_id =
     (case first_index (\<lambda>ptp. portId ptp = root_port_id) (tree_ptps br k) of None \<Rightarrow> []
      | Some p \<Rightarrow> port_name (port_at br p))"

definition CTL_get_cist_bridge_status :: "int \<Rightarrow> mstpd \<Rightarrow> (CIST_BridgeStatus \<times> string) option" where
  "CTL_get_cist_bridge_status br_index bs =
     map_option (\<lambda>n.
         let br = protocol (bs ! n); status = MSTP_IN_get_cist_bridge_status br
         in (status, root_port_name br 0 (cbs_root_port_id status)))
       (find_br br_index bs)"

definition CTL_get_msti_bridge_status :: "int \<Rightarrow> u16 \<Rightarrow> mstpd \<Rightarrow> (MSTI_BridgeStatus \<times> string) option" where
  "CTL_get_msti_bridge_status br_index mstid bs =
     map_option (\<lambda>(n, k).
         let br = protocol (bs ! n); status = MSTP_IN_get_msti_bridge_status (tree_at br k)
         in (status, root_port_name br k (mbs_root_port_id status)))
       (CTL_CHECK_BRIDGE_TREE br_index mstid bs)"

definition CTL_get_cist_port_status :: "int \<Rightarrow> int \<Rightarrow> mstpd \<Rightarrow> CIST_PortStatus option" where
  "CTL_get_cist_port_status br_index port_index bs =
     map_option (\<lambda>(n, p). MSTP_IN_get_cist_port_status (protocol (bs ! n)) (port_of (bs ! n) p))
       (CTL_CHECK_BRIDGE_PORT br_index port_index bs)"

definition CTL_get_msti_port_status :: "int \<Rightarrow> int \<Rightarrow> u16 \<Rightarrow> mstpd \<Rightarrow> MSTI_PortStatus option" where
  "CTL_get_msti_port_status br_index port_index mstid bs =
     map_option (\<lambda>(n, p, k). MSTP_IN_get_msti_port_status (protocol (bs ! n)) (ptp_at (protocol (bs ! n)) p k))
       (CTL_CHECK_BRIDGE_PERTREEPORT br_index port_index mstid bs)"

definition CTL_get_mstilist :: "int \<Rightarrow> mstpd \<Rightarrow> u16 list option" where
  "CTL_get_mstilist br_index bs =
     map_option (\<lambda>n. MSTP_IN_get_mstilist (protocol (bs ! n))) (find_br br_index bs)"

definition CTL_get_mstconfid :: "int \<Rightarrow> mstpd \<Rightarrow> mst_configuration_identifier_t option" where
  "CTL_get_mstconfid br_index bs =
     map_option (\<lambda>n. MstConfigId (protocol (bs ! n))) (find_br br_index bs)"

definition CTL_get_vids2fids :: "int \<Rightarrow> mstpd \<Rightarrow> u16 list option" where
  "CTL_get_vids2fids br_index bs =
     map_option (\<lambda>n. map (vid2fid (protocol (bs ! n))) [0..<MAX_VID + 1]) (find_br br_index bs)"

definition CTL_get_fids2mstids :: "int \<Rightarrow> mstpd \<Rightarrow> u16 list option" where
  "CTL_get_fids2mstids br_index bs =
     map_option (\<lambda>n. map (fid2mstid (protocol (bs ! n))) [0..<MAX_FID + 1]) (find_br br_index bs)"

definition CTL_bridge_is_added :: "int \<Rightarrow> mstpd \<Rightarrow> bool" where
  "CTL_bridge_is_added br_index bs \<longleftrightarrow> find_br br_index bs \<noteq> None"

definition CTL_bridge_port_is_added :: "int \<Rightarrow> int \<Rightarrow> mstpd \<Rightarrow> bool" where
  "CTL_bridge_port_is_added br_index port_index bs \<longleftrightarrow>
     (case find_br br_index bs of None \<Rightarrow> False | Some n \<Rightarrow> find_if port_index (bs ! n) \<noteq> None)"

subsection \<open>Changing a bridge\<close>

definition ctl_call :: "(bridge_t \<Rightarrow> (int \<times> bridge_t) option) \<Rightarrow> nat \<Rightarrow> mstpd \<Rightarrow> (int \<times> mstpd) option" where
  "ctl_call f n bs =
     map_option (\<lambda>(r, t). (r, bs[n := (bs ! n)\<lparr>protocol := t\<rparr>])) (f (protocol (bs ! n)))"

text \<open>The conversion \<^verbatim>\<open>? 0 : -1\<close> of a result.\<close>

definition code_of :: "bool \<times> bridge_t \<Rightarrow> int \<times> bridge_t" where
  "code_of = (\<lambda>(ok, t). (if ok then 0 else - 1, t))"

definition CTL_set_cist_bridge_config :: "nat \<Rightarrow> int \<Rightarrow> CIST_BridgeConfig \<Rightarrow> mstpd \<Rightarrow> (int \<times> mstpd) option" where
  "CTL_set_cist_bridge_config clk br_index cfg bs =
     (case find_br br_index bs of None \<Rightarrow> Some (- 1, bs)
      | Some n \<Rightarrow> ctl_call (MSTP_IN_set_cist_bridge_config clk cfg) n bs)"

definition CTL_set_msti_bridge_config :: "int \<Rightarrow> u16 \<Rightarrow> u8 \<Rightarrow> mstpd \<Rightarrow> (int \<times> mstpd) option" where
  "CTL_set_msti_bridge_config br_index mstid bridge_priority bs =
     (case CTL_CHECK_BRIDGE_TREE br_index mstid bs of None \<Rightarrow> Some (- 1, bs)
      | Some (n, k) \<Rightarrow> ctl_call (\<lambda>br. Some (MSTP_IN_set_msti_bridge_config k bridge_priority br)) n bs)"

definition CTL_set_cist_port_config ::
  "nat \<Rightarrow> int \<Rightarrow> int \<Rightarrow> CIST_PortConfig \<Rightarrow> mstpd \<Rightarrow> (int \<times> mstpd) option" where
  "CTL_set_cist_port_config clk br_index port_index cfg bs =
     (case CTL_CHECK_BRIDGE_PORT br_index port_index bs of None \<Rightarrow> Some (- 1, bs)
      | Some (n, p) \<Rightarrow> ctl_call (MSTP_IN_set_cist_port_config clk cfg p) n bs)"

definition CTL_set_msti_port_config ::
  "nat \<Rightarrow> int \<Rightarrow> int \<Rightarrow> u16 \<Rightarrow> MSTI_PortConfig \<Rightarrow> mstpd \<Rightarrow> (int \<times> mstpd) option" where
  "CTL_set_msti_port_config clk br_index port_index mstid cfg bs =
     (case CTL_CHECK_BRIDGE_PERTREEPORT br_index port_index mstid bs of None \<Rightarrow> Some (- 1, bs)
      | Some (n, p, k) \<Rightarrow> ctl_call (MSTP_IN_set_msti_port_config clk cfg p k) n bs)"

definition CTL_port_mcheck :: "nat \<Rightarrow> int \<Rightarrow> int \<Rightarrow> mstpd \<Rightarrow> (int \<times> mstpd) option" where
  "CTL_port_mcheck clk br_index port_index bs =
     (case CTL_CHECK_BRIDGE_PORT br_index port_index bs of None \<Rightarrow> Some (- 1, bs)
      | Some (n, p) \<Rightarrow> ctl_call (MSTP_IN_port_mcheck clk p) n bs)"

definition driver_create_msti :: "u16 \<Rightarrow> bool" where "driver_create_msti mstid = True"

definition driver_delete_msti :: "u16 \<Rightarrow> bool" where "driver_delete_msti mstid = True"

definition CTL_create_msti :: "nat \<Rightarrow> int \<Rightarrow> u16 \<Rightarrow> mstpd \<Rightarrow> (int \<times> mstpd) option" where
  "CTL_create_msti clk br_index mstid bs =
     (case find_br br_index bs of None \<Rightarrow> Some (- 1, bs)
      | Some n \<Rightarrow>
          if \<not> driver_create_msti mstid then Some (- 1, bs)
          else ctl_call (\<lambda>br. map_option code_of (MSTP_IN_create_msti clk mstid br)) n bs)"

definition CTL_delete_msti :: "nat \<Rightarrow> int \<Rightarrow> u16 \<Rightarrow> mstpd \<Rightarrow> (int \<times> mstpd) option" where
  "CTL_delete_msti clk br_index mstid bs =
     (case find_br br_index bs of None \<Rightarrow> Some (- 1, bs)
      | Some n \<Rightarrow>
          if \<not> driver_delete_msti mstid then Some (- 1, bs)
          else ctl_call (\<lambda>br. map_option code_of (MSTP_IN_delete_msti clk mstid br)) n bs)"

definition CTL_set_mstconfid :: "nat \<Rightarrow> int \<Rightarrow> u16 \<Rightarrow> u8 list \<Rightarrow> mstpd \<Rightarrow> (int \<times> mstpd) option" where
  "CTL_set_mstconfid clk br_index revision name bs =
     (case find_br br_index bs of None \<Rightarrow> Some (- 1, bs)
      | Some n \<Rightarrow>
          ctl_call (\<lambda>br. map_option (Pair 0) (MSTP_IN_set_mst_config_id clk revision name br)) n bs)"

definition CTL_set_vid2fid :: "nat \<Rightarrow> int \<Rightarrow> u16 \<Rightarrow> u16 \<Rightarrow> mstpd \<Rightarrow> (int \<times> mstpd) option" where
  "CTL_set_vid2fid clk br_index vid fid bs =
     (case find_br br_index bs of None \<Rightarrow> Some (- 1, bs)
      | Some n \<Rightarrow> ctl_call (\<lambda>br. map_option code_of (MSTP_IN_set_vid2fid clk vid fid br)) n bs)"

definition CTL_set_fid2mstid :: "nat \<Rightarrow> int \<Rightarrow> u16 \<Rightarrow> u16 \<Rightarrow> mstpd \<Rightarrow> (int \<times> mstpd) option" where
  "CTL_set_fid2mstid clk br_index fid mstid bs =
     (case find_br br_index bs of None \<Rightarrow> Some (- 1, bs)
      | Some n \<Rightarrow> ctl_call (\<lambda>br. map_option code_of (MSTP_IN_set_fid2mstid clk fid mstid br)) n bs)"

definition CTL_set_vids2fids :: "nat \<Rightarrow> int \<Rightarrow> (nat \<Rightarrow> u16) \<Rightarrow> mstpd \<Rightarrow> (int \<times> mstpd) option" where
  "CTL_set_vids2fids clk br_index vids2fids bs =
     (case find_br br_index bs of None \<Rightarrow> Some (- 1, bs)
      | Some n \<Rightarrow> ctl_call (\<lambda>br. map_option code_of (MSTP_IN_set_all_vids2fids clk vids2fids br)) n bs)"

definition CTL_set_fids2mstids :: "nat \<Rightarrow> int \<Rightarrow> (nat \<Rightarrow> u16) \<Rightarrow> mstpd \<Rightarrow> (int \<times> mstpd) option" where
  "CTL_set_fids2mstids clk br_index fids2mstids bs =
     (case find_br br_index bs of None \<Rightarrow> Some (- 1, bs)
      | Some n \<Rightarrow> ctl_call (\<lambda>br. map_option code_of (MSTP_IN_set_all_fids2mstids clk fids2mstids br)) n bs)"

subsection \<open>Adding and deleting bridges\<close>

text \<open>
  \<^verbatim>\<open>CTL_add_bridges\<close> gets bridges with their complete lists of interfaces. For each bridge, ports
  not in the list are deleted (\<open>delete_unlisted\<close> looks at \<open>m\<close> ports from position \<open>p\<close> on), then the
  interfaces that are not yet ports are attached.
\<close>

fun delete_unlisted :: "kernel \<Rightarrow> int list \<Rightarrow> nat \<Rightarrow> nat \<Rightarrow> bridge_sys \<Rightarrow> bridge_sys option" where
  "delete_unlisted k if_array 0 p b = Some b"
| "delete_unlisted k if_array (Suc m) p b =
     (if if_index (br_ifs b ! p) \<in> set if_array then delete_unlisted k if_array m (Suc p) b
      else case delete_if k p b of None \<Rightarrow> None
        | Some b1 \<Rightarrow> delete_unlisted k if_array m p b1)"

definition add_iface :: "kernel \<Rightarrow> nat \<Rightarrow> int \<Rightarrow> mstpd \<Rightarrow> mstpd option" where
  "add_iface k n i bs =
     (if find_if i (bs ! n) \<noteq> None then Some bs
      else case attach_if k i n bs of None \<Rightarrow> None
        | Some (False, bs1) \<Rightarrow> Some bs1
        | Some (True, bs1) \<Rightarrow>
            let p = length (br_ifs (bs1 ! n)) - 1; if_flags = get_flags k (port_name (port_of (bs1 ! n) p))
            in if 0 \<le> if_flags
               then on_bridge n (set_if_up k (bit if_flags IFF_UP \<and> bit if_flags IFF_RUNNING) p) bs1
               else Some bs1)"

fun add_ifaces :: "kernel \<Rightarrow> nat \<Rightarrow> int list \<Rightarrow> mstpd \<Rightarrow> mstpd option" where
  "add_ifaces k n [] bs = Some bs"
| "add_ifaces k n (i # is) bs =
     (case add_iface k n i bs of None \<Rightarrow> None | Some bs1 \<Rightarrow> add_ifaces k n is bs1)"

text \<open>\<^term>\<open>Some None\<close>: the bridge could not be created.\<close>

definition find_or_create_br :: "kernel \<Rightarrow> int \<Rightarrow> mstpd \<Rightarrow> (nat \<times> mstpd) option option" where
  "find_or_create_br k i bs =
     (case find_br i bs of Some n \<Rightarrow> Some (Some (n, bs))
      | None \<Rightarrow>
          (case create_br k i bs of None \<Rightarrow> Some None
           | Some bs1 \<Rightarrow>
               let n = length bs; br_flags = get_flags k (br_name (bs1 ! n))
               in map_option (\<lambda>bs2. Some (n, bs2))
                    (if 0 \<le> br_flags then on_bridge n (set_br_up k (bit br_flags IFF_UP)) bs1
                     else Some bs1)))"

fun CTL_add_bridges :: "kernel \<Rightarrow> (int \<times> int list) list \<Rightarrow> mstpd \<Rightarrow> (int \<times> mstpd) option" where
  "CTL_add_bridges k [] bs = Some (0, bs)"
| "CTL_add_bridges k ((i, if_array) # rest) bs =
     (case find_or_create_br k i bs of None \<Rightarrow> None
      | Some None \<Rightarrow> Some (- 1, bs)
      | Some (Some (n, bs1)) \<Rightarrow>
          (case on_bridge n (\<lambda>b. delete_unlisted k if_array (length (br_ifs b)) 0 b) bs1 of None \<Rightarrow> None
           | Some bs2 \<Rightarrow>
               (case add_ifaces k n if_array bs2 of None \<Rightarrow> None
                | Some bs3 \<Rightarrow> CTL_add_bridges k rest bs3)))"

fun CTL_del_bridges :: "int list \<Rightarrow> mstpd \<Rightarrow> mstpd option" where
  "CTL_del_bridges [] bs = Some bs"
| "CTL_del_bridges (i # is) bs =
     (case delete_br_byindex i bs of None \<Rightarrow> None | Some (_, bs1) \<Rightarrow> CTL_del_bridges is bs1)"

section \<open>The daemon\<close>

text \<open>
  What the daemon's loop reacts to. A step is one call from the loop; the result codes go to the
  caller of the control program, or are ignored.
\<close>

datatype track_event =
    Notify int int bool u32
  | Frame int llc_header bpdu_t int
  | Second
  | Add_bridges "(int \<times> int list) list"
  | Del_bridges "int list"
  | Cist_bridge_config nat int CIST_BridgeConfig
  | Msti_bridge_config int u16 u8
  | Cist_port_config nat int int CIST_PortConfig
  | Msti_port_config nat int int u16 MSTI_PortConfig
  | Mcheck nat int int
  | New_msti nat int u16
  | Drop_msti nat int u16
  | Mstconfid nat int u16 "u8 list"
  | Vid2fid nat int u16 u16
  | Fid2mstid nat int u16 u16
  | Vids2fids nat int "nat \<Rightarrow> u16"
  | Fids2mstids nat int "nat \<Rightarrow> u16"
  | Fini

fun track_step :: "kernel \<Rightarrow> track_event \<Rightarrow> mstpd \<Rightarrow> mstpd option" where
  "track_step k (Notify m i newlink flgs) bs = map_option snd (bridge_notify k m i newlink flgs bs)"
| "track_step k (Frame i h b cc) bs = packet_rcv k i h b cc bs"
| "track_step k Second bs = bridge_one_second k bs"
| "track_step k (Add_bridges l) bs = map_option snd (CTL_add_bridges k l bs)"
| "track_step k (Del_bridges l) bs = CTL_del_bridges l bs"
| "track_step k (Cist_bridge_config clk m cfg) bs = map_option snd (CTL_set_cist_bridge_config clk m cfg bs)"
| "track_step k (Msti_bridge_config m t pri) bs = map_option snd (CTL_set_msti_bridge_config m t pri bs)"
| "track_step k (Cist_port_config clk m i cfg) bs = map_option snd (CTL_set_cist_port_config clk m i cfg bs)"
| "track_step k (Msti_port_config clk m i t cfg) bs = map_option snd (CTL_set_msti_port_config clk m i t cfg bs)"
| "track_step k (Mcheck clk m i) bs = map_option snd (CTL_port_mcheck clk m i bs)"
| "track_step k (New_msti clk m t) bs = map_option snd (CTL_create_msti clk m t bs)"
| "track_step k (Drop_msti clk m t) bs = map_option snd (CTL_delete_msti clk m t bs)"
| "track_step k (Mstconfid clk m r name) bs = map_option snd (CTL_set_mstconfid clk m r name bs)"
| "track_step k (Vid2fid clk m vid fid) bs = map_option snd (CTL_set_vid2fid clk m vid fid bs)"
| "track_step k (Fid2mstid clk m fid t) bs = map_option snd (CTL_set_fid2mstid clk m fid t bs)"
| "track_step k (Vids2fids clk m f) bs = map_option snd (CTL_set_vids2fids clk m f bs)"
| "track_step k (Fids2mstids clk m f) bs = map_option snd (CTL_set_fids2mstids clk m f bs)"
| "track_step k Fini bs = bridge_track_fini k bs"

inductive mstpd_reachable :: "mstpd \<Rightarrow> bool" where
  start: "mstpd_reachable []"
| step: "mstpd_reachable bs \<Longrightarrow> track_step k e bs = Some bs' \<Longrightarrow> mstpd_reachable bs'"

end
