(* ===== verification/MSTP_Static.thy ===== *)
theory MSTP_Static
  imports MSTP_Control
begin

section \<open>What the entry points leave alone: the number of ports and whether the bridge is enabled\<close>

definition static :: "bridge_t \<Rightarrow> nat \<times> bool" where
  "static br = (length (ports br), bridgeEnabled br)"

lemma frame_static: "frame t = frame br \<Longrightarrow> static t = static br"
proof -
  assume f: "frame t = frame br"
  have "length (map port_shape (ports t)) = length (map port_shape (ports br))"
    by (simp only: frame_fields(2) [OF f])
  then show ?thesis
    using same_config(4) [OF frame_fields(3) [OF f]] by (simp add: static_def)
qed

lemma run_static: "br_state_machines_run clk br = Some t \<Longrightarrow> static t = static br"
  by (rule frame_static [OF run_frame])

lemma begin_static:
  "br_state_machines_begin clk br = Some t \<Longrightarrow> static t = static br"
  "prt_state_machines_begin clk p br = Some t \<Longrightarrow> static t = static br"
  "tree_state_machines_begin clk n br = Some t \<Longrightarrow> static t = static br"
  by (auto intro: frame_static begins_frame)

lemmas machines_static = run_static begin_static

lemma static_simps [simp]:
  "static (upd_port p f br) = static br" "static (upd_tree n g br) = static br"
  "static (trees_update h br) = static br" "static (map_tree_ptps n x br) = static br"
  "static (ports_update (map f) br) = static br" "static (RecalcConfigDigest br) = static br"
  by (simp_all add: static_def upd_port_def upd_tree_def map_tree_ptps_def RecalcConfigDigest_def Let_def)

lemma static_fields [simp]:
  "static (br\<lparr>vid2fid := v\<rparr>) = static br" "static (br\<lparr>fid2mstid := v'\<rparr>) = static br"
  "static (br\<lparr>MstConfigId := i\<rparr>) = static br" "static (br\<lparr>uptime := n\<rparr>) = static br"
  by (simp_all add: static_def)

lemma static_set_bridge_address:
  "MSTP_IN_set_bridge_address clk mac br = Some t \<Longrightarrow> static t = static br"
  by (auto simp: MSTP_IN_set_bridge_address_def Let_def dest!: machines_static split: if_splits)

lemma static_set_bridge_enable:
  assumes "MSTP_IN_set_bridge_enable clk up br = Some t"
  shows "static t = (length (ports br), up)"
proof (cases "bridgeEnabled br = up")
  case False
  with assms have "br_state_machines_begin clk
       (br\<lparr>bridgeEnabled := up, uptime := 0,
           trees := map tree_default_internal_vars (trees br),
           ports := map (reset_port (Ageing_Time br)) (ports br)\<rparr>) = Some t"
    by (simp add: MSTP_IN_set_bridge_enable_def)
  from begin_static(1) [OF this] show ?thesis by (simp add: static_def)
qed (use assms in \<open>simp add: MSTP_IN_set_bridge_enable_def static_def\<close>)

lemma static_set_port_enable:
  "MSTP_IN_set_port_enable clk p up speed duplex br = Some t \<Longrightarrow> static t = static br"
  unfolding MSTP_IN_set_port_enable_def Let_def case_prod_beta
  by (auto dest!: machines_static split: if_splits)

lemma static_for_ports:
  assumes "\<And>p b. static (f p b) = static b"
  shows "static (for_ports f br) = static br"
proof -
  have "static (fold f ps b) = static b" for ps b
    by (induction ps arbitrary: b) (simp_all add: assms)
  then show ?thesis by (simp add: for_ports_def)
qed

lemma static_one_second:
  assumes "MSTP_IN_one_second clk br = Some t"
  shows "static t = static br"
proof -
  have "static (for_ports (\<lambda>p b. upd_port p (rapid_ageing_tick (Ageing_Time b)) (PTSM_tick p b)) b) = static b" for b
    by (rule static_for_ports) (simp add: frame_static [of "PTSM_tick _ _"])
  with assms show ?thesis
    by (auto simp: MSTP_IN_one_second_def Let_def dest!: machines_static split: if_splits)
qed

lemma static_rx_bpdu: "MSTP_IN_rx_bpdu clk p b n br = Some t \<Longrightarrow> static t = static br"
  unfolding MSTP_IN_rx_bpdu_def Let_def
  by (auto dest!: machines_static split: if_splits option.splits)

lemma static_set_cist_bridge_config:
  assumes "MSTP_IN_set_cist_bridge_config clk cfg br = Some (r, t)"
  shows "static t = static br"
  using assms
proof (cases rule: set_cist_bridge_config_cases)
  case (accepted b)
  have "static b = static br"
    using frame_static [OF accepted(3)] by (simp add: static_def with_params_def)
  with accepted(4) show ?thesis by (auto dest!: machines_static)
qed simp

lemma static_set_msti_bridge_config:
  "static (snd (MSTP_IN_set_msti_bridge_config n pri br)) = static br"
  by (simp add: MSTP_IN_set_msti_bridge_config_def Let_def)

lemma static_set_cist_port_config:
  "MSTP_IN_set_cist_port_config clk cfg p br = Some (r, t) \<Longrightarrow> static t = static br"
  unfolding MSTP_IN_set_cist_port_config_def Let_def case_prod_beta
  by (auto dest!: machines_static split: if_splits)

lemma static_set_msti_port_config:
  "MSTP_IN_set_msti_port_config clk cfg p n br = Some (r, t) \<Longrightarrow> static t = static br"
  unfolding MSTP_IN_set_msti_port_config_def Let_def case_prod_beta
  by (auto dest!: machines_static split: if_splits)

lemma static_port_mcheck: "MSTP_IN_port_mcheck clk p br = Some (r, t) \<Longrightarrow> static t = static br"
  unfolding MSTP_IN_port_mcheck_def by (auto dest!: machines_static split: if_splits)

lemma static_remap: "remap clk ch br = Some (r, t) \<Longrightarrow> static t = static br"
  by (auto simp: remap_def dest!: machines_static split: if_splits)

lemma static_set_vid2fid: "MSTP_IN_set_vid2fid clk vid fid br = Some (r, t) \<Longrightarrow> static t = static br"
  unfolding MSTP_IN_set_vid2fid_def by (auto dest!: static_remap split: if_splits)

lemma static_set_fid2mstid: "MSTP_IN_set_fid2mstid clk fid m br = Some (r, t) \<Longrightarrow> static t = static br"
  unfolding MSTP_IN_set_fid2mstid_def by (auto dest!: static_remap split: if_splits)

lemma static_set_all_vids2fids:
  assumes "MSTP_IN_set_all_vids2fids clk f br = Some (r, t)"
  shows "static t = static br"
  using static_remap [OF assms [unfolded MSTP_IN_set_all_vids2fids_def Let_def]]
  by (simp only: static_fields)

lemma static_set_all_fids2mstids:
  assumes "MSTP_IN_set_all_fids2mstids clk f br = Some (r, t)"
  shows "static t = static br"
proof -
  from assms consider "t = br" | g ch where "remap clk ch (br\<lparr>fid2mstid := g\<rparr>) = Some (r, t)"
    unfolding MSTP_IN_set_all_fids2mstids_def Let_def by (simp only: split: if_split_asm) blast+
  then show ?thesis by cases (auto dest!: static_remap)
qed

lemma static_create_msti: "MSTP_IN_create_msti clk m br = Some (r, t) \<Longrightarrow> static t = static br"
proof -
  have "static (add_tree m i br) = static br" for i by (simp add: static_def add_tree_def Let_def)
  then show "MSTP_IN_create_msti clk m br = Some (r, t) \<Longrightarrow> static t = static br"
    unfolding MSTP_IN_create_msti_def
    by (auto dest!: machines_static split: if_splits option.splits)
qed

lemma static_delete_msti:
  assumes "MSTP_IN_delete_msti clk m br = Some (r, t)"
  shows "static t = static br"
proof -
  have rem: "static (remove_tree i br) = static br" for i by (simp add: static_def remove_tree_def)
  from assms consider "t = br" | i where "br_state_machines_run clk (remove_tree i br) = Some t"
    unfolding MSTP_IN_delete_msti_def
    by (simp only: option.inject prod.inject map_option_eq_Some split: if_split_asm option.split_asm) blast+
  then show ?thesis by cases (auto dest!: machines_static simp: rem)
qed

lemma static_set_mst_config_id:
  "MSTP_IN_set_mst_config_id clk r name br = Some t \<Longrightarrow> static t = static br"
  unfolding MSTP_IN_set_mst_config_id_def Let_def by (auto dest!: machines_static split: if_splits)

subsection \<open>Creation and deletion of ports\<close>

lemma static_port_create:
  assumes "MSTP_IN_port_create_and_add_tail clk prt n br = Some t"
  shows "static t = (Suc (length (ports br)), bridgeEnabled br)"
  using assms unfolding MSTP_IN_port_create_and_add_tail_def Let_def
  by (auto dest!: machines_static simp: static_def)

lemma length_remove_nth: "i < length xs \<Longrightarrow> length (remove_nth i xs) = length xs - 1"
  by (simp add: remove_nth_def)

lemma static_delete_port:
  assumes "MSTP_IN_delete_port clk clk' p br = Some t" "p < length (ports br)"
  shows "static t = (length (ports br) - 1, bridgeEnabled br)"
proof -
  let ?br1 = "upd_port p (\<lambda>prt. prt\<lparr>deleted := True\<rparr>) br"
  from assms(1) obtain br2 where br2: "(if portEnabled (port_at ?br1 p)
      then br_state_machines_run clk (upd_port p (\<lambda>prt. prt\<lparr>portEnabled := False\<rparr>) ?br1)
      else Some ?br1) = Some br2"
    and t: "br_state_machines_run clk' (ports_update (remove_nth p) br2) = Some t"
    by (auto simp: MSTP_IN_delete_port_def Let_def split: bind_splits)
  from br2 have s2: "static br2 = static br"
    by (cases "portEnabled (port_at ?br1 p)") (auto dest!: machines_static)
  with assms(2) have "static (ports_update (remove_nth p) br2) = (length (ports br) - 1, bridgeEnabled br)"
    by (simp add: static_def length_remove_nth)
  with run_static [OF t] show ?thesis by simp
qed

end
