(* ===== verification/MSTP_Tracking.thy ===== *)
theory MSTP_Tracking
  imports MSTP_Static
begin

section \<open>The invariant of the list of bridges\<close>

text \<open>
  Every bridge is well formed, has one \<^verbatim>\<open>sysdeps\<close> entry per port, and runs the protocol exactly if
  its interface is up; no two bridges have the same number, and no interface is a port twice.
\<close>

definition if_indices :: "bridge_sys \<Rightarrow> int list" where
  "if_indices b = map if_index (br_ifs b)"

definition bridge_sys_ok :: "bridge_sys \<Rightarrow> bool" where
  "bridge_sys_ok b \<longleftrightarrow> bridge_ok (protocol b) \<and> static (protocol b) = (length (br_ifs b), br_up b)
     \<and> distinct (if_indices b)"

definition differ :: "bridge_sys \<Rightarrow> bridge_sys \<Rightarrow> bool" where
  "differ a b \<longleftrightarrow> br_if_index a \<noteq> br_if_index b \<and> set (if_indices a) \<inter> set (if_indices b) = {}"

definition track_ok :: "mstpd \<Rightarrow> bool" where
  "track_ok bs \<longleftrightarrow> list_all bridge_sys_ok bs \<and> sorted_wrt differ bs"

text \<open>The bridge an interface belongs to.\<close>

fun owner :: "mstpd \<Rightarrow> int \<Rightarrow> int option" where
  "owner [] i = None"
| "owner (b # bs) i = (if i \<in> set (if_indices b) then Some (br_if_index b) else owner bs i)"

definition br_ids :: "mstpd \<Rightarrow> int set" where
  "br_ids bs = set (map br_if_index bs)"

subsection \<open>Finding\<close>

lemma first_index_Some:
  "first_index P xs = Some n \<Longrightarrow> n < length xs \<and> P (xs ! n)"
  by (induction xs arbitrary: n) (auto split: if_splits)

lemma first_index_None: "first_index P xs = None \<longleftrightarrow> (\<forall>x \<in> set xs. \<not> P x)"
  by (induction xs) auto

lemma find_br_Some: "find_br i bs = Some n \<Longrightarrow> n < length bs \<and> br_if_index (bs ! n) = i"
  unfolding find_br_def by (drule first_index_Some) simp

lemma find_br_None: "find_br i bs = None \<longleftrightarrow> i \<notin> br_ids bs"
  by (auto simp: find_br_def first_index_None br_ids_def)

lemma find_if_Some: "find_if i b = Some p \<Longrightarrow> p < length (br_ifs b) \<and> if_index (br_ifs b ! p) = i"
  unfolding find_if_def by (drule first_index_Some) simp

lemma find_if_None: "find_if i b = None \<longleftrightarrow> i \<notin> set (if_indices b)"
  by (auto simp: find_if_def first_index_None if_indices_def)

lemma differ_sym: "differ a b = differ b a"
  by (auto simp: differ_def)

lemma owner_nth:
  assumes "sorted_wrt differ bs" "n < length bs" "i \<in> set (if_indices (bs ! n))"
  shows "owner bs i = Some (br_if_index (bs ! n))"
  using assms by (induction bs arbitrary: n) (auto simp: nth_Cons' differ_def split: if_splits)

lemma owner_None: "owner bs i = None \<longleftrightarrow> (\<forall>b \<in> set bs. i \<notin> set (if_indices b))"
  by (induction bs) auto

lemma owner_Some:
  "owner bs i = Some m \<Longrightarrow> \<exists>n < length bs. br_if_index (bs ! n) = m \<and> i \<in> set (if_indices (bs ! n))"
proof (induction bs)
  case (Cons b bs)
  then show ?case by (cases "i \<in> set (if_indices b)") (force simp: nth_Cons')+
qed simp

subsection \<open>Steps that move no interface but \<open>i\<close>\<close>

definition moves_only :: "int \<Rightarrow> mstpd \<Rightarrow> mstpd \<Rightarrow> bool" where
  "moves_only i = list_all2 (\<lambda>b b'. br_if_index b' = br_if_index b
     \<and> set (if_indices b') - {i} = set (if_indices b) - {i})"

lemma moves_only_refl [simp]: "moves_only i bs bs"
  by (simp add: moves_only_def list_all2_refl)

lemma moves_only_trans: "moves_only i xs ys \<Longrightarrow> moves_only i ys zs \<Longrightarrow> moves_only i xs zs"
  by (auto simp: moves_only_def list_all2_conv_all_nth)

lemma moves_only_owner: "moves_only i bs bs' \<Longrightarrow> owner bs' = (owner bs)(i := owner bs' i)"
proof (rule ext)
  fix j
  assume "moves_only i bs bs'"
  then have "j \<noteq> i \<Longrightarrow> owner bs' j = owner bs j"
    unfolding moves_only_def by (induction rule: list_all2_induct) auto
  then show "owner bs' j = ((owner bs)(i := owner bs' i)) j" by simp
qed

lemma moves_only_ids: "moves_only i bs bs' \<Longrightarrow> br_ids bs' = br_ids bs"
  unfolding moves_only_def br_ids_def by (induction rule: list_all2_induct) auto

lemma moves_only_length: "moves_only i bs bs' \<Longrightarrow> length bs' = length bs"
  unfolding moves_only_def by (auto dest: list_all2_lengthD)

lemma moves_only_nth:
  "moves_only i bs bs' \<Longrightarrow> n < length bs \<Longrightarrow> br_if_index (bs' ! n) = br_if_index (bs ! n)
    \<and> set (if_indices (bs' ! n)) - {i} = set (if_indices (bs ! n)) - {i}"
  unfolding moves_only_def by (auto dest: list_all2_nthD)

lemma moves_only_update:
  assumes "n < length bs" "br_if_index b = br_if_index (bs ! n)"
    "set (if_indices b) - {i} = set (if_indices (bs ! n)) - {i}"
  shows "moves_only i bs (bs[n := b])"
  using assms by (auto simp: moves_only_def list_all2_conv_all_nth nth_list_update)

text \<open>Steps that move no interface at all.\<close>

lemma moves_only_all_owner:
  assumes "\<And>i. moves_only i bs bs'"
  shows "owner bs' = owner bs" "br_ids bs' = br_ids bs"
proof -
  have "owner bs' j = owner bs j" for j
    using fun_cong [OF moves_only_owner [OF assms [of "j + 1"]], of j] by simp
  then show "owner bs' = owner bs" by blast
  show "br_ids bs' = br_ids bs" using moves_only_ids [OF assms] .
qed

lemma differ_mono:
  assumes "differ a x" "br_if_index b = br_if_index a" "set (if_indices b) \<subseteq> set (if_indices a)"
  shows "differ b x"
  using assms by (auto simp: differ_def)

lemma track_ok_update:
  assumes "track_ok bs" "n < length bs" "bridge_sys_ok b"
    and "\<And>m. m < length bs \<Longrightarrow> m \<noteq> n \<Longrightarrow> differ b (bs ! m)"
  shows "track_ok (bs[n := b])"
proof -
  have "list_all bridge_sys_ok (bs[n := b])"
    using assms(1,3) by (auto simp: track_ok_def list_all_iff dest!: set_update_subset_insert [THEN subsetD])
  moreover have "differ (bs[n := b] ! i) (bs[n := b] ! j)" if ij: "i < j" "j < length bs" for i j
  proof -
    consider "i = n" | "j = n" | "i \<noteq> n" "j \<noteq> n" by blast
    then show ?thesis
    proof cases
      case 2
      with ij assms(4) [of i] show ?thesis by (simp add: differ_sym [of _ b])
    qed (use assms ij in \<open>auto simp: track_ok_def sorted_wrt_iff_nth_less\<close>)
  qed
  then have "sorted_wrt differ (bs[n := b])" by (simp add: sorted_wrt_iff_nth_less)
  ultimately show ?thesis by (simp add: track_ok_def)
qed

lemma track_ok_differ:
  "track_ok bs \<Longrightarrow> m < length bs \<Longrightarrow> n < length bs \<Longrightarrow> m \<noteq> n \<Longrightarrow> differ (bs ! m) (bs ! n)"
  unfolding track_ok_def sorted_wrt_iff_nth_less by (metis differ_sym linorder_neqE_nat)

lemma track_ok_nth: "track_ok bs \<Longrightarrow> n < length bs \<Longrightarrow> bridge_sys_ok (bs ! n)"
  by (simp add: track_ok_def list_all_length)

lemma track_ok_shrink:
  assumes "track_ok bs" "n < length bs" "bridge_sys_ok b" "br_if_index b = br_if_index (bs ! n)"
    "set (if_indices b) \<subseteq> set (if_indices (bs ! n))"
  shows "track_ok (bs[n := b])"
  using assms by (intro track_ok_update) (auto intro: differ_mono track_ok_differ)

subsection \<open>One bridge\<close>

text \<open>What the bridge of an operation may change, apart from the protocol.\<close>

definition same_ports :: "bridge_sys \<Rightarrow> bridge_sys \<Rightarrow> bool" where
  "same_ports b b' \<longleftrightarrow> bridge_sys_ok b' \<and> br_if_index b' = br_if_index b \<and> if_indices b' = if_indices b"

lemma bridge_sys_okI:
  assumes "bridge_sys_ok b" "bridge_ok t" "static t = static (protocol b)"
  shows "same_ports b (b\<lparr>protocol := t\<rparr>)"
  using assms by (simp add: same_ports_def bridge_sys_ok_def if_indices_def)

lemma on_protocol_ok:
  assumes "bridge_sys_ok b" "on_protocol f b = Some b'"
    "\<And>t. f (protocol b) = Some t \<Longrightarrow> bridge_ok t \<and> static t = static (protocol b)"
  shows "same_ports b b'"
  using assms by (auto simp: on_protocol_def intro: bridge_sys_okI)

lemma protocol_ok: "bridge_sys_ok b \<Longrightarrow> bridge_ok (protocol b)"
  by (simp add: bridge_sys_ok_def)

lemma set_br_address_ok:
  assumes "bridge_sys_ok b" "set_br_address k b = Some b'"
  shows "same_ports b b'"
proof (cases "check_mac_address k (br_name b) (br_macaddr b)")
  case None
  with assms show ?thesis by (simp add: set_br_address_def same_ports_def)
next
  case (Some mac)
  let ?b = "b\<lparr>br_macaddr := mac\<rparr>"
  have ok: "bridge_sys_ok ?b" using assms(1) by (simp add: bridge_sys_ok_def if_indices_def)
  from Some assms(2) have "on_protocol (MSTP_IN_set_bridge_address (passes k At_address (br_if_index b)) mac) ?b
      = Some b'" by (simp add: set_br_address_def)
  from on_protocol_ok [OF ok this] show ?thesis
    using set_bridge_address_ok static_set_bridge_address protocol_ok [OF ok]
    by (simp add: same_ports_def if_indices_def)
qed

lemma set_br_address_up: "set_br_address k b = Some b' \<Longrightarrow> br_up b' = br_up b"
  by (auto simp: set_br_address_def on_protocol_def split: option.splits)

lemma static_set_br_address:
  "set_br_address k b = Some b' \<Longrightarrow> static (protocol b') = static (protocol b) \<and> br_ifs b' = br_ifs b"
  by (auto simp: set_br_address_def on_protocol_def dest: static_set_bridge_address split: option.splits)

lemma bridge_ok_set_br_address:
  "bridge_ok (protocol b) \<Longrightarrow> set_br_address k b = Some b' \<Longrightarrow> bridge_ok (protocol b')"
  by (auto simp: set_br_address_def on_protocol_def intro: set_bridge_address_ok split: option.splits)

lemma set_br_address_index: "set_br_address k b = Some b' \<Longrightarrow> br_if_index b' = br_if_index b"
  by (auto simp: set_br_address_def on_protocol_def split: option.splits)

lemma set_br_up_ok:
  assumes ok: "bridge_sys_ok b" and run: "set_br_up k up b = Some b'"
  shows "same_ports b b' \<and> br_up b' = up"
proof (cases "up = br_up b")
  case True
  with run have "set_br_address k b = Some b'"
    by (simp add: set_br_up_def Let_def split: option.splits)
  with set_br_address_ok [OF ok] set_br_address_up True show ?thesis by blast
next
  case False
  with run obtain b1 where b1: "set_br_address k (b\<lparr>br_up := up\<rparr>) = Some b1"
    and b': "on_protocol (MSTP_IN_set_bridge_enable (passes k At_enable (br_if_index b)) (br_up b1)) b1 = Some b'"
    by (auto simp: set_br_up_def Let_def split: option.splits)
  note facts = set_br_address_up [OF b1] static_set_br_address [OF b1] set_br_address_index [OF b1]
    bridge_ok_set_br_address [OF _ b1]
  from b' obtain t where t: "MSTP_IN_set_bridge_enable (passes k At_enable (br_if_index b)) up (protocol b1) = Some t"
    and "b' = b1\<lparr>protocol := t\<rparr>" using facts(1) by (auto simp: on_protocol_def)
  moreover have "bridge_ok t"
    using facts(4) ok by (intro set_bridge_enable_ok [OF _ t]) (simp add: bridge_sys_ok_def)
  moreover have "length (ports (protocol b1)) = length (br_ifs b)"
    using facts(2) ok by (simp add: bridge_sys_ok_def static_def)
  ultimately show ?thesis
    using static_set_bridge_enable [OF t] facts ok by (simp add: same_ports_def bridge_sys_ok_def if_indices_def)
qed

lemma same_ports_upd_if:
  assumes "bridge_sys_ok b" "\<And>x. if_index (f x) = if_index x"
  shows "same_ports b (upd_if p f b)"
proof -
  have "map if_index (upd_nth p f xs) = map if_index xs" for xs
    using assms(2) by (simp add: map_upd_nth_same)
  then show ?thesis using assms(1) by (simp add: same_ports_def bridge_sys_ok_def if_indices_def upd_if_def)
qed

lemma same_ports_trans: "same_ports a b \<Longrightarrow> same_ports b c \<Longrightarrow> same_ports a c"
  by (simp add: same_ports_def)

lemma same_ports_ok: "same_ports a b \<Longrightarrow> bridge_sys_ok b"
  by (simp add: same_ports_def)

lemma set_if_up_ok:
  assumes ok: "bridge_sys_ok b" and run: "set_if_up k up p b = Some b'"
  shows "same_ports b b'"
proof -
  from run obtain b1 where b1: "(case check_mac_address k (port_name (port_of b p)) (if_macaddr (br_ifs b ! p)) of
      None \<Rightarrow> Some b
    | Some mac \<Rightarrow> set_br_address k (upd_if p (if_macaddr_update (\<lambda>_. mac)) b)) = Some b1"
    by (auto simp: set_if_up_def split: option.splits)
  then have s1: "same_ports b b1"
  proof (cases "check_mac_address k (port_name (port_of b p)) (if_macaddr (br_ifs b ! p))")
    case (Some mac)
    have s0: "same_ports b (upd_if p (if_macaddr_update (\<lambda>_. mac)) b)"
      by (rule same_ports_upd_if [OF ok]) simp
    from b1 Some have "set_br_address k (upd_if p (if_macaddr_update (\<lambda>_. mac)) b) = Some b1" by simp
    from same_ports_trans [OF s0 set_br_address_ok [OF same_ports_ok [OF s0] this]] show ?thesis .
  qed (use ok in \<open>simp add: same_ports_def\<close>)
  define b2 where "b2 = (\<lambda>speed duplex. upd_if p (if_up_update (\<lambda>_. up)) (b1\<lparr>protocol :=
      upd_port p (\<lambda>prt. prt\<lparr>port_speed := speed, port_duplex := duplex\<rparr>) (protocol b1)\<rparr>))"
  have s2: "same_ports b (b2 speed duplex)" for speed duplex
  proof -
    have "same_ports b1 (b1\<lparr>protocol :=
        upd_port p (\<lambda>prt. prt\<lparr>port_speed := speed, port_duplex := duplex\<rparr>) (protocol b1)\<rparr>)"
      using s1 by (intro bridge_sys_okI) (simp_all add: same_ports_def bridge_ok_upd_port protocol_ok)
    from same_ports_trans [OF s1 same_ports_trans [OF this same_ports_upd_if [OF same_ports_ok [OF this]]]]
    show ?thesis by (simp add: b2_def)
  qed
  from run b1 consider speed duplex where "b' = b2 speed duplex"
    | speed duplex clk where "on_protocol (MSTP_IN_set_port_enable clk p up speed duplex) (b2 speed duplex) = Some b'"
    unfolding set_if_up_def b2_def Let_def case_prod_beta by (auto split: if_split_asm)
  then show ?thesis
  proof cases
    case (2 speed duplex clk)
    from on_protocol_ok [OF same_ports_ok [OF s2] this] set_port_enable_ok static_set_port_enable
    show ?thesis using same_ports_trans [OF s2] protocol_ok [OF same_ports_ok [OF s2]] by blast
  qed (use s2 in simp)
qed

lemma delete_if_ok:
  assumes ok: "bridge_sys_ok b" and run: "delete_if k p b = Some b'" and p: "p < length (br_ifs b)"
  shows "bridge_sys_ok b' \<and> br_if_index b' = br_if_index b
    \<and> set (if_indices b') = set (if_indices b) - {if_index (br_ifs b ! p)}"
proof -
  from run obtain clk clk' t where t: "MSTP_IN_delete_port clk clk' p (protocol b) = Some t"
    and b': "b' = b\<lparr>br_ifs := remove_nth p (br_ifs b), protocol := t\<rparr>"
    by (auto simp: delete_if_def Let_def)
  have len: "length (ports (protocol b)) = length (br_ifs b)" "bridgeEnabled (protocol b) = br_up b"
    using ok by (simp_all add: bridge_sys_ok_def static_def)
  have idx: "if_indices b' = remove_nth p (if_indices b)"
    by (simp add: b' if_indices_def map_remove_nth)
  have d: "distinct (if_indices b)" "p < length (if_indices b)" and nth: "if_indices b ! p = if_index (br_ifs b ! p)"
    using ok p by (simp_all add: bridge_sys_ok_def if_indices_def)
  have "distinct (take p (if_indices b) @ if_indices b ! p # drop (Suc p) (if_indices b))"
    using d id_take_nth_drop [of p "if_indices b"] by simp
  moreover have "set (if_indices b) = set (take p (if_indices b) @ if_indices b ! p # drop (Suc p) (if_indices b))"
    using d(2) by (simp only: id_take_nth_drop [symmetric])
  ultimately have "distinct (remove_nth p (if_indices b)) \<and>
      set (remove_nth p (if_indices b)) = set (if_indices b) - {if_indices b ! p}"
    by (auto simp: remove_nth_def)
  then show ?thesis
    using idx nth delete_port_ok [OF protocol_ok [OF ok] t] static_delete_port [OF t] len p
    by (simp add: bridge_sys_ok_def b' length_remove_nth)
qed

lemma delete_if_byindex_ok:
  assumes ok: "bridge_sys_ok b" and run: "delete_if_byindex k i b = Some (found, b')"
  shows "bridge_sys_ok b' \<and> br_if_index b' = br_if_index b \<and> set (if_indices b') = set (if_indices b) - {i}
    \<and> found = (i \<in> set (if_indices b))"
proof (cases "find_if i b")
  case None
  with assms show ?thesis by (auto simp: delete_if_byindex_def find_if_None)
next
  case (Some p)
  from find_if_Some [OF Some] Some run have p: "p < length (br_ifs b)" "if_index (br_ifs b ! p) = i"
    and "delete_if k p b = Some b'" "found" by (auto simp: delete_if_byindex_def)
  with delete_if_ok [OF ok this(3) p(1)] show ?thesis
    using Some find_if_None [of i b] by auto
qed

text \<open>When a port can be created.\<close>

definition can_create_if :: "kernel \<Rightarrow> int \<Rightarrow> bool" where
  "can_create_if k i \<longleftrightarrow> (\<exists>name. index_to_name k i = Some name \<and> get_hwaddr k name \<noteq> None
     \<and> 0 < get_bridge_portno k name \<and> get_bridge_portno k name \<le> MAX_PORT_NUMBER)"

lemma create_if_ok:
  assumes ok: "bridge_sys_ok b" and run: "create_if k i b = Some r" and new: "i \<notin> set (if_indices b)"
  shows "case r of None \<Rightarrow> \<not> can_create_if k i
    | Some b' \<Rightarrow> can_create_if k i \<and> bridge_sys_ok b' \<and> br_if_index b' = br_if_index b
        \<and> if_indices b' = if_indices b @ [i]"
proof (cases "can_create_if k i")
  case False
  then have "create_if k i b = Some None"
    by (auto simp: can_create_if_def create_if_def Let_def split: option.split)
  with run False show ?thesis by simp
next
  case True
  then obtain name mac where n: "index_to_name k i = Some name" "get_hwaddr k name = Some mac"
    "0 < get_bridge_portno k name" "get_bridge_portno k name \<le> MAX_PORT_NUMBER"
    by (auto simp: can_create_if_def)
  with run obtain clk prt no t where t: "MSTP_IN_port_create_and_add_tail clk prt no (protocol b) = Some t"
    and r: "r = Some (b\<lparr>br_ifs := br_ifs b @ [\<lparr>if_index = i, if_macaddr = mac, if_up = False\<rparr>], protocol := t\<rparr>)"
    by (auto simp: create_if_def Let_def)
  from port_create_ok [OF protocol_ok [OF ok] t] static_port_create [OF t] ok True new show ?thesis
    by (simp add: r bridge_sys_ok_def if_indices_def static_def)
qed

subsection \<open>The list\<close>

lemma track_ok_Cons:
  "track_ok (b # bs) \<longleftrightarrow> bridge_sys_ok b \<and> (\<forall>x \<in> set bs. differ b x) \<and> track_ok bs"
  by (auto simp: track_ok_def)

lemma moves_only_Cons:
  "moves_only i (b # bs) (b' # bs') \<longleftrightarrow> br_if_index b' = br_if_index b
    \<and> set (if_indices b') - {i} = set (if_indices b) - {i} \<and> moves_only i bs bs'"
  by (simp add: moves_only_def)

text \<open>Every bridge keeps its number and loses at most ports.\<close>

definition shrinks :: "mstpd \<Rightarrow> mstpd \<Rightarrow> bool" where
  "shrinks = list_all2 (\<lambda>b b'. br_if_index b' = br_if_index b \<and> set (if_indices b') \<subseteq> set (if_indices b))"

lemma differ_shrinks:
  assumes "shrinks bs bs'" "\<forall>x \<in> set bs. differ b x"
  shows "\<forall>x \<in> set bs'. differ b x"
proof
  fix x
  assume "x \<in> set bs'"
  then obtain n where n: "n < length bs'" "x = bs' ! n" by (auto simp: in_set_conv_nth)
  with assms(1) have "br_if_index x = br_if_index (bs ! n)" "set (if_indices x) \<subseteq> set (if_indices (bs ! n))"
    "n < length bs" by (auto simp: shrinks_def list_all2_conv_all_nth)
  moreover from this assms(2) have "differ b (bs ! n)" by simp
  ultimately show "differ b x" using differ_mono [of "bs ! n" b x] differ_sym by blast
qed

lemma delete_elsewhere_ok:
  assumes "track_ok bs" "delete_elsewhere k i skip bs = Some bs'"
    and "\<And>n. skip = Some n \<Longrightarrow> n < length bs \<Longrightarrow> i \<notin> set (if_indices (bs ! n))"
  shows "track_ok bs' \<and> moves_only i bs bs' \<and> shrinks bs bs' \<and> owner bs' i = None"
  using assms
proof (induction k i skip bs arbitrary: bs' rule: delete_elsewhere.induct)
  case (1 k i skip)
  then show ?case by (simp add: shrinks_def)
next
  case (2 k i skip b bs)
  from "2.prems"(1) have b: "bridge_sys_ok b" "\<forall>x \<in> set bs. differ b x" "track_ok bs"
    by (simp_all add: track_ok_Cons)
  show ?case
  proof (cases "skip = Some 0")
    case True
    with "2.prems"(2) obtain bs1 where bs1: "delete_elsewhere k i None bs = Some bs1" "bs' = b # bs1"
      by auto
    from "2.IH"(1) [OF True b(3) bs1(1)] have ih:
      "track_ok bs1 \<and> moves_only i bs bs1 \<and> shrinks bs bs1 \<and> owner bs1 i = None" by simp
    moreover from ih b(2) have "\<forall>x \<in> set bs1. differ b x" by (blast dest: differ_shrinks)
    moreover have "i \<notin> set (if_indices b)" using True "2.prems"(3) [of 0] by simp
    ultimately show ?thesis using b(1) by (simp add: bs1(2) track_ok_Cons moves_only_Cons shrinks_def)
  next
    case False
    with "2.prems"(2) obtain found b1 where b1: "delete_if_byindex k i b = Some (found, b1)"
      by (auto split: option.splits)
    note d = delete_if_byindex_ok [OF b(1) b1]
    show ?thesis
    proof (cases found)
      case True
      with False "2.prems"(2) b1 have "bs' = b1 # bs" by simp
      moreover from True d b(2) have "\<forall>x \<in> set bs. i \<notin> set (if_indices x)"
        by (auto simp: differ_def)
      ultimately show ?thesis
        using d b differ_mono by (auto simp: track_ok_Cons moves_only_Cons shrinks_def owner_None list_all2_refl)
    next
      case found: False
      with False "2.prems"(2) b1 obtain bs1 where
        bs1: "delete_elsewhere k i (map_option (\<lambda>n. n - 1) skip) bs = Some bs1" "bs' = b1 # bs1"
        by auto
      have "i \<notin> set (if_indices (bs ! n))" if "map_option (\<lambda>n. n - 1) skip = Some n" "n < length bs" for n
        using that False "2.prems"(3) [of "Suc n"] by (cases skip) auto
      from "2.IH"(2) [OF False b1 _ refl b(3) bs1(1)] found this have ih:
        "track_ok bs1 \<and> moves_only i bs bs1 \<and> shrinks bs bs1 \<and> owner bs1 i = None" by blast
      moreover have "\<forall>x \<in> set bs1. differ b1 x"
        using differ_shrinks [OF _ b(2)] ih d found differ_mono [of b _ b1] by auto
      ultimately show ?thesis
        using d found by (auto simp: bs1(2) track_ok_Cons moves_only_Cons shrinks_def owner_None)
    qed
  qed
qed

lemma owner_not_in: "owner bs i = None \<Longrightarrow> n < length bs \<Longrightarrow> i \<notin> set (if_indices (bs ! n))"
  by (simp add: owner_None)

lemma track_ok_append:
  assumes "track_ok bs" "bridge_sys_ok b" "if_indices b = []" "br_if_index b \<notin> br_ids bs"
  shows "track_ok (bs @ [b])"
proof -
  have "\<forall>x \<in> set bs. differ x b"
    using assms(3,4) by (metis br_ids_def differ_def empty_set imageI inf_bot_right set_map)
  then show ?thesis using assms(1,2) by (simp add: track_ok_def sorted_wrt_append)
qed

lemma attach_if_ok:
  assumes ok: "track_ok bs" and n: "n < length bs" and run: "attach_if k i n bs = Some (created, bs')"
    and new: "i \<notin> set (if_indices (bs ! n))"
  shows "track_ok bs' \<and> moves_only i bs bs' \<and> created = can_create_if k i
    \<and> owner bs' i = (if created then Some (br_if_index (bs ! n)) else None)"
proof -
  from run obtain bs1 r where bs1: "delete_elsewhere k i (Some n) bs = Some bs1"
    and r: "create_if k i (bs1 ! n) = Some r"
    and res: "(created, bs') = (case r of None \<Rightarrow> (False, bs1) | Some b \<Rightarrow> (True, bs1[n := b]))"
    by (auto simp: attach_if_def split: option.splits)
  from delete_elsewhere_ok [OF ok bs1] new
  have d: "track_ok bs1" "moves_only i bs bs1" "owner bs1 i = None" by auto
  have n1: "n < length bs1" using moves_only_length [OF d(2)] n by simp
  note free = owner_not_in [OF d(3) n1]
  note c = create_if_ok [OF track_ok_nth [OF d(1) n1] r free]
  show ?thesis
  proof (cases r)
    case None
    with res d c show ?thesis by simp
  next
    case (Some b)
    with c have b: "can_create_if k i" "bridge_sys_ok b" "br_if_index b = br_if_index (bs1 ! n)"
      "if_indices b = if_indices (bs1 ! n) @ [i]" by auto
    have "differ b (bs1 ! m)" if "m < length bs1" "m \<noteq> n" for m
      using track_ok_differ [OF d(1) n1 that(1)] that(2) b owner_not_in [OF d(3) that(1)]
      by (auto simp: differ_def)
    then have ok1: "track_ok (bs1[n := b])" by (rule track_ok_update [OF d(1) n1 b(2)])
    have "moves_only i bs1 (bs1[n := b])" using b n1 by (intro moves_only_update) auto
    then have "moves_only i bs (bs1[n := b])" by (rule moves_only_trans [OF d(2)])
    moreover have "owner (bs1[n := b]) i = Some (br_if_index (bs ! n))"
      using owner_nth [of "bs1[n := b]" n i] ok1 n1 b moves_only_nth [OF d(2) n] by (simp add: track_ok_def)
    ultimately show ?thesis using res Some ok1 b(1) by simp
  qed
qed

text \<open>An operation that keeps the ports of the bridge at \<open>n\<close>.\<close>

lemma on_bridge_ok:
  assumes "track_ok bs" "n < length bs" "on_bridge n f bs = Some bs'"
    and "\<And>b. f (bs ! n) = Some b \<Longrightarrow> same_ports (bs ! n) b"
  shows "track_ok bs' \<and> owner bs' = owner bs \<and> br_ids bs' = br_ids bs \<and> length bs' = length bs
    \<and> (\<forall>m < length bs. br_if_index (bs' ! m) = br_if_index (bs ! m) \<and> if_indices (bs' ! m) = if_indices (bs ! m))"
proof -
  from assms obtain b where b: "bs' = bs[n := b]" "same_ports (bs ! n) b"
    by (auto simp: on_bridge_def)
  then have "track_ok bs'" and "moves_only i bs bs'" for i
    using assms(1,2) by (auto simp: same_ports_def intro: track_ok_shrink moves_only_update)
  then show ?thesis using moves_only_all_owner [of bs bs'] b assms(2)
    by (auto simp: same_ports_def nth_list_update)
qed

lemma delete_br_byindex_ok:
  assumes ok: "track_ok bs" and run: "delete_br_byindex i bs = Some (found, bs')"
  shows "track_ok bs' \<and> found = (i \<in> br_ids bs) \<and> br_ids bs' = br_ids bs - {i}
    \<and> owner bs' = (\<lambda>j. if owner bs j = Some i then None else owner bs j)"
proof (cases "find_br i bs")
  case None
  then have "i \<notin> br_ids bs" by (simp add: find_br_None)
  moreover have "owner bs j \<noteq> Some i" for j
    using calculation owner_Some [of bs j i] by (auto simp: br_ids_def)
  ultimately show ?thesis using None run ok by (auto simp: delete_br_byindex_def)
next
  case (Some n)
  with run have bs': "bs' = remove_nth n bs" "found" by (auto simp: delete_br_byindex_def)
  from find_br_Some [OF Some] have n: "n < length bs" "br_if_index (bs ! n) = i" by auto
  have split: "bs = take n bs @ bs ! n # drop (Suc n) bs" using n(1) by (rule id_take_nth_drop)
  have "track_ok (take n bs @ bs ! n # drop (Suc n) bs)" using ok split by simp
  then have d: "list_all bridge_sys_ok (take n bs @ drop (Suc n) bs)"
    "sorted_wrt differ (take n bs @ drop (Suc n) bs)" "\<forall>x \<in> set (take n bs @ drop (Suc n) bs). differ (bs ! n) x"
    by (auto simp: track_ok_def sorted_wrt_append differ_sym [of "bs ! n"])
  have "owner (xs @ ys) j = (if owner xs j = None then owner ys j else owner xs j)" for xs ys j
    by (induction xs) auto
  note app = this
  have other: "owner xs j \<noteq> Some i" if "\<forall>x \<in> set xs. differ (bs ! n) x" for xs j
  proof
    assume "owner xs j = Some i"
    from owner_Some [OF this] obtain m where "m < length xs" "br_if_index (xs ! m) = i" by blast
    with that n(2) nth_mem [of m xs] have "br_if_index (bs ! n) \<noteq> br_if_index (xs ! m)"
      unfolding differ_def by blast
    with \<open>br_if_index (xs ! m) = i\<close> n(2) show False by simp
  qed
  have "owner bs' j = (if owner bs j = Some i then None else owner bs j)" for j
  proof -
    have o: "owner bs j = owner (take n bs @ bs ! n # drop (Suc n) bs) j" by (simp only: split [symmetric])
    show ?thesis
    proof (cases "j \<in> set (if_indices (bs ! n))")
      case True
      with d(3) have "owner (take n bs @ drop (Suc n) bs) j = None"
        by (auto simp: owner_None differ_def)
      with True o show ?thesis by (simp add: bs' remove_nth_def app n(2) split: if_splits)
    next
      case False
      with o have "owner bs j = owner (take n bs @ drop (Suc n) bs) j" by (simp add: app)
      with other [OF d(3), of j] show ?thesis by (simp add: bs' remove_nth_def)
    qed
  qed
  moreover have "br_ids bs' = br_ids bs - {i}"
  proof -
    have "br_ids bs = br_ids (take n bs @ bs ! n # drop (Suc n) bs)" by (simp only: split [symmetric])
    then show ?thesis using d(3) n(2) by (auto simp: br_ids_def bs' remove_nth_def differ_def)
  qed
  moreover have "i \<in> br_ids bs" using n by (auto simp: br_ids_def)
  ultimately show ?thesis using d bs' by (auto simp: track_ok_def remove_nth_def)
qed

end
