(* ===== verification/MSTP_Exchange.thy ===== *)
theory MSTP_Exchange
  imports MSTP_Invariant
begin

section \<open>From one bridge to the next\<close>

text \<open>
  What a port sends, as its neighbour reads it: every transmitted frame passes the validation
  of received frames, and the vectors and flags that \<open>rcvInfo\<close> takes out of a frame are those
  the sender put in.
\<close>

subsection \<open>Identifiers and flags\<close>

lemma bit_0xFFF: "bit (0xFFF :: u16) n \<longleftrightarrow> n < 12"
proof -
  have eq: "(0xFFF :: u16) = mask 12" by (simp add: mask_eq_exp_minus_1)
  show ?thesis by (simp only: eq bit_mask_iff) auto
qed

lemma bit_0xF0: "bit (0xF0 :: u8) n \<longleftrightarrow> 4 \<le> n \<and> n < 8"
proof -
  have eq: "(0xF0 :: u8) = push_bit 4 (mask 4)" by (simp add: mask_eq_exp_minus_1)
  show ?thesis by (simp only: eq bit_push_bit_iff bit_mask_iff) auto
qed

lemma bit_3: "bit (3 :: u8) n \<longleftrightarrow> n < 2"
proof -
  have eq: "(3 :: u8) = mask 2" by (simp add: mask_eq_exp_minus_1)
  show ?thesis by (simp only: eq bit_mask_iff) auto
qed

lemma bit_AND_mask:
  "bit (x AND (0xFFF :: u16)) n \<longleftrightarrow> bit x n \<and> n < 12"
  "bit (y AND (0xF0 :: u8)) n \<longleftrightarrow> bit y n \<and> 4 \<le> n \<and> n < 8"
  "bit (y AND (3 :: u8)) n \<longleftrightarrow> bit y n \<and> n < 2"
  by (simp_all only: bit_and_iff bit_0xFFF bit_0xF0 bit_3)

lemma SET_GET_PRIORITY:
  assumes "i AND 0xFFF = j AND 0xFFF"
  shows "SET_PRIORITY_IN_IDENTIFIER (GET_PRIORITY_FROM_IDENTIFIER i) j = i"
proof (rule bit_word_eqI)
  fix n assume "n < LENGTH(16)"
  then have n: "n < 16" by simp
  from assms have low: "n < 12 \<Longrightarrow> bit i n = bit j n"
    by (metis bit_AND_mask(1))
  show "bit (SET_PRIORITY_IN_IDENTIFIER (GET_PRIORITY_FROM_IDENTIFIER i) j) n = bit i n"
    using n low
    by (cases "n < 12") (auto simp: SET_PRIORITY_IN_IDENTIFIER_def GET_PRIORITY_FROM_IDENTIFIER_def bit_or_iff
        bit_AND_mask bit_push_bit_iff bit_ucast_iff bit_drop_bit_eq)
qed

lemma bit_or_flag: "bit (or_flag off c f) n \<longleftrightarrow> bit f n \<or> (c \<and> n = off \<and> n < 8)"
  by (auto simp: or_flag_def bit_or_iff bit_push_bit_iff bit_1_iff push_bit_eq_mult [symmetric]
      simp del: push_bit_of_1)

lemma ROLE_GET_or_flag:
  assumes "off \<noteq> 2" "off \<noteq> 3"
  shows "BPDU_FLAGS_ROLE_GET (or_flag off c f) = BPDU_FLAGS_ROLE_GET f"
proof (rule bit_word_eqI)
  fix n assume "n < LENGTH(8)"
  show "bit (BPDU_FLAGS_ROLE_GET (or_flag off c f)) n = bit (BPDU_FLAGS_ROLE_GET f) n"
    using assms by (auto simp: BPDU_FLAGS_ROLE_GET_def bit_AND_mask bit_drop_bit_eq bit_or_flag
        less_2_cases_iff)
qed

lemma ROLE_GET_tree_flags [simp]:
  "BPDU_FLAGS_ROLE_GET (tree_flags ptp) = message_role_from_port_role ptp"
proof -
  have "BPDU_FLAGS_ROLE_GET (BPDU_FLAGS_ROLE_SET (message_role_from_port_role ptp))
      = message_role_from_port_role ptp"
    by (cases "role ptp")
      (simp_all add: message_role_from_port_role_def BPDU_FLAGS_ROLE_GET_def
        BPDU_FLAGS_ROLE_SET_def push_bit_eq_mult drop_bit_eq_div)
  then show ?thesis by (simp add: tree_flags_def ROLE_GET_or_flag)
qed

lemma message_role_from_port_role_cases:
  "message_role_from_port_role ptp \<in> {0, 1, 2, 3}"
  by (cases "role ptp") (simp_all add: message_role_from_port_role_def)

lemma bit_ROLE_SET: "bit (BPDU_FLAGS_ROLE_SET r) n \<Longrightarrow> n = 2 \<or> n = 3"
  by (auto simp: BPDU_FLAGS_ROLE_SET_def bit_push_bit_iff bit_AND_mask simp del: push_bit_and)

lemma flags_tree_flags [simp]:
  "has_flag (tree_flags x) offsetTc \<longleftrightarrow> tcWhile x \<noteq> 0"
  "has_flag (tree_flags x) offsetProposal \<longleftrightarrow> proposing x"
  "has_flag (tree_flags x) offsetLearnig \<longleftrightarrow> learning x"
  "has_flag (tree_flags x) offsetForwarding \<longleftrightarrow> forwarding x"
  "has_flag (tree_flags x) offsetAgreement \<longleftrightarrow> agree x"
  "\<not> has_flag (tree_flags x) offsetTcAck"
  by (auto simp: has_flag_bit tree_flags_def bit_or_flag dest: bit_ROLE_SET)

lemmas flags_tree_flags_Suc [simp] = flags_tree_flags(2) [unfolded One_nat_def]

lemma flags_or_master:
  "n \<noteq> 7 \<Longrightarrow> has_flag (or_flag offsetMaster c f) n = has_flag f n"
  "has_flag (or_flag offsetMaster c (tree_flags x)) offsetMaster = c"
  by (auto simp: has_flag_bit bit_or_flag tree_flags_def dest: bit_ROLE_SET)

subsection \<open>Transmitted frames are valid\<close>

lemma mst_bpdu_fields [simp]:
  "protocolIdentifier (mst_bpdu br blank prt) = 0"
  "protocolVersion (mst_bpdu br blank prt) = protoMSTP"
  "bpduType (mst_bpdu br blank prt) = bpduTypeRST"
  "version1_len (mst_bpdu br blank prt) = 0"
  "flags (mst_bpdu br blank prt) = tree_flags (cist_of prt)"
  "mstConfiguration (mst_bpdu br blank prt) =
     map msti_message (drop 1 (port_trees prt))
     @ drop (length (port_trees prt) - 1) (mstConfiguration blank)"
  by (simp_all add: mst_bpdu_def rst_bpdu_def put_cist_common_def Let_def)

lemma uint_of_int_u16: "0 \<le> x \<Longrightarrow> x < 2 ^ 16 \<Longrightarrow> uint (of_int x :: u16) = x"
  by (simp add: unsigned_of_int take_bit_int_eq_self)

lemma msti_octets_mst_bpdu:
  assumes "length (port_trees prt) \<le> 65"
  shows "msti_octets (mst_bpdu br blank prt) = 16 * int (length (port_trees prt) - 1)"
proof -
  let ?n = "length (port_trees prt) - 1"
  have "version3_len (mst_bpdu br blank prt) = (of_int (64 + 16 * int ?n) :: u16)"
    by (simp add: mst_bpdu_def Let_def)
  moreover have "uint (of_int (64 + 16 * int ?n) :: u16) = 64 + 16 * int ?n"
    using assms by (intro uint_of_int_u16) auto
  ultimately show ?thesis by (simp add: msti_octets_def)
qed

lemma mst_bpdu_valid:
  assumes "length (port_trees prt) \<le> 65"
  shows "validate_bpdu (mst_bpdu br blank prt) (102 + 16 * int (length (port_trees prt) - 1))
    = Some (mst_bpdu br blank prt, Some (int (length (port_trees prt) - 1)))"
proof -
  define n where "n = length (port_trees prt) - 1"
  with assms have n: "n \<le> 64" by simp
  then have size: "as_size_t (102 + 16 * int n) = 102 + 16 * int n"
    by (intro as_size_t_nonneg) auto
  have oct: "msti_octets (mst_bpdu br blank prt) = 16 * int n"
    using msti_octets_mst_bpdu [OF assms] by (simp add: n_def)
  have "\<not> bad_mst_part (mst_bpdu br blank prt) (102 + 16 * int n)"
    using n by (simp add: bad_mst_part_def size oct)
  with n show ?thesis unfolding n_def [symmetric] by (simp add: validate_bpdu_def size oct)
qed

lemma rst_bpdu_valid:
  "validate_bpdu ((rst_bpdu blank prt)\<lparr>protocolVersion := protoRSTP\<rparr>) RST_BPDU_SIZE
     = Some ((rst_bpdu blank prt)\<lparr>protocolVersion := protoRSTP\<rparr>, None)"
  by (simp add: validate_bpdu_def rst_bpdu_def put_cist_common_def Let_def as_size_t_nonneg)

lemma config_bpdu_valid:
  "validate_bpdu (config_bpdu blank prt) CONFIG_BPDU_SIZE = Some (config_bpdu blank prt, None)"
  by (simp add: validate_bpdu_def config_bpdu_def put_cist_common_def Let_def as_size_t_nonneg)

text \<open>
  C12. Whatever a port transmits, a receiver accepts, as the frame it is: for a port of at most 64
  MSTIs, the frame each transmit procedure sends (it sends at most one) passes the validation
  of received frames unchanged, with as many MSTI messages as the port has MSTIs if it is an
  MST BPDU.
\<close>

theorem transmitted_frames_valid:
  assumes "length (port_trees prt) \<le> 65" and "t \<in> {txConfig prt, txTcn prt, txMstp br prt}"
  shows "outs t = outs prt
    \<or> (\<exists>b n m. outs t = outs prt @ [TxBpdu b n] \<and> validate_bpdu b n = Some (b, m)
        \<and> m = (if protocolVersion b = protoMSTP then Some (int (length (port_trees prt) - 1)) else None))"
proof -
  have tcn: "validate_bpdu (blank_bpdu\<lparr>protocolIdentifier := 0, protocolVersion := protoSTP,
      bpduType := bpduTypeTCN\<rparr>) TCN_BPDU_SIZE
    = Some (blank_bpdu\<lparr>protocolIdentifier := 0, protocolVersion := protoSTP,
      bpduType := bpduTypeTCN\<rparr>, None)"
    by (simp add: validate_bpdu_def as_size_t_nonneg)
  have conf: "protocolVersion (config_bpdu blank prt) = protoSTP" for blank
    by (simp add: config_bpdu_def put_cist_common_def Let_def)
  consider "t = txConfig prt" | "t = txTcn prt" | "t = txMstp br prt" using assms(2) by blast
  then show ?thesis
  proof cases
    case 1
    then show ?thesis using config_bpdu_valid conf by (auto simp: txConfig_def)
  next
    case 2
    then show ?thesis using tcn by (auto simp: txTcn_def)
  next
    case 3
    then show ?thesis
      using mst_bpdu_valid [OF assms(1)] rst_bpdu_valid by (auto simp: txMstp_def)
  qed
qed

subsection \<open>The CIST part of a frame\<close>

lemma cist_msg_role_mst_bpdu:
  "cist_msg_role (mst_bpdu br blank prt) =
     (if role (cist_of prt) = roleMaster then None
      else Some (role (cist_of prt) = roleDesignated))"
  by (cases "role (cist_of prt)") (simp_all add: cist_msg_role_def message_role_from_port_role_def)

text \<open>
  C11. The CIST part of an MST BPDU survives the wire: reading it gives exactly the designated
  priority vector and times of the sending port (with the hello time the port uses), whether
  the sender is Designated or not, and the flags it had.
\<close>

theorem cist_message_roundtrip:
  assumes "role (cist_of prt) \<noteq> roleMaster"
  shows "let b = mst_bpdu br blank prt; cist = cist_of prt; x = read_cist_msg br' b y in
      msgPriority x = designatedPriority cist
      \<and> msgTimes x = (designatedTimes cist)\<lparr>Hello_Time := Hello_Time (portTimes cist)\<rparr>
      \<and> cist_msg_role b = Some (role cist = roleDesignated)
      \<and> (has_flag (flags b) offsetProposal \<longleftrightarrow> proposing cist)
      \<and> (has_flag (flags b) offsetAgreement \<longleftrightarrow> agree cist)
      \<and> (has_flag (flags b) offsetLearnig \<longleftrightarrow> learning cist)
      \<and> (has_flag (flags b) offsetForwarding \<longleftrightarrow> forwarding cist)
      \<and> (has_flag (flags b) offsetTc \<longleftrightarrow> tcWhile cist \<noteq> 0)"
  using assms
  by (simp add: Let_def cist_msg_role_mst_bpdu)
    (simp add: read_cist_msg_def mst_bpdu_def rst_bpdu_def put_cist_common_def Let_def
      NEAREST_WHOLE_SECOND_def)

subsection \<open>The MSTI messages of a frame\<close>

text \<open>
  A sending port as role selection leaves it (\<open>sender_entry_designated\<close> below): distinct trees with
  identifiers of twelve bits, in the vectors of a tree the identifier of the tree in the bridge
  identifiers' system part, and the same bridge and port designated as in the CIST.
\<close>

definition sender_entry_ok :: "per_tree_port_t \<Rightarrow> per_tree_port_t \<Rightarrow> bool" where
  "sender_entry_ok cist x \<longleftrightarrow>
     (let d = designatedPriority x; c = designatedPriority cist in
      priority (RRootID d) AND 0xFFF = MSTID x
      \<and> priority (DesignatedBridgeID d) AND 0xFFF = MSTID x \<and> MSTID x AND 0xFFF = MSTID x
      \<and> mac_address (DesignatedBridgeID d) = mac_address (DesignatedBridgeID c)
      \<and> DesignatedPortID d AND 0xFFF = DesignatedPortID c AND 0xFFF)"

definition sender_ok :: "port_t \<Rightarrow> bool" where
  "sender_ok prt \<longleftrightarrow> length (port_trees prt) \<le> 65 \<and> distinct (map MSTID (port_trees prt))
     \<and> list_all (sender_entry_ok (cist_of prt)) (drop 1 (port_trees prt))"

text \<open>
  Role selection writes such entries: the designated vectors of a port, when the identifiers of the
  bridge differ from tree to tree in the system part only, which is the tree's, and the root of the
  tree has it too (a message is taken for a tree by that part of its root, see \<open>find_msti\<close>).
\<close>

lemma sender_entry_designated:
  assumes "mac_address (BridgeIdentifier t) = mac_address (BridgeIdentifier cist)"
    and "priority (BridgeIdentifier t) AND 0xFFF = MSTID x" "MSTID x AND 0xFFF = MSTID x"
    and "priority (RRootID (rootPriority t)) AND 0xFFF = MSTID x"
    and "tree_MSTID t \<noteq> 0" "portId x AND 0xFFF = portId c AND 0xFFF"
  shows "sender_entry_ok (set_designated cist prt c) (set_designated t prt x)"
  using assms by (simp add: sender_entry_ok_def set_designated_def Let_def)

lemma find_msti_messages:
  assumes "list_all (sender_entry_ok cist) xs" and "distinct (map MSTID xs)" and "j < length xs"
    and "int (i + length xs) \<le> n"
  shows "find_msti (MSTID (xs ! j)) (map msti_message xs @ ys) n i = Some (i + j)"
  using assms
proof (induction xs arbitrary: i j)
  case (Cons x xs)
  have x: "priority (mstiRRootID (msti_message x)) AND 0xFFF = MSTID x"
    using Cons.prems(1) by (simp add: msti_message_def sender_entry_ok_def Let_def)
  show ?case
  proof (cases j)
    case 0
    then show ?thesis using x Cons.prems(4) by simp
  next
    case (Suc l)
    then have "MSTID x \<noteq> MSTID (xs ! l)" using Cons.prems(2,3)
      by (metis distinct.simps(2) image_eqI image_set length_Cons list.simps(9) nth_mem Suc_less_eq)
    then show ?thesis
      using x Suc Cons.prems Cons.IH [of l "Suc i"] by simp
  qed
qed simp

lemma read_msti_message:
  assumes "sender_entry_ok (cist_of prt) x" and "MSTID y = MSTID x"
  shows "let z = read_msti_msg (mst_bpdu br blank prt) (msti_message x) y;
             m = msgPriority z; d = designatedPriority x in
      RRootID m = RRootID d \<and> IntRootPathCost m = IntRootPathCost d
      \<and> DesignatedBridgeID m = DesignatedBridgeID d \<and> DesignatedPortID m = DesignatedPortID d
      \<and> remainingHops (msgTimes z) = remainingHops (designatedTimes x)"
proof -
  have cist: "cistPortID (mst_bpdu br blank prt) = DesignatedPortID (designatedPriority (cist_of prt))"
    "cistBridgeID (mst_bpdu br blank prt) = DesignatedBridgeID (designatedPriority (cist_of prt))"
    by (simp_all add: mst_bpdu_def rst_bpdu_def put_cist_common_def Let_def)
  show ?thesis
    using assms
    by (cases "DesignatedBridgeID (designatedPriority x)")
      (simp add: read_msti_msg_def msti_message_def sender_entry_ok_def Let_def cist
        SET_GET_PRIORITY set_bridge_priority_def)
qed

lemma setRcvdMsgs_entry:
  assumes "rcvdInternal prt" and "0 < k" and "k < length (port_trees prt)"
    and "find_msti (MSTID (ptp_of prt k)) (mstConfiguration (rcvdBpduData prt))
           (rcvdBpduNumOfMstis prt) 0 = Some i"
  shows "ptp_of (setRcvdMsgs prt) k = (ptp_of prt k)\<lparr>rcvdMsg := True, rcvdMstiConfig := Some i\<rparr>"
    and "rcvdBpduData (setRcvdMsgs prt) = rcvdBpduData prt"
    and "length (port_trees (setRcvdMsgs prt)) = length (port_trees prt)"
proof -
  have "(take (Suc 0) ts @ map f (drop (Suc 0) ts)) ! k = f (ts ! k)"
    if "k < length ts" for f and ts :: "per_tree_port_t list"
    using assms(2) that by (cases k) (simp_all add: nth_append)
  from this [of "upd_nth 0 (\<lambda>x. x\<lparr>rcvdMsg := True\<rparr>) (port_trees prt)"]
  show "ptp_of (setRcvdMsgs prt) k = (ptp_of prt k)\<lparr>rcvdMsg := True, rcvdMstiConfig := Some i\<rparr>"
    using assms by (simp add: setRcvdMsgs_def Let_def)
  show "rcvdBpduData (setRcvdMsgs prt) = rcvdBpduData prt"
    "length (port_trees (setRcvdMsgs prt)) = length (port_trees prt)"
    using assms(2,3) by (auto simp: setRcvdMsgs_def Let_def upd_ptp_def map_ptps_after_def min_def)
qed

text \<open>
  C10. The MSTI part survives the wire too. When a port in the same region has received the MST BPDU
  of a sender whose entries are as role selection writes them (\<open>sender_ok\<close>: at most 64 MSTIs, all
  different, with the tree's identifier in their vectors and the bridge and port of the CIST), its
  entry for a tree finds that tree's message. \<open>rcvInfo\<close> then takes from it a message priority
  vector that compares as the sender's designated vector, and its remaining hops, and classifies
  it by whether the sender is Designated; of a sender in the Master role, whose role has no
  reading here, it takes nothing and returns \<open>OtherInfo\<close>.
\<close>

theorem msti_message_roundtrip:
  assumes "sender_ok snd_prt" and "0 < j" and "j < length (port_trees snd_prt)"
    and "rcvdBpduData prt = mst_bpdu br blank snd_prt"
    and "rcvdBpduNumOfMstis prt = int (length (port_trees snd_prt) - 1)"
    and "rcvdInternal prt" and "0 < k" and "k < length (port_trees prt)"
    and "MSTID (ptp_of prt k) = MSTID (ptp_of snd_prt j)" and "MSTID (ptp_of prt k) \<noteq> 0"
  shows "rcvdMsg (ptp_of (setRcvdMsgs prt) k)
    \<and> (if role (ptp_of snd_prt j) = roleMaster
       then rcvInfo br' k (setRcvdMsgs prt) = (OtherInfo, setRcvdMsgs prt)
       else case rcvInfo br' k (setRcvdMsgs prt) of (info, q) \<Rightarrow>
         let m = msgPriority (ptp_of q k); d = designatedPriority (ptp_of snd_prt j) in
           rcvdMsg (ptp_of q k) \<and> vector_key False m p = vector_key False d p
           \<and> remainingHops (msgTimes (ptp_of q k)) = remainingHops (designatedTimes (ptp_of snd_prt j))
           \<and> info = classify_info (role (ptp_of snd_prt j) = roleDesignated) False (ptp_of q k))"
proof -
  let ?x = "ptp_of snd_prt j" and ?b = "mst_bpdu br blank snd_prt" and ?q = "setRcvdMsgs prt"
  from assms(1,2,3) have ok: "sender_entry_ok (cist_of snd_prt) ?x"
    by (cases j) (auto simp: sender_ok_def list_all_length nth_drop)
  obtain i where j: "j = Suc i" using assms(2) by (cases j) auto
  have tail: "drop 1 (port_trees snd_prt) ! i = ?x"
    using j assms(3) by simp
  have "find_msti (MSTID ?x) (map msti_message (drop 1 (port_trees snd_prt))
      @ drop (length (port_trees snd_prt) - 1) (mstConfiguration blank))
      (int (length (port_trees snd_prt) - 1)) 0 = Some (0 + i)"
    unfolding tail [symmetric]
    using assms(1,3) j
    by (intro find_msti_messages [where cist = "cist_of snd_prt"])
      (auto simp: sender_ok_def distinct_drop drop_map [symmetric] simp del: drop_map)
  then have found: "find_msti (MSTID (ptp_of prt k)) (mstConfiguration (rcvdBpduData prt))
      (rcvdBpduNumOfMstis prt) 0 = Some i"
    using assms(4,5,9) by simp
  note q = setRcvdMsgs_entry [OF assms(6-8) found]
  have "mstConfiguration ?b ! i = msti_message ?x"
    using j assms(3) by (simp add: nth_append)
  then have msg: "rcvd_msti ?q k = msti_message ?x"
    using q assms(4) by (simp add: rcvd_msti_def)
  have role: "msti_msg_role (msti_message ?x)
      = (if role ?x = roleMaster then None else Some (role ?x = roleDesignated))"
    by (cases "role ?x")
      (simp_all add: msti_msg_role_def msti_message_def ROLE_GET_or_flag message_role_from_port_role_def)
  have info: "rcvInfo br' k ?q =
      (if role ?x = roleMaster then (OtherInfo, ?q)
       else let q' = upd_ptp k (read_msti_msg ?b (msti_message ?x)) ?q
            in (classify_info (role ?x = roleDesignated) False (ptp_of q' k), q'))"
    using q assms(4,10) msg role by (simp add: rcvInfo_def Let_def)
  have entry: "upd_nth k f (port_trees ?q) ! k = f (ptp_of ?q k)" for f
    using q(3) assms(8) by simp
  have "MSTID (ptp_of ?q k) = MSTID ?x" using q(1) assms(9) by simp
  from read_msti_message [OF ok this, of br blank] show ?thesis
    by (simp add: info Let_def entry vector_key_def q(1) read_msti_msg_def)
qed

subsection \<open>Which frames are accepted\<close>

text \<open>
  The validation of 14.4 on frames of a nonnegative size: what it accepts has the protocol
  identifier of spanning tree and at least the octets of its kind, is handled as STP, RSTP or
  MSTP, and only as MSTP with a count of MSTI messages, which is between 0 and 64.
\<close>

theorem validate_bpdu_accepts:
  assumes "validate_bpdu b n = Some (b', m)" and "0 \<le> n" and "n < 2 ^ 31"
  shows "protocolIdentifier b = 0 \<and> 4 \<le> n
    \<and> b' = b\<lparr>protocolVersion := protocolVersion b'\<rparr>
    \<and> protocolVersion b' \<in> {protoSTP, protoRSTP, protoMSTP}
    \<and> (case m of
         Some k \<Rightarrow> protocolVersion b' = protoMSTP \<and> bpduType b = bpduTypeRST
           \<and> 102 \<le> n \<and> 0 \<le> k \<and> k \<le> 64 \<and> uint (version3_len b) = 64 + 16 * k
       | None \<Rightarrow> protocolVersion b' \<noteq> protoMSTP
           \<and> (bpduType b = bpduTypeTCN \<or> bpduType b = bpduTypeConfig \<and> 35 \<le> n
              \<or> bpduType b = bpduTypeRST \<and> 35 \<le> n \<and> protocolVersion b' = protoRSTP))"
proof -
  have n: "as_size_t n = n" using assms(2,3) by (intro as_size_t_nonneg) simp_all
  have m: "0 \<le> x div 16 \<and> x div 16 \<le> 64 \<and> x = 16 * (x div 16)"
    if "0 \<le> x" "x \<le> 1024" "x mod 16 = 0" for x :: int
    using that by presburger
  show ?thesis
    using assms(1)
    by (auto simp: validate_bpdu_def n bad_mst_part_def msti_octets_def not_less
        dest: m split: if_split_asm)
qed

text \<open>
  The octets of the MSTI messages need not have arrived: a frame of 102 octets, the header
  alone, is accepted as conveying any number of messages up to 64, as the size is compared
  with the fixed part only.
\<close>

theorem validate_bpdu_ignores_missing_messages:
  assumes "protocolIdentifier b = 0" and "bpduType b = bpduTypeRST"
    and "protocolVersion b = protoMSTP" and "version1_len b = 0"
    and "uint (version3_len b) = 64 + 16 * k" and "0 \<le> k" and "k \<le> 64"
  shows "validate_bpdu b MST_BPDU_SIZE_WO_MSTI_MSGS = Some (b, Some k)"
proof -
  have size: "as_size_t 102 = 102" by (intro as_size_t_nonneg) simp_all
  have "\<not> bad_mst_part b 102"
    using assms by (simp add: bad_mst_part_def size msti_octets_def)
  with assms show ?thesis by (simp add: validate_bpdu_def size msti_octets_def)
qed

text \<open>
  An unwanted frame is inert: on a port with the BPDU guard or the BPDU filter, on a disabled
  bridge, while an earlier frame waits, or when it is not valid, a frame changes counters only
  (and, with the guard, shuts the port down); it runs no state machine.
\<close>

theorem rx_bpdu_inert:
  assumes "p < length (ports br)" and "let prt = port_at br p in
      BpduGuardPort prt \<or> bpduFilterPort prt \<or> \<not> bridgeEnabled br \<or> rcvdBpdu prt
      \<or> validate_bpdu b n = None"
  shows "\<exists>q. MSTP_IN_rx_bpdu clk p b n br = Some (upd_port p (\<lambda>_. q) br)
    \<and> num_rx_bpdu q = num_rx_bpdu (port_at br p) + 1
    \<and> q\<lparr>num_rx_bpdu := 0, num_rx_bpdu_filtered := 0, BpduGuardError := False, outs := []\<rparr>
      = (port_at br p)\<lparr>num_rx_bpdu := 0, num_rx_bpdu_filtered := 0, BpduGuardError := False, outs := []\<rparr>
    \<and> outs q = outs (port_at br p) @ (if BpduGuardPort (port_at br p) then [Shutdown] else [])
    \<and> BpduGuardError q = (BpduGuardPort (port_at br p) \<or> BpduGuardError (port_at br p))"
proof -
  let ?p = "(port_at br p)\<lparr>num_rx_bpdu := num_rx_bpdu (port_at br p) + 1\<rparr>"
  let ?q = "if BpduGuardPort ?p then MSTP_OUT_shutdown_port (?p\<lparr>BpduGuardError := True\<rparr>)
    else if bpduFilterPort ?p then ?p\<lparr>num_rx_bpdu_filtered := num_rx_bpdu_filtered ?p + 1\<rparr> else ?p"
  have "MSTP_IN_rx_bpdu clk p b n br = Some (upd_port p (\<lambda>_. ?q) br)"
    using assms
    by (cases "validate_bpdu b n") (auto simp: MSTP_IN_rx_bpdu_def Let_def upd_port_def upd_nth_def)
  then show ?thesis
    by (intro exI [of _ ?q]) (simp add: MSTP_OUT_shutdown_port_def emit_def)
qed

subsection \<open>Witnesses\<close>

text \<open>A designated port with one MSTI, and a port in its region that has received its frame.\<close>

definition sender_port :: port_t where
  "sender_port = zero_port\<lparr>port_trees :=
     [zero_ptp\<lparr>role := roleDesignated\<rparr>,
      zero_ptp\<lparr>MSTID := 5, role := roleDesignated, designatedPriority :=
        zero_vector\<lparr>RRootID := BridgeId 0x1005 7, DesignatedBridgeID := BridgeId 0x8005 0,
                    DesignatedPortID := 0x7000\<rparr>\<rparr>]\<rparr>"

definition receiver_port :: port_t where
  "receiver_port = zero_port\<lparr>rcvdBpduData := mst_bpdu zero_bridge blank_bpdu sender_port,
     rcvdBpduNumOfMstis := 1, rcvdInternal := True,
     port_trees := [zero_ptp, zero_ptp\<lparr>MSTID := 5\<rparr>]\<rparr>"

lemma sender_port_trees: "length (port_trees sender_port) = 2"
  "role (port_trees sender_port ! 0) = roleDesignated"
  "role (port_trees sender_port ! 1) = roleDesignated"
  "MSTID (port_trees sender_port ! 1) = 5"
  by (simp_all add: sender_port_def)

lemmas sender_port_facts = sender_port_trees sender_port_trees(3,4) [unfolded One_nat_def]

lemma transmitted_frames_valid_witness:
  "\<exists>b n m. outs (txMstp (zero_bridge\<lparr>ForceProtocolVersion := 3\<rparr>) sender_port) = [TxBpdu b n]
     \<and> validate_bpdu b n = Some (b, m)"
proof -
  let ?br = "zero_bridge\<lparr>ForceProtocolVersion := 3\<rparr>"
  have "outs sender_port = []" "outs (txMstp ?br sender_port) \<noteq> []"
    by (simp_all add: sender_port_def zero_port_def txMstp_def cannot_transmit_def
        MSTP_OUT_tx_bpdu_def emit_def Let_def)
  then show ?thesis
    using transmitted_frames_valid [of sender_port "txMstp ?br sender_port" ?br] sender_port_trees
    by auto
qed

lemma cist_message_roundtrip_witness:
  "msgPriority (read_cist_msg zero_bridge (mst_bpdu zero_bridge blank_bpdu sender_port) zero_ptp)
     = designatedPriority (cist_of sender_port)"
  using cist_message_roundtrip [of sender_port zero_bridge blank_bpdu zero_bridge zero_ptp]
  by (simp add: sender_port_trees Let_def)

lemma msti_message_roundtrip_witness:
  "case rcvInfo zero_bridge 1 (setRcvdMsgs receiver_port) of (info, q) \<Rightarrow>
     rcvdMsg (ptp_of q 1)
     \<and> vector_key False (msgPriority (ptp_of q 1)) 0
       = vector_key False (designatedPriority (ptp_of sender_port 1)) 0"
proof -
  have "sender_ok sender_port" by code_simp
  moreover have "MSTID (ptp_of receiver_port 1) = 5" "length (port_trees receiver_port) = 2"
    "rcvdBpduData receiver_port = mst_bpdu zero_bridge blank_bpdu sender_port"
    "rcvdBpduNumOfMstis receiver_port = 1" "rcvdInternal receiver_port"
    by (simp_all add: receiver_port_def)
  ultimately show ?thesis
    using msti_message_roundtrip [of sender_port 1 receiver_port zero_bridge blank_bpdu 1 zero_bridge 0]
    by (simp add: sender_port_facts Let_def case_prod_unfold)
qed

lemma validate_bpdu_accepts_witness:
  "validate_bpdu (blank_bpdu\<lparr>bpduType := bpduTypeRST, protocolVersion := 7, version3_len := 80\<rparr>) 118
     = Some (blank_bpdu\<lparr>bpduType := bpduTypeRST, protocolVersion := 3, version3_len := 80\<rparr>, Some 1)
   \<and> (1 :: int) \<le> 64"
proof -
  let ?b = "blank_bpdu\<lparr>bpduType := bpduTypeRST, protocolVersion := 7, version3_len := 80\<rparr>"
  have "validate_bpdu ?b 118 = Some (?b\<lparr>protocolVersion := 3\<rparr>, Some 1)"
    by (simp add: validate_bpdu_def bad_mst_part_def msti_octets_def as_size_t_nonneg blank_bpdu_def)
  from validate_bpdu_accepts [OF this] this show ?thesis by simp
qed

lemma validate_bpdu_ignores_missing_messages_witness:
  "validate_bpdu (blank_bpdu\<lparr>bpduType := bpduTypeRST, protocolVersion := 3, version3_len := 1088\<rparr>) 102
     = Some (blank_bpdu\<lparr>bpduType := bpduTypeRST, protocolVersion := 3, version3_len := 1088\<rparr>, Some 64)"
  by (rule validate_bpdu_ignores_missing_messages) (simp_all add: blank_bpdu_def)

lemma rx_bpdu_inert_witness:
  "\<exists>t. MSTP_IN_rx_bpdu 0 0 blank_bpdu 35
         (zero_bridge\<lparr>ports := [zero_port\<lparr>BpduGuardPort := True\<rparr>]\<rparr>) = Some t
     \<and> outs (port_at t 0) = [Shutdown]"
proof -
  let ?br = "zero_bridge\<lparr>ports := [zero_port\<lparr>BpduGuardPort := True\<rparr>]\<rparr>"
  have "0 < length (ports ?br)" "let prt = port_at ?br 0 in BpduGuardPort prt \<or> bpduFilterPort prt
      \<or> \<not> bridgeEnabled ?br \<or> rcvdBpdu prt \<or> validate_bpdu blank_bpdu 35 = None"
    by (simp_all add: Let_def)
  from rx_bpdu_inert [OF this, of 0] show ?thesis
    by (auto simp: zero_port_def upd_port_def)
qed

end
