(* ===== verification/MSTP_Daemon.thy ===== *)
theory MSTP_Daemon
  imports MSTP_Tracking MSTP_Exchange
begin

section \<open>What the daemon tracks: which interface belongs to which bridge\<close>

text \<open>
  Seen from outside the daemon keeps a set of bridges and a map from interfaces to bridges.
  \<open>spec_notify\<close> and \<open>spec_add\<close> say what notifications and the command that adds bridges do to them;
  everything else leaves them alone.
\<close>

type_synonym tracked = "int set \<times> (int \<Rightarrow> int option)"

definition tracked :: "mstpd \<Rightarrow> tracked" where
  "tracked bs = (br_ids bs, owner bs)"

fun spec_notify :: "(int \<Rightarrow> bool) \<Rightarrow> int \<Rightarrow> int \<Rightarrow> bool \<Rightarrow> tracked \<Rightarrow> int \<times> tracked" where
  "spec_notify creatable m i newlink (B, own) =
     (if m \<ge> 0 \<and> m \<noteq> i then
        if m \<notin> B then (- 2, B, own)
        else if own i = Some m then (0, B, if newlink then own else own(i := None))
        else if \<not> newlink then (- 1, B, own)
        else if creatable i then (0, B, own(i := Some m))
        else (- 1, B, own(i := None))
      else if \<not> newlink then
        if i \<in> B then (0, B - {i}, \<lambda>j. if own j = Some i then None else own j)
        else (0, B, own(i := None))
      else if m = i \<and> i \<notin> B then (- 2, B, own)
      else (0, B, own))"

fun spec_add :: "(int \<Rightarrow> bool) \<Rightarrow> (int \<Rightarrow> bool) \<Rightarrow> (int \<times> int list) list \<Rightarrow> tracked \<Rightarrow> int \<times> tracked" where
  "spec_add creatable_br creatable [] T = (0, T)"
| "spec_add creatable_br creatable ((i, ifs) # rest) (B, own) =
     (if i \<notin> B \<and> \<not> creatable_br i then (- 1, B, own)
      else spec_add creatable_br creatable rest
        (insert i B,
         \<lambda>j. if j \<in> set ifs then if own j = Some i \<or> creatable j then Some i else None
             else if own j = Some i then None else own j))"

definition can_create_br :: "kernel \<Rightarrow> int \<Rightarrow> bool" where
  "can_create_br k i \<longleftrightarrow> (\<exists>name. index_to_name k i = Some name \<and> get_hwaddr k name \<noteq> None)"

subsection \<open>Notifications\<close>

lemma owner_iff:
  assumes "track_ok bs" "n < length bs"
  shows "owner bs i = Some (br_if_index (bs ! n)) \<longleftrightarrow> i \<in> set (if_indices (bs ! n))"
proof
  assume "owner bs i = Some (br_if_index (bs ! n))"
  from owner_Some [OF this] obtain m where m: "m < length bs" "br_if_index (bs ! m) = br_if_index (bs ! n)"
    "i \<in> set (if_indices (bs ! m))" by blast
  then have "m = n" using track_ok_differ [OF assms(1) m(1) assms(2)] by (auto simp: differ_def)
  with m show "i \<in> set (if_indices (bs ! n))" by simp
qed (use assms owner_nth in \<open>auto simp: track_ok_def\<close>)

lemma notify_slave_ok:
  assumes ok: "track_ok bs" and n: "n < length bs"
    and run: "notify_slave k n i newlink running bs = Some (r, bs')" and mi: "br_if_index (bs ! n) \<ge> 0"
    "br_if_index (bs ! n) \<noteq> i"
  shows "track_ok bs' \<and> (r, tracked bs') = spec_notify (can_create_if k) (br_if_index (bs ! n)) i newlink (tracked bs)"
proof -
  let ?m = "br_if_index (bs ! n)"
  have m: "?m \<in> br_ids bs" using n by (auto simp: br_ids_def)
  show ?thesis
  proof (cases "find_if i (bs ! n)")
    case (Some p)
    note p = find_if_Some [OF Some]
    have own: "owner bs i = Some ?m" using Some find_if_None [of i "bs ! n"] owner_iff [OF ok n] by simp
    show ?thesis
    proof (cases newlink)
      case True
      with run Some have "r = 0" and b: "on_bridge n (set_if_up k running p) bs = Some bs'"
        by (auto simp: notify_slave_def)
      with on_bridge_ok [OF ok n b set_if_up_ok [OF track_ok_nth [OF ok n]]] own m mi True
      show ?thesis by (simp add: tracked_def)
    next
      case False
      with run Some obtain b where r: "r = 0" and b: "delete_if k p (bs ! n) = Some b" "bs' = bs[n := b]"
        by (auto simp: notify_slave_def on_bridge_def)
      from delete_if_ok [OF track_ok_nth [OF ok n] b(1)] p
      have d: "bridge_sys_ok b" "br_if_index b = ?m" "set (if_indices b) = set (if_indices (bs ! n)) - {i}" by auto
      then have ok': "track_ok bs'" and t: "moves_only i bs bs'"
        using ok n b(2) by (auto intro: track_ok_shrink moves_only_update)
      have "owner bs' i = None"
      proof (rule ccontr)
        assume "owner bs' i \<noteq> None"
        then obtain q where "owner bs' i = Some q" by auto
        from owner_Some [OF this] obtain l where l: "l < length bs'" "i \<in> set (if_indices (bs' ! l))" by blast
        show False
        proof (cases "l = n")
          case False
          with l b(2) have "l < length bs" "i \<in> set (if_indices (bs ! l))" by auto
          with track_ok_differ [OF ok this(1) n False] own owner_iff [OF ok n] show False
            by (auto simp: differ_def)
        qed (use l b(2) d n in simp)
      qed
      from moves_only_owner [OF t, unfolded this] moves_only_ids [OF t] ok' own m mi False r show ?thesis
        by (simp add: tracked_def)
    qed
  next
    case None
    then have new: "i \<notin> set (if_indices (bs ! n))" by (simp add: find_if_None)
    then have own: "owner bs i \<noteq> Some ?m" using owner_iff [OF ok n] by simp
    show ?thesis
    proof (cases newlink)
      case False
      with run None ok own m mi show ?thesis by (simp add: notify_slave_def tracked_def)
    next
      case True
      with run None obtain created bs1 where bs1: "attach_if k i n bs = Some (created, bs1)"
        and res: "if created then r = 0 \<and> on_bridge n (set_if_up k running (length (br_ifs (bs1 ! n)) - 1)) bs1 = Some bs'
          else r = - 1 \<and> bs' = bs1"
        by (auto simp: notify_slave_def split: option.splits bool.splits)
      note a = attach_if_ok [OF ok n bs1 new]
      then have t: "moves_only i bs bs1" by blast
      have n1: "n < length bs1" using moves_only_length [OF t] n by simp
      from a have oi: "owner bs1 i = (if created then Some ?m else None)" by blast
      have own1: "owner bs1 = (owner bs)(i := if created then Some ?m else None)" "br_ids bs1 = br_ids bs"
        using moves_only_owner [OF t, unfolded oi] moves_only_ids [OF t] by blast+
      show ?thesis
      proof (cases created)
        case c: True
        with res have "r = 0" and b: "on_bridge n (set_if_up k running (length (br_ifs (bs1 ! n)) - 1)) bs1 = Some bs'"
          by auto
        have ok1: "track_ok bs1" and cc: "can_create_if k i" using a c by auto
        from on_bridge_ok [OF ok1 n1 b set_if_up_ok [OF track_ok_nth [OF ok1 n1]]]
        have "track_ok bs'" "tracked bs' = tracked bs1" by (simp_all add: tracked_def)
        with own1 c own m mi True \<open>r = 0\<close> cc show ?thesis by (simp add: tracked_def)
      next
        case False
        with a have "track_ok bs1" "\<not> can_create_if k i" by auto
        with res False own1 own m mi True show ?thesis by (simp add: tracked_def)
      qed
    qed
  qed
qed

lemma notify_ok:
  assumes ok: "track_ok bs" and run: "bridge_notify k m i newlink flgs bs = Some (r, bs')"
  shows "track_ok bs' \<and> (r, tracked bs') = spec_notify (can_create_if k) m i newlink (tracked bs)"
proof (cases "m \<ge> 0 \<and> m \<noteq> i")
  case slave: True
  show ?thesis
  proof (cases "find_br m bs")
    case None
    with run slave ok show ?thesis by (auto simp: bridge_notify_def tracked_def find_br_None)
  next
    case (Some n)
    note n = find_br_Some [OF Some]
    from run slave Some obtain bs1 where
      bs1: "bs1 = bs \<or> (\<exists>up. on_bridge n (set_br_up k up) bs = Some bs1)"
      and s: "notify_slave k n i newlink (bit flgs 0 \<and> bit flgs 6) bs1 = Some (r, bs')"
      by (auto simp: bridge_notify_def Let_def split: option.splits if_split_asm)
    from bs1 have o: "track_ok bs1 \<and> tracked bs1 = tracked bs \<and> length bs1 = length bs \<and> br_if_index (bs1 ! n) = m"
    proof
      assume "\<exists>up. on_bridge n (set_br_up k up) bs = Some bs1"
      then obtain up where "on_bridge n (set_br_up k up) bs = Some bs1" ..
      from on_bridge_ok [OF ok _ this] set_br_up_ok [OF track_ok_nth [OF ok]] n show ?thesis
        by (simp add: tracked_def)
    qed (use ok n in simp)
    with notify_slave_ok [OF _ _ s] n slave show ?thesis by simp
  qed
next
  case master: False
  show ?thesis
  proof (cases newlink)
    case True
    show ?thesis
    proof (cases "m = i")
      case False
      with True master run ok show ?thesis by (auto simp: bridge_notify_def Let_def tracked_def)
    next
      case eq: True
      show ?thesis
      proof (cases "find_br m bs")
        case None
        with eq have "find_br i bs = None" "i \<notin> br_ids bs" by (simp_all add: find_br_None)
        with True eq run ok show ?thesis by (simp add: bridge_notify_def Let_def tracked_def)
      next
        case (Some n)
        with True eq run have r: "r = 0" and b: "on_bridge n (set_br_up k (bit flgs 0)) bs = Some bs'"
          by (auto simp: bridge_notify_def Let_def)
        have "i \<in> br_ids bs" using Some find_br_None [of m bs] eq by simp
        with on_bridge_ok [OF ok _ b] set_br_up_ok [OF track_ok_nth [OF ok]] find_br_Some [OF Some] r True eq
        show ?thesis by (simp add: tracked_def)
      qed
    qed
  next
    case False
    with master run obtain found bs1 where bs1: "delete_br_byindex i bs = Some (found, bs1)"
      and res: "if found then r = 0 \<and> bs' = bs1 else r = 0 \<and> delete_elsewhere k i None bs1 = Some bs'"
      by (auto simp: bridge_notify_def Let_def split: option.splits bool.splits)
    note d = delete_br_byindex_ok [OF ok bs1]
    show ?thesis
    proof (cases found)
      case True
      with res d False master show ?thesis by (auto simp: tracked_def)
    next
      case f: False
      with bs1 have "bs1 = bs" by (auto simp: delete_br_byindex_def split: option.splits)
      with res f have r: "r = 0" and e: "delete_elsewhere k i None bs = Some bs'" by auto
      from delete_elsewhere_ok [OF ok e] have
        t: "track_ok bs'" "moves_only i bs bs'" "owner bs' i = None" by auto
      from moves_only_owner [OF t(2), unfolded t(3)] moves_only_ids [OF t(2)] t(1) r d f False master show ?thesis
        by (simp add: tracked_def)
    qed
  qed
qed

end
