(* ===== verification/MSTP_Manage.thy ===== *)
theory MSTP_Manage
  imports MSTP_Daemon
begin

section \<open>Commands and frames keep the invariant\<close>

subsection \<open>Adding bridges\<close>

lemma delete_unlisted_ok:
  assumes "bridge_sys_ok b" "delete_unlisted k ifs m p b = Some b'" "m + p = length (br_ifs b)"
    "set (take p (if_indices b)) \<subseteq> set ifs"
  shows "bridge_sys_ok b' \<and> br_if_index b' = br_if_index b
    \<and> set (if_indices b') = set (if_indices b) \<inter> set ifs"
  using assms
proof (induction k ifs m p b rule: delete_unlisted.induct)
  case (1 k ifs p b)
  then show ?case by (auto simp: if_indices_def)
next
  case (2 k ifs m p b)
  have p: "p < length (br_ifs b)" using "2.prems"(3) by simp
  show ?case
  proof (cases "if_index (br_ifs b ! p) \<in> set ifs")
    case True
    have "set (take (Suc p) (if_indices b)) \<subseteq> set ifs"
      using True "2.prems"(4) p by (simp add: take_Suc_conv_app_nth if_indices_def)
    with "2.IH"(1) [OF True "2.prems"(1)] True "2.prems" show ?thesis by simp
  next
    case False
    with "2.prems"(2) obtain b1 where b1: "delete_if k p b = Some b1"
      and rest: "delete_unlisted k ifs m p b1 = Some b'" by (auto split: option.splits)
    note d = delete_if_ok [OF "2.prems"(1) b1 p]
    have ifs: "br_ifs b1 = remove_nth p (br_ifs b)" using b1 by (auto simp: delete_if_def Let_def)
    then have "m + p = length (br_ifs b1)" using p "2.prems"(3) by (simp add: length_remove_nth)
    moreover have "take p (if_indices b1) = take p (if_indices b)"
      using p by (simp add: if_indices_def ifs map_remove_nth remove_nth_def take_map)
    ultimately have "bridge_sys_ok b' \<and> br_if_index b' = br_if_index b1
        \<and> set (if_indices b') = set (if_indices b1) \<inter> set ifs"
      using "2.IH"(2) [OF False b1 _ rest] d "2.prems"(4) by simp
    with d False show ?thesis by auto
  qed
qed

lemma add_iface_ok:
  assumes ok: "track_ok bs" and n: "n < length bs" and run: "add_iface k n i bs = Some bs'"
  shows "track_ok bs' \<and> br_ids bs' = br_ids bs \<and> length bs' = length bs
    \<and> br_if_index (bs' ! n) = br_if_index (bs ! n)
    \<and> owner bs' = (owner bs)(i := if owner bs i = Some (br_if_index (bs ! n)) \<or> can_create_if k i
                                  then Some (br_if_index (bs ! n)) else None)"
proof (cases "find_if i (bs ! n)")
  case (Some p)
  then have "owner bs i = Some (br_if_index (bs ! n))"
    using owner_iff [OF ok n] find_if_None [of i "bs ! n"] by simp
  with run Some ok show ?thesis by (auto simp: add_iface_def)
next
  case None
  then have new: "i \<notin> set (if_indices (bs ! n))" by (simp add: find_if_None)
  then have own: "owner bs i \<noteq> Some (br_if_index (bs ! n))" using owner_iff [OF ok n] by simp
  from run None obtain created bs1 where bs1: "attach_if k i n bs = Some (created, bs1)"
    by (auto simp: add_iface_def split: option.splits)
  with run None have res: "bs' = bs1 \<or> (\<exists>up p. on_bridge n (set_if_up k up p) bs1 = Some bs')"
    by (auto simp: add_iface_def Let_def split: bool.splits if_split_asm)
  from attach_if_ok [OF ok n bs1 new] have a: "track_ok bs1" "moves_only i bs bs1" "created = can_create_if k i"
    and oi: "owner bs1 i = (if created then Some (br_if_index (bs ! n)) else None)" by auto
  have n1: "n < length bs1" using moves_only_length [OF a(2)] n by simp
  have o1: "owner bs1 = (owner bs)(i := if created then Some (br_if_index (bs ! n)) else None)"
    using moves_only_owner [OF a(2), unfolded oi] .
  from res have "track_ok bs' \<and> br_ids bs' = br_ids bs1 \<and> length bs' = length bs1
      \<and> br_if_index (bs' ! n) = br_if_index (bs1 ! n) \<and> owner bs' = owner bs1"
  proof
    assume "\<exists>up p. on_bridge n (set_if_up k up p) bs1 = Some bs'"
    then obtain up p where "on_bridge n (set_if_up k up p) bs1 = Some bs'" by blast
    from on_bridge_ok [OF a(1) n1 this set_if_up_ok [OF track_ok_nth [OF a(1) n1]]] n1 show ?thesis by simp
  qed (use a(1) in simp)
  with o1 moves_only_ids [OF a(2)] moves_only_length [OF a(2)] moves_only_nth [OF a(2) n] own a(3) show ?thesis by simp
qed

lemma add_ifaces_ok:
  assumes "track_ok bs" "n < length bs" "add_ifaces k n is bs = Some bs'"
  shows "track_ok bs' \<and> br_ids bs' = br_ids bs
    \<and> owner bs' = (\<lambda>j. if j \<in> set is then if owner bs j = Some (br_if_index (bs ! n)) \<or> can_create_if k j
                                      then Some (br_if_index (bs ! n)) else None
                       else owner bs j)"
  using assms
proof (induction k n "is" bs rule: add_ifaces.induct)
  case (2 k n i "is" bs)
  from 2(4) obtain bs1 where bs1: "add_iface k n i bs = Some bs1" and rest: "add_ifaces k n is bs1 = Some bs'"
    by (auto split: option.splits)
  from add_iface_ok [OF 2(2,3) bs1] have a: "track_ok bs1" "br_ids bs1 = br_ids bs" "length bs1 = length bs"
    "br_if_index (bs1 ! n) = br_if_index (bs ! n)" and o: "owner bs1 = (owner bs)(i :=
      if owner bs i = Some (br_if_index (bs ! n)) \<or> can_create_if k i then Some (br_if_index (bs ! n)) else None)"
    by blast+
  from "2.IH" [OF bs1 a(1) _ rest, unfolded a(4)] a(3) 2(3) have ih: "track_ok bs' \<and> br_ids bs' = br_ids bs1
    \<and> owner bs' = (\<lambda>j. if j \<in> set is then if owner bs1 j = Some (br_if_index (bs ! n)) \<or> can_create_if k j
        then Some (br_if_index (bs ! n)) else None else owner bs1 j)" by simp
  then show ?case using a(2) by (auto simp: o fun_eq_iff)
qed simp

lemma owner_cong:
  "list_all2 (\<lambda>b b'. br_if_index b' = br_if_index b \<and> (j \<in> set (if_indices b') \<longleftrightarrow> j \<in> set (if_indices b))) bs bs'
    \<Longrightarrow> owner bs' j = owner bs j"
  by (induction rule: list_all2_induct) auto

lemma owner_after_delete:
  assumes ok: "track_ok bs" and n: "n < length bs" and ok': "track_ok (bs[n := b])"
    and b: "br_if_index b = br_if_index (bs ! n)" "set (if_indices b) = set (if_indices (bs ! n)) \<inter> S"
  shows "owner (bs[n := b]) j =
    (if owner bs j = Some (br_if_index (bs ! n)) \<and> j \<notin> S then None else owner bs j)"
proof (cases "j \<in> set (if_indices (bs ! n))")
  case False
  then have "owner bs j \<noteq> Some (br_if_index (bs ! n))" using owner_iff [OF ok n] by simp
  moreover have "owner (bs[n := b]) j = owner bs j"
    using False b n by (intro owner_cong) (auto simp: list_all2_conv_all_nth nth_list_update)
  ultimately show ?thesis by simp
next
  case True
  then have own: "owner bs j = Some (br_if_index (bs ! n))" using owner_iff [OF ok n] by simp
  show ?thesis
  proof (cases "j \<in> S")
    case S: True
    with True b have "j \<in> set (if_indices (bs[n := b] ! n))" using n by simp
    with owner_iff [OF ok', of n j] n b(1) own S show ?thesis by simp
  next
    case False
    have "j \<notin> set (if_indices (bs ! m))" if "m < length bs" "m \<noteq> n" for m
      using track_ok_differ [OF ok n that(1)] that(2) True by (auto simp: differ_def)
    then have "j \<notin> set (if_indices (bs[n := b] ! m))" if "m < length bs" for m
      using that False b(2) n by (cases "m = n") simp_all
    then have "owner (bs[n := b]) j = None"
      unfolding owner_None by (metis in_set_conv_nth length_list_update)
    with own False show ?thesis by simp
  qed
qed

lemma find_or_create_br_ok:
  assumes ok: "track_ok bs" and run: "find_or_create_br k i bs = Some r"
  shows "case r of None \<Rightarrow> i \<notin> br_ids bs \<and> \<not> can_create_br k i
    | Some (n, bs1) \<Rightarrow> (i \<in> br_ids bs \<or> can_create_br k i) \<and> track_ok bs1 \<and> n < length bs1
        \<and> br_if_index (bs1 ! n) = i \<and> br_ids bs1 = insert i (br_ids bs) \<and> owner bs1 = owner bs"
proof (cases "find_br i bs")
  case (Some n)
  then have "i \<in> br_ids bs" using find_br_None [of i bs] by simp
  with find_br_Some [OF Some] Some run ok show ?thesis by (auto simp: find_or_create_br_def)
next
  case None
  then have i: "i \<notin> br_ids bs" by (simp add: find_br_None)
  show ?thesis
  proof (cases "create_br k i bs")
    case c: None
    then have "\<not> can_create_br k i" by (auto simp: create_br_def can_create_br_def split: option.splits)
    with c None run i show ?thesis by (auto simp: find_or_create_br_def)
  next
    case (Some bs1)
    then obtain b where b: "bs1 = bs @ [b]" "br_if_index b = i" "if_indices b = []" "bridge_sys_ok b" "can_create_br k i"
      by (auto simp: create_br_def can_create_br_def bridge_sys_ok_def if_indices_def bridge_ok_created
          static_def after_create split: option.splits)
    with track_ok_append [OF ok b(4,3)] i have ok1: "track_ok bs1" by simp
    have o1: "owner bs1 = owner bs"
    proof -
      have "owner (xs @ [b]) j = owner xs j" for xs j using b(3) by (induction xs) auto
      then show ?thesis by (auto simp: b(1))
    qed
    have ids: "br_ids bs1 = insert i (br_ids bs)" by (auto simp: br_ids_def b(1,2))
    from run None Some obtain bs2 where r: "r = Some (length bs, bs2)"
      and bs2: "bs2 = bs1 \<or> (\<exists>up. on_bridge (length bs) (set_br_up k up) bs1 = Some bs2)"
      by (auto simp: find_or_create_br_def Let_def split: if_split_asm)
    from bs2 have "track_ok bs2 \<and> owner bs2 = owner bs1 \<and> br_ids bs2 = br_ids bs1 \<and> length bs2 = length bs1
        \<and> br_if_index (bs2 ! length bs) = br_if_index (bs1 ! length bs)"
    proof
      assume "\<exists>up. on_bridge (length bs) (set_br_up k up) bs1 = Some bs2"
      then obtain up where "on_bridge (length bs) (set_br_up k up) bs1 = Some bs2" ..
      moreover have "length bs < length bs1" by (simp add: b(1))
      ultimately show ?thesis
        using on_bridge_ok [OF ok1, of "length bs" "set_br_up k up" bs2] set_br_up_ok track_ok_nth [OF ok1] by blast
    qed (use ok1 in simp)
    with r o1 ids b show ?thesis by simp
  qed
qed

lemma add_bridges_ok:
  assumes "track_ok bs" "CTL_add_bridges k l bs = Some (r, bs')"
  shows "track_ok bs' \<and> (r, tracked bs') = spec_add (can_create_br k) (can_create_if k) l (tracked bs)"
  using assms
proof (induction k l bs rule: CTL_add_bridges.induct)
  case (1 k bs)
  then show ?case by (simp add: tracked_def)
next
  case (2 k i ifs rest bs)
  from 2(3) obtain q where q: "find_or_create_br k i bs = Some q" by (auto split: option.splits)
  note f = find_or_create_br_ok [OF 2(2) q]
  show ?case
  proof (cases q)
    case None
    with 2 q f show ?thesis by (simp add: tracked_def)
  next
    case (Some nb)
    obtain n bs1 where nb: "nb = (n, bs1)" by (cases nb)
    with Some f have f1: "i \<in> br_ids bs \<or> can_create_br k i" "track_ok bs1" "n < length bs1"
      "br_if_index (bs1 ! n) = i" "br_ids bs1 = insert i (br_ids bs)" "owner bs1 = owner bs" by auto
    from 2(3) q Some nb obtain bs2 bs3 where
      d: "on_bridge n (\<lambda>b. delete_unlisted k ifs (length (br_ifs b)) 0 b) bs1 = Some bs2"
      and a: "add_ifaces k n ifs bs2 = Some bs3" and rest: "CTL_add_bridges k rest bs3 = Some (r, bs')"
      by (auto split: option.splits)
    from d obtain b where b: "delete_unlisted k ifs (length (br_ifs (bs1 ! n))) 0 (bs1 ! n) = Some b" "bs2 = bs1[n := b]"
      by (auto simp: on_bridge_def)
    from delete_unlisted_ok [OF track_ok_nth [OF f1(2,3)] b(1)] f1(4)
    have b': "bridge_sys_ok b" "br_if_index b = i" "set (if_indices b) = set (if_indices (bs1 ! n)) \<inter> set ifs" by auto
    have ok2: "track_ok bs2" unfolding b(2) using b' f1 by (intro track_ok_shrink) auto
    have n2: "n < length bs2" "br_if_index (bs2 ! n) = i" using f1(3) b' by (simp_all add: b(2))
    have o2: "owner bs2 j = (if owner bs j = Some i \<and> j \<notin> set ifs then None else owner bs j)" for j
      using owner_after_delete [OF f1(2,3) ok2 [unfolded b(2)] _ b'(3)] b'(2) f1(4,6) by (simp add: b(2))
    have "map br_if_index bs2 = map br_if_index bs1"
      using f1(3,4) b'(2) by (simp add: b(2) map_update list_update_same_conv)
    then have ids2: "br_ids bs2 = insert i (br_ids bs)" using f1(5) by (simp only: br_ids_def)
    from add_ifaces_ok [OF ok2 n2(1) a, unfolded n2(2)] have ok3: "track_ok bs3" "br_ids bs3 = br_ids bs2"
      "owner bs3 = (\<lambda>j. if j \<in> set ifs then if owner bs2 j = Some i \<or> can_create_if k j then Some i else None
                        else owner bs2 j)" by simp_all
    have "tracked bs3 = (insert i (br_ids bs),
        \<lambda>j. if j \<in> set ifs then if owner bs j = Some i \<or> can_create_if k j then Some i else None
            else if owner bs j = Some i then None else owner bs j)"
      using ok3 ids2 by (auto simp: tracked_def o2 fun_eq_iff)
    with "2.IH" [OF q Some nb [symmetric] d a ok3(1) rest] f1(1) show ?thesis by (auto simp: tracked_def)
  qed
qed

subsection \<open>The other commands\<close>

lemma ctl_call_ok:
  assumes "track_ok bs" "n < length bs" "ctl_call f n bs = Some (r, bs')"
    "\<And>r t. bridge_ok (protocol (bs ! n)) \<Longrightarrow> f (protocol (bs ! n)) = Some (r, t)
      \<Longrightarrow> bridge_ok t \<and> static t = static (protocol (bs ! n))"
  shows "track_ok bs' \<and> tracked bs' = tracked bs"
proof -
  from assms(3) obtain t where t: "f (protocol (bs ! n)) = Some (r, t)"
    and bs': "bs' = bs[n := (bs ! n)\<lparr>protocol := t\<rparr>]" by (auto simp: ctl_call_def)
  note ok = track_ok_nth [OF assms(1,2)]
  from bridge_sys_okI [OF ok] assms(4) [OF protocol_ok [OF ok] t]
  have "same_ports (bs ! n) ((bs ! n)\<lparr>protocol := t\<rparr>)" by blast
  then have "on_bridge n (\<lambda>b. Some (b\<lparr>protocol := t\<rparr>)) bs = Some bs'" by (simp add: on_bridge_def bs')
  from on_bridge_ok [OF assms(1,2) this] \<open>same_ports _ _\<close> show ?thesis by (simp add: tracked_def)
qed

lemma code_of_Some: "map_option code_of x = Some (r, t) \<Longrightarrow> \<exists>ok. x = Some (ok, t)"
  by (auto simp: code_of_def)

lemma check_port_bound: "CTL_CHECK_BRIDGE_PORT m i bs = Some (n, p) \<Longrightarrow> n < length bs"
  by (auto simp: CTL_CHECK_BRIDGE_PORT_def dest: find_br_Some split: option.splits)

lemma check_tree_bound: "CTL_CHECK_BRIDGE_TREE m t bs = Some (n, p) \<Longrightarrow> n < length bs"
  by (auto simp: CTL_CHECK_BRIDGE_TREE_def dest: find_br_Some split: option.splits)

lemma check_ptp_bound: "CTL_CHECK_BRIDGE_PERTREEPORT m i t bs = Some (n, p, k) \<Longrightarrow> n < length bs"
  by (auto simp: CTL_CHECK_BRIDGE_PERTREEPORT_def dest: check_port_bound split: option.splits)

lemma find_br_bound: "find_br m bs = Some n \<Longrightarrow> n < length bs"
  by (drule find_br_Some) simp

lemmas bounds = check_port_bound check_tree_bound check_ptp_bound find_br_bound

lemma set_msti_bridge_config_pair:
  "bridge_ok br \<Longrightarrow> Some (MSTP_IN_set_msti_bridge_config n pri br) = Some (r, t)
    \<Longrightarrow> bridge_ok t \<and> static t = static br"
  using set_msti_bridge_config_ok [of br n pri] static_set_msti_bridge_config [of n pri br] by auto

text \<open>A sound operation keeps the bridge well formed, its number of ports, and whether it is enabled.\<close>

definition sound :: "(bridge_t \<Rightarrow> (int \<times> bridge_t) option) \<Rightarrow> bool" where
  "sound f \<longleftrightarrow> (\<forall>br r t. bridge_ok br \<longrightarrow> f br = Some (r, t) \<longrightarrow> bridge_ok t \<and> static t = static br)"

lemma soundI: "(\<And>br r t. bridge_ok br \<Longrightarrow> f br = Some (r, t) \<Longrightarrow> bridge_ok t \<and> static t = static br) \<Longrightarrow> sound f"
  by (simp add: sound_def)

lemma sound_pair:
  assumes "\<And>br r t. bridge_ok br \<Longrightarrow> f br = Some (r, t) \<Longrightarrow> bridge_ok t"
    and "\<And>br r t. f br = Some (r, t) \<Longrightarrow> static t = static br"
  shows "sound f"
  using assms by (intro soundI) blast

lemmas setters_sound [simp] =
  sound_pair [OF set_cist_bridge_config_ok static_set_cist_bridge_config]
  sound_pair [OF set_cist_port_config_ok static_set_cist_port_config]
  sound_pair [OF set_msti_port_config_ok static_set_msti_port_config]
  sound_pair [OF port_mcheck_ok static_port_mcheck]

lemma sound_others [simp]:
  "sound (\<lambda>br. Some (MSTP_IN_set_msti_bridge_config n pri br))"
  "sound (\<lambda>br. map_option (Pair 0) (MSTP_IN_set_mst_config_id clk rv name br))"
  by (rule soundI, erule (1) set_msti_bridge_config_pair)
    (auto intro!: soundI intro: set_mst_config_id_ok static_set_mst_config_id)

lemma sound_code_of:
  assumes "\<And>br r t. bridge_ok br \<Longrightarrow> f br = Some (r, t) \<Longrightarrow> bridge_ok t"
    and "\<And>br r t. f br = Some (r, t) \<Longrightarrow> static t = static br"
  shows "sound (\<lambda>br. map_option code_of (f br))"
  using assms by (intro soundI) (blast dest!: code_of_Some)

lemmas result_setters_sound [simp] =
  sound_code_of [OF create_msti_ok static_create_msti] sound_code_of [OF delete_msti_ok static_delete_msti]
  sound_code_of [OF set_vid2fid_ok static_set_vid2fid] sound_code_of [OF set_fid2mstid_ok static_set_fid2mstid]
  sound_code_of [OF set_all_vids2fids_ok static_set_all_vids2fids]
  sound_code_of [OF set_all_fids2mstids_ok static_set_all_fids2mstids]

lemma sound_call:
  assumes "ctl_call f n bs = Some (r, bs')" "n < length bs" "track_ok bs" "sound f"
  shows "track_ok bs' \<and> tracked bs' = tracked bs"
  using ctl_call_ok [OF assms(3,2,1)] assms(4) unfolding sound_def by blast

lemmas CTL_setter_defs = CTL_set_cist_bridge_config_def CTL_set_msti_bridge_config_def
  CTL_set_cist_port_config_def CTL_set_msti_port_config_def CTL_port_mcheck_def CTL_create_msti_def
  CTL_delete_msti_def CTL_set_mstconfid_def CTL_set_vid2fid_def CTL_set_fid2mstid_def
  CTL_set_vids2fids_def CTL_set_fids2mstids_def driver_create_msti_def driver_delete_msti_def

text \<open>Commands that change the parameters of a bridge.\<close>

fun is_setter :: "track_event \<Rightarrow> bool" where
  "is_setter (Notify _ _ _ _) = False" | "is_setter (Frame _ _ _ _) = False"
| "is_setter Second = False" | "is_setter (Add_bridges _) = False"
| "is_setter (Del_bridges _) = False" | "is_setter Fini = False"
| "is_setter _ = True"

lemma setter_step_ok:
  assumes ok: "track_ok bs" and e: "is_setter e" and run: "track_step k e bs = Some bs'"
  shows "track_ok bs' \<and> tracked bs' = tracked bs"
  using run e ok
  by (cases e) (auto simp: CTL_setter_defs split: option.splits dest!: bounds dest: sound_call)

end
