(* ===== verification/MSTP_System.thy ===== *)
theory MSTP_System
  imports MSTP_Manage
begin

section \<open>The daemon as a whole\<close>

text \<open>
  Every step of the daemon keeps the invariant of the list of bridges, and changes which interface
  belongs to which bridge as the specification of notifications and commands says.
\<close>

subsection \<open>All steps\<close>

lemma those_Some:
  "those (map f xs) = Some ys \<longleftrightarrow> list_all2 (\<lambda>x y. f x = Some y) xs ys"
  by (induction xs arbitrary: ys) (auto simp: list_all2_Cons1 split: option.splits)

lemma list_all2_same_ports:
  assumes "track_ok bs" "list_all2 same_ports bs bs'"
  shows "track_ok bs' \<and> tracked bs' = tracked bs"
proof -
  have s: "length bs' = length bs" "\<And>n. n < length bs \<Longrightarrow> same_ports (bs ! n) (bs' ! n)"
    using assms(2) by (auto simp: list_all2_conv_all_nth)
  have "moves_only i bs bs'" for i
    using s by (auto simp: moves_only_def list_all2_conv_all_nth same_ports_def)
  moreover have "track_ok bs'"
    using assms(1) s
    by (auto simp: track_ok_def list_all_length sorted_wrt_iff_nth_less same_ports_def differ_def)
  ultimately show ?thesis using moves_only_all_owner [of bs bs'] by (simp add: tracked_def)
qed

lemma one_second_same:
  assumes "bridge_sys_ok b" "on_protocol (MSTP_IN_one_second clk) b = Some b'"
  shows "same_ports b b'"
  using on_protocol_ok [OF assms] one_second_ok static_one_second protocol_ok [OF assms(1)] by blast

lemma all_bridges_ok:
  assumes "track_ok bs" "those (map f bs) = Some bs'"
    "\<And>b b'. bridge_sys_ok b \<Longrightarrow> f b = Some b' \<Longrightarrow> same_ports b b'"
  shows "track_ok bs' \<and> tracked bs' = tracked bs"
proof (rule list_all2_same_ports [OF assms(1)])
  show "list_all2 same_ports bs bs'"
    using assms by (auto simp: those_Some list_all2_conv_all_nth track_ok_def list_all_length)
qed

lemma find_rcv_port_Some:
  "find_rcv_port i bs = Some (n, p) \<Longrightarrow> n < length bs \<and> find_if i (bs ! n) = Some p"
  by (induction bs arbitrary: n) (auto split: option.splits)

text \<open>A frame that is not ignored goes to the protocol with the size its header gives.\<close>

lemma packet_rcv_cases:
  assumes "packet_rcv k i h b cc bs = Some bs'"
  obtains (ignored) "bs' = bs"
  | (delivered) n p where "find_rcv_port i bs = Some (n, p)" "0 < cc" "llc_frame_ok h cc"
      "on_bridge n (on_protocol (MSTP_IN_rx_bpdu (passes k At_frame i) p b
        (uint (len8023 h) - LLC_PDU_LEN_U))) bs = Some bs'"
  using assms unfolding packet_rcv_def bridge_bpdu_rcv_def
  by (auto split: if_split_asm option.splits)

lemma packet_rcv_ok:
  assumes ok: "track_ok bs" and run: "packet_rcv k i h b cc bs = Some bs'"
  shows "track_ok bs' \<and> tracked bs' = tracked bs"
  using run
proof (cases rule: packet_rcv_cases)
  case (delivered n p)
  note n = find_rcv_port_Some [OF delivered(1), THEN conjunct1]
  have "same_ports (bs ! n) b'"
    if "on_protocol (MSTP_IN_rx_bpdu (passes k At_frame i) p b (uint (len8023 h) - LLC_PDU_LEN_U)) (bs ! n) = Some b'"
    for b'
    using on_protocol_ok [OF track_ok_nth [OF ok n] that] rx_bpdu_ok static_rx_bpdu
      protocol_ok [OF track_ok_nth [OF ok n]] by blast
  from on_bridge_ok [OF ok n delivered(4) this] show ?thesis by (simp add: tracked_def)
qed (use ok in simp)

text \<open>The header's length field keeps the BPDU inside the octets received.\<close>

lemma llc_frame_bounds:
  assumes "llc_frame_ok h cc" "0 < cc" "cc < 2 ^ 31"
  shows "0 \<le> uint (len8023 h) - LLC_PDU_LEN_U" "uint (len8023 h) - LLC_PDU_LEN_U \<le> cc - SIZEOF_LLC_HEADER"
proof -
  from assms have "as_size_t cc = cc" by (intro as_size_t_nonneg) auto
  with assms(1) have "17 < cc" by (simp add: llc_frame_ok_def)
  then have "as_size_t (cc - 14) = cc - 14" using assms(3) by (intro as_size_t_nonneg) auto
  then show "0 \<le> uint (len8023 h) - LLC_PDU_LEN_U" "uint (len8023 h) - LLC_PDU_LEN_U \<le> cc - SIZEOF_LLC_HEADER"
    using assms(1) by (auto simp: llc_frame_ok_def)
qed

subsection \<open>Refinement\<close>

text \<open>
  The specification of every step, on the bridges and the interfaces' owners: notifications, and the
  commands that add and delete bridges, as above; everything else leaves them as they are.
\<close>

fun spec_del :: "int list \<Rightarrow> tracked \<Rightarrow> tracked" where
  "spec_del [] T = T"
| "spec_del (i # is) (B, own) = spec_del is (B - {i}, \<lambda>j. if own j = Some i then None else own j)"

fun spec_step :: "(int \<Rightarrow> bool) \<Rightarrow> (int \<Rightarrow> bool) \<Rightarrow> track_event \<Rightarrow> tracked \<Rightarrow> tracked" where
  "spec_step creatable_br creatable (Notify m i newlink flgs) T = snd (spec_notify creatable m i newlink T)"
| "spec_step creatable_br creatable (Add_bridges l) T = snd (spec_add creatable_br creatable l T)"
| "spec_step creatable_br creatable (Del_bridges l) T = spec_del l T"
| "spec_step creatable_br creatable _ T = T"

lemma del_bridges_ok:
  "track_ok bs \<Longrightarrow> CTL_del_bridges l bs = Some bs' \<Longrightarrow> track_ok bs' \<and> tracked bs' = spec_del l (tracked bs)"
proof (induction l arbitrary: bs)
  case (Cons i l)
  then obtain found bs1 where d: "delete_br_byindex i bs = Some (found, bs1)" "CTL_del_bridges l bs1 = Some bs'"
    by (auto split: option.splits)
  from delete_br_byindex_ok [OF Cons.prems(1) d(1)] Cons.IH [OF _ d(2)] show ?case
    by (simp add: tracked_def)
qed simp

lemma setter_spec: "is_setter e \<Longrightarrow> spec_step cb ci e T = T"
  by (cases e) auto

lemma track_step_ok:
  assumes ok: "track_ok bs" and run: "track_step k e bs = Some bs'"
  shows "track_ok bs' \<and> tracked bs' = spec_step (can_create_br k) (can_create_if k) e (tracked bs)"
proof (cases "is_setter e")
  case True
  with setter_step_ok [OF ok True run] show ?thesis by (simp only: setter_spec)
next
  case False
  show ?thesis
  proof (cases e)
    case (Notify m i newlink flgs)
    with run obtain r where "bridge_notify k m i newlink flgs bs = Some (r, bs')" by auto
    from notify_ok [OF ok this] Notify show ?thesis by (metis snd_conv spec_step.simps(1))
  next
    case (Frame i h b cc)
    with run packet_rcv_ok [OF ok] show ?thesis by auto
  next
    case Second
    with run have "those (map (\<lambda>b. on_protocol (MSTP_IN_one_second (passes k At_second (br_if_index b))) b) bs) = Some bs'"
      by (simp add: bridge_one_second_def)
    from all_bridges_ok [OF ok this] one_second_same Second show ?thesis by simp
  next
    case (Add_bridges l)
    with run obtain r where "CTL_add_bridges k l bs = Some (r, bs')" by auto
    from add_bridges_ok [OF ok this] Add_bridges show ?thesis by (metis snd_conv spec_step.simps(2))
  next
    case (Del_bridges l)
    with run del_bridges_ok [OF ok] show ?thesis by simp
  next
    case Fini
    with run have "those (map (set_br_up k False) bs) = Some bs'" by (simp add: bridge_track_fini_def)
    from all_bridges_ok [OF ok this] set_br_up_ok Fini show ?thesis by auto
  qed (use False in auto)
qed

lemma reachable_track_ok: "mstpd_reachable bs \<Longrightarrow> track_ok bs"
proof (induction rule: mstpd_reachable.induct)
  case start
  show ?case by (simp add: track_ok_def)
next
  case (step bs k e bs')
  then show ?case using track_step_ok by blast
qed

subsection \<open>Properties\<close>

text \<open>
  C2. The data of the daemon, after any sequence of notifications, frames, timer ticks and commands:
  every bridge is well formed, has an entry with number and address for each of its ports, and runs
  the protocol exactly if its interface is up; bridges have different numbers, and no interface is a
  port twice, neither of one bridge nor of two.
\<close>

theorem reachable_daemon_data:
  assumes "mstpd_reachable bs" "m < length bs" "n < length bs"
  shows "bridge_ok (protocol (bs ! m)) \<and> length (br_ifs (bs ! m)) = length (ports (protocol (bs ! m)))
    \<and> bridgeEnabled (protocol (bs ! m)) = br_up (bs ! m)
    \<and> (br_if_index (bs ! m) = br_if_index (bs ! n) \<longrightarrow> m = n)
    \<and> (\<forall>p < length (br_ifs (bs ! m)). \<forall>q < length (br_ifs (bs ! n)).
         if_index (br_ifs (bs ! m) ! p) = if_index (br_ifs (bs ! n) ! q) \<longrightarrow> m = n \<and> p = q)"
proof -
  note ok = reachable_track_ok [OF assms(1)]
  note b = track_ok_nth [OF ok assms(2), unfolded bridge_sys_ok_def static_def]
  have d: "m \<noteq> n \<Longrightarrow> differ (bs ! m) (bs ! n)" using track_ok_differ [OF ok assms(2,3)] .
  have "m = n \<and> p = q" if "p < length (br_ifs (bs ! m))" "q < length (br_ifs (bs ! n))"
    "if_index (br_ifs (bs ! m) ! p) = if_index (br_ifs (bs ! n) ! q)" for p q
  proof -
    have i: "if_indices (bs ! m) ! p = if_indices (bs ! n) ! q"
      "if_indices (bs ! m) ! p \<in> set (if_indices (bs ! m))" "if_indices (bs ! n) ! q \<in> set (if_indices (bs ! n))"
      using that nth_mem [of p "if_indices (bs ! m)"] nth_mem [of q "if_indices (bs ! n)"]
      by (simp_all add: if_indices_def)
    then have "m = n" using d by (auto simp: differ_def)
    moreover from this i(1) b that have "p = q" by (simp add: if_indices_def distinct_conv_nth) metis
    ultimately show ?thesis ..
  qed
  moreover have "br_if_index (bs ! m) = br_if_index (bs ! n) \<longrightarrow> m = n" using d by (auto simp: differ_def)
  ultimately show ?thesis using b by simp
qed

text \<open>
  C4. What the daemon tracks is as specified after every step: which bridges exist, and which
  interface belongs to which bridge, is a function of what it was before, of the notification or
  command, and of whether the kernel knows the names, addresses and port numbers asked for. A new
  port leaves the bridge it was in; a deleted bridge leaves its ports without one; the command that
  adds bridges makes exactly the listed interfaces their ports, up to the first bridge that cannot be
  created; frames, seconds and all other commands change nothing of it.
\<close>

theorem tracking_refines:
  assumes "mstpd_reachable bs" "track_step k e bs = Some bs'"
  shows "tracked bs' = spec_step (can_create_br k) (can_create_if k) e (tracked bs)"
  using track_step_ok [OF reachable_track_ok [OF assms(1)] assms(2)] by blast

lemma llc_sent:
  assumes "0 < sz" "sz \<le> 1497"
  shows "llc_frame_ok (tx_header mac sz) (SIZEOF_LLC_HEADER + sz)"
    "uint (len8023 (tx_header mac sz)) = sz + LLC_PDU_LEN_U"
proof -
  show l: "uint (len8023 (tx_header mac sz)) = sz + LLC_PDU_LEN_U"
    using assms unfolding tx_header_def llc_header.simps by (intro uint_of_int_u16) auto
  have "as_size_t (17 + sz) = 17 + sz" "as_size_t (17 + sz - 14) = 17 + sz - 14"
    using assms by (auto intro!: as_size_t_nonneg)
  with l assms show "llc_frame_ok (tx_header mac sz) (SIZEOF_LLC_HEADER + sz)"
    unfolding llc_frame_ok_def by (simp add: tx_header_def)
qed

lemma sent_size:
  assumes "t \<in> {txConfig prt, txTcn prt, txMstp br prt}" "outs t = outs prt @ [TxBpdu b sz]"
    "length (port_trees prt) \<le> 65"
  shows "0 < sz \<and> sz \<le> 1126"
  using assms by (auto simp: txConfig_def txTcn_def txMstp_def MSTP_OUT_tx_bpdu_def emit_def Let_def
      split: if_splits)

text \<open>
  A frame that a port with at most 64 MSTIs transmits, behind the header \<^verbatim>\<open>MSTP_OUT_tx_bpdu\<close>
  puts before it, is handed to the protocol by a daemon that receives it on a port that is up: as the
  BPDU it was, with its size.
\<close>

theorem sent_frame_delivered:
  assumes "t \<in> {txConfig prt, txTcn prt, txMstp br prt}" "outs t = outs prt @ [TxBpdu b sz]"
    "length (port_trees prt) \<le> 65"
    and "find_rcv_port i bs = Some (n, p)" "if_up (br_ifs (bs ! n) ! p)"
  shows "packet_rcv k i (tx_header mac sz) b (SIZEOF_LLC_HEADER + sz) bs
    = on_bridge n (on_protocol (MSTP_IN_rx_bpdu (passes k At_frame i) p b sz)) bs"
proof -
  from sent_size [OF assms(1-3)] have sz: "0 < sz" "sz \<le> 1497" by auto
  from llc_sent [OF sz] assms(4,5) sz(1) show ?thesis
    by (simp add: packet_rcv_def bridge_bpdu_rcv_def)
qed

text \<open>
  Of a received frame of at most 2048 octets the protocol is given at most what follows the
  header in the octets received, and never a negative size; frames for interfaces that are not ports
  or not up, and frames with another header, change nothing.
\<close>

theorem received_within_buffer:
  assumes "packet_rcv k i h b cc bs = Some bs'" "cc \<le> 2048"
  shows "bs' = bs \<or> (\<exists>n p sz. find_rcv_port i bs = Some (n, p) \<and> if_up (br_ifs (bs ! n) ! p)
    \<and> 0 \<le> sz \<and> SIZEOF_LLC_HEADER + sz \<le> cc
    \<and> on_bridge n (on_protocol (MSTP_IN_rx_bpdu (passes k At_frame i) p b sz)) bs = Some bs')"
  using assms(1)
proof (cases rule: packet_rcv_cases)
  case (delivered n p)
  have "if_up (br_ifs (bs ! n) ! p) \<or> bs' = bs"
    using assms(1) delivered(1,2) by (auto simp: packet_rcv_def bridge_bpdu_rcv_def split: if_split_asm)
  with delivered llc_frame_bounds [OF delivered(3,2)] assms(2) show ?thesis by fastforce
qed simp

subsection \<open>Witnesses\<close>

text \<open>
  A kernel that knows nine interfaces and reports no flags, so that bridges stay down; on such a
  bridge creating and deleting ports returns at once.
\<close>

definition sample_kernel :: kernel where
  "sample_kernel = \<lparr>index_to_name = (\<lambda>i. if i < 10 then Some ''br'' else None), get_hwaddr = (\<lambda>_. Some 1),
     get_flags = (\<lambda>_. - 1), get_bridge_portno = (\<lambda>_. 1), ethtool_get_speed_duplex = (\<lambda>_. None),
     passes = (\<lambda>_ _. 0)\<rparr>"

lemma delete_if_off:
  assumes "\<not> bridgeEnabled (protocol b)"
  shows "\<exists>t. delete_if k p b = Some (b\<lparr>br_ifs := remove_nth p (br_ifs b), protocol := t\<rparr>)"
  using assms by (simp add: delete_if_def MSTP_IN_delete_port_def br_state_machines_run_def Let_def upd_port_def)
    blast

lemma create_if_off:
  assumes "\<not> bridgeEnabled (protocol b)" "i < 10"
  shows "\<exists>t. create_if sample_kernel i b = Some (Some (b\<lparr>br_ifs := br_ifs b @
      [\<lparr>if_index = i, if_macaddr = 1, if_up = False\<rparr>], protocol := t\<rparr>)) \<and> \<not> bridgeEnabled t"
proof -
  have run: "\<exists>t. MSTP_IN_port_create_and_add_tail clk prt n (protocol b) = Some t \<and> \<not> bridgeEnabled t"
    for clk prt n
    using assms(1) by (simp add: MSTP_IN_port_create_and_add_tail_def prt_state_machines_begin_def Let_def)
  obtain t where "MSTP_IN_port_create_and_add_tail 0 (zero_port\<lparr>port_name := ''br''\<rparr>) 1 (protocol b) = Some t"
    "\<not> bridgeEnabled t" using run by blast
  then show ?thesis using assms(2) by (intro exI [of _ t]) (simp add: create_if_def sample_kernel_def)
qed

text \<open>Two bridges, the first with interface 5.\<close>

lemma sample_bridges:
  "\<exists>b1 b2. track_step sample_kernel (Add_bridges [(1, [5]), (2, [])]) [] = Some [b1, b2]
     \<and> \<not> bridgeEnabled (protocol b1) \<and> \<not> bridgeEnabled (protocol b2) \<and> br_if_index b1 = 1 \<and> br_if_index b2 = 2
     \<and> br_ifs b2 = [] \<and> if_indices b1 = [5]"
proof -
  let ?b = "\<lparr>br_if_index = 1, br_macaddr = 1, br_name = ''br'', br_up = False, br_ifs = [],
    protocol = MSTP_IN_bridge_create 1\<rparr>"
  have off: "\<not> bridgeEnabled (protocol ?b)" by (simp add: after_create)
  obtain t where t: "create_if sample_kernel 5 ?b = Some (Some (?b\<lparr>br_ifs := br_ifs ?b @
      [\<lparr>if_index = 5, if_macaddr = 1, if_up = False\<rparr>], protocol := t\<rparr>))" "\<not> bridgeEnabled t"
    using create_if_off [OF off, of 5] by auto
  have k: "index_to_name sample_kernel 1 = Some ''br''" "index_to_name sample_kernel 2 = Some ''br''"
    "get_hwaddr sample_kernel n = Some 1" "get_flags sample_kernel n = - 1" for n
    by (simp_all add: sample_kernel_def)
  show ?thesis
    using t by (simp add: find_or_create_br_def find_br_def create_br_def on_bridge_def Let_def
        add_iface_def find_if_def attach_if_def after_create if_indices_def k)
qed

theorem reachable_daemon_data_witness:
  "\<exists>bs. track_step sample_kernel (Add_bridges [(1, [5]), (2, [])]) [] = Some bs
     \<and> length bs = 2 \<and> bridge_ok (protocol (bs ! 0)) \<and> length (ports (protocol (bs ! 0))) = 1"
proof -
  obtain b1 b2 where bs: "track_step sample_kernel (Add_bridges [(1, [5]), (2, [])]) [] = Some [b1, b2]"
    "if_indices b1 = [5]" using sample_bridges by blast
  have "mstpd_reachable [b1, b2]" using mstpd_reachable.step [OF mstpd_reachable.start bs(1)] .
  from reachable_daemon_data [OF this, of 0 1] bs show ?thesis by (auto simp: if_indices_def)
qed

theorem tracking_refines_witness:
  "\<exists>bs bs'. track_step sample_kernel (Add_bridges [(1, [5]), (2, [])]) [] = Some bs
     \<and> tracked bs = ({1, 2}, [5 \<mapsto> 1])
     \<and> track_step sample_kernel (Notify 2 5 True 0) bs = Some bs' \<and> tracked bs' = ({1, 2}, [5 \<mapsto> 2])"
proof -
  obtain b1 b2 where bs: "track_step sample_kernel (Add_bridges [(1, [5]), (2, [])]) [] = Some [b1, b2]"
    "\<not> bridgeEnabled (protocol b1)" "\<not> bridgeEnabled (protocol b2)" "br_if_index b1 = 1" "br_if_index b2 = 2"
    "br_ifs b2 = []" "if_indices b1 = [5]" using sample_bridges by blast
  have r: "mstpd_reachable [b1, b2]" using mstpd_reachable.step [OF mstpd_reachable.start bs(1)] .
  have t: "tracked [b1, b2] = ({1, 2}, [5 \<mapsto> 1])"
    using bs by (auto simp: tracked_def br_ids_def if_indices_def fun_eq_iff)
  obtain t1 where d: "delete_if sample_kernel 0 b1 = Some (b1\<lparr>br_ifs := remove_nth 0 (br_ifs b1), protocol := t1\<rparr>)"
    using delete_if_off [OF bs(2)] by blast
  obtain t2 where c: "create_if sample_kernel 5 b2 = Some (Some (b2\<lparr>br_ifs := br_ifs b2 @
      [\<lparr>if_index = 5, if_macaddr = 1, if_up = False\<rparr>], protocol := t2\<rparr>))"
    using create_if_off [OF bs(3), of 5] by auto
  obtain x where x: "br_ifs b1 = [x]" "if_index x = 5" using bs(7) by (auto simp: if_indices_def)
  have k: "get_flags sample_kernel n = - 1" "get_hwaddr sample_kernel n = Some 1" for n
    by (simp_all add: sample_kernel_def)
  have "\<exists>bs'. track_step sample_kernel (Notify 2 5 True 0) [b1, b2] = Some bs'"
    using bs(4-6) x c d by (simp add: bridge_notify_def Let_def find_br_def k notify_slave_def find_if_def
        attach_if_def delete_if_byindex_def on_bridge_def set_if_up_def check_mac_address_def)
  then obtain bs' where n: "track_step sample_kernel (Notify 2 5 True 0) [b1, b2] = Some bs'" by blast
  have "can_create_if sample_kernel 5" by (simp add: can_create_if_def sample_kernel_def)
  with tracking_refines [OF r n] t have "tracked bs' = ({1, 2}, [5 \<mapsto> 2])" by (simp add: fun_eq_iff)
  with bs(1) t n show ?thesis by blast
qed

end
