(* ===== verification/MSTP_Quiescence.thy ===== *)
theory MSTP_Quiescence
  imports MSTP_Invariant
begin

section \<open>The run of all machines\<close>

text \<open>
  \<open>br_state_machines_run\<close> decides by dry passes whether another pass over the machines is
  needed. A dry pass only reads, and one that reports nothing means that an actual pass would
  change nothing (but for the Topology Change machine of an MSTI, see below): the dry branches of
  every machine agree with its transitions (\<open>PISM_dry_fires\<close> and its like).
\<close>

subsection \<open>Dry runs of one machine\<close>

text \<open>
  The contract between \<open>br_state_machines_run\<close> and a machine: the dry run returns and reads
  only, and where \<open>ok\<close> holds and it reports nothing, the actual run changes nothing.
\<close>

locale dry_run_machine =
  fixes run :: bridge_run and ok :: "bridge_t \<Rightarrow> bool"
  assumes dry_reads: "\<exists>r. run br True = Some (r, br)"
    and dry_predicts: "ok br \<Longrightarrow> run br True = Some (False, br) \<Longrightarrow> run br False = Some (False, br)"

lemmas dry_run_machineI = dry_run_machine.intro

text \<open>
  The loops over machines, ports and trees hand the contract on. A machine of the loop may rely
  on its index being in the range of the loop.
\<close>

lemma run_each_dry:
  assumes "\<And>x. dry_run_machine (f x) (ok x)"
  shows "\<exists>r. run_each f xs br True = Some (r, br)"
proof (induction xs)
  case (Cons x xs)
  obtain r where "f x br True = Some (r, br)"
    using dry_run_machine.dry_reads [OF assms [of x]] by auto
  with Cons show ?case by (cases r) auto
qed (auto intro: exI [of _ False])

lemma run_each_quiet:
  assumes "\<And>x. dry_run_machine (f x) (ok x)" and "\<And>x. x \<in> set xs \<Longrightarrow> ok x br"
    and "run_each f xs br True = Some (False, br)"
  shows "run_each f xs br False = Some (False, br)"
  using assms(2,3)
proof (induction xs)
  case (Cons x xs)
  obtain r where r: "f x br True = Some (r, br)"
    using dry_run_machine.dry_reads [OF assms(1) [of x]] by auto
  with Cons.prems(2) have "\<not> r" by auto
  with r have "f x br False = Some (False, br)"
    using dry_run_machine.dry_predicts [OF assms(1) [of x]] Cons.prems(1) by simp
  with r \<open>\<not> r\<close> Cons show ?case by simp
qed simp

lemma dry_loop:
  assumes "\<And>x. dry_run_machine (f x) (\<lambda>br. ok br \<and> x \<in> set (xs br))"
    and "\<And>br dry. m br dry = run_each f (xs br) br dry"
  shows "dry_run_machine m ok"
proof (rule dry_run_machineI)
  show "\<exists>r. m br True = Some (r, br)" for br
    unfolding assms(2) by (rule run_each_dry [OF assms(1)])
  show "m br False = Some (False, br)" if "ok br" "m br True = Some (False, br)" for br
    using run_each_quiet [OF assms(1), of "xs br" br] that by (simp add: assms(2))
qed

lemma dry_each_port:
  "(\<And>p. dry_run_machine (f p) (\<lambda>br. ok br \<and> p < length (ports br))) \<Longrightarrow>
     dry_run_machine (each_port f) ok"
  by (rule dry_loop [where xs = "\<lambda>br. [0..<length (ports br)]"]) (simp_all add: each_port_def)

lemma dry_each_tree:
  "(\<And>k. dry_run_machine (f k) (\<lambda>br. ok br \<and> k < length (trees br))) \<Longrightarrow>
     dry_run_machine (each_tree f) ok"
  by (rule dry_loop [where xs = "\<lambda>br. [0..<length (trees br)]"]) (simp_all add: each_tree_def)

lemma dry_each_ptp:
  assumes "\<And>p k. dry_run_machine (g p k) (\<lambda>br. (ok br \<and> p < length (ports br))
      \<and> k < length (port_trees (port_at br p)))"
  shows "dry_run_machine (each_ptp g) ok"
proof -
  let ?row = "\<lambda>p br. [0..<length (port_trees (port_at br p))]"
  have row: "dry_run_machine (\<lambda>br dry. run_each (g p) (?row p br) br dry) (\<lambda>br. ok br \<and> p < length (ports br))"
    for p
  proof (rule dry_loop [where xs = "?row p" and f = "g p"])
    show "dry_run_machine (g p k) (\<lambda>br. (ok br \<and> p < length (ports br)) \<and> k \<in> set (?row p br))" for k
      using assms [of p k] by simp
  qed (rule refl)
  have "each_ptp g = each_port (\<lambda>p br dry. run_each (g p) (?row p br) br dry)"
    by (intro ext) (rule each_ptp_def)
  then show ?thesis using dry_each_port [OF row] by (simp only:)
qed

subsection \<open>The machines\<close>

lemma upd_port_same: "upd_port p (\<lambda>_. port_at br p) br = br"
  by (simp add: upd_port_def upd_nth_def)

lemma dry_on_port:
  assumes "\<And>br prt. \<exists>r. f br prt True = Some (r, prt)"
    and "\<And>br prt. f br prt True = Some (False, prt) \<Longrightarrow> f br prt False = Some (False, prt)"
  shows "dry_run_machine (on_port f p) ok"
proof (rule dry_run_machineI)
  fix br show "\<exists>r. on_port f p br True = Some (r, br)"
    using assms(1) [of br "port_at br p"] by (auto simp: on_port_def upd_port_same)
next
  fix br assume "on_port f p br True = Some (False, br)"
  then have "f br (port_at br p) True = Some (False, port_at br p)"
    using assms(1) [of br "port_at br p"] by (auto simp: on_port_def)
  then show "on_port f p br False = Some (False, br)"
    using assms(2) by (simp add: on_port_def upd_port_same)
qed

lemma dry_on_port_exec:
  assumes "\<And>br prt dry. f br prt dry = sm_exec (step br) (d br) prt dry"
    and "\<And>br prt. d br prt = fires (step br prt)"
  shows "dry_run_machine (on_port f p) ok"
  by (rule dry_on_port) (auto simp: assms sm_exec_dry intro: sm_exec_dry_False)

lemma dry_exec:
  assumes "\<And>br dry. m br dry = sm_exec (step br) (d br) br dry"
    and "\<And>br s. d br s = fires (step br s)"
  shows "dry_run_machine m ok"
  by (rule dry_run_machineI) (auto simp: assms sm_exec_dry intro: sm_exec_dry_False)

lemma BA_check_dry: "dry_run_machine (on_port BA_check p) ok"
  by (rule dry_on_port) (auto simp: BA_check_def)

lemma PRSM_dry: "dry_run_machine (on_port (\<lambda>br prt dry. Some (PRSM_run br prt dry)) p) ok"
proof (rule dry_on_port)
  show "\<exists>r. Some (PRSM_run br prt True) = Some (r, prt)" for br prt
    by (auto simp: PRSM_run_def Let_def split: PRSM_states_t.split)
qed (auto dest: PRSM_dry_sound)

lemma PTSM_dry: "dry_run_machine (on_port PTSM_run p) ok"
proof (rule dry_on_port)
  show "\<exists>r. PTSM_run br prt True = Some (r, prt)" for br prt
    by (auto simp: PTSM_run_def sm_exec_dry)
  have same: "PTSM_to_TRANSMIT_INIT prt = prt" if "\<not> PTSM_to_TRANSMIT_INIT_dry prt" for prt
    using that by (simp add: PTSM_to_TRANSMIT_INIT_def PTSM_to_TRANSMIT_INIT_dry_def)
  then show "PTSM_run br prt False = Some (False, prt)" if "PTSM_run br prt True = Some (False, prt)"
    for br prt
  proof (cases "portEnabled prt")
    case True
    with that sm_exec_dry_False [of "PTSM_run_dry br" prt "PTSM_step br" prt] show ?thesis
      by (simp add: PTSM_run_def)
  next
    case False
    then have "PTSM_step br prt = Last (PTSM_to_TRANSMIT_INIT prt)" by (simp add: PTSM_step_def)
    with False that same show ?thesis by (auto simp: PTSM_run_def sm_exec_def sm_run_Last)
  qed
qed

text \<open>
  The Topology Change machine's dry run reports nothing for an MSTI whose port has a
  notification or acknowledgment pending while it learns, where the actual run would not
  return (\<open>TCSM_run_msti_tcn_diverges\<close>).
\<close>

definition tc_settled :: "bridge_t \<Rightarrow> bool" where
  "tc_settled br \<longleftrightarrow> (\<forall>prt \<in> set (ports br).
     \<forall>x \<in> set (port_trees prt).
       MSTID x \<noteq> 0 \<and> TCSM_state x = TCSM_LEARNING \<longrightarrow> \<not> rcvdTcn prt \<and> \<not> rcvdTcAck prt)"

lemma TCSM_dry:
  "dry_run_machine (TCSM_run p k) (\<lambda>br. (tc_settled br \<and> p < length (ports br))
     \<and> k < length (port_trees (port_at br p)))"
proof (rule dry_run_machineI)
  show "\<exists>r. TCSM_run p k br True = Some (r, br)" for br
    by (simp add: TCSM_run_def sm_exec_dry)
next
  fix br assume ok: "(tc_settled br \<and> p < length (ports br)) \<and> k < length (port_trees (port_at br p))"
    and dry: "TCSM_run p k br True = Some (False, br)"
  have "MSTID (ptp_at br p k) \<noteq> 0 \<Longrightarrow> TCSM_state (ptp_at br p k) = TCSM_LEARNING \<Longrightarrow>
      \<not> rcvdTcn (port_at br p) \<and> \<not> rcvdTcAck (port_at br p)"
    using ok nth_mem [of p "ports br"] nth_mem [of k "port_trees (port_at br p)"]
    unfolding tc_settled_def by blast
  moreover have "\<not> TCSM_run_dry p k br" using dry by (simp add: TCSM_run_def sm_exec_dry)
  ultimately have "\<not> TCSM_asks p k br"
    using TCSM_dry_asks [of p k br] by (auto simp: TCSM_to_LEARNING_dry_def TCSM_asks_def Let_def)
  from sm_exec_dry_False [of "TCSM_run_dry p k" br "TCSM_step p k" br] TCSM_dry_fires [OF this] dry
  show "TCSM_run p k br False = Some (False, br)" by (simp add: TCSM_run_def)
qed

subsection \<open>A pass, and the run\<close>

lemma dry_Nil: "dry_run_machine (run_each f []) ok"
  by (rule dry_run_machineI) (auto intro: exI [of _ False])

lemma dry_Cons:
  assumes "dry_run_machine m ok" and "dry_run_machine (run_each (\<lambda>m. m) ms) ok"
  shows "dry_run_machine (run_each (\<lambda>m. m) (m # ms)) ok"
proof (rule dry_run_machineI)
  show "\<exists>r. run_each (\<lambda>m. m) (m # ms) br True = Some (r, br)" for br
  proof -
    obtain r where "m br True = Some (r, br)" using dry_run_machine.dry_reads [OF assms(1)] by auto
    then show ?thesis using dry_run_machine.dry_reads [OF assms(2), of br] by (cases r) auto
  qed
  show "run_each (\<lambda>m. m) (m # ms) br False = Some (False, br)"
    if "ok br" "run_each (\<lambda>m. m) (m # ms) br True = Some (False, br)" for br
  proof -
    obtain r where "m br True = Some (r, br)" using dry_run_machine.dry_reads [OF assms(1)] by auto
    with that have "m br True = Some (False, br)" "run_each (\<lambda>m. m) ms br True = Some (False, br)"
      by (auto split: if_split_asm)
    then show ?thesis
      using dry_run_machine.dry_predicts [OF assms(1) that(1)]
        dry_run_machine.dry_predicts [OF assms(2) that(1)] by simp
  qed
qed

lemmas port_machines_dry = BA_check_dry PRSM_dry PTSM_dry
  dry_on_port_exec [OF PPMSM_run_def PPMSM_dry_fires] dry_on_port_exec [OF BDSM_run_def BDSM_dry_fires]

lemma dry_each_port_any:
  "(\<And>p ok. dry_run_machine (f p) ok) \<Longrightarrow> dry_run_machine (each_port f) ok"
  by (rule dry_each_port)

lemma dry_each_ptp_any:
  "(\<And>p k ok. dry_run_machine (g p k) ok) \<Longrightarrow> dry_run_machine (each_ptp g) ok"
  by (rule dry_each_ptp)

interpretation pass: dry_run_machine br_state_machines_pass tc_settled
proof -
  have PISM: "dry_run_machine (on_port (\<lambda>br. PISM_run br k) p) ok" for k p ok
    by (rule dry_on_port_exec) (rule PISM_run_def, rule PISM_dry_fires)
  have PSTSM: "dry_run_machine (on_port (\<lambda>br. PSTSM_run k) p) ok" for k p ok
    by (rule dry_on_port_exec) (rule PSTSM_run_def, rule PSTSM_dry_fires)
  have PRSSM: "dry_run_machine (PRSSM_run k) ok" for k ok
    by (rule dry_exec) (rule PRSSM_run_def, rule PRSSM_dry_fires)
  have PRTSM: "dry_run_machine (PRTSM_run p k) ok" for p k ok
    by (rule dry_exec [where step = "\<lambda>br. PRTSM_step (prtsm_vars_of (port_at br p)) p k"
          and d = "\<lambda>br. PRTSM_run_dry (prtsm_vars_of (port_at br p)) p k"])
      (simp_all add: PRTSM_run_def Let_def)
  have "dry_run_machine (run_each (\<lambda>m. m) all_machines) tc_settled"
    unfolding all_machines_def
    by (intro dry_Cons dry_Nil dry_each_port_any dry_each_tree dry_each_ptp_any [OF PISM]
        dry_each_ptp_any [OF PRTSM] dry_each_ptp_any [OF PSTSM] dry_each_ptp [OF TCSM_dry]
        port_machines_dry PRSSM)
  then show "dry_run_machine br_state_machines_pass tc_settled"
    by (simp only: br_state_machines_pass_def)
qed

definition quiet :: "bridge_t \<Rightarrow> bool" where
  "quiet br \<longleftrightarrow> br_state_machines_pass br True = Some (False, br)"

lemma quiet_iff: "br_state_machines_pass br True = Some (r, t) \<Longrightarrow> t = br \<and> r = (\<not> quiet br)"
  using pass.dry_reads [of br] by (auto simp: quiet_def)

lemma loop_quiet: "quiet br \<Longrightarrow> br_state_machines_loop clk br = Some br"
  by (subst br_state_machines_loop.simps) (simp add: quiet_def)

text \<open>
  C13. A dry pass over all machines always returns and leaves the bridge as it is. If it reports
  nothing, \<open>br_state_machines_run\<close> is the identity; and an actual pass would return and change
  nothing, provided no MSTI entry is in state \<^verbatim>\<open>LEARNING\<close> while its port has a topology change
  notification or acknowledgment pending (\<open>tc_settled\<close>; without it the actual pass need not return).
\<close>

theorem dry_pass_sound:
  "\<exists>r. br_state_machines_pass br True = Some (r, br)
     \<and> (\<not> r \<longrightarrow> br_state_machines_run clk br = Some br
          \<and> (tc_settled br \<longrightarrow> br_state_machines_pass br False = Some (False, br)))"
proof -
  obtain r where r: "br_state_machines_pass br True = Some (r, br)" using pass.dry_reads by blast
  have "br_state_machines_run clk br = Some br" if "\<not> r"
  proof -
    from quiet_iff [OF r] that have "quiet br" by simp
    then show ?thesis by (simp add: br_state_machines_run_def loop_quiet)
  qed
  moreover have "br_state_machines_pass br False = Some (False, br)" if "\<not> r" "tc_settled br"
    using pass.dry_predicts [OF that(2)] r that(1) by simp
  ultimately show ?thesis using r by (intro exI [of _ r]) blast
qed

text \<open>A bridge with one port that is down: one pass brings all its machines to rest.\<close>

definition idle_bridge :: bridge_t where
  "idle_bridge = zero_bridge\<lparr>bridgeEnabled := True, Migrate_Time := 3, Transmit_Hold_Count := 6,
     ForceProtocolVersion := 2,
     ports := [zero_port\<lparr>port_trees := [zero_ptp\<lparr>portTimes := zero_times\<lparr>Hello_Time := 2\<rparr>\<rparr>]\<rparr>],
     trees := [zero_tree\<lparr>BridgeTimes := zero_times\<lparr>Hello_Time := 2\<rparr>\<rparr>]\<rparr>"

lemma idle_bridge_run:
  "map_option (\<lambda>t. (map_option fst (br_state_machines_pass t True), tc_settled t))
     (br_state_machines_run 2 idle_bridge) = Some (Some False, True)"
  by code_simp

lemma dry_pass_sound_witness:
  "\<exists>t. br_state_machines_run 2 idle_bridge = Some t \<and> br_state_machines_run 9 t = Some t
     \<and> br_state_machines_pass t False = Some (False, t)"
proof -
  from idle_bridge_run obtain t where t: "br_state_machines_run 2 idle_bridge = Some t"
    "map_option fst (br_state_machines_pass t True) = Some False" "tc_settled t" by auto
  with dry_pass_sound [of t 9] show ?thesis by auto
qed

end
