(* ===== verification/AR_Types.thy ===== *)
theory AR_Types
  imports MSTP_Prelude
begin

section \<open>The automatic PoE restart daemon: its data\<close>

text \<open>
  \<^verbatim>\<open>tf_ar_poe\<close>: the types of \<^verbatim>\<open>src/global_includs.h\<close> and
  \<^verbatim>\<open>autorestartd/port_module.h\<close>, and the array of ports all threads of the daemon work on.
  Enumerations used as sets of bits (errors and events) are words; the others are datatypes.
\<close>

subsection \<open>Sets of bits\<close>

text \<open>\<^verbatim>\<open>w & m\<close>, \<^verbatim>\<open>w |= m\<close> and \<^verbatim>\<open>w &= (~m)\<close>.\<close>

definition has :: "u32 \<Rightarrow> u32 \<Rightarrow> bool" where
  "has w m \<longleftrightarrow> w AND m \<noteq> 0"

definition setb :: "u32 \<Rightarrow> u32 \<Rightarrow> u32" where
  "setb m w = w OR m"

definition clrb :: "u32 \<Rightarrow> u32 \<Rightarrow> u32" where
  "clrb m w = w AND NOT m"

lemma has_bit: "has w m \<longleftrightarrow> (\<exists>k < 32. bit w k \<and> bit m k)"
  by (auto simp: has_def bit_eq_iff bit_and_iff dest: bit_imp_possible_bit)

lemma has_setb [simp]: "has (setb m w) n \<longleftrightarrow> has w n \<or> m AND n \<noteq> 0"
  unfolding has_def [of m n, symmetric] by (auto simp: has_bit setb_def bit_or_iff)

lemma has_clrb_other [simp]: "m AND n = 0 \<Longrightarrow> has (clrb m w) n \<longleftrightarrow> has w n"
proof -
  assume "m AND n = 0"
  then have "\<not> (bit m k \<and> bit n k)" if "k < 32" for k
    using has_bit [of m n] that by (auto simp: has_def)
  then show ?thesis by (auto simp: has_bit clrb_def bit_and_iff bit_not_iff)
qed

lemma has_clrb_same [simp]: "\<not> has (clrb m w) m"
  by (simp add: has_bit clrb_def bit_and_iff bit_not_iff)

lemma has_0 [simp]: "\<not> has 0 m"
  by (simp add: has_def)

abbreviation (input) NUM_PORTS :: nat where "NUM_PORTS \<equiv> 8"
abbreviation (input) MIN_SPEED :: u32 where "MIN_SPEED \<equiv> 10"
abbreviation (input) MAX_SPEED :: u32 where "MAX_SPEED \<equiv> 1000000"

text \<open>\<^verbatim>\<open>error_code_t\<close>.\<close>

abbreviation (input) ERR_PORT_DISABLE :: u32 where "ERR_PORT_DISABLE \<equiv> 0x00001"
abbreviation (input) ERR_TEST_TYPE :: u32 where "ERR_TEST_TYPE \<equiv> 0x00002"
abbreviation (input) ERR_TEST_LINK :: u32 where "ERR_TEST_LINK \<equiv> 0x00004"
abbreviation (input) ERR_TEST_PING :: u32 where "ERR_TEST_PING \<equiv> 0x00008"
abbreviation (input) ERR_TEST_SPEED :: u32 where "ERR_TEST_SPEED \<equiv> 0x00010"
abbreviation (input) ERR_TEST_DISABLE :: u32 where "ERR_TEST_DISABLE \<equiv> 0x00040"
abbreviation (input) ERR_POE_DOWN :: u32 where "ERR_POE_DOWN \<equiv> 0x00080"
abbreviation (input) ERR_NULL_OBJ :: u32 where "ERR_NULL_OBJ \<equiv> 0x00200"
abbreviation (input) ERR_IP_NOT_VALID :: u32 where "ERR_IP_NOT_VALID \<equiv> 0x01000"
abbreviation (input) ERR_PoE_DISABLE :: u32 where "ERR_PoE_DISABLE \<equiv> 0x02000"
abbreviation (input) ERR_TIME_NOT_VALID :: u32 where "ERR_TIME_NOT_VALID \<equiv> 0x04000"
abbreviation (input) ERR_SPEED_VALUE :: u32 where "ERR_SPEED_VALUE \<equiv> 0x08000"
abbreviation (input) ERR_OK :: u32 where "ERR_OK \<equiv> 0x10000"
abbreviation (input) ERR_PORT_SHUTDOWN :: u32 where "ERR_PORT_SHUTDOWN \<equiv> 0x20000"
abbreviation (input) ERR_MANUAL_REBOOT :: u32 where "ERR_MANUAL_REBOOT \<equiv> 0x40000"
abbreviation (input) ERR_REBOOTING :: u32 where "ERR_REBOOTING \<equiv> 0x80000"

text \<open>\<^verbatim>\<open>AR_EVENT\<close> and \<^verbatim>\<open>REBOOT_EVENT_e\<close>.\<close>

abbreviation (input) IDLE_EVENT :: u32 where "IDLE_EVENT \<equiv> 0"
abbreviation (input) TEST_OK :: u32 where "TEST_OK \<equiv> 1"
abbreviation (input) AUTO_RESTART :: u32 where "AUTO_RESTART \<equiv> 2"
abbreviation (input) MANUAL_RESTART :: u32 where "MANUAL_RESTART \<equiv> 4"
abbreviation (input) REBOOT_EVENT_IDLE :: u32 where "REBOOT_EVENT_IDLE \<equiv> 0"
abbreviation (input) REBOOT_EVENT_START :: u32 where "REBOOT_EVENT_START \<equiv> 1"
abbreviation (input) REBOOT_EVENT_TIMER_STOP :: u32 where "REBOOT_EVENT_TIMER_STOP \<equiv> 2"

subsection \<open>Enumerations\<close>

datatype bool_t = disable | enable | max_bool

datatype TYPE_OF_TEST_t = test_disable | test_link | test_ping | test_speed | test_max

datatype AR_STATE = IDLE_STATE | REGULAR_STATE | REBOOT_STATE

datatype REBOOT_STATE_e =
  REBOOT_STATE_IDLE | REBOOT_STATE_INIT | REBOOT_STATE_POE_DOWN | REBOOT_STATE_POE_UP

subsection \<open>A port\<close>

record time_h_m =
  ta_status :: bool_t
  time_H :: u8
  time_M :: u8
  targetTime :: u32
  remainTime :: u32

record port_config_info_t =
  host :: string
  alarm_up :: time_h_m
  alarm_down :: time_h_m
  min_speed :: u32
  max_speed :: u32
  reply_time :: u32
  rx_byte_prev :: u32
  rx_byte_current :: u32
  rx_delta_byte :: u32
  rx_speed_Kbit :: u32
  time_current :: u32
  time_prev :: u32
  alarm :: bool_t
  portNum :: u8
  test :: TYPE_OF_TEST_t
  cfg_poe_state :: u8
  timeStr :: string

record port_reset_info_t =
  resetCount :: u8
  totalResetCount :: u8
  errorTestCount :: u8
  errorCode :: u32
  event :: u32
  ar_state :: AR_STATE

record port_reboot_info_t =
  rebootState :: REBOOT_STATE_e
  rebootEvent :: u32
  rebootDelay :: u32
  rebootTimeStart :: u32

record port_state_info_t =
  port_state :: bool_t
  poe_state :: bool_t

record portInfo_t =
  portConfigInfo :: port_config_info_t
  portResetInfo :: port_reset_info_t
  portStateInfo :: port_state_info_t
  portRebootInfo :: port_reboot_info_t

text \<open>
  The daemon: the global array of ports, the daemon's options, and the requests made to the PoE
  controller so far, each the port and whether it is switched on.
\<close>

record config_type =
  TEST_DELAY :: u8
  TEST_NUM :: u8
  MAX_RESET :: u8

record daemon =
  portInfoArr :: "portInfo_t list"
  options :: config_type
  poe_calls :: "(u8 \<times> bool) list"

definition upd_info :: "nat \<Rightarrow> (portInfo_t \<Rightarrow> portInfo_t) \<Rightarrow> daemon \<Rightarrow> daemon" where
  "upd_info i f d = portInfoArr_update (upd_nth i f) d"

abbreviation info :: "daemon \<Rightarrow> nat \<Rightarrow> portInfo_t" where
  "info d i \<equiv> portInfoArr d ! i"

abbreviation upd_config where "upd_config f \<equiv> portConfigInfo_update f"
abbreviation upd_reset where "upd_reset f \<equiv> portResetInfo_update f"
abbreviation upd_reboot where "upd_reboot f \<equiv> portRebootInfo_update f"
abbreviation upd_state where "upd_state f \<equiv> portStateInfo_update f"

text \<open>
  The guard at the start of every function that is given a port number: numbers 1 to 8 name the
  entries 0 to 7, and for any other the function returns at once.
\<close>

definition with_port :: "u8 \<Rightarrow> (nat \<Rightarrow> daemon \<Rightarrow> daemon) \<Rightarrow> daemon \<Rightarrow> daemon" where
  "with_port n f d = (if 0 < n \<and> unat n \<le> NUM_PORTS then f (unat n - 1) d else d)"

lemma upd_info_fields [simp]:
  "length (portInfoArr (upd_info i f d)) = length (portInfoArr d)"
  "options (upd_info i f d) = options d" "poe_calls (upd_info i f d) = poe_calls d"
  by (simp_all add: upd_info_def)

lemma info_upd_info [simp]:
  "i < length (portInfoArr d) \<Longrightarrow> info (upd_info i f d) j = (if i = j then f (info d i) else info d j)"
  by (simp add: upd_info_def)

lemma info_upd_info_neq [simp]: "i \<noteq> j \<Longrightarrow> info (upd_info i f d) j = info d j"
  by (simp add: upd_info_def)

end
