(* ===== verification/AR_Text.thy ===== *)
theory AR_Text
  imports AR_Types
begin

section \<open>Texts: settings, times, addresses and commands\<close>

text \<open>
  The string functions of \<^verbatim>\<open>lib/utils_lib/utils_module.c\<close> and the command lines the daemon
  assembles in fixed buffers. A C string is the list of its characters before the NUL.
\<close>

subsection \<open>The library functions used\<close>

fun strstr :: "string \<Rightarrow> string \<Rightarrow> string option" where
  "strstr name [] = (if name = [] then Some [] else None)"
| "strstr name (c # s) =
    (if take (length name) (c # s) = name then Some (c # s) else strstr name s)"

fun strchr :: "char \<Rightarrow> string \<Rightarrow> string option" where
  "strchr x [] = None"
| "strchr x (c # s) = (if c = x then Some (c # s) else strchr x s)"

definition is_space :: "char \<Rightarrow> bool" where
  "is_space c \<longleftrightarrow> c \<in> {CHR 0x20, CHR 0x09, CHR 0x0A, CHR 0x0B, CHR 0x0C, CHR 0x0D}"

definition is_digit :: "char \<Rightarrow> bool" where
  "is_digit c \<longleftrightarrow> 48 \<le> (of_char c :: nat) \<and> (of_char c :: nat) \<le> 57"

definition digits_value :: "string \<Rightarrow> int" where
  "digits_value ds = foldl (\<lambda>n c. 10 * n + (int (of_char c) - 48)) 0 ds"

text \<open>
  A decimal number with optional sign after white space: its value and what follows, or
  \<^term>\<open>None\<close> when there is no digit. \<^verbatim>\<open>strtol\<close> yields 0 then, and the nearest
  value of a 32-bit \<^verbatim>\<open>long\<close> for a number out of range.
\<close>

definition scan_d :: "string \<Rightarrow> (int \<times> string) option" where
  "scan_d s0 =
    (let s1 = dropWhile is_space s0;
         neg = (s1 \<noteq> [] \<and> hd s1 = CHR ''-'');
         s2 = (if s1 \<noteq> [] \<and> hd s1 \<in> {CHR ''-'', CHR ''+''} then tl s1 else s1);
         ds = takeWhile is_digit s2
     in if ds = [] then None
        else Some (if neg then - digits_value ds else digits_value ds, dropWhile is_digit s2))"

definition LONG_MAX :: int where "LONG_MAX = 2 ^ 31 - 1"

definition strtol :: "string \<Rightarrow> int" where
  "strtol s = (case scan_d s of None \<Rightarrow> 0 | Some (n, _) \<Rightarrow> max (- LONG_MAX - 1) (min LONG_MAX n))"

subsection \<open>Settings\<close>

text \<open>
  The value after the first occurrence of the name. \<open>old\<close> is what the caller's buffer holds and
  keeps when the name is missing or the value empty; \<^term>\<open>None\<close> is the null pointer
  passed on when no colon or quote follows.
\<close>

definition getValueFromJson :: "string \<Rightarrow> string \<Rightarrow> string \<Rightarrow> string option" where
  "getValueFromJson json name old =
    (case strstr name json of
       None \<Rightarrow> Some old
     | Some p \<Rightarrow>
         (case Option.bind (strchr CHR '':'' p) (strchr CHR 0x22) of
            None \<Rightarrow> None
          | Some q \<Rightarrow>
              (let v = takeWhile (\<lambda>c. c \<noteq> CHR 0x22) (tl q)
               in Some (if v = [] then old else take 9 v))))"

definition toString :: "nat \<Rightarrow> string" where
  "toString n = [''012345678'' ! n]"

text \<open>\<^verbatim>\<open>^([0-9]{1,3}\.){3}[0-9]{1,3}$\<close>; \<^verbatim>\<open>ERR_OK\<close> of this file is 0.\<close>

definition octet_digits :: "string \<Rightarrow> string option" where
  "octet_digits s =
    (let ds = takeWhile is_digit s
     in if 1 \<le> length ds \<and> length ds \<le> 3 then Some (dropWhile is_digit s) else None)"

definition octet_dot :: "string \<Rightarrow> string option" where
  "octet_dot s =
    (case octet_digits s of
       Some (c # r) \<Rightarrow> if c = CHR ''.'' then Some r else None
     | _ \<Rightarrow> None)"

definition checkValidIp :: "string \<Rightarrow> u32" where
  "checkValidIp s =
    (if Option.bind (Option.bind (Option.bind (octet_dot s) octet_dot) octet_dot) octet_digits = Some []
     then 0 else ERR_IP_NOT_VALID)"

text \<open>The error code and, when it is 0, the hour and the minute.\<close>

definition isValidTime :: "string \<Rightarrow> u32 \<times> int \<times> int" where
  "isValidTime s =
    (case scan_d s of
       Some (hour, c # r) \<Rightarrow>
         (case (if c = CHR '':'' then scan_d r else None) of
            Some (minute, _) \<Rightarrow>
              if hour < 0 \<or> hour > 23 \<or> minute < 0 \<or> minute > 59 then (ERR_TIME_NOT_VALID, 0, 0)
              else (0, hour, minute)
          | None \<Rightarrow> (ERR_TIME_NOT_VALID, 0, 0))
     | _ \<Rightarrow> (ERR_TIME_NOT_VALID, 0, 0))"

subsection \<open>Command lines\<close>

text \<open>
  Each is the text copied and appended into the buffer whose size is given after it, the NUL not
  counted.
\<close>

abbreviation (input) squote :: char where "squote \<equiv> CHR 0x27"

definition ubus_get_port :: "nat \<Rightarrow> string" where
  \<open>ubus_get_port n = ''ubus call uci get '' @ [squote] @ ''{"config":"port", "section":"lan''
     @ toString n @ ''"}'' @ [squote]\<close>

definition ubus_get_lan :: "nat \<Rightarrow> string" where
  \<open>ubus_get_lan n = ''ubus call uci get '' @ [squote]
     @ ''{"config":"tf_autorestart", "section":"lan'' @ toString n @ ''"}'' @ [squote]\<close>

definition ubus_get_demon :: string where
  \<open>ubus_get_demon = ''ubus call uci get '' @ [squote]
     @ ''{"config":"tf_autorestart", "section":"ar_demon"}'' @ [squote]\<close>

definition operstate_path :: "nat \<Rightarrow> string" where
  \<open>operstate_path n = ''/sys/class/net/lan'' @ toString n @ ''/operstate''\<close>

definition rx_bytes_cmd :: "nat \<Rightarrow> string" where
  \<open>rx_bytes_cmd n = ''cat /sys/class/net/lan'' @ toString n @ ''/statistics/rx_bytes''\<close>

definition ubus_poe :: "nat \<Rightarrow> bool \<Rightarrow> string" where
  \<open>ubus_poe n on = ''ubus call poe manage '' @ [squote] @ ''{"port":"lan'' @ toString n
     @ (if on then ''", "enable":true}'' else ''", "enable":false}'') @ [squote]\<close>

lemma length_toString [simp]: "length (toString n) = 1"
  by (simp add: toString_def)

lemma command_lengths:
  "length (ubus_get_port n) = 55" "length (ubus_get_lan n) = 65" "length ubus_get_demon = 69"
  "length (operstate_path n) = 29" "length (rx_bytes_cmd n) = 43"
  "length (ubus_poe n on) \<le> 54"
  by (simp_all add: ubus_get_port_def ubus_get_lan_def ubus_get_demon_def operstate_path_def
      rx_bytes_cmd_def ubus_poe_def)

end
