(* ===== verification/AR_Port.thy ===== *)
theory AR_Port
  imports AR_Text
begin

section \<open>The automatic PoE restart daemon: ports\<close>

text \<open>
  \<^verbatim>\<open>autorestartd/port_module.c\<close>. What a function reads from outside (the clock, the
  state files of the kernel, the answers of ubus, the result of a ping) is an argument; a
  request to the PoE controller is appended to \<open>poe_calls\<close>. Local time has a fixed offset
  \<open>tz\<close> to the clock, in seconds.
\<close>

subsection \<open>The calendar\<close>

record tm =
  tm_day :: int
  tm_hour :: int
  tm_min :: int
  tm_sec :: int

definition localtime :: "int \<Rightarrow> int \<Rightarrow> tm" where
  "localtime tz t =
     \<lparr>tm_day = (t + tz) div 86400, tm_hour = (t + tz) mod 86400 div 3600,
      tm_min = (t + tz) mod 3600 div 60, tm_sec = (t + tz) mod 60\<rparr>"

definition mktime :: "int \<Rightarrow> tm \<Rightarrow> int" where
  "mktime tz x = tm_day x * 86400 + tm_hour x * 3600 + tm_min x * 60 + tm_sec x - tz"

lemma mktime_localtime: "mktime tz (localtime tz t) = t"
proof -
  let ?s = "t + tz"
  have "?s mod 86400 mod 3600 = ?s mod 3600" "?s mod 3600 mod 60 = ?s mod 60"
    by (simp_all add: mod_mod_cancel)
  moreover note div_mult_mod_eq [of ?s 86400] div_mult_mod_eq [of "?s mod 86400" 3600]
    div_mult_mod_eq [of "?s mod 3600" 60]
  ultimately have "?s div 86400 * 86400 + ?s mod 86400 div 3600 * 3600 + ?s mod 3600 div 60 * 60
      + ?s mod 60 - tz = t"
    by linarith
  then show ?thesis by (simp add: mktime_def localtime_def)
qed

subsection \<open>Parameters\<close>

text \<open>\<^verbatim>\<open>host\<close> has room for the address; the code returned for a valid one is 0.\<close>

definition port_setHostParam :: "string \<Rightarrow> port_config_info_t \<Rightarrow> u32 \<times> port_config_info_t" where
  "port_setHostParam h cfg = (checkValidIp h, cfg\<lparr>host := h\<rparr>)"

definition port_setSpeedParam ::
  "u32 \<Rightarrow> u32 \<Rightarrow> port_config_info_t \<Rightarrow> u32 \<times> port_config_info_t" where
  "port_setSpeedParam mx mn cfg =
    (if mn > mx then (ERR_SPEED_VALUE, cfg)
     else if mx < MIN_SPEED \<or> mx > MAX_SPEED then (ERR_SPEED_VALUE, cfg)
     else
       (let cfg1 = cfg\<lparr>max_speed := mx\<rparr>
        in if mn < MIN_SPEED \<or> mn > MAX_SPEED then (ERR_SPEED_VALUE, cfg1)
           else (ERR_OK, cfg1\<lparr>min_speed := mn\<rparr>)))"

text \<open>The next time the clock shows an hour and a minute.\<close>

definition set_alarm :: "int \<Rightarrow> int \<Rightarrow> int \<Rightarrow> int \<Rightarrow> time_h_m \<Rightarrow> time_h_m" where
  "set_alarm tz now hour minute a =
    (let a1 = a\<lparr>time_H := of_int hour, time_M := of_int minute\<rparr>;
         t = (localtime tz now)\<lparr>tm_hour := uint (time_H a1), tm_min := uint (time_M a1), tm_sec := 0\<rparr>;
         a2 = a1\<lparr>targetTime := of_int (mktime tz t)\<rparr>
     in if now \<ge> uint (targetTime a2)
        then a2\<lparr>targetTime := of_int (mktime tz (t\<lparr>tm_day := tm_day t + 1\<rparr>))\<rparr> else a2)"

definition port_setTimeParam ::
  "int \<Rightarrow> int \<Rightarrow> string \<Rightarrow> string \<Rightarrow> port_config_info_t \<Rightarrow> u32 \<times> port_config_info_t" where
  "port_setTimeParam tz now timeUpStr timeDownStr cfg =
    (case isValidTime timeUpStr of (e1, h1, m1) \<Rightarrow>
       let code1 = setb e1 ERR_OK;
           cfg1 = (if code1 = ERR_OK then cfg\<lparr>alarm_up := set_alarm tz now h1 m1 (alarm_up cfg)\<rparr>
                   else cfg)
       in case isValidTime timeDownStr of (e2, h2, m2) \<Rightarrow>
            let code2 = setb e2 code1
            in (code2, if code2 = ERR_OK
                       then cfg1\<lparr>alarm_down := set_alarm tz now h2 m2 (alarm_down cfg1)\<rparr>
                       else cfg1))"

definition port_set_PortReboot :: "port_reboot_info_t \<Rightarrow> nat \<Rightarrow> daemon \<Rightarrow> daemon" where
  "port_set_PortReboot r i d = upd_info i (upd_reboot (\<lambda>_. r)) d"

subsection \<open>Tests\<close>

definition fail :: "u32 \<Rightarrow> port_reset_info_t \<Rightarrow> port_reset_info_t" where
  "fail e r = r\<lparr>errorCode := setb e (clrb ERR_OK (errorCode r))\<rparr>"

text \<open>\<^verbatim>\<open>if (state == IDLE_STATE) event |= TEST_OK\<close>.\<close>

definition note_ok :: "port_reset_info_t \<Rightarrow> port_reset_info_t" where
  "note_ok r = (if ar_state r = IDLE_STATE then r\<lparr>event := setb TEST_OK (event r)\<rparr> else r)"

definition port_runTestDisable :: "u8 \<Rightarrow> daemon \<Rightarrow> daemon" where
  "port_runTestDisable n = with_port n (\<lambda>i. upd_info i (upd_reset (fail ERR_TEST_DISABLE)))"

text \<open>\<open>output\<close> is the line of the port's \<^verbatim>\<open>operstate\<close> file.\<close>

definition port_runTestLink :: "u8 \<Rightarrow> string \<Rightarrow> daemon \<Rightarrow> daemon" where
  "port_runTestLink n output = with_port n (\<lambda>i. upd_info i (\<lambda>x.
     upd_reset (\<lambda>r0.
       let r = r0\<lparr>errorCode := setb ERR_OK (clrb ERR_TEST_LINK (errorCode r0))\<rparr>
       in if output \<noteq> ''up'' @ [CHR 0x0A] then fail ERR_TEST_LINK r
          else if test (portConfigInfo x) = test_link then note_ok r
          else r) x))"

text \<open>
  \<open>result\<close> and \<open>reply\<close> are what \<^verbatim>\<open>ping\<close> returns, if it is called; its result is
  \<^term>\<open>ERR_OK\<close> or \<^term>\<open>ERR_TEST_PING\<close>.
\<close>

definition port_runTestPing :: "u8 \<Rightarrow> u32 \<Rightarrow> u32 \<Rightarrow> daemon \<Rightarrow> daemon" where
  "port_runTestPing n result reply = with_port n (\<lambda>i. upd_info i (\<lambda>x.
     let down = has (errorCode (portResetInfo x)) ERR_TEST_LINK;
         pingResult = (if down then ERR_TEST_PING else result);
         x1 = upd_config (\<lambda>c. c\<lparr>reply_time := (if down then 0 else reply)\<rparr>) x
     in if pingResult = ERR_TEST_PING then upd_reset (fail ERR_TEST_PING) x1
        else if pingResult = ERR_OK
        then upd_reset (\<lambda>r. note_ok (r\<lparr>errorCode := ERR_OK\<rparr>)) x1
        else x1))"

text \<open>
  \<open>output\<close> is the line of the port's counter of received octets. The counter and the clock
  wrap at 32 bits, as does the number of bits received in between.
\<close>

definition read_counter :: "string \<Rightarrow> int \<Rightarrow> port_config_info_t \<Rightarrow> port_config_info_t" where
  "read_counter output now c =
    (let cur = of_int (strtol output) in
     c\<lparr>rx_byte_current := cur, rx_delta_byte := cur - rx_byte_prev c, rx_byte_prev := cur,
       time_current := of_int now, time_prev := of_int now\<rparr>)"

definition port_runTestSpeed :: "u8 \<Rightarrow> string \<Rightarrow> int \<Rightarrow> daemon \<Rightarrow> daemon" where
  "port_runTestSpeed n output now = with_port n (\<lambda>i. upd_info i (\<lambda>x.
     let down = has (errorCode (portResetInfo x)) ERR_TEST_LINK;
         x1 = (if down then x
               else upd_reset (\<lambda>r. r\<lparr>errorCode := setb ERR_OK (clrb ERR_TEST_SPEED (errorCode r))\<rparr>)
                      (upd_config (read_counter output now) x));
         delta_time = (if down then 0 else of_int now - time_prev (portConfigInfo x));
         bits = (if down then 0 else rx_delta_byte (portConfigInfo x1) * 8);
         kbit = (if delta_time = 0 then bits else bits div delta_time div 1000);
         c = portConfigInfo x1;
         x2 = upd_config (\<lambda>c. c\<lparr>rx_speed_Kbit := kbit\<rparr>) x1
     in if delta_time = 0 \<or> kbit < min_speed c \<or> kbit > max_speed c
        then upd_reset (fail ERR_TEST_SPEED) x2
        else upd_reset note_ok x2))"

text \<open>
  An alarm whose time has come is rearmed for a day after the present second, as the hour and
  minute put into \<^verbatim>\<open>timeInfo\<close> are overwritten by the second \<^verbatim>\<open>localtime\<close>.
\<close>

definition port_timeAlarm :: "int \<Rightarrow> int \<Rightarrow> time_h_m \<Rightarrow> time_h_m" where
  "port_timeAlarm tz now a =
    (if now \<ge> uint (targetTime a) then
       (let t = localtime tz now
        in a\<lparr>targetTime := of_int (mktime tz (t\<lparr>tm_day := tm_day t + 1\<rparr>)), remainTime := 0,
             ta_status := enable\<rparr>)
     else a\<lparr>remainTime := targetTime a - of_int now\<rparr>)"

definition port_runTestTime :: "int \<Rightarrow> int \<Rightarrow> u8 \<Rightarrow> daemon \<Rightarrow> daemon" where
  "port_runTestTime tz now n = with_port n (\<lambda>i. upd_info i (upd_config (\<lambda>c.
     c\<lparr>alarm_up := port_timeAlarm tz now (alarm_up c),
       alarm_down := port_timeAlarm tz now (alarm_down c)\<rparr>)))"

subsection \<open>The state of port and PoE\<close>

text \<open>\<open>state_str\<close> and \<open>poe_str\<close> are the settings ubus reports for the port.\<close>

definition go_idle :: "u32 \<Rightarrow> port_reset_info_t \<Rightarrow> port_reset_info_t" where
  "go_idle e r = (fail e r)\<lparr>ar_state := IDLE_STATE\<rparr>"

definition get_PortAndPoeState :: "u8 \<Rightarrow> string \<Rightarrow> string \<Rightarrow> daemon \<Rightarrow> daemon" where
  "get_PortAndPoeState n state_str poe_str = with_port n (\<lambda>i. upd_info i (\<lambda>x.
     let x1 = (if state_str = ''enable'' then upd_state (\<lambda>s. s\<lparr>port_state := enable\<rparr>) x
               else upd_reset (go_idle ERR_PORT_DISABLE) (upd_state (\<lambda>s. s\<lparr>port_state := disable\<rparr>) x))
     in if poe_str = ''enable'' then upd_state (\<lambda>s. s\<lparr>poe_state := enable\<rparr>) x1
        else upd_reset (go_idle ERR_PoE_DISABLE) (upd_state (\<lambda>s. s\<lparr>poe_state := disable\<rparr>) x1)))"

subsection \<open>Switching and resetting\<close>

abbreviation (input) POE_UP :: u32 where "POE_UP \<equiv> 1"
abbreviation (input) POE_DOWN :: u32 where "POE_DOWN \<equiv> 2"

definition poe_Control :: "u8 \<Rightarrow> u32 \<Rightarrow> daemon \<Rightarrow> daemon" where
  "poe_Control n ctl d =
     d\<lparr>poe_calls := poe_calls d @ (if has ctl POE_DOWN then [(n, False)] else [])
         @ (if has ctl POE_UP then [(n, True)] else [])\<rparr>"

definition set_errorHandler :: "nat \<Rightarrow> daemon \<Rightarrow> daemon" where
  "set_errorHandler i d =
    (let e = errorCode (portResetInfo (info d i))
     in if has e ERR_IP_NOT_VALID \<or> has e ERR_TIME_NOT_VALID \<or> has e ERR_SPEED_VALUE
           \<or> has e ERR_PORT_DISABLE
        then upd_info i (upd_config (\<lambda>c. c\<lparr>test := test_disable\<rparr>)) d else d)"

text \<open>\<open>stamp\<close> is the text of the present time.\<close>

definition reset_or_shutdown :: "u8 \<Rightarrow> nat \<Rightarrow> daemon \<Rightarrow> daemon" where
  "reset_or_shutdown maxReset i d =
    (if resetCount (portResetInfo (info d i)) \<ge> maxReset then
       set_errorHandler i (upd_info i (\<lambda>x.
         upd_reset (\<lambda>r. r\<lparr>errorCode := setb ERR_PORT_SHUTDOWN (clrb ERR_REBOOTING (errorCode r)),
                          ar_state := IDLE_STATE\<rparr>)
           (upd_reboot (\<lambda>b. b\<lparr>rebootState := REBOOT_STATE_IDLE\<rparr>) x)) d)
     else
       upd_info i (\<lambda>x.
         upd_reset (\<lambda>r. r\<lparr>errorTestCount := 0, resetCount := resetCount r + 1,
                          totalResetCount := totalResetCount r + 1,
                          errorCode := setb ERR_REBOOTING (errorCode r)\<rparr>)
           (upd_reboot (\<lambda>b. b\<lparr>rebootState := REBOOT_STATE_INIT\<rparr>) x)) d)"

definition autoResetHandler :: "string \<Rightarrow> u8 \<Rightarrow> u8 \<Rightarrow> daemon \<Rightarrow> daemon" where
  "autoResetHandler stamp n maxReset = with_port n (\<lambda>i d.
     reset_or_shutdown maxReset i
       (upd_info i (\<lambda>x. upd_reset (\<lambda>r. r\<lparr>errorCode := clrb ERR_OK (errorCode r)\<rparr>)
                          (upd_config (\<lambda>c. c\<lparr>timeStr := stamp\<rparr>) x)) d))"

definition manualResetHandler :: "string \<Rightarrow> u8 \<Rightarrow> daemon \<Rightarrow> daemon" where
  "manualResetHandler stamp n = with_port n (\<lambda>i. upd_info i (\<lambda>x.
     upd_reset (\<lambda>r. r\<lparr>errorCode := setb ERR_MANUAL_REBOOT
                        (clrb ERR_PORT_SHUTDOWN (clrb ERR_OK (errorCode r))),
                      totalResetCount := totalResetCount r + 1, resetCount := 0,
                      errorTestCount := 0\<rparr>)
       (upd_config (\<lambda>c. c\<lparr>timeStr := stamp\<rparr>)
         (upd_reboot (\<lambda>b. b\<lparr>rebootState := REBOOT_STATE_INIT\<rparr>) x))))"

end
