(* ===== verification/AR_Config.thy ===== *)
theory AR_Config
  imports AR_Port
begin

section \<open>The automatic PoE restart daemon: settings\<close>

text \<open>
  \<^verbatim>\<open>autorestartd/init_module.c\<close>: the daemon's options and the settings of each port. A
  section of the configuration is given as ubus answers it: the text, searched by
  \<open>getValueFromJson\<close>, and the values the JSON library finds in it, \<^term>\<open>None\<close> where
  \<open>getData_formJson\<close> returns anything but 8.
\<close>

record section_data =
  sec_text :: string
  sec_value :: "string \<Rightarrow> string option"

subsection \<open>The daemon's options\<close>

text \<open>
  Values are kept in one octet, and replaced by a default if they exceed 60. \<open>junk\<close> is the
  indeterminate content of \<^verbatim>\<open>value_str\<close>.
\<close>

definition read_option :: "string \<Rightarrow> string \<Rightarrow> string \<Rightarrow> u8 option" where
  "read_option junk res name =
     map_option (\<lambda>v. of_int (strtol v)) (getValueFromJson res name junk)"

definition or_default :: "u8 \<Rightarrow> u8 \<Rightarrow> u8" where
  "or_default dflt v = (if v > 60 then dflt else v)"

definition getConfig :: "string \<Rightarrow> string \<Rightarrow> config_type option" where
  "getConfig junk res =
     do { delay \<leftarrow> read_option junk res ''test_delay'';
          num \<leftarrow> read_option junk res ''test_num'';
          mx \<leftarrow> read_option junk res ''max_reset'';
          Some \<lparr>TEST_DELAY = or_default 3 delay, TEST_NUM = or_default 10 num,
                MAX_RESET = or_default 3 mx\<rparr> }"

subsection \<open>The settings of a port\<close>

definition getCmdKey :: "string \<Rightarrow> TYPE_OF_TEST_t" where
  "getCmdKey s =
    (if s = ''disable'' then test_disable else if s = ''link'' then test_link
     else if s = ''ping'' then test_ping else if s = ''speed'' then test_speed else test_max)"

definition getAlarmSate :: "string \<Rightarrow> bool_t" where
  "getAlarmSate s = (if s = ''disable'' then disable else if s = ''enable'' then enable else max_bool)"

definition setHost :: "section_data \<Rightarrow> port_config_info_t \<Rightarrow> u32 \<times> port_config_info_t" where
  "setHost sec cfg =
    (case sec_value sec ''host'' of
       None \<Rightarrow> (ERR_IP_NOT_VALID, cfg)
     | Some h \<Rightarrow> port_setHostParam h cfg)"

text \<open>
  \<open>err0\<close> is the indeterminate content of \<^verbatim>\<open>errorCode\<close>, which is read when both speeds are
  there. The speeds go through 16-bit variables.
\<close>

definition read_speed :: "section_data \<Rightarrow> string \<Rightarrow> u32 \<Rightarrow> u32 \<times> u16" where
  "read_speed sec name err =
    (case sec_value sec name of
       None \<Rightarrow> (ERR_SPEED_VALUE, 0)
     | Some v \<Rightarrow> (err, of_int (strtol v)))"

definition setSpeed :: "u32 \<Rightarrow> section_data \<Rightarrow> port_config_info_t \<Rightarrow> u32 \<times> port_config_info_t" where
  "setSpeed err0 sec cfg =
    (case read_speed sec ''max_speed'' err0 of (e1, speed_max) \<Rightarrow>
     case read_speed sec ''min_speed'' e1 of (e2, speed_min) \<Rightarrow>
       if e2 \<noteq> ERR_SPEED_VALUE then port_setSpeedParam (ucast speed_max) (ucast speed_min) cfg
       else (e2, cfg))"

text \<open>
  \<open>strcpy\<close> of a value that was found into an array of \<open>n\<close> characters: \<^term>\<open>None\<close> where the text
  and its NUL do not fit. The two arrays of \<open>setTime\<close> have 5 characters, so that a time \<^verbatim>\<open>HH:MM\<close>
  does not.
\<close>

definition copy_value :: "nat \<Rightarrow> string option \<Rightarrow> string option option" where
  "copy_value n v =
    (case v of None \<Rightarrow> Some None | Some s \<Rightarrow> if length s < n then Some (Some s) else None)"

definition setTime ::
  "int \<Rightarrow> int \<Rightarrow> section_data \<Rightarrow> port_config_info_t \<Rightarrow> (u32 \<times> port_config_info_t) option" where
  "setTime tz now sec cfg =
    do { timeUp \<leftarrow> copy_value 5 (sec_value sec ''timeUp'');
         timeDown \<leftarrow> copy_value 5 (sec_value sec ''timeDown'');
         Some (case (timeUp, timeDown) of
                 (Some up, Some down) \<Rightarrow> port_setTimeParam tz now up down cfg
               | _ \<Rightarrow> (setb ERR_TIME_NOT_VALID ERR_OK, cfg)) }"

definition setConfigZeroValue :: "int \<Rightarrow> bool \<Rightarrow> port_config_info_t \<Rightarrow> port_config_info_t" where
  "setConfigZeroValue now isReboot c0 =
    (let c = c0\<lparr>min_speed := 0, max_speed := 0, rx_delta_byte := 0, rx_byte_current := 0,
                rx_byte_prev := 0, rx_speed_Kbit := 0, time_current := of_int now\<rparr>
     in if isReboot then c
        else c\<lparr>host := ''0.0.0.0'',
               alarm_down := (alarm_down c)\<lparr>ta_status := disable, time_H := 25, time_M := 61\<rparr>,
               alarm_up := (alarm_up c)\<lparr>ta_status := disable, time_H := 27, time_M := 62\<rparr>,
               timeStr := []\<rparr>)"

definition setResetZeroValue :: "bool \<Rightarrow> port_reset_info_t \<Rightarrow> port_reset_info_t" where
  "setResetZeroValue isReboot r =
     r\<lparr>errorCode := ERR_OK, totalResetCount := (if isReboot then totalResetCount r else 0),
       resetCount := 0, errorTestCount := 0, ar_state := REGULAR_STATE, event := IDLE_EVENT\<rparr>"

text \<open>\<^verbatim>\<open>setTestConfig[test]\<close>, for the types of test that reach it.\<close>

definition setTestConfig ::
  "TYPE_OF_TEST_t \<Rightarrow> u32 \<Rightarrow> section_data \<Rightarrow> port_config_info_t \<Rightarrow> u32 \<times> port_config_info_t" where
  "setTestConfig t err0 sec cfg =
    (case t of test_link \<Rightarrow> (ERR_OK, cfg) | test_ping \<Rightarrow> setHost sec cfg
     | test_speed \<Rightarrow> setSpeed err0 sec cfg | _ \<Rightarrow> (ERR_PORT_DISABLE, cfg))"

definition set_test :: "TYPE_OF_TEST_t \<Rightarrow> u32 \<Rightarrow> section_data \<Rightarrow> portInfo_t \<Rightarrow> portInfo_t" where
  "set_test t err0 sec x =
    (if t = test_max then upd_reset (fail ERR_TEST_TYPE) x
     else if t = test_disable then upd_reset (fail ERR_TEST_DISABLE) x
     else (case setTestConfig t err0 sec ((portConfigInfo x)\<lparr>test := t\<rparr>) of
             (e, c) \<Rightarrow> upd_reset (\<lambda>r. r\<lparr>errorCode := e\<rparr>) (upd_config (\<lambda>_. c) x)))"

text \<open>
  \<open>getPortParam\<close>. The code \<open>setTime\<close> returns is looked at for \<^verbatim>\<open>ERR_NULL_OBJ\<close> only, then
  dropped. \<^term>\<open>None\<close> where the arrays of \<open>setTime\<close> are overrun.
\<close>

definition set_times :: "int \<Rightarrow> int \<Rightarrow> section_data \<Rightarrow> portInfo_t \<Rightarrow> portInfo_t option" where
  "set_times tz now sec x =
    (if alarm (portConfigInfo x) = enable
     then map_option
            (\<lambda>(e, c). upd_config (\<lambda>_. if has e ERR_NULL_OBJ then c\<lparr>alarm := disable\<rparr> else c) x)
            (setTime tz now sec (portConfigInfo x))
     else Some x)"

definition getPortParam ::
  "int \<Rightarrow> int \<Rightarrow> u32 \<Rightarrow> section_data \<Rightarrow> nat \<Rightarrow> bool \<Rightarrow> daemon \<Rightarrow> daemon option" where
  "getPortParam tz now err0 sec i isReboot d =
     do { state_str \<leftarrow> getValueFromJson (sec_text sec) ''state'' [];
          alarm_str \<leftarrow> getValueFromJson (sec_text sec) ''alarm'' [];
          x \<leftarrow> set_times tz now sec (set_test (getCmdKey state_str) err0 sec
              (upd_reset (setResetZeroValue isReboot)
                (upd_config (\<lambda>c. setConfigZeroValue now isReboot
                    (c\<lparr>portNum := of_nat (i + 1), test := test_disable,
                       alarm := getAlarmSate alarm_str\<rparr>)) (info d i))));
          Some (set_errorHandler i (upd_info i (\<lambda>_. x) d)) }"

subsection \<open>Start\<close>

definition zero_time_h_m :: time_h_m where
  "zero_time_h_m = \<lparr>ta_status = disable, time_H = 0, time_M = 0, targetTime = 0, remainTime = 0\<rparr>"

definition zero_portInfo :: portInfo_t where
  "zero_portInfo =
    \<lparr>portConfigInfo = \<lparr>host = [], alarm_up = zero_time_h_m, alarm_down = zero_time_h_m,
       min_speed = 0, max_speed = 0, reply_time = 0, rx_byte_prev = 0, rx_byte_current = 0,
       rx_delta_byte = 0, rx_speed_Kbit = 0, time_current = 0, time_prev = 0, alarm = disable,
       portNum = 0, test = test_disable, cfg_poe_state = 0, timeStr = []\<rparr>,
     portResetInfo = \<lparr>resetCount = 0, totalResetCount = 0, errorTestCount = 0, errorCode = 0,
       event = 0, ar_state = IDLE_STATE\<rparr>,
     portStateInfo = \<lparr>port_state = disable, poe_state = disable\<rparr>,
     portRebootInfo = \<lparr>rebootState = REBOOT_STATE_IDLE, rebootEvent = 0, rebootDelay = 0,
       rebootTimeStart = 0\<rparr>\<rparr>"

fun getPortsParam ::
  "int \<Rightarrow> int \<Rightarrow> u32 \<Rightarrow> (nat \<Rightarrow> section_data) \<Rightarrow> nat list \<Rightarrow> daemon \<Rightarrow> daemon option" where
  "getPortsParam tz now err0 secs [] d = Some d"
| "getPortsParam tz now err0 secs (i # is) d =
     Option.bind (getPortParam tz now err0 (secs i) i False d) (getPortsParam tz now err0 secs is)"

definition initial_reboot :: port_reboot_info_t where
  "initial_reboot = \<lparr>rebootState = REBOOT_STATE_IDLE, rebootEvent = REBOOT_EVENT_IDLE,
     rebootDelay = 15, rebootTimeStart = 0\<rparr>"

definition rebootParamInit :: "daemon \<Rightarrow> daemon" where
  "rebootParamInit d = fold (port_set_PortReboot initial_reboot) [0..<NUM_PORTS] d"

text \<open>\<^verbatim>\<open>ar_mainInit\<close>, from the zeroed globals.\<close>

definition ar_mainInit ::
  "int \<Rightarrow> int \<Rightarrow> string \<Rightarrow> u32 \<Rightarrow> string \<Rightarrow> (nat \<Rightarrow> section_data) \<Rightarrow> daemon option" where
  "ar_mainInit tz now junk err0 res secs =
     do { opts \<leftarrow> getConfig junk res;
          d \<leftarrow> getPortsParam tz now err0 secs [0..<NUM_PORTS]
                 \<lparr>portInfoArr = replicate NUM_PORTS zero_portInfo, options = opts, poe_calls = []\<rparr>;
          Some (rebootParamInit d) }"

end
