(* ===== verification/AR_Events.thy ===== *)
theory AR_Events
  imports AR_Config
begin

section \<open>The automatic PoE restart daemon: events, tests and commands\<close>

text \<open>
  \<^verbatim>\<open>events_module.c\<close>, \<^verbatim>\<open>test_module.c\<close> and \<^verbatim>\<open>client_module.c\<close>: what the three
  threads of the daemon do to the ports, and their interleaving. \<^term>\<open>None\<close> stands for a
  null pointer dereference or an access outside an array.
\<close>

subsection \<open>What the events thread reads\<close>

text \<open>
  The clock (\<open>now\<close>, and \<open>now_later\<close> where a handler reads it again after its call to ubus),
  the time as text, and the settings of a port, should they be read anew.
\<close>

record event_env =
  now :: int
  now_later :: int
  tz :: int
  stamp :: string
  err0 :: u32
  section_of :: "nat \<Rightarrow> section_data"

subsection \<open>The error handler\<close>

definition count_ok :: "port_reset_info_t \<Rightarrow> port_reset_info_t" where
  "count_ok r =
    (let r1 = (if errorTestCount r > 0 then r\<lparr>errorTestCount := errorTestCount r - 1\<rparr> else r)
     in if errorTestCount r1 = 0
        then r1\<lparr>errorCode := clrb ERR_PORT_SHUTDOWN (errorCode r1), resetCount := 0\<rparr> else r1)"

definition out_of_service :: "u32 \<Rightarrow> bool" where
  "out_of_service e \<longleftrightarrow> has e ERR_PORT_DISABLE \<or> has e ERR_TEST_DISABLE \<or> has e ERR_PORT_SHUTDOWN
     \<or> has e ERR_POE_DOWN \<or> has e ERR_PoE_DISABLE"

definition test_failed :: "u32 \<Rightarrow> bool" where
  "test_failed e \<longleftrightarrow> has e ERR_TEST_LINK \<or> has e ERR_TEST_SPEED \<or> has e ERR_TEST_PING"

definition count_error :: "u8 \<Rightarrow> port_reset_info_t \<Rightarrow> port_reset_info_t" where
  "count_error test_num r =
    (let r1 = r\<lparr>errorTestCount := errorTestCount r + 1\<rparr>
     in if errorTestCount r1 \<ge> test_num \<and> ar_state r1 \<noteq> REBOOT_STATE
        then r1\<lparr>event := setb AUTO_RESTART (event r1), ar_state := REBOOT_STATE\<rparr> else r1)"

definition test_ErrorHandler :: "nat \<Rightarrow> daemon \<Rightarrow> daemon" where
  "test_ErrorHandler i d = upd_info i (upd_reset (\<lambda>r0.
     let r = (if has (errorCode r0) ERR_OK then count_ok r0 else r0)
     in if out_of_service (errorCode r) then r
        else if test_failed (errorCode r) then count_error (TEST_NUM (options d)) r else r)) d"

subsection \<open>The reboot handler\<close>

definition both_enabled :: "portInfo_t \<Rightarrow> bool" where
  "both_enabled x \<longleftrightarrow> port_state (portStateInfo x) = enable \<and> poe_state (portStateInfo x) = enable"

definition clear_event :: "u32 \<Rightarrow> portInfo_t \<Rightarrow> portInfo_t" where
  "clear_event m x = upd_reset (\<lambda>r. r\<lparr>event := clrb m (event r)\<rparr>) x"

definition reboot_idle :: "event_env \<Rightarrow> nat \<Rightarrow> daemon \<Rightarrow> daemon" where
  "reboot_idle env i d =
    (let n = portNum (portConfigInfo (info d i));
         d1 = (if has (event (portResetInfo (info d i))) AUTO_RESTART
               then autoResetHandler (stamp env) n (MAX_RESET (options d))
                      (upd_info i (clear_event AUTO_RESTART) d)
               else d)
     in if has (event (portResetInfo (info d1 i))) MANUAL_RESTART \<and> both_enabled (info d1 i)
        then upd_info i (clear_event MANUAL_RESTART) (manualResetHandler (stamp env) n d1)
        else d1)"

definition reboot_init :: "nat \<Rightarrow> daemon \<Rightarrow> daemon" where
  "reboot_init i d = upd_info i (upd_reboot (\<lambda>b.
     b\<lparr>rebootState := REBOOT_STATE_POE_DOWN, rebootEvent := setb REBOOT_EVENT_START (rebootEvent b)\<rparr>)) d"

definition reboot_poe_down :: "event_env \<Rightarrow> nat \<Rightarrow> daemon \<Rightarrow> daemon" where
  "reboot_poe_down env i d =
    (let d1 = (if has (rebootEvent (portRebootInfo (info d i))) REBOOT_EVENT_START
               then poe_Control (portNum (portConfigInfo (info d i))) POE_DOWN
                      (upd_info i (upd_reboot (\<lambda>b.
                         b\<lparr>rebootEvent := clrb REBOOT_EVENT_START (rebootEvent b),
                           rebootTimeStart := rebootDelay b + of_int (now env)\<rparr>)) d)
               else d)
     in upd_info i (upd_reboot (\<lambda>b.
          let ev = setb (if now_later env \<ge> uint (rebootTimeStart b) then REBOOT_EVENT_TIMER_STOP
                         else REBOOT_EVENT_IDLE) (rebootEvent b);
              b1 = b\<lparr>rebootEvent := ev\<rparr>
          in if has ev REBOOT_EVENT_TIMER_STOP then b1\<lparr>rebootState := REBOOT_STATE_POE_UP\<rparr>
             else b1)) d1)"

definition reboot_poe_up :: "event_env \<Rightarrow> nat \<Rightarrow> daemon \<Rightarrow> daemon option" where
  "reboot_poe_up env i d =
    (let n = portNum (portConfigInfo (info d i));
         d1 = (if both_enabled (info d i) then poe_Control n POE_UP d else d);
         d2 = upd_info i (\<lambda>x.
           upd_reset (\<lambda>r. r\<lparr>ar_state := REGULAR_STATE,
                            errorCode := clrb ERR_MANUAL_REBOOT (clrb ERR_REBOOTING (errorCode r))\<rparr>)
             (upd_reboot (\<lambda>b. b\<lparr>rebootState := REBOOT_STATE_IDLE,
                                rebootEvent := clrb REBOOT_EVENT_TIMER_STOP (rebootEvent b)\<rparr>) x)) d1
     in if has (event (portResetInfo (info d2 i))) MANUAL_RESTART
        then getPortParam (tz env) (now env) (err0 env) (section_of env (unat (n - 1))) (unat (n - 1)) True
               (upd_info i (\<lambda>x. upd_reset (\<lambda>r. r\<lparr>errorCode := clrb ERR_PORT_SHUTDOWN (errorCode r)\<rparr>)
                                  (clear_event MANUAL_RESTART x)) d2)
        else Some d2)"

definition rebootHandler :: "event_env \<Rightarrow> nat \<Rightarrow> daemon \<Rightarrow> daemon option" where
  "rebootHandler env i d =
    (case rebootState (portRebootInfo (info d i)) of
       REBOOT_STATE_IDLE \<Rightarrow> Some (reboot_idle env i d)
     | REBOOT_STATE_INIT \<Rightarrow> Some (reboot_init i d)
     | REBOOT_STATE_POE_DOWN \<Rightarrow> Some (reboot_poe_down env i d)
     | REBOOT_STATE_POE_UP \<Rightarrow> reboot_poe_up env i d)"

subsection \<open>The alarm handler\<close>

definition alarm_off :: "event_env \<Rightarrow> nat \<Rightarrow> daemon \<Rightarrow> daemon" where
  "alarm_off env i d =
    (if ta_status (alarm_down (portConfigInfo (info d i))) = enable then
       upd_info i (upd_config (\<lambda>c. c\<lparr>cfg_poe_state := 0, timeStr := stamp env\<rparr>))
         (upd_info i (upd_reset (\<lambda>r. r\<lparr>totalResetCount := totalResetCount r + 1\<rparr>))
           (poe_Control (portNum (portConfigInfo (info d i))) POE_DOWN
             (upd_info i (\<lambda>x. upd_reset (\<lambda>r. r\<lparr>errorCode := setb ERR_POE_DOWN (errorCode r)\<rparr>)
                (upd_config (\<lambda>c. c\<lparr>alarm_down := (alarm_down c)\<lparr>ta_status := disable\<rparr>\<rparr>) x)) d)))
     else d)"

definition alarm_on :: "nat \<Rightarrow> daemon \<Rightarrow> daemon" where
  "alarm_on i d =
    (if ta_status (alarm_up (portConfigInfo (info d i))) = enable then
       upd_info i (\<lambda>x. upd_reset (\<lambda>r. r\<lparr>errorCode := clrb ERR_POE_DOWN (errorCode r)\<rparr>)
           (upd_config (\<lambda>c. c\<lparr>cfg_poe_state := 1\<rparr>) x))
         (poe_Control (portNum (portConfigInfo (info d i))) POE_UP
           (upd_info i (upd_config (\<lambda>c. c\<lparr>alarm_up := (alarm_up c)\<lparr>ta_status := disable\<rparr>\<rparr>)) d))
     else d)"

definition alarmHandler :: "event_env \<Rightarrow> nat \<Rightarrow> daemon \<Rightarrow> daemon" where
  "alarmHandler env i d =
    (let d1 = port_runTestTime (tz env) (now env) (portNum (portConfigInfo (info d i))) d
     in if ar_state (portResetInfo (info d1 i)) \<noteq> REBOOT_STATE then alarm_on i (alarm_off env i d1)
        else d1)"

subsection \<open>The events thread\<close>

text \<open>The body of the loop of \<open>eventsHandler\<close>, for one port.\<close>

definition idle_event :: "nat \<Rightarrow> daemon \<Rightarrow> daemon" where
  "idle_event i d =
    (if has (event (portResetInfo (info d i))) TEST_OK
     then upd_info i (upd_reset (\<lambda>r. r\<lparr>event := clrb TEST_OK (event r), ar_state := REGULAR_STATE,
                                       errorCode := clrb ERR_PORT_SHUTDOWN (errorCode r)\<rparr>)) d
     else d)"

definition events_port :: "event_env \<Rightarrow> nat \<Rightarrow> daemon \<Rightarrow> daemon option" where
  "events_port env i d =
     do { d1 \<leftarrow> (case ar_state (portResetInfo (info d i)) of
                   REGULAR_STATE \<Rightarrow> Some (test_ErrorHandler i d)
                 | REBOOT_STATE \<Rightarrow> rebootHandler env i d
                 | IDLE_STATE \<Rightarrow> Some (idle_event i d));
          Some (if alarm (portConfigInfo (info d1 i)) = enable then alarmHandler env i d1 else d1) }"

fun events_ports :: "(nat \<Rightarrow> event_env) \<Rightarrow> nat list \<Rightarrow> daemon \<Rightarrow> daemon option" where
  "events_ports env [] d = Some d"
| "events_ports env (i # is) d = Option.bind (events_port (env i) i d) (events_ports env is)"

definition eventsHandler :: "(nat \<Rightarrow> event_env) \<Rightarrow> daemon \<Rightarrow> daemon option" where
  "eventsHandler env d = events_ports env [0..<NUM_PORTS] d"

subsection \<open>The test threads\<close>

text \<open>
  What the test of one port reads: the settings of port and PoE, the link, the ping, and the
  counter with its time. \<open>test_main\<close> starts one thread per port; each works on its own entry.
\<close>

record test_obs =
  obs_state :: string
  obs_poe :: string
  obs_operstate :: string
  obs_ping :: u32
  obs_reply :: u32
  obs_rx :: string
  obs_time :: int

definition runTest :: "TYPE_OF_TEST_t \<Rightarrow> u8 \<Rightarrow> test_obs \<Rightarrow> daemon \<Rightarrow> daemon option" where
  "runTest t n obs d =
    (case t of
       test_disable \<Rightarrow> Some (port_runTestDisable n d)
     | test_link \<Rightarrow> Some (port_runTestLink n (obs_operstate obs) d)
     | test_ping \<Rightarrow> Some (port_runTestPing n (obs_ping obs) (obs_reply obs)
                            (port_runTestLink n (obs_operstate obs) d))
     | test_speed \<Rightarrow> Some (port_runTestSpeed n (obs_rx obs) (obs_time obs)
                             (port_runTestLink n (obs_operstate obs) d))
     | test_max \<Rightarrow> None)"

definition test_port :: "test_obs \<Rightarrow> nat \<Rightarrow> daemon \<Rightarrow> daemon option" where
  "test_port obs i d =
    (let d1 = get_PortAndPoeState (of_nat (i + 1)) (obs_state obs) (obs_poe obs) d
     in runTest (test (portConfigInfo (info d1 i))) (portNum (portConfigInfo (info d1 i))) obs d1)"

fun test_main :: "(nat \<Rightarrow> test_obs) \<Rightarrow> nat list \<Rightarrow> daemon \<Rightarrow> daemon option" where
  "test_main obs [] d = Some d"
| "test_main obs (i # is) d = Option.bind (test_port (obs i) i d) (test_main obs is)"

subsection \<open>Commands\<close>

text \<open>
  A message of five octets: the command as a 32-bit number and the port. The table has four
  entries, of which 0 and 3 are null pointers; a port outside 1 to 8 indexes outside the array.
  The reply's status: 1 accepted, 2 already rebooting, 3 port or PoE switched off.
\<close>

definition cmd_rebootHandler :: "u8 \<Rightarrow> daemon \<Rightarrow> (u8 \<times> daemon) option" where
  "cmd_rebootHandler n d =
    (if n = 0 \<or> unat n > NUM_PORTS then None
     else
       (let i = unat n - 1; x = info d i in
        if ar_state (portResetInfo x) \<noteq> REBOOT_STATE then
          (if both_enabled x then
             Some (1, upd_info i (upd_reset (\<lambda>r. r\<lparr>ar_state := REBOOT_STATE,
                                    event := setb MANUAL_RESTART (event r)\<rparr>)) d)
           else Some (3, d))
        else Some (2, upd_info i (clear_event MANUAL_RESTART) d)))"

record resetPort_t =
  rp_errorCode :: u32
  rp_portNum :: u8
  rp_resetCount :: u8
  rp_testType :: TYPE_OF_TEST_t
  rp_timeStr :: string

definition port_status :: "portInfo_t \<Rightarrow> resetPort_t" where
  "port_status x =
    \<lparr>rp_errorCode = errorCode (portResetInfo x), rp_portNum = portNum (portConfigInfo x),
     rp_resetCount = totalResetCount (portResetInfo x), rp_testType = test (portConfigInfo x),
     rp_timeStr = timeStr (portConfigInfo x)\<rparr>"

definition cmd_sendStatus :: "daemon \<Rightarrow> resetPort_t list" where
  "cmd_sendStatus d = map port_status (take NUM_PORTS (portInfoArr d))"

definition clientHandler :: "u32 \<Rightarrow> u8 \<Rightarrow> daemon \<Rightarrow> daemon option" where
  "clientHandler cmdType n d =
    (if cmdType = 2 then map_option snd (cmd_rebootHandler n d)
     else if cmdType < 4 then Some d
     else None)"

subsection \<open>The daemon\<close>

text \<open>
  The threads share the ports without locks. A handler's work on one port is taken as atomic here,
  and the steps of different threads and ports may follow each other in any order.
\<close>

datatype daemon_step = Events_step event_env nat | Test_step test_obs nat | Command_step u32 u8

fun daemon_next :: "daemon_step \<Rightarrow> daemon \<Rightarrow> daemon option" where
  "daemon_next (Events_step env i) d = events_port env i d"
| "daemon_next (Test_step obs i) d = test_port obs i d"
| "daemon_next (Command_step c n) d = clientHandler c n d"

fun step_port :: "daemon_step \<Rightarrow> nat" where
  "step_port (Events_step env i) = i"
| "step_port (Test_step obs i) = i"
| "step_port (Command_step c n) = 0"

inductive daemon_reachable :: "daemon \<Rightarrow> bool" where
  started: "ar_mainInit offset start junk err res secs = Some d \<Longrightarrow> daemon_reachable d"
| stepped: "daemon_reachable d \<Longrightarrow> step_port s < NUM_PORTS \<Longrightarrow> daemon_next s d = Some t
    \<Longrightarrow> daemon_reachable t"

end
