(* ===== verification/AR_Invariant.thy ===== *)
theory AR_Invariant
  imports AR_Events
begin

section \<open>The automatic PoE restart daemon: its invariant\<close>

text \<open>
  What holds however the daemon's threads interleave: every entry of the array keeps its port
  number, its delay and a valid test, its resets in a row never exceed the limit, and only
  existing ports are switched.
\<close>

definition entry_ok :: "config_type \<Rightarrow> nat \<Rightarrow> portInfo_t \<Rightarrow> bool" where
  "entry_ok opts i x \<longleftrightarrow> portNum (portConfigInfo x) = of_nat (i + 1)
     \<and> test (portConfigInfo x) \<noteq> test_max
     \<and> resetCount (portResetInfo x) \<le> MAX_RESET opts
     \<and> rebootDelay (portRebootInfo x) = 15"

definition daemon_ok :: "daemon \<Rightarrow> bool" where
  "daemon_ok d \<longleftrightarrow> length (portInfoArr d) = NUM_PORTS
     \<and> (\<forall>i < NUM_PORTS. entry_ok (options d) i (info d i))
     \<and> (\<forall>(n, on) \<in> set (poe_calls d). 1 \<le> n \<and> n \<le> 8)"

lemma daemon_ok_entry: "daemon_ok d \<Longrightarrow> i < 8 \<Longrightarrow> entry_ok (options d) i (info d i)"
  by (simp add: daemon_ok_def)

lemma daemon_ok_upd:
  assumes "daemon_ok d" and "\<And>x. i < 8 \<Longrightarrow> x = info d i \<Longrightarrow> entry_ok (options d) i x \<Longrightarrow> entry_ok (options d) i (f x)"
  shows "daemon_ok (upd_info i f d)"
  using assms by (cases "i < 8") (auto simp: daemon_ok_def)

text \<open>Updates of an entry that leave alone what the invariant is about.\<close>

definition harmless :: "(portInfo_t \<Rightarrow> portInfo_t) \<Rightarrow> bool" where
  "harmless f \<longleftrightarrow> (\<forall>x. portNum (portConfigInfo (f x)) = portNum (portConfigInfo x)
     \<and> test (portConfigInfo (f x)) \<in> {test (portConfigInfo x), test_disable}
     \<and> resetCount (portResetInfo (f x)) \<in> {resetCount (portResetInfo x), 0}
     \<and> rebootDelay (portRebootInfo (f x)) = rebootDelay (portRebootInfo x))"

lemma harmlessD: "harmless f \<Longrightarrow> entry_ok opts i x \<Longrightarrow> entry_ok opts i (f x)"
proof -
  assume "harmless f" and ok: "entry_ok opts i x"
  then show ?thesis
    using \<open>harmless f\<close> [unfolded harmless_def, rule_format, of x] by (auto simp: entry_ok_def)
qed

lemma port_number: "i < 8 \<Longrightarrow> unat (of_nat (i + 1) :: u8) = i + 1"
  by (simp only: unat_of_nat) (simp add: take_bit_nat_eq_self)

lemma daemon_ok_harmless: "harmless f \<Longrightarrow> daemon_ok d \<Longrightarrow> daemon_ok (upd_info i f d)"
  by (rule daemon_ok_upd) (auto dest: harmlessD)

lemma with_port_ok:
  "(\<And>i. i < 8 \<Longrightarrow> daemon_ok (f i d)) \<Longrightarrow> daemon_ok d \<Longrightarrow> daemon_ok (with_port n f d)"
  by (auto simp: with_port_def)

subsection \<open>The operations\<close>

lemma fail_fields [simp]: "resetCount (fail e r) = resetCount r" "resetCount (note_ok r) = resetCount r"
  by (simp_all add: fail_def note_ok_def)

lemma port_runTestDisable_ok: "daemon_ok d \<Longrightarrow> daemon_ok (port_runTestDisable n d)"
  unfolding port_runTestDisable_def
  by (intro with_port_ok daemon_ok_harmless) (simp_all add: harmless_def)

lemma port_runTestLink_ok: "daemon_ok d \<Longrightarrow> daemon_ok (port_runTestLink n out d)"
  unfolding port_runTestLink_def
  by (intro with_port_ok daemon_ok_harmless) (simp_all add: harmless_def Let_def)

lemma port_runTestPing_ok: "daemon_ok d \<Longrightarrow> daemon_ok (port_runTestPing n res rep d)"
  unfolding port_runTestPing_def
  by (intro with_port_ok daemon_ok_harmless) (simp_all add: harmless_def Let_def)

lemma port_runTestSpeed_ok: "daemon_ok d \<Longrightarrow> daemon_ok (port_runTestSpeed n out t d)"
  unfolding port_runTestSpeed_def
  by (intro with_port_ok daemon_ok_harmless) (simp_all add: harmless_def Let_def read_counter_def)

lemma port_runTestTime_ok: "daemon_ok d \<Longrightarrow> daemon_ok (port_runTestTime z t n d)"
  unfolding port_runTestTime_def
  by (intro with_port_ok daemon_ok_harmless) (simp_all add: harmless_def)

lemma get_PortAndPoeState_ok: "daemon_ok d \<Longrightarrow> daemon_ok (get_PortAndPoeState n s p d)"
  unfolding get_PortAndPoeState_def
  by (intro with_port_ok daemon_ok_harmless) (simp_all add: harmless_def Let_def go_idle_def)

lemma set_errorHandler_ok: "daemon_ok d \<Longrightarrow> daemon_ok (set_errorHandler i d)"
  unfolding set_errorHandler_def
  by (auto simp: Let_def harmless_def intro!: daemon_ok_harmless)

lemma poe_Control_ok: "daemon_ok d \<Longrightarrow> 1 \<le> n \<Longrightarrow> n \<le> 8 \<Longrightarrow> daemon_ok (poe_Control n ctl d)"
  by (auto simp: daemon_ok_def poe_Control_def)

lemma own_number:
  assumes "daemon_ok d" and "i < 8"
  shows "1 \<le> portNum (portConfigInfo (info d i))" "portNum (portConfigInfo (info d i)) \<le> 8"
    "unat (portNum (portConfigInfo (info d i))) = i + 1"
proof -
  have "portNum (portConfigInfo (info d i)) = of_nat (i + 1)"
    using daemon_ok_entry [OF assms] by (simp add: entry_ok_def)
  with port_number [OF assms(2)] assms(2)
  show "unat (portNum (portConfigInfo (info d i))) = i + 1"
    "1 \<le> portNum (portConfigInfo (info d i))" "portNum (portConfigInfo (info d i)) \<le> 8"
    by (simp_all add: word_le_nat_alt)
qed

subsection \<open>Settings\<close>

definition same_port :: "port_config_info_t \<Rightarrow> port_config_info_t \<Rightarrow> bool" where
  "same_port c c' \<longleftrightarrow> portNum c' = portNum c \<and> test c' = test c"

lemma same_port_refl [simp]: "same_port c c"
  by (simp add: same_port_def)

lemma same_port_setTestConfig: "same_port c (snd (setTestConfig t e sec c))"
  by (simp add: setTestConfig_def same_port_def setHost_def port_setHostParam_def setSpeed_def
      read_speed_def port_setSpeedParam_def Let_def split: TYPE_OF_TEST_t.split option.split)

lemma same_port_setTimeParam: "same_port c (snd (port_setTimeParam z t up down c))"
  by (simp add: same_port_def port_setTimeParam_def Let_def split: prod.split)

lemma same_port_setTime:
  assumes "setTime z t sec c = Some (e, c')"
  shows "same_port c c'"
proof -
  from assms have "c' = c \<or> (\<exists>up down. c' = snd (port_setTimeParam z t up down c))"
    by (auto simp: setTime_def bind_eq_Some_conv simp del: split_paired_Ex
        split: option.split_asm intro: snd_conv [symmetric])
      (metis snd_conv)
  then show ?thesis by (auto intro: same_port_setTimeParam)
qed

lemma set_times_cases:
  assumes "set_times z t sec x = Some y"
  obtains c where "y = upd_config (\<lambda>_. c) x" "same_port (portConfigInfo x) c"
proof (cases "alarm (portConfigInfo x) = enable")
  case True
  with assms obtain e c where "setTime z t sec (portConfigInfo x) = Some (e, c)"
    "y = upd_config (\<lambda>_. if has e ERR_NULL_OBJ then c\<lparr>alarm := disable\<rparr> else c) x"
    by (auto simp: set_times_def)
  with same_port_setTime [OF this(1)] show ?thesis
    by (intro that [of "if has e ERR_NULL_OBJ then c\<lparr>alarm := disable\<rparr> else c"])
      (auto simp: same_port_def)
next
  case False
  with assms show ?thesis by (intro that [of "portConfigInfo x"]) (simp_all add: set_times_def)
qed

lemma set_times_ok: "set_times z t sec x = Some y \<Longrightarrow> entry_ok opts i x \<Longrightarrow> entry_ok opts i y"
  by (erule set_times_cases) (simp add: entry_ok_def same_port_def)

lemma set_test_ok: "entry_ok opts i x \<Longrightarrow> entry_ok opts i (set_test t e sec x)"
  using same_port_setTestConfig [of "(portConfigInfo x)\<lparr>test := t\<rparr>" t e sec]
  by (auto simp: set_test_def entry_ok_def same_port_def split: prod.split)

text \<open>The entry after the fields are reset, for entries that only have their delay.\<close>

lemma reset_entry_ok:
  assumes "rebootDelay (portRebootInfo x) = 15"
  shows "entry_ok opts i (upd_reset (setResetZeroValue b)
    (upd_config (\<lambda>c. setConfigZeroValue t b
       (c\<lparr>portNum := of_nat (i + 1), test := test_disable, alarm := a\<rparr>)) x))"
  using assms by (simp add: entry_ok_def setResetZeroValue_def setConfigZeroValue_def Let_def)

lemma getPortParam_ok:
  assumes "daemon_ok d" and "getPortParam z t e sec i b d = Some d'"
  shows "daemon_ok d'"
proof -
  from assms(2) obtain s a y where d': "d' = set_errorHandler i (upd_info i (\<lambda>_. y) d)"
    and y: "set_times z t sec (set_test s e sec (upd_reset (setResetZeroValue b)
        (upd_config (\<lambda>c. setConfigZeroValue t b
           (c\<lparr>portNum := of_nat (i + 1), test := test_disable, alarm := a\<rparr>)) (info d i)))) = Some y"
    by (auto simp: getPortParam_def bind_eq_Some_conv)
  have "entry_ok (options d) i y" if "entry_ok (options d) i (info d i)"
    by (rule set_times_ok [OF y], intro set_test_ok reset_entry_ok) (use that in \<open>simp add: entry_ok_def\<close>)
  then show ?thesis
    unfolding d' using assms(1) by (intro set_errorHandler_ok daemon_ok_upd) auto
qed

subsection \<open>Events\<close>

lemma test_ErrorHandler_ok: "daemon_ok d \<Longrightarrow> daemon_ok (test_ErrorHandler i d)"
  unfolding test_ErrorHandler_def
  by (rule daemon_ok_harmless) (simp_all add: harmless_def Let_def count_ok_def count_error_def)

lemma idle_event_ok: "daemon_ok d \<Longrightarrow> daemon_ok (idle_event i d)"
  by (auto simp: idle_event_def harmless_def intro!: daemon_ok_harmless)

lemma clear_event_ok: "daemon_ok d \<Longrightarrow> daemon_ok (upd_info i (clear_event m) d)"
  by (rule daemon_ok_harmless) (simp_all add: harmless_def clear_event_def)

lemma manualResetHandler_ok: "daemon_ok d \<Longrightarrow> daemon_ok (manualResetHandler st n d)"
  unfolding manualResetHandler_def
  by (intro with_port_ok daemon_ok_harmless) (simp_all add: harmless_def)

lemma inc_le: "x < y \<Longrightarrow> x + 1 \<le> (y :: u8)"
  by (metis inc_le)

lemma reset_or_shutdown_ok:
  assumes "daemon_ok d" and "m = MAX_RESET (options d)"
  shows "daemon_ok (reset_or_shutdown m i d)"
proof (cases "resetCount (portResetInfo (info d i)) \<ge> m")
  case True
  then show ?thesis
    using assms(1)
    by (auto simp: reset_or_shutdown_def harmless_def intro!: set_errorHandler_ok daemon_ok_harmless)
next
  case False
  then show ?thesis
    using assms
    by (auto simp: reset_or_shutdown_def entry_ok_def not_le inc_le intro!: daemon_ok_upd)
qed

lemma autoResetHandler_ok:
  "daemon_ok d \<Longrightarrow> m = MAX_RESET (options d) \<Longrightarrow> daemon_ok (autoResetHandler st n m d)"
  unfolding autoResetHandler_def
  by (intro with_port_ok reset_or_shutdown_ok daemon_ok_harmless) (simp_all add: harmless_def)

lemma reboot_idle_ok: "daemon_ok d \<Longrightarrow> daemon_ok (reboot_idle env i d)"
  unfolding reboot_idle_def Let_def
  by (auto intro!: clear_event_ok manualResetHandler_ok autoResetHandler_ok)

lemma reboot_init_ok: "daemon_ok d \<Longrightarrow> daemon_ok (reboot_init i d)"
  unfolding reboot_init_def by (rule daemon_ok_harmless) (simp_all add: harmless_def)

lemma reboot_poe_down_ok: "daemon_ok d \<Longrightarrow> i < 8 \<Longrightarrow> daemon_ok (reboot_poe_down env i d)"
proof -
  assume d: "daemon_ok d" and i: "i < 8"
  note n = own_number(1,2) [OF d i]
  show ?thesis
    unfolding reboot_poe_down_def Let_def using d n
    by (auto simp: harmless_def intro!: daemon_ok_harmless poe_Control_ok)
qed

lemma reboot_poe_up_ok:
  assumes "daemon_ok d" and "i < 8" and "reboot_poe_up env i d = Some d'"
  shows "daemon_ok d'"
proof -
  let ?n = "portNum (portConfigInfo (info d i))"
  let ?d1 = "if both_enabled (info d i) then poe_Control ?n POE_UP d else d"
  have d1: "daemon_ok ?d1" using poe_Control_ok [OF assms(1) own_number(1,2) [OF assms(1,2)]] assms(1) by simp
  then have d2: "daemon_ok (upd_info i (\<lambda>x.
      upd_reset (\<lambda>r. r\<lparr>ar_state := REGULAR_STATE,
                       errorCode := clrb ERR_MANUAL_REBOOT (clrb ERR_REBOOTING (errorCode r))\<rparr>)
        (upd_reboot (\<lambda>b. b\<lparr>rebootState := REBOOT_STATE_IDLE,
                           rebootEvent := clrb REBOOT_EVENT_TIMER_STOP (rebootEvent b)\<rparr>) x)) ?d1)"
    by (rule daemon_ok_harmless [rotated]) (simp add: harmless_def)
  then have d3: "daemon_ok (upd_info i (\<lambda>x.
      upd_reset (\<lambda>r. r\<lparr>errorCode := clrb ERR_PORT_SHUTDOWN (errorCode r)\<rparr>)
        (clear_event MANUAL_RESTART x)) (upd_info i (\<lambda>x.
      upd_reset (\<lambda>r. r\<lparr>ar_state := REGULAR_STATE,
                       errorCode := clrb ERR_MANUAL_REBOOT (clrb ERR_REBOOTING (errorCode r))\<rparr>)
        (upd_reboot (\<lambda>b. b\<lparr>rebootState := REBOOT_STATE_IDLE,
                           rebootEvent := clrb REBOOT_EVENT_TIMER_STOP (rebootEvent b)\<rparr>) x)) ?d1))"
    by (rule daemon_ok_harmless [rotated]) (simp add: harmless_def clear_event_def)
  from assms(3) show ?thesis
    unfolding reboot_poe_up_def Let_def
    by (simp only: option.inject split: if_split_asm) (use getPortParam_ok [OF d3] d2 in \<open>blast | simp\<close>)+
qed

lemma rebootHandler_ok:
  "daemon_ok d \<Longrightarrow> i < 8 \<Longrightarrow> rebootHandler env i d = Some d' \<Longrightarrow> daemon_ok d'"
  by (auto simp: rebootHandler_def intro: reboot_idle_ok reboot_init_ok reboot_poe_down_ok
      reboot_poe_up_ok split: REBOOT_STATE_e.split_asm)

lemma alarm_off_ok:
  assumes "daemon_ok d" and "i < 8" shows "daemon_ok (alarm_off env i d)"
  unfolding alarm_off_def
  using assms own_number(1,2) [OF assms]
  by (auto simp: harmless_def intro!: daemon_ok_harmless poe_Control_ok)

lemma alarm_on_ok:
  assumes "daemon_ok d" and "i < 8" shows "daemon_ok (alarm_on i d)"
  unfolding alarm_on_def
  using assms own_number(1,2) [OF assms]
  by (auto simp: harmless_def intro!: daemon_ok_harmless poe_Control_ok)

lemma alarmHandler_ok: "daemon_ok d \<Longrightarrow> i < 8 \<Longrightarrow> daemon_ok (alarmHandler env i d)"
  by (auto simp: alarmHandler_def Let_def intro!: alarm_on_ok alarm_off_ok port_runTestTime_ok)

lemma events_port_ok:
  assumes "daemon_ok d" and "i < 8" and "events_port env i d = Some d'"
  shows "daemon_ok d'"
  using assms
  by (auto simp: events_port_def bind_eq_Some_conv
      intro: alarmHandler_ok test_ErrorHandler_ok idle_event_ok rebootHandler_ok
      split: AR_STATE.split_asm if_split_asm)

subsection \<open>Tests, commands, start\<close>

lemma runTest_ok: "daemon_ok d \<Longrightarrow> runTest t n obs d = Some d' \<Longrightarrow> daemon_ok d'"
  by (auto simp: runTest_def split: TYPE_OF_TEST_t.split_asm
      intro: port_runTestDisable_ok port_runTestLink_ok port_runTestPing_ok port_runTestSpeed_ok)

lemma test_port_ok: "daemon_ok d \<Longrightarrow> test_port obs i d = Some d' \<Longrightarrow> daemon_ok d'"
  by (auto simp: test_port_def Let_def intro: runTest_ok get_PortAndPoeState_ok)

lemma clientHandler_ok: "daemon_ok d \<Longrightarrow> clientHandler c n d = Some d' \<Longrightarrow> daemon_ok d'"
  by (auto simp: clientHandler_def cmd_rebootHandler_def Let_def harmless_def
      intro!: daemon_ok_harmless clear_event_ok split: if_split_asm)

lemma daemon_next_ok:
  assumes "daemon_ok d" and "step_port s < 8" and "daemon_next s d = Some d'"
  shows "daemon_ok d'"
  using assms by (cases s) (auto intro: events_port_ok test_port_ok clientHandler_ok)

definition params_set :: "config_type \<Rightarrow> nat \<Rightarrow> portInfo_t \<Rightarrow> bool" where
  "params_set opts i x \<longleftrightarrow> portNum (portConfigInfo x) = of_nat (i + 1)
     \<and> test (portConfigInfo x) \<noteq> test_max \<and> resetCount (portResetInfo x) \<le> MAX_RESET opts"

text \<open>All but the entries in \<open>js\<close> are as before.\<close>

definition only_ports :: "nat set \<Rightarrow> daemon \<Rightarrow> daemon \<Rightarrow> bool" where
  "only_ports js d d' \<longleftrightarrow> length (portInfoArr d') = length (portInfoArr d) \<and> options d' = options d
     \<and> poe_calls d' = poe_calls d \<and> (\<forall>j. j \<notin> js \<longrightarrow> info d' j = info d j)"

lemma only_ports_upd: "only_ports js d d' \<Longrightarrow> i \<in> js \<Longrightarrow> only_ports js d (upd_info i f d')"
  unfolding only_ports_def by (metis info_upd_info_neq upd_info_fields)

lemma only_ports_refl [simp]: "only_ports js d d"
  by (simp add: only_ports_def)

lemma only_ports_errorHandler: "only_ports js d d' \<Longrightarrow> i \<in> js \<Longrightarrow> only_ports js d (set_errorHandler i d')"
  by (simp add: set_errorHandler_def Let_def only_ports_upd)

lemma entry_ok_iff: "entry_ok opts i x \<longleftrightarrow> params_set opts i x \<and> rebootDelay (portRebootInfo x) = 15"
  by (auto simp: entry_ok_def params_set_def)

lemma rebootDelay_settings [simp]:
  "portRebootInfo (set_test s e sec x) = portRebootInfo x"
  by (auto simp: set_test_def split: prod.split)

lemma params_set_settings:
  assumes "set_times z t sec (set_test s e sec (upd_reset (setResetZeroValue b)
     (upd_config (\<lambda>c. setConfigZeroValue t b
        (c\<lparr>portNum := of_nat (i + 1), test := test_disable, alarm := a\<rparr>)) x))) = Some x'"
  shows "params_set opts i x'"
proof -
  define y where "y = upd_reset (setResetZeroValue b) (upd_config (\<lambda>c. setConfigZeroValue t b
        (c\<lparr>portNum := of_nat (i + 1), test := test_disable, alarm := a\<rparr>)) x)"
  have "entry_ok opts i (upd_reboot (rebootDelay_update (\<lambda>_. 15)) y)"
    by (simp add: y_def entry_ok_def setResetZeroValue_def setConfigZeroValue_def Let_def)
  then have "params_set opts i y" by (simp add: entry_ok_iff) (simp add: params_set_def)
  then have "params_set opts i (set_test s e sec y)"
    using same_port_setTestConfig [of "(portConfigInfo y)\<lparr>test := s\<rparr>" s e sec]
    by (auto simp: set_test_def params_set_def same_port_def split: prod.split)
  moreover from assms have "set_times z t sec (set_test s e sec y) = Some x'" by (simp only: y_def)
  ultimately show ?thesis
    by (elim set_times_cases) (simp add: params_set_def same_port_def)
qed

lemma params_set_errorHandler:
  assumes "params_set opts i (info d i)" and "i < length (portInfoArr d)"
  shows "params_set opts i (info (set_errorHandler i d) i)"
  using assms by (auto simp: set_errorHandler_def Let_def params_set_def)

lemma getPortParam_sets:
  assumes "getPortParam z t e sec i b d = Some d'" and "i < length (portInfoArr d)"
  shows "only_ports {i} d d'" and "params_set (options d) i (info d' i)"
proof -
  from assms(1) obtain s a y where d': "d' = set_errorHandler i (upd_info i (\<lambda>_. y) d)"
    and y: "set_times z t sec (set_test s e sec (upd_reset (setResetZeroValue b)
        (upd_config (\<lambda>c. setConfigZeroValue t b
           (c\<lparr>portNum := of_nat (i + 1), test := test_disable, alarm := a\<rparr>)) (info d i)))) = Some y"
    by (auto simp: getPortParam_def bind_eq_Some_conv)
  show "only_ports {i} d d'" unfolding d' by (intro only_ports_errorHandler only_ports_upd) simp_all
  show "params_set (options d) i (info d' i)"
    unfolding d' using assms(2)
    by (intro params_set_errorHandler) (simp_all only: info_upd_info if_True simp_thms params_set_settings [OF y] upd_info_fields)
qed

lemma getPortsParam_sets:
  assumes "getPortsParam z t e secs is d = Some d'" and "\<forall>i \<in> set is. i < length (portInfoArr d)"
  shows "only_ports (set is) d d' \<and> (\<forall>i \<in> set is. params_set (options d) i (info d' i))"
  using assms
proof (induction "is" arbitrary: d)
  case (Cons i "is")
  from Cons.prems(1) obtain d1 where first: "getPortParam z t e (secs i) i False d = Some d1"
    and rest: "getPortsParam z t e secs is d1 = Some d'" by (auto simp: bind_eq_Some_conv)
  note one = getPortParam_sets [OF first]
  have "only_ports (set is) d1 d' \<and> (\<forall>i \<in> set is. params_set (options d1) i (info d' i))"
    using rest Cons.prems(2) one(1) by (intro Cons.IH) (auto simp: only_ports_def)
  with one Cons.prems(2) show ?case
    by (cases "i \<in> set is") (auto simp: only_ports_def)
qed simp

lemma rebootParamInit_info:
  assumes "length (portInfoArr d) = 8" and "i < 8"
  shows "info (rebootParamInit d) i = upd_reboot (\<lambda>_. initial_reboot) (info d i)"
proof -
  have "info (fold (port_set_PortReboot initial_reboot) js d) i =
      (if i \<in> set js then upd_reboot (\<lambda>_. initial_reboot) (info d i) else info d i)"
    if "length (portInfoArr d) = 8" for js d
    using that assms(2)
  proof (induction js arbitrary: d)
    case (Cons j js)
    show ?case using Cons.prems Cons.IH [of "port_set_PortReboot initial_reboot j d"]
      by (cases "i = j") (auto simp: port_set_PortReboot_def)
  qed simp
  from this [OF assms(1), of "[0..<8]"] assms(2) show ?thesis by (simp add: rebootParamInit_def)
qed

lemma rebootParamInit_fields [simp]:
  "length (portInfoArr (rebootParamInit d)) = length (portInfoArr d)"
  "options (rebootParamInit d) = options d" "poe_calls (rebootParamInit d) = poe_calls d"
proof -
  have "length (portInfoArr (fold (port_set_PortReboot r) js d)) = length (portInfoArr d)
      \<and> options (fold (port_set_PortReboot r) js d) = options d
      \<and> poe_calls (fold (port_set_PortReboot r) js d) = poe_calls d" for r js
    by (induction js arbitrary: d) (simp_all add: port_set_PortReboot_def)
  then show "length (portInfoArr (rebootParamInit d)) = length (portInfoArr d)"
    "options (rebootParamInit d) = options d" "poe_calls (rebootParamInit d) = poe_calls d"
    by (simp_all only: rebootParamInit_def)
qed

lemma ar_mainInit_ok:
  assumes "ar_mainInit offset start junk err res secs = Some d"
  shows "daemon_ok d"
proof -
  let ?zero = "\<lambda>opts. \<lparr>portInfoArr = replicate 8 zero_portInfo, options = opts, poe_calls = []\<rparr>"
  from assms obtain opts d1 where
    settings: "getPortsParam offset start err secs [0..<8] (?zero opts) = Some d1"
    and d: "d = rebootParamInit d1"
    by (auto simp: ar_mainInit_def bind_eq_Some_conv)
  have all: "\<forall>i \<in> set [0..<8]. i < length (portInfoArr (?zero opts))" by simp
  from getPortsParam_sets [OF settings all]
  have only: "only_ports {0..<8} (?zero opts) d1"
    and sets: "\<And>i. i < 8 \<Longrightarrow> params_set opts i (info d1 i)" by simp_all
  from only have fields: "length (portInfoArr d1) = 8" "options d1 = opts" "poe_calls d1 = []"
    by (simp_all add: only_ports_def)
  show ?thesis
    unfolding d daemon_ok_def
    using sets by (simp add: fields rebootParamInit_info [OF fields(1)] entry_ok_iff)
      (simp add: params_set_def initial_reboot_def)
qed

lemma daemon_reachable_ok: "daemon_reachable d \<Longrightarrow> daemon_ok d"
  by (induction rule: daemon_reachable.induct) (blast intro: ar_mainInit_ok daemon_next_ok)+

text \<open>
  C3. Start the daemon and let its threads take steps in any order. Every entry of the array keeps
  its own port number and a test that \<open>runTest\<close> has a branch for, the PoE of a port is off for
  15 seconds in a restart, a port is never reset more than \<open>MAX_RESET\<close> times in a row, and only
  the ports 1 to 8 are ever switched.
\<close>

theorem reachable_daemon_ok: "daemon_reachable d \<Longrightarrow> daemon_ok d"
  by (rule daemon_reachable_ok)

definition sample_section :: section_data where
  "sample_section =
    \<lparr>sec_text = ''{'' @ [CHR 0x22] @ ''state'' @ [CHR 0x22] @ '':'' @ [CHR 0x22] @ ''ping'' @ [CHR 0x22]
       @ '','' @ [CHR 0x22] @ ''alarm'' @ [CHR 0x22] @ '':'' @ [CHR 0x22] @ ''enable'' @ [CHR 0x22] @ ''}'',
     sec_value = [''host'' \<mapsto> ''192.168.0.7'', ''timeUp'' \<mapsto> ''8:30'', ''timeDown'' \<mapsto> ''9:45'']\<rparr>"

definition sample_env :: "int \<Rightarrow> event_env" where
  "sample_env t = \<lparr>now = t, now_later = t, tz = 0, stamp = [], err0 = 0, section_of = \<lambda>_. sample_section\<rparr>"

definition sample_daemon :: "daemon option" where
  "sample_daemon = ar_mainInit 0 1000000 [] 0 [] (\<lambda>_. sample_section)"

theorem reachable_daemon_ok_witness:
  "\<exists>d t. sample_daemon = Some d \<and> daemon_next (Command_step 2 3) d = Some t \<and> daemon_reachable t
     \<and> daemon_ok t"
proof -
  have runs: "Option.bind sample_daemon (daemon_next (Command_step 2 3)) \<noteq> None" by code_simp
  then obtain d where d: "sample_daemon = Some d" by (cases sample_daemon) simp_all
  have "daemon_next (Command_step 2 3) d \<noteq> None" using runs unfolding d Option.bind.bind_lunit .
  then obtain t where t: "daemon_next (Command_step 2 3) d = Some t" by blast
  have "daemon_reachable d" using d unfolding sample_daemon_def by (rule started)
  then have "daemon_reachable t" by (rule stepped [OF _ _ t]) simp
  with d t reachable_daemon_ok show ?thesis by blast
qed

end
