(* ===== verification/AR_Reboot.thy ===== *)
theory AR_Reboot
  imports AR_Invariant
begin

section \<open>The automatic PoE restart daemon: restarts\<close>

text \<open>
  What the steps of one port do to it over time: they leave the other ports alone, a restart
  switches the PoE off and, at least the delay later, on again, and there are only so many.
\<close>

subsection \<open>Steps of one port leave the others alone\<close>

text \<open>
  \<open>touches j n d d'\<close>: only entry \<open>j\<close> may differ, and only port \<open>n\<close> was switched.
\<close>

definition touches :: "nat \<Rightarrow> u8 \<Rightarrow> daemon \<Rightarrow> daemon \<Rightarrow> bool" where
  "touches j n d d' \<longleftrightarrow> length (portInfoArr d') = length (portInfoArr d) \<and> options d' = options d
     \<and> (\<forall>i. i \<noteq> j \<longrightarrow> info d' i = info d i)
     \<and> (\<exists>cs. poe_calls d' = poe_calls d @ cs \<and> fst ` set cs \<subseteq> {n})"

named_theorems touch

lemma touches_refl [touch]: "touches j n d d"
  by (simp add: touches_def)

lemma touches_upd [touch]: "touches j n d d' \<Longrightarrow> touches j n d (upd_info j f d')"
  by (simp add: touches_def)

lemma touches_poe [touch]: "touches j n d d' \<Longrightarrow> touches j n d (poe_Control n c d')"
  by (auto simp: touches_def poe_Control_def)

lemma touches_if [touch]:
  "touches j n d d1 \<Longrightarrow> touches j n d d2 \<Longrightarrow> touches j n d (if b then d1 else d2)"
  by simp

lemma touches_with_port [touch]:
  "unat m = j + 1 \<Longrightarrow> touches j n d (f j d') \<Longrightarrow> touches j n d d' \<Longrightarrow> touches j n d (with_port m f d')"
  by (auto simp: with_port_def)

lemma touches_trans: "touches j n d1 d2 \<Longrightarrow> touches j n d2 d3 \<Longrightarrow> touches j n d1 d3"
  unfolding touches_def by (force simp: image_Un)

lemma touches_test [touch]:
  assumes "unat m = j + 1" and "touches j n d d'"
  shows "touches j n d (port_runTestDisable m d')" "touches j n d (port_runTestLink m out d')"
    "touches j n d (port_runTestPing m res rep d')" "touches j n d (port_runTestSpeed m cnt t d')"
    "touches j n d (port_runTestTime z t m d')" "touches j n d (get_PortAndPoeState m st po d')"
  unfolding port_runTestDisable_def port_runTestLink_def port_runTestPing_def port_runTestSpeed_def
    port_runTestTime_def get_PortAndPoeState_def
  by (intro touch assms)+

lemma touches_reset [touch]:
  assumes "touches j n d d'"
  shows "touches j n d (set_errorHandler j d')" "touches j n d (reset_or_shutdown m j d')"
    "unat k = j + 1 \<Longrightarrow> touches j n d (autoResetHandler st k m d')"
    "unat k = j + 1 \<Longrightarrow> touches j n d (manualResetHandler st k d')"
  unfolding set_errorHandler_def reset_or_shutdown_def autoResetHandler_def manualResetHandler_def
    Let_def
  by (intro touch assms | assumption)+

lemma getPortParam_touches:
  "getPortParam z t e sec j b d' = Some d'' \<Longrightarrow> touches j n d d' \<Longrightarrow> touches j n d d''"
  by (auto simp: getPortParam_def bind_eq_Some_conv intro!: touch)

lemma reboot_steps_touch:
  assumes "n = portNum (portConfigInfo (info d j))" and "unat n = j + 1"
  shows "touches j n d (reboot_idle env j d)" "touches j n d (reboot_init j d)"
    "touches j n d (reboot_poe_down env j d)" "touches j n d (test_ErrorHandler j d)"
    "touches j n d (idle_event j d)"
  unfolding reboot_idle_def reboot_init_def reboot_poe_down_def test_ErrorHandler_def idle_event_def
    Let_def assms(1) [symmetric]
  by (intro touch assms(2))+

lemma reboot_poe_up_touch:
  assumes "n = portNum (portConfigInfo (info d j))" and "unat n = j + 1"
    and "reboot_poe_up env j d = Some d'"
  shows "touches j n d d'"
proof -
  from assms(2) have "n \<noteq> 0" by auto
  then have j: "unat (n - 1) = j" using assms(2) by (simp add: unat_minus_one)
  show ?thesis
    using assms(3) unfolding reboot_poe_up_def Let_def assms(1) [symmetric] j
    by (auto split: if_split_asm intro!: touch elim!: getPortParam_touches)
qed

lemma alarm_touch:
  assumes "n = portNum (portConfigInfo (info d' j))" and "unat n = j + 1" and "touches j n d d'"
  shows "touches j n d (alarm_off env j d')" "touches j n d (alarm_on j d')"
  unfolding alarm_off_def alarm_on_def assms(1) [symmetric] by (intro touch assms)+

lemma info_upd_keeps: "(\<And>x. g (f x) = g x) \<Longrightarrow> g (info (upd_info k f d) j) = g (info d j)"
  by (cases "k = j"; cases "k < length (portInfoArr d)") (simp_all add: upd_info_def upd_nth_beyond)

lemma alarm_number [simp]:
  "portNum (portConfigInfo (info (poe_Control m c d) j)) = portNum (portConfigInfo (info d j))"
  "portNum (portConfigInfo (info (alarm_off env k d) j)) = portNum (portConfigInfo (info d j))"
  "portNum (portConfigInfo (info (alarm_on k d) j)) = portNum (portConfigInfo (info d j))"
  "portNum (portConfigInfo (info (port_runTestTime z t m d) j)) = portNum (portConfigInfo (info d j))"
  "portNum (portConfigInfo (info (get_PortAndPoeState m st po d) j)) = portNum (portConfigInfo (info d j))"
  by (simp_all add: alarm_off_def alarm_on_def poe_Control_def port_runTestTime_def with_port_def
      get_PortAndPoeState_def info_upd_keeps [where g = "\<lambda>x. portNum (portConfigInfo x)"] Let_def)

lemma alarmHandler_touch:
  assumes "n = portNum (portConfigInfo (info d j))" and "unat n = j + 1" and "touches j n e d"
  shows "touches j n e (alarmHandler env j d)"
  unfolding alarmHandler_def Let_def assms(1) [symmetric]
  by (intro touch alarm_touch assms) (simp_all add: assms)

lemma number_after:
  assumes "daemon_ok d" and "daemon_ok d'" and "j < 8"
  shows "portNum (portConfigInfo (info d' j)) = portNum (portConfigInfo (info d j))"
  using daemon_ok_entry [OF assms(1,3)] daemon_ok_entry [OF assms(2,3)] by (simp add: entry_ok_def)

lemma events_port_touch:
  assumes ok: "daemon_ok d" and j: "j < 8" and step: "events_port env j d = Some d'"
  shows "touches j (portNum (portConfigInfo (info d j))) d d'"
proof -
  let ?n = "portNum (portConfigInfo (info d j))"
  note n = own_number(3) [OF ok j]
  from step obtain d1 where d1: "(case ar_state (portResetInfo (info d j)) of
        REGULAR_STATE \<Rightarrow> Some (test_ErrorHandler j d)
      | REBOOT_STATE \<Rightarrow> rebootHandler env j d
      | IDLE_STATE \<Rightarrow> Some (idle_event j d)) = Some d1"
    and d': "d' = (if alarm (portConfigInfo (info d1 j)) = enable then alarmHandler env j d1 else d1)"
    by (auto simp: events_port_def bind_eq_Some_conv)
  have "touches j ?n d d1"
    using d1 reboot_steps_touch [OF refl n] reboot_poe_up_touch [OF refl n]
    by (auto simp: rebootHandler_def split: AR_STATE.split_asm REBOOT_STATE_e.split_asm)
  moreover have "daemon_ok d1"
    using d1 ok j by (auto split: AR_STATE.split_asm
        intro: test_ErrorHandler_ok idle_event_ok rebootHandler_ok)
  then have "?n = portNum (portConfigInfo (info d1 j))" by (rule number_after [OF _ ok j])
  ultimately show ?thesis unfolding d' using n by (intro touch alarmHandler_touch) auto
qed

lemma test_port_touch:
  assumes ok: "daemon_ok d" and j: "j < 8" and step: "test_port obs j d = Some d'"
  shows "touches j (portNum (portConfigInfo (info d j))) d d'"
proof -
  let ?d1 = "get_PortAndPoeState (of_nat (j + 1)) (obs_state obs) (obs_poe obs) d"
  note n = own_number(3) [OF ok j]
  have num: "unat (of_nat (Suc j) :: u8) = Suc j" using port_number [OF j] by simp
  show ?thesis
    using step n num unfolding test_port_def runTest_def Let_def
    by (auto split: TYPE_OF_TEST_t.split_asm intro!: touch simp del: of_nat_Suc)
qed

fun acting_port :: "daemon_step \<Rightarrow> nat" where
  "acting_port (Events_step env i) = i"
| "acting_port (Test_step obs i) = i"
| "acting_port (Command_step c n) = unat n - 1"

lemma number_inj: "i < 8 \<Longrightarrow> j < 8 \<Longrightarrow> i \<noteq> j \<Longrightarrow> (of_nat (i + 1) :: u8) \<noteq> of_nat (j + 1)"
  by (metis port_number add_right_cancel)

lemma own_number_of_nat:
  "daemon_ok d \<Longrightarrow> j < 8 \<Longrightarrow> portNum (portConfigInfo (info d j)) = of_nat (j + 1)"
  using daemon_ok_entry [of d j] by (simp add: entry_ok_def)

lemma step_touch:
  assumes ok: "daemon_ok d" and "step_port s < 8" and "daemon_next s d = Some d'"
  shows "touches (acting_port s) (of_nat (acting_port s + 1)) d d'"
proof (cases s)
  case (Events_step env i)
  then show ?thesis using assms events_port_touch [OF ok] own_number_of_nat [OF ok] by force
next
  case (Test_step obs i)
  then show ?thesis using assms test_port_touch [OF ok] own_number_of_nat [OF ok] by force
next
  case (Command_step c n)
  then show ?thesis
    using assms by (auto simp: clientHandler_def cmd_rebootHandler_def Let_def intro!: touch split: if_split_asm)
qed

lemma step_other:
  assumes "daemon_ok d" and "step_port s < 8" and "daemon_next s d = Some d'" and "i < 8"
    and "acting_port s \<noteq> i"
  shows "info d' i = info d i"
    "filter (\<lambda>c. fst c = of_nat (i + 1)) (poe_calls d') = filter (\<lambda>c. fst c = of_nat (i + 1)) (poe_calls d)"
proof -
  note t = step_touch [OF assms(1-3), unfolded touches_def]
  from t assms(5) show "info d' i = info d i" by metis
  from t obtain cs where cs: "poe_calls d' = poe_calls d @ cs"
    "fst ` set cs \<subseteq> {of_nat (acting_port s + 1)}" by blast
  have "acting_port s < 8 \<or> d' = d"
    using assms(2,3) by (cases s) (auto simp: clientHandler_def cmd_rebootHandler_def split: if_split_asm)
  moreover have "filter (\<lambda>c. fst c = of_nat (i + 1)) cs = []" if "acting_port s < 8"
    using cs(2) number_inj [OF assms(4) that] assms(5) by (auto simp: filter_empty_conv)
  ultimately show "filter (\<lambda>c. fst c = of_nat (i + 1)) (poe_calls d') =
      filter (\<lambda>c. fst c = of_nat (i + 1)) (poe_calls d)" using cs(1) by auto
qed

text \<open>
  C20. Ports do not interfere: whatever step is taken, by whichever thread, it changes the entry of
  the port it acts on only, and switches the PoE of no other.
\<close>

theorem ports_are_independent:
  assumes "daemon_reachable d" and "step_port s < 8" and "daemon_next s d = Some d'"
    and "i < 8" and "acting_port s \<noteq> i"
  shows "info d' i = info d i
    \<and> filter (\<lambda>c. fst c = of_nat (i + 1)) (poe_calls d')
        = filter (\<lambda>c. fst c = of_nat (i + 1)) (poe_calls d)"
  using assms step_other [OF daemon_reachable_ok] by blast

subsection \<open>Sequences of steps\<close>

fun daemon_run :: "daemon_step list \<Rightarrow> daemon \<Rightarrow> daemon option" where
  "daemon_run [] d = Some d"
| "daemon_run (s # ss) d = Option.bind (daemon_next s d) (daemon_run ss)"

lemma daemon_run_invariant:
  assumes "daemon_run ss d = Some d'" and "I d" and "\<forall>s \<in> set ss. P s"
    and "\<And>s d d'. P s \<Longrightarrow> I d \<Longrightarrow> daemon_next s d = Some d' \<Longrightarrow> I d'"
  shows "I d'"
  using assms(1-3)
proof (induction ss arbitrary: d)
  case (Cons s ss)
  then obtain d1 where "daemon_next s d = Some d1" "daemon_run ss d1 = Some d'"
    by (auto simp: bind_eq_Some_conv)
  with Cons assms(4) [of s d d1] show ?case by simp
qed simp

text \<open>Steps in which port \<open>i\<close> has no link and no one asks for its restart.\<close>

fun without_link :: "nat \<Rightarrow> daemon_step \<Rightarrow> bool" where
  "without_link i (Events_step env j) \<longleftrightarrow> j < 8"
| "without_link i (Test_step obs j) \<longleftrightarrow> j < 8 \<and> (j = i \<longrightarrow> obs_operstate obs \<noteq> ''up'' @ [CHR 0x0A])"
| "without_link i (Command_step c n) \<longleftrightarrow> unat n \<noteq> i + 1"

lemma without_link_port: "without_link i s \<Longrightarrow> step_port s < 8"
  by (cases s) auto

subsection \<open>A port that is left idle\<close>

definition at_rest :: "portInfo_t \<Rightarrow> bool" where
  "at_rest x \<longleftrightarrow> ar_state (portResetInfo x) = IDLE_STATE \<and> \<not> has (event (portResetInfo x)) TEST_OK
     \<and> alarm (portConfigInfo x) \<noteq> enable"

lemma at_rest_events:
  assumes "at_rest (info d i)" and "events_port env i d = Some d'" shows "d' = d"
  using assms by (simp add: at_rest_def events_port_def idle_event_def)

lemma info_with_port:
  assumes "unat m = i + 1" and "i < 8" and "length (portInfoArr d) = 8"
  shows "info (with_port m (\<lambda>i. upd_info i f) d) i = f (info d i)"
    "length (portInfoArr (with_port m (\<lambda>i. upd_info i f) d)) = 8"
proof -
  from assms(1) have "0 < m" by (auto simp: word_gt_0)
  with assms show "info (with_port m (\<lambda>i. upd_info i f) d) i = f (info d i)"
    "length (portInfoArr (with_port m (\<lambda>i. upd_info i f) d)) = 8"
    by (simp_all add: with_port_def)
qed

text \<open>What the tests of a port without link leave of its entry.\<close>

definition kept :: "portInfo_t \<Rightarrow> portInfo_t \<Rightarrow> bool" where
  "kept x y \<longleftrightarrow> event (portResetInfo y) = event (portResetInfo x)
     \<and> ar_state (portResetInfo y) \<in> {IDLE_STATE, ar_state (portResetInfo x)}
     \<and> resetCount (portResetInfo y) = resetCount (portResetInfo x)
     \<and> alarm (portConfigInfo y) = alarm (portConfigInfo x)
     \<and> test (portConfigInfo y) = test (portConfigInfo x)
     \<and> portRebootInfo y = portRebootInfo x"

abbreviation failing :: "portInfo_t \<Rightarrow> bool" where
  "failing x \<equiv> \<not> has (errorCode (portResetInfo x)) ERR_OK"

lemma kept_trans: "kept x y \<Longrightarrow> kept y z \<Longrightarrow> kept x z"
  by (auto simp: kept_def)

lemma tests_without_link:
  assumes m: "unat m = i + 1" and i: "i < 8" and len: "length (portInfoArr d) = 8"
  shows "kept (info d i) (info (get_PortAndPoeState m st po d) i)"
    "kept (info d i) (info (port_runTestDisable m d) i)"
    "failing (info (port_runTestDisable m d) i)"
    "out \<noteq> ''up'' @ [CHR 0x0A] \<Longrightarrow> kept (info d i) (info (port_runTestLink m out d) i)"
    "out \<noteq> ''up'' @ [CHR 0x0A] \<Longrightarrow> failing (info (port_runTestLink m out d) i)"
    "out \<noteq> ''up'' @ [CHR 0x0A] \<Longrightarrow>
       has (errorCode (portResetInfo (info (port_runTestLink m out d) i))) ERR_TEST_LINK"
    "length (portInfoArr (get_PortAndPoeState m st po d)) = 8"
    "length (portInfoArr (port_runTestLink m out d)) = 8"
  unfolding get_PortAndPoeState_def port_runTestDisable_def port_runTestLink_def
  by (simp_all only: info_with_port [OF m i len])
    (simp_all add: kept_def fail_def go_idle_def Let_def)

lemma tests_after_link:
  assumes m: "unat m = i + 1" and i: "i < 8" and len: "length (portInfoArr d) = 8"
    and link: "has (errorCode (portResetInfo (info d i))) ERR_TEST_LINK"
  shows "kept (info d i) (info (port_runTestPing m res rep d) i)"
    "failing (info (port_runTestPing m res rep d) i)"
    "kept (info d i) (info (port_runTestSpeed m cnt t d) i)"
    "failing (info (port_runTestSpeed m cnt t d) i)"
  unfolding port_runTestPing_def port_runTestSpeed_def
  by (simp_all only: info_with_port [OF m i len])
    (simp_all add: kept_def fail_def Let_def link)

lemma test_port_fails:
  assumes ok: "daemon_ok d" and i: "i < 8" and down: "obs_operstate obs \<noteq> ''up'' @ [CHR 0x0A]"
    and step: "test_port obs i d = Some d'"
  shows "kept (info d i) (info d' i)" "failing (info d' i)"
    "obs_state obs \<noteq> ''enable'' \<or> obs_poe obs \<noteq> ''enable'' \<Longrightarrow>
       ar_state (portResetInfo (info d' i)) = IDLE_STATE"
proof -
  define n :: u8 where "n = of_nat (i + 1)"
  define d1 where "d1 = get_PortAndPoeState n (obs_state obs) (obs_poe obs) d"
  have n: "unat n = i + 1" using port_number [OF i] by (simp only: n_def)
  have own: "portNum (portConfigInfo (info d1 i)) = n"
    using own_number_of_nat [OF ok i] by (simp add: d1_def n_def)
  have len: "length (portInfoArr d) = 8" using ok by (simp add: daemon_ok_def)
  have len1: "length (portInfoArr d1) = 8" and first: "kept (info d i) (info d1 i)"
    unfolding d1_def by (rule tests_without_link [OF n i len])+
  note second = tests_without_link [OF n i len1]
  note third = tests_after_link [OF n i second(8) second(6) [OF down]]
  from step have "runTest (test (portConfigInfo (info d1 i))) n obs d1 = Some d'"
    unfolding test_port_def Let_def n_def [symmetric] d1_def [symmetric] own .
  then have last: "kept (info d1 i) (info d' i) \<and> failing (info d' i)"
    using second(2-5) third down kept_trans [OF second(4) [OF down]]
    by (auto simp: runTest_def split: TYPE_OF_TEST_t.split_asm)
  then show "kept (info d i) (info d' i)" "failing (info d' i)"
    using kept_trans [OF first] by blast+
  show "ar_state (portResetInfo (info d' i)) = IDLE_STATE"
    if "obs_state obs \<noteq> ''enable'' \<or> obs_poe obs \<noteq> ''enable''"
  proof -
    have "ar_state (portResetInfo (info d1 i)) = IDLE_STATE"
      unfolding d1_def get_PortAndPoeState_def info_with_port [OF n i len]
      using that by (auto simp: Let_def go_idle_def)
    with last show ?thesis by (simp add: kept_def)
  qed
qed

lemma poe_calls_test_port: "test_port obs i d = Some d' \<Longrightarrow> poe_calls d' = poe_calls d"
  by (auto simp: test_port_def runTest_def Let_def port_runTestDisable_def port_runTestLink_def
      port_runTestPing_def port_runTestSpeed_def get_PortAndPoeState_def with_port_def
      split: TYPE_OF_TEST_t.split_asm)

definition calls_of :: "nat \<Rightarrow> daemon \<Rightarrow> (u8 \<times> bool) list" where
  "calls_of i d = filter (\<lambda>c. fst c = of_nat (i + 1)) (poe_calls d)"

text \<open>A step that concerns port \<open>i\<close> without link, or one that does not.\<close>

lemma without_link_cases:
  assumes "daemon_ok d" and "i < 8" and "without_link i s" and "daemon_next s d = Some d'"
  obtains (events) env where "s = Events_step env i" "events_port env i d = Some d'"
    | (test) obs where "s = Test_step obs i" "test_port obs i d = Some d'"
        "obs_operstate obs \<noteq> ''up'' @ [CHR 0x0A]"
    | (other) "info d' i = info d i" "calls_of i d' = calls_of i d"
proof (cases "acting_port s = i")
  case False
  then show ?thesis
    using other step_other [OF assms(1) without_link_port [OF assms(3)] assms(4,2)]
    by (simp add: calls_of_def)
next
  case True
  show ?thesis
  proof (cases s)
    case (Command_step c n)
    with True assms(3) have "n = 0" by (simp add: unat_eq_0 [symmetric])
    then have "d' = d"
      using assms(4) Command_step
      by (auto simp: clientHandler_def cmd_rebootHandler_def split: if_split_asm)
    then show ?thesis using other by simp
  qed (use True assms events test in auto)
qed

lemma at_rest_step:
  assumes "daemon_ok d" and "i < 8" and "at_rest (info d i)" and "without_link i s"
    and "daemon_next s d = Some d'"
  shows "at_rest (info d' i) \<and> calls_of i d' = calls_of i d
    \<and> portRebootInfo (info d' i) = portRebootInfo (info d i)"
  using assms(1,2,4,5)
proof (cases rule: without_link_cases)
  case (events env)
  then show ?thesis using assms(3) at_rest_events by blast
next
  case (test obs)
  then show ?thesis
    using assms(3) test_port_fails(1) [OF assms(1,2) test(3,2)] poe_calls_test_port [OF test(2)]
    by (auto simp: at_rest_def kept_def calls_of_def)
next
  case other
  then show ?thesis using assms(3) by simp
qed

lemma at_rest_run:
  assumes "daemon_ok d" and "i < 8" and "at_rest (info d i)" and "\<forall>s \<in> set ss. without_link i s"
    and "daemon_run ss d = Some d'"
  shows "at_rest (info d' i) \<and> calls_of i d' = calls_of i d
    \<and> portRebootInfo (info d' i) = portRebootInfo (info d i)"
proof -
  let ?I = "\<lambda>e. daemon_ok e \<and> at_rest (info e i) \<and> calls_of i e = calls_of i d
    \<and> portRebootInfo (info e i) = portRebootInfo (info d i)"
  have "?I d'"
    using assms(5)
  proof (rule daemon_run_invariant [where I = ?I])
    show "?I d" using assms(1,3) by simp
    show "\<forall>s \<in> set ss. without_link i s" by (rule assms(4))
    show "?I e'" if "without_link i s" "?I e" "daemon_next s e = Some e'" for s e e'
      using that at_rest_step [OF _ assms(2), of e s e'] daemon_next_ok [OF _ without_link_port, of e i s e']
      by simp
  qed
  then show ?thesis by blast
qed

text \<open>
  C19. An interrupted restart leaves the device without power. While a port waits with its PoE
  switched off, the test thread sees the settings of port or PoE as anything but enabled, once. From
  then on, also after they are enabled again, no sequence of steps of all threads switches the PoE
  on, as long as the port has no link (which it has not without power), no alarm is enabled for
  it, no successful test is still to be taken notice of, and no command to restart it comes:
  the port is idle and waits for a successful test to come back.
\<close>

theorem interrupted_restart_stays_off:
  assumes "daemon_reachable d" and "i < 8"
    and "rebootState (portRebootInfo (info d i)) = REBOOT_STATE_POE_DOWN"
    and "alarm (portConfigInfo (info d i)) \<noteq> enable"
    and "\<not> has (event (portResetInfo (info d i))) TEST_OK"
    and "obs_state obs \<noteq> ''enable'' \<or> obs_poe obs \<noteq> ''enable''"
    and "obs_operstate obs \<noteq> ''up'' @ [CHR 0x0A]"
    and "\<forall>s \<in> set ss. without_link i s"
    and "daemon_run (Test_step obs i # ss) d = Some d'"
  shows "calls_of i d' = calls_of i d \<and> ar_state (portResetInfo (info d' i)) = IDLE_STATE
    \<and> rebootState (portRebootInfo (info d' i)) = REBOOT_STATE_POE_DOWN"
proof -
  from assms(9) obtain d1 where first: "test_port obs i d = Some d1" and rest: "daemon_run ss d1 = Some d'"
    by (auto simp: bind_eq_Some_conv)
  have ok: "daemon_ok d" by (rule daemon_reachable_ok) fact
  note t = test_port_fails [OF ok assms(2,7) first]
  have "at_rest (info d1 i)"
    using t(1) t(3) [OF assms(6)] assms(4,5) by (simp add: at_rest_def kept_def)
  with at_rest_run [OF test_port_ok [OF ok first] assms(2) _ assms(8) rest]
  show ?thesis
    using t(1) assms(3) poe_calls_test_port [OF first] by (simp add: at_rest_def kept_def calls_of_def)
qed

subsection \<open>How often a port is restarted\<close>

text \<open>
  The number of times a port was switched off, and the restart that is under way and has yet to
  switch it off.
\<close>

definition downs :: "nat \<Rightarrow> daemon \<Rightarrow> nat" where
  "downs i d = length (filter (\<lambda>c. \<not> snd c) (calls_of i d))"




lemma calls_of_upd [simp]: "calls_of i (upd_info j f d) = calls_of i d"
  by (simp add: calls_of_def)

lemma calls_of_poe:
  "n = of_nat (i + 1) \<Longrightarrow> calls_of i (poe_Control n POE_UP d) = calls_of i d @ [(n, True)]"
  "n = of_nat (i + 1) \<Longrightarrow> calls_of i (poe_Control n POE_DOWN d) = calls_of i d @ [(n, False)]"
  by (simp_all add: calls_of_def poe_Control_def has_def)

lemma downs_upd [simp]: "downs i (upd_info j f d) = downs i d"
  by (simp add: downs_def calls_of_def)

lemma downs_poe [simp]:
  "downs i (poe_Control n POE_UP d) = downs i d"
  "downs i (poe_Control n POE_DOWN d) = (if n = of_nat (i + 1) then downs i d + 1 else downs i d)"
  by (simp_all add: downs_def calls_of_def poe_Control_def has_def)

lemma info_poe [simp]: "info (poe_Control n c d) i = info d i"
  "length (portInfoArr (poe_Control n c d)) = length (portInfoArr d)"
  by (simp_all add: poe_Control_def)





lemma calls_of_reset [simp]:
  "downs i (reset_or_shutdown m j d) = downs i d" "downs i (set_errorHandler j d) = downs i d"
  by (simp_all add: reset_or_shutdown_def set_errorHandler_def Let_def)





subsection \<open>A restart\<close>

lemma events_port_reboot:
  assumes "ar_state (portResetInfo (info d i)) = REBOOT_STATE" and "rebootHandler env i d = Some d'"
    and "alarm (portConfigInfo (info d' i)) \<noteq> enable"
  shows "events_port env i d = Some d'"
  using assms by (simp add: events_port_def)

abbreviation events_at :: "nat \<Rightarrow> event_env list \<Rightarrow> daemon_step list" where
  "events_at i envs \<equiv> map (\<lambda>e. Events_step e i) envs"

lemma daemon_run_append:
  "daemon_run (ss @ ts) d = Option.bind (daemon_run ss d) (daemon_run ts)"
proof (induction ss arbitrary: d)
  case (Cons s ss)
  then show ?case by (cases "daemon_next s d") simp_all
qed simp

text \<open>Waiting with the PoE switched off, until the time \<open>t\<close>.\<close>

definition off_until :: "nat \<Rightarrow> u32 \<Rightarrow> daemon \<Rightarrow> bool" where
  "off_until i t d \<longleftrightarrow> (let x = info d i in ar_state (portResetInfo x) = REBOOT_STATE
     \<and> rebootState (portRebootInfo x) = REBOOT_STATE_POE_DOWN
     \<and> rebootTimeStart (portRebootInfo x) = t
     \<and> \<not> has (rebootEvent (portRebootInfo x)) REBOOT_EVENT_START
     \<and> \<not> has (rebootEvent (portRebootInfo x)) REBOOT_EVENT_TIMER_STOP
     \<and> alarm (portConfigInfo x) \<noteq> enable \<and> both_enabled x
     \<and> \<not> has (event (portResetInfo x)) MANUAL_RESTART)"

lemma off_until_waits:
  assumes "length (portInfoArr d) = 8" and "i < 8" and "off_until i t d" and "now_later env < uint t"
  shows "\<exists>d'. events_port env i d = Some d' \<and> off_until i t d' \<and> calls_of i d' = calls_of i d
    \<and> portNum (portConfigInfo (info d' i)) = portNum (portConfigInfo (info d i))
    \<and> length (portInfoArr d') = 8"
proof (intro exI conjI)
  let ?d = "reboot_poe_down env i d"
  note w = assms(3) [unfolded off_until_def Let_def]
  show "events_port env i d = Some ?d"
    using assms w by (intro events_port_reboot) (auto simp: rebootHandler_def reboot_poe_down_def Let_def)
  show "off_until i t ?d" "calls_of i ?d = calls_of i d" "length (portInfoArr ?d) = 8"
    "portNum (portConfigInfo (info ?d i)) = portNum (portConfigInfo (info d i))"
    using assms w by (auto simp: off_until_def reboot_poe_down_def Let_def both_enabled_def calls_of_def)
qed

lemma off_until_waits_long:
  assumes "length (portInfoArr d) = 8" and "i < 8" and "off_until i t d"
    and "\<forall>e \<in> set envs. now_later e < uint t"
  shows "\<exists>d'. daemon_run (events_at i envs) d = Some d' \<and> off_until i t d'
    \<and> calls_of i d' = calls_of i d
    \<and> portNum (portConfigInfo (info d' i)) = portNum (portConfigInfo (info d i))
    \<and> length (portInfoArr d') = 8"
  using assms(1,3,4)
proof (induction envs arbitrary: d)
  case (Cons e envs)
  then obtain d1 where d1: "events_port e i d = Some d1" "off_until i t d1"
    "calls_of i d1 = calls_of i d" "length (portInfoArr d1) = 8"
    "portNum (portConfigInfo (info d1 i)) = portNum (portConfigInfo (info d i))"
    using off_until_waits [OF _ assms(2), of d t e] by auto
  with Cons.IH [of d1] Cons.prems show ?case by simp
qed simp

lemma off_until_over:
  assumes "length (portInfoArr d) = 8" and "i < 8" and "off_until i t d"
    and "uint t \<le> now_later e1" and "portNum (portConfigInfo (info d i)) = of_nat (i + 1)"
  shows "\<exists>d'. daemon_run (events_at i [e1, e2]) d = Some d'
    \<and> calls_of i d' = calls_of i d @ [(of_nat (i + 1), True)]
    \<and> ar_state (portResetInfo (info d' i)) = REGULAR_STATE
    \<and> rebootState (portRebootInfo (info d' i)) = REBOOT_STATE_IDLE
    \<and> \<not> has (errorCode (portResetInfo (info d' i))) ERR_REBOOTING"
proof -
  let ?d = "reboot_poe_down e1 i d"
  note w = assms(3) [unfolded off_until_def Let_def]
  have first: "events_port e1 i d = Some ?d"
    using assms w by (intro events_port_reboot) (auto simp: rebootHandler_def reboot_poe_down_def Let_def)
  have up: "length (portInfoArr ?d) = 8" "calls_of i ?d = calls_of i d"
    "ar_state (portResetInfo (info ?d i)) = REBOOT_STATE"
    "rebootState (portRebootInfo (info ?d i)) = REBOOT_STATE_POE_UP" "both_enabled (info ?d i)"
    "\<not> has (event (portResetInfo (info ?d i))) MANUAL_RESTART"
    "alarm (portConfigInfo (info ?d i)) \<noteq> enable"
    "portNum (portConfigInfo (info ?d i)) = of_nat (i + 1)"
    using assms w by (auto simp: reboot_poe_down_def Let_def both_enabled_def calls_of_def)
  then obtain d' where d': "reboot_poe_up e2 i ?d = Some d'"
    "calls_of i d' = calls_of i d @ [(of_nat (i + 1), True)]"
    "ar_state (portResetInfo (info d' i)) = REGULAR_STATE"
    "rebootState (portRebootInfo (info d' i)) = REBOOT_STATE_IDLE"
    "\<not> has (errorCode (portResetInfo (info d' i))) ERR_REBOOTING"
    "alarm (portConfigInfo (info d' i)) \<noteq> enable"
    using assms(2) by (simp add: reboot_poe_up_def Let_def calls_of_poe)
  have "events_port e2 i ?d = Some d'"
    using up d' by (intro events_port_reboot) (simp_all add: rebootHandler_def)
  with first d' show ?thesis by simp
qed

lemma restart_begins:
  assumes "length (portInfoArr d) = 8" and "i < 8"
    and "ar_state (portResetInfo (info d i)) = REBOOT_STATE"
    and "rebootState (portRebootInfo (info d i)) = REBOOT_STATE_INIT"
    and "both_enabled (info d i)" and "alarm (portConfigInfo (info d i)) \<noteq> enable"
    and "\<not> has (event (portResetInfo (info d i))) MANUAL_RESTART"
    and "\<not> has (rebootEvent (portRebootInfo (info d i))) REBOOT_EVENT_TIMER_STOP"
    and "portNum (portConfigInfo (info d i)) = of_nat (i + 1)"
    and "rebootDelay (portRebootInfo (info d i)) = 15"
    and "now_later e2 < uint (15 + of_int (now e2) :: u32)"
  shows "\<exists>d'. daemon_run (events_at i [e1, e2]) d = Some d'
    \<and> off_until i (15 + of_int (now e2)) d' \<and> calls_of i d' = calls_of i d @ [(of_nat (i + 1), False)]
    \<and> portNum (portConfigInfo (info d' i)) = of_nat (i + 1) \<and> length (portInfoArr d') = 8"
proof (intro exI conjI)
  let ?d1 = "reboot_init i d" let ?d2 = "reboot_poe_down e2 i ?d1"
  have first: "events_port e1 i d = Some ?d1"
    using assms by (intro events_port_reboot) (auto simp: rebootHandler_def reboot_init_def)
  have second: "events_port e2 i ?d1 = Some ?d2"
    using assms
    by (intro events_port_reboot) (auto simp: rebootHandler_def reboot_init_def reboot_poe_down_def Let_def)
  show "daemon_run (events_at i [e1, e2]) d = Some ?d2" using first second by simp
  show "off_until i (15 + of_int (now e2)) ?d2"
    using assms by (auto simp: off_until_def reboot_init_def reboot_poe_down_def Let_def both_enabled_def)
  show "calls_of i ?d2 = calls_of i d @ [(of_nat (i + 1), False)]"
    "portNum (portConfigInfo (info ?d2 i)) = of_nat (i + 1)" "length (portInfoArr ?d2) = 8"
    using assms by (simp_all add: reboot_init_def reboot_poe_down_def Let_def calls_of_poe)
qed

text \<open>
  C17. A restart that nothing disturbs is a power cycle of at least 15 seconds. It has been begun, port
  and PoE are enabled, no alarm is set for the port, no restart by hand is asked for, and the timer of
  the restart is not told to stop; from then on only the events thread works on the port: no test and
  no command comes between. Then it switches the PoE of that port off, once; on every later pass less
  than 15 seconds after that it waits; two passes from the first one later than that it has switched
  the PoE on again, once, and the port is in regular service.
\<close>

theorem restart_power_cycle:
  assumes "daemon_reachable d" and "i < 8"
    and "ar_state (portResetInfo (info d i)) = REBOOT_STATE"
    and "rebootState (portRebootInfo (info d i)) = REBOOT_STATE_INIT"
    and "both_enabled (info d i)" and "alarm (portConfigInfo (info d i)) \<noteq> enable"
    and "\<not> has (event (portResetInfo (info d i))) MANUAL_RESTART"
    and "\<not> has (rebootEvent (portRebootInfo (info d i))) REBOOT_EVENT_TIMER_STOP"
    and "0 \<le> now e2" and "now e2 + 15 < 2 ^ 32" and "now_later e2 < now e2 + 15"
    and "\<forall>e \<in> set waits. now_later e < now e2 + 15" and "now e2 + 15 \<le> now_later e3"
  shows "\<exists>d1 d2. daemon_run (events_at i ([e1, e2] @ waits)) d = Some d1
    \<and> calls_of i d1 = calls_of i d @ [(of_nat (i + 1), False)]
    \<and> daemon_run (events_at i [e3, e4]) d1 = Some d2
    \<and> calls_of i d2 = calls_of i d @ [(of_nat (i + 1), False), (of_nat (i + 1), True)]
    \<and> ar_state (portResetInfo (info d2 i)) = REGULAR_STATE
    \<and> rebootState (portRebootInfo (info d2 i)) = REBOOT_STATE_IDLE
    \<and> \<not> has (errorCode (portResetInfo (info d2 i))) ERR_REBOOTING"
proof -
  let ?t = "15 + of_int (now e2) :: u32"
  have t: "uint ?t = now e2 + 15"
    using assms(9,10) by (simp add: uint_word_ariths unsigned_of_int take_bit_eq_mod)
  have ok: "daemon_ok d" by (rule daemon_reachable_ok) fact
  have len: "length (portInfoArr d) = 8" using ok by (simp add: daemon_ok_def)
  have delay: "rebootDelay (portRebootInfo (info d i)) = 15"
    using daemon_ok_entry [OF ok assms(2)] by (simp add: entry_ok_def)
  obtain d0 where d0: "daemon_run (events_at i [e1, e2]) d = Some d0" "off_until i ?t d0"
    "calls_of i d0 = calls_of i d @ [(of_nat (i + 1), False)]"
    "portNum (portConfigInfo (info d0 i)) = of_nat (i + 1)" "length (portInfoArr d0) = 8"
    using restart_begins [OF len assms(2-8) own_number_of_nat [OF ok assms(2)] delay, of e2 e1]
      assms(11) unfolding t by blast
  obtain d1 where d1: "daemon_run (events_at i waits) d0 = Some d1" "off_until i ?t d1"
    "calls_of i d1 = calls_of i d0" "length (portInfoArr d1) = 8"
    "portNum (portConfigInfo (info d1 i)) = portNum (portConfigInfo (info d0 i))"
    using off_until_waits_long [OF d0(5) assms(2) d0(2), of waits] assms(12) unfolding t by blast
  have e3: "uint ?t \<le> now_later e3" using assms(13) by (simp only: t)
  have num: "portNum (portConfigInfo (info d1 i)) = of_nat (i + 1)" by (simp only: d1(5) d0(4))
  have run: "daemon_run (events_at i ([e1, e2] @ waits)) d = Some d1"
    unfolding map_append daemon_run_append d0(1) bind.bind_lunit by (rule d1(1))
  from off_until_over [OF d1(4) assms(2) d1(2) e3 num, of e4] obtain d2 where
    "daemon_run (events_at i [e3, e4]) d1 = Some d2"
    "calls_of i d2 = calls_of i d1 @ [(of_nat (i + 1), True)]"
    "ar_state (portResetInfo (info d2 i)) = REGULAR_STATE"
    "rebootState (portRebootInfo (info d2 i)) = REBOOT_STATE_IDLE"
    "\<not> has (errorCode (portResetInfo (info d2 i))) ERR_REBOOTING" by blast
  then show ?thesis
    using run d1(3) d0(3) by (intro exI [of _ d1] exI [of _ d2] conjI) simp_all
qed

subsection \<open>A run of the daemon\<close>

lemma daemon_run_reachable:
  assumes "daemon_reachable d" and "\<forall>s \<in> set ss. step_port s < 8" and "daemon_run ss d = Some d'"
  shows "daemon_reachable d'"
  using daemon_run_invariant [where I = daemon_reachable, OF assms(3,1,2)] stepped by blast

definition plain_section :: section_data where
  "plain_section =
    \<lparr>sec_text = ''{'' @ [CHR 0x22] @ ''state'' @ [CHR 0x22] @ '':'' @ [CHR 0x22] @ ''ping'' @ [CHR 0x22]
       @ '','' @ [CHR 0x22] @ ''alarm'' @ [CHR 0x22] @ '':'' @ [CHR 0x22] @ ''disable'' @ [CHR 0x22] @ ''}'',
     sec_value = [''host'' \<mapsto> ''192.168.0.7'']\<rparr>"

definition plain_daemon :: "daemon option" where
  "plain_daemon = ar_mainInit 0 1000000 ''1'' 0 [] (\<lambda>_. plain_section)"

definition obs_down :: "string \<Rightarrow> test_obs" where
  "obs_down poe = \<lparr>obs_state = ''enable'', obs_poe = poe, obs_operstate = ''down'' @ [CHR 0x0A],
     obs_ping = ERR_TEST_PING, obs_reply = 0, obs_rx = [], obs_time = 1000000\<rparr>"

definition events_2 :: "int \<Rightarrow> daemon_step" where
  "events_2 t = Events_step (sample_env t) 2"

definition until_restart :: "daemon_step list" where
  "until_restart = [Test_step (obs_down ''enable'') 2, events_2 1000001, events_2 1000002]"

lemma plain_run:
  assumes "\<forall>s \<in> set ss. step_port s < 8"
    and "case Option.bind plain_daemon (daemon_run ss) of None \<Rightarrow> False | Some d \<Rightarrow> P d"
  shows "\<exists>d. daemon_reachable d \<and> P d \<and> Option.bind plain_daemon (daemon_run ss) = Some d"
proof -
  from assms(2) obtain d where d: "Option.bind plain_daemon (daemon_run ss) = Some d" "P d"
    by (auto split: option.split_asm)
  then obtain d0 where "plain_daemon = Some d0" "daemon_run ss d0 = Some d"
    by (auto simp: bind_eq_Some_conv)
  then have "daemon_reachable d"
    using assms(1) started daemon_run_reachable unfolding plain_daemon_def by blast
  with d show ?thesis by blast
qed

theorem restart_power_cycle_witness:
  "\<exists>d d1 d2. daemon_run (events_at 2 ([sample_env 1000003, sample_env 1000004] @ [sample_env 1000010])) d = Some d1
    \<and> calls_of 2 d1 = calls_of 2 d @ [(3, False)]
    \<and> daemon_run (events_at 2 [sample_env 1000020, sample_env 1000022]) d1 = Some d2
    \<and> calls_of 2 d2 = calls_of 2 d @ [(3, False), (3, True)]
    \<and> ar_state (portResetInfo (info d2 2)) = REGULAR_STATE"
proof -
  have run: "\<exists>d. daemon_reachable d \<and> (ar_state (portResetInfo (info d 2)) = REBOOT_STATE
      \<and> rebootState (portRebootInfo (info d 2)) = REBOOT_STATE_INIT
      \<and> both_enabled (info d 2) \<and> alarm (portConfigInfo (info d 2)) \<noteq> enable
      \<and> \<not> has (event (portResetInfo (info d 2))) MANUAL_RESTART
      \<and> \<not> has (rebootEvent (portRebootInfo (info d 2))) REBOOT_EVENT_TIMER_STOP)
      \<and> Option.bind plain_daemon (daemon_run until_restart) = Some d"
    by (rule plain_run) code_simp+
  then obtain d where d: "daemon_reachable d" "ar_state (portResetInfo (info d 2)) = REBOOT_STATE"
      "rebootState (portRebootInfo (info d 2)) = REBOOT_STATE_INIT"
      "both_enabled (info d 2)" "alarm (portConfigInfo (info d 2)) \<noteq> enable"
      "\<not> has (event (portResetInfo (info d 2))) MANUAL_RESTART"
      "\<not> has (rebootEvent (portRebootInfo (info d 2))) REBOOT_EVENT_TIMER_STOP"
    by blast
  have "(of_nat (2 + 1) :: u8) = 3" by simp
  with restart_power_cycle [OF d(1) _ d(2-7), of "sample_env 1000004" "[sample_env 1000010]"
      "sample_env 1000020" "sample_env 1000003" "sample_env 1000022"]
  show ?thesis by (simp only: sample_env_def event_env.simps) force
qed

theorem ports_are_independent_witness:
  "\<exists>d d'. daemon_next (Test_step (obs_down ''disable'') 2) d = Some d' \<and> info d' 3 = info d 3
    \<and> port_state (portStateInfo (info d' 2)) = enable"
proof -
  have "\<exists>d. daemon_reachable d \<and> (case daemon_next (Test_step (obs_down ''disable'') 2) d of None \<Rightarrow> False
      | Some d' \<Rightarrow> port_state (portStateInfo (info d' 2)) = enable)
      \<and> Option.bind plain_daemon (daemon_run []) = Some d"
    by (rule plain_run) code_simp+
  then obtain d d' where d: "daemon_reachable d"
    "daemon_next (Test_step (obs_down ''disable'') 2) d = Some d'"
    "port_state (portStateInfo (info d' 2)) = enable"
    by (auto split: option.split_asm simp del: daemon_next.simps)
  with ports_are_independent [OF d(1) _ d(2), of 3] show ?thesis by auto
qed

theorem interrupted_restart_stays_off_witness:
  "\<exists>d d'. daemon_run [Test_step (obs_down ''disable'') 2, Test_step (obs_down ''enable'') 2,
      events_2 1000100, events_2 1000200] d = Some d'
    \<and> calls_of 2 d = [(3, False)] \<and> calls_of 2 d' = [(3, False)]"
proof -
  let ?ss = "[Test_step (obs_down ''enable'') 2, events_2 1000100, events_2 1000200]"
  have "\<exists>d. daemon_reachable d \<and> (rebootState (portRebootInfo (info d 2)) = REBOOT_STATE_POE_DOWN
      \<and> alarm (portConfigInfo (info d 2)) \<noteq> enable
      \<and> \<not> has (event (portResetInfo (info d 2))) TEST_OK \<and> calls_of 2 d = [(3, False)]
      \<and> (case daemon_run (Test_step (obs_down ''disable'') 2 # ?ss) d of None \<Rightarrow> False | Some _ \<Rightarrow> True))
      \<and> Option.bind plain_daemon (daemon_run (until_restart @ [events_2 1000003, events_2 1000004])) = Some d"
    by (rule plain_run) code_simp+
  then obtain d d' where d: "daemon_reachable d"
    "rebootState (portRebootInfo (info d 2)) = REBOOT_STATE_POE_DOWN"
    "alarm (portConfigInfo (info d 2)) \<noteq> enable" "\<not> has (event (portResetInfo (info d 2))) TEST_OK"
    and c: "calls_of 2 d = [(3, False)]"
    and run: "daemon_run (Test_step (obs_down ''disable'') 2 # ?ss) d = Some d'"
    by (auto split: option.split_asm simp del: daemon_run.simps)
  have "obs_poe (obs_down ''disable'') \<noteq> ''enable''" "obs_operstate (obs_down p) \<noteq> ''up'' @ [CHR 0x0A]"
    "\<forall>s \<in> set ?ss. without_link 2 s" for p
    by (simp_all add: obs_down_def events_2_def)
  with interrupted_restart_stays_off [OF d(1) _ d(2-4) _ _ _ run] c run show ?thesis by auto
qed


end
