(* ===== verification/AR_Settings.thy ===== *)
theory AR_Settings
  imports AR_Reboot
begin

section \<open>The automatic PoE restart daemon: what settings and counters do\<close>

text \<open>
  Two behaviours at the edges: alarm times that are not valid, and octet counters beyond the range of
  \<^verbatim>\<open>long\<close>.
\<close>

subsection \<open>Alarm times that are not valid\<close>

lemma isValidTime_code: "fst (isValidTime s) \<noteq> 0 \<Longrightarrow> isValidTime s = (ERR_TIME_NOT_VALID, 0, 0)"
  by (auto simp: isValidTime_def split: option.splits list.splits prod.splits if_splits)

lemma setTime_invalid:
  assumes "\<exists>up. sec_value sec ''timeUp'' = Some up \<and> fst (isValidTime up) \<noteq> 0"
    and "setTime z t sec c = Some (e, c')"
  shows "c' = c" "\<not> has e ERR_NULL_OBJ"
proof -
  from assms(1) obtain up where up: "sec_value sec ''timeUp'' = Some up"
    "isValidTime up = (ERR_TIME_NOT_VALID, 0, 0)" using isValidTime_code by blast
  have code: "fst (isValidTime s) = 0 \<or> fst (isValidTime s) = ERR_TIME_NOT_VALID" for s
    using isValidTime_code [of s] by (cases "fst (isValidTime s) = 0") auto
  have bits: "setb ERR_TIME_NOT_VALID ERR_OK \<noteq> ERR_OK"
    "setb 0 (setb ERR_TIME_NOT_VALID ERR_OK) \<noteq> ERR_OK"
    "setb ERR_TIME_NOT_VALID (setb ERR_TIME_NOT_VALID ERR_OK) \<noteq> ERR_OK"
    "\<not> has (setb ERR_TIME_NOT_VALID ERR_OK) ERR_NULL_OBJ"
    "\<not> has (setb 0 (setb ERR_TIME_NOT_VALID ERR_OK)) ERR_NULL_OBJ"
    "\<not> has (setb ERR_TIME_NOT_VALID (setb ERR_TIME_NOT_VALID ERR_OK)) ERR_NULL_OBJ"
    by (simp_all add: setb_def has_def)
  have "c' = c \<and> \<not> has e ERR_NULL_OBJ"
  proof (cases "sec_value sec ''timeDown''")
    case None
    then show ?thesis using up bits(4) assms(2)
      by (auto simp: setTime_def copy_value_def simp del: has_setb split: if_split_asm)
  next
    case (Some down)
    obtain e2 h m where "isValidTime down = (e2, h, m)" by (cases "isValidTime down")
    then show ?thesis using up Some bits code [of down] assms(2)
      by (auto simp: setTime_def copy_value_def port_setTimeParam_def Let_def
          simp del: has_setb split: if_split_asm)
  qed
  then show "c' = c" "\<not> has e ERR_NULL_OBJ" by blast+
qed

definition armed :: "portInfo_t \<Rightarrow> bool" where
  "armed x \<longleftrightarrow> alarm (portConfigInfo x) = enable
     \<and> targetTime (alarm_up (portConfigInfo x)) = 0 \<and> targetTime (alarm_down (portConfigInfo x)) = 0
     \<and> ar_state (portResetInfo x) = REGULAR_STATE \<and> \<not> test_failed (errorCode (portResetInfo x))"

lemma setSpeed_not_failed: "\<not> test_failed (fst (setSpeed e sec c))"
  by (simp add: setSpeed_def test_failed_def has_def read_speed_def port_setSpeedParam_def Let_def
      split: option.split)

lemma setTestConfig_alarm:
  "alarm (snd (setTestConfig t e sec c)) = alarm c"
  "alarm_up (snd (setTestConfig t e sec c)) = alarm_up c"
  "alarm_down (snd (setTestConfig t e sec c)) = alarm_down c"
  "\<not> test_failed (fst (setTestConfig t e sec c))"
  using setSpeed_not_failed [of e sec c]
  by (simp_all add: setTestConfig_def setHost_def port_setHostParam_def setSpeed_def test_failed_def
      checkValidIp_def has_def read_speed_def port_setSpeedParam_def Let_def
      split: TYPE_OF_TEST_t.split option.split)

lemma set_test_armed: "armed x \<Longrightarrow> armed (set_test t e sec x)"
  using setTestConfig_alarm [of t e sec "(portConfigInfo x)\<lparr>test := t\<rparr>"]
  by (auto simp: set_test_def armed_def test_failed_def fail_def split: prod.split)

lemma set_times_armed:
  assumes "\<exists>up. sec_value sec ''timeUp'' = Some up \<and> fst (isValidTime up) \<noteq> 0" and "armed x"
    and "set_times z t sec x = Some y"
  shows "armed y"
  using setTime_invalid [OF assms(1), of z t "portConfigInfo x"] assms(2,3)
  by (auto simp: set_times_def armed_def)

lemma set_errorHandler_armed:
  "armed (info d i) \<Longrightarrow> i < length (portInfoArr d) \<Longrightarrow> armed (info (set_errorHandler i d) i)"
  by (simp add: set_errorHandler_def armed_def Let_def)

lemma getPortParam_armed:
  assumes "getPortParam z t e sec i False d = Some d'" and "i < length (portInfoArr d)"
    and "getValueFromJson (sec_text sec) ''alarm'' [] = Some ''enable''"
    and "\<exists>up. sec_value sec ''timeUp'' = Some up \<and> fst (isValidTime up) \<noteq> 0"
    and "targetTime (alarm_up (portConfigInfo (info d i))) = 0"
    and "targetTime (alarm_down (portConfigInfo (info d i))) = 0"
  shows "armed (info d' i)"
proof -
  let ?c = "\<lambda>c. setConfigZeroValue t False
     (c\<lparr>portNum := of_nat (i + 1), test := test_disable, alarm := enable\<rparr>)"
  from assms(1,3) obtain s y where d': "d' = set_errorHandler i (upd_info i (\<lambda>_. y) d)"
    and y: "set_times z t sec (set_test s e sec
      (upd_reset (setResetZeroValue False) (upd_config ?c (info d i)))) = Some y"
    by (auto simp: getPortParam_def bind_eq_Some_conv getAlarmSate_def)
  have "armed (upd_reset (setResetZeroValue False) (upd_config ?c (info d i)))"
    using assms(5,6) by (simp add: armed_def setResetZeroValue_def setConfigZeroValue_def test_failed_def has_def)
  then have "armed y"
    by (intro set_times_armed [OF assms(4) _ y] set_test_armed)
  then show ?thesis
    unfolding d' using assms(2) by (intro set_errorHandler_armed) (simp_all only: info_upd_info if_True simp_thms upd_info_fields)
qed

lemma getPortsParam_entry:
  assumes "getPortsParam z t e secs is d = Some d'" and "distinct is" and "i \<in> set is"
    and "\<forall>j \<in> set is. j < length (portInfoArr d)"
  shows "\<exists>d0 d1. getPortParam z t e (secs i) i False d0 = Some d1 \<and> info d0 i = info d i
    \<and> length (portInfoArr d0) = length (portInfoArr d) \<and> info d' i = info d1 i"
  using assms
proof (induction "is" arbitrary: d)
  case (Cons j "is")
  from Cons.prems(1) obtain d1 where first: "getPortParam z t e (secs j) j False d = Some d1"
    and rest: "getPortsParam z t e secs is d1 = Some d'" by (auto simp: bind_eq_Some_conv)
  have d1: "only_ports {j} d d1" using getPortParam_sets(1) [OF first] Cons.prems(4) by simp
  then have len: "length (portInfoArr d1) = length (portInfoArr d)" by (simp add: only_ports_def)
  show ?case
  proof (cases "i = j")
    case True
    have "only_ports (set is) d1 d'"
      using getPortsParam_sets [OF rest] Cons.prems(4) len by simp
    then have "info d' i = info d1 i" using True Cons.prems(2) by (simp add: only_ports_def)
    then show ?thesis using first True by blast
  next
    case False
    then have "info d1 i = info d i" using d1 by (simp add: only_ports_def)
    then show ?thesis using Cons.IH [OF rest] Cons.prems False len by simp
  qed
qed simp

lemma count_ok_keeps:
  "ar_state (count_ok r) = ar_state r" "test_failed (errorCode (count_ok r)) = test_failed (errorCode r)"
  by (simp_all add: count_ok_def test_failed_def Let_def)

lemma armed_switches:
  assumes "length (portInfoArr d) = 8" and "i < 8" and "armed (info d i)" and "0 \<le> now env"
    and "portNum (portConfigInfo (info d i)) = of_nat (i + 1)"
  shows "\<exists>d'. events_port env i d = Some d'
    \<and> calls_of i d' = calls_of i d @ [(of_nat (i + 1), False), (of_nat (i + 1), True)]"
proof -
  let ?d1 = "test_ErrorHandler i d"
  have d1: "armed (info ?d1 i)" "calls_of i ?d1 = calls_of i d" "length (portInfoArr ?d1) = 8"
    "portNum (portConfigInfo (info ?d1 i)) = of_nat (i + 1)"
    using assms by (simp_all add: test_ErrorHandler_def armed_def Let_def count_ok_keeps)
  define d2 where "d2 = port_runTestTime (tz env) (now env) (of_nat (i + 1)) ?d1"
  note test = info_with_port [OF port_number [OF assms(2)] assms(2) d1(3)]
  have d2: "ta_status (alarm_up (portConfigInfo (info d2 i))) = enable"
    "ta_status (alarm_down (portConfigInfo (info d2 i))) = enable"
    "ar_state (portResetInfo (info d2 i)) = REGULAR_STATE"
    "portNum (portConfigInfo (info d2 i)) = of_nat (i + 1)" "length (portInfoArr d2) = 8"
    unfolding d2_def port_runTestTime_def test
    using d1 assms(4) by (simp_all add: armed_def port_timeAlarm_def Let_def)
  have "calls_of i d2 = calls_of i d"
    using d1(2) by (simp add: d2_def port_runTestTime_def with_port_def)
  then have "calls_of i (alarm_on i (alarm_off env i d2))
      = calls_of i d @ [(of_nat (i + 1), False), (of_nat (i + 1), True)]"
    using d2 assms(2) by (simp add: alarm_on_def alarm_off_def calls_of_poe)
  moreover have "events_port env i d = Some (alarm_on i (alarm_off env i d2))"
    using assms(3) d1(1,4) d2(3) unfolding events_port_def alarmHandler_def
    by (simp add: armed_def d2_def Let_def)
  ultimately show ?thesis by blast
qed

lemma ar_mainInit_armed:
  assumes start: "ar_mainInit offset start junk err res secs = Some d" and i: "i < 8"
    and alarm: "getValueFromJson (sec_text (secs i)) ''alarm'' [] = Some ''enable''"
    and up: "\<exists>up. sec_value (secs i) ''timeUp'' = Some up \<and> fst (isValidTime up) \<noteq> 0"
  shows "armed (info d i)"
proof -
  let ?zero = "\<lambda>opts. \<lparr>portInfoArr = replicate 8 zero_portInfo, options = opts, poe_calls = []\<rparr>"
  from start obtain opts d1 where
    settings: "getPortsParam offset start err secs [0..<8] (?zero opts) = Some d1"
    and d: "d = rebootParamInit d1"
    by (auto simp: ar_mainInit_def bind_eq_Some_conv)
  have all: "\<forall>i \<in> set [0..<8]. i < length (portInfoArr (?zero opts))" by simp
  have len: "length (portInfoArr d1) = 8"
    using getPortsParam_sets [OF settings all] by (simp add: only_ports_def)
  obtain e0 e1 where e: "getPortParam offset start err (secs i) i False e0 = Some e1"
    "info e0 i = zero_portInfo" "length (portInfoArr e0) = 8" "info d1 i = info e1 i"
    using getPortsParam_entry [OF settings _ _ all, of i] i by auto
  have "armed (info e1 i)"
    using getPortParam_armed [OF e(1) _ alarm up] e(2,3) i
    by (simp add: zero_portInfo_def zero_time_h_m_def)
  then show ?thesis
    unfolding d rebootParamInit_info [OF len i] e(4) by (simp add: armed_def)
qed

text \<open>
  A port with an alarm whose switch-on time is not valid is power cycled at once: the error is
  noticed when the settings are read, and dropped. The alarm stays enabled with both times at 0,
  long past, so the first pass of the events thread after the start switches the PoE of the port
  off and on again, without a pause.
\<close>

theorem invalid_alarm_switches_at_start:
  assumes "ar_mainInit offset start junk err res secs = Some d" and "i < 8"
    and "getValueFromJson (sec_text (secs i)) ''alarm'' [] = Some ''enable''"
    and "sec_value (secs i) ''timeUp'' = Some up" and "fst (isValidTime up) \<noteq> 0" and "0 \<le> now env"
  shows "\<exists>d'. events_port env i d = Some d'
    \<and> calls_of i d' = calls_of i d @ [(of_nat (i + 1), False), (of_nat (i + 1), True)]"
proof -
  have ok: "daemon_ok d" by (rule ar_mainInit_ok) fact
  then show ?thesis
    using ar_mainInit_armed [OF assms(1-3)] assms(4,5)
    by (intro armed_switches [OF _ assms(2) _ assms(6) own_number_of_nat [OF ok assms(2)]])
      (auto simp: daemon_ok_def)
qed

subsection \<open>Counters beyond the range of long\<close>

text \<open>
  The speed test cannot see traffic once a port has received 2 GiB: the counter file shows a
  64-bit number, \<^verbatim>\<open>strtol\<close> yields the largest 32-bit \<^verbatim>\<open>long\<close> for every such number, and two
  readings differ by 0, whatever was received in between. Every further test of the port fails.
\<close>

theorem speed_test_saturates:
  assumes "unat n = i + 1" and "i < 8" and "length (portInfoArr d) = 8"
    and "\<not> has (errorCode (portResetInfo (info d i))) ERR_TEST_LINK"
    and "0 < min_speed (portConfigInfo (info d i))"
    and "scan_d first = Some (a, r)" and "2 ^ 31 \<le> a" and "scan_d second = Some (b, s)" and "2 ^ 31 \<le> b"
  shows "has (errorCode (portResetInfo (info
    (port_runTestSpeed n second t2 (port_runTestSpeed n first t1 d)) i))) ERR_TEST_SPEED"
proof -
  let ?d1 = "port_runTestSpeed n first t1 d"
  have sat: "strtol first = LONG_MAX" "strtol second = LONG_MAX"
    using assms(6-9) by (simp_all add: strtol_def LONG_MAX_def)
  note first = info_with_port [OF assms(1-3)]
  have d1: "length (portInfoArr ?d1) = 8" unfolding port_runTestSpeed_def by (rule first(2))
  have x1: "\<not> has (errorCode (portResetInfo (info ?d1 i))) ERR_TEST_LINK"
    "min_speed (portConfigInfo (info ?d1 i)) = min_speed (portConfigInfo (info d i))"
    "rx_byte_prev (portConfigInfo (info ?d1 i)) = of_int LONG_MAX"
    unfolding port_runTestSpeed_def first
    using assms(4) sat by (simp_all add: Let_def fail_def note_ok_def read_counter_def)
  show ?thesis
    unfolding port_runTestSpeed_def [of n second] info_with_port [OF assms(1,2) d1]
    using x1 assms(5) sat by (simp add: Let_def fail_def read_counter_def)
qed

lemma scan_4294967296: "scan_d (''4294967296'' @ [CHR 0x0A]) = Some (4294967296, [CHR 0x0A])"
  "scan_d (''9294967296'' @ [CHR 0x0A]) = Some (9294967296, [CHR 0x0A])"
  by code_simp+

theorem speed_test_saturates_witness:
  "\<exists>d. has (errorCode (portResetInfo (info (port_runTestSpeed 3 (''9294967296'' @ [CHR 0x0A]) 1000010
      (port_runTestSpeed 3 (''4294967296'' @ [CHR 0x0A]) 1000000 d)) 2))) ERR_TEST_SPEED
    \<and> \<not> has (errorCode (portResetInfo (info d 2))) ERR_TEST_SPEED"
proof -
  let ?x = "upd_config (min_speed_update (\<lambda>_. 10)) zero_portInfo"
  let ?d = "\<lparr>portInfoArr = replicate 8 ?x, options = \<lparr>TEST_DELAY = 3, TEST_NUM = 10, MAX_RESET = 3\<rparr>, poe_calls = []\<rparr>"
  have "info ?d 2 = ?x" "length (portInfoArr ?d) = 8" by simp_all
  then show ?thesis
    using speed_test_saturates [of 3 2 ?d, OF _ _ _ _ _ scan_4294967296(1) _ scan_4294967296(2)]
    by (intro exI [of _ ?d]) (simp add: zero_portInfo_def)
qed

definition late_section :: section_data where
  "late_section = sample_section
    \<lparr>sec_value := [''host'' \<mapsto> ''192.168.0.7'', ''timeUp'' \<mapsto> ''9:70'', ''timeDown'' \<mapsto> ''9:45'']\<rparr>"

theorem invalid_alarm_switches_at_start_witness:
  "\<exists>d d'. ar_mainInit 0 1000000 [] 0 [] (\<lambda>_. late_section) = Some d
    \<and> events_port (sample_env 1000003) 2 d = Some d'
    \<and> calls_of 2 d' = calls_of 2 d @ [(3, False), (3, True)]"
proof -
  have "ar_mainInit 0 1000000 [] 0 [] (\<lambda>_. late_section) \<noteq> None" by code_simp
  then obtain d where d: "ar_mainInit 0 1000000 [] 0 [] (\<lambda>_. late_section) = Some d" by blast
  have "getValueFromJson (sec_text late_section) ''alarm'' [] = Some ''enable''"
    "sec_value late_section ''timeUp'' = Some ''9:70''" "fst (isValidTime ''9:70'') \<noteq> 0"
    by code_simp+
  with invalid_alarm_switches_at_start [OF d, of 2 "''9:70''" "sample_env 1000003"] d
  show ?thesis by (auto simp: sample_env_def)
qed

end
