(* ===== verification/PSE_Protocol.thy ===== *)
theory PSE_Protocol
  imports AR_Text
begin

section \<open>The PoE controller daemon: the protocol with the microcontroller\<close>

text \<open>
  \<^verbatim>\<open>realtek-poe-tfortis/src/main.c\<close>: the queue of commands, the frames of 12 octets sent
  over the serial line, and what the daemon does with the replies.
\<close>

subsection \<open>Data\<close>

abbreviation (input) MAX_PORT :: nat where "MAX_PORT \<equiv> 24"
abbreviation (input) MAX_RETRIES :: nat where "MAX_RETRIES \<equiv> 5"

text \<open>
  Measurements are floating-point multiples of 16-bit readings; the readings are kept here. The
  text of a code is \<^term>\<open>None\<close> (a null pointer) if the table ends before it.
\<close>

record port_state =
  status_str :: "string option"
  status :: u8
  status_old :: u8
  watt :: u16
  voltage :: u16
  current :: u16
  temperature :: u16
  poe_mode :: "string option"

record state =
  sys_mode :: "string option"
  sys_version :: u8
  sys_mcu :: "string option"
  sys_status :: "string option"
  sys_ext_version :: u8
  power_consumption :: u16
  num_detected_ports :: u8
  ports :: "port_state list"

text \<open>
  A queued command. \<open>cmd_ptr\<close> is its address: commands are allocated one after the other, and the
  model numbers them.
\<close>

record cmd =
  cmd_ptr :: nat
  cmd_bytes :: "u8 list"
  num_retries :: nat

text \<open>
  The daemon's variables, the octets received and not yet consumed, the frames written to the line
  so far with the command each was sent for, and whether \<^verbatim>\<open>mcu_error_timeout\<close> is pending.
\<close>

record pse =
  cmd_pending :: "cmd list"
  cmd_seq :: u8
  allocs :: nat
  tx :: "(nat \<times> u8 list) list"
  mcu_error_timeout :: bool
  rx :: "u8 list"
  st :: state

definition GET_STR :: "nat \<Rightarrow> string list \<Rightarrow> string option" where
  "GET_STR a b = (if a < length b then Some (b ! a) else None)"

definition read16_be :: "u8 list \<Rightarrow> nat \<Rightarrow> u16" where
  "read16_be raw i = push_bit 8 (ucast (raw ! i)) OR ucast (raw ! (i + 1))"

definition write16_be :: "u16 \<Rightarrow> u8 list" where
  "write16_be v = [ucast (drop_bit 8 v), ucast (v AND 0xff)]"

lemma read_write16 [simp]: "read16_be (write16_be v) 0 = v"
proof -
  have "v AND 0xff = take_bit 8 v" by (simp add: take_bit_eq_mask mask_eq_exp_minus_1)
  then show ?thesis
    by (simp add: read16_be_def write16_be_def) (rule bit_word_eqI; auto simp: bit_simps)
qed

subsection \<open>Command identifiers\<close>

text \<open>
  The map between the two vendors' identifiers: all its entries are commented out, so it is zero.
  \<open>close_map\<close> goes through it in place.
\<close>

definition bcm_to_rtl_map :: "u8 list" where
  "bcm_to_rtl_map = replicate 256 0"

definition close_map :: "u8 list \<Rightarrow> u8 list" where
  "close_map m = fold (\<lambda>i m. if m ! i \<noteq> 0 then m[unat (m ! i) := of_nat i] else m) [0..<256] m"

definition bcm_to_rtl_cmd_id :: "u8 \<Rightarrow> u8" where
  "bcm_to_rtl_cmd_id c =
    (let b = close_map bcm_to_rtl_map ! unat c in if b \<noteq> 0 then b else c)"

definition rtl_to_bcm_cmd_id :: "u8 \<Rightarrow> u8" where
  "rtl_to_bcm_cmd_id = bcm_to_rtl_cmd_id"

lemma close_map_zero: "close_map (replicate 256 0) = replicate 256 0"
proof -
  have "fold (\<lambda>i m. if m ! i \<noteq> 0 then m[unat (m ! i) := of_nat i] else m) js (replicate 256 0)
      = replicate 256 (0 :: u8)" if "\<forall>j \<in> set js. j < 256" for js
    using that by (induction js) (simp_all add: nth_replicate)
  then show ?thesis by (simp add: close_map_def)
qed

lemma cmd_id [simp, code]: "bcm_to_rtl_cmd_id c = c"
proof -
  have "unat c < 256" using unsigned_less [of c, where ?'a = nat] by simp
  then show ?thesis by (simp add: bcm_to_rtl_cmd_id_def bcm_to_rtl_map_def close_map_zero)
qed

lemma rtl_cmd_id [simp, code]: "rtl_to_bcm_cmd_id c = c"
  by (simp add: rtl_to_bcm_cmd_id_def)

subsection \<open>The queue\<close>

definition EBUSY :: int where "EBUSY = 16"

definition poe_cmd_send :: "cmd \<Rightarrow> pse \<Rightarrow> int \<times> pse" where
  "poe_cmd_send c p =
    (if mcu_error_timeout p then (- EBUSY, p)
     else (0, p\<lparr>tx := tx p @ [(cmd_ptr c, cmd_bytes c)]\<rparr>))"

definition poe_cmd_next :: "pse \<Rightarrow> int \<times> pse" where
  "poe_cmd_next p = (case cmd_pending p of [] \<Rightarrow> (- 1, p) | c # _ \<Rightarrow> poe_cmd_send c p)"

definition frame_of :: "u8 list \<Rightarrow> u8 \<Rightarrow> u8 list" where
  "frame_of bytes seq =
    (let f = take 12 (bytes @ replicate 12 0xff);
         g = f[0 := bcm_to_rtl_cmd_id (f ! 0), 1 := seq]
     in g[11 := sum_list (take 11 g)])"

definition poe_cmd_queue :: "u8 list \<Rightarrow> pse \<Rightarrow> int \<times> pse" where
  "poe_cmd_queue bytes p =
    (let seq = cmd_seq p + 1;
         c = \<lparr>cmd_ptr = allocs p, cmd_bytes = frame_of bytes seq, num_retries = 0\<rparr>;
         p1 = p\<lparr>cmd_seq := seq, allocs := allocs p + 1, cmd_pending := cmd_pending p @ [c]\<rparr>
     in if cmd_pending p = [] then poe_cmd_send c p1 else (0, p1))"

subsection \<open>Replies\<close>

definition mode_names :: "string list" where
  "mode_names = [''Semi-auto I2C'', ''Semi-auto UART'', ''Auto I2C'', ''Auto UART'']"

definition mcu_names :: "string list" where
  "mcu_names = [''GigaDevice GD32F310'', ''GigaDevice GD32E230'', ''GigaDevice GD32F303'',
     ''GigaDevice GD32E103'']"

definition sys_status_names :: "string list" where
  "sys_status_names =
    [a @ b @ c. a \<leftarrow> [''Global Disable pin is de-asserted:'', ''Global Disable Pin is asserted:''],
       b \<leftarrow> [''No system reset from the previous query cmd:'', ''System reseted:''],
       c \<leftarrow> [''Configuration saved'', ''Configuration Dirty'']]"

definition poe_mode_names :: "string list" where
  "poe_mode_names = [''PoE'', ''Legacy'', ''pre-PoE+'', ''PoE+'']"

definition status_names :: "string list" where
  "status_names = [''Disabled'', ''Searching'', ''Delivering power'', ''rsvd'', ''Fault'',
     ''Other fault'', ''Requesting power'']"

definition poe_reply_status :: "u8 list \<Rightarrow> state \<Rightarrow> int \<times> state" where
  "poe_reply_status r s =
    (0, s\<lparr>sys_mode := GET_STR (unat (r ! 2)) mode_names, num_detected_ports := r ! 3,
          sys_version := r ! 7, sys_mcu := GET_STR (unat (r ! 8)) mcu_names,
          sys_status := GET_STR (unat (r ! 9)) sys_status_names, sys_ext_version := r ! 10\<rparr>)"

definition poe_reply_power_stats :: "u8 list \<Rightarrow> state \<Rightarrow> int \<times> state" where
  "poe_reply_power_stats r s = (0, s\<lparr>power_consumption := read16_be r 7\<rparr>)"

definition upd_port :: "nat \<Rightarrow> (port_state \<Rightarrow> port_state) \<Rightarrow> state \<Rightarrow> state" where
  "upd_port i f s = s\<lparr>ports := upd_nth i f (ports s)\<rparr>"

text \<open>\<^term>\<open>None\<close>: the reply names a port outside the array, which is not checked.\<close>

definition poe_reply_port_ext_config :: "u8 list \<Rightarrow> state \<Rightarrow> (int \<times> state) option" where
  "poe_reply_port_ext_config r s =
    (if unat (r ! 2) < MAX_PORT
     then Some (0, upd_port (unat (r ! 2)) (\<lambda>q. q\<lparr>poe_mode := GET_STR (unat (r ! 3)) poe_mode_names\<rparr>) s)
     else None)"

fun group_status :: "nat list \<Rightarrow> u8 list \<Rightarrow> state \<Rightarrow> int \<times> state" where
  "group_status [] r s = (0, s)"
| "group_status (i # is) r s =
    (let port = unat (r ! 2) * 4 + i; pstate = r ! (3 + i * 2) AND 0xf in
     if port = 0xff then group_status is r s
     else if port \<ge> MAX_PORT then (- 1, s)
     else group_status is r
            (upd_port port (\<lambda>q. q\<lparr>status_str := GET_STR (unat pstate) status_names, status := pstate\<rparr>) s))"

definition poe_reply_4_port_status :: "u8 list \<Rightarrow> state \<Rightarrow> int \<times> state" where
  "poe_reply_4_port_status = group_status [0..<4]"

definition poe_reply_port_power_stats :: "u8 list \<Rightarrow> state \<Rightarrow> (int \<times> state) option" where
  "poe_reply_port_power_stats r s =
    (if unat (r ! 2) < MAX_PORT
     then Some (0, upd_port (unat (r ! 2)) (\<lambda>q. q\<lparr>voltage := read16_be r 3, current := read16_be r 5,
                      temperature := read16_be r 7, watt := read16_be r 9\<rparr>) s)
     else None)"

text \<open>
  \<^verbatim>\<open>reply_handler\<close>, a table of \<^verbatim>\<open>0x4a\<close> entries; the check before it lets \<^verbatim>\<open>0x4a\<close> pass,
  which is past its end.
\<close>

definition reply_handler :: "u8 \<Rightarrow> u8 list \<Rightarrow> state \<Rightarrow> (int \<times> state) option" where
  "reply_handler i r s =
    (if i = 0x40 then Some (poe_reply_status r s)
     else if i = 0x41 then Some (poe_reply_power_stats r s)
     else if i = 0x43 then Some (poe_reply_4_port_status r s)
     else if i = 0x44 then poe_reply_port_power_stats r s
     else if i = 0x49 then poe_reply_port_ext_config r s
     else if unat i < 0x4a then Some (0, s)
     else None)"

definition handle_poe_f0_reply :: "cmd \<Rightarrow> pse \<Rightarrow> pse" where
  "handle_poe_f0_reply c p =
    (if \<not> mcu_error_timeout p then
       (let c1 = c\<lparr>num_retries := num_retries c + 1\<rparr> in
        if num_retries c1 > MAX_RETRIES then p
        else p\<lparr>mcu_error_timeout := True, cmd_pending := c1 # cmd_pending p\<rparr>)
     else p\<lparr>cmd_pending := c # cmd_pending p\<rparr>)"

definition poe_reply_consume :: "u8 list \<Rightarrow> pse \<Rightarrow> (int \<times> pse) option" where
  "poe_reply_consume reply p =
    (case cmd_pending p of
       [] \<Rightarrow> Some (- 1, p)
     | c # cs \<Rightarrow>
         (let p1 = p\<lparr>cmd_pending := cs\<rparr>;
              cmd_id = rtl_to_bcm_cmd_id (cmd_bytes c ! 0);
              r0 = rtl_to_bcm_cmd_id (reply ! 0)
          in if reply ! 11 \<noteq> sum_list (take 11 reply) then Some (- 1, p1)
             else if reply ! 0 AND 0xf0 = 0xf0 then Some (- 1, handle_poe_f0_reply c p1)
             else if r0 \<noteq> cmd_id \<or> unat r0 > 0x4a then Some (- 1, p1)
             else if reply ! 1 \<noteq> cmd_bytes c ! 1 then Some (- 1, p1)
             else map_option (\<lambda>(res, s). (res, p1\<lparr>st := s\<rparr>))
                    (reply_handler r0 (reply[0 := r0]) (st p1))))"

text \<open>\<open>bytes\<close> have just arrived.\<close>

definition poe_stream_msg_cb :: "u8 list \<Rightarrow> pse \<Rightarrow> pse option" where
  "poe_stream_msg_cb bytes p0 =
    (let p = p0\<lparr>rx := rx p0 @ bytes\<rparr> in
     if length (rx p) < 12 then Some p
     else map_option (\<lambda>(_, p1). snd (poe_cmd_next (p1\<lparr>rx := drop 12 (rx p1)\<rparr>)))
            (poe_reply_consume (take 12 (rx p)) p))"

text \<open>The timer has run out: it is no longer pending when its callback is called.\<close>

definition mcu_clear_timeout :: "pse \<Rightarrow> pse" where
  "mcu_clear_timeout p = snd (poe_cmd_next (p\<lparr>mcu_error_timeout := False\<rparr>))"

end
