(* ===== verification/PSE_Setup.thy ===== *)
theory PSE_Setup
  imports PSE_Protocol
begin

section \<open>The PoE controller daemon: commands, configuration and requests\<close>

text \<open>
  The commands the daemon queues, the configuration they are made from, the poll of the controller
  every two seconds, and the requests that come over ubus.
\<close>

subsection \<open>Numbers in texts\<close>

definition digit_value :: "char \<Rightarrow> nat option" where
  "digit_value c =
    (let n = of_char c :: nat in
     if 48 \<le> n \<and> n \<le> 57 then Some (n - 48)
     else if 97 \<le> n \<and> n \<le> 122 then Some (n - 87)
     else if 65 \<le> n \<and> n \<le> 90 then Some (n - 55) else None)"

definition is_digit_of :: "nat \<Rightarrow> char \<Rightarrow> bool" where
  "is_digit_of base c = (case digit_value c of Some v \<Rightarrow> v < base | None \<Rightarrow> False)"

definition value_of :: "nat \<Rightarrow> string \<Rightarrow> int" where
  "value_of base ds = foldl (\<lambda>n c. int base * n + int (the (digit_value c))) 0 ds"

definition ULONG_MAX :: int where "ULONG_MAX = 2 ^ 32 - 1"

definition hex_prefix :: "string \<Rightarrow> bool" where
  "hex_prefix s = (case s of a # x # d # _ \<Rightarrow> a = CHR ''0'' \<and> x \<in> {CHR ''x'', CHR ''X''} \<and> is_digit_of 16 d
                   | _ \<Rightarrow> False)"

text \<open>
  \<^verbatim>\<open>strtoul\<close> for base 0, 10 and 16 and a 32-bit \<^verbatim>\<open>long\<close>: the value, the rest of the text
  (all of it if there is no number), and whether \<^verbatim>\<open>errno\<close> is set.
\<close>

definition strtoul :: "nat \<Rightarrow> string \<Rightarrow> int \<times> string \<times> bool" where
  "strtoul base0 s =
    (let s1 = dropWhile is_space s;
         neg = (s1 \<noteq> [] \<and> hd s1 = CHR ''-'');
         s2 = (if s1 \<noteq> [] \<and> hd s1 \<in> {CHR ''-'', CHR ''+''} then tl s1 else s1);
         hex = (base0 \<in> {0, 16} \<and> hex_prefix s2);
         base = (if base0 \<noteq> 0 then base0 else if hex then 16
                 else if s2 \<noteq> [] \<and> hd s2 = CHR ''0'' then 8 else 10);
         s3 = (if hex then drop 2 s2 else s2);
         ds = takeWhile (is_digit_of base) s3;
         v = value_of base ds
     in if ds = [] then (0, s, False)
        else if v > ULONG_MAX then (ULONG_MAX, dropWhile (is_digit_of base) s3, True)
        else (if neg then (2 ^ 32 - v) mod 2 ^ 32 else v, dropWhile (is_digit_of base) s3, False))"

subsection \<open>Configuration\<close>

text \<open>
  \<^verbatim>\<open>budget\<close> and \<^verbatim>\<open>budget_guard\<close> are floats; kept here is what is sent, ten times their value
  as a 16-bit number.
\<close>

record port_config =
  pc_name :: string
  pc_valid :: bool
  pc_enable :: bool
  pc_priority :: u8
  pc_power_up_mode :: u8
  pc_power_budget :: u8

record config =
  budget10 :: u16
  guard10 :: u16
  port_count :: nat
  pse_id_set_budget_mask :: u8
  cports :: "port_config list"

record uci_section =
  uci_type :: string
  uci_option :: "string \<Rightarrow> string option"

definition zero_port_config :: port_config where
  "zero_port_config = \<lparr>pc_name = [], pc_valid = False, pc_enable = False, pc_priority = 0,
     pc_power_up_mode = 0, pc_power_budget = 0\<rparr>"

definition load_port_config :: "uci_section \<Rightarrow> config \<Rightarrow> config" where
  "load_port_config s c =
    (case (uci_option s ''id'', uci_option s ''name'') of
       (Some id_str, Some name) \<Rightarrow>
         (let ident = nat (fst (strtoul 0 id_str)) in
          if fst (strtoul 0 id_str) = 0 \<or> fst (strtoul 0 id_str) > 24 then c
          else
            (let prio = (case uci_option s ''priority'' of Some v \<Rightarrow> of_int (fst (strtoul 0 v)) | None \<Rightarrow> 0)
             in c\<lparr>port_count := max (port_count c) ident,
                  cports := upd_nth (ident - 1) (\<lambda>p.
                    p\<lparr>pc_name := take 16 name, pc_valid := True, pc_enable := True,
                      pc_priority := (if prio > 3 then 3 else prio),
                      pc_power_up_mode := (if uci_option s ''poe_plus'' = Some ''1'' then 3
                                           else pc_power_up_mode p)\<rparr>) (cports c)\<rparr>))
     | _ \<Rightarrow> c)"

text \<open>\<^term>\<open>None\<close>: a write past the array of ports, whose bound is not checked.\<close>

definition load_port_state_config :: "uci_section \<Rightarrow> nat \<Rightarrow> config \<Rightarrow> config option" where
  "load_port_state_config s port c =
    (if port < MAX_PORT
     then Some (c\<lparr>cports := upd_nth port (\<lambda>p. p\<lparr>pc_enable := uci_option s ''poe'' = Some ''enable''\<rparr>) (cports c)\<rparr>)
     else None)"

fun load_lans :: "uci_section list \<Rightarrow> nat \<Rightarrow> config \<Rightarrow> config option" where
  "load_lans [] port c = Some c"
| "load_lans (s # ss) port c =
    (if uci_type s = ''lan''
     then Option.bind (load_port_state_config s port c) (load_lans ss (port + 1))
     else load_lans ss port c)"

text \<open>
  \<open>config_load\<close> as a reload calls it, with the sections of the packages \<^verbatim>\<open>poe\<close> and
  \<^verbatim>\<open>port\<close>, none if one cannot be loaded. At start it also reads the budget.
\<close>

definition config_load :: "uci_section list \<Rightarrow> uci_section list \<Rightarrow> config \<Rightarrow> config option" where
  "config_load poe_sections port_sections c =
    load_lans port_sections 0
      (fold (\<lambda>s c. if uci_type s = ''port'' then load_port_config s c else c) poe_sections
        (c\<lparr>cports := replicate MAX_PORT zero_port_config\<rparr>))"

subsection \<open>Commands\<close>

definition queue :: "u8 list \<Rightarrow> pse \<Rightarrow> pse" where
  "queue bytes p = snd (poe_cmd_queue bytes p)"

definition poet_cmd_4_port :: "u8 \<Rightarrow> u8 list \<Rightarrow> u8 list \<Rightarrow> pse \<Rightarrow> pse" where
  "poet_cmd_4_port cmd_id port data =
     queue [cmd_id, 0, port ! 0, data ! 0, port ! 1, data ! 1, port ! 2, data ! 2, port ! 3, data ! 3]"

definition poe_cmd_port_enable :: "u8 \<Rightarrow> bool \<Rightarrow> pse \<Rightarrow> int \<times> pse" where
  "poe_cmd_port_enable port en = poe_cmd_queue [0x01, 0, port, of_bool en]"

definition poe_cmd_port_mapping_enable :: "bool \<Rightarrow> pse \<Rightarrow> pse" where
  "poe_cmd_port_mapping_enable en = queue [0x02, 0, of_bool en]"

definition poe_cmd_port_detection_type :: "u8 \<Rightarrow> u8 \<Rightarrow> pse \<Rightarrow> pse" where
  "poe_cmd_port_detection_type port t = queue [0x09, 0, port, t]"

definition poe_cmd_port_classification :: "u8 list \<Rightarrow> u8 list \<Rightarrow> pse \<Rightarrow> pse" where
  "poe_cmd_port_classification = poet_cmd_4_port 0x11"

definition poe_cmd_port_disconnect_type :: "u8 \<Rightarrow> u8 \<Rightarrow> pse \<Rightarrow> pse" where
  "poe_cmd_port_disconnect_type port t = queue [0x0F, 0, port, t]"

definition poe_cmd_port_power_limit_type :: "u8 list \<Rightarrow> u8 list \<Rightarrow> pse \<Rightarrow> pse" where
  "poe_cmd_port_power_limit_type = poet_cmd_4_port 0x12"

definition poe_cmd_port_power_budget :: "u8 \<Rightarrow> u8 \<Rightarrow> pse \<Rightarrow> pse" where
  "poe_cmd_port_power_budget port budget = queue [0x13, 0, port, budget]"

definition poe_cmd_power_mgmt_mode :: "u8 \<Rightarrow> pse \<Rightarrow> pse" where
  "poe_cmd_power_mgmt_mode mode = queue [0x10, 0, mode]"

definition poe_cmd_global_power_budget :: "u8 \<Rightarrow> u16 \<Rightarrow> u16 \<Rightarrow> pse \<Rightarrow> pse" where
  "poe_cmd_global_power_budget pse_id budget guard =
     queue ([0x18, 0, pse_id] @ write16_be budget @ write16_be guard)"

definition poe_set_port_priority :: "u8 list \<Rightarrow> u8 list \<Rightarrow> pse \<Rightarrow> pse" where
  "poe_set_port_priority = poet_cmd_4_port 0x15"

definition poe_cmd_status :: "pse \<Rightarrow> pse" where
  "poe_cmd_status = queue [0x40]"

definition poe_cmd_power_stats :: "pse \<Rightarrow> pse" where
  "poe_cmd_power_stats = queue [0x41]"

definition poe_cmd_port_config :: "u8 \<Rightarrow> pse \<Rightarrow> pse" where
  "poe_cmd_port_config port = queue [0x48, 0, port]"

definition poe_cmd_port_ext_config :: "u8 \<Rightarrow> pse \<Rightarrow> pse" where
  "poe_cmd_port_ext_config port = queue [0x49, 0, port]"

definition poe_cmd_4_port_status :: "u8 \<Rightarrow> pse \<Rightarrow> pse" where
  "poe_cmd_4_port_status grp = queue [0x43, 0, grp]"

definition poe_cmd_port_power_stats :: "u8 \<Rightarrow> pse \<Rightarrow> pse" where
  "poe_cmd_port_power_stats port = queue [0x44, 0, port]"

subsection \<open>Setting up the ports\<close>

text \<open>
  The inner loop of \<open>poet_setup\<close>: from port \<open>i\<close> on, with \<open>k\<close> ports found so far, the enabled
  ports up to the fourth, and the index the loop ends with.
\<close>

fun poet_gather :: "nat \<Rightarrow> nat \<Rightarrow> port_config list \<Rightarrow> (nat \<times> port_config) list \<times> nat" where
  "poet_gather k i [] = ([], i)"
| "poet_gather k i (q # qs) =
    (if \<not> pc_enable q then poet_gather k (i + 1) qs
     else if k + 1 = 4 then ([(i, q)], i)
     else (case poet_gather (k + 1) (i + 1) qs of (g, j) \<Rightarrow> ((i, q) # g, j)))"

lemma poet_gather_index: "(g, j) = poet_gather k i qs \<Longrightarrow> i \<le> j"
  by (induction k i qs arbitrary: g j rule: poet_gather.induct)
    (force split: prod.split_asm if_split_asm)+

text \<open>\<^verbatim>\<open>memset(xs + n, 0xff, 4 - n)\<close> for an array of four.\<close>

definition pad4 :: "u8 list \<Rightarrow> u8 list" where
  "pad4 xs = xs @ replicate (4 - length xs) 0xff"

definition poet_batch :: "(nat \<times> port_config) list \<Rightarrow> u8 list \<Rightarrow> pse \<Rightarrow> pse" where
  "poet_batch g enable_all p =
    (let ids = pad4 (map (\<lambda>(i, _). of_nat i) g);
         priorities = pad4 (map (\<lambda>(_, q). pc_priority q) g);
         limit_type = pad4 (map (\<lambda>(_, q). if pc_power_budget q \<noteq> 0 then 2 else 1) g)
     in poe_cmd_port_power_limit_type ids limit_type
          (poe_cmd_port_classification ids enable_all (poe_set_port_priority ids priorities p)))"

function poet_setup_from :: "nat \<Rightarrow> u8 list \<Rightarrow> port_config list \<Rightarrow> pse \<Rightarrow> pse" where
  "poet_setup_from i enable_all ps p =
    (case poet_gather 0 i (drop i ps) of (g, j) \<Rightarrow>
       let en = pad4 (take (length g) enable_all);
           p1 = poet_batch g en p
       in if j + 1 < length ps then poet_setup_from (j + 1) en ps p1 else p1)"
  by auto
termination
  by (relation "measure (\<lambda>(i, _, ps, _). length ps - i)") (auto dest!: poet_gather_index)

definition poet_setup :: "port_config list \<Rightarrow> pse \<Rightarrow> pse" where
  "poet_setup = poet_setup_from 0 [1, 1, 1, 1]"

definition poe_port_setup :: "config \<Rightarrow> pse \<Rightarrow> pse" where
  "poe_port_setup c p =
    (let detect = (\<lambda>i p. let q = cports c ! i in
           if \<not> pc_enable q \<or> pc_power_budget q = 0 then p
           else poe_cmd_port_power_budget (of_nat i) (pc_power_budget q)
                  (poe_cmd_port_detection_type (of_nat i) 3 (poe_cmd_port_disconnect_type (of_nat i) 2 p)));
         p1 = fold detect [0..<port_count c] p;
         p2 = poet_setup (take (port_count c) (cports c)) p1
     in fold (\<lambda>i p. snd (poe_cmd_port_enable (of_nat i) (pc_enable (cports c ! i)) p)) [0..<port_count c] p2)"

definition poe_set_power_budget :: "config \<Rightarrow> pse \<Rightarrow> pse" where
  "poe_set_power_budget c =
    fold (\<lambda>i p. if bit (pse_id_set_budget_mask c) i
                then poe_cmd_global_power_budget (of_nat i) (budget10 c) (guard10 c) p else p) [0..<8]"

definition poe_initial_setup :: "config \<Rightarrow> pse \<Rightarrow> pse" where
  "poe_initial_setup c p =
    poe_port_setup c (poe_set_power_budget c
      (poe_cmd_port_mapping_enable False (poe_cmd_power_mgmt_mode 2 (poe_cmd_status p))))"

text \<open>The poll: every two seconds.\<close>

definition poll_groups :: "nat \<Rightarrow> nat list" where
  "poll_groups n = map (\<lambda>k. 4 * k) [0..<(n + 3) div 4]"

definition note_status :: "port_state \<Rightarrow> port_state" where
  "note_status q = (if status q \<noteq> status_old q then q\<lparr>status_old := status q\<rparr> else q)"

definition state_timeout_cb :: "config \<Rightarrow> pse \<Rightarrow> pse" where
  "state_timeout_cb c p =
    fold (\<lambda>i p. (poe_cmd_port_power_stats (of_nat i) (poe_cmd_port_ext_config (of_nat i)
                   (poe_cmd_port_config (of_nat i) p)))\<lparr>st := upd_port i note_status (st p)\<rparr>)
      [0..<port_count c]
      (fold (\<lambda>i p. poe_cmd_4_port_status (of_nat (i div 4)) p) (poll_groups (port_count c))
        (poe_cmd_power_stats p))"

subsection \<open>Requests\<close>

abbreviation (input) UBUS_STATUS_INVALID_ARGUMENT :: int where "UBUS_STATUS_INVALID_ARGUMENT \<equiv> 2"

text \<open>The loop over at most 9 octets; \<open>end\<close> is where the text is empty.\<close>

function sendframe_bytes :: "string \<Rightarrow> u8 list \<Rightarrow> u8 list option" where
  "sendframe_bytes frame acc =
    (if frame = [] \<or> length acc \<ge> 9 then Some acc
     else (case strtoul 16 frame of (v, next, overflow) \<Rightarrow>
       if overflow \<or> frame = next \<or> v > 0xff then None
       else sendframe_bytes next (acc @ [of_int v])))"
  by auto
termination by (relation "measure (\<lambda>(_, acc). 9 - length acc)") auto

definition ubus_poe_sendframe_cb :: "string option \<Rightarrow> pse \<Rightarrow> int \<times> pse" where
  "ubus_poe_sendframe_cb frame p =
    (case Option.bind frame (\<lambda>f. sendframe_bytes f []) of
       None \<Rightarrow> (UBUS_STATUS_INVALID_ARGUMENT, p)
     | Some bytes \<Rightarrow> poe_cmd_queue bytes p)"

fun find_port :: "string \<Rightarrow> port_config list \<Rightarrow> nat \<Rightarrow> nat option" where
  "find_port name [] i = None"
| "find_port name (q # qs) i =
    (if pc_enable q \<and> name = pc_name q then Some i else find_port name qs (i + 1))"

definition ubus_poe_manage_cb :: "string option \<Rightarrow> bool option \<Rightarrow> config \<Rightarrow> pse \<Rightarrow> int \<times> pse" where
  "ubus_poe_manage_cb port en c p =
    (case (port, en) of
       (Some name, Some b) \<Rightarrow>
         (case find_port name (take (port_count c) (cports c)) 0 of
            Some i \<Rightarrow> poe_cmd_port_enable (of_nat i) b p
          | None \<Rightarrow> (UBUS_STATUS_INVALID_ARGUMENT, p))
     | _ \<Rightarrow> (UBUS_STATUS_INVALID_ARGUMENT, p))"

definition ubus_poe_reload_cb ::
  "uci_section list \<Rightarrow> uci_section list \<Rightarrow> config \<Rightarrow> pse \<Rightarrow> (config \<times> pse) option" where
  "ubus_poe_reload_cb poe_sections port_sections c p =
    map_option (\<lambda>c1. (c1, poe_port_setup c1 p)) (config_load poe_sections port_sections c)"

end
