(* ===== verification/PSE_Invariant.thy ===== *)
theory PSE_Invariant
  imports PSE_Setup
begin

section \<open>The PoE controller daemon: its queue at work\<close>

text \<open>
  The events the daemon reacts to, and what holds of its queue after any number of them: commands go
  out in the order in which they were made, one at a time, each at most six times.
\<close>

subsection \<open>The daemon\<close>

datatype pse_event =
  Bytes "u8 list" | Timer_over | Poll | Reload "uci_section list" "uci_section list"
| Send "string option" | Manage "string option" "bool option"

text \<open>The timer's callback is called only while it is pending.\<close>

fun pse_next :: "pse_event \<Rightarrow> config \<times> pse \<Rightarrow> (config \<times> pse) option" where
  "pse_next (Bytes bs) (c, p) = map_option (Pair c) (poe_stream_msg_cb bs p)"
| "pse_next Timer_over (c, p) = Some (c, if mcu_error_timeout p then mcu_clear_timeout p else p)"
| "pse_next Poll (c, p) = Some (c, state_timeout_cb c p)"
| "pse_next (Reload a b) (c, p) = ubus_poe_reload_cb a b c p"
| "pse_next (Send f) (c, p) = Some (c, snd (ubus_poe_sendframe_cb f p))"
| "pse_next (Manage n b) (c, p) = Some (c, snd (ubus_poe_manage_cb n b c p))"

definition zero_port_state :: port_state where
  "zero_port_state = \<lparr>status_str = None, status = 0, status_old = 0, watt = 0, voltage = 0,
     current = 0, temperature = 0, poe_mode = None\<rparr>"

definition zero_state :: state where
  "zero_state = \<lparr>sys_mode = None, sys_version = 0, sys_mcu = None, sys_status = None,
     sys_ext_version = 0, power_consumption = 0, num_detected_ports = 0,
     ports = replicate MAX_PORT zero_port_state\<rparr>"

definition zero_pse :: pse where
  "zero_pse = \<lparr>cmd_pending = [], cmd_seq = 0, allocs = 0, tx = [], mcu_error_timeout = False,
     rx = [], st = zero_state\<rparr>"

text \<open>
  \<^verbatim>\<open>main\<close>: the configuration is loaded, with a budget read from it or not, and the
  controller set up.
\<close>

definition zero_config :: "u16 \<Rightarrow> u16 \<Rightarrow> u8 \<Rightarrow> config" where
  "zero_config budget guard pse_mask = \<lparr>budget10 = budget, guard10 = guard, port_count = 0,
     pse_id_set_budget_mask = pse_mask, cports = replicate MAX_PORT zero_port_config\<rparr>"

definition pse_main ::
  "u16 \<Rightarrow> u16 \<Rightarrow> u8 \<Rightarrow> uci_section list \<Rightarrow> uci_section list \<Rightarrow> (config \<times> pse) option" where
  "pse_main budget guard pse_mask poe_sections port_sections =
    map_option (\<lambda>c. (c, poe_initial_setup c zero_pse))
      (config_load poe_sections port_sections (zero_config budget guard pse_mask))"

inductive pse_reachable :: "config \<times> pse \<Rightarrow> bool" where
  main: "pse_main budget guard pse_mask a b = Some s \<Longrightarrow> pse_reachable s"
| event: "pse_reachable s \<Longrightarrow> pse_next e s = Some t \<Longrightarrow> pse_reachable t"

subsection \<open>The invariant\<close>

text \<open>How often a command was written to the line.\<close>

definition sends :: "nat \<Rightarrow> pse \<Rightarrow> nat" where
  "sends q p = count_list (map fst (tx p)) q"

definition frame_ok :: "nat \<Rightarrow> u8 list \<Rightarrow> bool" where
  "frame_ok q f \<longleftrightarrow> length f = 12 \<and> f ! 11 = sum_list (take 11 f) \<and> f ! 1 = of_nat (q + 1)"

definition queue_ok :: "pse \<Rightarrow> bool" where
  "queue_ok p \<longleftrightarrow> sorted_wrt (<) (map cmd_ptr (cmd_pending p)) \<and> cmd_seq p = of_nat (allocs p)
     \<and> (\<forall>c \<in> set (cmd_pending p). frame_ok (cmd_ptr c) (cmd_bytes c) \<and> num_retries c \<le> MAX_RETRIES
          \<and> cmd_ptr c < allocs p)"

definition line_ok :: "pse \<Rightarrow> bool" where
  "line_ok p \<longleftrightarrow> sorted (map fst (tx p)) \<and> (\<forall>q. sends q p \<le> MAX_RETRIES + 1)
     \<and> (\<forall>x \<in> set (tx p). frame_ok (fst x) (snd x) \<and> fst x < allocs p
          \<and> (\<forall>c \<in> set (cmd_pending p). fst x \<le> cmd_ptr c))"

text \<open>
  The command at the head of the queue has been sent and its answer is awaited, or the timer will
  send it (again). \<open>head_due\<close>: it may be sent now.
\<close>

definition head_due :: "pse \<Rightarrow> bool" where
  "head_due p \<longleftrightarrow> (\<forall>c cs. cmd_pending p = c # cs \<longrightarrow> sends (cmd_ptr c) p \<le> num_retries c)"

definition head_sent :: "pse \<Rightarrow> bool" where
  "head_sent p \<longleftrightarrow> (\<forall>c cs. cmd_pending p = c # cs \<longrightarrow> sends (cmd_ptr c) p \<le> num_retries c + 1
     \<and> tx p \<noteq> [] \<and> last (tx p) = (cmd_ptr c, cmd_bytes c))"

definition pse_ok :: "pse \<Rightarrow> bool" where
  "pse_ok p \<longleftrightarrow> queue_ok p \<and> line_ok p \<and> (if mcu_error_timeout p then head_due p else head_sent p)"

lemma sends_0: "line_ok p \<Longrightarrow> (\<And>x. x \<in> set (tx p) \<Longrightarrow> fst x < q) \<Longrightarrow> sends q p = 0"
  by (fastforce simp: sends_def count_list_0_iff)

lemma pse_ok_next:
  assumes "queue_ok p" and "line_ok p" and "head_due p" shows "pse_ok (snd (poe_cmd_next p))"
proof (cases "cmd_pending p = [] \<or> mcu_error_timeout p")
  case True
  then have "snd (poe_cmd_next p) = p"
    by (auto simp: poe_cmd_next_def poe_cmd_send_def split: list.split)
  with True assms show ?thesis by (auto simp: pse_ok_def head_sent_def)
next
  case False
  then obtain c cs where c: "cmd_pending p = c # cs" by (cases "cmd_pending p") auto
  have next_p: "snd (poe_cmd_next p) = p\<lparr>tx := tx p @ [(cmd_ptr c, cmd_bytes c)]\<rparr>" (is "_ = ?q")
    using False c by (simp add: poe_cmd_next_def poe_cmd_send_def)
  have sends: "sends k ?q = (if k = cmd_ptr c then sends k p + 1 else sends k p)" for k
    by (simp add: sends_def)
  have due: "sends (cmd_ptr c) p \<le> num_retries c" "num_retries c \<le> 5"
    using assms c by (simp_all add: head_due_def queue_ok_def)
  have "queue_ok ?q" using assms(1) by (simp add: queue_ok_def)
  moreover have "line_ok ?q"
    using assms(1,2) c due unfolding line_ok_def queue_ok_def
    by (auto simp: sends sorted_append le_eq_less_or_eq)
  moreover have "head_sent ?q" using c due by (simp add: head_sent_def sends)
  ultimately show ?thesis using False by (simp add: pse_ok_def next_p)
qed

lemma length_frame_of [simp]: "length (frame_of bytes seq) = 12"
  by (simp add: frame_of_def Let_def)

lemma frame_of_ok: "frame_ok q (frame_of bytes (of_nat (q + 1)))"
  by (simp add: frame_ok_def frame_of_def Let_def)

lemma pse_ok_queue:
  assumes "pse_ok p" shows "pse_ok (snd (poe_cmd_queue bytes p))"
proof -
  let ?c = "\<lparr>cmd_ptr = allocs p, cmd_bytes = frame_of bytes (cmd_seq p + 1), num_retries = 0\<rparr>"
  let ?p = "p\<lparr>cmd_seq := cmd_seq p + 1, allocs := allocs p + 1, cmd_pending := cmd_pending p @ [?c]\<rparr>"
  have q: "queue_ok p" and l: "line_ok p" using assms by (simp_all add: pse_ok_def)
  have seq: "cmd_seq p + 1 = of_nat (allocs p + 1)" using q by (simp add: queue_ok_def)
  have q': "queue_ok ?p"
    using q frame_of_ok [of "allocs p" bytes] seq by (auto simp: queue_ok_def sorted_wrt_append add.commute [of 1])
  have l': "line_ok ?p" using l by (auto simp: line_ok_def sends_def)
  show ?thesis
  proof (cases "cmd_pending p")
    case Nil
    have "sends (allocs p) p = 0" using l by (intro sends_0) (auto simp: line_ok_def)
    then have "head_due ?p" using Nil by (simp add: head_due_def sends_def)
    from pse_ok_next [OF q' l' this] Nil show ?thesis
      by (simp add: poe_cmd_queue_def poe_cmd_next_def Let_def)
  next
    case (Cons c cs)
    with assms q' l' show ?thesis
      by (cases "mcu_error_timeout p")
        (simp_all add: poe_cmd_queue_def pse_ok_def head_due_def head_sent_def sends_def Let_def)
  qed
qed

lemma pse_ok_timer: "pse_ok p \<Longrightarrow> mcu_error_timeout p \<Longrightarrow> pse_ok (mcu_clear_timeout p)"
  unfolding mcu_clear_timeout_def
  by (rule pse_ok_next) (simp_all add: pse_ok_def queue_ok_def line_ok_def head_due_def sends_def)

text \<open>What is left once a reply was consumed, with another record of the controller's state.\<close>

lemma pse_ok_drop:
  assumes "pse_ok p" and "cmd_pending p = c # cs"
  shows "queue_ok (p\<lparr>cmd_pending := cs\<rparr>) \<and> line_ok (p\<lparr>cmd_pending := cs\<rparr>)
    \<and> head_due (p\<lparr>cmd_pending := cs\<rparr>)"
proof -
  have q: "queue_ok p" and l: "line_ok p" using assms by (simp_all add: pse_ok_def)
  have "sends (cmd_ptr c') p = 0" if "c' \<in> set cs" for c'
  proof (rule sends_0 [OF l])
    fix x assume x: "x \<in> set (tx p)"
    have "cmd_ptr c < cmd_ptr c'" using q assms(2) that by (auto simp: queue_ok_def)
    moreover have "fst x \<le> cmd_ptr c" using l x assms(2) by (auto simp: line_ok_def)
    ultimately show "fst x < cmd_ptr c'" by simp
  qed
  then have "head_due (p\<lparr>cmd_pending := cs\<rparr>)" by (simp add: head_due_def sends_def)
  then show ?thesis using q l assms(2) by (auto simp: queue_ok_def line_ok_def sends_def)
qed

lemma pse_ok_fields:
  "queue_ok (p\<lparr>st := s\<rparr>) = queue_ok p" "line_ok (p\<lparr>st := s\<rparr>) = line_ok p"
  "head_due (p\<lparr>st := s\<rparr>) = head_due p" "head_sent (p\<lparr>st := s\<rparr>) = head_sent p"
  "queue_ok (p\<lparr>rx := r\<rparr>) = queue_ok p" "line_ok (p\<lparr>rx := r\<rparr>) = line_ok p"
  "head_due (p\<lparr>rx := r\<rparr>) = head_due p" "head_sent (p\<lparr>rx := r\<rparr>) = head_sent p"
  "pse_ok (p\<lparr>rx := r\<rparr>) = pse_ok p" "pse_ok (p\<lparr>st := s\<rparr>) = pse_ok p"
  by (simp_all add: queue_ok_def line_ok_def head_due_def head_sent_def sends_def pse_ok_def)

lemma pse_ok_f0:
  assumes "pse_ok p" and "cmd_pending p = c # cs"
  defines "q \<equiv> handle_poe_f0_reply c (p\<lparr>cmd_pending := cs\<rparr>)"
  shows "queue_ok q \<and> line_ok q \<and> head_due q"
proof (cases "\<not> mcu_error_timeout p \<and> num_retries c + 1 > 5")
  case True
  then show ?thesis using pse_ok_drop [OF assms(1,2)] by (simp add: q_def handle_poe_f0_reply_def)
next
  case False
  then have q: "q = (if mcu_error_timeout p then p
      else p\<lparr>mcu_error_timeout := True, cmd_pending := c\<lparr>num_retries := num_retries c + 1\<rparr> # cs\<rparr>)"
    using assms(2) False by (auto simp add: q_def handle_poe_f0_reply_def Let_def)
  show ?thesis
  proof (cases "mcu_error_timeout p")
    case True
    then show ?thesis using assms(1) by (simp add: q pse_ok_def)
  next
    case 1: False
    have "queue_ok q" "line_ok q" "head_due q"
      using assms(1,2) 1 False
      by (auto simp: q pse_ok_def queue_ok_def line_ok_def head_due_def head_sent_def sends_def)
    then show ?thesis by simp
  qed
qed

lemma pse_ok_consume:
  assumes ok: "pse_ok p" and step: "poe_reply_consume r p = Some (res, p')"
  shows "queue_ok p' \<and> line_ok p' \<and> head_due p'"
proof (cases "cmd_pending p")
  case Nil
  then show ?thesis
    using assms by (auto simp: poe_reply_consume_def pse_ok_def head_due_def)
next
  case (Cons c cs)
  let ?p = "p\<lparr>cmd_pending := cs\<rparr>"
  from step Cons have "p' = ?p \<or> p' = handle_poe_f0_reply c ?p \<or> (\<exists>s. p' = ?p\<lparr>st := s\<rparr>)"
    by (auto simp: poe_reply_consume_def Let_def split: if_split_asm)
  with pse_ok_drop [OF ok Cons] pse_ok_f0 [OF ok Cons] show ?thesis
    by (auto simp: pse_ok_fields simp del: pse.simps)
qed

lemma pse_ok_bytes:
  assumes "pse_ok p" and "poe_stream_msg_cb bs p = Some p'" shows "pse_ok p'"
proof (cases "length (rx p @ bs) < 12")
  case True
  then show ?thesis using assms by (auto simp: poe_stream_msg_cb_def Let_def pse_ok_fields)
next
  case False
  let ?p = "p\<lparr>rx := rx p @ bs\<rparr>"
  obtain res p1 where p1: "poe_reply_consume (take 12 (rx p @ bs)) ?p = Some (res, p1)"
    and p': "p' = snd (poe_cmd_next (p1\<lparr>rx := drop 12 (rx p1)\<rparr>))"
    using assms(2) False by (auto simp: poe_stream_msg_cb_def Let_def)
  have "pse_ok ?p" using assms(1) by (simp add: pse_ok_fields)
  from pse_ok_consume [OF this p1] show ?thesis
    unfolding p' by (intro pse_ok_next) (simp_all add: pse_ok_fields)
qed

subsection \<open>Configurations\<close>

text \<open>Nothing ever sets the power budget of a port.\<close>

definition config_ok :: "config \<Rightarrow> bool" where
  "config_ok c \<longleftrightarrow> length (cports c) = MAX_PORT \<and> port_count c \<le> MAX_PORT
     \<and> (\<forall>q \<in> set (cports c). pc_power_budget q = 0 \<and> pc_priority q \<le> 3)"

lemma config_ok_upd:
  assumes "config_ok c" and "n \<le> 24" and "\<And>q. pc_power_budget q = 0 \<and> pc_priority q \<le> 3 \<Longrightarrow>
    pc_power_budget (f q) = 0 \<and> pc_priority (f q) \<le> 3"
  shows "config_ok (c\<lparr>port_count := n, cports := upd_nth i f (cports c)\<rparr>)"
  using assms by (auto simp: config_ok_def dest!: in_set_upd_nthD)

lemma config_ok_load_port: "config_ok c \<Longrightarrow> config_ok (load_port_config s c)"
  unfolding load_port_config_def Let_def
  by (auto split: option.split intro!: config_ok_upd simp: not_less) (simp_all add: config_ok_def)

lemma config_ok_load_lans:
  "load_lans ss i c = Some c' \<Longrightarrow> config_ok c \<Longrightarrow> config_ok c'"
proof (induction ss i c rule: load_lans.induct)
  case (2 s ss port c)
  have "config_ok (c\<lparr>cports := upd_nth port f (cports c)\<rparr>)"
    if "\<And>q. pc_power_budget (f q) = pc_power_budget q \<and> pc_priority (f q) = pc_priority q" for f
    using config_ok_upd [OF 2(4), of "port_count c" f port] that 2(4) by (simp add: config_ok_def)
  then have "config_ok d" if "load_port_state_config s port c = Some d" for d
    using that by (auto simp: load_port_state_config_def split: if_split_asm)
  with 2 show ?case by (auto simp: bind_eq_Some_conv split: if_split_asm)
qed simp

lemma config_ok_load:
  assumes "config_load a b c = Some c'" and "port_count c \<le> 24" shows "config_ok c'"
proof -
  have "config_ok (c\<lparr>cports := replicate 24 zero_port_config\<rparr>)"
    using assms(2) by (simp add: config_ok_def zero_port_config_def)
  then have "config_ok (fold (\<lambda>s c. if uci_type s = ''port'' then load_port_config s c else c) a
      (c\<lparr>cports := replicate 24 zero_port_config\<rparr>))"
    by (induction a arbitrary: c rule: rev_induct) (auto intro: config_ok_load_port)
  with assms(1) show ?thesis unfolding config_load_def by (rule config_ok_load_lans)
qed

subsection \<open>Whoever queues commands\<close>

text \<open>
  The daemon touches its queue only by adding commands. What every added command keeps, all the
  commands of a setup, a poll or a request keep, if no port has a power budget: then neither the
  types of disconnection and detection nor a budget are set.
\<close>

definition budget_commands :: "u8 set" where
  "budget_commands = {0x09, 0x0F, 0x13}"

locale command_queue =
  fixes Q :: "pse \<Rightarrow> bool"
  assumes added: "hd bytes \<notin> budget_commands \<Longrightarrow> Q p \<Longrightarrow> Q (snd (poe_cmd_queue bytes p))"
    and state_noted: "Q p \<Longrightarrow> Q (p\<lparr>st := s\<rparr>)"
begin

lemma queued: "hd bytes \<notin> budget_commands \<Longrightarrow> Q p \<Longrightarrow> Q (queue bytes p)"
  by (simp add: queue_def added)

lemma single_commands:
  assumes "Q p"
  shows "Q (snd (poe_cmd_port_enable i b p))" "Q (poe_cmd_port_mapping_enable b p)"
    "Q (poe_cmd_power_mgmt_mode m p)" "Q (poe_cmd_global_power_budget i x y p)" "Q (poe_cmd_status p)"
    "Q (poe_cmd_power_stats p)" "Q (poe_cmd_port_config i p)" "Q (poe_cmd_port_ext_config i p)"
    "Q (poe_cmd_4_port_status i p)" "Q (poe_cmd_port_power_stats i p)"
  unfolding poe_cmd_port_enable_def poe_cmd_port_mapping_enable_def poe_cmd_power_mgmt_mode_def
    poe_cmd_global_power_budget_def poe_cmd_status_def poe_cmd_power_stats_def poe_cmd_port_config_def
    poe_cmd_port_ext_config_def poe_cmd_4_port_status_def poe_cmd_port_power_stats_def
  by (rule queued added; simp add: assms budget_commands_def)+

lemma batch: "Q p \<Longrightarrow> Q (poet_batch g en p)"
  unfolding poet_batch_def Let_def poe_cmd_port_power_limit_type_def poe_cmd_port_classification_def
    poe_set_port_priority_def poet_cmd_4_port_def
  by (intro queued) (simp_all add: budget_commands_def)

lemma setup_from: "Q p \<Longrightarrow> Q (poet_setup_from i en ps p)"
proof (induction i en ps p rule: poet_setup_from.induct)
  case (1 i en ps p)
  obtain g j where g: "poet_gather 0 i (drop i ps) = (g, j)" by (cases "poet_gather 0 i (drop i ps)")
  with 1 show ?case by (subst poet_setup_from.simps) (auto simp: Let_def batch)
qed

lemma folded: "(\<And>i p. i \<in> set xs \<Longrightarrow> Q p \<Longrightarrow> Q (f i p)) \<Longrightarrow> Q p \<Longrightarrow> Q (fold f xs p)"
  by (induction xs arbitrary: p) auto

lemma port_setup:
  assumes "config_ok c" and "Q p" shows "Q (poe_port_setup c p)"
proof -
  have "pc_power_budget (cports c ! i) = 0" if "i \<in> set [0..<port_count c]" for i
    using assms(1) that by (simp add: config_ok_def)
  then show ?thesis
    unfolding poe_port_setup_def Let_def poet_setup_def
    using assms(2) by (intro folded single_commands(1) setup_from) auto
qed

lemma initial_setup:
  assumes "config_ok c" and "Q p" shows "Q (poe_initial_setup c p)"
  unfolding poe_initial_setup_def poe_set_power_budget_def
  by (intro port_setup folded assms single_commands) (simp add: single_commands)

lemma poll: "Q p \<Longrightarrow> Q (state_timeout_cb c p)"
  unfolding state_timeout_cb_def by (intro folded state_noted single_commands)

lemma manage: "Q p \<Longrightarrow> Q (snd (ubus_poe_manage_cb n b c p))"
  by (simp add: ubus_poe_manage_cb_def single_commands split: option.split)

end

interpretation ok: command_queue pse_ok
  by unfold_locales (simp_all add: pse_ok_queue pse_ok_fields)

end
