(* ===== verification/PSE_Properties.thy ===== *)
theory PSE_Properties
  imports PSE_Invariant
begin

section \<open>The PoE controller daemon: its properties\<close>

text \<open>
  The discipline of the queue in every reachable state, what becomes of replies, and what is set on
  the ports.
\<close>

subsection \<open>Reachable states\<close>

lemma pse_main_ok: "pse_main budget guard m a b = Some (c, p) \<Longrightarrow> config_ok c \<and> pse_ok p"
proof -
  assume "pse_main budget guard m a b = Some (c, p)"
  then have c: "config_ok c" and p: "p = poe_initial_setup c zero_pse"
    using config_ok_load [of a b "zero_config budget guard m" c] by (auto simp: pse_main_def zero_config_def)
  have "pse_ok zero_pse"
    by (simp add: pse_ok_def queue_ok_def line_ok_def head_sent_def sends_def zero_pse_def)
  with c show ?thesis unfolding p by (simp add: ok.initial_setup)
qed

lemma pse_next_ok:
  assumes "config_ok c" and "pse_ok p" and "pse_next e (c, p) = Some (c', p')"
  shows "config_ok c' \<and> pse_ok p'"
proof (cases e)
  case (Bytes bs)
  then show ?thesis using assms pse_ok_bytes by auto
next
  case (Reload a b)
  then have "config_load a b c = Some c'" and p': "p' = poe_port_setup c' p"
    using assms(3) by (auto simp: ubus_poe_reload_cb_def)
  then have "config_ok c'" using assms(1) by (intro config_ok_load) (auto simp: config_ok_def)
  with p' assms(2) show ?thesis by (simp add: ok.port_setup)
next
  case (Send f)
  then show ?thesis
    using assms by (auto simp: ubus_poe_sendframe_cb_def pse_ok_queue split: option.split_asm)
qed (use assms in \<open>auto simp: pse_ok_timer ok.poll ok.manage\<close>)

lemma pse_reachable_ok: "pse_reachable s \<Longrightarrow> config_ok (fst s) \<and> pse_ok (snd s)"
proof (induction rule: pse_reachable.induct)
  case (main budget guard m a b s)
  then show ?case using pse_main_ok by (cases s) auto
next
  case (event s e t)
  then show ?case using pse_next_ok [of "fst s" "snd s" e "fst t" "snd t"] by (cases s; cases t) auto
qed

text \<open>
  C21. Whatever bytes, timeouts, polls, reloads and requests come in any order: the commands in the
  queue are in the order they were made in; every frame on the line has 12 octets, a correct
  checksum and the sequence number of its command; commands were written to the line in the order
  they were made in, each at most six times; and while the controller has not asked for a pause,
  the command at the head of the queue is the one sent last.
\<close>

theorem reachable_queue_discipline:
  assumes "pse_reachable (c, p)"
  shows "sorted_wrt (<) (map cmd_ptr (cmd_pending p)) \<and> sorted (map fst (tx p))
    \<and> (\<forall>q. count_list (map fst (tx p)) q \<le> 6)
    \<and> list_all (\<lambda>(q, f). length f = 12 \<and> f ! 11 = sum_list (take 11 f) \<and> f ! 1 = of_nat (q + 1)) (tx p)
    \<and> (mcu_error_timeout p \<or> cmd_pending p = []
       \<or> last (tx p) = (cmd_ptr (hd (cmd_pending p)), cmd_bytes (hd (cmd_pending p))))"
proof -
  have ok: "pse_ok p" using pse_reachable_ok [OF assms] by simp
  then have "queue_ok p" and l: "line_ok p" by (simp_all add: pse_ok_def)
  moreover have "mcu_error_timeout p \<or> cmd_pending p = []
       \<or> last (tx p) = (cmd_ptr (hd (cmd_pending p)), cmd_bytes (hd (cmd_pending p)))"
    using ok by (cases "cmd_pending p") (auto simp: pse_ok_def head_sent_def split: if_split_asm)
  moreover have "list_all (\<lambda>(q, f). length f = 12 \<and> f ! 11 = sum_list (take 11 f) \<and> f ! 1 = of_nat (q + 1)) (tx p)"
    using l by (auto simp: line_ok_def frame_ok_def list_all_iff)
  ultimately show ?thesis by (simp add: queue_ok_def line_ok_def sends_def)
qed

subsection \<open>Replies\<close>

text \<open>
  C22. The daemon believes a reply only if it is the expected one: whatever arrives, the recorded state
  of the controller changes only if the checksum is right and the reply carries the identifier and
  the sequence number of the command at the head of the queue, which is then done with.
\<close>

theorem reply_accepted_only_if_expected:
  assumes "poe_reply_consume reply p = Some (res, p')" and "st p' \<noteq> st p"
  shows "reply ! 11 = sum_list (take 11 reply) \<and> cmd_pending p \<noteq> []
    \<and> reply ! 0 = cmd_bytes (hd (cmd_pending p)) ! 0 \<and> reply ! 1 = cmd_bytes (hd (cmd_pending p)) ! 1
    \<and> cmd_pending p' = tl (cmd_pending p) \<and> tx p' = tx p"
proof (cases "cmd_pending p")
  case Nil
  then show ?thesis using assms by (simp add: poe_reply_consume_def)
next
  case (Cons c cs)
  have "st (handle_poe_f0_reply c (p\<lparr>cmd_pending := cs\<rparr>)) = st p"
    by (simp add: handle_poe_f0_reply_def Let_def)
  then show ?thesis
    using assms Cons by (auto simp: poe_reply_consume_def Let_def split: if_split_asm)
qed

text \<open>
  When a reply makes the daemon access memory outside its arrays: exactly when it is the expected
  one and names a port beyond 24 in the answer to a query of power or extended configuration, or
  answers a raw command \<^verbatim>\<open>0x4a\<close>, which the check of the table's size lets pass.
\<close>

theorem reply_out_of_bounds:
  "poe_reply_consume reply p = None \<longleftrightarrow>
    cmd_pending p \<noteq> [] \<and> reply ! 11 = sum_list (take 11 reply)
    \<and> reply ! 0 = cmd_bytes (hd (cmd_pending p)) ! 0 \<and> reply ! 1 = cmd_bytes (hd (cmd_pending p)) ! 1
    \<and> (reply ! 0 = 0x4a \<or> (reply ! 0 \<in> {0x44, 0x49} \<and> 24 \<le> unat (reply ! 2)))"
proof (cases "cmd_pending p")
  case Nil
  then show ?thesis by (simp add: poe_reply_consume_def)
next
  case (Cons c cs)
  have table: "reply_handler i r s = None \<longleftrightarrow> i = 0x4a \<or> (i \<in> {0x44, 0x49} \<and> 24 \<le> unat (r ! 2))"
    if "unat i \<le> 0x4a" for i r s
  proof -
    have "unat i < 0x4a \<longleftrightarrow> i \<noteq> 0x4a" using that by (auto simp: word_unat_eq_iff)
    then show ?thesis
      by (auto simp: reply_handler_def poe_reply_port_power_stats_def poe_reply_port_ext_config_def not_less)
  qed
  show ?thesis
    using Cons table [of "reply ! 0"] by (auto simp: poe_reply_consume_def Let_def not_le)
qed

subsection \<open>A reply that does not come\<close>

fun pse_run :: "pse_event list \<Rightarrow> config \<times> pse \<Rightarrow> (config \<times> pse) option" where
  "pse_run [] s = Some s"
| "pse_run (e # es) s = Option.bind (pse_next e s) (pse_run es)"

lemma pse_run_invariant:
  assumes "pse_run es s = Some t" and "I s" and "\<forall>e \<in> set es. P e"
    and "\<And>e s t. P e \<Longrightarrow> I s \<Longrightarrow> pse_next e s = Some t \<Longrightarrow> I t"
  shows "I t"
  using assms(1-3)
proof (induction es arbitrary: s)
  case (Cons e es)
  then obtain s1 where "pse_next e s = Some s1" "pse_run es s1 = Some t"
    by (auto simp: bind_eq_Some_conv)
  with Cons assms(4) [of e s s1] show ?case by simp
qed simp

lemma pse_run_reachable: "pse_reachable s \<Longrightarrow> pse_run es s = Some t \<Longrightarrow> pse_reachable t"
  by (rule pse_run_invariant [where P = "\<lambda>_. True"]) (auto intro: event)

fun silent :: "pse_event \<Rightarrow> bool" where
  "silent (Bytes bs) = False"
| "silent _ = True"

definition stalled :: "(nat \<times> u8 list) list \<Rightarrow> pse \<Rightarrow> bool" where
  "stalled sent p \<longleftrightarrow> tx p = sent \<and> cmd_pending p \<noteq> [] \<and> \<not> mcu_error_timeout p"

lemma stalled_queue: "stalled sent p \<Longrightarrow> stalled sent (snd (poe_cmd_queue bytes p))"
  by (simp add: stalled_def poe_cmd_queue_def Let_def)

interpretation stall: command_queue "stalled sent" for sent
  by unfold_locales (simp add: stalled_queue, simp add: stalled_def)

lemma stalled_next:
  assumes "silent e" and "config_ok c \<and> stalled sent p" and "pse_next e (c, p) = Some (c', p')"
  shows "config_ok c' \<and> stalled sent p'"
proof (cases e)
  case (Reload a b)
  then have "config_load a b c = Some c'" and p': "p' = poe_port_setup c' p"
    using assms(3) by (auto simp: ubus_poe_reload_cb_def)
  then have "config_ok c'" using assms(2) by (intro config_ok_load) (auto simp: config_ok_def)
  with p' assms(2) show ?thesis by (simp add: stall.port_setup)
next
  case (Send f)
  then show ?thesis
    using assms by (auto simp: ubus_poe_sendframe_cb_def stalled_queue split: option.split_asm)
next
  case Timer_over
  then show ?thesis using assms by (auto simp: stalled_def)
qed (use assms in \<open>auto simp: stall.poll stall.manage\<close>)

text \<open>
  C23. A lost reply stops the daemon for good: there is no timeout for replies. While a command
  awaits its reply and no bytes come, no poll, reload or request, nor a number of them, makes the
  daemon send anything; they only lengthen the queue.
\<close>

theorem lost_reply_stalls:
  assumes "pse_reachable (c, p)" and "cmd_pending p \<noteq> []" and "\<not> mcu_error_timeout p"
    and "\<forall>e \<in> set es. silent e" and "pse_run es (c, p) = Some (c', p')"
  shows "tx p' = tx p \<and> cmd_pending p' \<noteq> []"
proof -
  let ?I = "\<lambda>(c, q). config_ok c \<and> stalled (tx p) q"
  have "?I (c', p')"
    using assms(5)
  proof (rule pse_run_invariant [where I = ?I])
    show "?I (c, p)" using pse_reachable_ok [OF assms(1)] assms(2,3) by (simp add: stalled_def)
    show "\<forall>e \<in> set es. silent e" by (rule assms(4))
    show "?I t" if "silent e" "?I s" "pse_next e s = Some t" for e s t
      using that stalled_next [of e "fst s" "tx p" "snd s" "fst t" "snd t"]
      by (simp add: split_beta)
  qed
  then show ?thesis by (simp add: stalled_def)
qed

subsection \<open>Commands that are never sent\<close>

definition frames :: "pse \<Rightarrow> u8 list set" where
  "frames p = snd ` set (tx p) \<union> cmd_bytes ` set (cmd_pending p)"

lemma frames_next: "frames (snd (poe_cmd_next p)) = frames p"
  by (auto simp: frames_def poe_cmd_next_def poe_cmd_send_def split: list.split)

lemma frames_consume:
  "poe_reply_consume r p = Some (res, p') \<Longrightarrow> frames p' \<subseteq> frames p \<and> rx p' = rx p"
  by (auto simp: frames_def poe_reply_consume_def handle_poe_f0_reply_def Let_def
      split: list.split_asm if_split_asm)

lemma frames_bytes: "poe_stream_msg_cb bs p = Some p' \<Longrightarrow> frames p' \<subseteq> frames p"
proof (cases "length (rx p @ bs) < 12")
  case False
  assume "poe_stream_msg_cb bs p = Some p'"
  with False obtain res p1 where p1: "poe_reply_consume (take 12 (rx p @ bs)) (p\<lparr>rx := rx p @ bs\<rparr>) = Some (res, p1)"
    and p': "p' = snd (poe_cmd_next (p1\<lparr>rx := drop 12 (rx p1)\<rparr>))"
    by (auto simp: poe_stream_msg_cb_def Let_def)
  from frames_consume [OF p1] show ?thesis unfolding p' frames_next by (simp add: frames_def)
qed (auto simp: poe_stream_msg_cb_def Let_def frames_def)

lemma frames_timer: "frames (mcu_clear_timeout p) = frames p"
  unfolding mcu_clear_timeout_def frames_next by (simp add: frames_def)

lemma frame_of_0: "frame_of bytes seq ! 0 = (if bytes = [] then 0xff else hd bytes)"
  by (cases bytes) (simp_all add: frame_of_def Let_def)

definition no_budget :: "pse \<Rightarrow> bool" where
  "no_budget p \<longleftrightarrow> (\<forall>f \<in> frames p. f ! 0 \<notin> budget_commands)"

lemma no_budget_queue:
  assumes "hd bytes \<notin> budget_commands" and "no_budget p"
  shows "no_budget (snd (poe_cmd_queue bytes p))"
proof -
  have "frames (snd (poe_cmd_queue bytes p)) \<subseteq> frames p \<union> {frame_of bytes (cmd_seq p + 1)}"
    by (auto simp: frames_def poe_cmd_queue_def poe_cmd_send_def Let_def)
  moreover have "frame_of bytes (cmd_seq p + 1) ! 0 \<notin> budget_commands"
    using assms(1) by (auto simp: frame_of_0 budget_commands_def)
  ultimately show ?thesis using assms(2) by (auto simp: no_budget_def)
qed

interpretation budget: command_queue no_budget
  by unfold_locales (simp add: no_budget_queue, simp add: no_budget_def frames_def)

fun not_send :: "pse_event \<Rightarrow> bool" where
  "not_send (Send f) = False"
| "not_send _ = True"

lemma no_budget_next:
  assumes "not_send e" and "config_ok c \<and> no_budget p" and "pse_next e (c, p) = Some (c', p')"
  shows "config_ok c' \<and> no_budget p'"
proof (cases e)
  case (Bytes bs)
  then show ?thesis using assms frames_bytes [of bs p p'] by (auto simp: no_budget_def)
next
  case Timer_over
  then show ?thesis
    using assms by (auto simp: no_budget_def frames_timer split: if_split_asm)
next
  case (Reload a b)
  then have "config_load a b c = Some c'" and p': "p' = poe_port_setup c' p"
    using assms(3) by (auto simp: ubus_poe_reload_cb_def)
  then have "config_ok c'" using assms(2) by (intro config_ok_load) (auto simp: config_ok_def)
  with p' assms(2) show ?thesis by (simp add: budget.port_setup)
qed (use assms in \<open>auto simp: budget.poll budget.manage\<close>)

text \<open>
  The budget of a port, its type of detection and its type of disconnection are never set: no
  configuration gives a port a power budget, and the setup leaves those commands out for ports
  without one. Only raw frames sent on request can contain them.
\<close>

theorem port_budget_never_set:
  assumes "pse_main budget guard m a b = Some s" and "list_all not_send es"
    and "pse_run es s = Some (c, p)"
  shows "list_all (\<lambda>(q, f). f ! 0 \<notin> {0x09, 0x0F, 0x13}) (tx p)"
proof -
  let ?I = "\<lambda>s. config_ok (fst s) \<and> no_budget (snd s)"
  obtain c0 p0 where s: "s = (c0, p0)" by (cases s)
  have c0: "config_ok c0" using pse_main_ok assms(1) s by blast
  have "no_budget zero_pse" by (simp add: no_budget_def frames_def zero_pse_def)
  with c0 assms(1) s have start: "?I s" by (auto simp: pse_main_def budget.initial_setup)
  have "?I (c, p)"
    using assms(3)
  proof (rule pse_run_invariant [where I = ?I])
    show "?I s" by (rule start)
    show "\<forall>e \<in> set es. not_send e" using assms(2) by (simp add: list_all_iff)
    show "?I t" if "not_send e" "?I r" "pse_next e r = Some t" for e r t
      using that no_budget_next [of e "fst r" "snd r" "fst t" "snd t"] by simp
  qed
  then have "\<forall>x \<in> set (tx p). snd x ! 0 \<notin> budget_commands"
    by (auto simp: no_budget_def frames_def)
  then show ?thesis by (auto simp: list_all_iff budget_commands_def)
qed

end
