(* ===== verification/PSE_Ports.thy ===== *)
theory PSE_Ports
  imports PSE_Properties
begin

section \<open>The PoE controller daemon: which ports are set up\<close>

text \<open>
  \<open>poet_setup\<close> packs the settings of four ports into a command and skips ports that are switched
  off. What it sends is compared here with what it is meant to send: for every enabled port, in
  order, its priority, classification and type of limit.
\<close>

subsection \<open>Commands for four ports\<close>

text \<open>What commands of one kind assign to ports; \<^verbatim>\<open>0xff\<close> is no port.\<close>

definition pairs_of :: "u8 list \<Rightarrow> (u8 \<times> u8) list" where
  "pairs_of f = filter (\<lambda>(port, _). port \<noteq> 0xff) [(f ! 2, f ! 3), (f ! 4, f ! 5), (f ! 6, f ! 7), (f ! 8, f ! 9)]"

definition assignments :: "u8 \<Rightarrow> cmd list \<Rightarrow> (u8 \<times> u8) list" where
  "assignments k cs = concat (map (\<lambda>c. if cmd_bytes c ! 0 = k then pairs_of (cmd_bytes c) else []) cs)"

lemma assignments_append [simp]: "assignments k (cs @ ds) = assignments k cs @ assignments k ds"
  by (simp add: assignments_def)

definition new_cmd :: "u8 list \<Rightarrow> pse \<Rightarrow> cmd" where
  "new_cmd bytes p = \<lparr>cmd_ptr = allocs p, cmd_bytes = frame_of bytes (cmd_seq p + 1), num_retries = 0\<rparr>"

lemma pending_queue: "cmd_pending (queue bytes p) = cmd_pending p @ [new_cmd bytes p]"
  by (simp add: queue_def poe_cmd_queue_def poe_cmd_send_def new_cmd_def Let_def)

lemma frame_of_10:
  "\<exists>x y z. frame_of [k, 0, a0, b0, a1, b1, a2, b2, a3, b3] s = [k, x, a0, b0, a1, b1, a2, b2, a3, b3, y, z]"
  by (simp add: frame_of_def Let_def eval_nat_numeral)

lemma assignments_4_port:
  assumes "length ids = 4" and "length vals = 4"
  shows "\<exists>c. cmd_pending (poet_cmd_4_port k ids vals p) = cmd_pending p @ [c]
    \<and> (\<forall>k'. assignments k' [c] = (if k = k' then filter (\<lambda>(port, _). port \<noteq> 0xff) (zip ids vals) else []))"
proof -
  obtain a0 a1 a2 a3 b0 b1 b2 b3 where "ids = [a0, a1, a2, a3]" "vals = [b0, b1, b2, b3]"
    using assms by (auto simp: eval_nat_numeral length_Suc_conv)
  moreover obtain x y z where "frame_of [k, 0, a0, b0, a1, b1, a2, b2, a3, b3] (cmd_seq p + 1)
      = [k, x, a0, b0, a1, b1, a2, b2, a3, b3, y, z]"
    using frame_of_10 by blast
  ultimately show ?thesis
    by (intro exI [of _ "new_cmd [k, 0, a0, b0, a1, b1, a2, b2, a3, b3] p"])
      (simp add: poet_cmd_4_port_def pending_queue new_cmd_def assignments_def pairs_of_def)
qed

lemma filter_pad:
  assumes "length g \<le> 4" and "\<forall>(i, q) \<in> set g. i < 24" and "length vals = length g"
  shows "filter (\<lambda>(port :: u8, _). port \<noteq> 0xff) (zip (pad4 (map (\<lambda>(i, _). of_nat i) g)) (pad4 vals))
    = zip (map (\<lambda>(i, _). of_nat i) g) vals"
proof -
  have id_ok: "(of_nat i :: u8) \<noteq> 0xff" if "i < 24" for i
  proof
    assume "(of_nat i :: u8) = 0xff"
    then have "unat (of_nat i :: u8) = 255" by simp
    with that show False by (simp add: unat_of_nat)
  qed
  have "zip (pad4 (map (\<lambda>(i, _). of_nat i) g)) (pad4 vals)
      = zip (map (\<lambda>(i, _). of_nat i) g) vals @ replicate (4 - length g) (0xff, 0xff)"
    using assms(3) by (simp add: pad4_def zip_append zip_replicate)
  moreover have "filter (\<lambda>(port :: u8, _). port \<noteq> 0xff) (zip (map (\<lambda>(i, _). of_nat i) g) vals)
      = zip (map (\<lambda>(i, _). of_nat i) g) vals"
    using assms(2) id_ok by (fastforce simp: filter_id_conv dest!: set_zip_leftD)
  ultimately show ?thesis by simp
qed

lemma length_pad4: "length xs \<le> 4 \<Longrightarrow> length (pad4 xs) = 4"
  by (simp add: pad4_def)

text \<open>What is meant to be assigned to ports.\<close>

definition wanted :: "u8 \<Rightarrow> nat \<times> port_config \<Rightarrow> u8 \<times> u8" where
  "wanted k = (\<lambda>(i, q). (of_nat i, if k = 0x15 then pc_priority q else if k = 0x11 then 1
     else if pc_power_budget q \<noteq> 0 then 2 else 1))"

lemma batch_assigns:
  assumes "length g \<le> 4" and "\<forall>(i, q) \<in> set g. i < 24" and "k \<in> {0x15, 0x11, 0x12}"
  shows "\<exists>cs. cmd_pending (poet_batch g (pad4 (take (length g) [1, 1, 1, 1])) p) = cmd_pending p @ cs
    \<and> assignments k cs = map (wanted k) g"
proof -
  let ?ids = "pad4 (map (\<lambda>(i, _). of_nat i) g)"
  let ?pr = "pad4 (map (\<lambda>(_, q). pc_priority q) g)"
  let ?en = "pad4 (take (length g) [1, 1, 1, 1])"
  let ?lim = "pad4 (map (\<lambda>(_, q). if pc_power_budget q \<noteq> 0 then 2 else 1) g)"
  have ids: "length ?ids = 4" and len: "length ?pr = 4" "length ?en = 4" "length ?lim = 4"
    using assms(1) by (simp_all add: length_pad4)
  have ones: "take (length g) [1, 1, 1, 1] = map (\<lambda>_. 1 :: u8) g"
    using assms(1) by (cases g rule: list.exhaust; simp add: eval_nat_numeral)
      (auto simp: le_Suc_eq length_Suc_conv)
  define p1 where "p1 = poe_set_port_priority ?ids ?pr p"
  define p2 where "p2 = poe_cmd_port_classification ?ids ?en p1"
  define p3 where "p3 = poe_cmd_port_power_limit_type ?ids ?lim p2"
  obtain c1 where c1: "cmd_pending p1 = cmd_pending p @ [c1]"
    "assignments k [c1] = (if 0x15 = k then filter (\<lambda>(port, _). port \<noteq> 0xff) (zip ?ids ?pr) else [])"
    using assignments_4_port [OF ids len(1)] unfolding p1_def poe_set_port_priority_def by blast
  obtain c2 where c2: "cmd_pending p2 = cmd_pending p1 @ [c2]"
    "assignments k [c2] = (if 0x11 = k then filter (\<lambda>(port, _). port \<noteq> 0xff) (zip ?ids ?en) else [])"
    using assignments_4_port [OF ids len(2)] unfolding p2_def poe_cmd_port_classification_def by blast
  obtain c3 where c3: "cmd_pending p3 = cmd_pending p2 @ [c3]"
    "assignments k [c3] = (if 0x12 = k then filter (\<lambda>(port, _). port \<noteq> 0xff) (zip ?ids ?lim) else [])"
    using assignments_4_port [OF ids len(3)] unfolding p3_def poe_cmd_port_power_limit_type_def by blast
  have "assignments k ([c1] @ [c2] @ [c3]) = map (wanted k) g"
    unfolding assignments_append c1(2) c2(2) c3(2) ones
    using assms(3) by (auto simp: filter_pad [OF assms(1,2)] wanted_def zip_map_map zip_same_conv_map split_beta)
  moreover have "cmd_pending (poet_batch g ?en p) = cmd_pending p @ [c1] @ [c2] @ [c3]"
    using c1(1) c2(1) c3(1) by (simp add: poet_batch_def Let_def p1_def p2_def p3_def)
  ultimately show ?thesis by blast
qed

subsection \<open>The loop\<close>

fun enabled_from :: "nat \<Rightarrow> port_config list \<Rightarrow> (nat \<times> port_config) list" where
  "enabled_from i [] = []"
| "enabled_from i (q # qs) = (if pc_enable q then [(i, q)] else []) @ enabled_from (i + 1) qs"

lemma enabled_from_eq:
  "enabled_from i qs = [(i + k, qs ! k). k \<leftarrow> [0..<length qs], pc_enable (qs ! k)]"
proof (induction i qs rule: enabled_from.induct)
  case (2 i q qs)
  have "[(i + k, (q # qs) ! k). k \<leftarrow> map Suc [0..<length qs], pc_enable ((q # qs) ! k)]
      = [(i + 1 + k, qs ! k). k \<leftarrow> [0..<length qs], pc_enable (qs ! k)]"
    by (simp add: comp_def cong: if_cong)
  with 2 show ?case by (simp add: upt_conv_Cons map_Suc_upt [symmetric] del: upt_Suc)
qed simp

lemma enabled_from_bound: "(j, q) \<in> set (enabled_from i qs) \<Longrightarrow> j < i + length qs"
  by (induction i qs rule: enabled_from.induct) (auto split: if_split_asm)

lemma poet_gather_enabled:
  "poet_gather k i qs = (g, j) \<Longrightarrow> k < 4 \<Longrightarrow>
     length g + k \<le> 4 \<and> g @ enabled_from (j + 1) (drop (j + 1 - i) qs) = enabled_from i qs
     \<and> (length g + k < 4 \<longrightarrow> j = i + length qs)"
proof (induction k i qs arbitrary: g j rule: poet_gather.induct)
  case (2 k i q qs)
  have le: "i + 1 \<le> j" if "poet_gather k' (i + 1) qs = (g', j)" for k' g'
    using poet_gather_index [of g' j k' "i + 1" qs] that by simp
  consider (off) "\<not> pc_enable q" | (fourth) "pc_enable q" "k + 1 = 4" | (more) "pc_enable q" "k + 1 \<noteq> 4"
    by blast
  then show ?case
  proof cases
    case off
    with 2 have g: "poet_gather k (i + 1) qs = (g, j)" by simp
    from 2(1) [OF off g \<open>k < 4\<close>] le [OF g] off show ?thesis
      by (simp add: Suc_diff_le drop_Cons')
  next
    case fourth
    with 2 show ?thesis by auto
  next
    case more
    with 2(3) obtain g' where g': "poet_gather (k + 1) (i + 1) qs = (g', j)" "g = (i, q) # g'"
      by (auto split: prod.split_asm)
    have "k + 1 < 4" using more(2) 2(4) by simp
    from 2(2) [OF _ more(2) g'(1) this] le [OF g'(1)] more g'(2) show ?thesis
      by (simp add: Suc_diff_le drop_Cons')
  qed
qed simp

lemma poet_setup_from_assigns:
  "en = [1, 1, 1, 1] \<Longrightarrow> length ps \<le> 24 \<Longrightarrow> k \<in> {0x15, 0x11, 0x12} \<Longrightarrow>
     \<exists>cs. cmd_pending (poet_setup_from i en ps p) = cmd_pending p @ cs
       \<and> assignments k cs = map (wanted k) (enabled_from i (drop i ps))"
proof (induction i en ps p rule: poet_setup_from.induct)
  case (1 i en ps p)
  obtain g j where g: "poet_gather 0 i (drop i ps) = (g, j)" by (cases "poet_gather 0 i (drop i ps)")
  have len: "length g \<le> 4"
    and split: "g @ enabled_from (j + 1) (drop (j + 1) ps) = enabled_from i (drop i ps)"
    and short: "length g < 4 \<Longrightarrow> length ps \<le> j"
    using poet_gather_enabled [OF g] poet_gather_index [OF g [symmetric]] by auto
  have bound: "\<forall>(i, q) \<in> set g. i < 24"
  proof clarify
    fix m q assume "(m, q) \<in> set g"
    then have "(m, q) \<in> set (enabled_from i (drop i ps))" unfolding split [symmetric] by simp
    from enabled_from_bound [OF this] have "i < length ps \<Longrightarrow> m < length ps" by simp
    moreover have "i < length ps" using \<open>(m, q) \<in> set (enabled_from i (drop i ps))\<close> by (cases "i < length ps") simp_all
    ultimately show "m < 24" using 1(3) by simp
  qed
  let ?en = "pad4 (take (length g) en)" let ?p1 = "poet_batch g ?en p"
  obtain cs where cs: "cmd_pending ?p1 = cmd_pending p @ cs" "assignments k cs = map (wanted k) g"
    using batch_assigns [OF len bound 1(4)] 1(2) by blast
  have step: "poet_setup_from i en ps p =
      (if j + 1 < length ps then poet_setup_from (j + 1) ?en ps ?p1 else ?p1)"
    using g by (subst poet_setup_from.simps) (simp add: Let_def)
  show ?case
  proof (cases "j + 1 < length ps")
    case True
    then have "length g = 4" using len short by fastforce
    then have en: "?en = [1, 1, 1, 1]" using 1(2) by (simp add: pad4_def eval_nat_numeral)
    obtain ds where "cmd_pending (poet_setup_from (j + 1) ?en ps ?p1) = cmd_pending ?p1 @ ds"
      "assignments k ds = map (wanted k) (enabled_from (j + 1) (drop (j + 1) ps))"
      using 1(1) [OF g [symmetric] refl refl True en 1(3,4)] by blast
    with cs split [symmetric] True show ?thesis
      by (intro exI [of _ "cs @ ds"]) (simp add: step del: poet_setup_from.simps)
  next
    case False
    then show ?thesis using cs split [symmetric] by (intro exI [of _ cs]) (simp add: step del: poet_setup_from.simps)
  qed
qed

text \<open>
  C24. Setting up the ports reaches every port that is switched on, and no other: for up to 24 ports,
  the commands \<open>poet_setup\<close> adds to the queue assign, in order and once each, to every enabled port
  its priority, to every enabled port a classification, and to every enabled port the limit of its
  class or, with a budget, a limit of its own.
\<close>

theorem poet_setup_covers_enabled_ports:
  assumes "length ps \<le> 24" and "k \<in> {0x15, 0x11, 0x12}"
  shows "\<exists>cs. cmd_pending (poet_setup ps p) = cmd_pending p @ cs
    \<and> assignments k cs = [(of_nat i, if k = 0x15 then pc_priority (ps ! i) else if k = 0x11 then 1
         else if pc_power_budget (ps ! i) \<noteq> 0 then 2 else 1). i \<leftarrow> [0..<length ps], pc_enable (ps ! i)]"
proof -
  have "map (wanted k) (enabled_from 0 ps) = [(of_nat i, if k = 0x15 then pc_priority (ps ! i)
      else if k = 0x11 then 1 else if pc_power_budget (ps ! i) \<noteq> 0 then 2 else 1).
      i \<leftarrow> [0..<length ps], pc_enable (ps ! i)]"
    unfolding enabled_from_eq map_concat by (simp add: wanted_def comp_def if_distrib cong: if_cong)
  with poet_setup_from_assigns [OF refl assms, of 0 p] show ?thesis by (simp add: poet_setup_def)
qed

theorem poet_setup_covers_enabled_ports_witness:
  "\<exists>cs. cmd_pending (poet_setup (replicate 6 (zero_port_config\<lparr>pc_enable := True, pc_priority := 2\<rparr>)) zero_pse) = cs
    \<and> assignments 0x15 cs = [(0, 2), (1, 2), (2, 2), (3, 2), (4, 2), (5, 2)]"
proof -
  let ?q = "zero_port_config\<lparr>pc_enable := True, pc_priority := 2\<rparr>"
  have six: "[0..<6] = [0, 1, 2, 3, 4, 5]" by (simp add: upt_rec)
  from poet_setup_covers_enabled_ports [of "replicate 6 ?q" "0x15" zero_pse]
  show ?thesis by (simp add: six zero_pse_def)
qed

subsection \<open>A run\<close>

definition sample_poe :: "uci_section list" where
  "sample_poe = [\<lparr>uci_type = ''port'', uci_option = [''id'' \<mapsto> ''1'', ''name'' \<mapsto> ''lan1'', ''priority'' \<mapsto> ''2'']\<rparr>]"

definition sample_lan :: "uci_section list" where
  "sample_lan = [\<lparr>uci_type = ''lan'', uci_option = [''poe'' \<mapsto> ''enable'']\<rparr>]"

definition sample_pse :: "(config \<times> pse) option" where
  "sample_pse = pse_main 650 65 1 sample_poe sample_lan"

text \<open>The answer to the first command, a query of the system; and one to a later query of power.\<close>

definition sample_reply :: "u8 list" where
  "sample_reply = [0x40, 1, 2, 8, 0, 0, 0, 3, 1, 0, 1, 80]"

lemma sample_run:
  assumes "case Option.bind sample_pse (pse_run es) of None \<Rightarrow> False | Some s \<Rightarrow> P s"
  shows "\<exists>s0 c p. sample_pse = Some s0 \<and> pse_run es s0 = Some (c, p) \<and> pse_reachable (c, p) \<and> P (c, p)"
proof -
  from assms obtain s0 c p where s: "sample_pse = Some s0" "pse_run es s0 = Some (c, p)" "P (c, p)"
    by (auto simp: bind_eq_Some_conv split: option.split_asm)
  have "pse_reachable (c, p)"
    using s(1) pse_run_reachable [OF main s(2)] unfolding sample_pse_def by blast
  with s show ?thesis by blast
qed

theorem reachable_queue_discipline_witness:
  "\<exists>c p. pse_reachable (c, p) \<and> map fst (tx p) = [0, 1] \<and> (\<forall>q. count_list (map fst (tx p)) q \<le> 6)
    \<and> sorted_wrt (<) (map cmd_ptr (cmd_pending p))"
proof -
  have "case Option.bind sample_pse (pse_run [Bytes sample_reply]) of None \<Rightarrow> False
      | Some s \<Rightarrow> map fst (tx (snd s)) = [0, 1]" by code_simp
  from sample_run [OF this] obtain c p where "pse_reachable (c, p)" "map fst (tx p) = [0, 1]" by auto
  with reachable_queue_discipline [of c p] show ?thesis by (intro exI [of _ c] exI [of _ p]) simp
qed

theorem reply_accepted_only_if_expected_witness:
  "\<exists>p res p'. poe_reply_consume sample_reply p = Some (res, p') \<and> num_detected_ports (st p') = 8
    \<and> cmd_pending p' = tl (cmd_pending p) \<and> tx p' = tx p"
proof -
  have "case Option.bind sample_pse (pse_run []) of None \<Rightarrow> False
      | Some s \<Rightarrow> num_detected_ports (st (snd s)) = 0
          \<and> (case poe_reply_consume sample_reply (snd s) of None \<Rightarrow> False
              | Some r \<Rightarrow> num_detected_ports (st (snd r)) = 8)" by code_simp
  from sample_run [OF this] obtain p res p' where
    p: "num_detected_ports (st p) = 0" "poe_reply_consume sample_reply p = Some (res, p')"
       "num_detected_ports (st p') = 8"
    by (auto split: option.split_asm)
  then have "st p' \<noteq> st p" by auto
  with reply_accepted_only_if_expected [OF p(2)] p show ?thesis by blast
qed

theorem lost_reply_stalls_witness:
  "\<exists>c p c' p'. pse_run [Poll, Manage (Some ''lan1'') (Some False), Poll] (c, p) = Some (c', p')
    \<and> tx p' = tx p \<and> length (cmd_pending p') > length (cmd_pending p)"
proof -
  let ?es = "[Poll, Manage (Some ''lan1'') (Some False), Poll]"
  have "case Option.bind sample_pse (pse_run []) of None \<Rightarrow> False
      | Some s \<Rightarrow> cmd_pending (snd s) \<noteq> [] \<and> \<not> mcu_error_timeout (snd s)
          \<and> (case pse_run ?es s of None \<Rightarrow> False
              | Some t \<Rightarrow> length (cmd_pending (snd t)) > length (cmd_pending (snd s)))" by code_simp
  from sample_run [OF this] obtain c p c' p' where
    p: "pse_reachable (c, p)" "cmd_pending p \<noteq> []" "\<not> mcu_error_timeout p"
      and run: "pse_run ?es (c, p) = Some (c', p')" "length (cmd_pending p') > length (cmd_pending p)"
    by (auto split: option.split_asm simp del: pse_run.simps)
  have "\<forall>e \<in> set ?es. silent e" by simp
  from lost_reply_stalls [OF p this run(1)] run show ?thesis by blast
qed

theorem port_budget_never_set_witness:
  "\<exists>c p. pse_reachable (c, p) \<and> length (tx p) = 2 \<and> list_all (\<lambda>(q, f). f ! 0 \<notin> {0x09, 0x0F, 0x13}) (tx p)"
proof -
  have "case Option.bind sample_pse (pse_run [Bytes sample_reply, Poll]) of None \<Rightarrow> False
      | Some s \<Rightarrow> length (tx (snd s)) = 2" by code_simp
  from sample_run [OF this] obtain s0 c p where s: "sample_pse = Some s0"
    "pse_run [Bytes sample_reply, Poll] s0 = Some (c, p)" "pse_reachable (c, p)" "length (tx p) = 2" by auto
  from port_budget_never_set [OF s(1) [unfolded sample_pse_def] _ s(2)] s show ?thesis by auto
qed

end
