(* ===== verification/DM_Types.thy ===== *)
theory DM_Types
  imports AR_Text
begin

section \<open>The device monitor: its data and the text it reads\<close>

text \<open>
  \<^verbatim>\<open>tf_device_monitor/src\<close>: the types of \<^verbatim>\<open>dm_mainHeader.h\<close>,
  \<^verbatim>\<open>state_handler.h\<close> and \<^verbatim>\<open>settings_module.h\<close>, the variables of the program, and how it
  reads the output of the commands it runs.
\<close>

subsection \<open>Constants\<close>

abbreviation (input) MAX_BUFFER_SIZE :: nat where "MAX_BUFFER_SIZE \<equiv> 1550"
abbreviation (input) SETT_BUFF_SIZE :: nat where "SETT_BUFF_SIZE \<equiv> 1063"

text \<open>\<^verbatim>\<open>error_code_t\<close>, combined with \<^verbatim>\<open>|=\<close> and \<^verbatim>\<open>^=\<close>.\<close>

abbreviation (input) ERR_OK_dm :: u32 where "ERR_OK_dm \<equiv> 0"
abbreviation (input) ERR_AUTHENTICATION :: u32 where "ERR_AUTHENTICATION \<equiv> 1"
abbreviation (input) ERR_CONFIGURATION :: u32 where "ERR_CONFIGURATION \<equiv> 2"
abbreviation (input) ERR_OBJ_NOT_FOUND :: u32 where "ERR_OBJ_NOT_FOUND \<equiv> 3"
abbreviation (input) ERR_UNAVAILABLE_RESOURCE :: u32 where "ERR_UNAVAILABLE_RESOURCE \<equiv> 4"
abbreviation (input) ERR_NETWORK :: u32 where "ERR_NETWORK \<equiv> 5"
abbreviation (input) INFO_MAC_NOT_IDENTICAL :: u32 where "INFO_MAC_NOT_IDENTICAL \<equiv> 6"

abbreviation (input) pass_mac :: u32 where "pass_mac \<equiv> 0x001"
abbreviation (input) pass_md5 :: u32 where "pass_md5 \<equiv> 0x002"

abbreviation (input) request_find_device :: u8 where "request_find_device \<equiv> 0xE0"
abbreviation (input) ack_find_device :: u8 where "ack_find_device \<equiv> 0xE1"
abbreviation (input) request_set_config :: u8 where "request_set_config \<equiv> 0xE2"
abbreviation (input) ack_to_set_config :: u8 where "ack_to_set_config \<equiv> 0xE3"
abbreviation (input) request_to_update :: u8 where "request_to_update \<equiv> 0xE4"

abbreviation (input) type_idle :: nat where "type_idle \<equiv> 0"
abbreviation (input) type_searchMsg :: nat where "type_searchMsg \<equiv> 1"
abbreviation (input) type_settingsMsg :: nat where "type_settingsMsg \<equiv> 2"

abbreviation (input) CMD_MAX :: nat where "CMD_MAX \<equiv> 4"

abbreviation (input) CLIENT_EVENT_FIND :: u32 where "CLIENT_EVENT_FIND \<equiv> 0x0002"
abbreviation (input) CLIENT_EVENT_MSG_READY :: u32 where "CLIENT_EVENT_MSG_READY \<equiv> 0x0008"
abbreviation (input) CLIENT_EVENT_SETTINGS :: u32 where "CLIENT_EVENT_SETTINGS \<equiv> 0x0010"
abbreviation (input) CLIENT_EVENT_UPDATE :: u32 where "CLIENT_EVENT_UPDATE \<equiv> 0x0020"
abbreviation (input) CLIENT_EVENT_NET_RELOAD :: u32 where "CLIENT_EVENT_NET_RELOAD \<equiv> 0x0040"
abbreviation (input) CLIENT_EVENT_SYS_RELOAD :: u32 where "CLIENT_EVENT_SYS_RELOAD \<equiv> 0x0080"

datatype client_state = CLIENT_SATE_IDLE | CLIENT_SATE_INIT | CLIENT_STATE_WAIT
  | CLIENT_STATE_FILL_MSG | CLIENT_STATE_SEND | CLIENT_STATE_SETTINGS | CLIENT_STATE_RELOAD

text \<open>The functions whose addresses are put into the arrays of callbacks.\<close>

datatype fill_callback = Fill_fillNetInfo | Fill_getTimeInfo | Fill_getBoardInfo | Fill_getSystemInfo
datatype send_callback = Send_sendSearchMsg | Send_sendSettMsg

subsection \<open>Messages\<close>

text \<open>
  The answer to a search, a union of its fields and of its 444 octets: \<open>search_buff\<close> is the second
  view of the record.
\<close>

record search_out_msg =
  so_msg_type :: u8
  so_dev_type :: u8
  so_ip :: "u8 list"
  so_mac :: "u8 list"
  so_dev_descr :: "u8 list"
  so_dev_loc :: "u8 list"
  so_uptime :: "u8 list"
  so_firmware :: "u8 list"
  so_mask :: "u8 list"
  so_gate :: "u8 list"
  so_mac_entry :: "u8 list"

definition search_buff :: "search_out_msg \<Rightarrow> u8 list" where
  "search_buff m = [so_msg_type m, so_dev_type m] @ so_ip m @ so_mac m @ so_dev_descr m @ so_dev_loc m
     @ so_uptime m @ so_firmware m @ so_mask m @ so_gate m @ so_mac_entry m"

definition search_out_ok :: "search_out_msg \<Rightarrow> bool" where
  "search_out_ok m \<longleftrightarrow> length (so_ip m) = 4 \<and> length (so_mac m) = 6 \<and> length (so_dev_descr m) = 128
     \<and> length (so_dev_loc m) = 128 \<and> length (so_uptime m) = 4 \<and> length (so_firmware m) = 4
     \<and> length (so_mask m) = 4 \<and> length (so_gate m) = 4 \<and> length (so_mac_entry m) = 160"

definition zero_search_out :: search_out_msg where
  "zero_search_out =
     \<lparr>so_msg_type = 0, so_dev_type = 0, so_ip = replicate 4 0, so_mac = replicate 6 0,
      so_dev_descr = replicate 128 0, so_dev_loc = replicate 128 0, so_uptime = replicate 4 0,
      so_firmware = replicate 4 0, so_mask = replicate 4 0, so_gate = replicate 4 0,
      so_mac_entry = replicate 160 0\<rparr>"

lemma length_search_buff [simp]: "search_out_ok m \<Longrightarrow> length (search_buff m) = 444"
  by (simp add: search_out_ok_def search_buff_def)

lemma search_out_ok_zero [simp]: "search_out_ok zero_search_out"
  by (simp add: search_out_ok_def zero_search_out_def)

text \<open>A request for settings is the union of 1063 octets; these are its fields.\<close>

definition sett_mac :: "u8 list \<Rightarrow> u8 list" where
  "sett_mac b = take 6 (drop 1 b)"

definition sett_pass_md5 :: "u8 list \<Rightarrow> u8 list" where
  "sett_pass_md5 b = take 32 (drop 7 b)"

definition sett_msg :: "u8 list \<Rightarrow> u8 list" where
  "sett_msg b = drop 39 b"

record switch_net_param =
  np_ifName :: "u8 list"
  np_deviceName :: "u8 list"
  np_mac_addr :: "u8 list"
  np_ip_addr :: "u8 list"
  np_net_mask :: "u8 list"
  np_getWay :: "u8 list"

definition net_param_ok :: "switch_net_param \<Rightarrow> bool" where
  "net_param_ok n \<longleftrightarrow> length (np_ifName n) = 16 \<and> length (np_deviceName n) = 16
     \<and> length (np_mac_addr n) = 6 \<and> length (np_ip_addr n) = 4
     \<and> length (np_net_mask n) = 4 \<and> length (np_getWay n) = 4"

definition zero_net_param :: switch_net_param where
  "zero_net_param = \<lparr>np_ifName = replicate 16 0, np_deviceName = replicate 16 0,
     np_mac_addr = replicate 6 0, np_ip_addr = replicate 4 0, np_net_mask = replicate 4 0,
     np_getWay = replicate 4 0\<rparr>"

lemma net_param_ok_zero [simp]: "net_param_ok zero_net_param"
  by (simp add: net_param_ok_def zero_net_param_def)

subsection \<open>The variables of the program, and its environment\<close>

text \<open>
  What leaves the program: datagrams and command lines given to \<^verbatim>\<open>popen\<close>. Both are kept in
  \<open>dm_out\<close>, in the order in which they were made; \<open>dm_fds\<close> counts sockets opened and not closed.
\<close>

datatype dm_output = Datagram "u8 list" | Command string

record dm =
  ci_state :: client_state
  ci_event :: u32
  ci_msgType :: nat
  ci_count :: nat
  fillArray :: "fill_callback option list"
  sendArray :: "send_callback option list"
  searchOutMsg :: search_out_msg
  settBuff :: "u8 list"
  settLen :: u32
  passFlag :: u32
  rcvBuffer :: "u8 list"
  bufferLen :: int
  cfgDeviceName :: string
  switchNetParam :: switch_net_param
  setDHCP :: u8
  applyNetwork :: u8
  applySystem :: u8
  locationTestFlag :: int
  dm_out :: "dm_output list"
  dm_fds :: nat

text \<open>
  The answers of the system during one call of \<open>client_handler\<close>: the datagram received, what a
  command prints, and whether the calls on sockets succeed (\<open>opt_ok\<close>: the first option, \<open>bind_ok\<close>:
  the option that binds to the device, \<open>io_ok\<close>: \<^verbatim>\<open>bind\<close> or \<^verbatim>\<open>sendto\<close>).
\<close>

record env =
  received :: "u8 list option"
  prints :: "string \<Rightarrow> string option"
  sock_ok :: bool
  opt_ok :: bool
  bind_ok :: bool
  io_ok :: bool

definition dm_layout :: "dm \<Rightarrow> bool" where
  "dm_layout p \<longleftrightarrow> search_out_ok (searchOutMsg p) \<and> net_param_ok (switchNetParam p)
     \<and> length (settBuff p) = SETT_BUFF_SIZE \<and> length (rcvBuffer p) = MAX_BUFFER_SIZE
     \<and> length (fillArray p) = 5 \<and> length (sendArray p) = 4"

subsection \<open>C strings and lines\<close>

definition bytes_of :: "string \<Rightarrow> u8 list" where
  "bytes_of s = map (\<lambda>c. of_nat (of_char c)) s"

definition cstring_of :: "u8 list \<Rightarrow> string" where
  "cstring_of b = map (\<lambda>x. char_of (unat x)) (takeWhile (\<lambda>x. x \<noteq> 0) b)"

abbreviation (input) newline :: char where "newline \<equiv> CHR 0x0A"
abbreviation (input) NUL :: char where "NUL \<equiv> CHR 0x00"

text \<open>\<^verbatim>\<open>output[strcspn(output, "\n")] = 0\<close>, and comparing a line.\<close>

definition chomp :: "string \<Rightarrow> string" where
  "chomp s = takeWhile (\<lambda>c. c \<noteq> NUL \<and> c \<noteq> newline) s"

definition line_is :: "string \<Rightarrow> string \<Rightarrow> bool" where
  "line_is s l \<longleftrightarrow> takeWhile (\<lambda>c. c \<noteq> NUL) s = l @ [newline]"

text \<open>\<^verbatim>\<open>fgets\<close> into a buffer of 128 octets reads at most 127 of them.\<close>

fun fgets_line :: "nat \<Rightarrow> string \<Rightarrow> string" where
  "fgets_line 0 s = []"
| "fgets_line (Suc n) [] = []"
| "fgets_line (Suc n) (c # s) = (if c = newline then [c] else c # fgets_line n s)"

lemma fgets_line_Nil [simp]: "fgets_line (Suc n) s = [] \<longleftrightarrow> s = []"
  by (cases s) auto

function fgets_lines :: "string \<Rightarrow> string list" where
  "fgets_lines s =
    (if s = [] then []
     else (let l = fgets_line 127 s in l # fgets_lines (drop (length l) s)))"
  by pat_completeness auto

termination
proof (relation "measure length")
  fix s l assume "s \<noteq> []" and "l = fgets_line 127 s"
  moreover have "fgets_line (Suc 126) s \<noteq> []" using \<open>s \<noteq> []\<close> by (simp only: fgets_line_Nil not_False_eq_True)
  ultimately show "(drop (length l) s, s) \<in> measure length" by simp
qed simp

declare fgets_lines.simps [simp del]

lemma fgets_line_take: "fgets_line n s = take (length (fgets_line n s)) s"
  by (induction n s rule: fgets_line.induct) auto

lemma length_fgets_line: "length (fgets_line n s) \<le> n"
  by (induction n s rule: fgets_line.induct) auto

text \<open>The lines are the output cut up: nothing is lost, and none is longer than the buffer.\<close>

lemma concat_fgets_lines: "concat (fgets_lines s) = s"
proof (induction s rule: fgets_lines.induct)
  case (1 s)
  then show ?case
    using fgets_line_take [of 127 s]
    by (subst fgets_lines.simps) (auto simp: Let_def, metis append_take_drop_id)
qed

lemma fgets_lines_short: "l \<in> set (fgets_lines s) \<Longrightarrow> length l \<le> 127"
proof (induction s rule: fgets_lines.induct)
  case (1 s)
  then show ?case
    using length_fgets_line [of 127 s]
    by (subst (asm) fgets_lines.simps) (auto simp: Let_def split: if_splits)
qed

lemma length_chomp: "length (chomp s) \<le> length s"
  by (simp add: chomp_def length_takeWhile_le)

lemma length_bytes_of [simp]: "length (bytes_of s) = length s"
  by (simp add: bytes_of_def)

lemma unat_of_char [simp]: "unat (of_nat (of_char c) :: u8) = of_char c"
proof -
  have "(of_char c :: nat) < 256" by simp
  then show ?thesis by (simp add: unat_of_nat)
qed

lemma of_char_eq_0_iff: "(of_nat (of_char c) :: u8) = 0 \<longleftrightarrow> c = NUL"
proof
  assume "(of_nat (of_char c) :: u8) = 0"
  then have "unat (of_nat (of_char c) :: u8) = 0" by simp
  then have "(of_char c :: nat) = of_char NUL" by (simp only: unat_of_char) simp
  then show "c = NUL" by (simp only: of_char_eq_iff)
qed simp

lemma cstring_of_bytes:
  assumes "NUL \<notin> set s"
  shows "cstring_of (bytes_of s) = s" and "cstring_of (bytes_of s @ 0 # t) = s"
proof -
  have *: "\<forall>x \<in> set (bytes_of s). x \<noteq> 0"
    using assms by (auto simp: bytes_of_def of_char_eq_0_iff simp del: of_nat_of_char)
  then have "takeWhile (\<lambda>x. x \<noteq> 0) (bytes_of s) = bytes_of s"
    by (simp add: takeWhile_eq_all_conv)
  moreover have "takeWhile (\<lambda>x. x \<noteq> 0) (bytes_of s @ 0 # t) = bytes_of s"
    using * by (subst takeWhile_append2) auto
  moreover have "map (\<lambda>x. char_of (unat x)) (bytes_of s) = s"
    by (simp add: bytes_of_def comp_def del: of_nat_of_char)
  ultimately show "cstring_of (bytes_of s) = s" and "cstring_of (bytes_of s @ 0 # t) = s"
    by (simp_all only: cstring_of_def)
qed

subsection \<open>\<^verbatim>\<open>strtok\<close>, addresses\<close>

text \<open>The tokens of a text: its longest parts without a delimiter.\<close>

function strtok_list :: "string \<Rightarrow> string \<Rightarrow> string list" where
  "strtok_list delim s =
    (let s1 = dropWhile (\<lambda>c. c \<in> set delim) s
     in if s1 = [] then []
        else takeWhile (\<lambda>c. c \<notin> set delim) s1
             # strtok_list delim (dropWhile (\<lambda>c. c \<notin> set delim) s1))"
  by pat_completeness auto

termination
proof (relation "measure (\<lambda>(d, s). length s)")
  fix delim s s1
  assume s1: "s1 = dropWhile (\<lambda>c :: char. c \<in> set delim) s" and ne: "s1 \<noteq> []"
  then have hd: "hd s1 \<notin> set delim" using hd_dropWhile by metis
  have "length (dropWhile (\<lambda>c. c \<notin> set delim) s1) < length s1"
    using hd ne length_dropWhile_le [of "\<lambda>c. c \<notin> set delim" "tl s1"] by (cases s1) auto
  also have "length s1 \<le> length s" using s1 by (simp add: length_dropWhile_le)
  finally show "((delim, dropWhile (\<lambda>c. c \<notin> set delim) s1), (delim, s)) \<in> measure (\<lambda>(d, s). length s)"
    by simp
qed simp

declare strtok_list.simps [simp del]

text \<open>\<^verbatim>\<open>atoi\<close>: \<^verbatim>\<open>int\<close> and \<^verbatim>\<open>long\<close> have 32 bits.\<close>

definition atoi :: "string \<Rightarrow> int" where
  "atoi s = strtol s"

fun convert_ip_from :: "string list \<Rightarrow> nat \<Rightarrow> u8 list \<Rightarrow> int \<times> u8 list" where
  "convert_ip_from [] index ip = (if index = 4 then 0 else - 1, ip)"
| "convert_ip_from (t # ts) index ip =
    (if index < 4
     then (let num = atoi t
           in if num < 0 \<or> num > 255 then (- 1, ip)
              else convert_ip_from ts (index + 1) (ip[index := of_int num]))
     else (0, ip))"

definition convert_ip_to_uint8 :: "string \<Rightarrow> u8 list \<Rightarrow> int \<times> u8 list" where
  "convert_ip_to_uint8 s ip = convert_ip_from (strtok_list ''.'' s) 0 ip"

text \<open>\<^verbatim>\<open>%hhx\<close> of \<^verbatim>\<open>sscanf\<close>: the octet and the rest of the text.\<close>

definition hex_value :: "char \<Rightarrow> nat option" where
  "hex_value c =
    (let n = of_char c in
     if 48 \<le> n \<and> n \<le> 57 then Some (n - 48)
     else if 65 \<le> n \<and> n \<le> 70 then Some (n - 55)
     else if 97 \<le> n \<and> n \<le> 102 then Some (n - 87) else None)"

definition hex_number :: "string \<Rightarrow> int" where
  "hex_number ds = foldl (\<lambda>n c. 16 * n + int (the (hex_value c))) 0 ds"

definition scan_hhx :: "string \<Rightarrow> (u8 \<times> string) option" where
  "scan_hhx s0 =
    (let s1 = dropWhile is_space s0;
         neg = (s1 \<noteq> [] \<and> hd s1 = CHR ''-'');
         s2 = (if s1 \<noteq> [] \<and> hd s1 \<in> {CHR ''-'', CHR ''+''} then tl s1 else s1);
         s3 = (if take 2 s2 \<in> {''0x'', ''0X''} then drop 2 s2 else s2);
         ds = takeWhile (\<lambda>c. hex_value c \<noteq> None) s3;
         n = min (2 ^ 64 - 1) (hex_number ds)
     in if ds = [] then None
        else Some (of_int (if neg then - n else n), dropWhile (\<lambda>c. hex_value c \<noteq> None) s3))"

fun convert_mac_from :: "nat list \<Rightarrow> string \<Rightarrow> u8 list \<Rightarrow> int \<times> u8 list" where
  "convert_mac_from [] s mac = (6, mac)"
| "convert_mac_from (i # is) s mac =
    (case scan_hhx s of
       None \<Rightarrow> (if i = 0 \<and> dropWhile is_space s = [] then - 1 else int i, mac)
     | Some (v, r) \<Rightarrow>
         if is \<noteq> [] \<and> (r = [] \<or> hd r \<noteq> CHR '':'') then (int i + 1, mac[i := v])
         else convert_mac_from is (tl r) (mac[i := v]))"

definition convert_mac_to_uint8 :: "string \<Rightarrow> u8 list \<Rightarrow> int \<times> u8 list" where
  "convert_mac_to_uint8 s mac = convert_mac_from [0..<6] s mac"

lemma length_convert_ip [simp]: "length (snd (convert_ip_to_uint8 s ip)) = length ip"
proof -
  have "length (snd (convert_ip_from ts i ip)) = length ip" for ts i ip
    by (induction ts i ip rule: convert_ip_from.induct) (simp_all add: Let_def)
  then show ?thesis by (simp add: convert_ip_to_uint8_def)
qed

lemma length_convert_mac [simp]: "length (snd (convert_mac_to_uint8 s mac)) = length mac"
proof -
  have "length (snd (convert_mac_from is s mac)) = length mac" for "is" s mac
    by (induction "is" s mac rule: convert_mac_from.induct) (auto split: option.splits)
  then show ?thesis by (simp add: convert_mac_to_uint8_def)
qed

end
