(* ===== verification/DM_Info.thy ===== *)
theory DM_Info
  imports DM_Types
begin

section \<open>The device monitor: information about the switch, and sockets\<close>

text \<open>
  \<^verbatim>\<open>run_CLIcmd.c\<close> fills the answer to a search with what scripts print, and
  \<^verbatim>\<open>net_utils.c\<close> receives and sends datagrams in one buffer. \<^term>\<open>None\<close> is an access
  outside an array or through a null pointer.
\<close>

subsection \<open>Commands\<close>

definition CommandTable :: "string list" where
  "CommandTable =
    [''/etc/tf_device_monitor_scripts/getNetData.lua'', ''/etc/tf_device_monitor_scripts/getUptime.lua'',
     ''/etc/tf_device_monitor_scripts/getBoardInfo.lua'',
     ''/etc/tf_device_monitor_scripts/getSystemInfo.lua'']"

definition openPipe :: "env \<Rightarrow> string \<Rightarrow> dm \<Rightarrow> string option \<times> dm" where
  "openPipe v cmdStr p =
    (case prints v cmdStr of
       None \<Rightarrow> (None, p)
     | Some text \<Rightarrow> (Some text, p\<lparr>dm_out := dm_out p @ [Command cmdStr]\<rparr>))"

text \<open>The lines a loop over \<^verbatim>\<open>fgets\<close> sees; the stream may be a null pointer.\<close>

definition read_pipe :: "env \<Rightarrow> string \<Rightarrow> dm \<Rightarrow> (string list \<times> dm) option" where
  "read_pipe v cmdStr p =
    (case openPipe v cmdStr p of
       (None, p1) \<Rightarrow> None
     | (Some text, p1) \<Rightarrow> Some (fgets_lines text, p1))"

subsection \<open>The network\<close>

definition copy_name :: "string \<Rightarrow> u8 list \<Rightarrow> u8 list option" where
  "copy_name s buf =
    (if length s < 16 then Some (bytes_of s @ drop (length s) (buf[0 := 0])) else None)"

definition net_line :: "string \<Rightarrow> nat \<times> u32 \<times> switch_net_param \<Rightarrow> (nat \<times> u32 \<times> switch_net_param) option"
  where
  "net_line line c =
    (case c of (lineCount, ec, q) \<Rightarrow>
      let s = chomp line in
      if lineCount = 0
      then if s = ''found'' then Some (1, ec, q)
           else if s = ''not_found'' then Some (0, ERR_CONFIGURATION OR ERR_NETWORK, q)
           else Some (0, ERR_CONFIGURATION, q)
      else if lineCount = 1 then
        do { name \<leftarrow> copy_name s (np_deviceName q); Some (2, ec, q\<lparr>np_deviceName := name\<rparr>) }
      else if lineCount = 2 then
        do { name \<leftarrow> copy_name s (np_ifName q); Some (3, ec, q\<lparr>np_ifName := name\<rparr>) }
      else if lineCount = 3 then
        Some (4, ec, q\<lparr>np_mac_addr := snd (convert_mac_to_uint8 s (np_mac_addr q))\<rparr>)
      else if lineCount = 4 then
        Some (5, ec, q\<lparr>np_ip_addr := snd (convert_ip_to_uint8 s (np_ip_addr q))\<rparr>)
      else if lineCount = 5 then
        Some (6, ec, q\<lparr>np_net_mask := snd (convert_ip_to_uint8 s (np_net_mask q))\<rparr>)
      else if lineCount = 6 then
        Some (7, ec, q\<lparr>np_getWay := snd (convert_ip_to_uint8 s (np_getWay q))\<rparr>)
      else Some c)"

fun net_lines :: "string list \<Rightarrow> nat \<times> u32 \<times> switch_net_param \<Rightarrow> (nat \<times> u32 \<times> switch_net_param) option"
  where
  "net_lines [] c = Some c"
| "net_lines (l # ls) c = do { c1 \<leftarrow> net_line l c; net_lines ls c1 }"

definition getNetInfo :: "env \<Rightarrow> dm \<Rightarrow> (u32 \<times> dm) option" where
  "getNetInfo v p =
    do { (ls, p1) \<leftarrow> read_pipe v (CommandTable ! 0 @ '' '' @ cfgDeviceName p) p;
         (_, ec, q) \<leftarrow> net_lines ls (0, ERR_OK_dm, switchNetParam p1);
         Some (ec, p1\<lparr>switchNetParam := q\<rparr>) }"

definition setNetInfo :: "search_out_msg \<Rightarrow> switch_net_param \<Rightarrow> search_out_msg" where
  "setNetInfo m q =
     m\<lparr>so_mac := np_mac_addr q, so_ip := np_ip_addr q, so_mask := np_net_mask q, so_gate := np_getWay q\<rparr>"

definition fillNetInfo :: "dm \<Rightarrow> dm" where
  "fillNetInfo p = p\<lparr>searchOutMsg := setNetInfo (searchOutMsg p) (switchNetParam p)\<rparr>"

subsection \<open>Time since the start\<close>

text \<open>Stored with the low octet first; \<open>uptime_value\<close> is how \<^verbatim>\<open>mainTest\<close> reads it back.\<close>

definition uptime_bytes :: "u32 \<Rightarrow> u8 list" where
  "uptime_bytes d =
    [ucast (d AND 0xFF), ucast (drop_bit 8 d AND 0xFF), ucast (drop_bit 16 d AND 0xFF),
     ucast (drop_bit 24 d AND 0xFF)]"

definition uptime_value :: "u8 list \<Rightarrow> u32" where
  "uptime_value b =
     0 OR push_bit 24 (ucast (b ! 3) AND 0xFFFFFFFF) OR push_bit 16 (ucast (b ! 2) AND 0xFFFFFFFF)
       OR push_bit 8 (ucast (b ! 1) AND 0xFFFFFFFF) OR (ucast (b ! 0) AND 0xFFFFFFFF)"

definition time_line :: "string \<Rightarrow> u8 \<times> search_out_msg \<Rightarrow> u8 \<times> search_out_msg" where
  "time_line line c =
    (case c of (lineCount, m) \<Rightarrow>
      let lineCount = lineCount + 1 in
      if lineCount = 1 then (lineCount, m\<lparr>so_uptime := uptime_bytes (of_int (strtol line))\<rparr>)
      else (lineCount, m))"

definition getTimeInfo :: "env \<Rightarrow> dm \<Rightarrow> dm option" where
  "getTimeInfo v p =
    do { (ls, p1) \<leftarrow> read_pipe v (CommandTable ! 1) p;
         Some (p1\<lparr>searchOutMsg := snd (fold time_line ls (0, searchOutMsg p1))\<rparr>) }"

subsection \<open>Model and firmware\<close>

definition board_line :: "string \<Rightarrow> u8 \<times> nat \<times> search_out_msg \<Rightarrow> u8 \<times> nat \<times> search_out_msg" where
  "board_line line c =
    (case c of (lineCount, fw_version_count, m) \<Rightarrow>
      let lineCount = lineCount + 1; s = chomp line in
      if lineCount = 1
      then let modelType = of_int (strtol s) in
           (lineCount, fw_version_count, if modelType > 0 then m\<lparr>so_dev_type := modelType\<rparr>
                                         else m\<lparr>so_dev_type := 0\<rparr>)
      else if 2 \<le> lineCount \<and> lineCount \<le> 4
      then let m1 = m\<lparr>so_firmware := (so_firmware m)[fw_version_count := of_int (strtol s)]\<rparr> in
           (lineCount, if fw_version_count > 0 then fw_version_count - 1 else fw_version_count, m1)
      else (lineCount, fw_version_count, m))"

definition getBoardInfo :: "env \<Rightarrow> dm \<Rightarrow> dm option" where
  "getBoardInfo v p =
    do { (ls, p1) \<leftarrow> read_pipe v (CommandTable ! 2) p;
         Some (p1\<lparr>searchOutMsg := snd (snd (fold board_line ls (0, 2, searchOutMsg p1)))\<rparr>) }"

subsection \<open>Location and description\<close>

definition padded :: "string \<Rightarrow> u8 list" where
  "padded s = bytes_of s @ replicate (128 - length s) 0"

definition system_line :: "string \<Rightarrow> u8 \<times> search_out_msg \<Rightarrow> u8 \<times> search_out_msg" where
  "system_line line c =
    (case c of (lineCount, m) \<Rightarrow>
      let lineCount = lineCount + 1; s = chomp line in
      if lineCount = 1 then (lineCount, m\<lparr>so_dev_loc := (padded s)[127 := 0x7F]\<rparr>)
      else if lineCount = 2 then (lineCount, m\<lparr>so_dev_descr := padded s\<rparr>)
      else (lineCount, m))"

definition getSystemInfo :: "env \<Rightarrow> dm \<Rightarrow> dm option" where
  "getSystemInfo v p =
    do { (ls, p1) \<leftarrow> read_pipe v (CommandTable ! 3) p;
         Some (p1\<lparr>searchOutMsg := snd (fold system_line ls (0, searchOutMsg p1))\<rparr>) }"

subsection \<open>Sockets\<close>

definition net_socketInit :: "env \<Rightarrow> dm \<Rightarrow> (u32 \<times> dm) option" where
  "net_socketInit v p =
    do { (ec, p1) \<leftarrow> getNetInfo v p;
         Some (if \<not> sock_ok v then (ERR_NETWORK, p1)
               else if \<not> opt_ok v then (ERR_NETWORK, p1)
               else if \<not> bind_ok v then (ERR_NETWORK, p1\<lparr>dm_fds := dm_fds p1 + 1\<rparr>)
               else if \<not> io_ok v then (ERR_NETWORK, p1)
               else (ec, p1\<lparr>dm_fds := dm_fds p1 + 1\<rparr>)) }"

text \<open>
  The terminating zero goes to \<^verbatim>\<open>buffer[bufferLen]\<close>, before the buffer when nothing could be
  received and behind it when the datagram fills it.
\<close>

definition net_getCommand :: "env \<Rightarrow> dm \<Rightarrow> (u8 \<times> dm) option" where
  "net_getCommand v p =
    (case received v of
       None \<Rightarrow> None
     | Some d \<Rightarrow>
         let got = take MAX_BUFFER_SIZE d; n = length got in
         if n < MAX_BUFFER_SIZE
         then let b = got @ 0 # drop (n + 1) (rcvBuffer p) in
              Some (b ! 0, p\<lparr>rcvBuffer := b, bufferLen := int n\<rparr>)
         else None)"

definition getBuffer :: "dm \<Rightarrow> dm option" where
  "getBuffer p =
    (if bufferLen p > 0
     then let n = nat (bufferLen p) in
          if n \<le> SETT_BUFF_SIZE
          then Some (p\<lparr>settBuff := take n (rcvBuffer p) @ drop n (settBuff p)\<rparr>)
          else None
     else Some p)"

definition getBufferLen :: "dm \<Rightarrow> dm" where
  "getBufferLen p = p\<lparr>settLen := of_int (bufferLen p - 39)\<rparr>"

definition net_sendMsg :: "env \<Rightarrow> dm \<Rightarrow> u32 \<times> dm" where
  "net_sendMsg v p =
    (if \<not> sock_ok v then (ERR_NETWORK, p)
     else let p1 = p\<lparr>dm_fds := dm_fds p + 1\<rparr> in
       if \<not> opt_ok v then (ERR_NETWORK, p1)
       else if \<not> bind_ok v then (ERR_NETWORK, p1)
       else if \<not> io_ok v then (ERR_NETWORK, p1)
       else (0, p1\<lparr>dm_out := dm_out p1 @ [Datagram (take (nat (bufferLen p1)) (rcvBuffer p1))],
                   dm_fds := dm_fds p1 - 1\<rparr>))"

definition set_DevName :: "string \<Rightarrow> dm \<Rightarrow> dm option" where
  "set_DevName inputName p =
    (if length inputName < 16 then Some (p\<lparr>cfgDeviceName := inputName\<rparr>) else None)"

subsection \<open>What they keep\<close>

text \<open>Everything but the answer to a search and the outputs, when a piece of it is filled in.\<close>

definition only_search :: "dm \<Rightarrow> dm \<Rightarrow> bool" where
  "only_search p p' \<longleftrightarrow>
     p' = p\<lparr>searchOutMsg := searchOutMsg p', dm_out := dm_out p'\<rparr>
     \<and> (search_out_ok (searchOutMsg p) \<and> net_param_ok (switchNetParam p) \<longrightarrow> search_out_ok (searchOutMsg p'))"

lemma search_out_ok_update [simp]:
  assumes "search_out_ok m"
  shows "search_out_ok (m\<lparr>so_msg_type := x\<rparr>)" and "search_out_ok (m\<lparr>so_dev_type := x\<rparr>)"
    and "length u = 4 \<Longrightarrow> search_out_ok (m\<lparr>so_uptime := u\<rparr>)"
    and "length f = 4 \<Longrightarrow> search_out_ok (m\<lparr>so_firmware := f\<rparr>)"
    and "length d = 128 \<Longrightarrow> search_out_ok (m\<lparr>so_dev_loc := d\<rparr>)"
    and "length d = 128 \<Longrightarrow> search_out_ok (m\<lparr>so_dev_descr := d\<rparr>)"
  using assms by (simp_all add: search_out_ok_def)

lemma read_pipe_keeps:
  "read_pipe v cmdStr p = Some (ls, p1) \<Longrightarrow>
     p1 = p\<lparr>dm_out := dm_out p @ [Command cmdStr]\<rparr> \<and> (\<forall>l \<in> set ls. length l \<le> 127)"
  by (auto simp: read_pipe_def openPipe_def fgets_lines_short split: option.splits)

lemma time_lines_ok: "search_out_ok m \<Longrightarrow> search_out_ok (snd (fold time_line ls (n, m)))"
  by (induction ls arbitrary: n m) (auto simp: time_line_def Let_def uptime_bytes_def)

lemma board_lines_ok: "search_out_ok m \<Longrightarrow> search_out_ok (snd (snd (fold board_line ls (n, k, m))))"
proof (induction ls arbitrary: n k m)
  case (Cons l ls)
  have "length (so_firmware m) = 4" using Cons.prems by (simp add: search_out_ok_def)
  with Cons.prems have "search_out_ok (snd (snd (board_line l (n, k, m))))"
    by (simp add: board_line_def Let_def)
  then show ?case using Cons.IH by (cases "board_line l (n, k, m)") auto
qed simp

lemma length_padded: "length s \<le> 127 \<Longrightarrow> length (padded (chomp s)) = 128"
  using length_chomp [of s] by (simp add: padded_def)

lemma system_lines_ok:
  "search_out_ok m \<Longrightarrow> (\<forall>l \<in> set ls. length l \<le> 127) \<Longrightarrow> search_out_ok (snd (fold system_line ls (n, m)))"
proof (induction ls arbitrary: n m)
  case (Cons l ls)
  then have "search_out_ok (snd (system_line l (n, m)))"
    by (simp add: system_line_def Let_def length_padded)
  then show ?case using Cons by (cases "system_line l (n, m)") auto
qed simp

lemma only_search_fill:
  "only_search p (fillNetInfo p)"
  "getTimeInfo v p = Some p' \<Longrightarrow> only_search p p'"
  "getBoardInfo v p = Some p' \<Longrightarrow> only_search p p'"
  "getSystemInfo v p = Some p' \<Longrightarrow> only_search p p'"
proof -
  show "only_search p (fillNetInfo p)"
    by (simp add: only_search_def fillNetInfo_def setNetInfo_def search_out_ok_def net_param_ok_def)
  show "getTimeInfo v p = Some p' \<Longrightarrow> only_search p p'"
    by (auto simp: getTimeInfo_def only_search_def time_lines_ok bind_eq_Some_conv
        dest!: read_pipe_keeps)
  show "getBoardInfo v p = Some p' \<Longrightarrow> only_search p p'"
    by (auto simp: getBoardInfo_def only_search_def board_lines_ok bind_eq_Some_conv
        dest!: read_pipe_keeps)
  show "getSystemInfo v p = Some p' \<Longrightarrow> only_search p p'"
    by (auto simp: getSystemInfo_def only_search_def system_lines_ok bind_eq_Some_conv
        dest!: read_pipe_keeps)
qed

lemma net_lines_ok:
  "net_lines ls (n, e, q) = Some (n', e', q') \<Longrightarrow> net_param_ok q \<Longrightarrow> net_param_ok q'"
proof (induction ls arbitrary: n e q)
  case (Cons l ls)
  then obtain n1 e1 q1 where l: "net_line l (n, e, q) = Some (n1, e1, q1)"
    and ls: "net_lines ls (n1, e1, q1) = Some (n', e', q')"
    by (auto simp: bind_eq_Some_conv)
  have "net_param_ok q1"
    using l Cons.prems(2)
    by (auto simp: net_line_def net_param_ok_def copy_name_def Let_def bind_eq_Some_conv
        split: if_split_asm)
  then show ?case using Cons.IH ls by simp
qed simp

text \<open>Only the scripts' first line decides: the interface is there, is missing, or something is wrong.\<close>

lemma net_lines_found: "n > 0 \<Longrightarrow> net_lines ls (n, e, q) = Some (n', e', q') \<Longrightarrow> e' = e"
proof (induction ls arbitrary: n q)
  case (Cons l ls)
  then obtain n1 e1 q1 where l: "net_line l (n, e, q) = Some (n1, e1, q1)"
    and ls: "net_lines ls (n1, e1, q1) = Some (n', e', q')"
    by (auto simp: bind_eq_Some_conv)
  have "e1 = e \<and> n1 > 0"
    using l Cons.prems(1)
    by (auto simp: net_line_def Let_def bind_eq_Some_conv split: if_split_asm)
  then show ?case using Cons.IH [of n1 q1] ls by simp
qed simp

lemma uptime_roundtrip: "uptime_value (uptime_bytes d) = d"
proof -
  have m: "(x AND 0xFF) = take_bit 8 x" "(x AND 0xFFFFFFFF) = take_bit 32 x" for x :: u32
    by (simp_all add: take_bit_eq_mask mask_eq_exp_minus_1)
  show ?thesis
  proof (rule bit_word_eqI)
    fix n assume "n < LENGTH(32)"
    then consider "n < 8" | "8 \<le> n" "n < 16" | "16 \<le> n" "n < 24" | "24 \<le> n" "n < 32"
      by fastforce
    then show "bit (uptime_value (uptime_bytes d)) n \<longleftrightarrow> bit d n"
      by cases (auto simp: uptime_value_def uptime_bytes_def m bit_simps)
  qed
qed

end
