(* ===== verification/DM_Settings.thy ===== *)
theory DM_Settings
  imports DM_Info
begin

section \<open>The device monitor: settings\<close>

text \<open>
  \<^verbatim>\<open>settings_module.c\<close> and the text functions of \<^verbatim>\<open>parsing.c\<close>: a line of settings is
  split into a table of commands, and each is carried out by \<^verbatim>\<open>uci\<close>. The state machine only
  uses the table of handlers and the flags \<open>applyNetwork\<close> and \<open>applySystem\<close>.
\<close>

subsection \<open>Texts\<close>

definition replaceSymbols :: "string \<Rightarrow> char \<Rightarrow> char \<Rightarrow> string" where
  "replaceSymbols s oldSym newSym = map (\<lambda>c. if c = oldSym then newSym else c) s"

definition removeCharacter :: "string \<Rightarrow> char \<Rightarrow> string" where
  "removeCharacter s x = filter (\<lambda>c. c \<noteq> x) s"

text \<open>The loop of \<open>extractValue\<close>: the positions \<open>start\<close> and \<open>end\<close> it ends with.\<close>

fun find_brackets :: "string \<Rightarrow> int \<Rightarrow> int \<Rightarrow> int \<times> int" where
  "find_brackets [] i start = (start, - 1)"
| "find_brackets (c # s) i start =
    (if c = CHR ''['' then find_brackets s (i + 1) (i + 1)
     else if c = CHR '']'' then (start, i)
     else find_brackets s (i + 1) start)"

definition extractValue :: "string \<Rightarrow> string option" where
  "extractValue s =
    (case find_brackets s 0 (- 1) of (start, e) \<Rightarrow>
       if start \<noteq> - 1 \<and> e \<noteq> - 1 \<and> e > start then Some (take (nat (e - start)) (drop (nat start) s))
       else None)"

text \<open>The index of the last token, as \<^verbatim>\<open>split_line\<close> counts in 8 bits.\<close>

definition splitLineMax :: "string list \<Rightarrow> u8" where
  "splitLineMax tokens = of_nat (length tokens) - 1"

subsection \<open>The commands\<close>

definition settings_Table :: "string list" where
  "settings_Table = [''DEFAULT_ALL'', ''REBOOT_ALL'', ''IPADDRESS'', ''NETMASK'', ''GATEWAY'',
     ''SYSTEM_NAME'', ''SYSTEM_LOCATION'', ''SNMP_STATE'', '''', '''']"

definition settings_commandTable :: "string list" where
  "settings_commandTable =
    [''echo '' @ [squote] @ ''firstboot -y && reboot'' @ [squote], ''echo '' @ [squote] @ ''reboot'' @ [squote],
     ''IPADDRESS'', ''NETMASK'', ''GATEWAY'', ''uci set system.@system[0].description='',
     ''uci set system.@system[0].location='', ''uci set snmpd.general.enabled='',
     ''/etc/init.d/system restart'', ''/etc/init.d/network restart'']"

definition run_cmd :: "env \<Rightarrow> string \<Rightarrow> dm \<Rightarrow> dm" where
  "run_cmd v c p = snd (openPipe v c p)"

text \<open>
  The command for a value: brackets become quotes, and the text is cut at the end of the line unless
  \<open>keep\<close>. All buffers have 128 octets.
\<close>

definition value_command :: "string \<Rightarrow> string \<Rightarrow> bool \<Rightarrow> string option" where
  "value_command main inData keep =
    (let s = replaceSymbols (replaceSymbols inData CHR ''['' squote) CHR '']'' squote;
         added = (if keep then s else takeWhile (\<lambda>c. c \<noteq> newline) s)
     in if length inData < 128 \<and> length (main @ added) < 128 then Some (main @ added) else None)"

definition runReset :: "env \<Rightarrow> string \<Rightarrow> dm \<Rightarrow> dm option" where
  "runReset v inData p = Some (run_cmd v (settings_commandTable ! 0) p)"

definition runReboot :: "env \<Rightarrow> string \<Rightarrow> dm \<Rightarrow> dm option" where
  "runReboot v inData p = Some (run_cmd v (settings_commandTable ! 1) p)"

definition runSetDhcp :: "env \<Rightarrow> dm \<Rightarrow> dm" where
  "runSetDhcp v p =
    run_cmd v (''uci set network.lan.proto='' @ [squote] @ ''dhcp'' @ [squote])
      (run_cmd v ''uci del network.lan.gateway''
        (run_cmd v ''uci del network.lan.netmask''
          (run_cmd v ''uci del network.lan.ipaddr'' (p\<lparr>setDHCP := 1\<rparr>))))"

text \<open>Once for every line the first command prints.\<close>

fun set_ip_lines :: "env \<Rightarrow> string \<Rightarrow> string list \<Rightarrow> dm \<Rightarrow> dm option" where
  "set_ip_lines v inData [] p = Some p"
| "set_ip_lines v inData (l # ls) p =
    do { c \<leftarrow> value_command ''uci set network.lan.ipaddr='' inData False;
         let p1 = run_cmd v (''uci set network.lan.proto='' @ [squote] @ ''static'' @ [squote]) p;
         set_ip_lines v inData ls ((run_cmd v c p1)\<lparr>applyNetwork := 1\<rparr>) }"

definition runSetIp :: "env \<Rightarrow> string \<Rightarrow> dm \<Rightarrow> dm option" where
  "runSetIp v inData p =
    do { (ls, p1) \<leftarrow> read_pipe v ''uci show network.lan.proto'' p; set_ip_lines v inData ls p1 }"

definition runSetMask :: "env \<Rightarrow> string \<Rightarrow> dm \<Rightarrow> dm option" where
  "runSetMask v inData p =
    do { c \<leftarrow> value_command ''uci set network.lan.netmask='' inData False;
         Some ((run_cmd v c p)\<lparr>applyNetwork := 1\<rparr>) }"

text \<open>How many of the four parts are 255, or 5 if there are not four.\<close>

definition checkGateWayValid :: "string \<Rightarrow> nat" where
  "checkGateWayValid ip =
    (let s = replaceSymbols (replaceSymbols (replaceSymbols ip CHR ''.'' CHR '' '') CHR ''['' CHR '' '')
               CHR '']'' CHR '' '';
         ts = strtok_list '' '' s
     in if splitLineMax ts \<noteq> 3 then 5 else length (filter (\<lambda>t. atoi t = 0xFF) ts))"

definition runSetGate :: "env \<Rightarrow> string \<Rightarrow> dm \<Rightarrow> dm option" where
  "runSetGate v inData p =
    do { p1 \<leftarrow>
           (if length inData \<ge> 128 then None
            else if checkGateWayValid inData = 0
            then do { c \<leftarrow> value_command ''uci set network.lan.gateway='' inData False;
                      Some (run_cmd v ''uci commit network'' (run_cmd v c p)) }
            else Some (run_cmd v ''uci commit network'' (run_cmd v ''uci del network.lan.gateway'' p)));
         Some (p1\<lparr>applyNetwork := 1\<rparr>) }"

definition runSetDescription :: "env \<Rightarrow> string \<Rightarrow> dm \<Rightarrow> dm option" where
  "runSetDescription v inData p =
    (if length inData > 0
     then do { c \<leftarrow> value_command (settings_commandTable ! 5) inData (locationTestFlag p \<noteq> 0);
               Some ((run_cmd v ''uci commit system'' (run_cmd v c p))\<lparr>applySystem := 1\<rparr>) }
     else Some p)"

definition runSetLocation :: "env \<Rightarrow> string \<Rightarrow> dm \<Rightarrow> dm option" where
  "runSetLocation v inData p =
    (if length inData > 0
     then do { c \<leftarrow> value_command (settings_commandTable ! 6) inData (locationTestFlag p \<noteq> 0);
               Some ((run_cmd v ''uci commit system'' (run_cmd v c p))\<lparr>applySystem := 1\<rparr>) }
     else Some p)"

definition runSetSnmp :: "env \<Rightarrow> string \<Rightarrow> dm \<Rightarrow> dm option" where
  "runSetSnmp v inData p =
    (if length inData > 0
     then do { c \<leftarrow> value_command (settings_commandTable ! 7) inData False;
               let p1 = run_cmd v ''uci commit snmpd'' (run_cmd v c p);
               Some ((run_cmd v ''/etc/init.d/snmpd reload'' p1)\<lparr>applyNetwork := 1\<rparr>) }
     else Some p)"

definition runSystemRestart :: "env \<Rightarrow> string \<Rightarrow> dm \<Rightarrow> dm option" where
  "runSystemRestart v inData p = Some (run_cmd v (settings_commandTable ! 8) p)"

definition runNetworkRestart :: "env \<Rightarrow> string \<Rightarrow> dm \<Rightarrow> dm option" where
  "runNetworkRestart v inData p = Some (run_cmd v (settings_commandTable ! 9) p)"

definition runSetingsCmd :: "(env \<Rightarrow> string \<Rightarrow> dm \<Rightarrow> dm option) list" where
  "runSetingsCmd = [runReset, runReboot, runSetIp, runSetMask, runSetGate, runSetDescription,
     runSetLocation, runSetSnmp, runSystemRestart, runNetworkRestart]"

subsection \<open>The table of settings\<close>

text \<open>
  An entry of the table, \<^term>\<open>None\<close> as long as \<^verbatim>\<open>malloc\<close> left it undefined. A value of 128
  octets has no end.
\<close>

type_synonym map_cmd = "(nat \<times> string) option"

definition getDynamicMapCmd_ptr :: "u8 \<Rightarrow> map_cmd list" where
  "getDynamicMapCmd_ptr n = replicate (unat n) None"

text \<open>The entry to write, if the name is known; \<open>tokens[0]\<close> and \<open>tokens[1]\<close> may be null.\<close>

definition getCmdType :: "string list \<Rightarrow> dm \<Rightarrow> (map_cmd \<times> dm) option" where
  "getCmdType tokens p =
    (let p1 = p\<lparr>applySystem := 0, applyNetwork := 0, setDHCP := 0\<rparr> in
     case tokens of
       [] \<Rightarrow> None
     | name # rest \<Rightarrow>
         (case filter (\<lambda>i. name = settings_Table ! i) [0..<10] of
            [] \<Rightarrow> Some (None, p1)
          | i # _ \<Rightarrow> (case rest of [] \<Rightarrow> None | val # _ \<Rightarrow> Some (Some (i, take 128 val), p1))))"

fun cmd_array_from :: "nat \<Rightarrow> string list \<Rightarrow> map_cmd list \<Rightarrow> dm \<Rightarrow> (map_cmd list \<times> dm) option" where
  "cmd_array_from i [] m p = Some (m, p)"
| "cmd_array_from i (t # ts) m p =
    do { (e, p1) \<leftarrow> getCmdType (strtok_list ''='' t) p;
         if e = None then cmd_array_from (i + 1) ts m p1
         else if i < length m then cmd_array_from (i + 1) ts (m[i := e]) p1
         else None }"

definition getSettingsCmdArray ::
    "string list \<Rightarrow> map_cmd list option \<Rightarrow> dm \<Rightarrow> (u32 \<times> map_cmd list option \<times> dm) option" where
  "getSettingsCmdArray tokens mapCmd p =
    (case mapCmd of
       None \<Rightarrow> Some (ERR_OBJ_NOT_FOUND, None, p)
     | Some m \<Rightarrow>
         if tokens = [] then None
         else do { (m1, p1) \<leftarrow> cmd_array_from 0 (take (unat (splitLineMax tokens) + 1) tokens) m p;
                   Some (ERR_OK_dm, Some m1, p1) })"

fun run_entries :: "env \<Rightarrow> nat list \<Rightarrow> map_cmd list \<Rightarrow> dm \<Rightarrow> dm option" where
  "run_entries v [] m p = Some p"
| "run_entries v (i # is) m p =
    (if i < length m
     then (case m ! i of
             None \<Rightarrow> None
           | Some (cmdIndex, val) \<Rightarrow>
               do { p1 \<leftarrow> (runSetingsCmd ! cmdIndex) v val p; run_entries v is m p1 })
     else None)"

definition settings_handler :: "env \<Rightarrow> map_cmd list option \<Rightarrow> u8 \<Rightarrow> dm \<Rightarrow> (u32 \<times> dm) option" where
  "settings_handler v settingsCmdMap maxLine p =
    (case settingsCmdMap of
       None \<Rightarrow> Some (ERR_OBJ_NOT_FOUND, p)
     | Some m \<Rightarrow>
         do { p1 \<leftarrow> run_entries v [0..<unat maxLine + 1] m p;
              p2 \<leftarrow> (if applySystem p1 = 1 then runSystemRestart v '' '' p1 else Some p1);
              p3 \<leftarrow> (if applyNetwork p2 = 1 then runNetworkRestart v '' '' p2 else Some p2);
              Some (ERR_OK_dm, p3) })"

subsection \<open>Facts\<close>

lemma run_entries_append:
  "run_entries v (xs @ ys) m p = Option.bind (run_entries v xs m p) (run_entries v ys m)"
  by (induction xs arbitrary: p) (auto split: option.splits intro!: Option.bind_cong)

text \<open>
  The table that the program allocates for \<open>n\<close> as the last index has no entry \<open>n\<close>: going through it
  always leaves it.
\<close>

lemma settings_table_overrun:
  "length m = length (getDynamicMapCmd_ptr n) \<Longrightarrow> settings_handler v (Some m) n p = None"
  by (simp add: settings_handler_def getDynamicMapCmd_ptr_def run_entries_append
      Option.bind_eq_None_conv)

text \<open>A gateway with 255 in one place only is not set but deleted.\<close>

lemma gateway_255_deleted:
  "runSetGate v ''[10.255.0.1]'' p
     = Some ((run_cmd v ''uci commit network'' (run_cmd v ''uci del network.lan.gateway'' p))\<lparr>applyNetwork := 1\<rparr>)"
proof -
  have "checkGateWayValid ''[10.255.0.1]'' = 1" by code_simp
  then show ?thesis by (simp add: runSetGate_def)
qed

text \<open>What a value between brackets becomes on the command line.\<close>

lemma value_command_brackets:
  assumes "set s \<inter> {CHR ''['', CHR '']'', newline} = {}" and "length main + length s < 126"
  shows "value_command main (CHR ''['' # s @ [CHR '']'']) keep = Some (main @ [squote] @ s @ [squote])"
proof -
  have "map (\<lambda>c. if c = CHR '']'' then squote else c) (map (\<lambda>c. if c = CHR ''['' then squote else c) s) = s"
    unfolding map_map comp_def using assms(1) by (intro map_idI) auto
  moreover have "takeWhile (\<lambda>c. c \<noteq> newline) (squote # s @ [squote]) = squote # s @ [squote]"
    using assms(1) by (auto simp: takeWhile_eq_all_conv)
  ultimately show ?thesis
    using assms(2) by (simp add: value_command_def replaceSymbols_def Let_def)
qed

end
