(* ===== verification/DM_Client.thy ===== *)
theory DM_Client
  imports DM_Settings
begin

section \<open>The device monitor: the state machine\<close>

text \<open>
  \<^verbatim>\<open>state_handler.c\<close> and \<^verbatim>\<open>main.c\<close>. One call of \<open>client_handler\<close> does the work of
  the current state; \<open>client_app\<close> calls it until it reports an error, or for ever.
\<close>

subsection \<open>Callbacks\<close>

text \<open>The first empty place of the array takes the function; \<^term>\<open>None\<close> if there is none.\<close>

fun put_first_free :: "'a \<Rightarrow> 'a option list \<Rightarrow> 'a option list option" where
  "put_first_free x [] = None"
| "put_first_free x (None # a) = Some (Some x # a)"
| "put_first_free x (Some y # a) = map_option ((#) (Some y)) (put_first_free x a)"

definition client_registerEvent_fillmsg :: "fill_callback \<Rightarrow> dm \<Rightarrow> u32 \<times> dm" where
  "client_registerEvent_fillmsg cb p =
    (case put_first_free cb (fillArray p) of
       Some a \<Rightarrow> (ERR_OK_dm, p\<lparr>fillArray := a\<rparr>)
     | None \<Rightarrow> (ERR_UNAVAILABLE_RESOURCE, p))"

fun remove_first :: "'a \<Rightarrow> 'a option list \<Rightarrow> 'a option list option" where
  "remove_first x [] = None"
| "remove_first x (y # a) =
    (if y = Some x then Some (None # a) else map_option ((#) y) (remove_first x a))"

definition client_unRegisterEvent_fillmsg :: "fill_callback \<Rightarrow> dm \<Rightarrow> u32 \<times> dm" where
  "client_unRegisterEvent_fillmsg cb p =
    (case remove_first cb (fillArray p) of
       Some a \<Rightarrow> (ERR_OK_dm, p\<lparr>fillArray := a\<rparr>)
     | None \<Rightarrow> (ERR_OBJ_NOT_FOUND, p))"

fun run_fill :: "env \<Rightarrow> fill_callback \<Rightarrow> dm \<Rightarrow> dm option" where
  "run_fill v Fill_fillNetInfo p = Some (fillNetInfo p)"
| "run_fill v Fill_getTimeInfo p = getTimeInfo v p"
| "run_fill v Fill_getBoardInfo p = getBoardInfo v p"
| "run_fill v Fill_getSystemInfo p = getSystemInfo v p"

definition client_emitEvent_fillmsg :: "env \<Rightarrow> dm \<Rightarrow> dm option" where
  "client_emitEvent_fillmsg v p =
    (if ci_count p < CMD_MAX
     then do { p1 \<leftarrow> (case fillArray p ! ci_count p of None \<Rightarrow> Some p | Some cb \<Rightarrow> run_fill v cb p);
               Some (p1\<lparr>ci_count := ci_count p1 + 1\<rparr>) }
     else Some (p\<lparr>ci_event := setb CLIENT_EVENT_MSG_READY (ci_event p)\<rparr>))"

definition client_sendSettMsg :: "env \<Rightarrow> dm \<Rightarrow> u32 \<times> dm" where
  "client_sendSettMsg v p =
    net_sendMsg v (p\<lparr>rcvBuffer := settBuff p @ drop SETT_BUFF_SIZE (rcvBuffer p)\<rparr>)"

definition client_sendSearchMsg :: "env \<Rightarrow> dm \<Rightarrow> u32 \<times> dm" where
  "client_sendSearchMsg v p =
    net_sendMsg v (p\<lparr>rcvBuffer := search_buff (searchOutMsg p) @ drop 444 (rcvBuffer p)\<rparr>)"

fun run_send :: "env \<Rightarrow> send_callback \<Rightarrow> dm \<Rightarrow> u32 \<times> dm" where
  "run_send v Send_sendSearchMsg p = client_sendSearchMsg v p"
| "run_send v Send_sendSettMsg p = client_sendSettMsg v p"

definition client_emitEvent_sendmsg :: "env \<Rightarrow> dm \<Rightarrow> u32 \<times> dm" where
  "client_emitEvent_sendmsg v p =
    (case sendArray p ! ci_msgType p of
       Some cb \<Rightarrow> (ERR_OK_dm, snd (run_send v cb p))
     | None \<Rightarrow> (ERR_OBJ_NOT_FOUND, p))"

definition client_registerEvent_sendmsg :: "send_callback \<Rightarrow> dm \<Rightarrow> u32 \<times> dm" where
  "client_registerEvent_sendmsg cb p =
    (if sendArray p ! ci_msgType p = None
     then (ERR_OK_dm, p\<lparr>sendArray := (sendArray p)[ci_msgType p := Some cb]\<rparr>)
     else (ERR_UNAVAILABLE_RESOURCE, p))"

definition client_unRegisterEvent_sendmsg :: "dm \<Rightarrow> u32 \<times> dm" where
  "client_unRegisterEvent_sendmsg p =
    (if sendArray p ! ci_msgType p \<noteq> None
     then (ERR_OK_dm, p\<lparr>sendArray := (sendArray p)[ci_msgType p := None]\<rparr>)
     else (ERR_OBJ_NOT_FOUND, p))"

subsection \<open>Commands and their checks\<close>

definition client_waitCommand :: "env \<Rightarrow> dm \<Rightarrow> (u32 \<times> dm) option" where
  "client_waitCommand v p =
    do { (cmd, p1) \<leftarrow> net_getCommand v p;
         Some (if cmd = request_find_device then CLIENT_EVENT_FIND
               else if cmd = request_set_config then CLIENT_EVENT_SETTINGS
               else if cmd = request_to_update then CLIENT_EVENT_UPDATE
               else 0, p1) }"

definition checkMacAddress :: "dm \<Rightarrow> u32 \<times> dm" where
  "checkMacAddress p =
    (let p1 = (if take 6 (so_mac (searchOutMsg p)) = sett_mac (settBuff p) then p
               else p\<lparr>passFlag := clrb pass_mac (passFlag p)\<rparr>)
     in (passFlag p1, p1))"

text \<open>
  The command line that checks the password: a buffer of 256 octets for the message, one of the
  same size for the whole line.
\<close>

definition cmd_checkHash :: "u8 list \<Rightarrow> string option" where
  "cmd_checkHash b =
    (let hash_dm = cstring_of (sett_pass_md5 b);
         msg_dm = cstring_of (sett_msg b);
         line = ''/etc/tf_device_monitor_scripts/user_handler.lua '' @ '' '' @ hash_dm
                  @ '' '' @ [CHR 0x22] @ msg_dm @ [CHR 0x22] @ '' ''
     in if length msg_dm < 256 \<and> length line < 256 then Some line else None)"

definition hash_line :: "string \<Rightarrow> u32 \<Rightarrow> u32" where
  "hash_line output flag =
    (if line_is output ''hash_error'' then clrb pass_md5 flag
     else if line_is output ''msg_error'' then clrb pass_md5 flag
     else if line_is output ''config_error'' then clrb pass_md5 flag
     else flag)"

definition checkMD5Sum :: "env \<Rightarrow> dm \<Rightarrow> (u32 \<times> dm) option" where
  "checkMD5Sum v p =
    do { c \<leftarrow> cmd_checkHash (settBuff p);
         (ls, p1) \<leftarrow> read_pipe v c p;
         let p2 = p1\<lparr>passFlag := fold hash_line ls (passFlag p1)\<rparr>;
         Some (passFlag p2, p2) }"

text \<open>\<^verbatim>\<open>passFlag |= f()\<close> reads the variable after the call, which changes it.\<close>

definition client_settings :: "env \<Rightarrow> dm \<Rightarrow> (u32 \<times> dm) option" where
  "client_settings v p =
    do { p1 \<leftarrow> getBuffer (p\<lparr>passFlag := setb pass_md5 (setb pass_mac (passFlag p))\<rparr>);
         let (r, p2) = checkMacAddress (getBufferLen p1);
         let p3 = p2\<lparr>passFlag := (passFlag p2 OR r) AND pass_mac\<rparr>;
         if passFlag p3 \<noteq> 0
         then do { (r, p4) \<leftarrow> checkMD5Sum v p3;
                   let p5 = p4\<lparr>passFlag := passFlag p4 OR r\<rparr>;
                   Some (if has (passFlag p5) pass_md5 then ERR_OK_dm else ERR_AUTHENTICATION, p5) }
         else Some (INFO_MAC_NOT_IDENTICAL, p3) }"

subsection \<open>The states\<close>

definition state_init :: "env \<Rightarrow> dm \<Rightarrow> (u32 \<times> dm) option" where
  "state_init v p =
    do { (ec, p1) \<leftarrow> net_socketInit v p;
         let p2 = fold (\<lambda>cb p. snd (client_registerEvent_fillmsg cb p))
                    [Fill_fillNetInfo, Fill_getTimeInfo, Fill_getBoardInfo, Fill_getSystemInfo] p1;
         Some (ec, p2\<lparr>ci_state := CLIENT_STATE_WAIT\<rparr>) }"

definition on_find :: "dm \<Rightarrow> dm" where
  "on_find p =
    (if has (ci_event p) CLIENT_EVENT_FIND
     then p\<lparr>ci_msgType := type_searchMsg, ci_event := clrb CLIENT_EVENT_FIND (ci_event p),
            ci_state := CLIENT_STATE_FILL_MSG, ci_count := 0\<rparr>
     else p)"

definition on_settings :: "dm \<Rightarrow> dm" where
  "on_settings p =
    (if has (ci_event p) CLIENT_EVENT_SETTINGS
     then p\<lparr>ci_msgType := type_settingsMsg, ci_event := clrb CLIENT_EVENT_SETTINGS (ci_event p),
            ci_state := CLIENT_STATE_SETTINGS, ci_count := 0\<rparr>
     else p)"

definition state_wait :: "env \<Rightarrow> dm \<Rightarrow> (u32 \<times> dm) option" where
  "state_wait v p =
    do { (ev, p1) \<leftarrow> client_waitCommand v p;
         Some (ERR_OK_dm, on_settings (on_find (p1\<lparr>ci_event := setb ev (ci_event p1)\<rparr>))) }"

definition state_send :: "env \<Rightarrow> dm \<Rightarrow> u32 \<times> dm" where
  "state_send v p =
    (let (e1, p1) = client_emitEvent_sendmsg v (p\<lparr>ci_state := CLIENT_STATE_RELOAD\<rparr>);
         (e2, p2) = client_unRegisterEvent_sendmsg p1
     in (e1 OR e2, p2))"

definition state_fill_msg :: "env \<Rightarrow> dm \<Rightarrow> (u32 \<times> dm) option" where
  "state_fill_msg v p =
    do { p1 \<leftarrow> client_emitEvent_fillmsg v p;
         let p2 = p1\<lparr>searchOutMsg := (searchOutMsg p1)\<lparr>so_msg_type := ack_find_device\<rparr>\<rparr>;
         Some (ERR_OK_dm,
           if has (ci_event p2) CLIENT_EVENT_MSG_READY
           then (snd (client_registerEvent_sendmsg Send_sendSearchMsg
                   (p2\<lparr>ci_event := clrb CLIENT_EVENT_MSG_READY (ci_event p2)\<rparr>)))
                 \<lparr>ci_state := CLIENT_STATE_SEND\<rparr>
           else p2) }"

definition acknowledge :: "u32 \<Rightarrow> u8 list \<Rightarrow> u8 list" where
  "acknowledge ec b =
    (take 7 b @ replicate 32 0 @ drop 39 b)[0 := ack_to_set_config, 7 := ucast ec]"

definition state_settings :: "env \<Rightarrow> dm \<Rightarrow> (u32 \<times> dm) option" where
  "state_settings v p =
    do { (ec, p1) \<leftarrow> client_settings v p;
         let p2 = p1\<lparr>settBuff := acknowledge ec (settBuff p1)\<rparr>;
         Some (ec,
           if ec = ERR_AUTHENTICATION
           then (snd (client_registerEvent_sendmsg Send_sendSettMsg p2))\<lparr>ci_state := CLIENT_STATE_SEND\<rparr>
           else if ec = ERR_OK_dm
           then let p3 = snd (client_registerEvent_sendmsg Send_sendSettMsg p2);
                    p4 = (if applySystem p3 = 1
                          then p3\<lparr>ci_event := setb CLIENT_EVENT_SYS_RELOAD (ci_event p3)\<rparr> else p3);
                    p5 = (if applyNetwork p4 \<noteq> 0
                          then p4\<lparr>ci_event := setb CLIENT_EVENT_NET_RELOAD (ci_event p4)\<rparr> else p4)
                in p5\<lparr>ci_state := CLIENT_STATE_SEND\<rparr>
           else if ec = INFO_MAC_NOT_IDENTICAL then p2\<lparr>ci_state := CLIENT_STATE_WAIT\<rparr>
           else p2) }"

definition state_reload :: "env \<Rightarrow> dm \<Rightarrow> (u32 \<times> dm) option" where
  "state_reload v p =
    do { p1 \<leftarrow> (if has (ci_event p) CLIENT_EVENT_SYS_RELOAD
                then (runSetingsCmd ! 8) v '' '' (p\<lparr>ci_event := clrb CLIENT_EVENT_SYS_RELOAD (ci_event p)\<rparr>)
                else Some p);
         p2 \<leftarrow> (if has (ci_event p1) CLIENT_EVENT_NET_RELOAD
                then (runSetingsCmd ! 9) v '' '' (p1\<lparr>ci_event := clrb CLIENT_EVENT_NET_RELOAD (ci_event p1)\<rparr>)
                else Some p1);
         Some (ERR_OK_dm, p2\<lparr>ci_state := CLIENT_STATE_WAIT\<rparr>) }"

definition client_handler :: "env \<Rightarrow> dm \<Rightarrow> (u32 \<times> dm) option" where
  "client_handler v p =
    (case ci_state p of
       CLIENT_SATE_IDLE \<Rightarrow> Some (ERR_OK_dm, p)
     | CLIENT_SATE_INIT \<Rightarrow> state_init v p
     | CLIENT_STATE_WAIT \<Rightarrow> state_wait v p
     | CLIENT_STATE_SEND \<Rightarrow> Some (state_send v p)
     | CLIENT_STATE_FILL_MSG \<Rightarrow> state_fill_msg v p
     | CLIENT_STATE_SETTINGS \<Rightarrow> state_settings v p
     | CLIENT_STATE_RELOAD \<Rightarrow> state_reload v p)"

subsection \<open>The loop\<close>

text \<open>
  The condition of the loop changes the code it tests, so the loop always ends with 0. \<open>Running\<close>: the
  loop has made one call for each of the given answers and goes on; \<open>Crashed\<close>: a call left its
  arrays.
\<close>

datatype app = Running u32 dm | Returned u32 dm | Crashed

primrec client_app :: "env list \<Rightarrow> u32 \<Rightarrow> dm \<Rightarrow> app" where
  "client_app [] ec p = Running ec p"
| "client_app (v # vs) ec p =
    (let e1 = ec XOR ERR_CONFIGURATION in
     if e1 = 0 then Returned e1 p
     else let e2 = e1 XOR ERR_NETWORK in
       if e2 = 0 then Returned e2 p
       else (case client_handler v p of
               None \<Rightarrow> Crashed
             | Some (ec', p') \<Rightarrow> client_app vs ec' p'))"

definition zero_dm :: dm where
  "zero_dm =
     \<lparr>ci_state = CLIENT_SATE_INIT, ci_event = 0, ci_msgType = type_idle, ci_count = 0,
      fillArray = replicate 5 None, sendArray = replicate 4 None, searchOutMsg = zero_search_out,
      settBuff = replicate 1063 0, settLen = 0, passFlag = 0, rcvBuffer = replicate 1550 0,
      bufferLen = 0, cfgDeviceName = [], switchNetParam = zero_net_param, setDHCP = 0,
      applyNetwork = 0, applySystem = 0, locationTestFlag = 0, dm_out = [], dm_fds = 0\<rparr>"

text \<open>
  The option at position \<open>i\<close>: \<open>Inl\<close> the exit status, or \<open>Inr\<close> the variables they set. Option
  \<^verbatim>\<open>l\<close> goes on into the case of \<^verbatim>\<open>i\<close>, which takes the second argument wherever it stands.
\<close>

definition set_interface :: "string list \<Rightarrow> dm \<Rightarrow> dm option" where
  "set_interface argv p = (if length argv > 2 then set_DevName (argv ! 2) p else None)"

definition main_option :: "string list \<Rightarrow> nat \<Rightarrow> dm \<Rightarrow> (nat + dm) option" where
  "main_option argv i p =
    (if take 1 (argv ! i) \<noteq> ''-'' then Some (Inr p)
     else let opt = take 1 (drop 1 (argv ! i)) in
       if opt \<in> {''h'', ''v'', ''d''} then Some (Inr p)
       else if opt = ''l'' then
         (if i + 1 < length argv
          then map_option Inr (set_interface argv (p\<lparr>locationTestFlag := atoi (argv ! (i + 1))\<rparr>))
          else None)
       else if opt = ''i'' then map_option Inr (set_interface argv p)
       else Some (Inl 101))"

fun main_options :: "string list \<Rightarrow> nat list \<Rightarrow> dm \<Rightarrow> (nat + dm) option" where
  "main_options argv [] p = Some (Inr p)"
| "main_options argv (i # is) p =
    do { r \<leftarrow> main_option argv i p;
         case r of Inl status \<Rightarrow> Some (Inl status) | Inr p1 \<Rightarrow> main_options argv is p1 }"

definition dm_main :: "string list \<Rightarrow> (nat + dm) option" where
  "dm_main argv = main_options argv [1..<length argv] zero_dm"

text \<open>The states at the head of the loop, with the code of the last call.\<close>

inductive dm_reachable :: "u32 \<Rightarrow> dm \<Rightarrow> bool" where
  start: "dm_main argv = Some (Inr p) \<Longrightarrow> dm_reachable ERR_OK_dm p"
| call: "dm_reachable ec p \<Longrightarrow> client_app [v] ec p = Running ec' p' \<Longrightarrow> dm_reachable ec' p'"

subsection \<open>Properties of all runs\<close>

text \<open>
  What an invariant of the loop has to satisfy, as long as the answers of the system are of some
  kind; it then holds after any number of calls.
\<close>

locale loop_invariant =
  fixes E :: "env \<Rightarrow> bool" and I :: "u32 \<Rightarrow> dm \<Rightarrow> bool"
  assumes handler: "E v \<Longrightarrow> I ec p \<Longrightarrow> client_handler v p = Some (ec', p') \<Longrightarrow> I ec' p'"
begin

lemma app: "(\<forall>v \<in> set vs. E v) \<Longrightarrow> I ec p \<Longrightarrow> client_app vs ec p = Running ec' p' \<Longrightarrow> I ec' p'"
proof (induction vs arbitrary: ec p)
  case (Cons v vs)
  then obtain e q where "client_handler v p = Some (e, q)" and "client_app vs e q = Running ec' p'"
    by (auto simp: Let_def split: if_split_asm option.split_asm)
  then show ?case using Cons handler [of v ec p e q] by auto
qed simp

lemma every_state:
  assumes "dm_reachable ec p" and "\<And>v. E v" and "\<And>argv q. dm_main argv = Some (Inr q) \<Longrightarrow> I ERR_OK_dm q"
  shows "I ec p"
  using assms(1)
proof (induction rule: dm_reachable.induct)
  case (start argv p)
  then show ?case by (rule assms(3))
next
  case (call ec p v ec' p')
  then show ?case using app [of "[v]" ec p ec' p'] assms(2) by simp
qed

end

definition options_only :: "dm \<Rightarrow> dm \<Rightarrow> bool" where
  "options_only p q \<longleftrightarrow>
     q\<lparr>cfgDeviceName := [], locationTestFlag := 0\<rparr> = p\<lparr>cfgDeviceName := [], locationTestFlag := 0\<rparr>
     \<and> (length (cfgDeviceName p) < 16 \<longrightarrow> length (cfgDeviceName q) < 16)"

lemma options_only_refl [simp]: "options_only p p"
  by (simp add: options_only_def)

lemma options_only_trans: "options_only p q \<Longrightarrow> options_only q r \<Longrightarrow> options_only p r"
  by (simp add: options_only_def)

lemma options_only_step: "main_option argv i p = Some (Inr q) \<Longrightarrow> options_only p q"
  by (auto simp: main_option_def set_interface_def set_DevName_def Let_def options_only_def
      split: if_split_asm)

lemma main_options_only: "main_options argv is p = Some (Inr q) \<Longrightarrow> options_only p q"
proof (induction "is" arbitrary: p)
  case (Cons i "is")
  then obtain r where r: "main_option argv i p = Some (Inr r)" "main_options argv is r = Some (Inr q)"
    by (cases "main_option argv i p") (auto split: sum.split_asm)
  then show ?case using options_only_trans [OF options_only_step] Cons.IH by blast
qed simp

end
