(* ===== verification/DM_Invariant.thy ===== *)
theory DM_Invariant
  imports DM_Client
begin

section \<open>The device monitor: what holds in every state\<close>

text \<open>
  The arrays keep their sizes, the callbacks belong to the state the machine is in, and everything
  that leaves the program is a script of the monitor or an answer of one of two forms.
\<close>

subsection \<open>The invariant\<close>

definition scripts :: string where
  "scripts = ''/etc/tf_device_monitor_scripts/''"

definition answer_ok :: "u8 list \<Rightarrow> bool" where
  "answer_ok d \<longleftrightarrow> d \<noteq> [] \<and> hd d \<in> {ack_find_device, ack_to_set_config}
     \<and> (hd d = ack_to_set_config \<and> 7 < length d \<longrightarrow> d ! 7 = 1)"

fun output_ok :: "dm_output \<Rightarrow> bool" where
  "output_ok (Datagram d) \<longleftrightarrow> answer_ok d"
| "output_ok (Command c) \<longleftrightarrow> take 31 c = scripts"

definition callbacks :: "fill_callback option list" where
  "callbacks = [Some Fill_fillNetInfo, Some Fill_getTimeInfo, Some Fill_getBoardInfo,
     Some Fill_getSystemInfo, None]"

definition answering :: "dm \<Rightarrow> bool" where
  "answering p \<longleftrightarrow> ci_state p \<in> {CLIENT_STATE_FILL_MSG, CLIENT_STATE_SEND, CLIENT_STATE_SETTINGS}"

definition message_ready :: "dm \<Rightarrow> bool" where
  "message_ready p \<longleftrightarrow>
     (ci_msgType p = 1 \<and> so_msg_type (searchOutMsg p) = ack_find_device
        \<and> sendArray p = [None, Some Send_sendSearchMsg, None, None])
     \<or> (ci_msgType p = 2 \<and> settBuff p ! 0 = ack_to_set_config \<and> settBuff p ! 7 = 1
        \<and> sendArray p = [None, None, Some Send_sendSettMsg, None])"

definition dm_ok :: "dm \<Rightarrow> bool" where
  "dm_ok p \<longleftrightarrow> dm_layout p \<and> 0 \<le> bufferLen p \<and> bufferLen p < 1550
     \<and> ci_event p \<in> {0, CLIENT_EVENT_UPDATE} \<and> ci_count p \<le> 4 \<and> ci_state p \<noteq> CLIENT_SATE_IDLE
     \<and> fillArray p = (if ci_state p = CLIENT_SATE_INIT then replicate 5 None else callbacks)
     \<and> list_all output_ok (dm_out p)
     \<and> (answering p \<longrightarrow> 0 < bufferLen p)
     \<and> (ci_state p = CLIENT_STATE_FILL_MSG \<longrightarrow> ci_msgType p = 1)
     \<and> (ci_state p = CLIENT_STATE_SETTINGS \<longrightarrow> ci_msgType p = 2)
     \<and> (if ci_state p = CLIENT_STATE_SEND then message_ready p else sendArray p = [None, None, None, None])"

lemma layout_length:
  assumes "dm_layout p"
  shows "length (settBuff p) = 1063" and "length (rcvBuffer p) = 1550"
    and "search_out_ok (searchOutMsg p)" and "net_param_ok (switchNetParam p)"
  using assms by (simp_all add: dm_layout_def)

subsection \<open>Bits of the events\<close>

lemma event_bits [simp]:
  "setb 0 e = e"
  "e \<in> {0, CLIENT_EVENT_UPDATE} \<Longrightarrow> clrb CLIENT_EVENT_MSG_READY (setb CLIENT_EVENT_MSG_READY e) = e"
  "e \<in> {0, CLIENT_EVENT_UPDATE} \<Longrightarrow> clrb CLIENT_EVENT_FIND (setb CLIENT_EVENT_FIND e) = e"
  "e \<in> {0, CLIENT_EVENT_UPDATE} \<Longrightarrow> clrb CLIENT_EVENT_SETTINGS (setb CLIENT_EVENT_SETTINGS e) = e"
  "e \<in> {0, CLIENT_EVENT_UPDATE} \<Longrightarrow> setb CLIENT_EVENT_UPDATE e = CLIENT_EVENT_UPDATE"
  by (auto simp: setb_def clrb_def)

lemma event_none:
  "e \<in> {0, CLIENT_EVENT_UPDATE} \<Longrightarrow> \<not> has e CLIENT_EVENT_FIND \<and> \<not> has e CLIENT_EVENT_SETTINGS
     \<and> \<not> has e CLIENT_EVENT_MSG_READY \<and> \<not> has e CLIENT_EVENT_SYS_RELOAD \<and> \<not> has e CLIENT_EVENT_NET_RELOAD"
  by (auto simp: has_def)

subsection \<open>Every state\<close>

lemma output_scripts [simp]:
  "output_ok (Command (CommandTable ! 0 @ x))" "output_ok (Command (CommandTable ! Suc 0))"
  "output_ok (Command (CommandTable ! 2))" "output_ok (Command (CommandTable ! 3))"
  by (simp_all add: CommandTable_def scripts_def)

lemma output_table: "c \<in> set CommandTable \<Longrightarrow> output_ok (Command c)"
  by (auto simp: CommandTable_def scripts_def)

lemma length_callbacks [simp]: "length callbacks = 5"
  by (simp add: callbacks_def)

lemma getNetInfo_keeps:
  assumes "getNetInfo v p = Some (ec, p')"
  obtains q where "p' = p\<lparr>dm_out := dm_out p @ [Command (CommandTable ! 0 @ '' '' @ cfgDeviceName p)], switchNetParam := q\<rparr>"
    and "net_param_ok (switchNetParam p) \<Longrightarrow> net_param_ok q"
proof -
  from assms obtain ls p1 n q where r: "read_pipe v (CommandTable ! 0 @ '' '' @ cfgDeviceName p) p = Some (ls, p1)"
    and l: "net_lines ls (0, ERR_OK_dm, switchNetParam p1) = Some (n, ec, q)" and "p' = p1\<lparr>switchNetParam := q\<rparr>"
    by (auto simp: getNetInfo_def bind_eq_Some_conv)
  with read_pipe_keeps [OF r] net_lines_ok [OF l] show thesis by (intro that [of q]) auto
qed

lemma register_all:
  "fillArray p = replicate 5 None \<Longrightarrow>
     fold (\<lambda>cb p. snd (client_registerEvent_fillmsg cb p))
       [Fill_fillNetInfo, Fill_getTimeInfo, Fill_getBoardInfo, Fill_getSystemInfo] p
     = p\<lparr>fillArray := callbacks\<rparr>"
  by (simp add: client_registerEvent_fillmsg_def callbacks_def eval_nat_numeral)

lemma state_init_eq:
  assumes "fillArray p = replicate 5 None" and "getNetInfo v p = Some (code, p1)"
  shows "\<exists>f. state_init v p = Some (if sock_ok v \<and> opt_ok v \<and> bind_ok v \<and> io_ok v then code else ERR_NETWORK,
    p1\<lparr>dm_fds := f, fillArray := callbacks, ci_state := CLIENT_STATE_WAIT\<rparr>)"
proof -
  have "fillArray p1 = replicate 5 None" 
    by (rule getNetInfo_keeps [OF assms(2)]) (simp add: assms(1))
  then have r: "fold (\<lambda>cb p. snd (client_registerEvent_fillmsg cb p))
      [Fill_fillNetInfo, Fill_getTimeInfo, Fill_getBoardInfo, Fill_getSystemInfo] (p1\<lparr>dm_fds := f\<rparr>)
      = p1\<lparr>dm_fds := f, fillArray := callbacks\<rparr>" for f by (intro register_all [THEN trans]) simp_all
  have "p1\<lparr>dm_fds := dm_fds p1\<rparr> = p1" by (cases p1) simp
  then have "net_socketInit v p = Some (if sock_ok v \<and> opt_ok v \<and> bind_ok v \<and> io_ok v then code else ERR_NETWORK,
      p1\<lparr>dm_fds := if sock_ok v \<and> opt_ok v \<and> (bind_ok v \<longrightarrow> io_ok v) then dm_fds p1 + 1 else dm_fds p1\<rparr>)"
    by (simp add: net_socketInit_def assms(2))
  then show ?thesis
    unfolding state_init_def by (simp only: bind.bind_lunit prod.case r Let_def) blast
qed

lemma state_init_ok:
  assumes "dm_ok p" and "ci_state p = CLIENT_SATE_INIT" and "state_init v p = Some (ec, p')"
  shows "dm_ok p' \<and> ci_state p' = CLIENT_STATE_WAIT"
proof -
  obtain code p1 where g: "getNetInfo v p = Some (code, p1)"
    using assms(3) by (auto simp: state_init_def net_socketInit_def bind_eq_Some_conv)
  then obtain q where p1: "p1 = p\<lparr>dm_out := dm_out p @ [Command (CommandTable ! 0 @ '' '' @ cfgDeviceName p)], switchNetParam := q\<rparr>"
    and q: "net_param_ok (switchNetParam p) \<Longrightarrow> net_param_ok q" using getNetInfo_keeps by blast
  have "fillArray p = replicate 5 None" using assms(1,2) by (simp add: dm_ok_def)
  from state_init_eq [OF this g] assms(3) obtain f
    where "p' = p1\<lparr>dm_fds := f, fillArray := callbacks, ci_state := CLIENT_STATE_WAIT\<rparr>" by auto
  then show ?thesis
    using assms(1,2) p1 q by (simp add: dm_ok_def dm_layout_def answering_def del: output_ok.simps)
qed

lemma net_getCommand_eq:
  "net_getCommand v p = Some (cmd, p1) \<longleftrightarrow>
     (\<exists>d. received v = Some d \<and> length d < 1550 \<and> cmd = (d @ [0]) ! 0
        \<and> p1 = p\<lparr>rcvBuffer := d @ 0 # drop (length d + 1) (rcvBuffer p), bufferLen := int (length d)\<rparr>)"
proof (cases "received v")
  case (Some d)
  have "(d @ 0 # x) ! 0 = (d @ [0]) ! 0" for x by (cases d) auto
  then show ?thesis
    using Some by (cases "length d < 1550") (auto simp: net_getCommand_def Let_def)
qed (simp add: net_getCommand_def)

lemma state_wait_eq:
  assumes "ci_event p \<in> {0, CLIENT_EVENT_UPDATE}" and "net_getCommand v p = Some (cmd, p1)"
  shows "state_wait v p = Some (0,
    if cmd = request_find_device
    then p1\<lparr>ci_msgType := 1, ci_state := CLIENT_STATE_FILL_MSG, ci_count := 0\<rparr>
    else if cmd = request_set_config
    then p1\<lparr>ci_msgType := 2, ci_state := CLIENT_STATE_SETTINGS, ci_count := 0\<rparr>
    else if cmd = request_to_update then p1\<lparr>ci_event := CLIENT_EVENT_UPDATE\<rparr> else p1)"
proof -
  have "ci_event p1 = ci_event p" using assms(2) by (auto simp: net_getCommand_eq)
  moreover have "p1\<lparr>ci_event := ci_event p1\<rparr> = p1" by (cases p1) simp
  moreover define ev where "ev = (if cmd = request_find_device then CLIENT_EVENT_FIND
               else if cmd = request_set_config then CLIENT_EVENT_SETTINGS
               else if cmd = request_to_update then CLIENT_EVENT_UPDATE else 0)"
  moreover have "state_wait v p = Some (0, on_settings (on_find (p1\<lparr>ci_event := setb ev (ci_event p1)\<rparr>)))"
    using assms(2) by (simp add: state_wait_def client_waitCommand_def ev_def)
  ultimately show ?thesis
    using assms(1) unfolding on_find_def on_settings_def setb_def clrb_def has_def
    by (elim insertE emptyE) simp_all
qed

lemma state_wait_ok:
  assumes "dm_ok p" and "ci_state p = CLIENT_STATE_WAIT" and "state_wait v p = Some (ec, p')"
  shows "dm_ok p' \<and> ec = 0 \<and> ci_state p' \<noteq> CLIENT_SATE_INIT"
proof -
  obtain cmd p1 where c: "net_getCommand v p = Some (cmd, p1)"
    using assms(3) by (auto simp: state_wait_def client_waitCommand_def bind_eq_Some_conv)
  have e: "ci_event p \<in> {0, CLIENT_EVENT_UPDATE}" using assms(1) by (simp add: dm_ok_def)
  from c obtain d where d: "length d < 1550" "cmd = (d @ [0]) ! 0"
    "p1 = p\<lparr>rcvBuffer := d @ 0 # drop (length d + 1) (rcvBuffer p), bufferLen := int (length d)\<rparr>"
    by (auto simp: net_getCommand_eq)
  then have "dm_ok p1" and "ci_state p1 = CLIENT_STATE_WAIT" and "d = [] \<Longrightarrow> cmd = 0"
    using assms(1,2) by (auto simp: dm_ok_def dm_layout_def answering_def)
  moreover have "ec = 0 \<and> p' = (if cmd = request_find_device
    then p1\<lparr>ci_msgType := 1, ci_state := CLIENT_STATE_FILL_MSG, ci_count := 0\<rparr>
    else if cmd = request_set_config
    then p1\<lparr>ci_msgType := 2, ci_state := CLIENT_STATE_SETTINGS, ci_count := 0\<rparr>
    else if cmd = request_to_update then p1\<lparr>ci_event := CLIENT_EVENT_UPDATE\<rparr> else p1)"
    using assms(3) state_wait_eq [OF e c] by simp
  moreover have "d \<noteq> [] \<Longrightarrow> 0 < bufferLen p1" using d by simp
  ultimately show ?thesis
    by (cases "d = []") (simp_all add: dm_ok_def dm_layout_def answering_def)
qed

text \<open>Whether a datagram goes out, and the descriptor that stays open when it does not.\<close>

definition send_ok :: "env \<Rightarrow> bool" where
  "send_ok v \<longleftrightarrow> sock_ok v \<and> opt_ok v \<and> bind_ok v \<and> io_ok v"

lemma net_sendMsg_eq:
  "net_sendMsg v p =
     (if send_ok v then (0, p\<lparr>dm_out := dm_out p @ [Datagram (take (nat (bufferLen p)) (rcvBuffer p))]\<rparr>)
      else (ERR_NETWORK, p\<lparr>dm_fds := dm_fds p + (if sock_ok v then 1 else 0)\<rparr>))"
  by (cases p) (auto simp: net_sendMsg_def send_ok_def Let_def)

lemma state_send_eq:
  assumes "dm_ok p" and "ci_state p = CLIENT_STATE_SEND"
  defines "b \<equiv> (if ci_msgType p = 1 then search_buff (searchOutMsg p) @ drop 444 (rcvBuffer p)
                 else settBuff p @ drop 1063 (rcvBuffer p))"
  shows "state_send v p = (0,
    if send_ok v then p\<lparr>ci_state := CLIENT_STATE_RELOAD, rcvBuffer := b, sendArray := [None, None, None, None],
                       dm_out := dm_out p @ [Datagram (take (nat (bufferLen p)) b)]\<rparr>
    else p\<lparr>ci_state := CLIENT_STATE_RELOAD, rcvBuffer := b, sendArray := [None, None, None, None],
           dm_fds := dm_fds p + (if sock_ok v then 1 else 0)\<rparr>)"
proof -
  have "message_ready p" using assms by (simp add: dm_ok_def)
  then show ?thesis
    by (auto simp: state_send_def client_emitEvent_sendmsg_def client_unRegisterEvent_sendmsg_def
        message_ready_def client_sendSearchMsg_def client_sendSettMsg_def net_sendMsg_eq b_def
        numeral_2_eq_2)
qed

lemma answer_ok_take:
  assumes "0 < n" and "b \<noteq> []" and "b ! 0 \<in> {ack_find_device, ack_to_set_config}"
    and "b ! 0 = ack_to_set_config \<longrightarrow> b ! 7 = 1"
  shows "answer_ok (take n b)"
proof -
  have "hd (take n b) = b ! 0" using assms(1,2) by (simp add: hd_conv_nth)
  then show ?thesis using assms by (simp add: answer_ok_def)
qed

lemma state_send_ok:
  assumes "dm_ok p" and "ci_state p = CLIENT_STATE_SEND"
  shows "dm_ok (snd (state_send v p)) \<and> fst (state_send v p) = 0
    \<and> ci_state (snd (state_send v p)) = CLIENT_STATE_RELOAD"
proof -
  let ?b = "if ci_msgType p = 1 then search_buff (searchOutMsg p) @ drop 444 (rcvBuffer p)
            else settBuff p @ drop 1063 (rcvBuffer p)"
  have m: "message_ready p" and l: "dm_layout p" and n: "0 < bufferLen p"
    using assms by (simp_all add: dm_ok_def answering_def)
  have "length ?b = 1550" using l by (simp add: layout_length)
  moreover have "?b ! 0 \<in> {ack_find_device, ack_to_set_config} \<and> (?b ! 0 = ack_to_set_config \<longrightarrow> ?b ! 7 = 1)"
  proof -
    have "search_buff x ! 0 = so_msg_type x" for x by (simp add: search_buff_def)
    moreover have "0 < length (search_buff (searchOutMsg p))" using l by (simp add: layout_length)
    moreover have "7 < length (settBuff p)" using l by (simp add: layout_length)
    ultimately show ?thesis
      using m unfolding message_ready_def by (elim disjE) (auto simp: nth_append)
  qed
  ultimately have "answer_ok (take (nat (bufferLen p)) ?b)"
    using n by (intro answer_ok_take) (auto simp del: nth_append_left)
  then show ?thesis
    using assms \<open>length ?b = 1550\<close> unfolding state_send_eq [OF assms]
    by (cases "send_ok v") (simp_all only: if_True if_False, simp_all add: dm_ok_def dm_layout_def answering_def)
qed

lemma only_search_ok: "only_search p q \<Longrightarrow> dm_layout p \<Longrightarrow> dm_layout q"
  unfolding only_search_def dm_layout_def by (metis dm.select_convs dm.update_convs dm.surjective)

lemma run_fill_keeps:
  assumes "run_fill v cb p = Some q"
  shows "only_search p q \<and> (\<exists>cs. dm_out q = dm_out p @ map Command cs \<and> set cs \<subseteq> set CommandTable)"
proof (cases cb)
  case Fill_fillNetInfo
  then show ?thesis using assms only_search_fill(1) [of p] by (auto simp: fillNetInfo_def intro: exI [of _ "[]"])
next
  case Fill_getTimeInfo
  then have "getTimeInfo v p = Some q" using assms by simp
  moreover from this have "dm_out q = dm_out p @ map Command [CommandTable ! 1]"
    by (auto simp: getTimeInfo_def bind_eq_Some_conv dest!: read_pipe_keeps)
  ultimately show ?thesis using only_search_fill(2) by (fastforce simp: CommandTable_def)
next
  case Fill_getBoardInfo
  then have "getBoardInfo v p = Some q" using assms by simp
  moreover from this have "dm_out q = dm_out p @ map Command [CommandTable ! 2]"
    by (auto simp: getBoardInfo_def bind_eq_Some_conv dest!: read_pipe_keeps)
  ultimately show ?thesis using only_search_fill(3) by (fastforce simp: CommandTable_def)
next
  case Fill_getSystemInfo
  then have "getSystemInfo v p = Some q" using assms by simp
  moreover from this have "dm_out q = dm_out p @ map Command [CommandTable ! 3]"
    by (auto simp: getSystemInfo_def bind_eq_Some_conv dest!: read_pipe_keeps)
  ultimately show ?thesis using only_search_fill(4) by (fastforce simp: CommandTable_def)
qed

lemma state_fill_msg_ok:
  assumes "dm_ok p" and "ci_state p = CLIENT_STATE_FILL_MSG" and "state_fill_msg v p = Some (ec, p')"
  shows "dm_ok p' \<and> ec = 0 \<and> ci_state p' \<in> {CLIENT_STATE_FILL_MSG, CLIENT_STATE_SEND}"
proof (cases "ci_count p < 4")
  case True
  then consider "ci_count p = 0" | "ci_count p = 1" | "ci_count p = 2" | "ci_count p = 3" by linarith
  then obtain cb where cb: "fillArray p ! ci_count p = Some cb"
    using assms(1,2) that by cases (simp_all add: dm_ok_def callbacks_def)
  then obtain q where q: "run_fill v cb p = Some q"
    and p': "ec = 0" "\<not> has (ci_event q) CLIENT_EVENT_MSG_READY \<longrightarrow>
       p' = q\<lparr>ci_count := ci_count q + 1, searchOutMsg := (searchOutMsg q)\<lparr>so_msg_type := ack_find_device\<rparr>\<rparr>"
    using assms(3) True
    by (auto simp: state_fill_msg_def client_emitEvent_fillmsg_def bind_eq_Some_conv Let_def split: if_splits)
  from run_fill_keeps [OF q] have o: "only_search p q" and "list_all output_ok (dm_out p) \<longrightarrow> list_all output_ok (dm_out q)"
    using output_table by (auto simp: list_all_iff simp del: output_ok.simps) blast
  moreover have "dm_layout q" using only_search_ok [OF o] assms(1) by (simp add: dm_ok_def)
  moreover obtain m t where "q = p\<lparr>searchOutMsg := m, dm_out := t\<rparr>"
    using o unfolding only_search_def by blast
  moreover have "\<not> has (ci_event p) CLIENT_EVENT_MSG_READY"
    using assms(1) event_none by (auto simp: dm_ok_def)
  ultimately show ?thesis
    using assms(1,2) p' True by (simp add: dm_ok_def dm_layout_def answering_def)
next
  case False
  then have "ci_count p = 4" using assms(1) by (simp add: dm_ok_def)
  have e: "ci_event p \<in> {0, CLIENT_EVENT_UPDATE}" and "sendArray p ! 1 = None" "ci_msgType p = 1"
    using assms(1,2) by (auto simp: dm_ok_def)
  moreover have "has (setb CLIENT_EVENT_MSG_READY (ci_event p)) CLIENT_EVENT_MSG_READY"
    by simp
  ultimately have "ec = 0 \<and> p' = p\<lparr>ci_event := ci_event p, searchOutMsg := (searchOutMsg p)\<lparr>so_msg_type := ack_find_device\<rparr>,
      sendArray := (sendArray p)[1 := Some Send_sendSearchMsg], ci_state := CLIENT_STATE_SEND\<rparr>"
    using assms(3) False
    by (simp add: state_fill_msg_def client_emitEvent_fillmsg_def client_registerEvent_sendmsg_def Let_def)
  then show ?thesis
    using assms(1,2) \<open>ci_msgType p = 1\<close>
    by (simp add: dm_ok_def dm_layout_def answering_def message_ready_def)
qed

subsection \<open>Settings\<close>

definition request_buff :: "dm \<Rightarrow> u8 list" where
  "request_buff p = take (nat (bufferLen p)) (rcvBuffer p) @ drop (nat (bufferLen p)) (settBuff p)"

lemma pass_flags:
  "(setb pass_md5 (setb pass_mac f)) AND pass_mac = 1"
  "(clrb pass_mac (setb pass_md5 (setb pass_mac f))) AND pass_mac = 0"
proof -
  show "(setb pass_md5 (setb pass_mac f)) AND pass_mac = 1"
    by (rule bit_word_eqI) (auto simp: setb_def bit_simps bit_1_iff)
  show "(clrb pass_mac (setb pass_md5 (setb pass_mac f))) AND pass_mac = 0"
    by (rule bit_word_eqI) (auto simp: clrb_def bit_simps bit_1_iff)
qed

lemma hash_lines [simp]: "fold hash_line ls 1 = 1"
  by (induction ls) (simp_all add: hash_line_def clrb_def)

text \<open>
  Only the bit of the address is left in \<open>passFlag\<close> when the password is checked, and the check sets
  none: it cannot succeed.
\<close>

lemma client_settings_eq:
  assumes "0 < bufferLen p" and "bufferLen p \<le> 1063"
  defines "b \<equiv> request_buff p" and "q \<equiv> p\<lparr>settBuff := request_buff p, settLen := of_int (bufferLen p - 39)\<rparr>"
  shows "client_settings v p =
    (if take 6 (so_mac (searchOutMsg p)) = sett_mac b
     then do { c \<leftarrow> cmd_checkHash b;
               _ \<leftarrow> prints v c;
               Some (ERR_AUTHENTICATION, q\<lparr>passFlag := 1, dm_out := dm_out p @ [Command c]\<rparr>) }
     else Some (INFO_MAC_NOT_IDENTICAL, q\<lparr>passFlag := 0\<rparr>))"
proof -
  define f where "f = setb pass_md5 (setb pass_mac (passFlag p))"
  have g: "getBuffer (p\<lparr>passFlag := f\<rparr>) = Some (p\<lparr>passFlag := f, settBuff := b\<rparr>)"
    using assms(1,2) by (simp add: getBuffer_def b_def request_buff_def Let_def)
  show ?thesis
  proof (cases "take 6 (so_mac (searchOutMsg p)) = sett_mac b")
    case True
    then show ?thesis
      using pass_flags(1) [of "passFlag p"] unfolding client_settings_def f_def [symmetric] g
      by (auto simp: checkMacAddress_def getBufferLen_def checkMD5Sum_def read_pipe_def openPipe_def
          q_def b_def Let_def has_def split: Option.bind_split option.splits)
  next
    case False
    then show ?thesis
      using pass_flags(2) [of "passFlag p"] unfolding client_settings_def f_def [symmetric] g
      by (simp add: checkMacAddress_def getBufferLen_def q_def b_def Let_def)
  qed
qed

lemma client_settings_long: "1063 < bufferLen p \<Longrightarrow> client_settings v p = None"
  by (simp add: client_settings_def getBuffer_def Let_def nat_le_iff)

lemma state_settings_eq:
  assumes "dm_ok p" and "ci_state p = CLIENT_STATE_SETTINGS" and "bufferLen p \<le> 1063"
  defines "b \<equiv> request_buff p" and "q \<equiv> p\<lparr>settLen := of_int (bufferLen p - 39)\<rparr>"
  shows "state_settings v p =
    (if take 6 (so_mac (searchOutMsg p)) = sett_mac b
     then do { c \<leftarrow> cmd_checkHash b;
               _ \<leftarrow> prints v c;
               Some (ERR_AUTHENTICATION, q\<lparr>passFlag := 1, dm_out := dm_out p @ [Command c],
                 settBuff := acknowledge ERR_AUTHENTICATION b,
                 sendArray := [None, None, Some Send_sendSettMsg, None], ci_state := CLIENT_STATE_SEND\<rparr>) }
     else Some (INFO_MAC_NOT_IDENTICAL, q\<lparr>passFlag := 0, settBuff := acknowledge INFO_MAC_NOT_IDENTICAL b,
            ci_state := CLIENT_STATE_WAIT\<rparr>))"
proof -
  have "0 < bufferLen p" and "sendArray p = [None, None, None, None]" and "ci_msgType p = 2"
    using assms(1,2) by (simp_all add: dm_ok_def answering_def)
  then show ?thesis
    using assms(3) unfolding state_settings_def client_settings_eq [OF \<open>0 < bufferLen p\<close> assms(3)]
    by (auto simp: client_registerEvent_sendmsg_def b_def q_def Let_def split: Option.bind_split)
qed

lemma cmd_checkHash_output: "cmd_checkHash b = Some c \<Longrightarrow> output_ok (Command c)"
  by (auto simp: cmd_checkHash_def scripts_def Let_def split: if_split_asm)

lemma length_request_buff: "dm_layout p \<Longrightarrow> bufferLen p \<le> 1063 \<Longrightarrow> length (request_buff p) = 1063"
  by (simp add: request_buff_def dm_layout_def)

lemma acknowledge_fields:
  "length b = 1063 \<Longrightarrow> length (acknowledge ec b) = 1063 \<and> acknowledge ec b ! 0 = ack_to_set_config
     \<and> acknowledge ec b ! 7 = ucast ec"
  by (simp add: acknowledge_def nth_list_update)

lemma state_settings_ok:
  assumes "dm_ok p" and "ci_state p = CLIENT_STATE_SETTINGS" and "state_settings v p = Some (ec, p')"
  shows "dm_ok p' \<and> ec \<in> {ERR_AUTHENTICATION, INFO_MAC_NOT_IDENTICAL}
    \<and> ci_state p' \<in> {CLIENT_STATE_SEND, CLIENT_STATE_WAIT}"
proof (cases "bufferLen p \<le> 1063")
  case True
  have "length (request_buff p) = 1063"
    using assms(1) True by (simp add: dm_ok_def length_request_buff)
  note ack = acknowledge_fields [OF this]
  from assms(3) consider c where "cmd_checkHash (request_buff p) = Some c" "ec = ERR_AUTHENTICATION"
      "p' = p\<lparr>settLen := of_int (bufferLen p - 39), passFlag := 1, dm_out := dm_out p @ [Command c],
         settBuff := acknowledge ERR_AUTHENTICATION (request_buff p),
         sendArray := [None, None, Some Send_sendSettMsg, None], ci_state := CLIENT_STATE_SEND\<rparr>"
    | "ec = INFO_MAC_NOT_IDENTICAL"
      "p' = p\<lparr>settLen := of_int (bufferLen p - 39), passFlag := 0,
         settBuff := acknowledge INFO_MAC_NOT_IDENTICAL (request_buff p), ci_state := CLIENT_STATE_WAIT\<rparr>"
    unfolding state_settings_eq [OF assms(1,2) True]
    by (auto simp: bind_eq_Some_conv split: if_split_asm)
  then show ?thesis
  proof cases
    case 1
    then show ?thesis
      using assms(1,2) ack [of 1] cmd_checkHash_output [OF 1(1)]
      by (simp add: dm_ok_def dm_layout_def answering_def message_ready_def del: output_ok.simps)
  next
    case 2
    then show ?thesis
      using assms(1,2) ack [of 6] by (simp add: dm_ok_def dm_layout_def answering_def)
  qed
next
  case False
  then show ?thesis using assms(3) by (simp add: state_settings_def client_settings_long)
qed

subsection \<open>The loop\<close>

lemma state_reload_eq:
  assumes "dm_ok p" and "ci_state p = CLIENT_STATE_RELOAD"
  shows "state_reload v p = Some (0, p\<lparr>ci_state := CLIENT_STATE_WAIT\<rparr>)"
proof -
  have "ci_event p \<in> {0, CLIENT_EVENT_UPDATE}" using assms(1) by (simp add: dm_ok_def)
  then show ?thesis using event_none by (simp add: state_reload_def)
qed

lemma client_handler_ok:
  assumes "dm_ok p" and "client_handler v p = Some (ec, p')"
  shows "dm_ok p' \<and> ci_state p' \<noteq> CLIENT_SATE_INIT
    \<and> (ci_state p \<noteq> CLIENT_SATE_INIT \<longrightarrow> ec \<in> {0, ERR_AUTHENTICATION, INFO_MAC_NOT_IDENTICAL})"
proof (cases "ci_state p")
  case CLIENT_SATE_IDLE
  then show ?thesis using assms(1) by (simp add: dm_ok_def)
next
  case CLIENT_SATE_INIT
  then show ?thesis using assms state_init_ok [of p v ec p'] by (auto simp: client_handler_def)
next
  case CLIENT_STATE_WAIT
  then show ?thesis using assms state_wait_ok [of p v ec p'] by (auto simp: client_handler_def)
next
  case CLIENT_STATE_FILL_MSG
  then show ?thesis using assms state_fill_msg_ok [of p v ec p'] by (auto simp: client_handler_def)
next
  case CLIENT_STATE_SEND
  then show ?thesis
    using assms state_send_ok [of p v] by (cases "state_send v p") (auto simp: client_handler_def)
next
  case CLIENT_STATE_SETTINGS
  then show ?thesis using assms state_settings_ok [of p v ec p'] by (auto simp: client_handler_def)
next
  case CLIENT_STATE_RELOAD
  then have "p' = p\<lparr>ci_state := CLIENT_STATE_WAIT\<rparr>" "ec = 0"
    using assms by (auto simp: client_handler_def state_reload_eq)
  then show ?thesis using CLIENT_STATE_RELOAD assms(1) by (simp add: dm_ok_def dm_layout_def answering_def)
qed

interpretation ok: loop_invariant "\<lambda>v. True" "\<lambda>ec p. dm_ok p"
  by unfold_locales (use client_handler_ok in blast)

text \<open>After the first call the code never ends the loop.\<close>

interpretation run: loop_invariant "\<lambda>v. True"
  "\<lambda>ec p. dm_ok p \<and> ci_state p \<noteq> CLIENT_SATE_INIT \<and> ec \<in> {0, ERR_AUTHENTICATION, ERR_NETWORK, INFO_MAC_NOT_IDENTICAL}"
  by unfold_locales (use client_handler_ok in blast)

lemma dm_ok_zero: "dm_ok zero_dm"
proof -
  have "replicate 4 None = [None, None, None, None :: send_callback option]" by (simp add: eval_nat_numeral)
  then show ?thesis by (simp add: dm_ok_def dm_layout_def zero_dm_def answering_def)
qed

lemma dm_main_ok:
  assumes "dm_main argv = Some (Inr p)"
  shows "dm_ok p \<and> ci_state p = CLIENT_SATE_INIT"
proof -
  have "options_only zero_dm p" using assms main_options_only by (simp add: dm_main_def)
  then have eq: "p\<lparr>cfgDeviceName := [], locationTestFlag := 0\<rparr> = zero_dm"
    by (simp add: options_only_def zero_dm_def)
  have "dm_ok (p\<lparr>cfgDeviceName := [], locationTestFlag := 0\<rparr>) = dm_ok p"
    by (simp add: dm_ok_def dm_layout_def answering_def message_ready_def)
  moreover have "ci_state (p\<lparr>cfgDeviceName := [], locationTestFlag := 0\<rparr>) = ci_state p" by simp
  ultimately show ?thesis unfolding eq using dm_ok_zero by (simp add: zero_dm_def)
qed

lemma reachable_dm_ok: "dm_reachable ec p \<Longrightarrow> dm_ok p"
  using ok.every_state dm_main_ok by blast

lemma loop_condition:
  "ec \<noteq> ERR_CONFIGURATION \<Longrightarrow> ec \<noteq> 7 \<Longrightarrow>
     client_app (v # vs) ec p
     = (case client_handler v p of None \<Rightarrow> Crashed | Some (ec', p') \<Rightarrow> client_app vs ec' p')"
proof -
  have x: "a XOR b = 0 \<longleftrightarrow> a = b" for a b :: u32
    by (metis bit.xor_cancel_right bit.xor_self xor.assoc xor.right_neutral)
  have "(ec XOR ERR_CONFIGURATION) XOR ERR_NETWORK = ec XOR 7" by (simp add: xor.assoc)
  then show "ec \<noteq> ERR_CONFIGURATION \<Longrightarrow> ec \<noteq> 7 \<Longrightarrow> ?thesis" by (simp add: x)
qed

lemma loop_ends: "client_app (v # vs) ERR_CONFIGURATION p = Returned 0 p" "client_app (v # vs) 7 p = Returned 0 p"
  by simp_all

end
