(* ===== verification/DM_Properties.thy ===== *)
theory DM_Properties
  imports DM_Invariant
begin

section \<open>The device monitor: its properties\<close>

text \<open>
  How requests are answered, what the check of the password amounts to, which datagrams lead
  outside the buffers, and when the program ends.
\<close>

subsection \<open>A search\<close>

text \<open>What the \<open>k\<close>-th callback makes of the answer; \<open>w\<close> are the answers of the system to its call.\<close>

definition filled :: "env \<Rightarrow> nat \<Rightarrow> switch_net_param \<Rightarrow> search_out_msg \<Rightarrow> search_out_msg" where
  "filled w k q m =
    (let ls = fgets_lines (the (prints w (CommandTable ! k))) in
     if k = 0 then setNetInfo m q
     else if k = 1 then snd (fold time_line ls (0, m))
     else if k = 2 then snd (snd (fold board_line ls (0, 2, m)))
     else snd (fold system_line ls (0, m)))"

lemma run_fill_prints:
  assumes "\<forall>c. prints w c \<noteq> None" and "k < 4"
  shows "run_fill w (the (callbacks ! k)) p = Some (p\<lparr>
    searchOutMsg := filled w k (switchNetParam p) (searchOutMsg p),
    dm_out := dm_out p @ (if k = 0 then [] else [Command (CommandTable ! k)])\<rparr>)"
proof -
  have eq: "p\<lparr>searchOutMsg := m, dm_out := dm_out p\<rparr> = p\<lparr>searchOutMsg := m\<rparr>" for m by (cases p) simp
  have "\<exists>t. prints w c = Some t" for c using assms(1) by auto
  then obtain f where f: "prints w = (\<lambda>c. Some (f c))" by metis
  consider "k = 0" | "k = 1" | "k = 2" | "k = 3" using assms(2) by linarith
  then show ?thesis
    using eq f by cases (simp_all add: callbacks_def filled_def fillNetInfo_def getTimeInfo_def
        getBoardInfo_def getSystemInfo_def read_pipe_def openPipe_def)
qed

lemma fill_step:
  assumes "dm_ok p" and "ci_state p = CLIENT_STATE_FILL_MSG" and "ci_count p < 4"
    and "\<forall>c. prints w c \<noteq> None"
  defines "k \<equiv> ci_count p"
  shows "client_handler w p = Some (0, p\<lparr>searchOutMsg := (filled w k (switchNetParam p) (searchOutMsg p))\<lparr>so_msg_type := ack_find_device\<rparr>,
    dm_out := dm_out p @ (if k = 0 then [] else [Command (CommandTable ! k)]), ci_count := k + 1\<rparr>)"
proof -
  have e: "\<not> has (ci_event p) CLIENT_EVENT_MSG_READY"
    using assms(1) event_none by (auto simp: dm_ok_def)
  have k: "k < 4" using assms(3) by (simp add: k_def)
  then have "fillArray p ! k = Some (the (callbacks ! k))"
    using assms(1,2) by (auto simp: dm_ok_def callbacks_def less_Suc_eq eval_nat_numeral)
  then show ?thesis
    using assms(2,3) e run_fill_prints [OF assms(4) k, of p]
    by (simp add: client_handler_def state_fill_msg_def client_emitEvent_fillmsg_def k_def [symmetric]
        filled_def Let_def)
qed

lemma ready_step:
  assumes "dm_ok p" and "ci_state p = CLIENT_STATE_FILL_MSG" and "ci_count p = 4"
  shows "client_handler w p = Some (0, p\<lparr>searchOutMsg := (searchOutMsg p)\<lparr>so_msg_type := ack_find_device\<rparr>,
    sendArray := [None, Some Send_sendSearchMsg, None, None], ci_state := CLIENT_STATE_SEND\<rparr>)"
proof -
  have e: "ci_event p \<in> {0, CLIENT_EVENT_UPDATE}" and a: "sendArray p = [None, None, None, None]" "ci_msgType p = 1"
    using assms(1,2) by (auto simp: dm_ok_def)
  have "p\<lparr>ci_event := ci_event p\<rparr> = p" by (cases p) simp
  then show ?thesis
    using assms(2,3) a event_bits(2) [OF e]
    by (simp add: client_handler_def state_fill_msg_def client_emitEvent_fillmsg_def
        client_registerEvent_sendmsg_def Let_def)
qed

lemma send_step:
  assumes "dm_ok p" and "ci_state p = CLIENT_STATE_SEND"
  shows "client_handler w p = Some (state_send w p)"
  using assms(2) by (simp add: client_handler_def)

definition net_part :: "search_out_msg \<Rightarrow> u8 list \<times> u8 list \<times> u8 list \<times> u8 list" where
  "net_part m = (so_mac m, so_ip m, so_mask m, so_gate m)"

lemma net_part_type [simp]: "net_part (m\<lparr>so_msg_type := x\<rparr>) = net_part m"
  by (simp add: net_part_def)

lemma net_part_filled:
  "net_part (filled w 0 q m) = (np_mac_addr q, np_ip_addr q, np_net_mask q, np_getWay q)"
  "k > 0 \<Longrightarrow> net_part (filled w k q m) = net_part m"
proof -
  have t: "net_part (snd (fold time_line ls (n, m))) = net_part m" for ls n m
    by (induction ls arbitrary: n m) (simp_all add: time_line_def Let_def net_part_def)
  have b: "net_part (snd (snd (fold board_line ls (n, j, m)))) = net_part m" for ls n j m
    by (induction ls arbitrary: n j m) (simp_all add: board_line_def Let_def net_part_def)
  have s: "net_part (snd (fold system_line ls (n, m))) = net_part m" for ls n m
    by (induction ls arbitrary: n m) (simp_all add: system_line_def Let_def net_part_def)
  show "net_part (filled w 0 q m) = (np_mac_addr q, np_ip_addr q, np_net_mask q, np_getWay q)"
    by (simp add: filled_def setNetInfo_def net_part_def)
  show "k > 0 \<Longrightarrow> net_part (filled w k q m) = net_part m"
    by (simp add: filled_def Let_def t b s)
qed

lemma search_step:
  assumes "dm_ok p" and "ci_state p = CLIENT_STATE_WAIT" and "received v = Some d"
    and "d \<noteq> []" and "length d < 1550"
  shows "client_handler v p = Some (0,
    let q = p\<lparr>rcvBuffer := d @ 0 # drop (length d + 1) (rcvBuffer p), bufferLen := int (length d)\<rparr> in
    if hd d = request_find_device
    then q\<lparr>ci_msgType := 1, ci_state := CLIENT_STATE_FILL_MSG, ci_count := 0\<rparr>
    else if hd d = request_set_config
    then q\<lparr>ci_msgType := 2, ci_state := CLIENT_STATE_SETTINGS, ci_count := 0\<rparr>
    else if hd d = request_to_update then q\<lparr>ci_event := CLIENT_EVENT_UPDATE\<rparr> else q)"
proof -
  have "ci_event p \<in> {0, CLIENT_EVENT_UPDATE}" using assms(1) by (simp add: dm_ok_def)
  moreover have "net_getCommand v p = Some (hd d,
      p\<lparr>rcvBuffer := d @ 0 # drop (length d + 1) (rcvBuffer p), bufferLen := int (length d)\<rparr>)"
    using assms(3-5) by (cases d) (auto simp: net_getCommand_eq)
  ultimately show ?thesis
    using assms(2) by (simp add: client_handler_def state_wait_eq Let_def)
qed

lemma dm_ok_step: "dm_ok p \<Longrightarrow> client_handler v p = Some (ec, q) \<Longrightarrow> dm_ok q"
  using client_handler_ok by blast

lemma answer_cut:
  "length S = 444 \<Longrightarrow> take (Suc (length r)) (S @ drop 443 (r @ t)) = take (Suc (length r)) S @ drop 443 r"
  by simp

text \<open>The five calls that fill in the answer, from the one that received the search on.\<close>

lemma fill_run:
  assumes "dm_ok p" and "ci_state p = CLIENT_STATE_FILL_MSG" and "ci_count p = 0"
    and "\<forall>w \<in> {w0, w1, w2, w3}. \<forall>c. prints w c \<noteq> None"
  shows "\<exists>m q. client_app (w0 # w1 # w2 # w3 # w4 # ws) 0 p = client_app ws 0 q \<and> dm_ok q
    \<and> so_msg_type m = ack_find_device \<and> net_part m = net_part (setNetInfo m (switchNetParam p))
    \<and> q = p\<lparr>searchOutMsg := m, dm_out := dm_out p @ map (\<lambda>k. Command (CommandTable ! k)) [1, 2, 3],
          ci_count := 4, sendArray := [None, Some Send_sendSearchMsg, None, None], ci_state := CLIENT_STATE_SEND\<rparr>"
proof -
  let ?n = "switchNetParam p" and ?A = "\<lambda>m. m\<lparr>so_msg_type := ack_find_device\<rparr>"
  define m1 where "m1 = ?A (filled w0 0 ?n (searchOutMsg p))"
  define m2 where "m2 = ?A (filled w1 1 ?n m1)"
  define m3 where "m3 = ?A (filled w2 2 ?n m2)"
  define m4 where "m4 = ?A (filled w3 3 ?n m3)"
  define p1 where "p1 = p\<lparr>searchOutMsg := m1, dm_out := dm_out p, ci_count := 1\<rparr>"
  define p2 where "p2 = p1\<lparr>searchOutMsg := m2, dm_out := dm_out p1 @ [Command (CommandTable ! 1)], ci_count := 2\<rparr>"
  define p3 where "p3 = p2\<lparr>searchOutMsg := m3, dm_out := dm_out p2 @ [Command (CommandTable ! 2)], ci_count := 3\<rparr>"
  define p4 where "p4 = p3\<lparr>searchOutMsg := m4, dm_out := dm_out p3 @ [Command (CommandTable ! 3)], ci_count := 4\<rparr>"
  define q where "q = p4\<lparr>searchOutMsg := m4, sendArray := [None, Some Send_sendSearchMsg, None, None],
    ci_state := CLIENT_STATE_SEND\<rparr>"
  note defs = p1_def p2_def p3_def p4_def
  have s1: "client_handler w0 p = Some (0, p1)"
    using fill_step [OF assms(1), of w0] assms(2-4) by (simp add: defs m1_def)
  note ok1 = dm_ok_step [OF assms(1) s1]
  have s2: "client_handler w1 p1 = Some (0, p2)"
    using fill_step [OF ok1, of w1] assms(2,4) by (simp add: defs m2_def)
  note ok2 = dm_ok_step [OF ok1 s2]
  have s3: "client_handler w2 p2 = Some (0, p3)"
    using fill_step [OF ok2, of w2] assms(2,4) by (simp add: defs m3_def)
  note ok3 = dm_ok_step [OF ok2 s3]
  have s4: "client_handler w3 p3 = Some (0, p4)"
    using fill_step [OF ok3, of w3] assms(2,4) by (simp add: defs m4_def)
  note ok4 = dm_ok_step [OF ok3 s4]
  have "?A m4 = m4" by (simp add: m4_def)
  then have s5: "client_handler w4 p4 = Some (0, q)"
    using ready_step [OF ok4, of w4] assms(2) by (simp add: defs q_def)
  have "client_app (w0 # w1 # w2 # w3 # w4 # ws) 0 p = client_app ws 0 q"
    by (simp add: loop_condition s1 s2 s3 s4 s5 del: client_app.simps(2))
  moreover have "net_part m4 = net_part (setNetInfo m4 ?n)"
    using net_part_filled(1) [of w0 ?n "searchOutMsg p"] net_part_filled(1) [of w0 ?n m4]
    by (simp add: m4_def m3_def m2_def m1_def net_part_filled(2)) (simp add: filled_def)
  moreover have "q = p\<lparr>searchOutMsg := m4, dm_out := dm_out p @ map (\<lambda>k. Command (CommandTable ! k)) [1, 2, 3],
      ci_count := 4, sendArray := [None, Some Send_sendSearchMsg, None, None], ci_state := CLIENT_STATE_SEND\<rparr>"
    by (simp add: q_def defs)
  ultimately show ?thesis
    using dm_ok_step [OF ok4 s5] by (intro exI [of _ m4] exI [of _ q]) (simp add: m4_def)
qed

text \<open>Sending, and the way back to the waiting state.\<close>

lemma send_run:
  assumes "dm_ok p" and "ci_state p = CLIENT_STATE_SEND"
  obtains q where "client_app [v, w] 0 p = Running 0 q" and "ci_state q = CLIENT_STATE_WAIT"
    and "dm_out q = dm_out p @ (if send_ok v
      then [Datagram (take (nat (bufferLen p))
        (if ci_msgType p = 1 then search_buff (searchOutMsg p) @ drop 444 (rcvBuffer p)
         else settBuff p @ drop 1063 (rcvBuffer p)))] else [])"
proof -
  define p1 where "p1 = snd (state_send v p)"
  have s1: "client_handler v p = Some (0, p1)"
    using send_step [OF assms] state_send_eq [OF assms] by (simp add: p1_def)
  have st: "ci_state p1 = CLIENT_STATE_RELOAD" using state_send_eq [OF assms] by (simp add: p1_def)
  have s2: "client_handler w p1 = Some (0, p1\<lparr>ci_state := CLIENT_STATE_WAIT\<rparr>)"
    using st state_reload_eq [OF dm_ok_step [OF assms(1) s1] st] by (simp add: client_handler_def)
  have run: "client_app [v, w] 0 p = Running 0 (p1\<lparr>ci_state := CLIENT_STATE_WAIT\<rparr>)"
    by (simp add: loop_condition s1 s2 del: client_app.simps(2))
  have out: "dm_out p1 = dm_out p @ (if send_ok v
      then [Datagram (take (nat (bufferLen p))
        (if ci_msgType p = 1 then search_buff (searchOutMsg p) @ drop 444 (rcvBuffer p)
         else settBuff p @ drop 1063 (rcvBuffer p)))] else [])"
    using state_send_eq [OF assms, of v] by (simp add: p1_def)
  show thesis by (rule that [OF run], simp, simp add: out)
qed

text \<open>
  C25. A search is answered: from the waiting state, the daemon collects what the scripts print and is
  back there after eight calls, having sent exactly one datagram if the socket allows it. The
  datagram is as long as the request: it carries the first octets of the answer, with the addresses
  read at the start, and beyond 444 octets what the request had there.
\<close>

theorem find_request_answered:
  assumes "dm_reachable ec p" and "ec \<noteq> ERR_CONFIGURATION" and "ec \<noteq> 7"
    and "ci_state p = CLIENT_STATE_WAIT"
    and "received v = Some (request_find_device # r)" and "length r < 1549"
    and "\<forall>w \<in> {w0, w1, w2, w3}. \<forall>c. prints w c \<noteq> None"
  shows "\<exists>m p'. client_app [v, w0, w1, w2, w3, w4, w5, w6] ec p = Running 0 p'
    \<and> ci_state p' = CLIENT_STATE_WAIT \<and> so_msg_type m = ack_find_device
    \<and> so_mac m = np_mac_addr (switchNetParam p) \<and> so_ip m = np_ip_addr (switchNetParam p)
    \<and> so_mask m = np_net_mask (switchNetParam p) \<and> so_gate m = np_getWay (switchNetParam p)
    \<and> dm_out p' = dm_out p @ map (\<lambda>k. Command (CommandTable ! k)) [1, 2, 3]
        @ (if send_ok w5
           then [Datagram (take (length r + 1) (search_buff m) @ drop 443 r)] else [])"
proof -
  define p0 where "p0 = p\<lparr>rcvBuffer := (request_find_device # r) @ 0 # drop (length r + 2) (rcvBuffer p),
    bufferLen := int (length r + 1), ci_msgType := 1, ci_state := CLIENT_STATE_FILL_MSG, ci_count := 0\<rparr>"
  have ok: "dm_ok p" using assms(1) by (rule reachable_dm_ok)
  have s0: "client_handler v p = Some (0, p0)"
    using search_step [OF ok assms(4,5)] assms(6) by (simp add: p0_def Let_def)
  obtain m q where run: "client_app [w0, w1, w2, w3, w4, w5, w6] 0 p0 = client_app [w5, w6] 0 q" and q_ok: "dm_ok q"
    and m: "so_msg_type m = ack_find_device" "net_part m = net_part (setNetInfo m (switchNetParam p0))"
    and q: "q = p0\<lparr>searchOutMsg := m, dm_out := dm_out p0 @ map (\<lambda>k. Command (CommandTable ! k)) [1, 2, 3],
      ci_count := 4, sendArray := [None, Some Send_sendSearchMsg, None, None], ci_state := CLIENT_STATE_SEND\<rparr>"
    using fill_run [OF dm_ok_step [OF ok s0], of w0 w1 w2 w3 w4 "[w5, w6]"] assms(7) by (auto simp: p0_def)
  have fq: "ci_state q = CLIENT_STATE_SEND" "nat (bufferLen q) = Suc (length r)" "ci_msgType q = 1" "searchOutMsg q = m"
      "rcvBuffer q = request_find_device # r @ 0 # drop (length r + 2) (rcvBuffer p)"
      "dm_out q = dm_out p @ map (\<lambda>k. Command (CommandTable ! k)) [1, 2, 3]"
    by (simp_all add: q p0_def nat_add_distrib)
  have "length (search_buff m) = 444" using q_ok fq by (auto simp: dm_ok_def dm_layout_def)
  moreover obtain p' where "client_app [w5, w6] 0 q = Running 0 p'" and "ci_state p' = CLIENT_STATE_WAIT"
    and "dm_out p' = dm_out q @ (if send_ok w5 then [Datagram (take (nat (bufferLen q))
        (if ci_msgType q = 1 then search_buff (searchOutMsg q) @ drop 444 (rcvBuffer q)
         else settBuff q @ drop 1063 (rcvBuffer q)))] else [])"
    using send_run [OF q_ok fq(1)] by metis
  moreover have "client_app [v, w0, w1, w2, w3, w4, w5, w6] ec p = client_app [w5, w6] 0 q"
    using assms(2,3) run by (simp add: loop_condition [of ec] s0 del: client_app.simps(2))
  ultimately show ?thesis
    using m by (intro exI [of _ m] exI [of _ p'] conjI)
      (simp_all add: fq answer_cut net_part_def setNetInfo_def p0_def)
qed

subsection \<open>A request for settings\<close>

text \<open>The request with what is left of an earlier, longer one behind it.\<close>

definition request_with :: "u8 list \<Rightarrow> dm \<Rightarrow> u8 list" where
  "request_with d p = d @ drop (length d) (settBuff p)"

lemma settings_steps:
  assumes "dm_ok p" and "ec \<noteq> ERR_CONFIGURATION" and "ec \<noteq> 7" and "ci_state p = CLIENT_STATE_WAIT"
    and "received v = Some (request_set_config # r)" and "length r < 1549"
  defines "d \<equiv> request_set_config # r"
  obtains p0 where "dm_ok p0" and "client_app (v # vs) ec p = client_app vs 0 p0"
    and "ci_state p0 = CLIENT_STATE_SETTINGS" and "searchOutMsg p0 = searchOutMsg p" and "dm_out p0 = dm_out p"
    and "bufferLen p0 = int (length d)" and "take (length d) (rcvBuffer p0) = d"
    and "settBuff p0 = settBuff p" and "request_buff p0 = request_with d p"
proof -
  define p0 where "p0 = p\<lparr>rcvBuffer := d @ 0 # drop (length d + 1) (rcvBuffer p), bufferLen := int (length d),
    ci_msgType := 2, ci_state := CLIENT_STATE_SETTINGS, ci_count := 0\<rparr>"
  have "client_handler v p = Some (0, p0)"
    using search_step [OF assms(1,4,5)] assms(6) by (simp add: p0_def d_def Let_def)
  moreover from dm_ok_step [OF assms(1) this] have "dm_ok p0" .
  ultimately show thesis
    using assms(2,3) by (intro that [of p0])
      (simp_all add: loop_condition p0_def request_buff_def request_with_def del: client_app.simps(2))
qed

text \<open>
  C26. No password is ever right: a request for settings with the address of the switch makes the
  daemon run its script, and whatever the script prints, \<^verbatim>\<open>config_ok\<close> included, the request is
  answered with \<^verbatim>\<open>ERR_AUTHENTICATION\<close>, and nothing is reloaded.
\<close>

theorem settings_never_accepted:
  assumes "dm_reachable ec p" and "ec \<noteq> ERR_CONFIGURATION" and "ec \<noteq> 7"
    and "ci_state p = CLIENT_STATE_WAIT"
    and "received v = Some d" and "d \<noteq> []" and "hd d = request_set_config" and "length d \<le> 1063"
    and "sett_mac (request_with d p) = so_mac (searchOutMsg p)"
    and "cmd_checkHash (request_with d p) = Some c" and "prints w c = Some t"
  shows "\<exists>p'. client_app [v, w, x, y] ec p = Running 0 p' \<and> ci_state p' = CLIENT_STATE_WAIT
    \<and> dm_out p' = dm_out p @ Command c
        # (if send_ok x then [Datagram (take (length d) (acknowledge ERR_AUTHENTICATION (request_with d p)))] else [])"
proof -
  have ok: "dm_ok p" using assms(1) by (rule reachable_dm_ok)
  obtain r where d: "d = request_set_config # r" using assms(6,7) by (cases d) auto
  have r: "received v = Some (request_set_config # r)" "length r < 1549" using assms(5,8) d by auto
  obtain p0 where p0: "dm_ok p0" and s0: "client_app [v, w, x, y] ec p = client_app [w, x, y] 0 p0"
    and st0: "ci_state p0 = CLIENT_STATE_SETTINGS" and f0: "searchOutMsg p0 = searchOutMsg p" "dm_out p0 = dm_out p"
      "bufferLen p0 = int (length d)" "take (length d) (rcvBuffer p0) = d"
      "settBuff p0 = settBuff p" "request_buff p0 = request_with d p"
    using settings_steps [OF ok assms(2-4) r, of "[w, x, y]"] unfolding d [symmetric] by blast
  let ?b = "acknowledge ERR_AUTHENTICATION (request_with d p)"
  define p1 where "p1 = p0\<lparr>settLen := of_int (bufferLen p0 - 39), passFlag := 1, dm_out := dm_out p @ [Command c],
    settBuff := ?b, sendArray := [None, None, Some Send_sendSettMsg, None], ci_state := CLIENT_STATE_SEND\<rparr>"
  have "length (so_mac (searchOutMsg p)) = 6" using ok by (simp add: dm_ok_def dm_layout_def search_out_ok_def)
  then have s1: "client_handler w p0 = Some (1, p1)"
    using state_settings_eq [OF p0 st0, of w] f0 assms(8-11) st0 by (simp add: client_handler_def p1_def)
  note ok1 = dm_ok_step [OF p0 s1]
  have snd1: "ci_state p1 = CLIENT_STATE_SEND" by (simp add: p1_def)
  have f1: "settBuff p1 = ?b" "nat (bufferLen p1) = length d" "dm_out p1 = dm_out p @ [Command c]"
    by (simp_all add: p1_def f0)
  have "ci_msgType p0 = 2" using p0 st0 by (simp add: dm_ok_def)
  then have m1: "ci_msgType p1 = 2" by (simp add: p1_def)
  have len: "length ?b = 1063" using ok1 f1 by (simp add: dm_ok_def dm_layout_def)
  obtain p' where "client_app [x, y] 0 p1 = Running 0 p'" and "ci_state p' = CLIENT_STATE_WAIT"
    and "dm_out p' = dm_out p1 @ (if send_ok x then [Datagram (take (nat (bufferLen p1))
        (if ci_msgType p1 = 1 then search_buff (searchOutMsg p1) @ drop 444 (rcvBuffer p1)
         else settBuff p1 @ drop 1063 (rcvBuffer p1)))] else [])"
    using send_run [OF ok1 snd1] by metis
  moreover have "client_app [v, w, x, y] ec p = client_app [x, y] 1 p1"
    unfolding s0 by (simp add: loop_condition s1 del: client_app.simps(2))
  moreover have "client_app [x, y] 1 p1 = client_app [x, y] 0 p1" by (simp add: loop_condition del: client_app.simps(2))
  ultimately show ?thesis using f1 m1 len assms(8) by (intro exI [of _ p'] conjI) simp_all
qed

text \<open>
  Which requests lead outside the buffers, before anything is known about the sender: those longer
  than the request's union, and those for this switch whose password and text, up to the first zero,
  have more than 202 octets together.
\<close>

theorem settings_request_out_of_bounds:
  assumes "dm_reachable ec p" and "ec \<noteq> ERR_CONFIGURATION" and "ec \<noteq> 7"
    and "ci_state p = CLIENT_STATE_WAIT"
    and "received v = Some d" and "d \<noteq> []" and "hd d = request_set_config" and "length d < 1550"
    and "\<forall>c. prints w c \<noteq> None"
  shows "client_app [v, w] ec p = Crashed \<longleftrightarrow>
    1063 < length d
    \<or> sett_mac (request_with d p) = so_mac (searchOutMsg p)
      \<and> 202 < length (cstring_of (sett_pass_md5 (request_with d p))) + length (cstring_of (sett_msg (request_with d p)))"
proof -
  have ok: "dm_ok p" using assms(1) by (rule reachable_dm_ok)
  obtain r where d: "d = request_set_config # r" using assms(6,7) by (cases d) auto
  have r: "received v = Some (request_set_config # r)" "length r < 1549" using assms(5,8) d by auto
  obtain p0 where p0: "dm_ok p0" and s0: "client_app [v, w] ec p = client_app [w] 0 p0"
    and st0: "ci_state p0 = CLIENT_STATE_SETTINGS" and f0: "searchOutMsg p0 = searchOutMsg p"
      "bufferLen p0 = int (length d)" "request_buff p0 = request_with d p"
    using settings_steps [OF ok assms(2-4) r, of "[w]"] unfolding d [symmetric] by blast
  have app: "client_app [w] 0 p0 = Crashed \<longleftrightarrow> state_settings w p0 = None"
    using st0 by (auto simp: client_handler_def split: option.splits)
  have h: "cmd_checkHash b = None \<longleftrightarrow> 202 < length (cstring_of (sett_pass_md5 b)) + length (cstring_of (sett_msg b))" for b
    by (auto simp: cmd_checkHash_def Let_def)
  have mac: "length (so_mac (searchOutMsg p)) = 6" using ok by (simp add: dm_ok_def dm_layout_def search_out_ok_def)
  have pr: "prints w c \<noteq> None" for c using assms(9) by blast
  show ?thesis
  proof (cases "length d \<le> 1063")
    case True
    then show ?thesis
      using state_settings_eq [OF p0 st0, of w] f0 mac h [of "request_with d p"] unfolding s0 app
      by (auto simp: Option.bind_eq_None_conv pr)
  next
    case False
    then show ?thesis
      unfolding s0 app by (simp add: state_settings_def client_settings_long f0)
  qed
qed

text \<open>
  C27. A command line of the sender's choice: whoever knows the address of the switch, which every answer
  to a search contains, but no password, makes the daemon give the shell a line in which \<open>x\<close>, of any content, stands
  after a closed pair of quotes, where the shell takes it for commands.
\<close>

theorem unauthenticated_command:
  assumes "dm_reachable ec p" and "ec \<noteq> ERR_CONFIGURATION" and "ec \<noteq> 7"
    and "ci_state p = CLIENT_STATE_WAIT"
    and "received v = Some (request_set_config # so_mac (searchOutMsg p) @ replicate 32 0
            @ bytes_of (CHR 0x22 # x) @ [0])"
    and "NUL \<notin> set x" and "length x \<le> 201" and "\<forall>c. prints w c \<noteq> None"
  shows "\<exists>p'. client_app [v, w] ec p = Running ERR_AUTHENTICATION p'
    \<and> dm_out p' = dm_out p @ [Command (''/etc/tf_device_monitor_scripts/user_handler.lua   ''
         @ [CHR 0x22, CHR 0x22] @ x @ [CHR 0x22] @ '' '')]"
proof -
  let ?m = "so_mac (searchOutMsg p)"
  let ?r = "?m @ replicate 32 0 @ bytes_of (CHR 0x22 # x) @ [0]"
  let ?b = "request_with (request_set_config # ?r) p"
  have ok: "dm_ok p" using assms(1) by (rule reachable_dm_ok)
  then have mac: "length ?m = 6" by (simp add: dm_ok_def dm_layout_def search_out_ok_def)
  then have len: "length ?r < 1549" "length ?r < 1063" using assms(7) by simp_all
  obtain p0 where p0: "dm_ok p0" and s0: "client_app [v, w] ec p = client_app [w] 0 p0"
    and st0: "ci_state p0 = CLIENT_STATE_SETTINGS" and f0: "searchOutMsg p0 = searchOutMsg p" "dm_out p0 = dm_out p"
      "bufferLen p0 = int (length (request_set_config # ?r))" "request_buff p0 = ?b"
    using settings_steps [OF ok assms(2-4) assms(5) len(1), of "[w]"] by blast
  have "sett_mac ?b = ?m" using mac by (simp add: sett_mac_def request_with_def)
  moreover have "cstring_of (sett_pass_md5 ?b) = []"
    using mac by (simp add: sett_pass_md5_def request_with_def cstring_of_def)
  moreover have "cstring_of (sett_msg ?b) = CHR 0x22 # x"
  proof -
    obtain t where "sett_msg ?b = bytes_of (CHR 0x22 # x) @ 0 # t"
      using mac by (simp add: sett_msg_def request_with_def)
    then show ?thesis using cstring_of_bytes(2) [of "CHR 0x22 # x" t] assms(6) by simp
  qed
  ultimately have "cmd_checkHash ?b = Some (''/etc/tf_device_monitor_scripts/user_handler.lua   ''
         @ [CHR 0x22, CHR 0x22] @ x @ [CHR 0x22] @ '' '')" and "sett_mac ?b = ?m"
    using assms(7) by (simp_all add: cmd_checkHash_def)
  moreover obtain t where "prints w (''/etc/tf_device_monitor_scripts/user_handler.lua   ''
         @ [CHR 0x22, CHR 0x22] @ x @ [CHR 0x22] @ '' '') = Some t" using assms(8) by blast
  moreover have "bufferLen p0 \<le> 1063" using len(2) f0 by simp
  ultimately show ?thesis
    using state_settings_eq [OF p0 st0, of w] f0 mac st0 unfolding s0
    by (simp add: client_handler_def)
qed

subsection \<open>All runs\<close>

text \<open>
  Whatever arrives: every datagram sent is the answer to a search or, if it answers a request for
  settings, says \<^verbatim>\<open>ERR_AUTHENTICATION\<close>; and neither of the two reload commands is ever run.
\<close>

theorem reachable_never_reloads:
  assumes "dm_reachable ec p"
  shows "(\<forall>d. Datagram d \<in> set (dm_out p) \<longrightarrow>
      d \<noteq> [] \<and> (hd d = ack_find_device \<or> hd d = ack_to_set_config \<and> (7 < length d \<longrightarrow> d ! 7 = 1)))
    \<and> Command ''/etc/init.d/system restart'' \<notin> set (dm_out p)
    \<and> Command ''/etc/init.d/network restart'' \<notin> set (dm_out p)"
proof -
  have all: "\<And>o'. o' \<in> set (dm_out p) \<Longrightarrow> output_ok o'"
    using reachable_dm_ok [OF assms] by (simp add: dm_ok_def list_all_iff)
  have "\<not> output_ok (Command ''/etc/init.d/system restart'')" "\<not> output_ok (Command ''/etc/init.d/network restart'')"
    by (simp_all add: scripts_def)
  then show ?thesis
    using all output_ok.simps(1) unfolding answer_ok_def by blast
qed

text \<open>
  C28. However the program is called and whatever it receives, its data keep their types: every array has
  the size of the C declaration, the five callbacks are the ones registered at the start, exactly one answer is
  pending in the sending state and none in the others, and the events it waits for are never left set.
\<close>

theorem reachable_layout:
  assumes "dm_reachable ec p"
  shows "dm_layout p \<and> length (search_buff (searchOutMsg p)) = 444 \<and> 0 \<le> bufferLen p \<and> bufferLen p < 1550
    \<and> fillArray p = (if ci_state p = CLIENT_SATE_INIT then replicate 5 None
        else [Some Fill_fillNetInfo, Some Fill_getTimeInfo, Some Fill_getBoardInfo, Some Fill_getSystemInfo, None])
    \<and> length (filter (\<lambda>c. c \<noteq> None) (sendArray p)) = (if ci_state p = CLIENT_STATE_SEND then 1 else 0)
    \<and> ci_count p \<le> 4 \<and> ci_event p \<in> {0, CLIENT_EVENT_UPDATE}"
proof -
  have ok: "dm_ok p" using assms by (rule reachable_dm_ok)
  then have "length (filter (\<lambda>c. c \<noteq> None) (sendArray p)) = (if ci_state p = CLIENT_STATE_SEND then 1 else 0)"
    by (auto simp: dm_ok_def message_ready_def split: if_split_asm)
  then show ?thesis using ok by (simp add: dm_ok_def dm_layout_def callbacks_def)
qed

lemma net_lines_code:
  "net_lines ls (n, e, q) = Some (n', e', q') \<Longrightarrow> e \<in> {0, ERR_CONFIGURATION, 7} \<Longrightarrow> e' \<in> {0, ERR_CONFIGURATION, 7}"
proof (induction ls arbitrary: n e q)
  case (Cons l ls)
  then obtain n1 e1 q1 where l: "net_line l (n, e, q) = Some (n1, e1, q1)"
    and ls: "net_lines ls (n1, e1, q1) = Some (n', e', q')"
    by (auto simp: bind_eq_Some_conv)
  have "e1 \<in> {0, ERR_CONFIGURATION, 7}"
    using l Cons.prems(2)
    by (auto simp: net_line_def Let_def bind_eq_Some_conv split: if_split_asm)
  then show ?case using Cons.IH [of n1 e1 q1] ls by simp
qed simp

lemma loop_goes_on:
  assumes "dm_ok q" and "ci_state q \<noteq> CLIENT_SATE_INIT"
    and "ec \<in> {0, ERR_AUTHENTICATION, ERR_NETWORK, INFO_MAC_NOT_IDENTICAL}"
  shows "client_app us ec q \<noteq> Returned e r"
  using assms
proof (induction us arbitrary: ec q)
  case (Cons u us)
  then have c: "ec \<noteq> ERR_CONFIGURATION" "ec \<noteq> 7" by auto
  show ?case
  proof (cases "client_handler u q")
    case (Some s)
    then obtain ec' q' where s: "client_handler u q = Some (ec', q')" by (cases s) auto
    then show ?thesis
      unfolding loop_condition [OF c]
      using Cons.IH [of q' ec'] Cons.prems(2) client_handler_ok [OF Cons.prems(1) s] by auto
  qed (simp add: loop_condition [OF c] del: client_app.simps(2))
qed simp

text \<open>
  When the program ends: exactly if all calls on the socket succeeded and the script did not find
  the interface. Failing sockets do not end it, and it always ends with 0, as if all were well.
\<close>

theorem app_returns_iff:
  assumes "dm_main argv = Some (Inr p)"
  shows "((\<exists>e q. client_app (v # vs) 0 p = Returned e q) \<longleftrightarrow>
      vs \<noteq> [] \<and> send_ok v \<and> (\<exists>code q. getNetInfo v p = Some (code, q) \<and> code \<noteq> 0))
    \<and> (\<forall>e q. client_app (v # vs) 0 p = Returned e q \<longrightarrow> e = 0)"
proof -
  have ok: "dm_ok p" and st: "ci_state p = CLIENT_SATE_INIT" using dm_main_ok [OF assms] by simp_all
  have start: "client_app (v # vs) 0 p = (case state_init v p of None \<Rightarrow> Crashed | Some (ec', p') \<Rightarrow> client_app vs ec' p')"
    using st by (simp add: loop_condition client_handler_def del: client_app.simps(2))
  show ?thesis
  proof (cases "getNetInfo v p")
    case None
    then show ?thesis unfolding start by (simp add: state_init_def net_socketInit_def)
  next
    case (Some s)
    then obtain code p1 where g: "getNetInfo v p = Some (code, p1)" by (cases s) auto
    then have code: "code \<in> {0, ERR_CONFIGURATION, 7}"
      using net_lines_code by (fastforce simp: getNetInfo_def bind_eq_Some_conv)
    define ec where "ec = (if send_ok v then code else ERR_NETWORK)"
    have "fillArray p = replicate 5 None" using ok st by (simp add: dm_ok_def)
    from state_init_eq [OF this g] obtain q where q: "state_init v p = Some (ec, q)"
      unfolding ec_def send_ok_def by blast
    have "dm_ok q \<and> ci_state q \<noteq> CLIENT_SATE_INIT" using state_init_ok [OF ok st q] by simp
    moreover have run: "client_app (v # vs) 0 p = client_app vs ec q" unfolding start by (simp add: q)
    ultimately show ?thesis
    proof (cases "send_ok v \<and> code \<noteq> 0")
      case True
      then have "ec = ERR_CONFIGURATION \<or> ec = 7" using code by (auto simp: ec_def)
      then have "client_app vs ec q = (if vs = [] then Running ec q else Returned 0 q)"
        using loop_ends by (cases vs) auto
      then show ?thesis unfolding run using True g by simp
    next
      case False
      then have "ec \<in> {0, ERR_AUTHENTICATION, ERR_NETWORK, INFO_MAC_NOT_IDENTICAL}"
        by (auto simp: ec_def)
      then have "client_app vs ec q \<noteq> Returned e r" for e r
        using loop_goes_on \<open>dm_ok q \<and> ci_state q \<noteq> CLIENT_SATE_INIT\<close> by blast
      then show ?thesis unfolding run using False g by auto
    qed
  qed
qed

subsection \<open>Before the first search\<close>

text \<open>
  The address a request is compared with is copied from the configuration only when a search is
  answered. Until then it is zero.
\<close>

definition no_search :: "env \<Rightarrow> bool" where
  "no_search v \<longleftrightarrow> (\<forall>d. received v = Some d \<longrightarrow> d = [] \<or> hd d \<noteq> request_find_device
     \<and> (hd d = request_set_config \<longrightarrow> 7 \<le> length d \<and> sett_mac d \<noteq> replicate 6 0))"

definition deaf :: "string \<Rightarrow> dm \<Rightarrow> bool" where
  "deaf name p \<longleftrightarrow> dm_ok p \<and> so_mac (searchOutMsg p) = replicate 6 0 \<and> cfgDeviceName p = name
     \<and> ci_state p \<in> {CLIENT_SATE_INIT, CLIENT_STATE_WAIT, CLIENT_STATE_SETTINGS}
     \<and> (ci_state p = CLIENT_STATE_SETTINGS \<longrightarrow> sett_mac (request_buff p) \<noteq> replicate 6 0)
     \<and> set (dm_out p) \<subseteq> {Command (CommandTable ! 0 @ '' '' @ name)}"

lemma empty_step:
  assumes "dm_ok p" and "ci_state p = CLIENT_STATE_WAIT" and "received v = Some []"
  shows "client_handler v p = Some (0, p\<lparr>rcvBuffer := 0 # drop 1 (rcvBuffer p), bufferLen := 0\<rparr>)"
proof -
  have "ci_event p \<in> {0, CLIENT_EVENT_UPDATE}" using assms(1) by (simp add: dm_ok_def)
  moreover have "net_getCommand v p = Some (0, p\<lparr>rcvBuffer := 0 # drop 1 (rcvBuffer p), bufferLen := 0\<rparr>)"
    using assms(3) by (auto simp: net_getCommand_eq)
  ultimately show ?thesis using assms(2) by (simp add: client_handler_def state_wait_eq)
qed

lemma deaf_init:
  assumes "deaf name p" and "ci_state p = CLIENT_SATE_INIT" and "client_handler v p = Some (ec, p')"
  shows "deaf name p'"
proof -
  have ok: "dm_ok p" and ok': "dm_ok p'" using assms dm_ok_step by (auto simp: deaf_def)
  have s: "state_init v p = Some (ec, p')" using assms(2,3) by (simp add: client_handler_def)
  then obtain code p1 where g: "getNetInfo v p = Some (code, p1)"
    by (auto simp: state_init_def net_socketInit_def bind_eq_Some_conv)
  then obtain q where p1: "p1 = p\<lparr>dm_out := dm_out p @ [Command (CommandTable ! 0 @ '' '' @ cfgDeviceName p)], switchNetParam := q\<rparr>"
    using getNetInfo_keeps by blast
  have "fillArray p = replicate 5 None" using ok assms(2) by (simp add: dm_ok_def)
  from state_init_eq [OF this g] s obtain f
    where "p' = p1\<lparr>dm_fds := f, fillArray := callbacks, ci_state := CLIENT_STATE_WAIT\<rparr>" by auto
  then show ?thesis using assms(1) ok' p1 by (simp add: deaf_def)
qed

lemma deaf_wait:
  assumes "no_search v" and "deaf name p" and "ci_state p = CLIENT_STATE_WAIT"
    and "client_handler v p = Some (ec, p')"
  shows "deaf name p'"
proof -
  have ok: "dm_ok p" and ok': "dm_ok p'" using assms dm_ok_step by (auto simp: deaf_def)
  obtain d where d: "received v = Some d" "length d < 1550"
    using assms(3,4) by (auto simp: client_handler_def state_wait_def client_waitCommand_def
        bind_eq_Some_conv net_getCommand_eq)
  show ?thesis
  proof (cases "d = []")
    case True
    then have "p' = p\<lparr>rcvBuffer := 0 # drop 1 (rcvBuffer p), bufferLen := 0\<rparr>"
      using empty_step [OF ok assms(3)] d assms(4) by simp
    then show ?thesis using assms(2,3) ok' by (simp add: deaf_def)
  next
    case False
    have nd: "hd d \<noteq> request_find_device" "hd d = request_set_config \<Longrightarrow> 7 \<le> length d \<and> sett_mac d \<noteq> replicate 6 0"
      using assms(1) d(1) False by (auto simp: no_search_def)
    let ?q = "p\<lparr>rcvBuffer := d @ 0 # drop (length d + 1) (rcvBuffer p), bufferLen := int (length d)\<rparr>"
    have p': "p' = (if hd d = request_set_config
        then ?q\<lparr>ci_msgType := 2, ci_state := CLIENT_STATE_SETTINGS, ci_count := 0\<rparr>
        else if hd d = request_to_update then ?q\<lparr>ci_event := CLIENT_EVENT_UPDATE\<rparr> else ?q)"
      using search_step [OF ok assms(3) d(1) False d(2)] nd(1) assms(4) by (simp add: Let_def)
    show ?thesis
    proof (cases "hd d = request_set_config")
      case True
      with nd have "7 \<le> length d" "sett_mac d \<noteq> replicate 6 0" by auto
      moreover from this have "sett_mac (request_buff p') = sett_mac d"
        using True by (simp add: p' request_buff_def sett_mac_def)
      ultimately show ?thesis using assms(2) ok' True by (simp add: deaf_def p')
    next
      case False
      then show ?thesis using assms(2,3) ok' by (simp add: deaf_def p')
    qed
  qed
qed

lemma deaf_settings:
  assumes "deaf name p" and "ci_state p = CLIENT_STATE_SETTINGS" and "client_handler v p = Some (ec, p')"
  shows "deaf name p'"
proof -
  have ok: "dm_ok p" and ok': "dm_ok p'" using assms dm_ok_step by (auto simp: deaf_def)
  have s: "state_settings v p = Some (ec, p')" using assms(2,3) by (simp add: client_handler_def)
  then have l: "bufferLen p \<le> 1063"
    by (cases "bufferLen p \<le> 1063") (simp_all add: state_settings_def client_settings_long)
  have "take 6 (so_mac (searchOutMsg p)) \<noteq> sett_mac (request_buff p)"
    using assms(1,2) by (auto simp: deaf_def)
  with s have "p' = p\<lparr>settLen := of_int (bufferLen p - 39), passFlag := 0,
      settBuff := acknowledge INFO_MAC_NOT_IDENTICAL (request_buff p), ci_state := CLIENT_STATE_WAIT\<rparr>"
    using state_settings_eq [OF ok assms(2) l, of v] by simp
  then show ?thesis using assms(1) ok' by (simp add: deaf_def)
qed

interpretation deaf: loop_invariant no_search "\<lambda>ec p. deaf name p"
proof
  fix v ec p ec' p'
  assume "no_search v" and "deaf name p" and "client_handler v p = Some (ec', p')"
  moreover from this have "ci_state p \<in> {CLIENT_SATE_INIT, CLIENT_STATE_WAIT, CLIENT_STATE_SETTINGS}"
    by (simp add: deaf_def)
  ultimately show "deaf name p'" using deaf_init deaf_wait deaf_settings by blast
qed

text \<open>
  The switch does not listen to settings before it has been searched for: as long as only requests
  for settings arrive, whatever address but zero they carry, none is answered, and no script is run
  but the one at the start.
\<close>

theorem deaf_before_first_search:
  assumes "dm_main argv = Some (Inr p0)" and "\<forall>v \<in> set vs. no_search v"
    and "client_app vs 0 p0 = Running ec p"
  shows "set (dm_out p) \<subseteq> {Command (CommandTable ! 0 @ '' '' @ cfgDeviceName p0)}"
proof -
  have "options_only zero_dm p0" using assms(1) main_options_only by (simp add: dm_main_def)
  then have eq: "p0\<lparr>cfgDeviceName := [], locationTestFlag := 0\<rparr> = zero_dm"
    by (simp add: options_only_def zero_dm_def)
  have "searchOutMsg p0 = zero_search_out" using arg_cong [OF eq, of searchOutMsg] by (simp add: zero_dm_def)
  moreover have "dm_out p0 = []" using arg_cong [OF eq, of dm_out] by (simp add: zero_dm_def)
  ultimately have "deaf (cfgDeviceName p0) p0"
    using dm_main_ok [OF assms(1)] by (simp add: deaf_def zero_search_out_def)
  from deaf.app [OF assms(2) this assms(3)] show ?thesis by (simp add: deaf_def)
qed

subsection \<open>Time since the start\<close>

lemma time_lines_rest:
  assumes "1 \<le> unat n" and "unat n + length ls \<le> 256"
  shows "snd (fold time_line ls (n, m)) = m"
  using assms
proof (induction ls arbitrary: n)
  case (Cons l ls)
  have "n \<noteq> 0" using Cons.prems(1) by auto
  then have "n + 1 \<noteq> 1" by simp
  moreover have "snd (fold time_line ls (n + 1, m)) = m"
  proof (cases "unat n < 255")
    case True
    then have "unat (n + 1) = unat n + 1" using unat_add_lem [of n 1] by simp
    then show ?thesis using Cons by simp
  next
    case False
    then show ?thesis using Cons.prems(2) by (cases ls) auto
  qed
  moreover have "time_line l (n, m) = (n + 1, m)" using \<open>n + 1 \<noteq> 1\<close> by (simp add: time_line_def)
  ultimately show ?case by simp
qed simp

text \<open>
  The time since the start goes from the script's first line into octets 268 to 271 of the answer,
  low octet first, and comes out again as it was printed, up to \<open>2 ^ 31 - 1\<close>, if the script prints at most
  256 lines: the counter of lines has 8 bits.
\<close>

theorem uptime_in_answer:
  assumes "getTimeInfo v p = Some p'" and "dm_layout p"
    and "prints v (CommandTable ! 1) = Some text" and "text \<noteq> []" and "length (fgets_lines text) \<le> 256"
  shows "uptime_value (take 4 (drop 268 (search_buff (searchOutMsg p')))) = of_int (strtol (hd (fgets_lines text)))"
proof -
  obtain l ls where ls: "fgets_lines text = l # ls"
    using assms(4) by (subst (asm) fgets_lines.simps) (auto simp: Let_def)
  have p': "searchOutMsg p' = (searchOutMsg p)\<lparr>so_uptime := uptime_bytes (of_int (strtol l))\<rparr>"
    using assms(1,3,5) ls time_lines_rest [of 1 ls]
    by (auto simp: getTimeInfo_def read_pipe_def openPipe_def time_line_def)
  have "search_out_ok (searchOutMsg p)" using assms(2) by (simp add: dm_layout_def)
  then have "take 4 (drop 268 (search_buff (searchOutMsg p'))) = uptime_bytes (of_int (strtol l))"
    unfolding p' by (simp add: search_out_ok_def search_buff_def uptime_bytes_def)
  then show ?thesis using ls by (simp add: uptime_roundtrip)
qed

subsection \<open>Samples\<close>

text \<open>The waiting state after a start with scripts that print nothing.\<close>

definition quiet_env :: env where
  "quiet_env = \<lparr>received = None, prints = (\<lambda>c. Some []), sock_ok = True, opt_ok = True, bind_ok = True,
     io_ok = True\<rparr>"

definition got :: "u8 list \<Rightarrow> env" where
  "got d = quiet_env\<lparr>received := Some d\<rparr>"

definition sample_wait :: dm where
  "sample_wait = zero_dm\<lparr>dm_out := [Command (CommandTable ! 0 @ '' '')], dm_fds := 1, fillArray := callbacks,
     ci_state := CLIENT_STATE_WAIT\<rparr>"

lemma fgets_lines_Nil [simp]: "fgets_lines [] = []"
  by (subst fgets_lines.simps) simp

lemma sample_main: "dm_main [''tfdm''] = Some (Inr zero_dm)"
  by (simp add: dm_main_def)

lemma sample_handler: "client_handler quiet_env zero_dm = Some (0, sample_wait)"
proof -
  have "replicate 5 None = [None, None, None, None, None :: fill_callback option]" by (simp add: eval_nat_numeral)
  then show ?thesis
    by (simp add: client_handler_def state_init_def net_socketInit_def getNetInfo_def read_pipe_def
        openPipe_def quiet_env_def zero_dm_def sample_wait_def client_registerEvent_fillmsg_def callbacks_def)
qed

lemma sample_start: "client_app (quiet_env # vs) 0 zero_dm = client_app vs 0 sample_wait"
  by (subst loop_condition) (simp_all add: sample_handler del: client_app.simps)

lemma sample_reachable: "dm_reachable 0 sample_wait"
  using dm_reachable.call [OF dm_reachable.start [OF sample_main], of quiet_env 0 sample_wait]
  by (simp only: sample_start client_app.simps(1) simp_thms)

lemma sample_wait_fields [simp]:
  "ci_state sample_wait = CLIENT_STATE_WAIT" "settBuff sample_wait = replicate 1063 0"
  "searchOutMsg sample_wait = zero_search_out"
  by (simp_all add: sample_wait_def zero_dm_def)

lemma quiet_env_prints [simp]: "prints quiet_env = (\<lambda>c. Some [])" "prints (got d) = (\<lambda>c. Some [])"
  "received (got d) = Some d" "send_ok quiet_env"
  by (simp_all add: quiet_env_def got_def send_ok_def)

theorem find_request_answered_witness:
  "\<exists>m p'. client_app [got [0xE0], quiet_env, quiet_env, quiet_env, quiet_env, quiet_env, quiet_env, quiet_env] 0 sample_wait
      = Running 0 p' \<and> so_msg_type m = ack_find_device
    \<and> dm_out p' = dm_out sample_wait @ map (\<lambda>k. Command (CommandTable ! k)) [1, 2, 3]
        @ [Datagram (take 1 (search_buff m))]"
  using find_request_answered [OF sample_reachable, of "got [0xE0]" "[]" quiet_env quiet_env quiet_env quiet_env quiet_env quiet_env quiet_env]
  by auto

definition sample_request :: "u8 list" where
  "sample_request = request_set_config # replicate 6 0 @ replicate 32 0x31 @ [0x23]"

lemma sample_request_with:
  "sett_mac (request_with sample_request sample_wait) = replicate 6 0"
  "cstring_of (sett_pass_md5 (request_with sample_request sample_wait)) = replicate 32 CHR ''1''"
  "cstring_of (sett_msg (request_with sample_request sample_wait)) = ''#''"
proof -
  have f: "request_with sample_request sample_wait
      = request_set_config # replicate 6 0 @ replicate 32 0x31 @ 0x23 # 0 # replicate 1022 0"
    by (simp add: request_with_def sample_request_def replicate_Suc [symmetric] del: replicate_Suc)
  show "sett_mac (request_with sample_request sample_wait) = replicate 6 0"
    unfolding f by (simp add: sett_mac_def)
  have "bytes_of (replicate 32 CHR ''1'') = replicate 32 0x31" by (simp add: bytes_of_def)
  then show "cstring_of (sett_pass_md5 (request_with sample_request sample_wait)) = replicate 32 CHR ''1''"
    unfolding f using cstring_of_bytes(1) [of "replicate 32 CHR ''1''"] by (simp add: sett_pass_md5_def)
  show "cstring_of (sett_msg (request_with sample_request sample_wait)) = ''#''"
    unfolding f using cstring_of_bytes(2) [of "''#''"] by (simp add: sett_msg_def bytes_of_def)
qed

lemma sample_request_props:
  "sample_request \<noteq> []" "hd sample_request = request_set_config" "length sample_request = 40"
  by (simp_all add: sample_request_def)

theorem settings_never_accepted_witness:
  "\<exists>c p'. client_app [got sample_request, quiet_env, quiet_env, quiet_env] 0 sample_wait = Running 0 p'
    \<and> ci_state p' = CLIENT_STATE_WAIT
    \<and> dm_out p' = dm_out sample_wait @ Command c
       # [Datagram (take 40 (acknowledge ERR_AUTHENTICATION (request_with sample_request sample_wait)))]"
proof -
  obtain c where "cmd_checkHash (request_with sample_request sample_wait) = Some c"
    by (simp add: cmd_checkHash_def sample_request_with)
  then show ?thesis
    using settings_never_accepted [OF sample_reachable, of "got sample_request" sample_request c quiet_env "[]" quiet_env quiet_env]
    by (intro exI [of _ c]) (simp add: sample_request_with sample_request_props zero_search_out_def del: client_app.simps)
qed

theorem settings_request_out_of_bounds_witness:
  "client_app [got (request_set_config # replicate 1063 0), quiet_env] 0 sample_wait = Crashed"
  using settings_request_out_of_bounds [OF sample_reachable, of "got (request_set_config # replicate 1063 0)"
      "request_set_config # replicate 1063 0" quiet_env] by simp

theorem unauthenticated_command_witness:
  "\<exists>p'. client_app [got (request_set_config # replicate 6 0 @ replicate 32 0 @ bytes_of (CHR 0x22 # '';reboot #'') @ [0]),
          quiet_env] 0 sample_wait = Running ERR_AUTHENTICATION p'
    \<and> dm_out p' = dm_out sample_wait @ [Command (''/etc/tf_device_monitor_scripts/user_handler.lua   ''
         @ [CHR 0x22, CHR 0x22] @ '';reboot #'' @ [CHR 0x22] @ '' '')]"
  using unauthenticated_command [OF sample_reachable, of
      "got (request_set_config # replicate 6 0 @ replicate 32 0 @ bytes_of (CHR 0x22 # '';reboot #'') @ [0])"
      "'';reboot #''" quiet_env]
  by (simp add: zero_search_out_def)

theorem reachable_never_reloads_witness:
  "dm_reachable 0 sample_wait \<and> Command ''/etc/init.d/system restart'' \<notin> set (dm_out sample_wait)"
  using reachable_never_reloads [OF sample_reachable] sample_reachable by simp

theorem reachable_layout_witness:
  "dm_reachable 0 sample_wait \<and> dm_layout sample_wait \<and> length (search_buff (searchOutMsg sample_wait)) = 444"
  using reachable_layout [OF sample_reachable] sample_reachable by simp

theorem app_returns_iff_witness:
  "\<exists>q. client_app [quiet_env\<lparr>prints := \<lambda>c. Some (''not_found'' @ [newline])\<rparr>, quiet_env] 0 zero_dm = Returned 0 q"
proof -
  let ?v = "quiet_env\<lparr>prints := \<lambda>c. Some (''not_found'' @ [newline])\<rparr>"
  have "fgets_lines (''not_found'' @ [newline]) = [''not_found'' @ [newline]]" by code_simp
  then have "\<exists>q. getNetInfo ?v zero_dm = Some (7, q)"
    by (simp add: getNetInfo_def read_pipe_def openPipe_def net_line_def chomp_def)
  moreover have "send_ok ?v" by (simp add: send_ok_def quiet_env_def)
  ultimately show ?thesis
    using app_returns_iff [OF sample_main, of ?v "[quiet_env]"] by fastforce
qed

theorem deaf_before_first_search_witness:
  "\<exists>p. client_app [quiet_env, got (request_set_config # [1, 2, 3, 4, 5, 6]), quiet_env] 0 zero_dm = Running 6 p
    \<and> set (dm_out p) \<subseteq> {Command (CommandTable ! 0 @ '' '')}"
proof -
  let ?r = "[1, 2, 3, 4, 5, 6] :: u8 list" and ?v = "got (request_set_config # [1, 2, 3, 4, 5, 6])"
  have ok: "dm_ok sample_wait" using sample_reachable by (rule reachable_dm_ok)
  obtain p0 where p0: "dm_ok p0" and s0: "client_app [?v, quiet_env] 0 sample_wait = client_app [quiet_env] 0 p0"
    and st0: "ci_state p0 = CLIENT_STATE_SETTINGS" and f0: "searchOutMsg p0 = zero_search_out"
      "bufferLen p0 = 7" "request_buff p0 = request_with (request_set_config # ?r) sample_wait"
    using settings_steps [OF ok _ _ _ , of 0 ?v ?r "[quiet_env]"] by auto
  have "sett_mac (request_buff p0) = ?r" by (simp add: f0 request_with_def sett_mac_def)
  moreover have "replicate 6 0 \<noteq> ?r" by (simp add: eval_nat_numeral)
  ultimately obtain p where "state_settings quiet_env p0 = Some (6, p)"
    using state_settings_eq [OF p0 st0, of quiet_env] f0 by (simp add: zero_search_out_def)
  then have "client_app [quiet_env] 0 p0 = Running 6 p"
    using st0 by (simp add: loop_condition client_handler_def del: client_app.simps(2))
  then have "client_app [?v, quiet_env] 0 sample_wait = Running 6 p" using s0 by simp
  then have run: "client_app [quiet_env, ?v, quiet_env] 0 zero_dm = Running 6 p"
    by (simp only: sample_start)
  have "\<forall>v \<in> set [quiet_env, ?v, quiet_env]. no_search v"
    by (simp add: no_search_def sett_mac_def) (simp add: quiet_env_def eval_nat_numeral)
  from deaf_before_first_search [OF sample_main this run] run show ?thesis
    by (auto simp: zero_dm_def)
qed

theorem uptime_in_answer_witness:
  "\<exists>p'. getTimeInfo (quiet_env\<lparr>prints := \<lambda>c. Some (''66051'' @ [newline])\<rparr>) zero_dm = Some p'
    \<and> take 4 (drop 268 (search_buff (searchOutMsg p'))) = [3, 2, 1, 0]
    \<and> uptime_value (take 4 (drop 268 (search_buff (searchOutMsg p')))) = 66051"
proof -
  let ?v = "quiet_env\<lparr>prints := \<lambda>c. Some (''66051'' @ [newline])\<rparr>"
  have l: "fgets_lines (''66051'' @ [newline]) = [''66051'' @ [newline]]" by code_simp
  have n: "strtol (''66051'' @ [newline]) = 66051" by code_simp
  obtain p' where p': "getTimeInfo ?v zero_dm = Some p'"
    and m: "searchOutMsg p' = zero_search_out\<lparr>so_uptime := uptime_bytes 66051\<rparr>"
    using l n by (simp add: getTimeInfo_def read_pipe_def openPipe_def time_line_def) (simp add: zero_dm_def)
  have "dm_layout zero_dm" using dm_ok_zero by (simp add: dm_ok_def)
  from uptime_in_answer [OF p' this, of "''66051'' @ [newline]"]
  have "uptime_value (take 4 (drop 268 (search_buff (searchOutMsg p')))) = 66051" using l n by simp
  moreover have "take 4 (drop 268 (search_buff (searchOutMsg p'))) = [3, 2, 1, 0]"
    unfolding m by (simp add: search_buff_def zero_search_out_def uptime_bytes_def)
  ultimately show ?thesis using p' by blast
qed

end
