(* ===== verification/HW_Types.thy ===== *)
theory HW_Types
  imports AR_Text
begin

section \<open>The hardware daemon: registers, the table and the messages\<close>

text \<open>
  \<^verbatim>\<open>tf_hwsys/lib/i2c_lib\<close>: the registers of the I/O microcontroller, the table
  \<^verbatim>\<open>sock_msgArr\<close> with one entry per register, the frames in which the microcontroller returns
  them, and the accesses to the table.
\<close>

subsection \<open>Constants\<close>

abbreviation (input) I2C_NAME_MAX_LEN :: nat where "I2C_NAME_MAX_LEN \<equiv> 24"
abbreviation (input) STABLE_VALUE :: u16 where "STABLE_VALUE \<equiv> 10"

text \<open>The addresses of the registers, and the bounds of the enumeration.\<close>

abbreviation (input) REG_INTSTAT :: u32 where "REG_INTSTAT \<equiv> 0"
abbreviation (input) REG_INTMASK :: u32 where "REG_INTMASK \<equiv> 1"
abbreviation (input) REG_HW_VERS :: u32 where "REG_HW_VERS \<equiv> 2"
abbreviation (input) REG_SW_VERS :: u32 where "REG_SW_VERS \<equiv> 3"
abbreviation (input) REG_ADC_CH1 :: u32 where "REG_ADC_CH1 \<equiv> 4"
abbreviation (input) REG_ADC_CH2 :: u32 where "REG_ADC_CH2 \<equiv> 5"
abbreviation (input) REG_ADC_CH3 :: u32 where "REG_ADC_CH3 \<equiv> 6"
abbreviation (input) REG_TAMPER :: u32 where "REG_TAMPER \<equiv> 10"
abbreviation (input) REG_SENSOR1 :: u32 where "REG_SENSOR1 \<equiv> 11"
abbreviation (input) REG_SENSOR2 :: u32 where "REG_SENSOR2 \<equiv> 12"
abbreviation (input) REG_RELAY1 :: u32 where "REG_RELAY1 \<equiv> 13"
abbreviation (input) REG_DEFAULT_BUTTON :: u32 where "REG_DEFAULT_BUTTON \<equiv> 14"
abbreviation (input) REG_DEFAULT_LED :: u32 where "REG_DEFAULT_LED \<equiv> 15"
abbreviation (input) REG_DEFAULT_LONG_PRESSED :: u32 where "REG_DEFAULT_LONG_PRESSED \<equiv> 16"
abbreviation (input) REG_RPS_CONNECTED :: u32 where "REG_RPS_CONNECTED \<equiv> 20"
abbreviation (input) REG_RPS_HW_VERS :: u32 where "REG_RPS_HW_VERS \<equiv> 21"
abbreviation (input) REG_RPS_SW_VERS :: u32 where "REG_RPS_SW_VERS \<equiv> 22"
abbreviation (input) REG_RPS_VAC :: u32 where "REG_RPS_VAC \<equiv> 23"
abbreviation (input) REG_RPS_BAT_VOLTAGE :: u32 where "REG_RPS_BAT_VOLTAGE \<equiv> 24"
abbreviation (input) REG_RPS_CHRG_VOLTAGE :: u32 where "REG_RPS_CHRG_VOLTAGE \<equiv> 25"
abbreviation (input) REG_RPS_BAT_CURRENT :: u32 where "REG_RPS_BAT_CURRENT \<equiv> 26"
abbreviation (input) REG_RPS_TEMPER :: u32 where "REG_RPS_TEMPER \<equiv> 27"
abbreviation (input) REG_RPS_LED_STATE :: u32 where "REG_RPS_LED_STATE \<equiv> 28"
abbreviation (input) REG_RPS_BAT_KEY :: u32 where "REG_RPS_BAT_KEY \<equiv> 29"
abbreviation (input) REG_RPS_CHRG_KEY :: u32 where "REG_RPS_CHRG_KEY \<equiv> 30"
abbreviation (input) REG_RPS_REL_STATE :: u32 where "REG_RPS_REL_STATE \<equiv> 31"
abbreviation (input) REG_RPS_MIN_VOLTAGE :: u32 where "REG_RPS_MIN_VOLTAGE \<equiv> 32"
abbreviation (input) REG_RPS_DISCH_VOLTAGE :: u32 where "REG_RPS_DISCH_VOLTAGE \<equiv> 33"
abbreviation (input) REG_RPS_REMAIN_TIME :: u32 where "REG_RPS_REMAIN_TIME \<equiv> 34"
abbreviation (input) REG_RPS_TEST_OK :: u32 where "REG_RPS_TEST_OK \<equiv> 35"
abbreviation (input) REG_RPS_CPU_ID :: u32 where "REG_RPS_CPU_ID \<equiv> 36"
abbreviation (input) REG_RPS_LTC4151_OK :: u32 where "REG_RPS_LTC4151_OK \<equiv> 37"
abbreviation (input) REG_RPS_ADC_BAT_VOLT :: u32 where "REG_RPS_ADC_BAT_VOLT \<equiv> 38"
abbreviation (input) REG_RPS_ADC_BAT_CURR :: u32 where "REG_RPS_ADC_BAT_CURR \<equiv> 39"
abbreviation (input) REG_RPS_TEST_MODE :: u32 where "REG_RPS_TEST_MODE \<equiv> 40"
abbreviation (input) REG_SHT_CONNECTED :: u32 where "REG_SHT_CONNECTED \<equiv> 50"
abbreviation (input) REG_SHT_TYPE :: u32 where "REG_SHT_TYPE \<equiv> 51"
abbreviation (input) REG_SHT_TEMPERATURE :: u32 where "REG_SHT_TEMPERATURE \<equiv> 52"
abbreviation (input) REG_SHT_HUMIDITY :: u32 where "REG_SHT_HUMIDITY \<equiv> 53"
abbreviation (input) REG_SFP1_PRESENT :: u32 where "REG_SFP1_PRESENT \<equiv> 60"
abbreviation (input) REG_SFP1_LOS :: u32 where "REG_SFP1_LOS \<equiv> 61"
abbreviation (input) REG_SFP1_VENDOR :: u32 where "REG_SFP1_VENDOR \<equiv> 62"
abbreviation (input) REG_SFP1_VENDOR_OUI :: u32 where "REG_SFP1_VENDOR_OUI \<equiv> 63"
abbreviation (input) REG_SFP1_VENDOR_PN :: u32 where "REG_SFP1_VENDOR_PN \<equiv> 64"
abbreviation (input) REG_SFP1_VENDOR_REV :: u32 where "REG_SFP1_VENDOR_REV \<equiv> 65"
abbreviation (input) REG_SFP1_IDENTIFIER :: u32 where "REG_SFP1_IDENTIFIER \<equiv> 66"
abbreviation (input) REG_SFP1_CONNECTOR :: u32 where "REG_SFP1_CONNECTOR \<equiv> 67"
abbreviation (input) REG_SFP1_TYPE :: u32 where "REG_SFP1_TYPE \<equiv> 68"
abbreviation (input) REG_SFP1_LINK_LEN :: u32 where "REG_SFP1_LINK_LEN \<equiv> 69"
abbreviation (input) REG_SFP1_FIBER_TEC :: u32 where "REG_SFP1_FIBER_TEC \<equiv> 70"
abbreviation (input) REG_SFP1_MEDIA :: u32 where "REG_SFP1_MEDIA \<equiv> 71"
abbreviation (input) REG_SFP1_SPEED :: u32 where "REG_SFP1_SPEED \<equiv> 72"
abbreviation (input) REG_SFP1_ENCODING :: u32 where "REG_SFP1_ENCODING \<equiv> 73"
abbreviation (input) REG_SFP1_WAVELEN :: u32 where "REG_SFP1_WAVELEN \<equiv> 74"
abbreviation (input) REG_SFP1_NBR :: u32 where "REG_SFP1_NBR \<equiv> 75"
abbreviation (input) REG_SFP1_LEN9 :: u32 where "REG_SFP1_LEN9 \<equiv> 76"
abbreviation (input) REG_SFP1_LEN50 :: u32 where "REG_SFP1_LEN50 \<equiv> 77"
abbreviation (input) REG_SFP1_LEN62 :: u32 where "REG_SFP1_LEN62 \<equiv> 78"
abbreviation (input) REG_SFP1_LENC :: u32 where "REG_SFP1_LENC \<equiv> 79"
abbreviation (input) REG_SFP1_TEMPER :: u32 where "REG_SFP1_TEMPER \<equiv> 80"
abbreviation (input) REG_SFP1_VOLTAGE :: u32 where "REG_SFP1_VOLTAGE \<equiv> 81"
abbreviation (input) REG_SFP1_CURRENT :: u32 where "REG_SFP1_CURRENT \<equiv> 82"
abbreviation (input) REG_SFP1_TX_BIAS :: u32 where "REG_SFP1_TX_BIAS \<equiv> 83"
abbreviation (input) REG_SFP1_TX_POWER_DB :: u32 where "REG_SFP1_TX_POWER_DB \<equiv> 84"
abbreviation (input) REG_SFP1_RX_POWER_DB :: u32 where "REG_SFP1_RX_POWER_DB \<equiv> 85"
abbreviation (input) REG_SFP1_TX_POWER :: u32 where "REG_SFP1_TX_POWER \<equiv> 86"
abbreviation (input) REG_SFP1_RX_POWER :: u32 where "REG_SFP1_RX_POWER \<equiv> 87"
abbreviation (input) REG_SFP2_PRESENT :: u32 where "REG_SFP2_PRESENT \<equiv> 90"
abbreviation (input) REG_SFP2_LOS :: u32 where "REG_SFP2_LOS \<equiv> 91"
abbreviation (input) REG_SFP2_VENDOR :: u32 where "REG_SFP2_VENDOR \<equiv> 92"
abbreviation (input) REG_SFP2_VENDOR_OUI :: u32 where "REG_SFP2_VENDOR_OUI \<equiv> 93"
abbreviation (input) REG_SFP2_VENDOR_PN :: u32 where "REG_SFP2_VENDOR_PN \<equiv> 94"
abbreviation (input) REG_SFP2_VENDOR_REV :: u32 where "REG_SFP2_VENDOR_REV \<equiv> 95"
abbreviation (input) REG_SFP2_IDENTIFIER :: u32 where "REG_SFP2_IDENTIFIER \<equiv> 96"
abbreviation (input) REG_SFP2_CONNECTOR :: u32 where "REG_SFP2_CONNECTOR \<equiv> 97"
abbreviation (input) REG_SFP2_TYPE :: u32 where "REG_SFP2_TYPE \<equiv> 98"
abbreviation (input) REG_SFP2_LINK_LEN :: u32 where "REG_SFP2_LINK_LEN \<equiv> 99"
abbreviation (input) REG_SFP2_FIBER_TEC :: u32 where "REG_SFP2_FIBER_TEC \<equiv> 100"
abbreviation (input) REG_SFP2_MEDIA :: u32 where "REG_SFP2_MEDIA \<equiv> 101"
abbreviation (input) REG_SFP2_SPEED :: u32 where "REG_SFP2_SPEED \<equiv> 102"
abbreviation (input) REG_SFP2_ENCODING :: u32 where "REG_SFP2_ENCODING \<equiv> 103"
abbreviation (input) REG_SFP2_WAVELEN :: u32 where "REG_SFP2_WAVELEN \<equiv> 104"
abbreviation (input) REG_SFP2_NBR :: u32 where "REG_SFP2_NBR \<equiv> 105"
abbreviation (input) REG_SFP2_LEN9 :: u32 where "REG_SFP2_LEN9 \<equiv> 106"
abbreviation (input) REG_SFP2_LEN50 :: u32 where "REG_SFP2_LEN50 \<equiv> 107"
abbreviation (input) REG_SFP2_LEN62 :: u32 where "REG_SFP2_LEN62 \<equiv> 108"
abbreviation (input) REG_SFP2_LENC :: u32 where "REG_SFP2_LENC \<equiv> 109"
abbreviation (input) REG_SFP2_TEMPER :: u32 where "REG_SFP2_TEMPER \<equiv> 110"
abbreviation (input) REG_SFP2_VOLTAGE :: u32 where "REG_SFP2_VOLTAGE \<equiv> 111"
abbreviation (input) REG_SFP2_CURRENT :: u32 where "REG_SFP2_CURRENT \<equiv> 112"
abbreviation (input) REG_SFP2_TX_BIAS :: u32 where "REG_SFP2_TX_BIAS \<equiv> 113"
abbreviation (input) REG_SFP2_TX_POWER_DB :: u32 where "REG_SFP2_TX_POWER_DB \<equiv> 114"
abbreviation (input) REG_SFP2_RX_POWER_DB :: u32 where "REG_SFP2_RX_POWER_DB \<equiv> 115"
abbreviation (input) REG_SFP2_TX_POWER :: u32 where "REG_SFP2_TX_POWER \<equiv> 116"
abbreviation (input) REG_SFP2_RX_POWER :: u32 where "REG_SFP2_RX_POWER \<equiv> 117"
abbreviation (input) REG_RTC_STATUS :: u32 where "REG_RTC_STATUS \<equiv> 120"
abbreviation (input) REG_RTC_YEAR :: u32 where "REG_RTC_YEAR \<equiv> 121"
abbreviation (input) REG_RTC_MONTH :: u32 where "REG_RTC_MONTH \<equiv> 122"
abbreviation (input) REG_RTC_DAY :: u32 where "REG_RTC_DAY \<equiv> 123"
abbreviation (input) REG_RTC_WEEKDAY :: u32 where "REG_RTC_WEEKDAY \<equiv> 124"
abbreviation (input) REG_RTC_HOUR :: u32 where "REG_RTC_HOUR \<equiv> 125"
abbreviation (input) REG_RTC_MINUTE :: u32 where "REG_RTC_MINUTE \<equiv> 126"
abbreviation (input) REG_RTC_SECOND :: u32 where "REG_RTC_SECOND \<equiv> 127"
abbreviation (input) REG_POE_ID :: u32 where "REG_POE_ID \<equiv> 130"
abbreviation (input) REG_POE_STATE :: u32 where "REG_POE_STATE \<equiv> 131"
abbreviation (input) REG_POE_BANK :: u32 where "REG_POE_BANK \<equiv> 132"
abbreviation (input) REG_POE_MODE :: u32 where "REG_POE_MODE \<equiv> 133"
abbreviation (input) REG_HI_PRIO_LEN :: u32 where "REG_HI_PRIO_LEN \<equiv> 140"
abbreviation (input) REG_HI_PRIO_DUMP :: u32 where "REG_HI_PRIO_DUMP \<equiv> 141"
abbreviation (input) REG_LOW_PRIO_LEN :: u32 where "REG_LOW_PRIO_LEN \<equiv> 142"
abbreviation (input) REG_LOW_PRIO_DUMP :: u32 where "REG_LOW_PRIO_DUMP \<equiv> 143"
abbreviation (input) MAX_SENSORS :: nat where "MAX_SENSORS \<equiv> 144"
abbreviation (input) SENSOR_IDLE :: u32 where "SENSOR_IDLE \<equiv> 145"

abbreviation (input) TYPE_UINT :: u32 where "TYPE_UINT \<equiv> 1"
abbreviation (input) TYPE_PSEUDO_FLOAT :: u32 where "TYPE_PSEUDO_FLOAT \<equiv> 2"
abbreviation (input) TYPE_FLOAT_SFP :: u32 where "TYPE_FLOAT_SFP \<equiv> 3"

abbreviation (input) I2C_OPCODE_READ :: u32 where "I2C_OPCODE_READ \<equiv> 1"
abbreviation (input) I2C_OPCODE_WRITE :: u32 where "I2C_OPCODE_WRITE \<equiv> 2"
abbreviation (input) I2C_OPCODE_RESPONSE :: u32 where "I2C_OPCODE_RESPONSE \<equiv> 3"
abbreviation (input) I2C_OPCODE_RESET :: u32 where "I2C_OPCODE_RESET \<equiv> 4"
abbreviation (input) I2C_OPCODE_IDLE :: u32 where "I2C_OPCODE_IDLE \<equiv> 5"

subsection \<open>Events, handlers and entries\<close>

text \<open>
  The values of \<^verbatim>\<open>event_t\<close>; \<open>NO_EVENT\<close> is the 0 that \<^verbatim>\<open>handler_SHT_TYPE\<close> returns.
\<close>

datatype event_t = NO_EVENT | I2C_OVER_MAX | I2C_LESS_MIN | I2C_LONG_PRESSED | I2C_CHANGED_TO_VAC
  | I2C_CHANGED_TO_BAT | I2C_CHANGED_TO_OPEN | I2C_CHANGED_TO_CLOSE | I2C_ERR_CHANGE_VALUE
  | I2C_ERR_OK | I2C_CRITICAL_ERROR

text \<open>The functions of \<^verbatim>\<open>events_handlers.c\<close> an entry can refer to.\<close>

datatype hw_handler =
  Handler_ADC_CH1 | Handler_ADC_CH2 | Handler_ADC_CH3 | Handler_TAMPER | Handler_SENSOR1 |
  Handler_SENSOR2 | Handler_RELAY1 | Handler_DEFAULT_LONG_PRESSED | Handler_RPS_VAC |
  Handler_RPS_BAT_VOLTAGE | Handler_RPS_CHRG_VOLTAGE | Handler_RPS_BAT_CURRENT |
  Handler_RPS_TEMPER | Handler_SHT_TYPE | Handler_SHT_CONNECTED | Handler_SHT_TEMPERATURE |
  Handler_SHT_HUMIDITY | Handler_SFP1_PRESENT | Handler_SFP2_PRESENT | Handler_SFP1_LOS |
  Handler_SFP2_LOS | Handler_SFP1_TEMPER | Handler_SFP2_TEMPER | Handler_SFP1_VOLTAGE |
  Handler_SFP2_VOLTAGE | Handler_SFP1_CURRENT | Handler_SFP2_CURRENT | Handler_SFP1_TX_BIAS |
  Handler_SFP2_TX_BIAS | Handler_SFP1_TX_POWER_DB | Handler_SFP2_TX_POWER_DB |
  Handler_SFP1_RX_POWER_DB | Handler_SFP2_RX_POWER_DB

text \<open>
  A function pointer: null, one of these functions, or any other address. Messages carry such a
  pointer, so a client can send an address that is none of these functions.
\<close>

datatype fnptr = Null | Fn hw_handler | Wild nat

text \<open>
  \<^verbatim>\<open>i2c_data_t\<close>. On the 32-bit target the members lie at offsets 0, 4, 8, 32, 36, 40, 44 and 48,
  and the size is 80. \<open>d_name\<close> is the text before the first NUL.
\<close>

record i2c_data =
  d_lenMSG :: u8
  d_addr :: u32
  d_name :: string
  d_opcode :: u32
  d_lenData :: u8
  d_type :: u32
  d_eventsHandler :: fnptr
  d_value :: "u8 list"

abbreviation (input) SIZEOF_I2C_DATA :: nat where "SIZEOF_I2C_DATA \<equiv> 80"

text \<open>
  \<^verbatim>\<open>memcpy(dst, src, n)\<close> between two of them. No \<open>n\<close> the code uses (1, 2, 60 and 80) ends inside a
  member other than \<open>d_value\<close>.
\<close>

definition memcpy_data :: "i2c_data \<Rightarrow> i2c_data \<Rightarrow> nat \<Rightarrow> i2c_data" where
  "memcpy_data dst src n =
     \<lparr>d_lenMSG = (if 1 \<le> n then d_lenMSG src else d_lenMSG dst),
      d_addr = (if 8 \<le> n then d_addr src else d_addr dst),
      d_name = (if 32 \<le> n then d_name src else d_name dst),
      d_opcode = (if 36 \<le> n then d_opcode src else d_opcode dst),
      d_lenData = (if 37 \<le> n then d_lenData src else d_lenData dst),
      d_type = (if 44 \<le> n then d_type src else d_type dst),
      d_eventsHandler = (if 48 \<le> n then d_eventsHandler src else d_eventsHandler dst),
      d_value = take (n - 48) (d_value src) @ drop (n - 48) (d_value dst)\<rparr>"

lemma memcpy_data_all [simp]:
  assumes "length (d_value src) = 32" "length (d_value dst) = 32"
  shows "memcpy_data dst src 80 = src"
  using assms by (cases src) (simp add: memcpy_data_def)

lemma memcpy_data_short:
  assumes "1 \<le> n" "n < 8"
  shows "memcpy_data dst src n = dst\<lparr>d_lenMSG := d_lenMSG src\<rparr>"
  using assms by (cases dst) (simp add: memcpy_data_def)

lemma memcpy_data_fields:
  "d_opcode (memcpy_data dst src 60) = d_opcode src"
  "d_addr (memcpy_data dst src 60) = d_addr src"
  "d_lenData (memcpy_data dst src 60) = d_lenData src"
  "d_type (memcpy_data dst src 60) = d_type src"
  "d_eventsHandler (memcpy_data dst src 60) = d_eventsHandler src"
  "d_name (memcpy_data dst src 60) = d_name src"
  "d_value (memcpy_data dst src 60) = take 12 (d_value src) @ drop 12 (d_value dst)"
  by (simp_all add: memcpy_data_def)

subsection \<open>The table\<close>

definition entry :: "u32 \<Rightarrow> string \<Rightarrow> u8 \<Rightarrow> u32 \<Rightarrow> u8 \<Rightarrow> fnptr \<Rightarrow> i2c_data" where
  "entry a n l t v h =
     \<lparr>d_lenMSG = 0, d_addr = a, d_name = n, d_opcode = I2C_OPCODE_IDLE, d_lenData = l, d_type = t,
      d_eventsHandler = h, d_value = v # replicate 31 0\<rparr>"

definition zero_data :: i2c_data where
  "zero_data = \<lparr>d_lenMSG = 0, d_addr = 0, d_name = [], d_opcode = 0, d_lenData = 0, d_type = 0,
     d_eventsHandler = Null, d_value = replicate 32 0\<rparr>"

text \<open>
  The initialiser lists 107 registers; the array has \<open>MAX_SENSORS\<close> elements, so the rest is zero.
\<close>

definition listed_registers :: "i2c_data list" where
  "listed_registers = [
   entry REG_INTSTAT ''INTSTAT'' 1 TYPE_UINT 0 Null,
   entry REG_INTMASK ''INTMASK'' 1 TYPE_UINT 0 Null,
   entry REG_HW_VERS ''HW_VERS'' 1 TYPE_UINT 0 Null,
   entry REG_SW_VERS ''SW_VERS'' 1 TYPE_UINT 0 Null,
   entry REG_ADC_CH1 ''ADC_CH1'' 2 TYPE_PSEUDO_FLOAT 0 (Fn Handler_ADC_CH1),
   entry REG_ADC_CH2 ''ADC_CH2'' 2 TYPE_PSEUDO_FLOAT 0 (Fn Handler_ADC_CH2),
   entry REG_ADC_CH3 ''ADC_CH3'' 2 TYPE_PSEUDO_FLOAT 0 (Fn Handler_ADC_CH3),
   entry REG_TAMPER ''tamper'' 1 TYPE_UINT 0 (Fn Handler_TAMPER),
   entry REG_SENSOR1 ''sensor1'' 1 TYPE_UINT 0 (Fn Handler_SENSOR1),
   entry REG_SENSOR2 ''sensor2'' 1 TYPE_UINT 0 (Fn Handler_SENSOR2),
   entry REG_RELAY1 ''relay'' 1 TYPE_UINT 0 (Fn Handler_RELAY1),
   entry REG_DEFAULT_BUTTON ''DEFAULT_BUTTON'' 1 TYPE_UINT 0 Null,
   entry REG_DEFAULT_LED ''DEFAULT_LED'' 1 TYPE_UINT 0 Null,
   entry REG_DEFAULT_LONG_PRESSED ''DEFAULT_LONG_PRESSED'' 2 TYPE_UINT 0 (Fn Handler_DEFAULT_LONG_PRESSED),
   entry REG_RPS_CONNECTED ''upsModeAvalible'' 1 TYPE_UINT 0 Null,
   entry REG_RPS_HW_VERS ''RPS_HW_VERS'' 1 TYPE_UINT 0 Null,
   entry REG_RPS_SW_VERS ''RPS_SW_VERS'' 1 TYPE_UINT 0 Null,
   entry REG_RPS_VAC ''upsPwrSource'' 1 TYPE_UINT 0 (Fn Handler_RPS_VAC),
   entry REG_RPS_BAT_VOLTAGE ''upsBatteryVoltage'' 2 TYPE_PSEUDO_FLOAT 0 (Fn Handler_RPS_BAT_VOLTAGE),
   entry REG_RPS_CHRG_VOLTAGE ''RPS_CHRG_VOLTAGE'' 2 TYPE_PSEUDO_FLOAT 0 (Fn Handler_RPS_CHRG_VOLTAGE),
   entry REG_RPS_BAT_CURRENT ''RPS_BAT_CURRENT'' 2 TYPE_UINT 0 (Fn Handler_RPS_BAT_CURRENT),
   entry REG_RPS_TEMPER ''RPS_TEMPER'' 1 TYPE_UINT 123 (Fn Handler_RPS_TEMPER),
   entry REG_RPS_LED_STATE ''RPS_LED_STATE'' 1 TYPE_UINT 0 Null,
   entry REG_RPS_BAT_KEY ''RPS_BAT_KEY'' 1 TYPE_UINT 0 Null,
   entry REG_RPS_CHRG_KEY ''RPS_CHRG_KEY'' 1 TYPE_UINT 0 Null,
   entry REG_RPS_REL_STATE ''RPS_REL_STATE'' 1 TYPE_UINT 0 Null,
   entry REG_RPS_MIN_VOLTAGE ''RPS_MIN_VOLTAGE'' 2 TYPE_PSEUDO_FLOAT 0 Null,
   entry REG_RPS_DISCH_VOLTAGE ''RPS_DISCH_VOLTAGE'' 2 TYPE_PSEUDO_FLOAT 0 Null,
   entry REG_RPS_REMAIN_TIME ''upsBatteryTime'' 2 TYPE_UINT 0 Null,
   entry REG_RPS_TEST_OK ''RPS_TEST_OK'' 1 TYPE_UINT 0 Null,
   entry REG_RPS_CPU_ID ''RPS_CPU_ID'' 2 TYPE_UINT 0 Null,
   entry REG_RPS_LTC4151_OK ''RPS_LTC4151_OK'' 1 TYPE_UINT 0 Null,
   entry REG_RPS_ADC_BAT_VOLT ''RPS_ADC_BAT_VOLT'' 2 TYPE_PSEUDO_FLOAT 0 Null,
   entry REG_RPS_ADC_BAT_CURR ''RPS_ADC_BAT_CURR'' 2 TYPE_UINT 0 Null,
   entry REG_RPS_TEST_MODE ''RPS_TEST_MODE'' 1 TYPE_UINT 0 Null,
   entry REG_SHT_CONNECTED ''sensorConnected'' 1 TYPE_UINT 0 (Fn Handler_SHT_CONNECTED),
   entry REG_SHT_TYPE ''SHT_TYPE'' 10 TYPE_UINT 0 (Fn Handler_SHT_TYPE),
   entry REG_SHT_TEMPERATURE ''sensorTemperature'' 2 TYPE_FLOAT_SFP 0 (Fn Handler_SHT_TEMPERATURE),
   entry REG_SHT_HUMIDITY ''sensorHumidity'' 1 TYPE_UINT 0 (Fn Handler_SHT_HUMIDITY),
   entry REG_SFP1_PRESENT ''portSfpPresent_1'' 1 TYPE_UINT 0 (Fn Handler_SFP1_PRESENT),
   entry REG_SFP1_LOS ''portSfpSignalDetect_1'' 1 TYPE_UINT 0 (Fn Handler_SFP1_LOS),
   entry REG_SFP1_VENDOR ''portSfpVendor_1'' 16 TYPE_UINT 0 Null,
   entry REG_SFP1_VENDOR_OUI ''portSfpOui_1'' 3 TYPE_UINT 0 Null,
   entry REG_SFP1_VENDOR_PN ''portSfpPartNumber_1'' 16 TYPE_UINT 0 Null,
   entry REG_SFP1_VENDOR_REV ''portSfpRevision_1'' 4 TYPE_UINT 0 Null,
   entry REG_SFP1_IDENTIFIER ''IDENTIFIER_1'' 4 TYPE_UINT 0 Null,
   entry REG_SFP1_CONNECTOR ''CONNECTOR_1'' 30 TYPE_UINT 0 Null,
   entry REG_SFP1_TYPE ''TYPE_1'' 16 TYPE_UINT 0 Null,
   entry REG_SFP1_LINK_LEN ''LINK_LEN_1'' 25 TYPE_UINT 0 Null,
   entry REG_SFP1_FIBER_TEC ''FIBER_TEC_1'' 32 TYPE_UINT 0 Null,
   entry REG_SFP1_MEDIA ''MEDIA_1'' 32 TYPE_UINT 0 Null,
   entry REG_SFP1_SPEED ''SPEED_1'' 16 TYPE_UINT 0 Null,
   entry REG_SFP1_ENCODING ''ENCODING_1'' 16 TYPE_UINT 0 Null,
   entry REG_SFP1_LENC ''LENC_1'' 2 TYPE_UINT 0 Null,
   entry REG_SFP1_WAVELEN ''WAVELEN_1'' 2 TYPE_UINT 0 Null,
   entry REG_SFP1_NBR ''NBR_1'' 2 TYPE_UINT 0 Null,
   entry REG_SFP1_LEN9 ''LEN9_1'' 2 TYPE_UINT 0 Null,
   entry REG_SFP1_LEN50 ''LEN50_1'' 2 TYPE_UINT 0 Null,
   entry REG_SFP1_LEN62 ''LEN62_1'' 2 TYPE_UINT 0 Null,
   entry REG_SFP1_TEMPER ''portSfpTemperature_1'' 2 TYPE_UINT 0 (Fn Handler_SFP1_TEMPER),
   entry REG_SFP1_VOLTAGE ''portSfpVoltage_1'' 2 TYPE_PSEUDO_FLOAT 0 (Fn Handler_SFP1_VOLTAGE),
   entry REG_SFP1_CURRENT ''CURRENT_1'' 2 TYPE_UINT 0 Null,
   entry REG_SFP1_TX_BIAS ''portSfpBiasCurrent_1'' 2 TYPE_UINT 0 Null,
   entry REG_SFP1_TX_POWER_DB ''portSfpTxOutPowerDb_1'' 2 TYPE_FLOAT_SFP 0 (Fn Handler_SFP1_TX_POWER_DB),
   entry REG_SFP1_RX_POWER_DB ''portSfpRxOutPowerDb_1'' 2 TYPE_FLOAT_SFP 0 (Fn Handler_SFP1_RX_POWER_DB),
   entry REG_SFP1_TX_POWER ''portSfpTxOutPower_1'' 2 TYPE_UINT 0 Null,
   entry REG_SFP1_RX_POWER ''portSfpRxOutPower_1'' 2 TYPE_UINT 0 Null,
   entry REG_SFP2_PRESENT ''portSfpPresent_2'' 1 TYPE_UINT 0 (Fn Handler_SFP2_PRESENT),
   entry REG_SFP2_LOS ''portSfpSignalDetect_2'' 1 TYPE_UINT 0 (Fn Handler_SFP2_LOS),
   entry REG_SFP2_VENDOR ''portSfpVendor_2'' 16 TYPE_UINT 0 Null,
   entry REG_SFP2_VENDOR_OUI ''portSfpOui_2'' 3 TYPE_UINT 0 Null,
   entry REG_SFP2_VENDOR_PN ''portSfpPartNumber_2'' 16 TYPE_UINT 0 Null,
   entry REG_SFP2_VENDOR_REV ''portSfpRevision_2'' 4 TYPE_UINT 0 Null,
   entry REG_SFP2_IDENTIFIER ''IDENTIFIER_2'' 4 TYPE_UINT 0 Null,
   entry REG_SFP2_CONNECTOR ''CONNECTOR_2'' 30 TYPE_UINT 0 Null,
   entry REG_SFP2_TYPE ''TYPE_2'' 16 TYPE_UINT 0 Null,
   entry REG_SFP2_LINK_LEN ''LINK_LEN_2'' 25 TYPE_UINT 0 Null,
   entry REG_SFP2_FIBER_TEC ''FIBER_TEC_2'' 32 TYPE_UINT 0 Null,
   entry REG_SFP2_MEDIA ''MEDIA_2'' 32 TYPE_UINT 0 Null,
   entry REG_SFP2_SPEED ''SPEED_2'' 16 TYPE_UINT 0 Null,
   entry REG_SFP2_ENCODING ''ENCODING_2'' 16 TYPE_UINT 0 Null,
   entry REG_SFP2_WAVELEN ''WAVELEN_2'' 2 TYPE_UINT 0 Null,
   entry REG_SFP2_NBR ''NBR_2'' 2 TYPE_UINT 0 Null,
   entry REG_SFP2_LEN9 ''LEN9_2'' 2 TYPE_UINT 0 Null,
   entry REG_SFP2_LEN50 ''LEN50_2'' 2 TYPE_UINT 0 Null,
   entry REG_SFP2_LEN62 ''LEN62_2'' 2 TYPE_UINT 0 Null,
   entry REG_SFP2_LENC ''LENC_2'' 2 TYPE_UINT 0 Null,
   entry REG_SFP2_TEMPER ''portSfpTemperature_2'' 2 TYPE_UINT 0 (Fn Handler_SFP2_TEMPER),
   entry REG_SFP2_VOLTAGE ''portSfpVoltage_2'' 2 TYPE_PSEUDO_FLOAT 0 (Fn Handler_SFP2_VOLTAGE),
   entry REG_SFP2_CURRENT ''CURRENT_2'' 2 TYPE_UINT 0 Null,
   entry REG_SFP2_TX_BIAS ''portSfpBiasCurrent_2'' 2 TYPE_UINT 0 Null,
   entry REG_SFP2_TX_POWER_DB ''portSfpTxOutPowerDb_2'' 2 TYPE_FLOAT_SFP 0 (Fn Handler_SFP2_TX_POWER_DB),
   entry REG_SFP2_RX_POWER_DB ''portSfpRxOutPowerDb_2'' 2 TYPE_FLOAT_SFP 0 (Fn Handler_SFP2_RX_POWER_DB),
   entry REG_SFP2_TX_POWER ''portSfpTxOutPower_2'' 2 TYPE_UINT 0 Null,
   entry REG_SFP2_RX_POWER ''portSfpRxOutPower_2'' 2 TYPE_UINT 0 Null,
   entry REG_RTC_STATUS ''RTC_STATUS'' 1 TYPE_UINT 0 Null,
   entry REG_RTC_YEAR ''RTC_YEAR'' 1 TYPE_UINT 0 Null,
   entry REG_RTC_MONTH ''RTC_MONTH'' 1 TYPE_UINT 0 Null,
   entry REG_RTC_DAY ''RTC_DAY'' 1 TYPE_UINT 0 Null,
   entry REG_RTC_WEEKDAY ''RTC_WEEKDAY'' 1 TYPE_UINT 0 Null,
   entry REG_RTC_HOUR ''RTC_HOUR'' 1 TYPE_UINT 0 Null,
   entry REG_RTC_MINUTE ''RTC_MINUTE'' 1 TYPE_UINT 0 Null,
   entry REG_RTC_SECOND ''RTC_SECOND'' 1 TYPE_UINT 0 Null,
   entry REG_POE_ID ''POE_ID'' 1 TYPE_UINT 0 Null,
   entry REG_POE_STATE ''POE_STATE'' 1 TYPE_UINT 0 Null,
   entry REG_POE_BANK ''POE_BANK'' 1 TYPE_UINT 0 Null,
   entry REG_POE_MODE ''POE_MODE'' 1 TYPE_UINT 0 Null]"

definition sock_msgArr_init :: "i2c_data list" where
  "sock_msgArr_init = listed_registers @ replicate (MAX_SENSORS - length listed_registers) zero_data"

text \<open>
  \<^verbatim>\<open>get_id_by_addr\<close>: the first element with the address. If there is none the function ends without
  a \<^verbatim>\<open>return\<close>, and using its value is undefined: \<^term>\<open>None\<close>.
\<close>

fun get_id_by_addr :: "u32 \<Rightarrow> i2c_data list \<Rightarrow> nat option" where
  "get_id_by_addr a [] = None"
| "get_id_by_addr a (x # xs) =
     (if d_addr x = a then Some 0 else map_option Suc (get_id_by_addr a xs))"

lemma get_id_by_addr_SomeD:
  "get_id_by_addr a xs = Some i \<Longrightarrow> i < length xs \<and> d_addr (xs ! i) = a"
  by (induction xs arbitrary: i) (auto split: if_splits)

lemma get_id_by_addr_None: "get_id_by_addr a xs = None \<longleftrightarrow> a \<notin> d_addr ` set xs"
  by (induction xs) auto

text \<open>Only the addresses matter for the search.\<close>

lemma get_id_by_addr_cong:
  assumes "map d_addr xs = map d_addr ys"
  shows "get_id_by_addr a xs = get_id_by_addr a ys"
  using assms by (induction xs ys rule: list_induct2') auto

text \<open>
  The search by name of the control program. \<^verbatim>\<open>get_i2c_addr_by_name\<close> copies four members of the
  entry it finds; when none has the name it ends without a \<^verbatim>\<open>return\<close>.
\<close>

fun entry_by_name :: "string \<Rightarrow> i2c_data list \<Rightarrow> i2c_data option" where
  "entry_by_name n [] = None"
| "entry_by_name n (x # xs) = (if n = d_name x then Some x else entry_by_name n xs)"

definition get_i2c_addr_by_name :: "string \<Rightarrow> i2c_data \<Rightarrow> (u32 \<times> i2c_data) option" where
  "get_i2c_addr_by_name n p =
     (case entry_by_name n sock_msgArr_init of None \<Rightarrow> None
      | Some x \<Rightarrow> Some (d_addr x, p\<lparr>d_opcode := d_opcode x, d_addr := d_addr x,
          d_lenData := d_lenData x, d_type := d_type x\<rparr>))"

end
