(* ===== verification/HW_Gpio.thy ===== *)
theory HW_Gpio
  imports HW_Types
begin

section \<open>The hardware daemon: the lines of the GPIO controller\<close>

text \<open>
  \<^verbatim>\<open>tf_hwsys/lib/gpio_lib/gpio_module.c\<close>. \<^verbatim>\<open>libgpiod\<close> is a library: the results of its calls are the
  arguments \<open>gpio_env\<close>, and what the code asks it to do is a list of operations.
\<close>

abbreviation (input) MAX_GPIO :: nat where "MAX_GPIO \<equiv> 15"
abbreviation (input) GPIO_IDLE :: nat where "GPIO_IDLE \<equiv> 16"
abbreviation (input) RTL_GPIO_SYS_LED :: nat where "RTL_GPIO_SYS_LED \<equiv> 0"
abbreviation (input) RTL_GPIO_SYS_RESET :: nat where "RTL_GPIO_SYS_RESET \<equiv> 1"
abbreviation (input) RTL_GPIO_IOMCU_RESET :: nat where "RTL_GPIO_IOMCU_RESET \<equiv> 11"
abbreviation (input) RTL_GPIO_POE_RESET :: nat where "RTL_GPIO_POE_RESET \<equiv> 12"
abbreviation (input) RTL_IDLE13 :: nat where "RTL_IDLE13 \<equiv> 13"
abbreviation (input) RTL_GPIO_BOOT0 :: nat where "RTL_GPIO_BOOT0 \<equiv> 14"

definition gpio_name :: "string list" where
  "gpio_name = [''SYS_LED'', ''SYS_RESET'', ''empty'', ''empty'', ''empty'', ''empty'', ''empty'',
     ''empty'', ''empty'', ''empty'', ''empty'', ''IOMCU_RESET'', ''empty'', ''POE_RESET'', ''BOOT0'']"

text \<open>The first line with the name, \<open>GPIO_IDLE\<close> if there is none.\<close>

fun find_gpio :: "string \<Rightarrow> nat \<Rightarrow> string list \<Rightarrow> nat" where
  "find_gpio n i [] = GPIO_IDLE"
| "find_gpio n i (x # xs) = (if n = x then i else find_gpio n (Suc i) xs)"

definition get_gpio_addr_by_name :: "string \<Rightarrow> nat" where
  "get_gpio_addr_by_name n = find_gpio n 0 gpio_name"

text \<open>
  The results of the library: whether the chip and the line were found, what the request of the
  line returned (0 for success), and the level read.
\<close>

record gpio_env =
  g_chip :: bool
  g_line :: bool
  g_request :: int
  g_level :: int

datatype gpio_op = Open_chip | Get_line nat | Request_input | Request_output int | Get_value
  | Set_value int | Pause | Print_level int | Close_chip

text \<open>What a function did, and whether it returned a value or ended the program.\<close>

datatype gpio_result = Returned int "gpio_op list" | Gpio_exit "gpio_op list"

definition gpio_open :: "gpio_env \<Rightarrow> nat \<Rightarrow> (gpio_op list \<Rightarrow> gpio_result) \<Rightarrow> gpio_result" where
  "gpio_open g line k =
     (if \<not> g_chip g then Gpio_exit [Open_chip]
      else if \<not> g_line g then Gpio_exit [Open_chip, Get_line line, Close_chip]
      else k [Open_chip, Get_line line])"

definition gpio_getHandler :: "gpio_env \<Rightarrow> gpio_op list \<Rightarrow> gpio_result" where
  "gpio_getHandler g ops =
     (if g_request g \<noteq> 0 then Returned (- 1) (ops @ [Request_input, Close_chip])
      else Returned 0 (ops @ [Request_input, Get_value, Request_output (g_level g),
        Print_level (g_level g), Close_chip]))"

definition gpio_setHandler :: "gpio_env \<Rightarrow> u8 \<Rightarrow> gpio_op list \<Rightarrow> gpio_result" where
  "gpio_setHandler g v ops =
     (if g_request g \<noteq> 0 then Returned (- 1) (ops @ [Request_output 0, Close_chip])
      else Returned 0 (ops @ [Request_output 0, Set_value (uint v), Close_chip]))"

definition gpio_resetHandler :: "gpio_env \<Rightarrow> gpio_op list \<Rightarrow> gpio_result" where
  "gpio_resetHandler g ops =
     (if g_request g \<noteq> 0 then Returned (- 1) (ops @ [Request_output 0, Close_chip])
      else Returned 0 (ops @ [Request_output 0, Set_value 0, Pause, Set_value 1, Close_chip]))"

definition gpio_resetIoMcu :: "gpio_env \<Rightarrow> gpio_result" where
  "gpio_resetIoMcu g =
     gpio_open g RTL_GPIO_IOMCU_RESET (\<lambda>ops.
       if g_request g \<noteq> 0 then Returned 0 (ops @ [Request_output 0, Close_chip])
       else Returned 0 (ops @ [Request_output 0, Set_value 0, Pause, Set_value 1, Close_chip]))"

text \<open>Every path that opens the chip and gets past the line closes it exactly once, at the end.\<close>

fun gpio_ops :: "gpio_result \<Rightarrow> gpio_op list" where
  "gpio_ops (Returned _ ops) = ops"
| "gpio_ops (Gpio_exit ops) = ops"

lemma gpio_chip_closed:
  assumes "g_chip g" and "r \<in> {gpio_open g line (gpio_getHandler g),
    gpio_open g line (gpio_setHandler g v), gpio_open g line (gpio_resetHandler g), gpio_resetIoMcu g}"
  shows "filter (\<lambda>x. x \<in> {Open_chip, Close_chip}) (gpio_ops r) = [Open_chip, Close_chip]
    \<and> last (gpio_ops r) = Close_chip"
  using assms
  by (auto simp: gpio_open_def gpio_getHandler_def gpio_setHandler_def gpio_resetHandler_def
      gpio_resetIoMcu_def)

lemma line_of_name:
  "get_gpio_addr_by_name ''POE_RESET'' = RTL_IDLE13"
  "get_gpio_addr_by_name ''IOMCU_RESET'' = RTL_GPIO_IOMCU_RESET"
  "get_gpio_addr_by_name ''SYS_LED'' = RTL_GPIO_SYS_LED"
  "get_gpio_addr_by_name ''SYS_RESET'' = RTL_GPIO_SYS_RESET"
  "get_gpio_addr_by_name ''BOOT0'' = RTL_GPIO_BOOT0"
  by (simp_all add: get_gpio_addr_by_name_def gpio_name_def)

text \<open>No name gives the line of the PoE reset: no command of the control program drives it.\<close>

lemma poe_reset_line_unreachable: "get_gpio_addr_by_name n \<noteq> RTL_GPIO_POE_RESET"
  by (simp add: get_gpio_addr_by_name_def gpio_name_def)

end
