(* ===== verification/HW_Table.thy ===== *)
theory HW_Table
  imports HW_Gpio
begin

section \<open>The hardware daemon: its variables and the accesses to the table\<close>

subsection \<open>The state\<close>

text \<open>The \<^verbatim>\<open>static\<close> variables of the event handlers: the reference of every monitored register.\<close>

record prevs =
  ch1_prevValue :: u16
  ch2_prevValue :: u16
  ch3_prevValue :: u16
  tamper1_prevValue :: u8
  sen1_prevValue :: u8
  sen2_prevValue :: u8
  sen3_prevValue :: u8
  longPress_prevValue :: u16
  vac_prevValue :: u8
  batVolt_prevValue :: u16
  chgVolt_prevValue :: u16
  batCur_prevValue :: u16
  temper_prevValue :: u8
  sht_connected_prevValue :: u8
  shtTemper_prevValue :: u16
  shtHim_prevValue :: u8
  spf1_present_prevValue :: u8
  spf2_present_prevValue :: u8
  spf1Los_prevValue :: u8
  spf2Los_prevValue :: u8
  spf1_temper_prevValue :: u16
  spf2_temper_prevValue :: u16
  spf1Volt_prevValue :: u16
  spf2Volt_prevValue :: u16
  spf1Current_prevValue :: u16
  spf2Current_prevValue :: u16
  spf1TXbias_prevValue :: u16
  spf2TXbias_prevValue :: u16
  spf1_TXpower_prevValue :: u16
  spf2_TXpower_prevValue :: u16
  spf1_RXpower_prevValue :: u16
  spf2_RXpower_prevValue :: u16

text \<open>\<^verbatim>\<open>struct timer\<close>; \<^verbatim>\<open>unsigned long\<close> has 32 bits on the target.\<close>

record hw_timer =
  t_start :: u32
  t_interval :: u32

text \<open>
  The variables of the daemon, and what it has done so far: \<open>hw_log\<close> are the calls of \<^verbatim>\<open>send_log\<close>
  (format and arguments), \<open>bus\<close> the messages written to the microcontroller, \<open>gpio_done\<close> the
  operations on lines, \<open>replies\<close> the structures sent to clients. \<open>main_up\<close> and \<open>events_up\<close> tell
  whether the threads have done what they do before their loops.
\<close>

record hw =
  sock_msgArr :: "i2c_data list"
  write_flag :: bool
  write_data :: i2c_data
  i2c_raw_data :: "u8 list"
  hi_prio_len :: u16
  low_prio_len :: u16
  hi_prio_timer :: hw_timer
  low_prio_timer :: hw_timer
  events_timer :: hw_timer
  errorCount :: u8
  statics :: prevs
  hw_log :: "(string \<times> int list) list"
  bus :: "u8 list list"
  gpio_done :: "gpio_op list"
  replies :: "i2c_data list"
  main_up :: bool
  events_up :: bool

definition prevs_init :: prevs where
  "prevs_init =
     \<lparr>ch1_prevValue = 0xFFFF, ch2_prevValue = 0xFFFF, ch3_prevValue = 0xFFFF,
      tamper1_prevValue = 0xFF, sen1_prevValue = 0xFF, sen2_prevValue = 0xFF,
      sen3_prevValue = 0xFF, longPress_prevValue = 0xFFFF, vac_prevValue = 0xFF,
      batVolt_prevValue = 0xFFFF, chgVolt_prevValue = 0xFFFF, batCur_prevValue = 0xFFFF,
      temper_prevValue = 0xFF, sht_connected_prevValue = 0xFF, shtTemper_prevValue = 0xFFFF,
      shtHim_prevValue = 0xFF, spf1_present_prevValue = 0xFF, spf2_present_prevValue = 0xFF,
      spf1Los_prevValue = 0xFF, spf2Los_prevValue = 0xFF, spf1_temper_prevValue = 0xFFFF,
      spf2_temper_prevValue = 0xFFFF, spf1Volt_prevValue = 0xFFFF, spf2Volt_prevValue = 0xFFFF,
      spf1Current_prevValue = 0xFFFF, spf2Current_prevValue = 0xFFFF,
      spf1TXbias_prevValue = 0xFFFF, spf2TXbias_prevValue = 0xFFFF,
      spf1_TXpower_prevValue = 0xFFFF, spf2_TXpower_prevValue = 0xFFFF,
      spf1_RXpower_prevValue = 0xFFFF, spf2_RXpower_prevValue = 0xFFFF\<rparr>"

definition zero_timer :: hw_timer where
  "zero_timer = \<lparr>t_start = 0, t_interval = 0\<rparr>"

definition hw_init :: hw where
  "hw_init =
     \<lparr>sock_msgArr = sock_msgArr_init, write_flag = False, write_data = zero_data,
      i2c_raw_data = replicate 1000 0, hi_prio_len = 0, low_prio_len = 0,
      hi_prio_timer = zero_timer, low_prio_timer = zero_timer, events_timer = zero_timer,
      errorCount = 0, statics = prevs_init, hw_log = [], bus = [], gpio_done = [], replies = [],
      main_up = False, events_up = False\<rparr>"

definition upd_statics :: "(prevs \<Rightarrow> prevs) \<Rightarrow> hw \<Rightarrow> hw" where
  "upd_statics f s = s\<lparr>statics := f (statics s)\<rparr>"

definition send_log :: "string \<Rightarrow> int list \<Rightarrow> hw \<Rightarrow> hw" where
  "send_log str args s = s\<lparr>hw_log := hw_log s @ [(str, args)]\<rparr>"

lemma upd_statics_sel [simp]:
  "statics (upd_statics f s) = f (statics s)" "sock_msgArr (upd_statics f s) = sock_msgArr s"
  "hw_log (upd_statics f s) = hw_log s" "write_flag (upd_statics f s) = write_flag s"
  "write_data (upd_statics f s) = write_data s" "i2c_raw_data (upd_statics f s) = i2c_raw_data s"
  "hi_prio_len (upd_statics f s) = hi_prio_len s" "low_prio_len (upd_statics f s) = low_prio_len s"
  "hi_prio_timer (upd_statics f s) = hi_prio_timer s"
  "low_prio_timer (upd_statics f s) = low_prio_timer s"
  "events_timer (upd_statics f s) = events_timer s" "errorCount (upd_statics f s) = errorCount s"
  "bus (upd_statics f s) = bus s" "gpio_done (upd_statics f s) = gpio_done s"
  "replies (upd_statics f s) = replies s" "main_up (upd_statics f s) = main_up s"
  "events_up (upd_statics f s) = events_up s"
  by (simp_all add: upd_statics_def)

lemma send_log_sel [simp]:
  "statics (send_log m as s) = statics s" "sock_msgArr (send_log m as s) = sock_msgArr s"
  "hw_log (send_log m as s) = hw_log s @ [(m, as)]" "write_flag (send_log m as s) = write_flag s"
  "write_data (send_log m as s) = write_data s" "i2c_raw_data (send_log m as s) = i2c_raw_data s"
  "hi_prio_len (send_log m as s) = hi_prio_len s" "low_prio_len (send_log m as s) = low_prio_len s"
  "hi_prio_timer (send_log m as s) = hi_prio_timer s"
  "low_prio_timer (send_log m as s) = low_prio_timer s"
  "events_timer (send_log m as s) = events_timer s" "errorCount (send_log m as s) = errorCount s"
  "bus (send_log m as s) = bus s" "gpio_done (send_log m as s) = gpio_done s"
  "replies (send_log m as s) = replies s" "main_up (send_log m as s) = main_up s"
  "events_up (send_log m as s) = events_up s"
  by (simp_all add: send_log_def)

subsection \<open>Reading and writing entries\<close>

text \<open>
  \<^verbatim>\<open>i2c_getData\<close> copies the first \<open>len\<close> octets of the structure, after setting \<^verbatim>\<open>lenMSG\<close>; \<open>dst\<close> is
  the destination as it was. \<^verbatim>\<open>i2c_setData\<close> stores the structure of the client both as the pending
  write and as the entry.
\<close>

definition i2c_getData :: "i2c_data \<Rightarrow> u32 \<Rightarrow> nat \<Rightarrow> hw \<Rightarrow> (i2c_data \<times> hw) option" where
  "i2c_getData dst addr len s =
     (case get_id_by_addr addr (sock_msgArr s) of None \<Rightarrow> None
      | Some i \<Rightarrow>
          let arr = upd_nth i (d_lenMSG_update (\<lambda>_. of_nat len)) (sock_msgArr s)
          in Some (memcpy_data dst (arr ! i) len, s\<lparr>sock_msgArr := arr\<rparr>))"

definition i2c_setData :: "i2c_data \<Rightarrow> u32 \<Rightarrow> nat \<Rightarrow> hw \<Rightarrow> hw option" where
  "i2c_setData src addr len s =
     (case get_id_by_addr addr (sock_msgArr s) of None \<Rightarrow> None
      | Some i \<Rightarrow>
          let arr = upd_nth i (d_lenMSG_update (\<lambda>_. of_nat len)) (sock_msgArr s);
              w = memcpy_data (write_data s) src len
          in Some (s\<lparr>write_data := w, sock_msgArr := upd_nth i (\<lambda>d. memcpy_data d w len) arr,
               write_flag := True\<rparr>))"

text \<open>
  With 1 or 2 octets nothing of the value is copied: it stays what the destination held.
\<close>

lemma i2c_getData_short:
  assumes "i2c_getData dst addr len s = Some (data, s')" "1 \<le> len" "len < 8"
  shows "d_value data = d_value dst"
  using assms by (auto simp: i2c_getData_def memcpy_data_short Let_def split: option.splits)

lemma i2c_getData_frame:
  assumes "i2c_getData dst addr len s = Some (data, s')"
  obtains i where "get_id_by_addr addr (sock_msgArr s) = Some i"
    "s' = s\<lparr>sock_msgArr := upd_nth i (d_lenMSG_update (\<lambda>_. of_nat len)) (sock_msgArr s)\<rparr>"
  using assms by (auto simp: i2c_getData_def Let_def split: option.splits)

subsection \<open>The dumps of the microcontroller\<close>

text \<open>
  \<^verbatim>\<open>i2c_parse_tlv\<close>: address, length and octets of one register after the other. The buffer has 1000
  octets; reading beyond it is undefined (\<^term>\<open>None\<close>), and so is using the result of
  \<^verbatim>\<open>get_id_by_addr\<close> for an address the table does not have. \<open>offset\<close> has 16 bits in the code and
  does not wrap as long as the accesses are inside the buffer.
\<close>

definition store_value :: "u8 list \<Rightarrow> nat \<Rightarrow> nat \<Rightarrow> nat \<Rightarrow> i2c_data list \<Rightarrow> i2c_data list" where
  "store_value raw offset n i tbl =
     upd_nth i (d_value_update (\<lambda>v. take n (drop (offset + 2) raw) @ drop n v)) tbl"

function i2c_parse_tlv :: "nat \<Rightarrow> nat \<Rightarrow> u8 list \<Rightarrow> i2c_data list \<Rightarrow> (u8 \<times> i2c_data list) option" where
  "i2c_parse_tlv len offset raw tbl =
     (if \<not> offset < len then Some (0, tbl)
      else if length raw \<le> offset then None
      else if MAX_SENSORS < unat (raw ! offset) then Some (1, tbl)
      else case get_id_by_addr (ucast (raw ! offset)) tbl of None \<Rightarrow> None
      | Some i \<Rightarrow>
          if length raw \<le> offset + 1 then None
          else let n = unat (raw ! (offset + 1)) in
            if n < 32 then
              if length raw < offset + 2 + n then None
              else i2c_parse_tlv len (offset + n + 2) raw (store_value raw offset n i tbl)
            else i2c_parse_tlv len (offset + n + 2) raw tbl)"
  by pat_completeness auto
termination
  by (relation "measure (\<lambda>(len, offset, _, _). len - offset)") auto

declare i2c_parse_tlv.simps [simp del]

lemma map_addr_store_value [simp]:
  "map d_addr (store_value raw offset n i tbl) = map d_addr tbl"
  by (simp add: store_value_def map_upd_nth_same)

lemma map_upd_nth_at:
  assumes "f (g (xs ! i)) = f (xs ! i)"
  shows "map f (upd_nth i g xs) = map f xs"
proof (cases "i < length xs")
  case True
  with assms show ?thesis by (simp add: upd_nth_def map_update list_update_same_conv)
qed (simp add: upd_nth_beyond)

text \<open>Whatever the dump contains, entries keep everything but their value.\<close>

lemma parse_tlv_preserves:
  assumes "i2c_parse_tlv len offset raw tbl = Some (c, tbl')"
    and "\<And>d g. length (g (d_value d)) = length (d_value d) \<Longrightarrow> f (d_value_update g d) = f d"
    and "\<forall>d \<in> set tbl. length (d_value d) = 32"
  shows "map f tbl' = map f tbl \<and> (\<forall>d \<in> set tbl'. length (d_value d) = 32)"
  using assms(1,3)
proof (induction len offset raw tbl rule: i2c_parse_tlv.induct)
  case (1 len offset raw tbl)
  show ?case
  proof (cases "offset < len")
    case False
    with 1 show ?thesis by (simp add: i2c_parse_tlv.simps [of len])
  next
    case True
    show ?thesis
    proof (cases "MAX_SENSORS < unat (raw ! offset)")
      case over: True
      with True 1(3,4) show ?thesis
        by (simp add: i2c_parse_tlv.simps [of len] split: if_splits)
    next
      case False
      with True 1(3) obtain i where i: "get_id_by_addr (ucast (raw ! offset)) tbl = Some i"
        and bnd: "\<not> length raw \<le> offset" "\<not> length raw \<le> offset + 1"
        by (auto simp: i2c_parse_tlv.simps [of len] split: if_splits option.splits)
      let ?n = "unat (raw ! (offset + 1))"
      show ?thesis
      proof (cases "?n < 32")
        case n: False
        with True False i bnd 1(3) have "i2c_parse_tlv len (offset + ?n + 2) raw tbl = Some (c, tbl')"
          by (simp add: i2c_parse_tlv.simps [of len offset] Let_def)
        from "1.IH"(2) [OF _ bnd(1) False i bnd(2) refl n this] True 1(4) show ?thesis by simp
      next
        case n: True
        with True False i bnd 1(3)
        have fit: "\<not> length raw < offset + 2 + ?n" and
          run: "i2c_parse_tlv len (offset + ?n + 2) raw (store_value raw offset ?n i tbl) = Some (c, tbl')"
          by (auto simp: i2c_parse_tlv.simps [of len offset] Let_def split: if_splits)
        from get_id_by_addr_SomeD [OF i] 1(4) have len_i: "i < length tbl" "length (d_value (tbl ! i)) = 32"
          by auto
        have vals: "\<forall>d \<in> set (store_value raw offset ?n i tbl). length (d_value d) = 32"
          using 1(4) len_i fit n by (auto simp: store_value_def dest!: in_set_upd_nthD)
        have "map f (store_value raw offset ?n i tbl) = map f tbl"
          unfolding store_value_def
          by (rule map_upd_nth_at, rule assms(2)) (use len_i fit n in simp)
        with "1.IH"(1) [OF _ bnd(1) False i bnd(2) refl n fit run vals] True show ?thesis by simp
      qed
    qed
  qed
qed

end
