(* ===== verification/HW_Handlers.thy ===== *)
theory HW_Handlers
  imports HW_Table
begin

section \<open>The hardware daemon: the event handlers\<close>

text \<open>
  \<^verbatim>\<open>tf_hwsys/lib/events_lib/events_handlers.c\<close>: one handler per monitored register. A handler
  gets the octets of the register, compares them with the reference it keeps in a static variable
  and logs what it reports. Handlers that first ask whether the sensor or transceiver is present
  have a local structure of indeterminate content, the argument \<open>junk\<close>.

  \<^verbatim>\<open>send_log\<close> passes its \<^verbatim>\<open>va_list\<close> to \<^verbatim>\<open>syslog\<close> as if it were the first argument of the format; the
  arguments the model records are those of the call of \<^verbatim>\<open>send_log\<close>.
\<close>

subsection \<open>Limits and comparisons\<close>

abbreviation (input) NL :: char where "NL \<equiv> CHR 0x0A"

abbreviation (input) REG_ADC_CH1_max :: u32 where "REG_ADC_CH1_max \<equiv> 3500"
abbreviation (input) REG_ADC_CH1_min :: u32 where "REG_ADC_CH1_min \<equiv> 3000"
abbreviation (input) REG_ADC_CH2_max :: u32 where "REG_ADC_CH2_max \<equiv> 1700"
abbreviation (input) REG_ADC_CH2_min :: u32 where "REG_ADC_CH2_min \<equiv> 1300"
abbreviation (input) REG_ADC_CH3_max :: u32 where "REG_ADC_CH3_max \<equiv> 1300"
abbreviation (input) REG_ADC_CH3_min :: u32 where "REG_ADC_CH3_min \<equiv> 1000"
abbreviation (input) REG_TAMPER_open :: u32 where "REG_TAMPER_open \<equiv> 0"
abbreviation (input) REG_TAMPER_close :: u32 where "REG_TAMPER_close \<equiv> 1"
abbreviation (input) REG_DEFAULT_LONG_PRESSED_reset :: u32 where "REG_DEFAULT_LONG_PRESSED_reset \<equiv> 0x475D"
abbreviation (input) REG_RPS_VAC_vac :: u32 where "REG_RPS_VAC_vac \<equiv> 1"
abbreviation (input) REG_RPS_VAC_battary :: u32 where "REG_RPS_VAC_battary \<equiv> 0"
abbreviation (input) REG_RPS_BAT_VOLTAGE_max :: u32 where "REG_RPS_BAT_VOLTAGE_max \<equiv> 30000"
abbreviation (input) REG_RPS_BAT_VOLTAGE_min :: u32 where "REG_RPS_BAT_VOLTAGE_min \<equiv> 20500"
abbreviation (input) REG_RPS_CHRG_VOLTAGE_max :: u32 where "REG_RPS_CHRG_VOLTAGE_max \<equiv> 30000"
abbreviation (input) REG_RPS_CHRG_VOLTAGE_min :: u32 where "REG_RPS_CHRG_VOLTAGE_min \<equiv> 20500"
abbreviation (input) REG_RPS_TEMPER_max :: u32 where "REG_RPS_TEMPER_max \<equiv> 85"
abbreviation (input) REG_RPS_TEMPER_min :: u32 where "REG_RPS_TEMPER_min \<equiv> - 60"
abbreviation (input) REG_SHT_CONNECTED_yes :: "'a::len word" where "REG_SHT_CONNECTED_yes \<equiv> 1"
abbreviation (input) REG_SHT_CONNECTED_no :: u32 where "REG_SHT_CONNECTED_no \<equiv> 0"
abbreviation (input) REG_SHT_TEMPERATURE_max :: u32 where "REG_SHT_TEMPERATURE_max \<equiv> 500"
abbreviation (input) REG_SHT_TEMPERATURE_min :: u32 where "REG_SHT_TEMPERATURE_min \<equiv> - 600"
abbreviation (input) REG_SHT_HUMIDITY_max :: u32 where "REG_SHT_HUMIDITY_max \<equiv> 98"
abbreviation (input) REG_SHT_HUMIDITY_min :: u32 where "REG_SHT_HUMIDITY_min \<equiv> 0"
abbreviation (input) REG_SFP_PRESENT_yes :: "'a::len word" where "REG_SFP_PRESENT_yes \<equiv> 1"
abbreviation (input) REG_SFP_PRESENT_no :: u32 where "REG_SFP_PRESENT_no \<equiv> 0"
abbreviation (input) REG_SFP_LOS_yes :: u32 where "REG_SFP_LOS_yes \<equiv> 1"
abbreviation (input) REG_SFP_LOS_no :: u32 where "REG_SFP_LOS_no \<equiv> 0"
abbreviation (input) REG_SFP_TEMPER_max :: u32 where "REG_SFP_TEMPER_max \<equiv> 50"
abbreviation (input) REG_SFP_TEMPER_min :: u32 where "REG_SFP_TEMPER_min \<equiv> 20"
abbreviation (input) REG_SFP_VOLTAGE_max :: u32 where "REG_SFP_VOLTAGE_max \<equiv> 3600"
abbreviation (input) REG_SFP_VOLTAGE_min :: u32 where "REG_SFP_VOLTAGE_min \<equiv> 3000"
abbreviation (input) REG_SFP_CURRENT_max :: u32 where "REG_SFP_CURRENT_max \<equiv> 1000"
abbreviation (input) REG_SFP_CURRENT_min :: u32 where "REG_SFP_CURRENT_min \<equiv> 900"
abbreviation (input) REG_SFP_TX_BIAS_max :: u32 where "REG_SFP_TX_BIAS_max \<equiv> 33500"
abbreviation (input) REG_SFP_TX_BIAS_min :: u32 where "REG_SFP_TX_BIAS_min \<equiv> 32000"
abbreviation (input) REG_SFP_TX_POWER_max :: u32 where "REG_SFP_TX_POWER_max \<equiv> 65"
abbreviation (input) REG_SFP_TX_POWER_min :: u32 where "REG_SFP_TX_POWER_min \<equiv> 55"
abbreviation (input) REG_SFP_RX_POWER_max :: u32 where "REG_SFP_RX_POWER_max \<equiv> 65"
abbreviation (input) REG_SFP_RX_POWER_min :: u32 where "REG_SFP_RX_POWER_min \<equiv> 55"

definition get_16bitValue :: "u8 list \<Rightarrow> u16" where
  "get_16bitValue v = ucast (v ! 0) OR push_bit 8 (ucast (v ! 1))"

text \<open>The difference has 16 bits, the values 32; negative limits are large unsigned numbers.\<close>

definition check_out_of_range :: "u32 \<Rightarrow> u32 \<Rightarrow> u32 \<Rightarrow> u32 \<Rightarrow> event_t" where
  "check_out_of_range val prev vmax vmin =
     (let dif = (ucast (if prev \<le> val then val - prev else prev - val) :: u16)
      in if STABLE_VALUE < dif then
           if prev \<noteq> 0xFFFF then
             if vmax < val then I2C_OVER_MAX else if val < vmin then I2C_LESS_MIN
             else I2C_ERR_CHANGE_VALUE
           else I2C_ERR_CHANGE_VALUE
         else I2C_ERR_OK)"

definition check_changed_state :: "u32 \<Rightarrow> u32 \<Rightarrow> u32 \<Rightarrow> u32 \<Rightarrow> event_t" where
  "check_changed_state val prev state_1 state_2 =
     (if val = state_1 \<and> prev = state_2 then I2C_CHANGED_TO_CLOSE
      else if val = state_2 \<and> prev = state_1 then I2C_CHANGED_TO_OPEN
      else I2C_ERR_OK)"

subsection \<open>The handlers\<close>

definition handler_ADC_CH1 :: "u8 list \<Rightarrow> hw \<Rightarrow> event_t \<times> hw" where
  "handler_ADC_CH1 v s =
     (let value = get_16bitValue v;
          e = check_out_of_range (ucast value) (ucast (ch1_prevValue (statics s)))
             REG_ADC_CH1_max REG_ADC_CH1_min;
          s1 = (if e = I2C_ERR_CHANGE_VALUE then upd_statics (ch1_prevValue_update (\<lambda>_. value)) s else s);
          s2 = (if e = I2C_OVER_MAX \<or> e = I2C_LESS_MIN then upd_statics (ch1_prevValue_update (\<lambda>_. value))
             (send_log ''ADC CH1 out of range: %d'' [uint value] s1) else s1)
      in (e, s2))"

definition handler_ADC_CH2 :: "u8 list \<Rightarrow> hw \<Rightarrow> event_t \<times> hw" where
  "handler_ADC_CH2 v s =
     (let value = get_16bitValue v;
          e = check_out_of_range (ucast value) (ucast (ch2_prevValue (statics s)))
             REG_ADC_CH2_max REG_ADC_CH2_min;
          s1 = (if e = I2C_ERR_CHANGE_VALUE then upd_statics (ch2_prevValue_update (\<lambda>_. value)) s else s);
          s2 = (if e = I2C_OVER_MAX \<or> e = I2C_LESS_MIN then upd_statics (ch2_prevValue_update (\<lambda>_. value))
             (send_log ''ADC CH2 out of range: %d'' [uint value] s1) else s1)
      in (e, s2))"

definition handler_ADC_CH3 :: "u8 list \<Rightarrow> hw \<Rightarrow> event_t \<times> hw" where
  "handler_ADC_CH3 v s =
     (let value = get_16bitValue v;
          e = check_out_of_range (ucast value) (ucast (ch3_prevValue (statics s)))
             REG_ADC_CH3_max REG_ADC_CH3_min;
          s1 = (if e = I2C_ERR_CHANGE_VALUE then upd_statics (ch3_prevValue_update (\<lambda>_. value)) s else s);
          s2 = (if e = I2C_OVER_MAX \<or> e = I2C_LESS_MIN then upd_statics (ch3_prevValue_update (\<lambda>_. value))
             (send_log ''ADC CH3 out of range: %d'' [uint value] s1) else s1)
      in (e, s2))"

definition handler_TAMPER :: "u8 list \<Rightarrow> hw \<Rightarrow> event_t \<times> hw" where
  "handler_TAMPER v s =
     (let value = v ! 0;
          (e, s1) =
            (if value \<noteq> tamper1_prevValue (statics s)
             then (if tamper1_prevValue (statics s) \<noteq> 0xFF
                   then check_changed_state (ucast value) (ucast (tamper1_prevValue (statics s)))
                     REG_TAMPER_close REG_TAMPER_open
                   else I2C_ERR_OK,
                   upd_statics (tamper1_prevValue_update (\<lambda>_. value)) s)
             else (I2C_ERR_OK, s))
      in (e, if e = I2C_CHANGED_TO_CLOSE then send_log (''TAMPER changed to Close'' @ [NL]) [] s1
             else if e = I2C_CHANGED_TO_OPEN then send_log (''TAMPER changed to Open'' @ [NL]) [] s1
             else s1))"

definition handler_SENSOR1 :: "u8 list \<Rightarrow> hw \<Rightarrow> event_t \<times> hw" where
  "handler_SENSOR1 v s =
     (let value = v ! 0;
          (e, s1) =
            (if value \<noteq> sen1_prevValue (statics s)
             then (if sen1_prevValue (statics s) \<noteq> 0xFF
                   then check_changed_state (ucast value) (ucast (sen1_prevValue (statics s)))
                     REG_TAMPER_close REG_TAMPER_open
                   else I2C_ERR_OK,
                   upd_statics (sen1_prevValue_update (\<lambda>_. value)) s)
             else (I2C_ERR_OK, s))
      in (e, if e = I2C_CHANGED_TO_CLOSE then send_log (''SENSOR1 changed to Close'' @ [NL]) [] s1
             else if e = I2C_CHANGED_TO_OPEN then send_log (''SENSOR1 changed to Open'' @ [NL]) [] s1
             else s1))"

definition handler_SENSOR2 :: "u8 list \<Rightarrow> hw \<Rightarrow> event_t \<times> hw" where
  "handler_SENSOR2 v s =
     (let value = v ! 0;
          (e, s1) =
            (if value \<noteq> sen2_prevValue (statics s)
             then (if sen2_prevValue (statics s) \<noteq> 0xFF
                   then check_changed_state (ucast value) (ucast (sen2_prevValue (statics s)))
                     REG_TAMPER_close REG_TAMPER_open
                   else I2C_ERR_OK,
                   upd_statics (sen2_prevValue_update (\<lambda>_. value)) s)
             else (I2C_ERR_OK, s))
      in (e, if e = I2C_CHANGED_TO_CLOSE then send_log (''SENSOR2 changed to Close'' @ [NL]) [] s1
             else if e = I2C_CHANGED_TO_OPEN then send_log (''SENSOR2 changed to Open'' @ [NL]) [] s1
             else s1))"

definition handler_RELAY1 :: "u8 list \<Rightarrow> hw \<Rightarrow> event_t \<times> hw" where
  "handler_RELAY1 v s =
     (let value = v ! 0;
          (e, s1) =
            (if value \<noteq> sen3_prevValue (statics s)
             then (if sen3_prevValue (statics s) \<noteq> 0xFF
                   then check_changed_state (ucast value) (ucast (sen3_prevValue (statics s)))
                     REG_TAMPER_close REG_TAMPER_open
                   else I2C_ERR_OK,
                   upd_statics (sen3_prevValue_update (\<lambda>_. value)) s)
             else (I2C_ERR_OK, s))
      in (e, if e = I2C_CHANGED_TO_CLOSE then send_log (''RELAY changed to Close'' @ [NL]) [] s1
             else if e = I2C_CHANGED_TO_OPEN then send_log (''RELAY changed to Open'' @ [NL]) [] s1
             else s1))"

definition handler_DEFAULT_LONG_PRESSED :: "u8 list \<Rightarrow> hw \<Rightarrow> event_t \<times> hw" where
  "handler_DEFAULT_LONG_PRESSED v s =
     (let value = get_16bitValue v;
          (e, s1) =
            (if value \<noteq> longPress_prevValue (statics s)
             then (if longPress_prevValue (statics s) \<noteq> 0xFF
                   then check_changed_state (ucast value) (ucast (longPress_prevValue (statics s)))
                     REG_DEFAULT_LONG_PRESSED_reset 0
                   else I2C_ERR_OK,
                   upd_statics (longPress_prevValue_update (\<lambda>_. value)) s)
             else (I2C_ERR_OK, s))
      in if e \<noteq> I2C_ERR_OK
         then let e1 = (if e = I2C_CHANGED_TO_CLOSE then I2C_LONG_PRESSED else I2C_ERR_OK)
              in (e1, if e1 = I2C_LONG_PRESSED
                  then send_log (''DEFAULT SETTINGS by DEFAULT BUTTON'' @ [NL]) [] s1 else s1)
         else (e, s1))"

definition handler_RPS_VAC :: "u8 list \<Rightarrow> hw \<Rightarrow> event_t \<times> hw" where
  "handler_RPS_VAC v s =
     (let value = v ! 0;
          (e, s1) =
            (if value \<noteq> vac_prevValue (statics s)
             then (if vac_prevValue (statics s) \<noteq> 0xFF
                   then check_changed_state (ucast value) (ucast (vac_prevValue (statics s)))
                     REG_RPS_VAC_vac REG_RPS_VAC_battary
                   else I2C_ERR_OK,
                   upd_statics (vac_prevValue_update (\<lambda>_. value)) s)
             else (I2C_ERR_OK, s))
      in if e \<noteq> I2C_ERR_OK
         then let e1 = (if e = I2C_CHANGED_TO_CLOSE then I2C_CHANGED_TO_VAC else I2C_CHANGED_TO_BAT)
              in (e1, if e1 = I2C_CHANGED_TO_VAC
                  then send_log (''UPS: power changed to VAC'' @ [NL]) [] s1
                  else send_log (''UPS: power changed to Battery'' @ [NL]) [] s1)
         else (e, s1))"

definition handler_RPS_BAT_VOLTAGE :: "u8 list \<Rightarrow> hw \<Rightarrow> event_t \<times> hw" where
  "handler_RPS_BAT_VOLTAGE v s =
     (let value = get_16bitValue v;
          e = (if value \<noteq> batVolt_prevValue (statics s) then check_out_of_range (ucast value) (ucast (batVolt_prevValue (statics s)))
             REG_RPS_BAT_VOLTAGE_max REG_RPS_BAT_VOLTAGE_min
             else I2C_ERR_OK);
          s1 = (if e = I2C_ERR_CHANGE_VALUE then upd_statics (batVolt_prevValue_update (\<lambda>_. value)) s else s);
          s2 = (if e = I2C_LESS_MIN then upd_statics (batVolt_prevValue_update (\<lambda>_. value))
             (send_log ''UPS: Battery voltage is LOW (%d)'' [uint value] s1) else s1);
          s3 = (if e = I2C_OVER_MAX then upd_statics (batVolt_prevValue_update (\<lambda>_. value))
             (send_log ''UPS: Battery voltage reaches max voltage (%d)'' [uint value] s2) else s2)
      in (e, s3))"

definition handler_RPS_CHRG_VOLTAGE :: "u8 list \<Rightarrow> hw \<Rightarrow> event_t \<times> hw" where
  "handler_RPS_CHRG_VOLTAGE v s =
     (let value = get_16bitValue v;
          e = check_out_of_range (ucast value) (ucast (chgVolt_prevValue (statics s)))
             REG_RPS_CHRG_VOLTAGE_max REG_RPS_CHRG_VOLTAGE_min;
          s1 = (if e = I2C_ERR_CHANGE_VALUE then upd_statics (chgVolt_prevValue_update (\<lambda>_. value)) s else s);
          s2 = (if e = I2C_LESS_MIN then upd_statics (chgVolt_prevValue_update (\<lambda>_. value))
             (send_log ''UPS: Charge voltage is LOW (%d)'' [uint value] s1) else s1);
          s3 = (if e = I2C_OVER_MAX then upd_statics (chgVolt_prevValue_update (\<lambda>_. value))
             (send_log ''UPS: Charge voltage reaches max voltage (%d)'' [uint value] s2) else s2)
      in (e, s3))"

definition handler_RPS_BAT_CURRENT :: "u8 list \<Rightarrow> hw \<Rightarrow> event_t \<times> hw" where
  "handler_RPS_BAT_CURRENT v s = (I2C_ERR_OK, s)"

definition handler_RPS_TEMPER :: "u8 list \<Rightarrow> hw \<Rightarrow> event_t \<times> hw" where
  "handler_RPS_TEMPER v s =
     (let value = v ! 0;
          e = check_out_of_range (ucast value) (ucast (temper_prevValue (statics s)))
             REG_RPS_TEMPER_max REG_RPS_TEMPER_min;
          s1 = (if e = I2C_ERR_CHANGE_VALUE then upd_statics (temper_prevValue_update (\<lambda>_. value)) s else s);
          s2 = (if e = I2C_OVER_MAX then upd_statics (temper_prevValue_update (\<lambda>_. value))
             (send_log (''UPS: RPS board overheat (%d)'' @ [NL]) [uint value] s1) else s1)
      in (e, s2))"

definition handler_SHT_TYPE :: "u8 list \<Rightarrow> hw \<Rightarrow> event_t \<times> hw" where
  "handler_SHT_TYPE v s = (NO_EVENT, s)"

definition handler_SHT_CONNECTED :: "u8 list \<Rightarrow> hw \<Rightarrow> event_t \<times> hw" where
  "handler_SHT_CONNECTED v s =
     (let value = v ! 0;
          (e, s1) =
            (if value \<noteq> sht_connected_prevValue (statics s)
             then (if sht_connected_prevValue (statics s) \<noteq> 0xFF
                   then check_changed_state (ucast value) (ucast (sht_connected_prevValue (statics s)))
                     REG_SHT_CONNECTED_yes REG_SHT_CONNECTED_no
                   else I2C_ERR_OK,
                   upd_statics (sht_connected_prevValue_update (\<lambda>_. value)) s)
             else (I2C_ERR_OK, s))
      in (e, if e \<noteq> I2C_ERR_OK \<and> value = REG_SHT_CONNECTED_yes
             then send_log (''SHT: connection status %d'' @ [NL]) [uint value] s1 else s1))"

definition handler_SHT_TEMPERATURE :: "u8 list \<Rightarrow> i2c_data \<Rightarrow> hw \<Rightarrow> (event_t \<times> hw) option" where
  "handler_SHT_TEMPERATURE v junk s0 =
     (case i2c_getData junk REG_SHT_CONNECTED 1 s0 of None \<Rightarrow> None
      | Some (data, s) \<Rightarrow>
          if d_value data ! 0 = REG_SHT_CONNECTED_yes then
         (let value = get_16bitValue v;
          e = check_out_of_range (scast value) (ucast (shtTemper_prevValue (statics s)))
             REG_SHT_TEMPERATURE_max REG_SHT_TEMPERATURE_min;
          s1 = (if e = I2C_OVER_MAX then upd_statics (shtTemper_prevValue_update (\<lambda>_. value))
             (send_log (''SHT: temperature is higher than maximum %d'' @ [NL]) [sint value] s) else s);
          s2 = (if e = I2C_LESS_MIN then upd_statics (shtTemper_prevValue_update (\<lambda>_. value))
             (send_log (''SHT: temperature is lower than minimum %d'' @ [NL]) [sint value] s1) else s1)
          in Some (e, s2))
          else Some (I2C_ERR_OK, s))"

definition handler_SHT_HUMIDITY :: "u8 list \<Rightarrow> i2c_data \<Rightarrow> hw \<Rightarrow> (event_t \<times> hw) option" where
  "handler_SHT_HUMIDITY v junk s0 =
     (case i2c_getData junk REG_SHT_CONNECTED 1 s0 of None \<Rightarrow> None
      | Some (data, s) \<Rightarrow>
          if d_value data ! 0 = REG_SHT_CONNECTED_yes then
         (let value = v ! 0;
          e = check_out_of_range (ucast value) (ucast (shtHim_prevValue (statics s)))
             REG_SHT_HUMIDITY_max REG_SHT_HUMIDITY_min;
          s1 = (if e = I2C_ERR_CHANGE_VALUE then upd_statics (shtHim_prevValue_update (\<lambda>_. value)) s else s);
          s2 = (if e = I2C_OVER_MAX then upd_statics (shtHim_prevValue_update (\<lambda>_. value))
             (send_log (''SHT: humidity is higher than maximum %d'' @ [NL]) [uint value] s1) else s1);
          s3 = (if e = I2C_LESS_MIN then upd_statics (shtHim_prevValue_update (\<lambda>_. value))
             (send_log (''SHT: humidity is lower than minimum %d'' @ [NL]) [uint value] s2) else s2)
          in Some (e, s3))
          else Some (I2C_ERR_OK, s))"

definition handler_SFP1_PRESENT :: "u8 list \<Rightarrow> hw \<Rightarrow> event_t \<times> hw" where
  "handler_SFP1_PRESENT v s =
     (let value = v ! 0;
          (e, s1) =
            (if value \<noteq> spf1_present_prevValue (statics s)
             then (if spf1_present_prevValue (statics s) \<noteq> 0xFF
                   then check_changed_state (ucast value) (ucast (spf1_present_prevValue (statics s)))
                     REG_SFP_PRESENT_yes REG_SFP_PRESENT_no
                   else I2C_ERR_OK,
                   upd_statics (spf1_present_prevValue_update (\<lambda>_. value)) s)
             else (I2C_ERR_OK, s))
      in (e, if e \<noteq> I2C_ERR_OK
             then if value \<noteq> 0 then send_log (''SFP1: in chassis'' @ [NL]) [] s1
                  else send_log (''SFP1: removed from chassis'' @ [NL]) [] s1
             else s1))"

definition handler_SFP2_PRESENT :: "u8 list \<Rightarrow> hw \<Rightarrow> event_t \<times> hw" where
  "handler_SFP2_PRESENT v s =
     (let value = v ! 0;
          (e, s1) =
            (if value \<noteq> spf2_present_prevValue (statics s)
             then (if spf2_present_prevValue (statics s) \<noteq> 0xFF
                   then check_changed_state (ucast value) (ucast (spf2_present_prevValue (statics s)))
                     REG_SFP_PRESENT_yes REG_SFP_PRESENT_no
                   else I2C_ERR_OK,
                   upd_statics (spf2_present_prevValue_update (\<lambda>_. value)) s)
             else (I2C_ERR_OK, s))
      in (e, if e \<noteq> I2C_ERR_OK
             then if value \<noteq> 0 then send_log (''SFP2: in chassis'' @ [NL]) [] s1
                  else send_log (''SFP2: removed from chassis'' @ [NL]) [] s1
             else s1))"

definition handler_SFP1_LOS :: "u8 list \<Rightarrow> i2c_data \<Rightarrow> hw \<Rightarrow> (event_t \<times> hw) option" where
  "handler_SFP1_LOS v junk s =
     (let value = v ! 0;
          (e, s1) =
            (if value \<noteq> spf1Los_prevValue (statics s)
             then (if spf1Los_prevValue (statics s) \<noteq> 0xFF
                   then check_changed_state (ucast value) (ucast (spf1Los_prevValue (statics s)))
                     REG_SFP_LOS_no REG_SFP_LOS_yes
                   else I2C_ERR_OK,
                   upd_statics (spf1Los_prevValue_update (\<lambda>_. value)) s)
             else (I2C_ERR_OK, s))
      in if e \<noteq> I2C_ERR_OK then
           if value \<noteq> 0 then Some (e, send_log (''SFP1: lost optical signal'' @ [NL]) [] s1)
           else (case i2c_getData junk REG_SFP1_RX_POWER 2 s1 of None \<Rightarrow> None
             | Some (data, s2) \<Rightarrow>
                 Some (e, send_log (''SFP1: optical signal UP (%d dBm)'' @ [NL])
                   [uint (get_16bitValue (d_value data))] s2))
         else Some (e, s1))"

definition handler_SFP2_LOS :: "u8 list \<Rightarrow> i2c_data \<Rightarrow> hw \<Rightarrow> (event_t \<times> hw) option" where
  "handler_SFP2_LOS v junk s =
     (let value = v ! 0;
          (e, s1) =
            (if value \<noteq> spf2Los_prevValue (statics s)
             then (if spf2Los_prevValue (statics s) \<noteq> 0xFF
                   then check_changed_state (ucast value) (ucast (spf2Los_prevValue (statics s)))
                     REG_SFP_LOS_no REG_SFP_LOS_yes
                   else I2C_ERR_OK,
                   upd_statics (spf2Los_prevValue_update (\<lambda>_. value)) s)
             else (I2C_ERR_OK, s))
      in if e \<noteq> I2C_ERR_OK then
           if value \<noteq> 0 then Some (e, send_log (''SFP2: lost optical signal'' @ [NL]) [] s1)
           else (case i2c_getData junk REG_SFP2_RX_POWER 2 s1 of None \<Rightarrow> None
             | Some (data, s2) \<Rightarrow>
                 Some (e, send_log (''SFP2: optical signal UP (%d dBm)'' @ [NL])
                   [uint (get_16bitValue (d_value data))] s2))
         else Some (e, s1))"

definition handler_SFP1_TEMPER :: "u8 list \<Rightarrow> i2c_data \<Rightarrow> hw \<Rightarrow> (event_t \<times> hw) option" where
  "handler_SFP1_TEMPER v junk s0 =
     (case i2c_getData junk REG_SFP1_PRESENT 1 s0 of None \<Rightarrow> None
      | Some (data, s) \<Rightarrow>
          if d_value data ! 0 = REG_SFP_PRESENT_yes then
         (let value = get_16bitValue v;
          e = check_out_of_range (ucast value) (ucast (spf1_temper_prevValue (statics s)))
             REG_SFP_TEMPER_max REG_SFP_TEMPER_min;
          s1 = (if e = I2C_ERR_CHANGE_VALUE then upd_statics (spf1_temper_prevValue_update (\<lambda>_. value)) s else s);
          s2 = (if e = I2C_OVER_MAX then upd_statics (spf1_temper_prevValue_update (\<lambda>_. value))
             (send_log (''SFP1: overheating (%d)'' @ [NL]) [uint value] s1) else s1)
          in Some (e, s2))
          else Some (I2C_ERR_OK, s))"

definition handler_SFP2_TEMPER :: "u8 list \<Rightarrow> i2c_data \<Rightarrow> hw \<Rightarrow> (event_t \<times> hw) option" where
  "handler_SFP2_TEMPER v junk s0 =
     (case i2c_getData junk REG_SFP2_PRESENT 1 s0 of None \<Rightarrow> None
      | Some (data, s) \<Rightarrow>
          if d_value data ! 0 = REG_SFP_PRESENT_yes then
         (let value = get_16bitValue v;
          e = check_out_of_range (ucast value) (ucast (spf2_temper_prevValue (statics s)))
             REG_SFP_TEMPER_max REG_SFP_TEMPER_min;
          s1 = (if e = I2C_ERR_CHANGE_VALUE then upd_statics (spf2_temper_prevValue_update (\<lambda>_. value)) s else s);
          s2 = (if e = I2C_OVER_MAX then upd_statics (spf2_temper_prevValue_update (\<lambda>_. value))
             (send_log (''SFP2: overheating (%d)'' @ [NL]) [uint value] s1) else s1)
          in Some (e, s2))
          else Some (I2C_ERR_OK, s))"

definition handler_SFP1_VOLTAGE :: "u8 list \<Rightarrow> i2c_data \<Rightarrow> hw \<Rightarrow> (event_t \<times> hw) option" where
  "handler_SFP1_VOLTAGE v junk s0 =
     (case i2c_getData junk REG_SFP1_PRESENT 1 s0 of None \<Rightarrow> None
      | Some (data, s) \<Rightarrow>
          if d_value data ! 0 = REG_SFP_PRESENT_yes then
         (let value = get_16bitValue v;
          e = check_out_of_range (ucast value) (ucast (spf1Volt_prevValue (statics s)))
             REG_SFP_VOLTAGE_max REG_SFP_VOLTAGE_min;
          s1 = (if e = I2C_ERR_CHANGE_VALUE then upd_statics (spf1Volt_prevValue_update (\<lambda>_. value)) s else s);
          s2 = (if e = I2C_OVER_MAX \<or> e = I2C_LESS_MIN then upd_statics (spf1Volt_prevValue_update (\<lambda>_. value))
             (send_log (''SFP1: voltage not in range (%d)'' @ [NL]) [uint value] s1) else s1)
          in Some (e, s2))
          else Some (I2C_ERR_OK, s))"

definition handler_SFP2_VOLTAGE :: "u8 list \<Rightarrow> i2c_data \<Rightarrow> hw \<Rightarrow> (event_t \<times> hw) option" where
  "handler_SFP2_VOLTAGE v junk s0 =
     (case i2c_getData junk REG_SFP2_PRESENT 1 s0 of None \<Rightarrow> None
      | Some (data, s) \<Rightarrow>
          if d_value data ! 0 = REG_SFP_PRESENT_yes then
         (let value = get_16bitValue v;
          e = check_out_of_range (ucast value) (ucast (spf2Volt_prevValue (statics s)))
             REG_SFP_VOLTAGE_max REG_SFP_VOLTAGE_min;
          s1 = (if e = I2C_ERR_CHANGE_VALUE then upd_statics (spf2Volt_prevValue_update (\<lambda>_. value)) s else s);
          s2 = (if e = I2C_OVER_MAX \<or> e = I2C_LESS_MIN then upd_statics (spf2Volt_prevValue_update (\<lambda>_. value))
             (send_log (''SFP2: voltage not in range (%d)'' @ [NL]) [uint value] s1) else s1)
          in Some (e, s2))
          else Some (I2C_ERR_OK, s))"

definition handler_SFP1_CURRENT :: "u8 list \<Rightarrow> i2c_data \<Rightarrow> hw \<Rightarrow> (event_t \<times> hw) option" where
  "handler_SFP1_CURRENT v junk s0 =
     (case i2c_getData junk REG_SFP1_PRESENT 1 s0 of None \<Rightarrow> None
      | Some (data, s) \<Rightarrow>
          if d_value data ! 0 = REG_SFP_PRESENT_yes then
         (let value = get_16bitValue v;
          e = check_out_of_range (ucast value) (ucast (spf1Current_prevValue (statics s)))
             REG_SFP_CURRENT_max REG_SFP_CURRENT_min;
          s1 = (if e = I2C_ERR_CHANGE_VALUE then upd_statics (spf1Current_prevValue_update (\<lambda>_. value)) s else s);
          s2 = (if e = I2C_OVER_MAX \<or> e = I2C_LESS_MIN then upd_statics (spf1Current_prevValue_update (\<lambda>_. value))
             (send_log (''SFP1: current not in range (%d)'' @ [NL]) [uint value] s1) else s1)
          in Some (e, s2))
          else Some (I2C_ERR_OK, s))"

definition handler_SFP2_CURRENT :: "u8 list \<Rightarrow> i2c_data \<Rightarrow> hw \<Rightarrow> (event_t \<times> hw) option" where
  "handler_SFP2_CURRENT v junk s0 =
     (case i2c_getData junk REG_SFP2_PRESENT 1 s0 of None \<Rightarrow> None
      | Some (data, s) \<Rightarrow>
          if d_value data ! 0 = REG_SFP_PRESENT_yes then
         (let value = get_16bitValue v;
          e = check_out_of_range (ucast value) (ucast (spf2Current_prevValue (statics s)))
             REG_SFP_CURRENT_max REG_SFP_CURRENT_min;
          s1 = (if e = I2C_ERR_CHANGE_VALUE then upd_statics (spf2Current_prevValue_update (\<lambda>_. value)) s else s);
          s2 = (if e = I2C_OVER_MAX \<or> e = I2C_LESS_MIN then upd_statics (spf2Current_prevValue_update (\<lambda>_. value))
             (send_log (''SFP2: current not in range (%d)'' @ [NL]) [uint value] s1) else s1)
          in Some (e, s2))
          else Some (I2C_ERR_OK, s))"

definition handler_SFP1_TX_BIAS :: "u8 list \<Rightarrow> i2c_data \<Rightarrow> hw \<Rightarrow> (event_t \<times> hw) option" where
  "handler_SFP1_TX_BIAS v junk s0 =
     (case i2c_getData junk REG_SFP1_PRESENT 1 s0 of None \<Rightarrow> None
      | Some (data, s) \<Rightarrow>
          if d_value data ! 0 = REG_SFP_PRESENT_yes then
         (let value = get_16bitValue v;
          e = check_out_of_range (ucast value) (ucast (spf1TXbias_prevValue (statics s)))
             REG_SFP_TX_BIAS_max REG_SFP_TX_BIAS_min;
          s1 = (if e = I2C_ERR_CHANGE_VALUE then upd_statics (spf1TXbias_prevValue_update (\<lambda>_. value)) s else s);
          s2 = (if e = I2C_OVER_MAX \<or> e = I2C_LESS_MIN then upd_statics (spf1TXbias_prevValue_update (\<lambda>_. value))
             (send_log (''SFP1: TX bias current not in range (%d)'' @ [NL]) [uint value] s1) else s1)
          in Some (e, s2))
          else Some (I2C_ERR_OK, s))"

definition handler_SFP2_TX_BIAS :: "u8 list \<Rightarrow> i2c_data \<Rightarrow> hw \<Rightarrow> (event_t \<times> hw) option" where
  "handler_SFP2_TX_BIAS v junk s0 =
     (case i2c_getData junk REG_SFP2_PRESENT 1 s0 of None \<Rightarrow> None
      | Some (data, s) \<Rightarrow>
          if d_value data ! 0 = REG_SFP_PRESENT_yes then
         (let value = get_16bitValue v;
          e = check_out_of_range (ucast value) (ucast (spf2TXbias_prevValue (statics s)))
             REG_SFP_TX_BIAS_max REG_SFP_TX_BIAS_min;
          s1 = (if e = I2C_ERR_CHANGE_VALUE then upd_statics (spf2TXbias_prevValue_update (\<lambda>_. value)) s else s);
          s2 = (if e = I2C_OVER_MAX \<or> e = I2C_LESS_MIN then upd_statics (spf2TXbias_prevValue_update (\<lambda>_. value))
             (send_log (''SFP2: TX bias current not in range (%d)'' @ [NL]) [uint value] s1) else s1)
          in Some (e, s2))
          else Some (I2C_ERR_OK, s))"

definition handler_SFP1_TX_POWER_DB :: "u8 list \<Rightarrow> i2c_data \<Rightarrow> hw \<Rightarrow> (event_t \<times> hw) option" where
  "handler_SFP1_TX_POWER_DB v junk s0 =
     (case i2c_getData junk REG_SFP1_PRESENT 1 s0 of None \<Rightarrow> None
      | Some (data, s) \<Rightarrow>
          if d_value data ! 0 = REG_SFP_PRESENT_yes then
         (let value = get_16bitValue v;
          e = check_out_of_range (ucast value) (ucast (spf1_TXpower_prevValue (statics s)))
             REG_SFP_TX_POWER_max REG_SFP_TX_POWER_min;
          s1 = (if e = I2C_ERR_CHANGE_VALUE then upd_statics (spf1_TXpower_prevValue_update (\<lambda>_. value)) s else s);
          s2 = (if e = I2C_OVER_MAX \<or> e = I2C_LESS_MIN then upd_statics (spf1_TXpower_prevValue_update (\<lambda>_. value))
             (send_log (''SFP1: TX power not in range (%d)'' @ [NL]) [uint value] s1) else s1)
          in Some (e, s2))
          else Some (I2C_ERR_OK, s))"

definition handler_SFP2_TX_POWER_DB :: "u8 list \<Rightarrow> i2c_data \<Rightarrow> hw \<Rightarrow> (event_t \<times> hw) option" where
  "handler_SFP2_TX_POWER_DB v junk s0 =
     (case i2c_getData junk REG_SFP2_PRESENT 1 s0 of None \<Rightarrow> None
      | Some (data, s) \<Rightarrow>
          if d_value data ! 0 = REG_SFP_PRESENT_yes then
         (let value = get_16bitValue v;
          e = check_out_of_range (ucast value) (ucast (spf2_TXpower_prevValue (statics s)))
             REG_SFP_TX_POWER_max REG_SFP_TX_POWER_min;
          s1 = (if e = I2C_ERR_CHANGE_VALUE then upd_statics (spf2_TXpower_prevValue_update (\<lambda>_. value)) s else s);
          s2 = (if e = I2C_OVER_MAX \<or> e = I2C_LESS_MIN then upd_statics (spf2_TXpower_prevValue_update (\<lambda>_. value))
             (send_log (''SFP2: TX power not in range (%d)'' @ [NL]) [uint value] s1) else s1)
          in Some (e, s2))
          else Some (I2C_ERR_OK, s))"

definition handler_SFP1_RX_POWER_DB :: "u8 list \<Rightarrow> i2c_data \<Rightarrow> hw \<Rightarrow> (event_t \<times> hw) option" where
  "handler_SFP1_RX_POWER_DB v junk s0 =
     (case i2c_getData junk REG_SFP1_PRESENT 1 s0 of None \<Rightarrow> None
      | Some (data, s) \<Rightarrow>
          if d_value data ! 0 = REG_SFP_PRESENT_yes then
         (let value = get_16bitValue v;
          e = check_out_of_range (ucast value) (ucast (spf1_RXpower_prevValue (statics s)))
             REG_SFP_RX_POWER_max REG_SFP_RX_POWER_min;
          s1 = (if e = I2C_ERR_CHANGE_VALUE then upd_statics (spf1_RXpower_prevValue_update (\<lambda>_. value)) s else s);
          s2 = (if e = I2C_OVER_MAX \<or> e = I2C_LESS_MIN then upd_statics (spf1_RXpower_prevValue_update (\<lambda>_. value))
             (send_log (''SFP1: RX power not in range (%d)'' @ [NL]) [uint value] s1) else s1)
          in Some (e, s2))
          else Some (I2C_ERR_OK, s))"

definition handler_SFP2_RX_POWER_DB :: "u8 list \<Rightarrow> i2c_data \<Rightarrow> hw \<Rightarrow> (event_t \<times> hw) option" where
  "handler_SFP2_RX_POWER_DB v junk s0 =
     (case i2c_getData junk REG_SFP2_PRESENT 1 s0 of None \<Rightarrow> None
      | Some (data, s) \<Rightarrow>
          if d_value data ! 0 = REG_SFP_PRESENT_yes then
         (let value = get_16bitValue v;
          e = check_out_of_range (ucast value) (ucast (spf2_RXpower_prevValue (statics s)))
             REG_SFP_RX_POWER_max REG_SFP_RX_POWER_min;
          s1 = (if e = I2C_ERR_CHANGE_VALUE then upd_statics (spf2_RXpower_prevValue_update (\<lambda>_. value)) s else s);
          s2 = (if e = I2C_OVER_MAX \<or> e = I2C_LESS_MIN then upd_statics (spf2_RXpower_prevValue_update (\<lambda>_. value))
             (send_log (''SFP2: RX power not in range (%d)'' @ [NL]) [uint value] s1) else s1)
          in Some (e, s2))
          else Some (I2C_ERR_OK, s))"

subsection \<open>The call through the pointer\<close>

fun call_handler :: "hw_handler \<Rightarrow> u8 list \<Rightarrow> i2c_data \<Rightarrow> hw \<Rightarrow> (event_t \<times> hw) option" where
  "call_handler Handler_ADC_CH1 v junk s = Some (handler_ADC_CH1 v s)"
| "call_handler Handler_ADC_CH2 v junk s = Some (handler_ADC_CH2 v s)"
| "call_handler Handler_ADC_CH3 v junk s = Some (handler_ADC_CH3 v s)"
| "call_handler Handler_TAMPER v junk s = Some (handler_TAMPER v s)"
| "call_handler Handler_SENSOR1 v junk s = Some (handler_SENSOR1 v s)"
| "call_handler Handler_SENSOR2 v junk s = Some (handler_SENSOR2 v s)"
| "call_handler Handler_RELAY1 v junk s = Some (handler_RELAY1 v s)"
| "call_handler Handler_DEFAULT_LONG_PRESSED v junk s = Some (handler_DEFAULT_LONG_PRESSED v s)"
| "call_handler Handler_RPS_VAC v junk s = Some (handler_RPS_VAC v s)"
| "call_handler Handler_RPS_BAT_VOLTAGE v junk s = Some (handler_RPS_BAT_VOLTAGE v s)"
| "call_handler Handler_RPS_CHRG_VOLTAGE v junk s = Some (handler_RPS_CHRG_VOLTAGE v s)"
| "call_handler Handler_RPS_BAT_CURRENT v junk s = Some (handler_RPS_BAT_CURRENT v s)"
| "call_handler Handler_RPS_TEMPER v junk s = Some (handler_RPS_TEMPER v s)"
| "call_handler Handler_SHT_TYPE v junk s = Some (handler_SHT_TYPE v s)"
| "call_handler Handler_SHT_CONNECTED v junk s = Some (handler_SHT_CONNECTED v s)"
| "call_handler Handler_SHT_TEMPERATURE v junk s = handler_SHT_TEMPERATURE v junk s"
| "call_handler Handler_SHT_HUMIDITY v junk s = handler_SHT_HUMIDITY v junk s"
| "call_handler Handler_SFP1_PRESENT v junk s = Some (handler_SFP1_PRESENT v s)"
| "call_handler Handler_SFP2_PRESENT v junk s = Some (handler_SFP2_PRESENT v s)"
| "call_handler Handler_SFP1_LOS v junk s = handler_SFP1_LOS v junk s"
| "call_handler Handler_SFP2_LOS v junk s = handler_SFP2_LOS v junk s"
| "call_handler Handler_SFP1_TEMPER v junk s = handler_SFP1_TEMPER v junk s"
| "call_handler Handler_SFP2_TEMPER v junk s = handler_SFP2_TEMPER v junk s"
| "call_handler Handler_SFP1_VOLTAGE v junk s = handler_SFP1_VOLTAGE v junk s"
| "call_handler Handler_SFP2_VOLTAGE v junk s = handler_SFP2_VOLTAGE v junk s"
| "call_handler Handler_SFP1_CURRENT v junk s = handler_SFP1_CURRENT v junk s"
| "call_handler Handler_SFP2_CURRENT v junk s = handler_SFP2_CURRENT v junk s"
| "call_handler Handler_SFP1_TX_BIAS v junk s = handler_SFP1_TX_BIAS v junk s"
| "call_handler Handler_SFP2_TX_BIAS v junk s = handler_SFP2_TX_BIAS v junk s"
| "call_handler Handler_SFP1_TX_POWER_DB v junk s = handler_SFP1_TX_POWER_DB v junk s"
| "call_handler Handler_SFP2_TX_POWER_DB v junk s = handler_SFP2_TX_POWER_DB v junk s"
| "call_handler Handler_SFP1_RX_POWER_DB v junk s = handler_SFP1_RX_POWER_DB v junk s"
| "call_handler Handler_SFP2_RX_POWER_DB v junk s = handler_SFP2_RX_POWER_DB v junk s"

text \<open>
  \<^verbatim>\<open>i2c_events_handler\<close>: the handlers of the entries in order, each with a copy of the value as it is
  then. A pointer to anything else is undefined.
\<close>

definition call_entry :: "i2c_data \<Rightarrow> nat \<Rightarrow> hw \<Rightarrow> hw option" where
  "call_entry junk i s =
     (case d_eventsHandler (sock_msgArr s ! i) of Null \<Rightarrow> Some s
      | Fn h \<Rightarrow> map_option snd (call_handler h (d_value (sock_msgArr s ! i)) junk s)
      | Wild _ \<Rightarrow> None)"

fun events_loop :: "(nat \<Rightarrow> i2c_data) \<Rightarrow> nat list \<Rightarrow> hw \<Rightarrow> hw option" where
  "events_loop junk [] s = Some s"
| "events_loop junk (i # is) s =
     (case call_entry (junk i) i s of None \<Rightarrow> None | Some s' \<Rightarrow> events_loop junk is s')"

definition i2c_events_handler :: "(nat \<Rightarrow> i2c_data) \<Rightarrow> hw \<Rightarrow> hw option" where
  "i2c_events_handler junk s = events_loop junk [0..<length (sock_msgArr s)] s"

end
