(* ===== verification/HW_Daemon.thy ===== *)
theory HW_Daemon
  imports HW_Handlers
begin

section \<open>The hardware daemon: threads, bus and clients\<close>

text \<open>
  \<^verbatim>\<open>i2c_module.c\<close> (access to the bus), \<^verbatim>\<open>utils_module.c\<close> (timers), \<^verbatim>\<open>client_comm.c\<close> and
  \<^verbatim>\<open>main_app.c\<close>. The driver of the bus, the clock and the socket are the environment: the outcome of
  a transfer, the readings of the clock and what a client sent are arguments.
\<close>

subsection \<open>Timers\<close>

definition timer_set :: "u32 \<Rightarrow> u32 \<Rightarrow> hw_timer" where
  "timer_set now interval = \<lparr>t_start = now, t_interval = interval\<rparr>"

definition timer_reset :: "hw_timer \<Rightarrow> hw_timer" where
  "timer_reset t = t\<lparr>t_start := t_start t + t_interval t\<rparr>"

definition timer_expired :: "hw_timer \<Rightarrow> u32 \<Rightarrow> bool" where
  "timer_expired t now \<longleftrightarrow> t_interval t \<le> now - t_start t"

text \<open>A timer does not expire before its interval is over, unless the clock is set back.\<close>

lemma not_expired_after_set:
  assumes "now \<le> later" "unat later < unat now + unat n"
  shows "\<not> timer_expired (timer_set now n) later"
proof -
  from assms(1) have "unat (later - now) = unat later - unat now"
    by (simp add: unat_sub)
  with assms show ?thesis
    by (simp add: timer_expired_def timer_set_def word_le_nat_alt)
qed

lemma expired_when_set_back:
  assumes "later < now" "unat now - unat later + unat n \<le> 2 ^ 32"
  shows "timer_expired (timer_set now n) later"
proof -
  from assms(1) have "unat (later - now) = 2 ^ 32 + unat later - unat now"
    by (simp add: unat_sub_if' word_less_nat_alt)
  with assms show ?thesis
    by (simp add: timer_expired_def timer_set_def word_le_nat_alt word_less_nat_alt)
qed

subsection \<open>The bus\<close>

text \<open>
  \<open>io\<close> is the outcome of the \<^verbatim>\<open>ioctl\<close>: \<^term>\<open>None\<close> if it fails, otherwise the octets the driver
  stores, as many as were asked for. Storing more than the buffer holds is undefined.
\<close>

definition read_buffer :: "u8 \<Rightarrow> nat \<Rightarrow> (nat \<Rightarrow> u8) option \<Rightarrow> hw \<Rightarrow> (u8 \<times> hw) option" where
  "read_buffer reg len io s =
     (let s1 = s\<lparr>bus := bus s @ [[reg, of_nat len]]\<rparr>
      in case io of None \<Rightarrow> Some (1, s1)
      | Some f \<Rightarrow>
          if length (i2c_raw_data s) < len then None
          else let buf = map f [0..<len] @ drop len (i2c_raw_data s);
                   s2 = s1\<lparr>i2c_raw_data := buf\<rparr>
               in Some (if buf ! 0 = 0xAA \<and> buf ! 1 = 0xAA then 1 else 0, s2))"

text \<open>The message is put together in an array of 10 octets.\<close>

definition write_buffer :: "u8 \<Rightarrow> nat \<Rightarrow> u8 list \<Rightarrow> bool \<Rightarrow> hw \<Rightarrow> (u8 \<times> hw) option" where
  "write_buffer reg len buf ok s =
     (if 10 < len + 2 then None
      else Some (if ok then 0 else 1, s\<lparr>bus := bus s @ [reg # of_nat len # take len buf]\<rparr>))"

definition raw_len :: "hw \<Rightarrow> u16" where
  "raw_len s = push_bit 8 (ucast (i2c_raw_data s ! 1)) OR ucast (i2c_raw_data s ! 0)"

datatype hw_result = Undefined | Exited | Running hw

text \<open>
  \<^verbatim>\<open>open_i2c\<close>: \<open>fd_ok\<close> tells whether the device could be opened. The results of the two reads are
  not looked at.
\<close>

definition open_i2c ::
  "bool \<Rightarrow> u32 \<Rightarrow> u32 \<Rightarrow> (nat \<Rightarrow> u8) option \<Rightarrow> (nat \<Rightarrow> u8) option \<Rightarrow> hw \<Rightarrow> hw_result" where
  "open_i2c fd_ok t1 t2 io1 io2 s =
     (if \<not> fd_ok then Exited
      else let s1 = s\<lparr>hi_prio_timer := timer_set t1 3, low_prio_timer := timer_set t2 0\<rparr>
      in case read_buffer (ucast REG_HI_PRIO_LEN) 2 io1 s1 of None \<Rightarrow> Undefined
      | Some (_, s2) \<Rightarrow>
          let s3 = s2\<lparr>hi_prio_len := raw_len s2\<rparr>
          in case read_buffer (ucast REG_LOW_PRIO_LEN) 2 io2 s3 of None \<Rightarrow> Undefined
          | Some (_, s4) \<Rightarrow> Running (s4\<lparr>low_prio_len := raw_len s4, main_up := True\<rparr>))"

definition read_dump :: "u8 \<Rightarrow> u16 \<Rightarrow> (nat \<Rightarrow> u8) option \<Rightarrow> hw \<Rightarrow> (u8 \<times> hw) option" where
  "read_dump reg len io s =
     (case read_buffer reg (unat len) io s of None \<Rightarrow> None
      | Some (c, s1) \<Rightarrow>
          if c = 0 then
            (case i2c_parse_tlv (unat len) 0 (i2c_raw_data s1) (sock_msgArr s1) of None \<Rightarrow> None
             | Some (c', tbl) \<Rightarrow> Some (c', s1\<lparr>sock_msgArr := tbl\<rparr>))
          else Some (c, s1))"

text \<open>
  What the environment does in one pass of the main thread: the clock when the two timers are
  looked at and when one is set again, the outcome of the transfers, and the GPIO library.
\<close>

record main_env =
  e_hi :: u32
  e_low :: u32
  e_set :: u32
  e_io :: "(nat \<Rightarrow> u8) option"
  e_write :: bool
  e_gpio :: gpio_env

definition read_i2c :: "main_env \<Rightarrow> hw \<Rightarrow> (u8 \<times> hw) option" where
  "read_i2c e s =
     (if timer_expired (hi_prio_timer s) (e_hi e) then
        (case read_dump (ucast REG_HI_PRIO_DUMP) (hi_prio_len s) (e_io e) s of None \<Rightarrow> None
         | Some (c, s1) \<Rightarrow> Some (c, s1\<lparr>hi_prio_timer := timer_set (e_set e) 3\<rparr>))
      else if timer_expired (low_prio_timer s) (e_low e) then
        (case read_dump (ucast REG_LOW_PRIO_DUMP) (low_prio_len s) (e_io e) s of None \<Rightarrow> None
         | Some (c, s1) \<Rightarrow> Some (c, s1\<lparr>low_prio_timer := timer_set (e_set e) 30\<rparr>))
      else if write_flag s then
        (let w = write_data s
         in case write_buffer (ucast (d_addr w)) (unat (d_lenData w)) (d_value w) (e_write e) s of
              None \<Rightarrow> None
            | Some (_, s1) \<Rightarrow> Some (0, s1\<lparr>write_flag := False\<rparr>))
      else Some (0, s))"

abbreviation (input) MAX_I2C_ERROR :: u8 where "MAX_I2C_ERROR \<equiv> 5"

definition mainHandler :: "main_env \<Rightarrow> hw \<Rightarrow> hw_result" where
  "mainHandler e s =
     (case read_i2c e s of None \<Rightarrow> Undefined
      | Some (c, s1) \<Rightarrow>
          let s2 = s1\<lparr>errorCount := (if c = 1 then errorCount s1 + 1 else 0)\<rparr>
          in if MAX_I2C_ERROR < errorCount s2 then
               (case gpio_resetIoMcu (e_gpio e) of
                  Gpio_exit _ \<Rightarrow> Exited
                | Returned _ ops \<Rightarrow>
                    Running (s2\<lparr>errorCount := 0, gpio_done := gpio_done s2 @ ops\<rparr>))
             else Running s2)"

subsection \<open>Clients\<close>

datatype CLIENT_STATE = SOCKET_DISCONNECTED | SOCKET_READ_ERROR | SOCKET_READ_OK | SOCKET_RESET
  | SOCKET_IDLE

text \<open>
  The outcome of \<^verbatim>\<open>read\<close>: an error, the end of the stream, or data: the 60 octets of the local buffer
  as members of the structure (those the client did not send are whatever the buffer held). Of an
  \<^verbatim>\<open>i2c_data_t\<close> they hold everything up to the 12th octet of the value.
\<close>

datatype read_result = Read_error | Read_eof | Read_ok i2c_data

definition receive_msg :: "read_result \<Rightarrow> i2c_data \<Rightarrow> CLIENT_STATE \<times> i2c_data" where
  "receive_msg r rec_msg =
     (case r of Read_error \<Rightarrow> (SOCKET_READ_ERROR, rec_msg)
      | Read_eof \<Rightarrow> (SOCKET_DISCONNECTED, rec_msg)
      | Read_ok msg \<Rightarrow> (SOCKET_READ_OK, memcpy_data rec_msg msg 60))"

text \<open>\<open>junk1\<close> and \<open>junk2\<close> are the contents of the local variables \<^verbatim>\<open>i2cRec\<close> and \<^verbatim>\<open>i2cDataSend\<close>.\<close>

definition clientHandler ::
  "read_result \<Rightarrow> i2c_data \<Rightarrow> i2c_data \<Rightarrow> hw \<Rightarrow> (CLIENT_STATE \<times> hw) option" where
  "clientHandler r junk1 junk2 s =
     (let (clientState, rec0) = receive_msg r junk1;
          rec1 = (if d_opcode rec0 = I2C_OPCODE_READ \<and> clientState = SOCKET_READ_OK
                  then rec0\<lparr>d_opcode := I2C_OPCODE_RESPONSE\<rparr> else rec0)
      in if d_opcode rec1 = I2C_OPCODE_RESPONSE then
           (case i2c_getData junk2 (d_addr rec1) SIZEOF_I2C_DATA s of None \<Rightarrow> None
            | Some (data, s1) \<Rightarrow>
                Some (clientState,
                  s1\<lparr>replies := replies s1 @ [data\<lparr>d_opcode := I2C_OPCODE_RESPONSE\<rparr>]\<rparr>))
         else if d_opcode rec1 = I2C_OPCODE_WRITE then
           map_option (\<lambda>s1. (clientState, s1))
             (i2c_setData (rec1\<lparr>d_lenMSG := of_nat SIZEOF_I2C_DATA\<rparr>) (d_addr rec1) SIZEOF_I2C_DATA s)
         else if d_opcode rec1 = I2C_OPCODE_RESET then Some (SOCKET_RESET, s)
         else Some (clientState, s))"

subsection \<open>The threads\<close>

definition eventsHandler :: "u32 \<Rightarrow> (nat \<Rightarrow> i2c_data) \<Rightarrow> hw \<Rightarrow> hw option" where
  "eventsHandler now junk s =
     (if timer_expired (events_timer s) now then
        map_option (\<lambda>s1. s1\<lparr>events_timer := timer_reset (events_timer s1)\<rparr>)
          (i2c_events_handler junk s)
      else Some s)"

text \<open>
  One pass of a thread: the main thread opens the bus once and then calls \<^verbatim>\<open>mainHandler\<close> for ever,
  the thread of the clients handles one connection after the other, the thread of the events sets
  its timer once and then calls \<^verbatim>\<open>eventsHandler\<close> for ever.
\<close>

datatype hw_step =
    Main_open bool u32 u32 "(nat \<Rightarrow> u8) option" "(nat \<Rightarrow> u8) option"
  | Main_pass main_env
  | Client_pass read_result i2c_data i2c_data
  | Events_start u32
  | Events_pass u32 "nat \<Rightarrow> i2c_data"

definition of_option :: "hw option \<Rightarrow> hw_result" where
  "of_option r = (case r of None \<Rightarrow> Undefined | Some s \<Rightarrow> Running s)"

fun hw_next :: "hw_step \<Rightarrow> hw \<Rightarrow> hw_result" where
  "hw_next (Main_open ok t1 t2 io1 io2) s =
     (if main_up s then Running s else open_i2c ok t1 t2 io1 io2 s)"
| "hw_next (Main_pass e) s = (if main_up s then mainHandler e s else Running s)"
| "hw_next (Client_pass r junk1 junk2) s =
     of_option (map_option snd (clientHandler r junk1 junk2 s))"
| "hw_next (Events_start now) s =
     (if events_up s then Running s
      else Running (s\<lparr>events_timer := timer_set now 3, events_up := True\<rparr>))"
| "hw_next (Events_pass now junk) s =
     (if events_up s then of_option (eventsHandler now junk s) else Running s)"

text \<open>Structures have 32 octets of value.\<close>

definition data_ok :: "i2c_data \<Rightarrow> bool" where
  "data_ok d \<longleftrightarrow> length (d_value d) = 32"

fun step_ok :: "hw_step \<Rightarrow> bool" where
  "step_ok (Client_pass r junk1 junk2) \<longleftrightarrow>
     data_ok junk1 \<and> data_ok junk2 \<and> (case r of Read_ok m \<Rightarrow> data_ok m | _ \<Rightarrow> True)"
| "step_ok (Events_pass now junk) \<longleftrightarrow> (\<forall>i. data_ok (junk i))"
| "step_ok _ \<longleftrightarrow> True"

inductive hw_reachable :: "hw \<Rightarrow> bool" where
  start: "hw_reachable hw_init"
| step: "hw_reachable s \<Longrightarrow> step_ok x \<Longrightarrow> hw_next x s = Running s' \<Longrightarrow> hw_reachable s'"

fun hw_run :: "hw_step list \<Rightarrow> hw \<Rightarrow> hw_result" where
  "hw_run [] s = Running s"
| "hw_run (x # xs) s =
     (case hw_next x s of Running s' \<Rightarrow> hw_run xs s' | r \<Rightarrow> r)"

lemma hw_run_append:
  "hw_run (xs @ ys) s = (case hw_run xs s of Running s' \<Rightarrow> hw_run ys s' | r \<Rightarrow> r)"
  by (induction xs arbitrary: s) (auto split: hw_result.splits)

lemma hw_reachable_run:
  assumes "hw_reachable s" "list_all step_ok xs" "hw_run xs s = Running s'"
  shows "hw_reachable s'"
  using assms by (induction xs arbitrary: s) (auto split: hw_result.splits intro: hw_reachable.step)

end
