(* ===== verification/HW_Ctrl.thy ===== *)
theory HW_Ctrl
  imports HW_Daemon
begin

section \<open>The control program of the hardware daemon\<close>

text \<open>
  \<^verbatim>\<open>tf_hwsys/src/hwsys_ctrl/hwsys_ctrl.c\<close>: \<^verbatim>\<open>tf_hwsys_ctrl name get|set|reset [value]\<close> reads or
  writes a register through the daemon, or drives a GPIO line itself.
\<close>

subsection \<open>The command line\<close>

datatype cmd_type_t = CTRL_GET | CTRL_SET | CTRL_RESET

definition cmdTypeArr :: "(string \<times> cmd_type_t) list" where
  "cmdTypeArr = [(''get'', CTRL_GET), (''set'', CTRL_SET), (''reset'', CTRL_RESET)]"

definition getCmdType :: "string \<Rightarrow> cmd_type_t option" where
  "getCmdType arg_2 = map_of cmdTypeArr arg_2"

text \<open>
  What \<^verbatim>\<open>getOpt\<close> leads to: an undefined access (a missing command is the null pointer given to
  \<^verbatim>\<open>strcmp\<close>; an unknown name makes \<^verbatim>\<open>get_i2c_addr_by_name\<close> end without a value), the end of the
  program with code 1, or the interface with its parameters.
\<close>

datatype ctrl_opt = Opt_undefined | Opt_exit | Opt_i2c cmd_type_t i2c_data u8
  | Opt_gpio cmd_type_t nat u8

definition getOpt :: "string list \<Rightarrow> ctrl_opt" where
  "getOpt args =
     (case args of [] \<Rightarrow> Opt_exit
      | name # rest \<Rightarrow>
          let gpio_offset = get_gpio_addr_by_name name
          in case (if gpio_offset = GPIO_IDLE
                   then map_option (\<lambda>(_, p). \<lambda>c v. Opt_i2c c p v) (get_i2c_addr_by_name name zero_data)
                   else Some (\<lambda>c v. Opt_gpio c gpio_offset v)) of
               None \<Rightarrow> Opt_undefined
             | Some k \<Rightarrow>
                 (case rest of [] \<Rightarrow> Opt_undefined
                  | arg_2 # rest2 \<Rightarrow>
                      (case getCmdType arg_2 of None \<Rightarrow> Opt_exit
                       | Some CTRL_SET \<Rightarrow>
                           (case rest2 of [] \<Rightarrow> Opt_exit
                            | arg_3 # _ \<Rightarrow> k CTRL_SET (of_int (strtol arg_3)))
                       | Some c \<Rightarrow> k c 0)))"

subsection \<open>What is printed\<close>

fun dec_nat :: "nat \<Rightarrow> string" where
  "dec_nat n = (if n < 10 then [] else dec_nat (n div 10)) @ [char_of (48 + n mod 10)]"

declare dec_nat.simps [simp del]

definition dec_int :: "int \<Rightarrow> string" where
  "dec_int n = (if n < 0 then ''-'' @ dec_nat (nat (- n)) else dec_nat (nat n))"

fun hex_nat :: "nat \<Rightarrow> string" where
  "hex_nat n = (if n < 16 then [] else hex_nat (n div 16)) @ [''0123456789abcdef'' ! (n mod 16)]"

declare hex_nat.simps [simp del]

text \<open>Division of C, towards zero, and the absolute value of its remainder.\<close>

definition quot_int :: "int \<Rightarrow> int \<Rightarrow> int" where
  "quot_int n d = (if n < 0 then - ((- n) div d) else n div d)"

definition pseudo_float_text :: "u16 \<Rightarrow> string" where
  "pseudo_float_text t =
     (if t < 1000 then dec_nat (unat t div 10) @ ''.'' @ dec_nat (unat t mod 10)
      else dec_nat (unat t div 1000) @ ''.'' @ dec_nat (unat t mod 1000))"

definition sfp_float_text :: "u16 \<Rightarrow> string" where
  "sfp_float_text t =
     (let i = sint t
      in if i < 1000 then dec_int (quot_int i 10) @ ''.'' @ dec_int (\<bar>i\<bar> mod 10)
         else dec_int (quot_int i 1000) @ ''.'' @ dec_int (\<bar>i\<bar> mod 1000))"

definition get_32bitValue :: "u8 list \<Rightarrow> u32" where
  "get_32bitValue v = ucast (v ! 0) OR push_bit 8 (ucast (v ! 1)) OR push_bit 16 (ucast (v ! 2))
     OR push_bit 24 (ucast (v ! 3))"

text \<open>\<^verbatim>\<open>%s\<close> of the value; without a NUL it runs past the structure: \<^term>\<open>None\<close>.\<close>

definition value_text :: "u8 list \<Rightarrow> string option" where
  "value_text v = (if 0 \<in> set v then Some (map (\<lambda>x. char_of (unat x)) (takeWhile (\<lambda>x. x \<noteq> 0) v)) else None)"

definition print_response :: "i2c_data \<Rightarrow> string option" where
  "print_response p =
     (let v = d_value p;
          err = (if v ! 0 = 0xAA \<and> v ! 1 = 0xAA then ''error response'' @ [NL] else [])
      in map_option (\<lambda>t. err @ t @ [NL])
        (if d_lenData p = 1 then Some (dec_nat (unat (v ! 0)))
         else if d_lenData p = 2 then
           Some (if d_type p = TYPE_PSEUDO_FLOAT then pseudo_float_text (get_16bitValue v)
                 else if d_type p = TYPE_FLOAT_SFP then sfp_float_text (get_16bitValue v)
                 else dec_nat (unat (get_16bitValue v)))
         else if d_lenData p = 4 then Some (dec_int (sint (get_32bitValue v)))
         else value_text v))"

subsection \<open>The requests\<close>

definition get_request :: "i2c_data \<Rightarrow> i2c_data" where
  "get_request p = p\<lparr>d_lenMSG := of_nat SIZEOF_I2C_DATA, d_opcode := I2C_OPCODE_READ\<rparr>"

text \<open>\<^verbatim>\<open>i2c_getHandler\<close>: the request sent, and what is printed given the outcome of \<^verbatim>\<open>read\<close>.\<close>

definition i2c_getHandler :: "i2c_data \<Rightarrow> read_result \<Rightarrow> string option" where
  "i2c_getHandler p r =
     (let (clientState, p1) = receive_msg r (get_request p)
      in if clientState = SOCKET_READ_OK then
           if d_opcode p1 = I2C_OPCODE_RESPONSE then print_response p1 else Some []
         else Some (''error opcode: '' @ hex_nat (unat (d_opcode p1)) @ [NL]))"

text \<open>
  \<^verbatim>\<open>i2c_setHandler\<close>: the request sent. The argument has 8 bits, so the shifted octets are 0.
\<close>

definition i2c_setHandler :: "i2c_data \<Rightarrow> u8 \<Rightarrow> i2c_data" where
  "i2c_setHandler p val =
     (let i32val = (ucast val :: u32)
      in p\<lparr>d_opcode := I2C_OPCODE_WRITE,
           d_value := (d_value p)[0 := ucast i32val, 1 := ucast (push_bit 8 i32val),
             2 := ucast (push_bit 16 i32val), 3 := ucast (push_bit 24 i32val)]\<rparr>)"

lemma i2c_setHandler_value:
  "i2c_setHandler p val =
     p\<lparr>d_opcode := I2C_OPCODE_WRITE, d_value := (d_value p)[0 := val, 1 := 0, 2 := 0, 3 := 0]\<rparr>"
proof -
  have "ucast (push_bit k (ucast val :: u32)) = (0 :: u8)" if "8 \<le> k" for k
    using that by (intro bit_word_eqI) (auto simp: bit_simps)
  moreover have "ucast (ucast val :: u32) = val"
    by (intro bit_word_eqI) (auto simp: bit_simps)
  ultimately show ?thesis by (simp add: i2c_setHandler_def)
qed

definition gpio_handler :: "cmd_type_t \<Rightarrow> nat \<Rightarrow> u8 \<Rightarrow> gpio_env \<Rightarrow> gpio_result" where
  "gpio_handler c line v g =
     gpio_open g line (case c of CTRL_GET \<Rightarrow> gpio_getHandler g | CTRL_SET \<Rightarrow> gpio_setHandler g v
       | CTRL_RESET \<Rightarrow> gpio_resetHandler g)"

subsection \<open>The program with the daemon\<close>

text \<open>
  One run of the program while the daemon is in the state \<open>s\<close>. The socket delivers the request to
  the daemon and its answer back; \<open>junk\<close> are the daemon's local variables. The result is what is
  printed (\<^term>\<open>None\<close> if the program ends before or accesses memory it may not) and the
  daemon's state.
\<close>

definition ctrl_run ::
  "string list \<Rightarrow> i2c_data \<times> i2c_data \<Rightarrow> hw \<Rightarrow> (string option \<times> hw) option" where
  "ctrl_run args junk s =
     (case getOpt args of
        Opt_i2c CTRL_GET p _ \<Rightarrow>
          (case clientHandler (Read_ok (get_request p)) (fst junk) (snd junk) s of None \<Rightarrow> None
           | Some (_, s1) \<Rightarrow> Some (i2c_getHandler p (Read_ok (last (replies s1))), s1))
      | Opt_i2c CTRL_SET p v \<Rightarrow>
          (case clientHandler (Read_ok (i2c_setHandler p v)) (fst junk) (snd junk) s of None \<Rightarrow> None
           | Some (_, s1) \<Rightarrow> Some (Some [], s1))
      | _ \<Rightarrow> Some (None, s))"

end
