(* ===== verification/HW_Reports.thy ===== *)
theory HW_Reports
  imports HW_Ctrl
begin

section \<open>The hardware daemon: what a handler can change\<close>

text \<open>
  The reference each handler keeps and the messages it can log; a handler changes its own
  reference, adds its own messages, and apart from \<^verbatim>\<open>lenMSG\<close> leaves the table alone.
\<close>

subsection \<open>References and messages of the handlers\<close>

fun ref_of :: "hw_handler \<Rightarrow> prevs \<Rightarrow> u16" where
  "ref_of Handler_ADC_CH1 p = ch1_prevValue p"
| "ref_of Handler_ADC_CH2 p = ch2_prevValue p"
| "ref_of Handler_ADC_CH3 p = ch3_prevValue p"
| "ref_of Handler_TAMPER p = ucast (tamper1_prevValue p)"
| "ref_of Handler_SENSOR1 p = ucast (sen1_prevValue p)"
| "ref_of Handler_SENSOR2 p = ucast (sen2_prevValue p)"
| "ref_of Handler_RELAY1 p = ucast (sen3_prevValue p)"
| "ref_of Handler_DEFAULT_LONG_PRESSED p = longPress_prevValue p"
| "ref_of Handler_RPS_VAC p = ucast (vac_prevValue p)"
| "ref_of Handler_RPS_BAT_VOLTAGE p = batVolt_prevValue p"
| "ref_of Handler_RPS_CHRG_VOLTAGE p = chgVolt_prevValue p"
| "ref_of Handler_RPS_BAT_CURRENT p = batCur_prevValue p"
| "ref_of Handler_RPS_TEMPER p = ucast (temper_prevValue p)"
| "ref_of Handler_SHT_TYPE p = 0"
| "ref_of Handler_SHT_CONNECTED p = ucast (sht_connected_prevValue p)"
| "ref_of Handler_SHT_TEMPERATURE p = shtTemper_prevValue p"
| "ref_of Handler_SHT_HUMIDITY p = ucast (shtHim_prevValue p)"
| "ref_of Handler_SFP1_PRESENT p = ucast (spf1_present_prevValue p)"
| "ref_of Handler_SFP2_PRESENT p = ucast (spf2_present_prevValue p)"
| "ref_of Handler_SFP1_LOS p = ucast (spf1Los_prevValue p)"
| "ref_of Handler_SFP2_LOS p = ucast (spf2Los_prevValue p)"
| "ref_of Handler_SFP1_TEMPER p = spf1_temper_prevValue p"
| "ref_of Handler_SFP2_TEMPER p = spf2_temper_prevValue p"
| "ref_of Handler_SFP1_VOLTAGE p = spf1Volt_prevValue p"
| "ref_of Handler_SFP2_VOLTAGE p = spf2Volt_prevValue p"
| "ref_of Handler_SFP1_CURRENT p = spf1Current_prevValue p"
| "ref_of Handler_SFP2_CURRENT p = spf2Current_prevValue p"
| "ref_of Handler_SFP1_TX_BIAS p = spf1TXbias_prevValue p"
| "ref_of Handler_SFP2_TX_BIAS p = spf2TXbias_prevValue p"
| "ref_of Handler_SFP1_TX_POWER_DB p = spf1_TXpower_prevValue p"
| "ref_of Handler_SFP2_TX_POWER_DB p = spf2_TXpower_prevValue p"
| "ref_of Handler_SFP1_RX_POWER_DB p = spf1_RXpower_prevValue p"
| "ref_of Handler_SFP2_RX_POWER_DB p = spf2_RXpower_prevValue p"

fun texts :: "hw_handler \<Rightarrow> string list" where
  "texts Handler_ADC_CH1 = [''ADC CH1 out of range: %d'']"
| "texts Handler_ADC_CH2 = [''ADC CH2 out of range: %d'']"
| "texts Handler_ADC_CH3 = [''ADC CH3 out of range: %d'']"
| "texts Handler_TAMPER = [''TAMPER changed to Close'' @ [NL], ''TAMPER changed to Open'' @ [NL]]"
| "texts Handler_SENSOR1 = [''SENSOR1 changed to Close'' @ [NL], ''SENSOR1 changed to Open'' @ [NL]]"
| "texts Handler_SENSOR2 = [''SENSOR2 changed to Close'' @ [NL], ''SENSOR2 changed to Open'' @ [NL]]"
| "texts Handler_RELAY1 = [''RELAY changed to Close'' @ [NL], ''RELAY changed to Open'' @ [NL]]"
| "texts Handler_DEFAULT_LONG_PRESSED = [''DEFAULT SETTINGS by DEFAULT BUTTON'' @ [NL]]"
| "texts Handler_RPS_VAC = [''UPS: power changed to VAC'' @ [NL], ''UPS: power changed to Battery'' @ [NL]]"
| "texts Handler_RPS_BAT_VOLTAGE = [''UPS: Battery voltage is LOW (%d)'', ''UPS: Battery voltage reaches max voltage (%d)'']"
| "texts Handler_RPS_CHRG_VOLTAGE = [''UPS: Charge voltage is LOW (%d)'', ''UPS: Charge voltage reaches max voltage (%d)'']"
| "texts Handler_RPS_BAT_CURRENT = []"
| "texts Handler_RPS_TEMPER = [''UPS: RPS board overheat (%d)'' @ [NL]]"
| "texts Handler_SHT_TYPE = []"
| "texts Handler_SHT_CONNECTED = [''SHT: connection status %d'' @ [NL]]"
| "texts Handler_SHT_TEMPERATURE = [''SHT: temperature is higher than maximum %d'' @ [NL], ''SHT: temperature is lower than minimum %d'' @ [NL]]"
| "texts Handler_SHT_HUMIDITY = [''SHT: humidity is higher than maximum %d'' @ [NL], ''SHT: humidity is lower than minimum %d'' @ [NL]]"
| "texts Handler_SFP1_PRESENT = [''SFP1: in chassis'' @ [NL], ''SFP1: removed from chassis'' @ [NL]]"
| "texts Handler_SFP2_PRESENT = [''SFP2: in chassis'' @ [NL], ''SFP2: removed from chassis'' @ [NL]]"
| "texts Handler_SFP1_LOS = [''SFP1: lost optical signal'' @ [NL], ''SFP1: optical signal UP (%d dBm)'' @ [NL]]"
| "texts Handler_SFP2_LOS = [''SFP2: lost optical signal'' @ [NL], ''SFP2: optical signal UP (%d dBm)'' @ [NL]]"
| "texts Handler_SFP1_TEMPER = [''SFP1: overheating (%d)'' @ [NL]]"
| "texts Handler_SFP2_TEMPER = [''SFP2: overheating (%d)'' @ [NL]]"
| "texts Handler_SFP1_VOLTAGE = [''SFP1: voltage not in range (%d)'' @ [NL]]"
| "texts Handler_SFP2_VOLTAGE = [''SFP2: voltage not in range (%d)'' @ [NL]]"
| "texts Handler_SFP1_CURRENT = [''SFP1: current not in range (%d)'' @ [NL]]"
| "texts Handler_SFP2_CURRENT = [''SFP2: current not in range (%d)'' @ [NL]]"
| "texts Handler_SFP1_TX_BIAS = [''SFP1: TX bias current not in range (%d)'' @ [NL]]"
| "texts Handler_SFP2_TX_BIAS = [''SFP2: TX bias current not in range (%d)'' @ [NL]]"
| "texts Handler_SFP1_TX_POWER_DB = [''SFP1: TX power not in range (%d)'' @ [NL]]"
| "texts Handler_SFP2_TX_POWER_DB = [''SFP2: TX power not in range (%d)'' @ [NL]]"
| "texts Handler_SFP1_RX_POWER_DB = [''SFP1: RX power not in range (%d)'' @ [NL]]"
| "texts Handler_SFP2_RX_POWER_DB = [''SFP2: RX power not in range (%d)'' @ [NL]]"

lemmas handler_defs =
    handler_ADC_CH1_def handler_ADC_CH2_def handler_ADC_CH3_def
    handler_TAMPER_def handler_SENSOR1_def handler_SENSOR2_def
    handler_RELAY1_def handler_DEFAULT_LONG_PRESSED_def handler_RPS_VAC_def
    handler_RPS_BAT_VOLTAGE_def handler_RPS_CHRG_VOLTAGE_def handler_RPS_BAT_CURRENT_def
    handler_RPS_TEMPER_def handler_SHT_TYPE_def handler_SHT_CONNECTED_def
    handler_SHT_TEMPERATURE_def handler_SHT_HUMIDITY_def handler_SFP1_PRESENT_def
    handler_SFP2_PRESENT_def handler_SFP1_LOS_def handler_SFP2_LOS_def
    handler_SFP1_TEMPER_def handler_SFP2_TEMPER_def handler_SFP1_VOLTAGE_def
    handler_SFP2_VOLTAGE_def handler_SFP1_CURRENT_def handler_SFP2_CURRENT_def
    handler_SFP1_TX_BIAS_def handler_SFP2_TX_BIAS_def handler_SFP1_TX_POWER_DB_def
    handler_SFP2_TX_POWER_DB_def handler_SFP1_RX_POWER_DB_def handler_SFP2_RX_POWER_DB_def

text \<open>What calling a handler can change.\<close>

definition only_reports :: "hw_handler \<Rightarrow> hw \<Rightarrow> hw \<Rightarrow> bool" where
  "only_reports h s s' \<longleftrightarrow>
     (\<exists>tbl st l. s' = s\<lparr>sock_msgArr := tbl, statics := st, hw_log := hw_log s @ l\<rparr>
        \<and> map (d_lenMSG_update (\<lambda>_. 0)) tbl = map (d_lenMSG_update (\<lambda>_. 0)) (sock_msgArr s)
        \<and> (\<forall>h'. h' \<noteq> h \<longrightarrow> ref_of h' st = ref_of h' (statics s))
        \<and> fst ` set l \<subseteq> set (texts h))"

lemma only_reports_refl: "only_reports h s s"
  unfolding only_reports_def
  by (rule exI [of _ "sock_msgArr s"], rule exI [of _ "statics s"], rule exI [of _ "[]"]) simp

lemma only_reports_trans:
  assumes "only_reports h s s1" "only_reports h s1 s2"
  shows "only_reports h s s2"
proof -
  from assms(1) obtain t1 p1 l1 where 1: "s1 = s\<lparr>sock_msgArr := t1, statics := p1, hw_log := hw_log s @ l1\<rparr>"
    "map (d_lenMSG_update (\<lambda>_. 0)) t1 = map (d_lenMSG_update (\<lambda>_. 0)) (sock_msgArr s)"
    "\<And>h'. h' \<noteq> h \<Longrightarrow> ref_of h' p1 = ref_of h' (statics s)" "fst ` set l1 \<subseteq> set (texts h)"
    unfolding only_reports_def by blast
  from assms(2) obtain t2 p2 l2 where 2: "s2 = s1\<lparr>sock_msgArr := t2, statics := p2, hw_log := hw_log s1 @ l2\<rparr>"
    "map (d_lenMSG_update (\<lambda>_. 0)) t2 = map (d_lenMSG_update (\<lambda>_. 0)) (sock_msgArr s1)"
    "\<And>h'. h' \<noteq> h \<Longrightarrow> ref_of h' p2 = ref_of h' (statics s1)" "fst ` set l2 \<subseteq> set (texts h)"
    unfolding only_reports_def by blast
  show ?thesis
    unfolding only_reports_def
    by (rule exI [of _ t2], rule exI [of _ p2], rule exI [of _ "l1 @ l2"]) (use 1 2 in auto)
qed

lemma only_reports_log:
  "m \<in> set (texts h) \<Longrightarrow> only_reports h s (send_log m as s)"
  unfolding only_reports_def
  by (rule exI [of _ "sock_msgArr s"], rule exI [of _ "statics s"], rule exI [of _ "[(m, as)]"])
    (simp add: send_log_def)

lemma only_reports_statics:
  "(\<And>h' p. h' \<noteq> h \<Longrightarrow> ref_of h' (f p) = ref_of h' p) \<Longrightarrow> only_reports h s (upd_statics f s)"
  unfolding only_reports_def
  by (rule exI [of _ "sock_msgArr s"], rule exI [of _ "f (statics s)"], rule exI [of _ "[]"])
    (simp add: upd_statics_def)

lemma only_reports_getData:
  assumes "i2c_getData dst a n s = Some (data, s')"
  shows "only_reports h s s'"
proof -
  from assms obtain i where s': "s' = s\<lparr>sock_msgArr := upd_nth i (d_lenMSG_update (\<lambda>_. of_nat n)) (sock_msgArr s)\<rparr>"
    by (rule i2c_getData_frame)
  show ?thesis
    unfolding only_reports_def s'
    by (rule exI [of _ "upd_nth i (d_lenMSG_update (\<lambda>_. of_nat n)) (sock_msgArr s)"],
        rule exI [of _ "statics s"], rule exI [of _ "[]"])
      (simp add: map_upd_nth_same o_def)
qed

lemma only_reports_send:
  "only_reports h s a \<Longrightarrow> m \<in> set (texts h) \<Longrightarrow> only_reports h s (send_log m as a)"
  by (blast intro: only_reports_trans only_reports_log)

lemma only_reports_upd:
  "only_reports h s a \<Longrightarrow> (\<And>h' p. h' \<noteq> h \<Longrightarrow> ref_of h' (f p) = ref_of h' p)
    \<Longrightarrow> only_reports h s (upd_statics f a)"
  by (blast intro: only_reports_trans only_reports_statics)

text \<open>Each handler keeps its reference in a variable of its own.\<close>

lemma own_reference:
  fixes w :: u16 and w8 :: u8
  shows
  "only_reports Handler_ADC_CH1 s a \<Longrightarrow> only_reports Handler_ADC_CH1 s (upd_statics (ch1_prevValue_update (\<lambda>_. w)) a)"
  "only_reports Handler_ADC_CH2 s a \<Longrightarrow> only_reports Handler_ADC_CH2 s (upd_statics (ch2_prevValue_update (\<lambda>_. w)) a)"
  "only_reports Handler_ADC_CH3 s a \<Longrightarrow> only_reports Handler_ADC_CH3 s (upd_statics (ch3_prevValue_update (\<lambda>_. w)) a)"
  "only_reports Handler_TAMPER s a \<Longrightarrow> only_reports Handler_TAMPER s (upd_statics (tamper1_prevValue_update (\<lambda>_. w8)) a)"
  "only_reports Handler_SENSOR1 s a \<Longrightarrow> only_reports Handler_SENSOR1 s (upd_statics (sen1_prevValue_update (\<lambda>_. w8)) a)"
  "only_reports Handler_SENSOR2 s a \<Longrightarrow> only_reports Handler_SENSOR2 s (upd_statics (sen2_prevValue_update (\<lambda>_. w8)) a)"
  "only_reports Handler_RELAY1 s a \<Longrightarrow> only_reports Handler_RELAY1 s (upd_statics (sen3_prevValue_update (\<lambda>_. w8)) a)"
  "only_reports Handler_DEFAULT_LONG_PRESSED s a \<Longrightarrow> only_reports Handler_DEFAULT_LONG_PRESSED s (upd_statics (longPress_prevValue_update (\<lambda>_. w)) a)"
  "only_reports Handler_RPS_VAC s a \<Longrightarrow> only_reports Handler_RPS_VAC s (upd_statics (vac_prevValue_update (\<lambda>_. w8)) a)"
  "only_reports Handler_RPS_BAT_VOLTAGE s a \<Longrightarrow> only_reports Handler_RPS_BAT_VOLTAGE s (upd_statics (batVolt_prevValue_update (\<lambda>_. w)) a)"
  "only_reports Handler_RPS_CHRG_VOLTAGE s a \<Longrightarrow> only_reports Handler_RPS_CHRG_VOLTAGE s (upd_statics (chgVolt_prevValue_update (\<lambda>_. w)) a)"
  "only_reports Handler_RPS_TEMPER s a \<Longrightarrow> only_reports Handler_RPS_TEMPER s (upd_statics (temper_prevValue_update (\<lambda>_. w8)) a)"
  "only_reports Handler_SHT_CONNECTED s a \<Longrightarrow> only_reports Handler_SHT_CONNECTED s (upd_statics (sht_connected_prevValue_update (\<lambda>_. w8)) a)"
  "only_reports Handler_SHT_TEMPERATURE s a \<Longrightarrow> only_reports Handler_SHT_TEMPERATURE s (upd_statics (shtTemper_prevValue_update (\<lambda>_. w)) a)"
  "only_reports Handler_SHT_HUMIDITY s a \<Longrightarrow> only_reports Handler_SHT_HUMIDITY s (upd_statics (shtHim_prevValue_update (\<lambda>_. w8)) a)"
  "only_reports Handler_SFP1_PRESENT s a \<Longrightarrow> only_reports Handler_SFP1_PRESENT s (upd_statics (spf1_present_prevValue_update (\<lambda>_. w8)) a)"
  "only_reports Handler_SFP2_PRESENT s a \<Longrightarrow> only_reports Handler_SFP2_PRESENT s (upd_statics (spf2_present_prevValue_update (\<lambda>_. w8)) a)"
  "only_reports Handler_SFP1_LOS s a \<Longrightarrow> only_reports Handler_SFP1_LOS s (upd_statics (spf1Los_prevValue_update (\<lambda>_. w8)) a)"
  "only_reports Handler_SFP2_LOS s a \<Longrightarrow> only_reports Handler_SFP2_LOS s (upd_statics (spf2Los_prevValue_update (\<lambda>_. w8)) a)"
  "only_reports Handler_SFP1_TEMPER s a \<Longrightarrow> only_reports Handler_SFP1_TEMPER s (upd_statics (spf1_temper_prevValue_update (\<lambda>_. w)) a)"
  "only_reports Handler_SFP2_TEMPER s a \<Longrightarrow> only_reports Handler_SFP2_TEMPER s (upd_statics (spf2_temper_prevValue_update (\<lambda>_. w)) a)"
  "only_reports Handler_SFP1_VOLTAGE s a \<Longrightarrow> only_reports Handler_SFP1_VOLTAGE s (upd_statics (spf1Volt_prevValue_update (\<lambda>_. w)) a)"
  "only_reports Handler_SFP2_VOLTAGE s a \<Longrightarrow> only_reports Handler_SFP2_VOLTAGE s (upd_statics (spf2Volt_prevValue_update (\<lambda>_. w)) a)"
  "only_reports Handler_SFP1_CURRENT s a \<Longrightarrow> only_reports Handler_SFP1_CURRENT s (upd_statics (spf1Current_prevValue_update (\<lambda>_. w)) a)"
  "only_reports Handler_SFP2_CURRENT s a \<Longrightarrow> only_reports Handler_SFP2_CURRENT s (upd_statics (spf2Current_prevValue_update (\<lambda>_. w)) a)"
  "only_reports Handler_SFP1_TX_BIAS s a \<Longrightarrow> only_reports Handler_SFP1_TX_BIAS s (upd_statics (spf1TXbias_prevValue_update (\<lambda>_. w)) a)"
  "only_reports Handler_SFP2_TX_BIAS s a \<Longrightarrow> only_reports Handler_SFP2_TX_BIAS s (upd_statics (spf2TXbias_prevValue_update (\<lambda>_. w)) a)"
  "only_reports Handler_SFP1_TX_POWER_DB s a \<Longrightarrow> only_reports Handler_SFP1_TX_POWER_DB s (upd_statics (spf1_TXpower_prevValue_update (\<lambda>_. w)) a)"
  "only_reports Handler_SFP2_TX_POWER_DB s a \<Longrightarrow> only_reports Handler_SFP2_TX_POWER_DB s (upd_statics (spf2_TXpower_prevValue_update (\<lambda>_. w)) a)"
  "only_reports Handler_SFP1_RX_POWER_DB s a \<Longrightarrow> only_reports Handler_SFP1_RX_POWER_DB s (upd_statics (spf1_RXpower_prevValue_update (\<lambda>_. w)) a)"
  "only_reports Handler_SFP2_RX_POWER_DB s a \<Longrightarrow> only_reports Handler_SFP2_RX_POWER_DB s (upd_statics (spf2_RXpower_prevValue_update (\<lambda>_. w)) a)"
  by (erule only_reports_upd, case_tac h', simp_all)+

lemma only_reports_trans_getData:
  "i2c_getData dst a n s1 = Some (data, s2) \<Longrightarrow> only_reports h s s1 \<Longrightarrow> only_reports h s s2"
  by (blast intro: only_reports_trans only_reports_getData)

text \<open>A handler changes its own reference, adds its own messages, and no more.\<close>

lemma call_handler_only_reports:
  assumes "call_handler h v junk s = Some (e, s')"
  shows "only_reports h s s'"
  using assms
  by (cases h)
    (auto simp: handler_defs Let_def split: option.splits if_splits prod.splits
      intro!: own_reference only_reports_send only_reports_refl
      elim!: only_reports_trans_getData)

end
