(* ===== verification/HW_Invariant.thy ===== *)
theory HW_Invariant
  imports HW_Reports
begin

section \<open>The hardware daemon: what every step keeps\<close>

text \<open>
  The addresses of the table, the sizes of its values and of the buffer; and, for steps in which no
  client writes, the pointers to the handlers.
\<close>

definition table_ok :: "hw \<Rightarrow> bool" where
  "table_ok s \<longleftrightarrow> map d_addr (sock_msgArr s) = map d_addr sock_msgArr_init
     \<and> (\<forall>d \<in> set (sock_msgArr s). data_ok d) \<and> data_ok (write_data s)
     \<and> length (i2c_raw_data s) = 1000"

definition handlers :: "hw \<Rightarrow> fnptr list" where
  "handlers s = map d_eventsHandler (sock_msgArr s)"

text \<open>Steps that touch neither the references, nor the log, nor the pointers.\<close>

definition silent :: "hw \<Rightarrow> hw \<Rightarrow> bool" where
  "silent s s' \<longleftrightarrow> statics s' = statics s \<and> hw_log s' = hw_log s \<and> handlers s' = handlers s"

lemma silent_refl: "silent s s"
  by (simp add: silent_def)

lemma data_ok_entry: "table_ok s \<Longrightarrow> i < length (sock_msgArr s) \<Longrightarrow> length (d_value (sock_msgArr s ! i)) = 32"
  by (simp add: table_ok_def data_ok_def)

lemma length_init: "length sock_msgArr_init = 144"
proof -
  have "length listed_registers = 107" by (simp add: listed_registers_def)
  then show ?thesis by (simp add: sock_msgArr_init_def)
qed

lemma length_table: "table_ok s \<Longrightarrow> length (sock_msgArr s) = 144"
  using length_init by (metis length_map table_ok_def)

lemma get_id_init:
  "table_ok s \<Longrightarrow> get_id_by_addr a (sock_msgArr s) = get_id_by_addr a sock_msgArr_init"
  by (rule get_id_by_addr_cong) (simp add: table_ok_def)

lemma table_ok_init: "table_ok hw_init"
proof -
  have "list_all (\<lambda>d. length (d_value d) = 32) listed_registers"
    by (simp add: listed_registers_def) (simp add: entry_def)
  then show ?thesis
    by (auto simp: table_ok_def hw_init_def data_ok_def sock_msgArr_init_def zero_data_def list_all_iff)
qed

lemma data_ok_memcpy [simp]:
  "data_ok dst \<Longrightarrow> data_ok src \<Longrightarrow> data_ok (memcpy_data dst src n)"
  by (simp add: data_ok_def memcpy_data_def)

lemma data_ok_fields [simp]:
  "data_ok (d_lenMSG_update f d) = data_ok d" "data_ok (d\<lparr>d_opcode := c\<rparr>) = data_ok d"
  by (simp_all add: data_ok_def)

subsection \<open>The bus\<close>

lemma read_buffer_only:
  assumes "read_buffer reg len io s = Some (c, s')"
  obtains b r where "s' = s\<lparr>bus := b, i2c_raw_data := r\<rparr>" "length r = length (i2c_raw_data s)"
    "c = 0 \<or> c = 1"
proof (cases io)
  case None
  with assms show thesis
    by (intro that [of "i2c_raw_data s" "bus s @ [[reg, of_nat len]]"])
      (auto simp: read_buffer_def Let_def)
next
  case (Some f)
  with assms show thesis
    by (intro that [of "map f [0..<len] @ drop len (i2c_raw_data s)" "bus s @ [[reg, of_nat len]]"])
      (auto simp: read_buffer_def Let_def split: if_splits)
qed

lemma read_dump_only:
  assumes "read_dump reg len io s = Some (c, s')" "table_ok s"
  shows "table_ok s' \<and> silent s s'"
proof -
  from assms(1) obtain c1 s1 where rb: "read_buffer reg (unat len) io s = Some (c1, s1)"
    and rest: "(if c1 = 0 then (case i2c_parse_tlv (unat len) 0 (i2c_raw_data s1) (sock_msgArr s1) of
        None \<Rightarrow> None | Some (c', tbl) \<Rightarrow> Some (c', s1\<lparr>sock_msgArr := tbl\<rparr>)) else Some (c1, s1)) = Some (c, s')"
    by (auto simp: read_dump_def split: option.splits)
  from rb obtain b r where s1: "s1 = s\<lparr>bus := b, i2c_raw_data := r\<rparr>" "length r = length (i2c_raw_data s)"
    by (rule read_buffer_only)
  show ?thesis
  proof (cases "c1 = 0")
    case False
    with rest s1 assms(2) show ?thesis by (auto simp: table_ok_def silent_def handlers_def)
  next
    case True
    with rest obtain tbl where p: "i2c_parse_tlv (unat len) 0 r (sock_msgArr s) = Some (c, tbl)"
      and s': "s' = s1\<lparr>sock_msgArr := tbl\<rparr>"
      by (auto simp: s1 split: option.splits)
    have ok: "\<forall>d \<in> set (sock_msgArr s). length (d_value d) = 32"
      using assms(2) by (simp add: table_ok_def data_ok_def)
    from parse_tlv_preserves [OF p _ ok, of d_addr] parse_tlv_preserves [OF p _ ok, of d_eventsHandler]
    show ?thesis
      using assms(2) by (simp add: s' s1 table_ok_def silent_def handlers_def data_ok_def)
  qed
qed

lemma main_keeps:
  assumes "hw_next x s = Running s'" "table_ok s"
    and "(\<exists>a b c d e. x = Main_open a b c d e) \<or> (\<exists>e. x = Main_pass e) \<or> (\<exists>t. x = Events_start t)"
  shows "table_ok s' \<and> silent s s'"
  using assms(3)
proof (elim disjE exE)
  fix a t1 t2 io1 io2
  assume x: "x = Main_open a t1 t2 io1 io2"
  show ?thesis
  proof (cases "main_up s")
    case True with assms x show ?thesis by (simp add: silent_refl)
  next
    case False
    let ?s1 = "s\<lparr>hi_prio_timer := timer_set t1 3, low_prio_timer := timer_set t2 0\<rparr>"
    from False assms(1) x obtain c2 s2 c4 s4 where
      r: "read_buffer (ucast REG_HI_PRIO_LEN) 2 io1 ?s1 = Some (c2, s2)"
        "read_buffer (ucast REG_LOW_PRIO_LEN) 2 io2 (s2\<lparr>hi_prio_len := raw_len s2\<rparr>) = Some (c4, s4)"
      and s': "s' = s4\<lparr>low_prio_len := raw_len s4, main_up := True\<rparr>"
      by (auto simp: open_i2c_def Let_def split: if_splits option.splits)
    from r(1) obtain b1 r1 where 1: "s2 = ?s1\<lparr>bus := b1, i2c_raw_data := r1\<rparr>"
      "length r1 = length (i2c_raw_data ?s1)" by (rule read_buffer_only)
    from r(2) obtain b2 r2 where 2: "s4 = (s2\<lparr>hi_prio_len := raw_len s2\<rparr>)\<lparr>bus := b2, i2c_raw_data := r2\<rparr>"
      "length r2 = length (i2c_raw_data (s2\<lparr>hi_prio_len := raw_len s2\<rparr>))" by (rule read_buffer_only)
    from assms(2) show ?thesis
      by (simp add: s' 1 2 table_ok_def silent_def handlers_def)
  qed
next
  fix e assume x: "x = Main_pass e"
  have rd: "table_ok s1 \<and> silent s s1" if "read_i2c e s = Some (c, s1)" for c s1
    using that assms(2)
    by (auto simp: read_i2c_def write_buffer_def Let_def silent_def handlers_def table_ok_def
        split: if_splits option.splits dest!: read_dump_only)
  show ?thesis
  proof (cases "main_up s")
    case True
    with assms(1) x obtain c s1 where "read_i2c e s = Some (c, s1)"
      by (auto simp: mainHandler_def split: option.splits)
    with rd [OF this] True assms(1) x show ?thesis
      by (auto simp: mainHandler_def Let_def silent_def handlers_def table_ok_def
          split: if_splits option.splits gpio_result.splits)
  qed (use assms x in \<open>simp add: silent_refl\<close>)
next
  fix t assume "x = Events_start t"
  with assms show ?thesis by (auto simp: silent_def handlers_def table_ok_def split: if_splits)
qed

subsection \<open>Clients and handlers\<close>

text \<open>Clients that do not write.\<close>

fun reads_only :: "hw_step \<Rightarrow> bool" where
  "reads_only (Client_pass r junk1 junk2) \<longleftrightarrow> d_opcode (snd (receive_msg r junk1)) \<noteq> I2C_OPCODE_WRITE"
| "reads_only _ \<longleftrightarrow> True"

lemma getData_keeps:
  assumes "i2c_getData dst a n s = Some (data, s1)" "table_ok s"
  shows "table_ok s1 \<and> silent s s1"
proof -
  from assms(1) obtain i where "s1 = s\<lparr>sock_msgArr := upd_nth i (d_lenMSG_update (\<lambda>_. of_nat n)) (sock_msgArr s)\<rparr>"
    by (rule i2c_getData_frame)
  with assms(2) show ?thesis
    by (auto simp: table_ok_def silent_def handlers_def map_upd_nth_same dest!: in_set_upd_nthD)
qed

lemma setData_keeps:
  assumes "i2c_setData src a 80 s = Some s1" "table_ok s" "data_ok src" "d_addr src = a"
  shows "table_ok s1 \<and> statics s1 = statics s \<and> hw_log s1 = hw_log s"
proof -
  from assms(1) obtain i where i: "get_id_by_addr a (sock_msgArr s) = Some i"
    and s1: "s1 = s\<lparr>write_data := memcpy_data (write_data s) src 80,
      sock_msgArr := upd_nth i (\<lambda>d. memcpy_data d (memcpy_data (write_data s) src 80) 80)
        (upd_nth i (d_lenMSG_update (\<lambda>_. 80)) (sock_msgArr s)), write_flag := True\<rparr>"
    by (auto simp: i2c_setData_def Let_def split: option.splits)
  have "d_addr (memcpy_data d (memcpy_data (write_data s) src 80) 80) = a" for d
    using assms(4) by (simp add: memcpy_data_def)
  with assms get_id_by_addr_SomeD [OF i]
  have "map d_addr (sock_msgArr s1) = map d_addr (sock_msgArr s)"
    by (simp add: s1 upd_nth_comp) (rule map_upd_nth_at, simp)
  with assms(2,3) show ?thesis
    by (auto simp: s1 table_ok_def dest!: in_set_upd_nthD)
qed

lemma receive_ok:
  "step_ok (Client_pass r junk1 junk2) \<Longrightarrow> data_ok (snd (receive_msg r junk1))"
  by (auto simp: receive_msg_def split: read_result.splits)

lemma client_keeps:
  assumes "clientHandler r junk1 junk2 s = Some (c, s')" "table_ok s"
    "step_ok (Client_pass r junk1 junk2)"
  shows "table_ok s' \<and> statics s' = statics s \<and> hw_log s' = hw_log s
    \<and> (reads_only (Client_pass r junk1 junk2) \<longrightarrow> silent s s')"
proof -
  obtain st m where rm: "receive_msg r junk1 = (st, m)" by fastforce
  let ?m = "if d_opcode m = I2C_OPCODE_READ \<and> st = SOCKET_READ_OK
    then m\<lparr>d_opcode := I2C_OPCODE_RESPONSE\<rparr> else m"
  have m: "data_ok ?m" using receive_ok [OF assms(3)] by (simp add: rm)
  have w: "d_opcode ?m = I2C_OPCODE_WRITE \<Longrightarrow> d_opcode m = I2C_OPCODE_WRITE" by (auto split: if_splits)
  from assms(1) consider
      (get) data s1 where "i2c_getData junk2 (d_addr ?m) 80 s = Some (data, s1)"
        "s' = s1\<lparr>replies := replies s1 @ [data\<lparr>d_opcode := I2C_OPCODE_RESPONSE\<rparr>]\<rparr>"
    | (put) "d_opcode ?m = I2C_OPCODE_WRITE"
        "i2c_setData (?m\<lparr>d_lenMSG := 80\<rparr>) (d_addr ?m) 80 s = Some s'"
    | (other) "s' = s"
    unfolding clientHandler_def rm Let_def prod.case
    by (auto split: if_splits option.splits simp: rm)
  then show ?thesis
  proof cases
    case get
    from getData_keeps [OF get(1) assms(2)] show ?thesis
      by (simp add: get(2) table_ok_def silent_def handlers_def)
  next
    case put
    from m have "data_ok (?m\<lparr>d_lenMSG := 80\<rparr>)" by (simp add: data_ok_def)
    from setData_keeps [OF put(2) assms(2) this] w [OF put(1)] show ?thesis by (simp add: rm)
  next
    case other
    with assms(2) show ?thesis by (simp add: silent_refl)
  qed
qed

lemma only_reports_keeps:
  assumes "only_reports h s s'"
  shows "map d_addr (sock_msgArr s') = map d_addr (sock_msgArr s)"
    "handlers s' = handlers s" "map d_value (sock_msgArr s') = map d_value (sock_msgArr s)"
    "write_data s' = write_data s" "i2c_raw_data s' = i2c_raw_data s"
proof -
  from assms have eq: "map (d_lenMSG_update (\<lambda>_. 0)) (sock_msgArr s') = map (d_lenMSG_update (\<lambda>_. 0)) (sock_msgArr s)"
    and "write_data s' = write_data s" "i2c_raw_data s' = i2c_raw_data s"
    unfolding only_reports_def by auto
  then show "write_data s' = write_data s" "i2c_raw_data s' = i2c_raw_data s" by simp_all
  from arg_cong [OF eq, of "map d_addr"] arg_cong [OF eq, of "map d_value"]
    arg_cong [OF eq, of "map d_eventsHandler"]
  show "map d_addr (sock_msgArr s') = map d_addr (sock_msgArr s)"
    "handlers s' = handlers s" "map d_value (sock_msgArr s') = map d_value (sock_msgArr s)"
    by (simp_all add: handlers_def o_def)
qed

lemma call_entry_reports:
  assumes "call_entry junk i s = Some s'"
  shows "(d_eventsHandler (sock_msgArr s ! i) = Null \<and> s' = s) \<or> (\<exists>h e. d_eventsHandler (sock_msgArr s ! i) = Fn h
    \<and> call_handler h (d_value (sock_msgArr s ! i)) junk s = Some (e, s') \<and> only_reports h s s')"
  using assms call_handler_only_reports
  by (fastforce simp: call_entry_def split: fnptr.splits)

lemma data_ok_values: "(\<forall>d \<in> set t. data_ok d) \<longleftrightarrow> (\<forall>v \<in> set (map d_value t). length v = 32)"
  by (simp add: data_ok_def)

lemma call_entry_keeps:
  assumes "call_entry junk i s = Some s'" "table_ok s"
  shows "table_ok s' \<and> handlers s' = handlers s
    \<and> map d_value (sock_msgArr s') = map d_value (sock_msgArr s)"
  using call_entry_reports [OF assms(1)]
proof
  assume "\<exists>h e. d_eventsHandler (sock_msgArr s ! i) = Fn h
    \<and> call_handler h (d_value (sock_msgArr s ! i)) junk s = Some (e, s') \<and> only_reports h s s'"
  then obtain h where "only_reports h s s'" by blast
  from only_reports_keeps [OF this] assms(2) show ?thesis
    unfolding table_ok_def data_ok_values by simp
qed (use assms in simp)

lemma events_loop_keeps:
  assumes "events_loop junk js s = Some s'" "table_ok s"
  shows "table_ok s' \<and> handlers s' = handlers s
    \<and> map d_value (sock_msgArr s') = map d_value (sock_msgArr s)"
  using assms
proof (induction js arbitrary: s)
  case (Cons j js)
  then obtain s1 where "call_entry (junk j) j s = Some s1" "events_loop junk js s1 = Some s'"
    by (auto split: option.splits)
  with Cons.IH [of s1] call_entry_keeps [of "junk j" j s s1] Cons.prems(2) show ?case by simp
qed simp

lemma hw_next_keeps:
  assumes "hw_next x s = Running s'" "table_ok s" "step_ok x"
  shows "table_ok s' \<and> (reads_only x \<longrightarrow> handlers s' = handlers s)"
proof (cases x)
  case (Client_pass r junk1 junk2)
  with assms(1) obtain c where "clientHandler r junk1 junk2 s = Some (c, s')"
    by (auto simp: of_option_def split: option.splits)
  from client_keeps [OF this assms(2)] assms(3) Client_pass show ?thesis by (auto simp: silent_def)
next
  case (Events_pass now junk)
  show ?thesis
  proof (cases "events_up s \<and> timer_expired (events_timer s) now")
    case True
    with assms(1) Events_pass obtain s1 where "i2c_events_handler junk s = Some s1"
      "s' = s1\<lparr>events_timer := timer_reset (events_timer s1)\<rparr>"
      by (auto simp: of_option_def eventsHandler_def split: option.splits)
    with events_loop_keeps [of junk "[0..<length (sock_msgArr s)]" s s1] assms(2) show ?thesis
      by (simp add: i2c_events_handler_def table_ok_def handlers_def)
  next
    case False
    with assms(1) Events_pass have "s' = s"
      by (auto simp: of_option_def eventsHandler_def split: if_splits)
    with assms(2) show ?thesis by simp
  qed
qed (use main_keeps [OF assms(1,2)] in \<open>auto simp: silent_def\<close>)

lemma reachable_table_ok: "hw_reachable s \<Longrightarrow> table_ok s"
  by (induction rule: hw_reachable.induct) (auto simp: table_ok_init dest: hw_next_keeps)

end
