(* ===== verification/HW_Monitors.thy ===== *)
theory HW_Monitors
  imports HW_Invariant
begin

section \<open>The hardware daemon: what the monitored registers report\<close>

text \<open>
  Each monitored register is a small machine: a reference, a new reference and the messages for
  each sample. The log of the daemon, restricted to the messages of one register, is the output of
  that machine on the values the register had when the handlers were called, whatever the other
  handlers, the threads and the clients that only read do.
\<close>

subsection \<open>The machine of one register\<close>

text \<open>The values of entry \<open>i\<close> when the handlers are called, in the order of the steps.\<close>

fun samples :: "nat \<Rightarrow> hw_step list \<Rightarrow> hw \<Rightarrow> u8 list list" where
  "samples i [] s = []"
| "samples i (x # xs) s =
     (case x of Events_pass now junk \<Rightarrow>
          if events_up s \<and> timer_expired (events_timer s) now then [d_value (sock_msgArr s ! i)] else []
      | _ \<Rightarrow> [])
     @ (case hw_next x s of Running s' \<Rightarrow> samples i xs s' | _ \<Rightarrow> [])"

text \<open>What a machine with update \<open>upd\<close> and output \<open>out\<close> puts out on the samples.\<close>

fun outputs :: "('r \<Rightarrow> 'v \<Rightarrow> 'r) \<Rightarrow> ('r \<Rightarrow> 'v \<Rightarrow> 'm list) \<Rightarrow> 'r \<Rightarrow> 'v list \<Rightarrow> 'm list" where
  "outputs upd out r [] = []"
| "outputs upd out r (v # vs) = out r v @ outputs upd out (upd r v) vs"

lemma outputs_append:
  "outputs upd out r (vs @ ws) = outputs upd out r vs @ outputs upd out (foldl upd r vs) ws"
  by (induction vs arbitrary: r) auto

text \<open>The messages of a handler in the log.\<close>

definition reported :: "hw_handler \<Rightarrow> hw \<Rightarrow> (string \<times> int list) list" where
  "reported h s = filter (\<lambda>m. fst m \<in> set (texts h)) (hw_log s)"

lemma unique_pointer:
  assumes "distinct (filter (\<lambda>p. p \<noteq> Null) xs)" "i < length xs" "j < length xs"
    "xs ! i = Fn h" "xs ! j = Fn h"
  shows "i = j"
  using assms
proof (induction xs arbitrary: i j)
  case (Cons x xs)
  have mem: "Fn h \<in> set (filter (\<lambda>p. p \<noteq> Null) xs)" if "k < length xs" "xs ! k = Fn h" for k
    using that by (auto simp: in_set_conv_nth)
  from Cons show ?case
    by (cases i; cases j) (auto dest: mem split: if_splits)
qed simp

lemma handlers_distinct:
  "distinct (filter (\<lambda>p. p \<noteq> Null) (map d_eventsHandler sock_msgArr_init))"
  by (simp add: sock_msgArr_init_def listed_registers_def entry_def zero_data_def)

text \<open>
  The contract of a monitored register: its handler \<open>h\<close> acts on the reference and the log as \<open>upd\<close>
  and \<open>out\<close> say, its messages are its own, and \<open>i\<close> is its place in the table.
\<close>

locale register_monitor =
  fixes h :: hw_handler and i :: nat
    and upd :: "u16 \<Rightarrow> u8 list \<Rightarrow> u16" and out :: "u16 \<Rightarrow> u8 list \<Rightarrow> (string \<times> int list) list"
  assumes reports: "call_handler h v junk s = Some (e, s') \<Longrightarrow>
      ref_of h (statics s') = upd (ref_of h (statics s)) v
      \<and> hw_log s' = hw_log s @ out (ref_of h (statics s)) v"
    and own_texts: "h' \<noteq> h \<Longrightarrow> set (texts h') \<inter> set (texts h) = {}"
    and place: "i < length sock_msgArr_init" "d_eventsHandler (sock_msgArr_init ! i) = Fn h"
begin

text \<open>The handler is called for its entry and for no other.\<close>

lemma elsewhere:
  assumes "handlers s = map d_eventsHandler sock_msgArr_init" "j < length (sock_msgArr s)"
    "d_eventsHandler (sock_msgArr s ! j) = Fn h"
  shows "j = i"
proof -
  have len: "length (sock_msgArr s) = length sock_msgArr_init"
    using arg_cong [OF assms(1), of length] by (simp add: handlers_def)
  from assms(1) have "map d_eventsHandler (sock_msgArr s) ! j = map d_eventsHandler sock_msgArr_init ! j"
    by (simp add: handlers_def)
  with assms(2,3) len have "d_eventsHandler (sock_msgArr_init ! j) = Fn h" by simp
  with unique_pointer [OF handlers_distinct, of j i h] place len assms(2) show ?thesis by simp
qed

lemma here:
  assumes "handlers s = map d_eventsHandler sock_msgArr_init"
  shows "i < length (sock_msgArr s)" "d_eventsHandler (sock_msgArr s ! i) = Fn h"
proof -
  have len: "length (sock_msgArr s) = length sock_msgArr_init"
    using arg_cong [OF assms, of length] by (simp add: handlers_def)
  with place show "i < length (sock_msgArr s)" by simp
  from assms have "map d_eventsHandler (sock_msgArr s) ! i = map d_eventsHandler sock_msgArr_init ! i"
    by (simp add: handlers_def)
  with place len show "d_eventsHandler (sock_msgArr s ! i) = Fn h" by simp
qed

lemma entry_view:
  assumes "call_entry junk j s = Some s'" "handlers s = map d_eventsHandler sock_msgArr_init"
    "j < length (sock_msgArr s)"
  shows "ref_of h (statics s') = (if j = i then upd (ref_of h (statics s)) (d_value (sock_msgArr s ! i))
      else ref_of h (statics s))
    \<and> reported h s' = reported h s
        @ (if j = i then out (ref_of h (statics s)) (d_value (sock_msgArr s ! i)) else [])"
  using call_entry_reports [OF assms(1)]
proof (elim disjE exE conjE)
  assume "d_eventsHandler (sock_msgArr s ! j) = Null" and s': "s' = s"
  with here [OF assms(2)] have "j \<noteq> i" by auto
  with s' show ?thesis by simp
next
  fix g e
  assume g: "d_eventsHandler (sock_msgArr s ! j) = Fn g" "only_reports g s s'"
    and c: "call_handler g (d_value (sock_msgArr s ! j)) junk s = Some (e, s')"
  from g(2) obtain l where l: "hw_log s' = hw_log s @ l" "fst ` set l \<subseteq> set (texts g)"
    and r: "\<And>h'. h' \<noteq> g \<Longrightarrow> ref_of h' (statics s') = ref_of h' (statics s)"
    unfolding only_reports_def by auto
  show ?thesis
  proof (cases "j = i")
    case True
    with g(1) here [OF assms(2)] have "g = h" by simp
    from l(2) have "filter (\<lambda>m. fst m \<in> set (texts h)) l = l"
      unfolding filter_id_conv using \<open>g = h\<close> by auto
    with reports [OF c [unfolded \<open>g = h\<close>]] True l(1) show ?thesis by (simp add: reported_def)
  next
    case False
    with elsewhere [OF assms(2,3)] g(1) have ne: "g \<noteq> h" by auto
    from l(2) own_texts [OF ne] have "filter (\<lambda>m. fst m \<in> set (texts h)) l = []"
      by (auto simp: filter_empty_conv)
    with False r [of h] ne l(1) show ?thesis by (simp add: reported_def)
  qed
qed

lemma loop_view:
  assumes "events_loop junk js s = Some s'" "handlers s = map d_eventsHandler sock_msgArr_init"
    "table_ok s" "distinct js" "set js \<subseteq> {..<length (sock_msgArr s)}"
  shows "ref_of h (statics s') = (if i \<in> set js then upd (ref_of h (statics s)) (d_value (sock_msgArr s ! i))
      else ref_of h (statics s))
    \<and> reported h s' = reported h s
        @ (if i \<in> set js then out (ref_of h (statics s)) (d_value (sock_msgArr s ! i)) else [])"
  using assms
proof (induction js arbitrary: s)
  case (Cons j js)
  from Cons.prems(1) obtain s1 where e: "call_entry (junk j) j s = Some s1" "events_loop junk js s1 = Some s'"
    by (auto split: option.splits)
  from call_entry_keeps [OF e(1) Cons.prems(3)]
  have k: "table_ok s1" "handlers s1 = handlers s" "map d_value (sock_msgArr s1) = map d_value (sock_msgArr s)"
    by auto
  have len: "length (sock_msgArr s1) = length (sock_msgArr s)"
    using arg_cong [OF k(3), of length] by simp
  have val: "d_value (sock_msgArr s1 ! i) = d_value (sock_msgArr s ! i)"
    using arg_cong [OF k(3), of "\<lambda>xs. xs ! i"] here(1) [OF Cons.prems(2)] len by simp
  have "j < length (sock_msgArr s)" using Cons.prems(5) by simp
  from entry_view [OF e(1) Cons.prems(2) this] Cons.IH [OF e(2), unfolded k(2) len, OF Cons.prems(2) k(1)]
    Cons.prems(4,5) val
  show ?case by (auto split: if_splits)
qed simp

lemma pass_view:
  assumes "i2c_events_handler junk s = Some s'" "handlers s = map d_eventsHandler sock_msgArr_init"
    "table_ok s"
  shows "ref_of h (statics s') = upd (ref_of h (statics s)) (d_value (sock_msgArr s ! i))
    \<and> reported h s' = reported h s @ out (ref_of h (statics s)) (d_value (sock_msgArr s ! i))"
  using loop_view [OF assms(1) [unfolded i2c_events_handler_def] assms(2,3)] here(1) [OF assms(2)]
  by (simp add: atLeast0LessThan)

text \<open>One step, and then a run.\<close>

lemma step_view:
  assumes "hw_next x s = Running s'" "handlers s = map d_eventsHandler sock_msgArr_init"
    "table_ok s" "step_ok x" "reads_only x"
  shows "ref_of h (statics s') = foldl upd (ref_of h (statics s)) (samples i [x] s)
    \<and> reported h s' = reported h s @ outputs upd out (ref_of h (statics s)) (samples i [x] s)"
proof (cases x)
  case (Client_pass r junk1 junk2)
  with assms(1) obtain c where "clientHandler r junk1 junk2 s = Some (c, s')"
    by (auto simp: of_option_def split: option.splits)
  from client_keeps [OF this assms(3)] assms(1,4) Client_pass show ?thesis by (simp add: reported_def)
next
  case (Events_pass now junk)
  show ?thesis
  proof (cases "events_up s \<and> timer_expired (events_timer s) now")
    case True
    with assms(1) Events_pass obtain s1 where s1: "i2c_events_handler junk s = Some s1"
      "s' = s1\<lparr>events_timer := timer_reset (events_timer s1)\<rparr>"
      by (auto simp: of_option_def eventsHandler_def split: option.splits)
    with pass_view [OF s1(1) assms(2,3)] assms(1) True Events_pass show ?thesis
      by (simp add: reported_def)
  next
    case False
    with assms(1) Events_pass have "s' = s"
      by (auto simp: of_option_def eventsHandler_def split: if_splits)
    with False assms(1) Events_pass show ?thesis by auto
  qed
qed (use main_keeps [OF assms(1,3)] assms(1) in \<open>auto simp: silent_def reported_def\<close>)

lemma run_view:
  assumes "hw_run xs s = Running s'" "handlers s = map d_eventsHandler sock_msgArr_init"
    "table_ok s" "list_all step_ok xs" "list_all reads_only xs"
  shows "reported h s' = reported h s @ outputs upd out (ref_of h (statics s)) (samples i xs s)
    \<and> ref_of h (statics s') = foldl upd (ref_of h (statics s)) (samples i xs s)"
  using assms
proof (induction xs arbitrary: s)
  case (Cons x xs)
  from Cons.prems(1) obtain s1 where s1: "hw_next x s = Running s1" "hw_run xs s1 = Running s'"
    by (auto split: hw_result.splits)
  from Cons.prems(4,5) have x: "step_ok x" "reads_only x" "list_all step_ok xs" "list_all reads_only xs"
    by simp_all
  have split: "samples i (x # xs) s = samples i [x] s @ samples i xs s1"
    using s1(1) by (simp split: hw_step.splits)
  from hw_next_keeps [OF s1(1) Cons.prems(3) x(1)] x(2) Cons.prems(2)
  have "handlers s1 = map d_eventsHandler sock_msgArr_init" "table_ok s1" by simp_all
  from Cons.IH [OF s1(2) this x(3,4)] step_view [OF s1(1) Cons.prems(2,3) x(1,2)]
  show ?case by (simp only: split outputs_append foldl_append append_assoc)
qed simp

text \<open>From the start of the daemon.\<close>

lemma log_is_output:
  assumes "hw_run xs hw_init = Running s" "list_all step_ok xs" "list_all reads_only xs"
  shows "reported h s = outputs upd out (ref_of h prevs_init) (samples i xs hw_init)
    \<and> ref_of h (statics s) = foldl upd (ref_of h prevs_init) (samples i xs hw_init)"
  using run_view [OF assms(1) _ table_ok_init assms(2,3)]
  by (simp add: handlers_def hw_init_def reported_def)

end

end
