(* ===== verification/HW_Registers.thy ===== *)
theory HW_Registers
  imports HW_Monitors
begin

section \<open>The hardware daemon: registers with limits and with two states\<close>

subsection \<open>The difference of two readings\<close>

lemma unat_ucast_16_32: "unat (ucast x :: u32) = unat x" for x :: u16
proof -
  have "unat x < 2 ^ 16" using unsigned_less [of x] by simp
  then show ?thesis by (simp add: unsigned_ucast_eq take_bit_nat_eq_self)
qed

lemma ucast_16_32_le: "ucast x \<le> (ucast y :: u32) \<longleftrightarrow> x \<le> y" for x y :: u16
  by (simp add: word_le_nat_alt unat_ucast_16_32)

lemma unat_narrow: "unat (ucast d :: u16) = unat d" if "unat d < 2 ^ 16" for d :: u32
  using that by (simp add: unsigned_ucast_eq take_bit_nat_eq_self)

lemma dif_16:
  fixes v p :: u16
  shows "STABLE_VALUE < (ucast (if (ucast p :: u32) \<le> ucast v then ucast v - ucast p else ucast p - ucast v :: u32) :: u16)
    \<longleftrightarrow> 10 < \<bar>uint v - uint p\<bar>"
proof -
  have sub: "unat (ucast (ucast a - ucast b :: u32) :: u16) = unat a - unat b" if "b \<le> a" for a b :: u16
  proof -
    have "unat (ucast a - ucast b :: u32) = unat a - unat b"
      using that by (simp add: unat_sub ucast_16_32_le unat_ucast_16_32)
    moreover have "unat a < 2 ^ 16" using unsigned_less [of a] by simp
    ultimately show ?thesis by (simp add: unat_narrow)
  qed
  have ints: "uint v = int (unat v)" "uint p = int (unat p)" by simp_all
  show ?thesis
  proof (cases "p \<le> v")
    case True
    then have "unat p \<le> unat v" by (simp add: word_le_nat_alt)
    with ints have "10 < unat v - unat p \<longleftrightarrow> 10 < \<bar>uint v - uint p\<bar>" by linarith
    with True sub [OF True] show ?thesis
      by (simp add: ucast_16_32_le word_less_nat_alt)
  next
    case False
    then have le: "v \<le> p" "unat v \<le> unat p" by (simp_all add: word_le_nat_alt)
    with ints have "10 < unat p - unat v \<longleftrightarrow> 10 < \<bar>uint v - uint p\<bar>" by linarith
    with False sub [OF le(1)] show ?thesis
      by (simp add: ucast_16_32_le word_less_nat_alt)
  qed
qed

lemma check_16:
  fixes v p :: u16
  shows "check_out_of_range (ucast v) (ucast p) mx mn =
    (if \<bar>uint v - uint p\<bar> \<le> 10 then I2C_ERR_OK
     else if p = 0xFFFF then I2C_ERR_CHANGE_VALUE
     else if mx < ucast v then I2C_OVER_MAX
     else if ucast v < mn then I2C_LESS_MIN else I2C_ERR_CHANGE_VALUE)"
proof -
  have "ucast p = (0xFFFF :: u32) \<longleftrightarrow> p = 0xFFFF"
    by (simp add: word_unat_eq_iff unat_ucast_16_32)
  then show ?thesis
    unfolding check_out_of_range_def Let_def dif_16 by auto
qed

subsection \<open>Registers with limits\<close>

text \<open>
  The reference is the sample it last moved to, and only moves by more than 10; the first sample
  is never reported.
\<close>

definition range_upd :: "u32 \<Rightarrow> u32 \<Rightarrow> u16 \<Rightarrow> u8 list \<Rightarrow> u16" where
  "range_upd vmax vmin r v =
     (if check_out_of_range (ucast (get_16bitValue v)) (ucast r) vmax vmin = I2C_ERR_OK then r
      else get_16bitValue v)"

definition range_out ::
  "string \<Rightarrow> string \<Rightarrow> u32 \<Rightarrow> u32 \<Rightarrow> u16 \<Rightarrow> u8 list \<Rightarrow> (string \<times> int list) list" where
  "range_out hi lo vmax vmin r v =
     (case check_out_of_range (ucast (get_16bitValue v)) (ucast r) vmax vmin of
        I2C_OVER_MAX \<Rightarrow> [(hi, [uint (get_16bitValue v)])]
      | I2C_LESS_MIN \<Rightarrow> [(lo, [uint (get_16bitValue v)])]
      | _ \<Rightarrow> [])"

lemma check_cases:
  "check_out_of_range a b c d \<in> {I2C_ERR_OK, I2C_OVER_MAX, I2C_LESS_MIN, I2C_ERR_CHANGE_VALUE}"
  by (simp add: check_out_of_range_def Let_def)

lemma check_same: "check_out_of_range x x c d = I2C_ERR_OK"
  by (simp add: check_out_of_range_def)

definition in_limits :: "u32 \<Rightarrow> u32 \<Rightarrow> u16 \<Rightarrow> bool" where
  "in_limits vmax vmin n \<longleftrightarrow> vmin \<le> ucast n \<and> ucast n \<le> vmax"

text \<open>
  Samples below 65525 keep the reference away from the initial value 0xFFFF. Then the reference is
  one of the samples, and it is the first one, inside the limits or reported; and only samples
  outside the limits that are not the first are reported.
\<close>

lemma range_machine:
  fixes vs :: "u8 list list" and v0 :: "u8 list" and vmax vmin :: u32 and hi lo :: string
  assumes "\<forall>v \<in> set (v0 # vs). get_16bitValue v < 65525"
  defines "p \<equiv> foldl (range_upd vmax vmin) 0xFFFF (v0 # vs)"
    and "l \<equiv> outputs (range_upd vmax vmin) (range_out hi lo vmax vmin) 0xFFFF (v0 # vs)"
  shows "p < 65525 \<and> (p = get_16bitValue v0 \<or> in_limits vmax vmin p
      \<or> (hi, [uint p]) \<in> set l \<or> (lo, [uint p]) \<in> set l)
    \<and> (\<forall>m k. (m, k) \<in> set l \<longrightarrow> (\<exists>v \<in> set vs. k = [uint (get_16bitValue v)]
        \<and> \<not> in_limits vmax vmin (get_16bitValue v)))
    \<and> \<bar>uint (get_16bitValue (last (v0 # vs))) - uint p\<bar> \<le> 10"
  using assms(1) unfolding p_def l_def
proof (induction vs rule: rev_induct)
  case Nil
  then have "uint (get_16bitValue v0) < 65525" by (simp add: word_less_def)
  then have "check_out_of_range (ucast (get_16bitValue v0)) (ucast (0xFFFF :: u16)) vmax vmin
      = I2C_ERR_CHANGE_VALUE"
    by (subst check_16) simp
  with Nil show ?case by (simp add: range_upd_def range_out_def)
next
  case (snoc v vs)
  let ?p = "foldl (range_upd vmax vmin) 0xFFFF (v0 # vs)"
  let ?v = "get_16bitValue v"
  from snoc have IH: "?p < 65525" and v: "?v < 65525" by simp_all
  then have "?p \<noteq> 0xFFFF" by auto
  note c = check_16 [of ?v ?p vmax vmin, unfolded if_not_P [OF this]]
  show ?case
  proof (cases "\<bar>uint ?v - uint ?p\<bar> \<le> 10")
    case True
    with c have c': "check_out_of_range (ucast ?v) (ucast ?p) vmax vmin = I2C_ERR_OK" by simp
    then have p: "foldl (range_upd vmax vmin) 0xFFFF (v0 # vs @ [v]) = ?p"
      by (simp add: range_upd_def)
    from c' have l: "outputs (range_upd vmax vmin) (range_out hi lo vmax vmin) 0xFFFF (v0 # vs @ [v])
      = outputs (range_upd vmax vmin) (range_out hi lo vmax vmin) 0xFFFF (v0 # vs)"
      by (simp add: outputs_append range_out_def)
    from snoc True show ?thesis
      unfolding p l by simp
  next
    case False
    with c have c': "check_out_of_range (ucast ?v) (ucast ?p) vmax vmin =
        (if vmax < ucast ?v then I2C_OVER_MAX else if ucast ?v < vmin then I2C_LESS_MIN
         else I2C_ERR_CHANGE_VALUE)" by simp
    then have p: "foldl (range_upd vmax vmin) 0xFFFF (v0 # vs @ [v]) = ?v"
      by (simp add: range_upd_def)
    from c' have l: "outputs (range_upd vmax vmin) (range_out hi lo vmax vmin) 0xFFFF (v0 # vs @ [v])
      = outputs (range_upd vmax vmin) (range_out hi lo vmax vmin) 0xFFFF (v0 # vs)
        @ (if vmax < ucast ?v then [(hi, [uint ?v])] else if ucast ?v < vmin then [(lo, [uint ?v])] else [])"
      by (simp add: outputs_append range_out_def)
    from snoc v show ?thesis
      unfolding p l by (auto simp: in_limits_def)
  qed
qed

lemma range_reports:
  assumes "\<forall>v \<in> set (v0 # vs). get_16bitValue v < 65525" "v \<in> set vs"
  obtains n where "\<bar>uint (get_16bitValue v) - uint n\<bar> \<le> 10"
    "n = get_16bitValue v0 \<or> in_limits vmax vmin n
     \<or> (\<exists>t \<in> {hi, lo}. (t, [uint n]) \<in> set (outputs (range_upd vmax vmin) (range_out hi lo vmax vmin) 0xFFFF (v0 # vs)))"
proof -
  from assms(2) obtain us ws where vs: "vs = (us @ [v]) @ ws"
    by (auto simp: in_set_conv_decomp)
  from assms(1) have "\<forall>v \<in> set (v0 # us @ [v]). get_16bitValue v < 65525" by (simp add: vs)
  from range_machine [OF this, of vmax vmin hi lo] show thesis
    by (intro that [of "foldl (range_upd vmax vmin) 0xFFFF (v0 # us @ [v])"])
      (auto simp: vs outputs_append)
qed

text \<open>A register with limits is a monitored register with this machine.\<close>

locale range_register =
  register_monitor h i "range_upd vmax vmin" "range_out hi lo vmax vmin"
  for h i vmax vmin hi lo +
  assumes first: "ref_of h prevs_init = 0xFFFF" and own: "hi \<in> set (texts h)" "lo \<in> set (texts h)"
begin

lemma alarms:
  assumes run: "hw_run xs hw_init = Running s" "list_all step_ok xs" "list_all reads_only xs"
    and smp: "map get_16bitValue (samples i xs hw_init) = v0 # vs" "\<forall>v \<in> set (v0 # vs). v < 65525"
  shows "(\<forall>v \<in> set vs. \<exists>n. \<bar>uint v - uint n\<bar> \<le> 10
        \<and> (n = v0 \<or> in_limits vmax vmin n \<or> (\<exists>t \<in> {hi, lo}. (t, [uint n]) \<in> set (hw_log s))))
    \<and> (\<forall>t \<in> {hi, lo}. \<forall>k. (t, k) \<in> set (hw_log s) \<longrightarrow>
        (\<exists>v \<in> set vs. k = [uint v] \<and> \<not> in_limits vmax vmin v))"
proof -
  from smp(1) obtain w0 ws where sm: "samples i xs hw_init = w0 # ws"
    and w: "get_16bitValue w0 = v0" "map get_16bitValue ws = vs"
    by (auto simp: Cons_eq_map_conv map_eq_Cons_conv)
  from smp(2) w have small: "\<forall>v \<in> set (w0 # ws). get_16bitValue v < 65525" by auto
  let ?l = "outputs (range_upd vmax vmin) (range_out hi lo vmax vmin) 0xFFFF (w0 # ws)"
  from log_is_output [OF run] have rep: "reported h s = ?l" by (simp add: first sm)
  have log: "(t, k) \<in> set (hw_log s) \<longleftrightarrow> (t, k) \<in> set ?l" if "t \<in> {hi, lo}" for t k
    using that own unfolding rep [symmetric] reported_def by auto
  show ?thesis
  proof (intro conjI ballI allI impI)
    fix v assume "v \<in> set vs"
    with w(2) obtain x where x: "x \<in> set ws" "v = get_16bitValue x" by auto
    from range_reports [OF small x(1), of vmax vmin hi lo] obtain n where
      "\<bar>uint v - uint n\<bar> \<le> 10" "n = v0 \<or> in_limits vmax vmin n \<or> (\<exists>t \<in> {hi, lo}. (t, [uint n]) \<in> set ?l)"
      unfolding x(2) w(1) by blast
    with log show "\<exists>n. \<bar>uint v - uint n\<bar> \<le> 10
        \<and> (n = v0 \<or> in_limits vmax vmin n \<or> (\<exists>t \<in> {hi, lo}. (t, [uint n]) \<in> set (hw_log s)))"
      by blast
  next
    fix t k assume "t \<in> {hi, lo}" "(t, k) \<in> set (hw_log s)"
    with log range_machine [OF small, of vmax vmin hi lo] w(2)
    show "\<exists>v \<in> set vs. k = [uint v] \<and> \<not> in_limits vmax vmin v" by fastforce
  qed
qed

end

lemmas place_defs = length_init prevs_init_def sock_msgArr_init_def listed_registers_def entry_def

text \<open>The three supply voltages, and the voltages of the uninterruptible supply.\<close>

interpretation ch1: range_register Handler_ADC_CH1 4 REG_ADC_CH1_max REG_ADC_CH1_min
  "''ADC CH1 out of range: %d''" "''ADC CH1 out of range: %d''"
proof (unfold_locales, goal_cases)
  case (1 v junk s e s')
  then show ?case
    using check_cases [of "ucast (get_16bitValue v)" "ucast (ch1_prevValue (statics s))" REG_ADC_CH1_max REG_ADC_CH1_min]
    by (auto simp: handler_ADC_CH1_def Let_def range_upd_def range_out_def check_same)
next
  case (2 h') then show ?case by (cases h') simp_all
qed (simp_all add: place_defs)

interpretation ch2: range_register Handler_ADC_CH2 5 REG_ADC_CH2_max REG_ADC_CH2_min
  "''ADC CH2 out of range: %d''" "''ADC CH2 out of range: %d''"
proof (unfold_locales, goal_cases)
  case (1 v junk s e s')
  then show ?case
    using check_cases [of "ucast (get_16bitValue v)" "ucast (ch2_prevValue (statics s))" REG_ADC_CH2_max REG_ADC_CH2_min]
    by (auto simp: handler_ADC_CH2_def Let_def range_upd_def range_out_def check_same)
next
  case (2 h') then show ?case by (cases h') simp_all
qed (simp_all add: place_defs)

interpretation ch3: range_register Handler_ADC_CH3 6 REG_ADC_CH3_max REG_ADC_CH3_min
  "''ADC CH3 out of range: %d''" "''ADC CH3 out of range: %d''"
proof (unfold_locales, goal_cases)
  case (1 v junk s e s')
  then show ?case
    using check_cases [of "ucast (get_16bitValue v)" "ucast (ch3_prevValue (statics s))" REG_ADC_CH3_max REG_ADC_CH3_min]
    by (auto simp: handler_ADC_CH3_def Let_def range_upd_def range_out_def check_same)
next
  case (2 h') then show ?case by (cases h') simp_all
qed (simp_all add: place_defs)

interpretation bat: range_register Handler_RPS_BAT_VOLTAGE 18 REG_RPS_BAT_VOLTAGE_max REG_RPS_BAT_VOLTAGE_min
  "''UPS: Battery voltage reaches max voltage (%d)''" "''UPS: Battery voltage is LOW (%d)''"
proof (unfold_locales, goal_cases)
  case (1 v junk s e s')
  then show ?case
    using check_cases [of "ucast (get_16bitValue v)" "ucast (batVolt_prevValue (statics s))" REG_RPS_BAT_VOLTAGE_max REG_RPS_BAT_VOLTAGE_min]
    by (auto simp: handler_RPS_BAT_VOLTAGE_def Let_def range_upd_def range_out_def check_same)
next
  case (2 h') then show ?case by (cases h') simp_all
qed (simp_all add: place_defs)

interpretation chrg: range_register Handler_RPS_CHRG_VOLTAGE 19 REG_RPS_CHRG_VOLTAGE_max REG_RPS_CHRG_VOLTAGE_min
  "''UPS: Charge voltage reaches max voltage (%d)''" "''UPS: Charge voltage is LOW (%d)''"
proof (unfold_locales, goal_cases)
  case (1 v junk s e s')
  then show ?case
    using check_cases [of "ucast (get_16bitValue v)" "ucast (chgVolt_prevValue (statics s))" REG_RPS_CHRG_VOLTAGE_max REG_RPS_CHRG_VOLTAGE_min]
    by (auto simp: handler_RPS_CHRG_VOLTAGE_def Let_def range_upd_def range_out_def check_same)
next
  case (2 h') then show ?case by (cases h') simp_all
qed (simp_all add: place_defs)

subsection \<open>Registers with two states\<close>

text \<open>
  The reference is the last sample, and a message is logged exactly when a sample 1 follows a
  sample 0 or the other way round.
\<close>

definition edge_upd :: "u16 \<Rightarrow> u8 list \<Rightarrow> u16" where
  "edge_upd r v = ucast (v ! 0)"

definition edge_msg :: "string \<Rightarrow> string \<Rightarrow> u8 \<Rightarrow> u8 \<Rightarrow> (string \<times> int list) list" where
  "edge_msg up down a b =
     (if a = 0 \<and> b = 1 then [(up, [])] else if a = 1 \<and> b = 0 then [(down, [])] else [])"

definition edge_out :: "string \<Rightarrow> string \<Rightarrow> u16 \<Rightarrow> u8 list \<Rightarrow> (string \<times> int list) list" where
  "edge_out up down r v = edge_msg up down (ucast r) (v ! 0)"

lemma ucast_8_16_8 [simp]: "ucast (ucast x :: u16) = x" for x :: u8
  by (intro bit_word_eqI) (auto simp: bit_simps)

lemma ucast_8_inj [simp]:
  fixes x y :: u8
  shows "ucast x = (ucast y :: u32) \<longleftrightarrow> x = y" "ucast x = (ucast y :: u16) \<longleftrightarrow> x = y"
proof -
  have "ucast (ucast z :: u32) = z" for z :: u8 by (intro bit_word_eqI) (auto simp: bit_simps)
  then show "ucast x = (ucast y :: u32) \<longleftrightarrow> x = y" by metis
  show "ucast x = (ucast y :: u16) \<longleftrightarrow> x = y" by (metis ucast_8_16_8)
qed

lemma ucast_8_eq_1 [simp]: "ucast x = (1 :: u32) \<longleftrightarrow> x = 1" for x :: u8
  using ucast_8_inj(1) [of x 1] by simp

lemma check_edge:
  fixes v r :: u8
  shows "check_changed_state (ucast v) (ucast r) 1 0 =
    (if v = 1 \<and> r = 0 then I2C_CHANGED_TO_CLOSE else if v = 0 \<and> r = 1 then I2C_CHANGED_TO_OPEN
     else I2C_ERR_OK)"
  by (simp add: check_changed_state_def)

lemmas check_edges = check_edge check_edge [of 0, simplified] check_edge [of 1, simplified]

lemma edge_outputs:
  "outputs edge_upd (edge_out up down) (ucast r) vs
     = concat (map2 (edge_msg up down) (r # map (\<lambda>v. v ! 0) vs) (map (\<lambda>v. v ! 0) vs))"
  by (induction vs arbitrary: r) (auto simp: edge_upd_def edge_out_def)

locale edge_register =
  register_monitor h i edge_upd "edge_out up down" for h i up down +
  assumes first: "ref_of h prevs_init = ucast (0xFF :: u8)" and own: "set (texts h) = {up, down}"
begin

lemma changes:
  assumes "hw_run xs hw_init = Running s" "list_all step_ok xs" "list_all reads_only xs"
    "map (\<lambda>v. v ! 0) (samples i xs hw_init) = vs"
  shows "filter (\<lambda>m. fst m \<in> {up, down}) (hw_log s) = concat (map2 (edge_msg up down) (0xFF # vs) vs)"
  using log_is_output [OF assms(1-3)] assms(4) unfolding first edge_outputs reported_def own by simp

end

interpretation tamper: edge_register Handler_TAMPER 7
  "''TAMPER changed to Close'' @ [NL]" "''TAMPER changed to Open'' @ [NL]"
proof (unfold_locales, goal_cases)
  case (1 v junk s e s')
  then show ?case
    by (auto simp: handler_TAMPER_def Let_def check_edges edge_upd_def edge_out_def edge_msg_def split: if_splits)
next
  case (2 h') then show ?case by (cases h') simp_all
qed (simp_all add: place_defs)

interpretation sen1: edge_register Handler_SENSOR1 8
  "''SENSOR1 changed to Close'' @ [NL]" "''SENSOR1 changed to Open'' @ [NL]"
proof (unfold_locales, goal_cases)
  case (1 v junk s e s')
  then show ?case
    by (auto simp: handler_SENSOR1_def Let_def check_edges edge_upd_def edge_out_def edge_msg_def split: if_splits)
next
  case (2 h') then show ?case by (cases h') simp_all
qed (simp_all add: place_defs)

interpretation sen2: edge_register Handler_SENSOR2 9
  "''SENSOR2 changed to Close'' @ [NL]" "''SENSOR2 changed to Open'' @ [NL]"
proof (unfold_locales, goal_cases)
  case (1 v junk s e s')
  then show ?case
    by (auto simp: handler_SENSOR2_def Let_def check_edges edge_upd_def edge_out_def edge_msg_def split: if_splits)
next
  case (2 h') then show ?case by (cases h') simp_all
qed (simp_all add: place_defs)

interpretation relay: edge_register Handler_RELAY1 10
  "''RELAY changed to Close'' @ [NL]" "''RELAY changed to Open'' @ [NL]"
proof (unfold_locales, goal_cases)
  case (1 v junk s e s')
  then show ?case
    by (auto simp: handler_RELAY1_def Let_def check_edges edge_upd_def edge_out_def edge_msg_def split: if_splits)
next
  case (2 h') then show ?case by (cases h') simp_all
qed (simp_all add: place_defs)

interpretation vac: edge_register Handler_RPS_VAC 17
  "''UPS: power changed to VAC'' @ [NL]" "''UPS: power changed to Battery'' @ [NL]"
proof (unfold_locales, goal_cases)
  case (1 v junk s e s')
  then show ?case
    by (auto simp: handler_RPS_VAC_def Let_def check_edges edge_upd_def edge_out_def edge_msg_def split: if_splits)
next
  case (2 h') then show ?case by (cases h') simp_all
qed (simp_all add: place_defs)

interpretation sfp1: edge_register Handler_SFP1_PRESENT 39
  "''SFP1: in chassis'' @ [NL]" "''SFP1: removed from chassis'' @ [NL]"
proof (unfold_locales, goal_cases)
  case (1 v junk s e s')
  then show ?case
    by (auto simp: handler_SFP1_PRESENT_def Let_def check_edges edge_upd_def edge_out_def edge_msg_def split: if_splits)
next
  case (2 h') then show ?case by (cases h') simp_all
qed (simp_all add: place_defs)

interpretation sfp2: edge_register Handler_SFP2_PRESENT 67
  "''SFP2: in chassis'' @ [NL]" "''SFP2: removed from chassis'' @ [NL]"
proof (unfold_locales, goal_cases)
  case (1 v junk s e s')
  then show ?case
    by (auto simp: handler_SFP2_PRESENT_def Let_def check_edges edge_upd_def edge_out_def edge_msg_def split: if_splits)
next
  case (2 h') then show ?case by (cases h') simp_all
qed (simp_all add: place_defs)

end
