(* ===== verification/HW_Bus.thy ===== *)
theory HW_Bus
  imports HW_Invariant
begin

section \<open>The hardware daemon: dumps and failures of the bus\<close>

subsection \<open>What a dump stores\<close>

text \<open>
  A dump as the microcontroller puts it together, and what it is meant to do with the table: store
  every value in the entry of its register. Values of 32 octets or more are left out.
\<close>

fun tlv_bytes :: "(u8 \<times> u8 list) list \<Rightarrow> u8 list" where
  "tlv_bytes [] = []"
| "tlv_bytes ((a, v) # ms) = a # of_nat (length v) # v @ tlv_bytes ms"

definition put_value :: "i2c_data list \<Rightarrow> u8 \<times> u8 list \<Rightarrow> i2c_data list" where
  "put_value tbl m =
     (case get_id_by_addr (ucast (fst m)) tbl of None \<Rightarrow> tbl
      | Some i \<Rightarrow>
          if length (snd m) < 32 then upd_nth i (d_value_update (\<lambda>v. snd m @ drop (length (snd m)) v)) tbl
          else tbl)"

definition sendable :: "i2c_data list \<Rightarrow> u8 \<times> u8 list \<Rightarrow> bool" where
  "sendable tbl m \<longleftrightarrow> unat (fst m) \<le> MAX_SENSORS \<and> ucast (fst m) \<in> d_addr ` set tbl \<and> length (snd m) < 256"

lemma map_addr_put_value [simp]: "map d_addr (put_value tbl m) = map d_addr tbl"
  by (simp add: put_value_def map_upd_nth_same split: option.splits)

lemma sendable_cong:
  assumes "map d_addr t = map d_addr t'"
  shows "sendable t m = sendable t' m"
proof -
  have "d_addr ` set t = d_addr ` set t'" using arg_cong [OF assms, of set] by simp
  then show ?thesis by (simp add: sendable_def)
qed

lemma parse_dump:
  assumes "list_all (sendable tbl) ms" "raw = pre @ tlv_bytes ms @ rest"
  shows "i2c_parse_tlv (length pre + length (tlv_bytes ms)) (length pre) raw tbl
    = Some (0, foldl put_value tbl ms)"
  using assms
proof (induction ms arbitrary: pre tbl)
  case Nil
  then show ?case by (simp add: i2c_parse_tlv.simps [of _ "length pre"])
next
  case (Cons m ms)
  obtain a v where m: "m = (a, v)" by fastforce
  from Cons.prems(1) m have a: "unat a \<le> MAX_SENSORS" "ucast a \<in> d_addr ` set tbl" "length v < 256"
    by (simp_all add: sendable_def)
  then obtain i where i: "get_id_by_addr (ucast a) tbl = Some i"
    by (metis get_id_by_addr_None option.exhaust)
  have n: "unat (of_nat (length v) :: u8) = length v"
    using a(3) by (simp add: unsigned_of_nat take_bit_nat_eq_self)
  let ?pre = "pre @ a # of_nat (length v) # v"
  let ?len = "length pre + length (tlv_bytes (m # ms))"
  from Cons.prems(2) have raw: "raw = ?pre @ tlv_bytes ms @ rest" by (simp add: m)
  have at: "raw ! length pre = a" "raw ! (length pre + 1) = of_nat (length v)"
    "length pre + 1 < length raw" "length pre + 2 + length v \<le> length raw"
    "take (length v) (drop (length pre + 2) raw) = v"
    by (simp_all add: raw nth_append)
  have put: "put_value tbl m = (if length v < 32 then store_value raw (length pre) (length v) i tbl else tbl)"
    using at(5) by (simp add: put_value_def m i store_value_def)
  have "i2c_parse_tlv ?len (length pre) raw tbl
      = i2c_parse_tlv ?len (length pre + length v + 2) raw (put_value tbl m)"
    unfolding put using at(1-4) a(1) i n
    by (subst i2c_parse_tlv.simps) (simp add: m Let_def)
  also have "\<dots> = i2c_parse_tlv (length ?pre + length (tlv_bytes ms)) (length ?pre) raw (put_value tbl m)"
    by (simp add: m ac_simps)
  also have "\<dots> = Some (0, foldl put_value (put_value tbl m) ms)"
  proof (rule Cons.IH [OF _ raw])
    from Cons.prems(1) sendable_cong [OF map_addr_put_value [of tbl m]]
    show "list_all (sendable (put_value tbl m)) ms" by (simp add: list_all_iff)
  qed
  finally show ?case by simp
qed

subsection \<open>Failures in a row\<close>

text \<open>The passes of the main thread in a run.\<close>

definition mains :: "hw_step list \<Rightarrow> main_env list" where
  "mains xs = concat (map (\<lambda>x. case x of Main_pass e \<Rightarrow> [e] | _ \<Rightarrow> []) xs)"

text \<open>
  The clock does not go back, and is looked at for the timers less than 3 seconds after either of
  the two passes before.
\<close>

definition paced :: "main_env list \<Rightarrow> bool" where
  "paced es \<longleftrightarrow>
     (\<forall>k < length es. e_hi (es ! k) \<le> e_low (es ! k) \<and>
        (\<forall>j < k. e_set (es ! j) \<le> e_hi (es ! k) \<and>
           (k \<le> j + 2 \<longrightarrow> unat (e_low (es ! k)) < unat (e_set (es ! j)) + 3)))"

definition last2 :: "'a list \<Rightarrow> 'a set" where
  "last2 es = set (drop (length es - 2) es)"

lemma last2_snoc: "es \<noteq> [] \<Longrightarrow> last2 (es @ [e]) = {last es, e}"
  by (cases es rule: rev_cases) (auto simp: last2_def)

lemma last_last2: "es \<noteq> [] \<Longrightarrow> last es \<in> last2 es"
  by (cases es rule: rev_cases) (auto simp: last2_def)

lemma paced_prefix: "paced (es @ fs) \<Longrightarrow> paced es"
  by (auto simp: paced_def nth_append split: if_splits)

lemma paced_fresh:
  assumes "paced (es @ [e])" "a \<in> last2 es"
  shows "\<not> timer_expired (timer_set (e_set a) 3) (e_hi e)"
    "\<not> timer_expired (timer_set (e_set a) 30) (e_low e)"
proof -
  from assms(2) obtain m where m: "m < length (drop (length es - 2) es)" "drop (length es - 2) es ! m = a"
    unfolding last2_def in_set_conv_nth by blast
  define j where "j = length es - 2 + m"
  with m have j: "j < length es" "es ! j = a" "length es \<le> j + 2" by simp_all
  from assms(1) have "\<forall>k < length (es @ [e]). e_hi ((es @ [e]) ! k) \<le> e_low ((es @ [e]) ! k) \<and>
      (\<forall>j < k. e_set ((es @ [e]) ! j) \<le> e_hi ((es @ [e]) ! k) \<and>
        (k \<le> j + 2 \<longrightarrow> unat (e_low ((es @ [e]) ! k)) < unat (e_set ((es @ [e]) ! j)) + 3))"
    unfolding paced_def .
  from spec [OF this, of "length es"] j
  have "e_hi e \<le> e_low e" "e_set a \<le> e_hi e" "unat (e_low e) < unat (e_set a) + 3"
    by (auto simp: nth_append dest: spec [of _ j])
  moreover from this have "unat (e_hi e) \<le> unat (e_low e)" by (simp add: word_le_nat_alt)
  ultimately show "\<not> timer_expired (timer_set (e_set a) 3) (e_hi e)"
    "\<not> timer_expired (timer_set (e_set a) 30) (e_low e)"
    by (intro not_expired_after_set; simp)+
qed

text \<open>Which fields the other parts of the daemon leave alone.\<close>

definition same_bus :: "hw \<Rightarrow> hw \<Rightarrow> bool" where
  "same_bus s s' \<longleftrightarrow> errorCount s' = errorCount s \<and> gpio_done s' = gpio_done s
     \<and> hi_prio_timer s' = hi_prio_timer s \<and> low_prio_timer s' = low_prio_timer s
     \<and> main_up s' = main_up s"

lemma events_loop_same_bus: "events_loop junk js s = Some s' \<Longrightarrow> same_bus s s'"
proof (induction js arbitrary: s)
  case (Cons j js)
  then obtain s1 where s1: "call_entry (junk j) j s = Some s1" "same_bus s1 s'"
    by (auto split: option.splits)
  from call_entry_reports [OF s1(1)] have "same_bus s s1"
    by (auto simp: same_bus_def only_reports_def)
  with s1(2) show ?case by (simp add: same_bus_def)
qed (simp add: same_bus_def)

lemma client_same_bus:
  assumes "clientHandler r junk1 junk2 s = Some (c, s')"
  shows "same_bus s s'"
  using assms
  by (auto simp: clientHandler_def i2c_getData_def i2c_setData_def Let_def same_bus_def
      split: prod.splits if_splits option.splits)

lemma other_same_bus:
  assumes "hw_next x s = Running s'" "\<And>e. x \<noteq> Main_pass e" "\<And>a b c d e. x \<noteq> Main_open a b c d e"
  shows "same_bus s s'"
proof (cases x)
  case (Client_pass r junk1 junk2)
  with assms(1) obtain c where "clientHandler r junk1 junk2 s = Some (c, s')"
    by (auto simp: of_option_def split: option.splits)
  then show ?thesis by (rule client_same_bus)
next
  case (Events_pass now junk)
  with assms(1) show ?thesis
    by (auto simp: of_option_def eventsHandler_def i2c_events_handler_def same_bus_def
        split: if_splits option.splits dest!: events_loop_same_bus)
next
  case (Events_start t)
  with assms(1) show ?thesis by (auto simp: same_bus_def split: if_splits)
qed (use assms in auto)

lemma read_dump_same_bus:
  assumes "read_dump reg len io s = Some (c, s')"
  shows "same_bus s s'"
  using assms
  by (auto simp: read_dump_def same_bus_def split: option.splits if_splits
      elim!: read_buffer_only)

text \<open>
  What the counter of failures says about the timers: one failure and a timer was set in the last
  pass; two, and both were set in the last two.
\<close>

definition count_ok :: "hw \<Rightarrow> main_env list \<Rightarrow> bool" where
  "count_ok s es \<longleftrightarrow> gpio_done s = [] \<and>
     (errorCount s = 0
      \<or> main_up s \<and> es \<noteq> [] \<and> errorCount s = 1 \<and>
          (hi_prio_timer s = timer_set (e_set (last es)) 3
           \<or> low_prio_timer s = timer_set (e_set (last es)) 30)
      \<or> main_up s \<and> errorCount s = 2 \<and>
          (\<exists>a \<in> last2 es. \<exists>b \<in> last2 es. hi_prio_timer s = timer_set (e_set a) 3
             \<and> low_prio_timer s = timer_set (e_set b) 30))"

lemma count_ok_same: "same_bus s s' \<Longrightarrow> count_ok s es \<Longrightarrow> count_ok s' es"
  by (simp add: same_bus_def count_ok_def)

text \<open>The three outcomes of a pass: a read, which sets its timer, or neither timer has expired.\<close>

lemma parse_code:
  "i2c_parse_tlv len offset raw tbl = Some (c, tbl') \<Longrightarrow> c = 0 \<or> c = 1"
proof (induction len offset raw tbl rule: i2c_parse_tlv.induct)
  case (1 len offset raw tbl)
  from "1.prems" show ?case
    by (subst (asm) i2c_parse_tlv.simps)
      (use "1.IH" in \<open>auto simp: Let_def split: if_splits option.splits\<close>)
qed

lemma read_dump_code:
  assumes "read_dump reg len io s = Some (c, s')"
  shows "c = 0 \<or> c = 1"
  using assms
  by (auto simp: read_dump_def split: option.splits if_splits dest: parse_code
      elim!: read_buffer_only)

lemma read_i2c_outcome:
  assumes "read_i2c e s = Some (c, s')"
  obtains (high) "timer_expired (hi_prio_timer s) (e_hi e)" "c = 0 \<or> c = 1"
      "same_bus (s\<lparr>hi_prio_timer := timer_set (e_set e) 3\<rparr>) s'"
  | (low) "\<not> timer_expired (hi_prio_timer s) (e_hi e)" "timer_expired (low_prio_timer s) (e_low e)"
      "c = 0 \<or> c = 1" "same_bus (s\<lparr>low_prio_timer := timer_set (e_set e) 30\<rparr>) s'"
  | (idle) "\<not> timer_expired (hi_prio_timer s) (e_hi e)" "\<not> timer_expired (low_prio_timer s) (e_low e)"
      "c = 0" "same_bus s s'"
proof (cases "timer_expired (hi_prio_timer s) (e_hi e)")
  case True
  with assms obtain s1 where r: "read_dump (ucast REG_HI_PRIO_DUMP) (hi_prio_len s) (e_io e) s = Some (c, s1)"
    and s': "s' = s1\<lparr>hi_prio_timer := timer_set (e_set e) 3\<rparr>"
    by (auto simp: read_i2c_def split: option.splits)
  show ?thesis
    by (rule high [OF True read_dump_code [OF r]])
      (use read_dump_same_bus [OF r] in \<open>simp add: s' same_bus_def\<close>)
next
  case not_hi: False
  show ?thesis
  proof (cases "timer_expired (low_prio_timer s) (e_low e)")
    case True
    with not_hi assms obtain s1 where r: "read_dump (ucast REG_LOW_PRIO_DUMP) (low_prio_len s) (e_io e) s = Some (c, s1)"
      and s': "s' = s1\<lparr>low_prio_timer := timer_set (e_set e) 30\<rparr>"
      by (auto simp: read_i2c_def split: option.splits)
    show ?thesis
      by (rule low [OF not_hi True read_dump_code [OF r]])
        (use read_dump_same_bus [OF r] in \<open>simp add: s' same_bus_def\<close>)
  next
    case False
    with not_hi assms have "c = 0 \<and> same_bus s s'"
      by (auto simp: read_i2c_def write_buffer_def Let_def same_bus_def split: if_splits option.splits)
    with idle not_hi False show ?thesis by blast
  qed
qed

lemma count_ok_pass:
  assumes "mainHandler e s = Running s'" "count_ok s es" "main_up s" "paced (es @ [e])"
  shows "count_ok s' (es @ [e])"
proof -
  from assms(1) obtain c s1 where r: "read_i2c e s = Some (c, s1)"
    and m: "(let s2 = s1\<lparr>errorCount := (if c = 1 then errorCount s1 + 1 else 0)\<rparr>
        in if MAX_I2C_ERROR < errorCount s2 then
             (case gpio_resetIoMcu (e_gpio e) of Gpio_exit _ \<Rightarrow> Exited
              | Returned _ ops \<Rightarrow> Running (s2\<lparr>errorCount := 0, gpio_done := gpio_done s2 @ ops\<rparr>))
           else Running s2) = Running s'"
    by (auto simp: mainHandler_def split: option.splits)
  have same: "errorCount s1 = errorCount s \<and> gpio_done s1 = gpio_done s \<and> main_up s1 = main_up s"
    using r by (cases rule: read_i2c_outcome) (simp_all add: same_bus_def)
  have small: "errorCount s \<in> {0, 1, 2}" using assms(2) by (auto simp: count_ok_def)
  have s': "s' = s1\<lparr>errorCount := (if c = 1 then errorCount s + 1 else 0)\<rparr>"
    using m small by (auto simp: Let_def same)
  show ?thesis
  proof (cases "c = 1")
    case False
    with s' same assms(2) show ?thesis by (simp add: count_ok_def)
  next
    case True
    note fresh = paced_fresh [OF assms(4)]
    from r True consider
        (high) "timer_expired (hi_prio_timer s) (e_hi e)" "same_bus (s\<lparr>hi_prio_timer := timer_set (e_set e) 3\<rparr>) s1"
      | (low) "timer_expired (low_prio_timer s) (e_low e)" "same_bus (s\<lparr>low_prio_timer := timer_set (e_set e) 30\<rparr>) s1"
      by (cases rule: read_i2c_outcome) auto
    then show ?thesis
    proof cases
      case high
      from high(1) fresh(1) assms(2) last_last2 [of es]
      have "errorCount s = 0 \<or> es \<noteq> [] \<and> errorCount s = 1 \<and> low_prio_timer s = timer_set (e_set (last es)) 30"
        by (auto simp: count_ok_def)
      with high(2) True same assms(2,3) show ?thesis
        by (auto simp: s' count_ok_def same_bus_def last2_snoc)
    next
      case low
      from low(1) fresh(2) assms(2) last_last2 [of es]
      have "errorCount s = 0 \<or> es \<noteq> [] \<and> errorCount s = 1 \<and> hi_prio_timer s = timer_set (e_set (last es)) 3"
        by (auto simp: count_ok_def)
      with low(2) True same assms(2,3) show ?thesis
        by (auto simp: s' count_ok_def same_bus_def last2_snoc)
    qed
  qed
qed

lemma open_i2c_counts:
  assumes "open_i2c a t1 t2 io1 io2 s = Running s'"
  shows "errorCount s' = errorCount s \<and> gpio_done s' = gpio_done s"
  using assms
  by (auto simp: open_i2c_def Let_def split: if_splits option.splits elim!: read_buffer_only)

lemma count_ok_run:
  assumes "hw_run xs s = Running s'" "count_ok s es" "paced (es @ mains xs)"
  shows "count_ok s' (es @ mains xs)"
  using assms
proof (induction xs arbitrary: s es)
  case (Cons x xs)
  from Cons.prems(1) obtain s1 where s1: "hw_next x s = Running s1" "hw_run xs s1 = Running s'"
    by (auto split: hw_result.splits)
  have one: "count_ok s1 (es @ mains [x])"
  proof (cases x)
    case (Main_pass e)
    then have es: "mains [x] = [e]" "paced (es @ [e])"
      using Cons.prems(3) paced_prefix [of "es @ [e]" "mains xs"] by (simp_all add: mains_def)
    show ?thesis
    proof (cases "main_up s")
      case True
      with Main_pass s1(1) count_ok_pass [of e s s1 es] es Cons.prems(2) show ?thesis by simp
    next
      case False
      with Main_pass s1(1) Cons.prems(2) show ?thesis by (auto simp: count_ok_def)
    qed
  next
    case (Main_open a t1 t2 io1 io2)
    show ?thesis
    proof (cases "main_up s")
      case True
      with Main_open s1(1) Cons.prems(2) show ?thesis by (simp add: mains_def)
    next
      case False
      with Main_open s1(1) have "open_i2c a t1 t2 io1 io2 s = Running s1" by simp
      from open_i2c_counts [OF this] False Cons.prems(2) show ?thesis by (auto simp: count_ok_def)
    qed
  qed (use other_same_bus [OF s1(1)] count_ok_same [OF _ Cons.prems(2)] in \<open>auto simp: mains_def\<close>)
  have split: "es @ mains (x # xs) = (es @ mains [x]) @ mains xs" by (simp add: mains_def)
  from Cons.IH [OF s1(2) one] Cons.prems(3) show ?case unfolding split .
qed (simp add: mains_def)

end
