(* ===== verification/HW_Control.thy ===== *)
theory HW_Control
  imports HW_Registers HW_Bus
begin

section \<open>The hardware daemon: what the control program and the dumps do to it\<close>

text \<open>
  The register a name stands for, the daemon after a run of the control program, registers whose
  handler is gone from the table, and the table after a dump.
\<close>

subsection \<open>Lookups by name and by address\<close>

lemma listed_distinct: "distinct (map d_addr listed_registers)"
proof -
  have "distinct (map (unat \<circ> d_addr) listed_registers)"
    by (simp add: listed_registers_def entry_def)
  then show ?thesis by (auto simp: distinct_map inj_on_def)
qed

lemma get_id_distinct:
  assumes "distinct (map d_addr xs)" "i < length xs"
  shows "get_id_by_addr (d_addr (xs ! i)) (xs @ ys) = Some i"
  using assms
proof (induction xs arbitrary: i)
  case (Cons x xs)
  then show ?case by (cases i) (auto dest: imageI [OF nth_mem, of _ _ d_addr])
qed simp

lemma entry_by_name_SomeD: "entry_by_name n xs = Some x \<Longrightarrow> x \<in> set xs \<and> d_name x = n"
  by (induction xs) (auto split: if_splits)

text \<open>The register a name stands for: its place in the table, where its address is found too.\<close>

lemma register_place:
  assumes "entry_by_name n sock_msgArr_init = Some x" "n \<noteq> []"
  obtains i where "i < 107" "sock_msgArr_init ! i = x" "get_id_by_addr (d_addr x) sock_msgArr_init = Some i"
proof -
  have len: "length listed_registers = 107" by (simp add: listed_registers_def)
  from entry_by_name_SomeD [OF assms(1)] assms(2) have "x \<in> set listed_registers"
    by (auto simp: sock_msgArr_init_def zero_data_def)
  then obtain i where i: "i < length listed_registers" "listed_registers ! i = x"
    by (auto simp: in_set_conv_nth)
  with get_id_distinct [OF listed_distinct i(1)] len show thesis
    by (intro that [of i]) (simp_all add: sock_msgArr_init_def nth_append)
qed

lemma find_gpio_none: "n \<notin> set xs \<Longrightarrow> find_gpio n i xs = GPIO_IDLE"
  by (induction xs arbitrary: i) auto

lemma register_no_line:
  assumes "entry_by_name n sock_msgArr_init = Some x" "n \<noteq> []"
  shows "get_gpio_addr_by_name n = GPIO_IDLE"
proof -
  have "list_all (\<lambda>x. d_name x \<notin> set gpio_name) listed_registers"
    by code_simp
  moreover from entry_by_name_SomeD [OF assms(1)] assms(2) have "x \<in> set listed_registers" "d_name x = n"
    by (auto simp: sock_msgArr_init_def zero_data_def)
  ultimately have "n \<notin> set gpio_name" by (auto simp: list_all_iff)
  then show ?thesis by (simp add: get_gpio_addr_by_name_def find_gpio_none)
qed

lemma getOpt_register:
  assumes "entry_by_name n sock_msgArr_init = Some x" "n \<noteq> []"
  defines "p \<equiv> zero_data\<lparr>d_opcode := d_opcode x, d_addr := d_addr x, d_lenData := d_lenData x, d_type := d_type x\<rparr>"
  shows "getOpt [n, ''get''] = Opt_i2c CTRL_GET p 0"
    "getOpt [n, ''set'', v] = Opt_i2c CTRL_SET p (of_int (strtol v))"
  using register_no_line [OF assms(1,2)] assms(1)
  by (simp_all add: getOpt_def get_i2c_addr_by_name_def getCmdType_def cmdTypeArr_def p_def)

subsection \<open>Registers whose handler is gone\<close>

lemma texts_disjoint: "h' \<noteq> h \<Longrightarrow> set (texts h') \<inter> set (texts h) = {}"
  by (cases h; cases h') simp_all

lemma reported_other:
  assumes "only_reports g s s'" "g \<noteq> h"
  shows "reported h s' = reported h s"
proof -
  from assms(1) obtain l where "hw_log s' = hw_log s @ l" "fst ` set l \<subseteq> set (texts g)"
    unfolding only_reports_def by auto
  with texts_disjoint [OF assms(2)] show ?thesis
    by (auto simp: reported_def filter_empty_conv)
qed

lemma unmonitored_loop:
  assumes "events_loop junk js s = Some s'" "Fn h \<notin> set (handlers s)" "table_ok s"
    "set js \<subseteq> {..<length (sock_msgArr s)}"
  shows "reported h s' = reported h s"
  using assms
proof (induction js arbitrary: s)
  case (Cons j js)
  then obtain s1 where s1: "call_entry (junk j) j s = Some s1" "events_loop junk js s1 = Some s'"
    by (auto split: option.splits)
  from call_entry_keeps [OF s1(1) Cons.prems(3)]
  have k: "table_ok s1" "handlers s1 = handlers s" by simp_all
  from k(2) have "length (sock_msgArr s1) = length (sock_msgArr s)"
    unfolding handlers_def by (metis length_map)
  with Cons.IH [OF s1(2)] Cons.prems k have "reported h s' = reported h s1" by simp
  moreover from Cons.prems(2,4) have "d_eventsHandler (sock_msgArr s ! j) \<noteq> Fn h"
    by (auto simp: handlers_def) (metis image_eqI nth_mem)
  with call_entry_reports [OF s1(1)] have "reported h s1 = reported h s"
    by (auto intro: reported_other)
  ultimately show ?case by simp
qed simp

lemma unmonitored_run:
  assumes "hw_run xs s = Running s'" "Fn h \<notin> set (handlers s)" "table_ok s"
    "list_all step_ok xs" "list_all reads_only xs"
  shows "reported h s' = reported h s"
  using assms
proof (induction xs arbitrary: s)
  case (Cons x xs)
  from Cons.prems(1) obtain s1 where s1: "hw_next x s = Running s1" "hw_run xs s1 = Running s'"
    by (auto split: hw_result.splits)
  from Cons.prems(4,5) have x: "step_ok x" "reads_only x" by simp_all
  with hw_next_keeps [OF s1(1) Cons.prems(3)] Cons.IH [OF s1(2)] Cons.prems
  have "reported h s' = reported h s1" by simp
  also have "\<dots> = reported h s"
  proof (cases x)
    case (Client_pass r junk1 junk2)
    with s1(1) obtain c where "clientHandler r junk1 junk2 s = Some (c, s1)"
      by (auto simp: of_option_def split: option.splits)
    from client_keeps [OF this Cons.prems(3)] x(1) Client_pass show ?thesis by (simp add: reported_def)
  next
    case (Events_pass now junk)
    with s1(1) have "s1 = s \<or> (\<exists>s2. events_loop junk [0..<length (sock_msgArr s)] s = Some s2
        \<and> s1 = s2\<lparr>events_timer := timer_reset (events_timer s2)\<rparr>)"
      by (auto simp: of_option_def eventsHandler_def i2c_events_handler_def split: option.splits if_splits)
    with unmonitored_loop [OF _ Cons.prems(2,3)] show ?thesis
      by (fastforce simp: reported_def)
  qed (use main_keeps [OF s1(1) Cons.prems(3)] in \<open>auto simp: silent_def reported_def\<close>)
  finally show ?case .
qed simp

lemma handlers_run:
  "hw_run xs s = Running s' \<Longrightarrow> table_ok s \<Longrightarrow> list_all step_ok xs \<Longrightarrow> list_all reads_only xs
    \<Longrightarrow> handlers s' = handlers s"
proof (induction xs arbitrary: s)
  case (Cons x xs)
  then obtain s1 where s1: "hw_next x s = Running s1" "hw_run xs s1 = Running s'"
    by (auto split: hw_result.splits)
  with hw_next_keeps [OF s1(1)] Cons.IH [OF s1(2)] Cons.prems show ?case by simp
qed simp

text \<open>
  No handler was put where it does not belong: an entry has the one of the initial table, or none.
  The control program's writes keep this, those of other clients need not.
\<close>

definition only_cleared :: "hw \<Rightarrow> bool" where
  "only_cleared s \<longleftrightarrow>
     list_all2 (\<lambda>a b. a = b \<or> a = Null) (handlers s) (map d_eventsHandler sock_msgArr_init)"

lemma only_cleared_init: "only_cleared hw_init"
  by (simp add: only_cleared_def handlers_def hw_init_def list_all2_same)

lemma only_cleared_handler:
  assumes "only_cleared s" "j < length (sock_msgArr s)" "d_eventsHandler (sock_msgArr s ! j) = Fn h"
  shows "d_eventsHandler (sock_msgArr_init ! j) = Fn h"
  using assms by (auto simp: only_cleared_def handlers_def list_all2_conv_all_nth)

lemma only_cleared_update:
  "only_cleared s \<Longrightarrow> d_eventsHandler w = Null \<Longrightarrow> handlers s' = map d_eventsHandler ((sock_msgArr s)[i := w])
    \<Longrightarrow> only_cleared s'"
  by (auto simp: only_cleared_def handlers_def list_all2_conv_all_nth)
    (metis nth_list_update_eq nth_list_update_neq)

subsection \<open>One run of the control program\<close>

text \<open>What a write leaves in the daemon: the entry and the pending write are the request.\<close>

lemma ctrl_set:
  fixes v :: string
  assumes "table_ok s" "entry_by_name n sock_msgArr_init = Some x" "n \<noteq> []"
    "data_ok (fst junk)" "get_id_by_addr (d_addr x) sock_msgArr_init = Some i"
  defines "w \<equiv> \<lparr>d_lenMSG = 80, d_addr = d_addr x, d_name = [], d_opcode = I2C_OPCODE_WRITE,
      d_lenData = d_lenData x, d_type = d_type x, d_eventsHandler = Null,
      d_value = of_int (strtol v) # replicate 11 0 @ drop 12 (d_value (fst junk))\<rparr>"
  shows "ctrl_run [n, ''set'', v] junk s = Some (Some [],
    s\<lparr>write_data := w, write_flag := True, sock_msgArr := (sock_msgArr s)[i := w]\<rparr>)"
proof -
  let ?p = "zero_data\<lparr>d_opcode := d_opcode x, d_addr := d_addr x, d_lenData := d_lenData x, d_type := d_type x\<rparr>"
  let ?m = "i2c_setHandler ?p (of_int (strtol v))"
  have val: "d_value ?m = of_int (strtol v) # replicate 31 0"
    by (simp add: i2c_setHandler_value zero_data_def eval_nat_numeral)
  have rcv: "(memcpy_data (fst junk) ?m 60)\<lparr>d_lenMSG := 80\<rparr> = w"
    by (simp add: memcpy_data_def val w_def) (simp add: i2c_setHandler_value zero_data_def)
  have ok: "length (d_value w) = 32" using assms(4) by (simp add: w_def data_ok_def)
  have op: "d_opcode (memcpy_data (fst junk) ?m 60) = I2C_OPCODE_WRITE" "d_addr (memcpy_data (fst junk) ?m 60) = d_addr x"
    by (simp_all add: memcpy_data_fields i2c_setHandler_value)
  have i: "get_id_by_addr (d_addr x) (sock_msgArr s) = Some i"
    using assms(1,5) by (simp add: get_id_init)
  from get_id_by_addr_SomeD [OF this] have il: "i < length (sock_msgArr s)" by simp
  have put: "i2c_setData w (d_addr x) 80 s = Some (s\<lparr>write_data := w, write_flag := True,
      sock_msgArr := (sock_msgArr s)[i := w]\<rparr>)"
    using il data_ok_entry [OF assms(1) il] assms(1) ok
    by (simp add: i2c_setData_def i Let_def upd_nth_def table_ok_def data_ok_def)
  show ?thesis
    using put op rcv
    by (simp add: ctrl_run_def getOpt_register(2) [OF assms(2,3)] clientHandler_def receive_msg_def)
qed

lemma ctrl_set_effect:
  fixes v :: string
  assumes "table_ok s" "entry_by_name n sock_msgArr_init = Some x" "n \<noteq> []"
    "data_ok (fst junk)" "get_id_by_addr (d_addr x) sock_msgArr_init = Some i"
    "ctrl_run [n, ''set'', v] junk s = Some (t, s1)"
  obtains w where "d_addr w = d_addr x" "d_lenData w = d_lenData x" "data_ok w" "d_eventsHandler w = Null"
    "d_value w = of_int (strtol v) # replicate 11 0 @ drop 12 (d_value (fst junk))"
    "s1 = s\<lparr>write_data := w, write_flag := True, sock_msgArr := (sock_msgArr s)[i := w]\<rparr>"
proof -
  let ?w = "\<lparr>d_lenMSG = 80, d_addr = d_addr x, d_name = [], d_opcode = I2C_OPCODE_WRITE,
      d_lenData = d_lenData x, d_type = d_type x, d_eventsHandler = Null,
      d_value = of_int (strtol v) # replicate 11 0 @ drop 12 (d_value (fst junk))\<rparr>"
  from ctrl_set [OF assms(1-5), of v] assms(6)
  have "s1 = s\<lparr>write_data := ?w, write_flag := True, sock_msgArr := (sock_msgArr s)[i := ?w]\<rparr>" by simp
  then show thesis
    by (intro that [of ?w]) (use assms(4) in \<open>simp_all add: data_ok_def\<close>)
qed

text \<open>What a read prints: the first 12 octets of the value, the rest 0.\<close>

lemma print_response_cong:
  "d_lenData p = d_lenData q \<Longrightarrow> d_type p = d_type q \<Longrightarrow> d_value p = d_value q
    \<Longrightarrow> print_response p = print_response q"
  by (simp only: print_response_def)

lemma ctrl_get:
  assumes "table_ok s" "entry_by_name n sock_msgArr_init = Some x" "n \<noteq> []"
    "data_ok (fst junk)" "data_ok (snd junk)" "get_id_by_addr (d_addr x) sock_msgArr_init = Some i"
  obtains s' where "ctrl_run [n, ''get''] junk s =
      Some (print_response ((sock_msgArr s ! i)\<lparr>d_value := take 12 (d_value (sock_msgArr s ! i)) @ replicate 20 0\<rparr>), s')"
    "silent s s'" "table_ok s'"
proof -
  let ?p = "zero_data\<lparr>d_opcode := d_opcode x, d_addr := d_addr x, d_lenData := d_lenData x, d_type := d_type x\<rparr>"
  let ?rec = "memcpy_data (fst junk) (get_request ?p) 60"
  have i: "get_id_by_addr (d_addr x) (sock_msgArr s) = Some i"
    using assms(1,6) by (simp add: get_id_init)
  from get_id_by_addr_SomeD [OF this] have il: "i < length (sock_msgArr s)" by simp
  let ?arr = "upd_nth i (d_lenMSG_update (\<lambda>_. 80)) (sock_msgArr s)"
  let ?d = "(sock_msgArr s ! i)\<lparr>d_lenMSG := 80\<rparr>"
  let ?s1 = "s\<lparr>sock_msgArr := ?arr, replies := replies s @ [?d\<lparr>d_opcode := I2C_OPCODE_RESPONSE\<rparr>]\<rparr>"
  have get: "i2c_getData (snd junk) (d_addr x) 80 s = Some (?d, s\<lparr>sock_msgArr := ?arr\<rparr>)"
    using il data_ok_entry [OF assms(1) il] assms(5)
    by (simp add: i2c_getData_def i Let_def data_ok_def)
  have op: "d_opcode ?rec = I2C_OPCODE_READ" "d_addr ?rec = d_addr x"
    by (simp_all add: memcpy_data_fields get_request_def)
  have srv: "clientHandler (Read_ok (get_request ?p)) (fst junk) (snd junk) s = Some (SOCKET_READ_OK, ?s1)"
    by (simp add: clientHandler_def receive_msg_def op get)
  let ?r = "?d\<lparr>d_opcode := I2C_OPCODE_RESPONSE\<rparr>"
  have "i2c_getHandler ?p (Read_ok ?r) = print_response (memcpy_data (get_request ?p) ?r 60)"
    by (simp add: i2c_getHandler_def receive_msg_def memcpy_data_fields)
  also have "\<dots> = print_response ((sock_msgArr s ! i)\<lparr>d_value := take 12 (d_value (sock_msgArr s ! i)) @ replicate 20 0\<rparr>)"
    by (rule print_response_cong)
      (simp_all add: memcpy_data_fields get_request_def zero_data_def)
  finally have cl: "i2c_getHandler ?p (Read_ok ?r) =
    print_response ((sock_msgArr s ! i)\<lparr>d_value := take 12 (d_value (sock_msgArr s ! i)) @ replicate 20 0\<rparr>)" .
  have run: "ctrl_run [n, ''get''] junk s =
      Some (print_response ((sock_msgArr s ! i)\<lparr>d_value := take 12 (d_value (sock_msgArr s ! i)) @ replicate 20 0\<rparr>), ?s1)"
    by (simp add: ctrl_run_def getOpt_register(1) [OF assms(2,3)] srv cl)
  from getData_keeps [OF get assms(1)] have "silent s ?s1" "table_ok ?s1"
    by (simp_all add: silent_def handlers_def table_ok_def)
  with run show thesis by (rule that)
qed

subsection \<open>Invariants of the references and the log\<close>

lemma reachable_statics:
  assumes "hw_reachable s" and init: "P prevs_init []"
    and call: "\<And>h v junk s e s'. call_handler h v junk s = Some (e, s') \<Longrightarrow> P (statics s) (hw_log s)
      \<Longrightarrow> P (statics s') (hw_log s')"
  shows "P (statics s) (hw_log s)"
  using assms(1)
proof (induction rule: hw_reachable.induct)
  case start
  with init show ?case by (simp add: hw_init_def)
next
  case (step s x s')
  have loop: "P (statics t') (hw_log t')" if "events_loop junk js t = Some t'" "P (statics t) (hw_log t)"
    for junk js t t'
    using that
  proof (induction js arbitrary: t)
    case (Cons j js)
    then obtain t1 where "call_entry (junk j) j t = Some t1" "events_loop junk js t1 = Some t'"
      by (auto split: option.splits)
    with Cons.IH [of t1] Cons.prems(2) call_entry_reports [of "junk j" j t t1] show ?case
      by (auto dest: call)
  qed simp
  note ok = reachable_table_ok [OF step.hyps(1)]
  show ?case
  proof (cases x)
    case (Client_pass r junk1 junk2)
    with step.hyps obtain c where "clientHandler r junk1 junk2 s = Some (c, s')"
      by (auto simp: of_option_def split: option.splits)
    from client_keeps [OF this ok] step Client_pass show ?thesis by simp
  next
    case (Events_pass now junk)
    with step.hyps have "s' = s \<or> (\<exists>s2. events_loop junk [0..<length (sock_msgArr s)] s = Some s2
        \<and> s' = s2\<lparr>events_timer := timer_reset (events_timer s2)\<rparr>)"
      by (auto simp: of_option_def eventsHandler_def i2c_events_handler_def split: option.splits if_splits)
    with step.IH loop show ?thesis by fastforce
  qed (use main_keeps [OF step.hyps(3) ok] step.IH in \<open>auto simp: silent_def\<close>)
qed

text \<open>With 1 or 2 octets asked for, the local structure keeps its value.\<close>

lemma sensors_present:
  "list_all (\<lambda>a. get_id_by_addr a sock_msgArr_init \<noteq> None)
    [REG_SHT_CONNECTED, REG_SFP1_PRESENT, REG_SFP2_PRESENT, REG_SFP1_RX_POWER, REG_SFP2_RX_POWER]"
  by code_simp

lemma getData_short:
  assumes "table_ok s" "a \<in> {REG_SHT_CONNECTED, REG_SFP1_PRESENT, REG_SFP2_PRESENT, REG_SFP1_RX_POWER, REG_SFP2_RX_POWER}"
    "n \<in> {1, 2}"
  shows "i2c_getData junk a n s = Some (junk\<lparr>d_lenMSG := of_nat n\<rparr>,
    s\<lparr>sock_msgArr := upd_nth (the (get_id_by_addr a sock_msgArr_init)) (d_lenMSG_update (\<lambda>_. of_nat n)) (sock_msgArr s)\<rparr>)"
proof -
  have "\<exists>i. get_id_by_addr a sock_msgArr_init = Some i"
    using assms(2) sensors_present by (auto simp: list_all_iff)
  then obtain i where i: "get_id_by_addr a (sock_msgArr s) = Some i" "get_id_by_addr a sock_msgArr_init = Some i"
    using get_id_init [OF assms(1)] by auto
  from get_id_by_addr_SomeD [OF i(1)] assms(3) i(2) show ?thesis
    by (auto simp: i2c_getData_def i(1) Let_def memcpy_data_short)
qed

text \<open>What a handler reports and remembers.\<close>

definition effect :: "(event_t \<times> hw) option \<Rightarrow> (event_t \<times> prevs \<times> (string \<times> int list) list) option" where
  "effect r = map_option (\<lambda>(e, s). (e, statics s, hw_log s)) r"

lemma effect_simps [simp]: "effect None = None" "effect (Some (e, s)) = Some (e, statics s, hw_log s)"
  by (simp_all add: effect_def)

subsection \<open>The table after a dump\<close>

lemma map_addr_fold_put: "map d_addr (foldl put_value tbl ms) = map d_addr tbl"
  by (induction ms arbitrary: tbl) simp_all

lemma fold_put_other:
  assumes "\<forall>m \<in> set ms. get_id_by_addr (ucast (fst m)) tbl \<noteq> Some i"
  shows "foldl put_value tbl ms ! i = tbl ! i"
  using assms
proof (induction ms arbitrary: tbl)
  case (Cons m ms)
  have "get_id_by_addr a (put_value tbl m) = get_id_by_addr a tbl" for a
    by (rule get_id_by_addr_cong) simp
  with Cons.IH [of "put_value tbl m"] Cons.prems have "foldl put_value tbl (m # ms) ! i = put_value tbl m ! i"
    by simp
  also have "\<dots> = tbl ! i"
    using Cons.prems by (auto simp: put_value_def split: option.splits)
  finally show ?case .
qed simp

lemma fold_put_values:
  assumes "list_all (sendable tbl) ms" "distinct (map fst ms)"
  shows "\<forall>(a, v) \<in> set ms. \<exists>i. get_id_by_addr (ucast a) (foldl put_value tbl ms) = Some i
    \<and> d_value (foldl put_value tbl ms ! i) =
        (if length v < 32 then v @ drop (length v) (d_value (tbl ! i)) else d_value (tbl ! i))"
proof (intro ballI, clarify)
  fix a v assume "(a, v) \<in> set ms"
  then obtain us ws where ms: "ms = us @ (a, v) # ws" by (auto simp: in_set_conv_decomp)
  from assms(1) ms have "ucast a \<in> d_addr ` set tbl" by (simp add: sendable_def)
  then obtain i where i: "get_id_by_addr (ucast a) tbl = Some i"
    by (metis get_id_by_addr_None option.exhaust)
  have same: "get_id_by_addr b (foldl put_value tbl ns) = get_id_by_addr b tbl" for b ns
    by (rule get_id_by_addr_cong) (rule map_addr_fold_put)
  have other: "get_id_by_addr (ucast (fst m)) tbl \<noteq> Some i" if "m \<in> set us \<union> set ws" for m
  proof
    assume "get_id_by_addr (ucast (fst m)) tbl = Some i"
    with i have "(ucast (fst m) :: u32) = ucast a" by (metis get_id_by_addr_SomeD)
    then have "fst m = a" by simp
    with that assms(2) ms show False by force
  qed
  let ?t1 = "foldl put_value tbl us" and ?t2 = "foldl put_value tbl (us @ [(a, v)])"
  have t1: "?t1 ! i = tbl ! i" by (rule fold_put_other) (use other in blast)
  have len: "i < length ?t1"
    using get_id_by_addr_SomeD [OF i] map_addr_fold_put [of tbl us] by (metis length_map)
  have t2: "d_value (?t2 ! i) = (if length v < 32 then v @ drop (length v) (d_value (tbl ! i)) else d_value (tbl ! i))"
    using len t1 by (simp add: put_value_def same i)
  have "foldl put_value tbl ms ! i = ?t2 ! i"
    unfolding ms by (simp only: foldl_append foldl.simps append.simps, rule fold_put_other)
      (use other same [of _ "us @ [(a, v)]"] in auto)
  with t2 i same show "\<exists>i. get_id_by_addr (ucast a) (foldl put_value tbl ms) = Some i
    \<and> d_value (foldl put_value tbl ms ! i) =
        (if length v < 32 then v @ drop (length v) (d_value (tbl ! i)) else d_value (tbl ! i))"
    by auto
qed

lemma read_dump_stores:
  assumes "table_ok s" "ms \<noteq> []" "list_all (sendable sock_msgArr_init) ms" "distinct (map fst ms)"
    "length (tlv_bytes ms) \<le> 1000"
  shows "\<exists>s'. read_dump reg (of_nat (length (tlv_bytes ms))) (Some ((!) (tlv_bytes ms))) s = Some (0, s')
    \<and> sock_msgArr s' = foldl put_value (sock_msgArr s) ms
    \<and> (\<forall>(a, v) \<in> set ms. \<exists>i. get_id_by_addr (ucast a) (sock_msgArr s') = Some i
        \<and> d_value (sock_msgArr s' ! i) =
            (if length v < 32 then v @ drop (length v) (d_value (sock_msgArr s ! i))
             else d_value (sock_msgArr s ! i)))"
proof -
  let ?raw = "tlv_bytes ms @ drop (length (tlv_bytes ms)) (i2c_raw_data s)"
  let ?s1 = "s\<lparr>bus := bus s @ [[reg, of_nat (length (tlv_bytes ms))]], i2c_raw_data := ?raw\<rparr>"
  have n: "unat (of_nat (length (tlv_bytes ms)) :: u16) = length (tlv_bytes ms)"
    using assms(5) by (simp add: unsigned_of_nat take_bit_nat_eq_self)
  have ok: "list_all (sendable (sock_msgArr s)) ms"
    using assms(1,3) sendable_cong [of "sock_msgArr s" sock_msgArr_init]
    by (simp add: list_all_iff table_ok_def)
  obtain a v ms' where ms: "ms = (a, v) # ms'" using assms(2) by (cases ms) auto
  have "unat a \<le> 144" using ok by (simp add: ms sendable_def)
  then have a: "tlv_bytes ms ! 0 \<noteq> 0xAA" by (auto simp: ms)
  have rd: "read_buffer reg (length (tlv_bytes ms)) (Some ((!) (tlv_bytes ms))) s = Some (0, ?s1)"
  proof -
    have "tlv_bytes ms \<noteq> []" by (simp add: ms)
    then have "?raw ! 0 \<noteq> 0xAA" using a by (simp add: nth_append)
    moreover have "length (i2c_raw_data s) = 1000" using assms(1) by (simp add: table_ok_def)
    ultimately show ?thesis using assms(5) by (simp add: read_buffer_def Let_def map_nth)
  qed
  from parse_dump [OF ok, of ?raw "[]"]
  have parse: "i2c_parse_tlv (length (tlv_bytes ms)) 0 ?raw (sock_msgArr s)
    = Some (0, foldl put_value (sock_msgArr s) ms)" by simp
  show ?thesis
    by (rule exI [of _ "?s1\<lparr>sock_msgArr := foldl put_value (sock_msgArr s) ms\<rparr>"])
      (use fold_put_values [OF ok assms(4)] in \<open>simp add: read_dump_def n rd parse\<close>)
qed

text \<open>A dump changes the buffer and the table only.\<close>

lemma read_dump_frame:
  assumes "read_dump reg len io s = Some (c, s')"
  shows "\<exists>b r t. s' = s\<lparr>bus := b, i2c_raw_data := r, sock_msgArr := t\<rparr>"
proof -
  from assms obtain c1 s1 where rb: "read_buffer reg (unat len) io s = Some (c1, s1)"
    by (auto simp: read_dump_def split: option.splits)
  with assms have rest: "s' = s1 \<or> (\<exists>t. s' = s1\<lparr>sock_msgArr := t\<rparr>)"
    by (auto simp: read_dump_def split: option.splits if_splits)
  from rb obtain b r where s1: "s1 = s\<lparr>bus := b, i2c_raw_data := r\<rparr>" by (rule read_buffer_only)
  from rest show ?thesis
  proof
    assume "s' = s1"
    then show ?thesis
      by (intro exI [of _ b] exI [of _ r] exI [of _ "sock_msgArr s"]) (simp add: s1)
  next
    assume "\<exists>t. s' = s1\<lparr>sock_msgArr := t\<rparr>"
    then show ?thesis using s1 by auto
  qed
qed

subsection \<open>Passes that return\<close>

text \<open>While the pointers are those of the table, the handlers return.\<close>

lemma call_handler_defined:
  assumes "table_ok s"
  shows "call_handler h v junk s \<noteq> None"
proof -
  have ok: "table_ok (upd_statics f s)" for f
    using assms by (simp add: table_ok_def)
  show ?thesis
    by (cases h) (auto simp: handler_defs Let_def getData_short [OF assms] getData_short [OF ok]
        split: prod.splits)
qed

lemma init_not_wild: "list_all (\<lambda>p. case p of Wild _ \<Rightarrow> False | _ \<Rightarrow> True) (map d_eventsHandler sock_msgArr_init)"
  by code_simp

lemma call_entry_defined:
  assumes "table_ok s" "handlers s = map d_eventsHandler sock_msgArr_init" "i < length (sock_msgArr s)"
  shows "call_entry junk i s \<noteq> None"
proof -
  from assms(3) have "d_eventsHandler (sock_msgArr s ! i) \<in> set (handlers s)" by (simp add: handlers_def)
  with init_not_wild have "\<nexists>n. d_eventsHandler (sock_msgArr s ! i) = Wild n"
    unfolding assms(2) list_all_iff by fastforce
  with call_handler_defined [OF assms(1)] show ?thesis
    by (simp add: call_entry_def split: fnptr.splits del: not_None_eq)
qed

lemma events_loop_defined:
  assumes "table_ok s" "handlers s = map d_eventsHandler sock_msgArr_init" "set js \<subseteq> {..<144}"
  shows "events_loop junk js s \<noteq> None"
  using assms
proof (induction js arbitrary: s)
  case (Cons j js)
  then obtain s1 where s1: "call_entry (junk j) j s = Some s1"
    using call_entry_defined [of s j "junk j"] length_table [of s] by auto
  from call_entry_keeps [OF s1 Cons.prems(1)] Cons.IH [of s1] Cons.prems s1 show ?case by simp
qed simp

lemma events_pass:
  assumes "table_ok s" "handlers s = map d_eventsHandler sock_msgArr_init" "events_up s"
    "timer_expired (events_timer s) now"
  obtains s' where "hw_next (Events_pass now junk) s = Running s'" "table_ok s'"
    "handlers s' = map d_eventsHandler sock_msgArr_init" "same_bus s s'" "hi_prio_len s' = hi_prio_len s"
    "events_up s'" "events_timer s' = timer_reset (events_timer s)"
proof -
  have "set [0..<length (sock_msgArr s)] \<subseteq> {..<144}" using length_table [OF assms(1)] by auto
  from events_loop_defined [OF assms(1,2) this] obtain s1 where
    s1: "events_loop junk [0..<length (sock_msgArr s)] s = Some s1" by blast
  have other: "hi_prio_len t' = hi_prio_len t \<and> events_up t' = events_up t \<and> events_timer t' = events_timer t"
    if "events_loop junk js t = Some t'" for js t t'
    using that
  proof (induction js arbitrary: t)
    case (Cons j js)
    then obtain t1 where "call_entry (junk j) j t = Some t1" "events_loop junk js t1 = Some t'"
      by (auto split: option.splits)
    with Cons.IH [of t1] call_entry_reports [of "junk j" j t t1] show ?case
      by (auto simp: only_reports_def)
  qed simp
  from events_loop_keeps [OF s1 assms(1)] events_loop_same_bus [OF s1] other [OF s1] show thesis
    by (intro that [of "s1\<lparr>events_timer := timer_reset (events_timer s1)\<rparr>"])
      (simp_all add: assms assms(2) [unfolded handlers_def] s1 of_option_def eventsHandler_def i2c_events_handler_def table_ok_def
        handlers_def same_bus_def)
qed

text \<open>A pass of the main thread that reads a dump of high priority.\<close>

lemma main_pass_dump:
  assumes "table_ok s" "main_up s" "timer_expired (hi_prio_timer s) (e_hi e)"
    "hi_prio_len s = of_nat (length (tlv_bytes ms))" "e_io e = Some ((!) (tlv_bytes ms))"
    "ms \<noteq> []" "list_all (sendable sock_msgArr_init) ms" "distinct (map fst ms)" "length (tlv_bytes ms) \<le> 1000"
  obtains s' where "hw_next (Main_pass e) s = Running s'" "sock_msgArr s' = foldl put_value (sock_msgArr s) ms"
    "table_ok s'" "silent s s'" "hi_prio_timer s' = timer_set (e_set e) 3" "hi_prio_len s' = hi_prio_len s"
    "main_up s'" "events_up s' = events_up s" "events_timer s' = events_timer s"
proof -
  from read_dump_stores [OF assms(1,6-9), of "ucast REG_HI_PRIO_DUMP"] obtain s1 where
    s1: "read_dump (ucast REG_HI_PRIO_DUMP) (hi_prio_len s) (e_io e) s = Some (0, s1)"
      "sock_msgArr s1 = foldl put_value (sock_msgArr s) ms"
    unfolding assms(4,5) by blast
  from read_dump_frame [OF s1(1)] have f: "main_up s1" "hi_prio_len s1 = hi_prio_len s"
    "events_up s1 = events_up s" "events_timer s1 = events_timer s" using assms(2) by auto
  from read_dump_only [OF s1(1) assms(1)] f s1 show thesis
    by (intro that [of "s1\<lparr>hi_prio_timer := timer_set (e_set e) 3, errorCount := 0\<rparr>"])
      (simp_all add: assms(2,3) mainHandler_def read_i2c_def table_ok_def silent_def handlers_def)
qed

subsection \<open>Pointers of clients\<close>

lemma wild_pointer_called:
  assumes "table_ok s" "d_eventsHandler (sock_msgArr s ! i) = Wild a" "i \<in> set js"
    "set js \<subseteq> {..<length (sock_msgArr s)}"
  shows "events_loop junk js s = None"
  using assms
proof (induction js arbitrary: s)
  case (Cons j js)
  show ?case
  proof (cases "call_entry (junk j) j s")
    case (Some s1)
    with Cons.prems(2) have ne: "j \<noteq> i" by (auto simp: call_entry_def)
    from call_entry_keeps [OF Some Cons.prems(1)]
    have k: "table_ok s1" "map d_eventsHandler (sock_msgArr s1) = map d_eventsHandler (sock_msgArr s)"
      by (simp_all add: handlers_def)
    from arg_cong [OF k(2), of length] have len: "length (sock_msgArr s1) = length (sock_msgArr s)" by simp
    from Cons.prems(3,4) ne have "i < length (sock_msgArr s)" by auto
    with arg_cong [OF k(2), of "\<lambda>l. l ! i"] len Cons.prems(2) have "d_eventsHandler (sock_msgArr s1 ! i) = Wild a"
      by simp
    with Cons.IH [OF k(1) this] Cons.prems(3,4) ne len Some show ?thesis by simp
  qed simp
qed simp

end
