(* ===== verification/HW_Properties.thy ===== *)
theory HW_Properties
  imports HW_Control
begin

section \<open>The hardware daemon: properties\<close>

text \<open>
  What is reported and what is not, what the bus carries, and what the control program does to the
  daemon; each property over runs of the daemon's threads.
\<close>

subsection \<open>Properties\<close>

text \<open>
  C29. What the monitoring of a supply voltage reports, over any run of the daemon in which no
  client writes and every sample is below 65525 (the handler's reference starts as 0xFFFF, which a
  sample can be mistaken for). Whenever the handler sees a sample other than the first, some value
  within 10 of it is the first sample, or inside the limits, or has been logged; so a sample more
  than 10 outside the limits has been logged up to 10 units, except while it stays within 10 of the
  first one. And only samples outside the limits are logged, never the first.
\<close>

theorem adc_out_of_range_reported:
  assumes "hw_run xs hw_init = Running s" "list_all step_ok xs" "list_all reads_only xs"
    and "map get_16bitValue (samples 4 xs hw_init) = v0 # vs" "\<forall>v \<in> set (v0 # vs). v < 65525"
  shows "(\<forall>v \<in> set vs. \<exists>n. \<bar>uint v - uint n\<bar> \<le> 10
        \<and> (n = v0 \<or> in_limits REG_ADC_CH1_max REG_ADC_CH1_min n
            \<or> (''ADC CH1 out of range: %d'', [uint n]) \<in> set (hw_log s)))
    \<and> (\<forall>k. (''ADC CH1 out of range: %d'', k) \<in> set (hw_log s) \<longrightarrow>
        (\<exists>v \<in> set vs. k = [uint v] \<and> \<not> in_limits REG_ADC_CH1_max REG_ADC_CH1_min v))"
  using ch1.alarms [OF assms] by simp

text \<open>
  C30. The messages about the tamper contact in the log are exactly the changes from 0 to 1 and from
  1 to 0 between consecutive samples, in order, over any run of the daemon in which no client writes
  (a write to the register would end its monitoring); the first sample is compared with 0xFF and
  never reported, nor is a change to or from any other value.
\<close>

theorem tamper_log_is_changes:
  assumes "hw_run xs hw_init = Running s" "list_all step_ok xs" "list_all reads_only xs"
    "map (\<lambda>v. v ! 0) (samples 7 xs hw_init) = vs"
  shows "filter (\<lambda>m. fst m \<in> {''TAMPER changed to Close'' @ [NL], ''TAMPER changed to Open'' @ [NL]}) (hw_log s)
    = concat (map2 (edge_msg (''TAMPER changed to Close'' @ [NL]) (''TAMPER changed to Open'' @ [NL])) (0xFF # vs) vs)"
  by (rule tamper.changes [OF assms])

text \<open>
  C37. The temperature sensor never raises an alarm: in every reachable state the handler's
  reference is still its initial value, for which nothing is reported, and no message about the
  temperature has been logged, whatever the sensor measured and whatever clients wrote.
\<close>

theorem sht_temperature_never_reported:
  assumes "hw_reachable s"
  shows "shtTemper_prevValue (statics s) = 0xFFFF \<and> reported Handler_SHT_TEMPERATURE s = []"
proof -
  let ?P = "\<lambda>p l. shtTemper_prevValue p = 0xFFFF \<and> filter (\<lambda>m. fst m \<in> set (texts Handler_SHT_TEMPERATURE)) l = []"
  have "?P (statics s) (hw_log s)"
  proof (rule reachable_statics [OF assms])
    show "?P prevs_init []" by (simp add: prevs_init_def)
  next
    fix h v junk s e s'
    assume c: "call_handler h v junk s = Some (e, s')" and P: "?P (statics s) (hw_log s)"
    show "?P (statics s') (hw_log s')"
    proof (cases "h = Handler_SHT_TEMPERATURE")
      case True
      have "check_out_of_range a 0xFFFF mx mn \<noteq> I2C_OVER_MAX \<and> check_out_of_range a 0xFFFF mx mn \<noteq> I2C_LESS_MIN" for a mx mn
        by (simp add: check_out_of_range_def Let_def)
      with c P True show ?thesis
        by (auto simp: handler_SHT_TEMPERATURE_def Let_def split: option.splits if_splits
            elim!: i2c_getData_frame)
    next
      case False
      from call_handler_only_reports [OF c] have "only_reports h s s'" .
      with False reported_other [OF this False] P show ?thesis
        by (fastforce simp: only_reports_def reported_def)
    qed
  qed
  then show ?thesis by (simp add: reported_def)
qed

text \<open>
  C32. No handler sees any register but its own: with the same references and log, and the same
  contents of its uninitialised local structure, a handler does the same whatever the table holds.
  So the question whether a sensor or transceiver is present is answered by what the stack happens
  to hold.
\<close>

theorem handlers_ignore_other_registers:
  assumes "table_ok s" "table_ok t" "statics t = statics s" "hw_log t = hw_log s"
  shows "effect (call_handler h v junk t) = effect (call_handler h v junk s)"
proof -
  note get = getData_short [OF assms(1)] getData_short [OF assms(2)] assms(3,4)
  have ok: "table_ok (upd_statics f s)" "table_ok (upd_statics f t)" for f
    using assms(1,2) by (simp_all add: table_ok_def)
  note get_upd = getData_short [OF ok(1)] getData_short [OF ok(2)]
  show ?thesis
    by (cases h) (auto simp: handler_defs Let_def get get_upd)
qed

text \<open>
  C31. A dump of at most 1000 octets in which every register occurs once is read without failure,
  and stores every value of less than 32 octets at the front of its entry. A value of 32 octets or
  more changes nothing, and the other members of the table never change.
\<close>

theorem dump_stores_values:
  assumes "table_ok s" "ms \<noteq> []" "list_all (sendable sock_msgArr_init) ms" "distinct (map fst ms)"
    "length (tlv_bytes ms) \<le> 1000"
  shows "\<exists>s'. read_dump reg (of_nat (length (tlv_bytes ms))) (Some ((!) (tlv_bytes ms))) s = Some (0, s')
    \<and> sock_msgArr s' = foldl put_value (sock_msgArr s) ms
    \<and> (\<forall>(a, v) \<in> set ms. \<exists>i. get_id_by_addr (ucast a) (sock_msgArr s') = Some i
        \<and> d_value (sock_msgArr s' ! i) =
            (if length v < 32 then v @ drop (length v) (d_value (sock_msgArr s ! i))
             else d_value (sock_msgArr s ! i)))"
  by (rule read_dump_stores [OF assms])


text \<open>
  C36. Setting a register with the control program removes it from the monitoring. Suppose every
  entry of the table still has its handler or, after earlier settings, none (so other clients have
  put no pointer anywhere). After the setting, and after any steps in which no client writes, no
  entry has the register's handler, so that it is never called, and nothing has been reported for
  it, whatever the register holds. What is supposed of the entries then still holds, so this applies
  to every setting in turn.
\<close>

theorem set_ends_monitoring:
  assumes "hw_reachable s" "only_cleared s"
    "entry_by_name n sock_msgArr_init = Some x" "n \<noteq> []" "d_eventsHandler x = Fn h"
    "data_ok (fst junk)" "ctrl_run [n, ''set'', v] junk s = Some (t, s1)"
    "hw_run xs s1 = Running s2" "list_all step_ok xs" "list_all reads_only xs"
  shows "Fn h \<notin> set (handlers s2) \<and> reported h s2 = reported h s \<and> only_cleared s2"
proof -
  have ok: "table_ok s" using assms(1) by (rule reachable_table_ok)
  from register_place [OF assms(3,4)] obtain i where i: "i < 107" "sock_msgArr_init ! i = x"
    "get_id_by_addr (d_addr x) sock_msgArr_init = Some i" by blast
  from ctrl_set_effect [OF ok assms(3,4,6) i(3) assms(7)] obtain w where
    w: "d_addr w = d_addr x" "data_ok w" "d_eventsHandler w = Null"
    and s1: "s1 = s\<lparr>write_data := w, write_flag := True, sock_msgArr := (sock_msgArr s)[i := w]\<rparr>" .
  have len: "i < length (sock_msgArr s)" using i(1) length_table [OF ok] by simp
  have "map d_addr ((sock_msgArr s)[i := w]) = map d_addr (sock_msgArr s)"
    using w(1) get_id_by_addr_SomeD [of "d_addr x" "sock_msgArr s" i] i(3) get_id_init [OF ok]
    by (simp add: map_update list_update_same_conv len)
  with ok w(2) have ok1: "table_ok s1"
    by (auto simp: s1 table_ok_def dest!: set_update_subset_insert [THEN subsetD])
  have h: "handlers s1 = map d_eventsHandler ((sock_msgArr s)[i := w])" by (simp add: s1 handlers_def)
  have gone: "Fn h \<notin> set (handlers s1)"
  proof
    assume "Fn h \<in> set (handlers s1)"
    then obtain j where j: "j < length (sock_msgArr s)" "d_eventsHandler ((sock_msgArr s)[i := w] ! j) = Fn h"
      by (auto simp: h in_set_conv_nth)
    with w(3) have ne: "j \<noteq> i" by auto
    with j only_cleared_handler [OF assms(2) j(1)] have "d_eventsHandler (sock_msgArr_init ! j) = Fn h" by simp
    with unique_pointer [OF handlers_distinct, of j i h] ne i(1,2) j(1) assms(5) length_table [OF ok] length_init
    show False by simp
  qed
  have "handlers s2 = handlers s1" by (rule handlers_run [OF assms(8) ok1 assms(9,10)])
  with gone h only_cleared_update [OF assms(2) w(3), of s2 i] show ?thesis
    using unmonitored_run [OF assms(8) gone ok1 assms(9,10)] by (simp add: s1 reported_def)
qed

text \<open>
  C33. What setting a register leads to at the next pass of the main thread in which no timer has
  expired: for a register of at most 8 octets the value modulo 256, followed by zeros, is sent to the
  microcontroller; for a longer one the message does not fit its array of 10 octets.
\<close>

theorem set_reaches_the_bus:
  assumes "hw_reachable s" "main_up s" "entry_by_name n sock_msgArr_init = Some x" "n \<noteq> []"
    "data_ok (fst junk)" "ctrl_run [n, ''set'', v] junk s = Some (t, s1)"
    "\<not> timer_expired (hi_prio_timer s) (e_hi e)" "\<not> timer_expired (low_prio_timer s) (e_low e)"
  shows "if 8 < unat (d_lenData x) then hw_next (Main_pass e) s1 = Undefined
    else \<exists>s2. hw_next (Main_pass e) s1 = Running s2 \<and> write_flag s2 = False
      \<and> bus s2 = bus s @ [ucast (d_addr x) # d_lenData x
          # take (unat (d_lenData x)) (of_int (strtol v) # replicate 7 0)]"
proof -
  have ok: "table_ok s" using assms(1) by (rule reachable_table_ok)
  from register_place [OF assms(3,4)] obtain i where i:
    "get_id_by_addr (d_addr x) sock_msgArr_init = Some i" by blast
  from ctrl_set_effect [OF ok assms(3-5) i assms(6)] obtain w where
    w: "d_addr w = d_addr x" "d_lenData w = d_lenData x"
      "d_value w = of_int (strtol v) # replicate 11 0 @ drop 12 (d_value (fst junk))"
    and s1: "s1 = s\<lparr>write_data := w, write_flag := True, sock_msgArr := (sock_msgArr s)[i := w]\<rparr>" .
  have val: "take k (d_value w) = take k (of_int (strtol v) # replicate 7 0)" if "k \<le> 8" for k
    using that by (simp add: w(3) take_Cons' take_append)
  have none: "\<not> MAX_I2C_ERROR < (0 :: u8)" by simp
  show ?thesis
  proof (cases "8 < unat (d_lenData x)")
    case True
    with assms(2,7,8) show ?thesis
      by (simp add: mainHandler_def read_i2c_def s1 Let_def write_buffer_def w)
  next
    case False
    with assms(2,7,8) val [of "unat (d_lenData x)"] show ?thesis
      by (simp add: mainHandler_def read_i2c_def s1 Let_def write_buffer_def w(1,2))
  qed
qed

text \<open>
  C38. Reading a register with the control program prints the first 12 octets of the value the
  daemon holds for it, as the kind of register demands; the rest of a longer value is lost. The
  daemon's log and references do not change.
\<close>

theorem get_prints_twelve_octets:
  assumes "hw_reachable s" "entry_by_name n sock_msgArr_init = Some x" "n \<noteq> []"
    "data_ok (fst junk)" "data_ok (snd junk)" "get_id_by_addr (d_addr x) (sock_msgArr s) = Some i"
  shows "\<exists>s'. ctrl_run [n, ''get''] junk s =
      Some (print_response ((sock_msgArr s ! i)\<lparr>d_value := take 12 (d_value (sock_msgArr s ! i)) @ replicate 20 0\<rparr>), s')
    \<and> statics s' = statics s \<and> hw_log s' = hw_log s"
proof -
  have ok: "table_ok s" using assms(1) by (rule reachable_table_ok)
  from assms(6) have "get_id_by_addr (d_addr x) sock_msgArr_init = Some i"
    using get_id_init [OF ok] by simp
  from ctrl_get [OF ok assms(2-5) this] show ?thesis
    by (auto simp: silent_def)
qed

text \<open>
  C35. A client chooses what the daemon calls: a write to any register of the table stores the
  pointer of the message as the handler of its entry, and the next call of the handlers jumps there.
  With a pointer to none of the handlers the daemon does not survive the pass.
\<close>

theorem client_chooses_handler:
  assumes "hw_reachable s" "data_ok junk1" "data_ok junk2" "data_ok m" "d_opcode m = I2C_OPCODE_WRITE"
    "get_id_by_addr (d_addr m) sock_msgArr_init = Some i"
  shows "\<exists>s1. clientHandler (Read_ok m) junk1 junk2 s = Some (SOCKET_READ_OK, s1)
    \<and> d_eventsHandler (sock_msgArr s1 ! i) = d_eventsHandler m
    \<and> ((\<exists>a. d_eventsHandler m = Wild a) \<longrightarrow> i2c_events_handler junk s1 = None)"
proof -
  have ok: "table_ok s" using assms(1) by (rule reachable_table_ok)
  let ?w = "(memcpy_data junk1 m 60)\<lparr>d_lenMSG := 80\<rparr>"
  have w: "d_addr ?w = d_addr m" "d_eventsHandler ?w = d_eventsHandler m" "data_ok ?w"
    using assms(2,4) by (simp_all add: memcpy_data_fields)
  have i: "get_id_by_addr (d_addr m) (sock_msgArr s) = Some i" using assms(6) get_id_init [OF ok] by simp
  from get_id_by_addr_SomeD [OF this] have il: "i < length (sock_msgArr s)" by simp
  let ?s1 = "s\<lparr>write_data := ?w, write_flag := True, sock_msgArr := (sock_msgArr s)[i := ?w]\<rparr>"
  have set: "i2c_setData ?w (d_addr m) 80 s = Some ?s1"
    using il data_ok_entry [OF ok il] ok w(3)
    by (simp add: i2c_setData_def i Let_def upd_nth_def table_ok_def data_ok_def)
  then have c: "clientHandler (Read_ok m) junk1 junk2 s = Some (SOCKET_READ_OK, ?s1)"
    using assms(5) by (simp add: clientHandler_def receive_msg_def memcpy_data_fields Let_def)
  from setData_keeps [OF set ok w(3,1)] have ok1: "table_ok ?s1" by simp
  have h: "d_eventsHandler (sock_msgArr ?s1 ! i) = d_eventsHandler m" using il w(2) by simp
  have "i2c_events_handler junk ?s1 = None" if "d_eventsHandler m = Wild a" for a
    unfolding i2c_events_handler_def
    by (rule wild_pointer_called [OF ok1]) (use h that il in auto)
  with c h show ?thesis by blast
qed

subsection \<open>A sample run\<close>

text \<open>
  The main thread reads 3300 from the first converter and 0 from the tamper contact, later 3600 and
  1; the handlers are called after each.
\<close>

definition sample_dump :: "u8 \<Rightarrow> u8 \<Rightarrow> u8 \<Rightarrow> (u8 \<times> u8 list) list" where
  "sample_dump a b c = [(4, [a, b]), (10, [c])]"

definition sample_env :: "u32 \<Rightarrow> (u8 \<times> u8 list) list \<Rightarrow> main_env" where
  "sample_env t ms = \<lparr>e_hi = t, e_low = t, e_set = t, e_io = Some ((!) (tlv_bytes ms)), e_write = True,
     e_gpio = \<lparr>g_chip = True, g_line = True, g_request = 0, g_level = 0\<rparr>\<rparr>"

definition sample_start :: "hw_step list" where
  "sample_start = [Main_open True 0 0 (Some ((!) [7, 0])) (Some ((!) [0, 0])), Events_start 0]"

definition sample_steps :: "hw_step list" where
  "sample_steps = sample_start @
    [Main_pass (sample_env 3 (sample_dump 0xE4 0x0C 0)), Events_pass 3 (\<lambda>_. zero_data),
     Main_pass (sample_env 6 (sample_dump 0x10 0x0E 1)), Events_pass 6 (\<lambda>_. zero_data)]"

lemma sample_places:
  "list_all (\<lambda>(a, i). get_id_by_addr a sock_msgArr_init = Some i) [(4, 4), (10, 7)]"
  by code_simp

lemma sample_dump_stored:
  assumes "table_ok s"
  shows "take 2 (d_value (foldl put_value (sock_msgArr s) (sample_dump a b c) ! 4)) = [a, b]"
    "take 1 (d_value (foldl put_value (sock_msgArr s) (sample_dump a b c) ! 7)) = [c]"
    "list_all (sendable sock_msgArr_init) (sample_dump a b c)"
proof -
  let ?ms = "sample_dump a b c"
  from sample_places have p: "get_id_by_addr 4 sock_msgArr_init = Some 4" "get_id_by_addr 10 sock_msgArr_init = Some 7"
    by simp_all
  then have mem: "4 \<in> d_addr ` set sock_msgArr_init" "10 \<in> d_addr ` set sock_msgArr_init"
    by (metis get_id_by_addr_None option.distinct(1))+
  then show send: "list_all (sendable sock_msgArr_init) ?ms"
    by (simp add: sample_dump_def sendable_def)
  have "map d_addr (sock_msgArr s) = map d_addr sock_msgArr_init" using assms by (simp add: table_ok_def)
  from sendable_cong [OF this] send have "list_all (sendable (sock_msgArr s)) ?ms"
    by (simp add: list_all_iff)
  from fold_put_values [OF this] have v: "\<forall>(a, v) \<in> set ?ms. \<exists>i. get_id_by_addr (ucast a) (foldl put_value (sock_msgArr s) ?ms) = Some i
    \<and> d_value (foldl put_value (sock_msgArr s) ?ms ! i) =
        (if length v < 32 then v @ drop (length v) (d_value (sock_msgArr s ! i)) else d_value (sock_msgArr s ! i))"
    by (simp add: sample_dump_def)
  have g: "get_id_by_addr a (foldl put_value (sock_msgArr s) ?ms) = get_id_by_addr a sock_msgArr_init" for a
    by (rule get_id_by_addr_cong) (use assms in \<open>simp add: map_addr_fold_put table_ok_def\<close>)
  have m: "(4, [a, b]) \<in> set ?ms" "(10, [c]) \<in> set ?ms" by (simp_all add: sample_dump_def)
  from bspec [OF v m(1)] p g show "take 2 (d_value (foldl put_value (sock_msgArr s) ?ms ! 4)) = [a, b]"
    by simp
  from bspec [OF v m(2)] p g show "take 1 (d_value (foldl put_value (sock_msgArr s) ?ms ! 7)) = [c]"
    by simp
qed

lemma sample_begin:
  obtains s where "hw_run sample_start hw_init = Running s" "table_ok s"
    "handlers s = map d_eventsHandler sock_msgArr_init" "main_up s" "events_up s" "hi_prio_len s = 7"
    "hi_prio_timer s = timer_set 0 3" "low_prio_timer s = timer_set 0 0" "events_timer s = timer_set 0 3"
    "hw_reachable s"
proof -
  have "\<exists>s. hw_run sample_start hw_init = Running s \<and> main_up s \<and> events_up s \<and> hi_prio_len s = 7
      \<and> hi_prio_timer s = timer_set 0 3 \<and> low_prio_timer s = timer_set 0 0 \<and> events_timer s = timer_set 0 3
      \<and> sock_msgArr s = sock_msgArr_init"
    by (simp add: sample_start_def hw_init_def open_i2c_def read_buffer_def raw_len_def Let_def
        upt_rec)
  then obtain s where s: "hw_run sample_start hw_init = Running s" "main_up s" "events_up s"
    "hi_prio_len s = 7" "hi_prio_timer s = timer_set 0 3" "low_prio_timer s = timer_set 0 0"
    "events_timer s = timer_set 0 3" "sock_msgArr s = sock_msgArr_init" by blast
  have "list_all step_ok sample_start" by (simp add: sample_start_def)
  from hw_reachable_run [OF hw_reachable.start this s(1)] have "hw_reachable s" .
  with s reachable_table_ok [OF this] show thesis by (intro that [of s]) (simp_all add: handlers_def)
qed

lemma sample_fields:
  "length (tlv_bytes (sample_dump a b c)) = 7" "distinct (map fst (sample_dump a b c))"
  "sample_dump a b c \<noteq> []" "list_all step_ok sample_steps" "list_all reads_only sample_steps"
  by (simp_all add: sample_dump_def sample_steps_def sample_start_def data_ok_def zero_data_def)

text \<open>Reading a dump and calling the handlers, at a time when both timers have expired.\<close>

lemma sample_round:
  assumes "table_ok s" "handlers s = map d_eventsHandler sock_msgArr_init" "main_up s" "events_up s"
    "hi_prio_len s = 7" "timer_expired (hi_prio_timer s) t" "timer_expired (events_timer s) t"
  obtains s' where
    "hw_run [Main_pass (sample_env t (sample_dump a b c)), Events_pass t (\<lambda>_. zero_data)] s = Running s'"
    "table_ok s'" "handlers s' = map d_eventsHandler sock_msgArr_init" "main_up s'" "events_up s'"
    "hi_prio_len s' = 7" "hi_prio_timer s' = timer_set t 3" "events_timer s' = timer_reset (events_timer s)"
    "map get_16bitValue (samples 4 [Main_pass (sample_env t (sample_dump a b c)), Events_pass t (\<lambda>_. zero_data)] s)
       = [get_16bitValue [a, b]]"
    "map (\<lambda>v. v ! 0) (samples 7 [Main_pass (sample_env t (sample_dump a b c)), Events_pass t (\<lambda>_. zero_data)] s)
       = [c]"
proof -
  let ?e = "sample_env t (sample_dump a b c)"
  from sample_dump_stored(1,2) [OF assms(1)] have val:
    "take 2 (d_value (foldl put_value (sock_msgArr s) (sample_dump a b c) ! 4)) = [a, b]"
    "take 1 (d_value (foldl put_value (sock_msgArr s) (sample_dump a b c) ! 7)) = [c]" .
  have "hi_prio_len s = of_nat (length (tlv_bytes (sample_dump a b c)))" "timer_expired (hi_prio_timer s) (e_hi ?e)"
    "e_io ?e = Some ((!) (tlv_bytes (sample_dump a b c)))" "length (tlv_bytes (sample_dump a b c)) \<le> 1000"
    using assms(5,6) by (simp_all add: sample_fields sample_env_def)
  from main_pass_dump [OF assms(1,3) this(2,1,3) sample_fields(3) sample_dump_stored(3) [OF assms(1)]
      sample_fields(2) this(4)]
  obtain s1 where s1: "hw_next (Main_pass ?e) s = Running s1"
    "sock_msgArr s1 = foldl put_value (sock_msgArr s) (sample_dump a b c)" "table_ok s1" "silent s s1"
    "hi_prio_timer s1 = timer_set (e_set ?e) 3" "hi_prio_len s1 = hi_prio_len s"
    "main_up s1" "events_up s1 = events_up s" "events_timer s1 = events_timer s" .
  from s1 assms have e: "handlers s1 = map d_eventsHandler sock_msgArr_init" "events_up s1"
    "timer_expired (events_timer s1) t" by (simp_all add: silent_def)
  from events_pass [OF s1(3) e, of "\<lambda>_. zero_data"] obtain s2 where
    s2: "hw_next (Events_pass t (\<lambda>_. zero_data)) s1 = Running s2" "table_ok s2"
      "handlers s2 = map d_eventsHandler sock_msgArr_init" "same_bus s1 s2" "hi_prio_len s2 = hi_prio_len s1"
      "events_up s2" "events_timer s2 = timer_reset (events_timer s1)" .
  have smp: "samples i [Main_pass ?e, Events_pass t (\<lambda>_. zero_data)] s = [d_value (sock_msgArr s1 ! i)]" for i
    by (simp only: samples.simps hw_step.case s1(1) s2(1) hw_result.case) (simp add: e(2,3))
  have get: "get_16bitValue w = get_16bitValue [a, b]" if "take 2 w = [a, b]" for w
  proof -
    from that have "w ! 0 = [a, b] ! 0" "w ! 1 = [a, b] ! 1" by (metis nth_take zero_less_numeral one_less_numeral_iff semiring_norm(76))+
    then show ?thesis by (simp add: get_16bitValue_def)
  qed
  have fst: "w ! 0 = c" if "take 1 w = [c]" for w :: "u8 list"
    using that by (metis nth_Cons_0 nth_take zero_less_one)
  have run: "hw_run [Main_pass ?e, Events_pass t (\<lambda>_. zero_data)] s = Running s2"
    by (simp only: hw_run.simps s1(1) s2(1) hw_result.case)
  show thesis
    by (rule that [OF run s2(2,3)])
      (use s1 s2 assms(5) get [OF val(1)] fst [OF val(2)] in
        \<open>simp_all only: smp s1(2) list.map, simp_all add: same_bus_def sample_env_def\<close>)
qed

lemma samples_append:
  "samples i (xs @ ys) s = samples i xs s
     @ (case hw_run xs s of Running s' \<Rightarrow> samples i ys s' | _ \<Rightarrow> [])"
  by (induction xs arbitrary: s) (auto split: hw_result.splits)

lemma sample_start_samples: "samples i sample_start s = []"
  by (simp add: sample_start_def split: hw_result.splits)

lemma sample_hw_run:
  obtains s where "hw_run sample_steps hw_init = Running s"
    "map get_16bitValue (samples 4 sample_steps hw_init) = [3300, 3600]"
    "map (\<lambda>v. v ! 0) (samples 7 sample_steps hw_init) = [0, 1]" "hw_reachable s"
    "handlers s = map d_eventsHandler sock_msgArr_init"
proof -
  obtain s0 where s0: "hw_run sample_start hw_init = Running s0" "table_ok s0"
    "handlers s0 = map d_eventsHandler sock_msgArr_init" "main_up s0" "events_up s0" "hi_prio_len s0 = 7"
    "hi_prio_timer s0 = timer_set 0 3" "events_timer s0 = timer_set 0 3"
    by (rule sample_begin)
  have "timer_expired (hi_prio_timer s0) 3" "timer_expired (events_timer s0) 3"
    by (simp_all add: s0 timer_expired_def timer_set_def)
  from sample_round [OF s0(2-6) this, of "0xE4" "0x0C" 0] obtain s1 where s1:
    "hw_run [Main_pass (sample_env 3 (sample_dump 0xE4 0x0C 0)), Events_pass 3 (\<lambda>_. zero_data)] s0 = Running s1"
    "table_ok s1" "handlers s1 = map d_eventsHandler sock_msgArr_init" "main_up s1" "events_up s1"
    "hi_prio_len s1 = 7" "hi_prio_timer s1 = timer_set 3 3" "events_timer s1 = timer_reset (events_timer s0)"
    "map get_16bitValue (samples 4 [Main_pass (sample_env 3 (sample_dump 0xE4 0x0C 0)), Events_pass 3 (\<lambda>_. zero_data)] s0)
       = [get_16bitValue [0xE4, 0x0C]]"
    "map (\<lambda>v. v ! 0) (samples 7 [Main_pass (sample_env 3 (sample_dump 0xE4 0x0C 0)), Events_pass 3 (\<lambda>_. zero_data)] s0)
       = [0]" .
  have "timer_expired (hi_prio_timer s1) 6" "timer_expired (events_timer s1) 6"
    by (simp_all add: s0 s1 timer_expired_def timer_set_def timer_reset_def)
  from sample_round [OF s1(2-6) this, of "0x10" "0x0E" 1] obtain s2 where s2:
    "hw_run [Main_pass (sample_env 6 (sample_dump 0x10 0x0E 1)), Events_pass 6 (\<lambda>_. zero_data)] s1 = Running s2"
    "handlers s2 = map d_eventsHandler sock_msgArr_init"
    "map get_16bitValue (samples 4 [Main_pass (sample_env 6 (sample_dump 0x10 0x0E 1)), Events_pass 6 (\<lambda>_. zero_data)] s1)
       = [get_16bitValue [0x10, 0x0E]]"
    "map (\<lambda>v. v ! 0) (samples 7 [Main_pass (sample_env 6 (sample_dump 0x10 0x0E 1)), Events_pass 6 (\<lambda>_. zero_data)] s1)
       = [1]" .
  have vals: "get_16bitValue [0xE4, 0x0C] = 3300" "get_16bitValue [0x10, 0x0E] = 3600"
    by (simp_all add: get_16bitValue_def)
  have steps: "sample_steps = sample_start
      @ [Main_pass (sample_env 3 (sample_dump 0xE4 0x0C 0)), Events_pass 3 (\<lambda>_. zero_data)]
      @ [Main_pass (sample_env 6 (sample_dump 0x10 0x0E 1)), Events_pass 6 (\<lambda>_. zero_data)]"
    by (simp add: sample_steps_def)
  have run: "hw_run sample_steps hw_init = Running s2"
    unfolding steps hw_run_append s0(1) hw_result.case s1(1) s2(1) ..
  have smp: "samples i sample_steps hw_init =
      samples i [Main_pass (sample_env 3 (sample_dump 0xE4 0x0C 0)), Events_pass 3 (\<lambda>_. zero_data)] s0
      @ samples i [Main_pass (sample_env 6 (sample_dump 0x10 0x0E 1)), Events_pass 6 (\<lambda>_. zero_data)] s1" for i
    unfolding steps samples_append s0(1) hw_result.case s1(1) sample_start_samples append_Nil ..
  from hw_reachable_run [OF hw_reachable.start sample_fields(4) run] have "hw_reachable s2" .
  then show thesis
    by (intro that [OF run]) (simp_all only: smp map_append s1(9,10) s2(2-4) vals append.simps)
qed

subsection \<open>Witnesses\<close>

lemma adc_out_of_range_reported_witness:
  "\<exists>s. hw_run sample_steps hw_init = Running s \<and> (\<exists>n. \<bar>3600 - uint n\<bar> \<le> 10
    \<and> (n = 3300 \<or> in_limits REG_ADC_CH1_max REG_ADC_CH1_min n
      \<or> (''ADC CH1 out of range: %d'', [uint n]) \<in> set (hw_log s)))"
proof -
  obtain s where s: "hw_run sample_steps hw_init = Running s"
    "map get_16bitValue (samples 4 sample_steps hw_init) = [3300, 3600]"
    by (rule sample_hw_run)
  from adc_out_of_range_reported [OF s(1) sample_fields(4,5) s(2)] s(1) show ?thesis by simp
qed

lemma tamper_log_is_changes_witness:
  "\<exists>s. hw_run sample_steps hw_init = Running s
    \<and> filter (\<lambda>m. fst m \<in> {''TAMPER changed to Close'' @ [NL], ''TAMPER changed to Open'' @ [NL]}) (hw_log s)
      = [(''TAMPER changed to Close'' @ [NL], [])]"
proof -
  obtain s where s: "hw_run sample_steps hw_init = Running s"
    "map (\<lambda>v. v ! 0) (samples 7 sample_steps hw_init) = [0, 1]"
    by (rule sample_hw_run)
  from tamper_log_is_changes [OF s(1) sample_fields(4,5) s(2)] s(1) show ?thesis
    by (simp add: edge_msg_def)
qed

lemma sht_temperature_never_reported_witness:
  "\<exists>s. hw_run sample_steps hw_init = Running s \<and> reported Handler_SHT_TEMPERATURE s = []"
proof -
  obtain s where s: "hw_run sample_steps hw_init = Running s" "hw_reachable s"
    by (rule sample_hw_run)
  from sht_temperature_never_reported [OF s(2)] s(1) show ?thesis by simp
qed

lemma handlers_ignore_other_registers_witness:
  "effect (call_handler Handler_SFP1_VOLTAGE [0xA0, 0x0F] zero_data
      (hw_init\<lparr>sock_msgArr := upd_nth 39 (d_value_update (\<lambda>_. replicate 32 1)) sock_msgArr_init\<rparr>))
    = effect (call_handler Handler_SFP1_VOLTAGE [0xA0, 0x0F] zero_data hw_init)"
proof -
  have "table_ok (hw_init\<lparr>sock_msgArr := upd_nth 39 (d_value_update (\<lambda>_. replicate 32 1)) sock_msgArr_init\<rparr>)"
    using table_ok_init
    by (auto simp: table_ok_def hw_init_def map_upd_nth_same data_ok_def dest!: in_set_upd_nthD)
  then show ?thesis
    by (rule handlers_ignore_other_registers [OF table_ok_init]) simp_all
qed

lemma dump_stores_values_witness:
  "\<exists>s'. read_dump 141 7 (Some ((!) (tlv_bytes (sample_dump 0xE4 0x0C 1)))) hw_init = Some (0, s')
    \<and> sock_msgArr s' = foldl put_value (sock_msgArr hw_init) (sample_dump 0xE4 0x0C 1)"
  using dump_stores_values [OF table_ok_init sample_fields(3) sample_dump_stored(3) [OF table_ok_init]
      sample_fields(2), of "0xE4" "0x0C" 1 141]
  by (auto simp: sample_fields)

text \<open>Three passes while the bus fails: both dumps fail, then neither timer has expired.\<close>

definition failing_env :: main_env where
  "failing_env = (sample_env 3 [])\<lparr>e_io := None\<rparr>"

lemma failing_run:
  obtains s where "hw_run (sample_start @ [Main_pass failing_env, Main_pass failing_env]) hw_init = Running s"
    "errorCount s = 2" "main_up s" "hi_prio_timer s = timer_set 3 3" "low_prio_timer s = timer_set 3 30"
    "hw_reachable s"
proof -
  let ?xs = "sample_start @ [Main_pass failing_env, Main_pass failing_env]"
  have "\<exists>s. hw_run ?xs hw_init = Running s \<and> errorCount s = 2 \<and> main_up s
      \<and> hi_prio_timer s = timer_set 3 3 \<and> low_prio_timer s = timer_set 3 30"
    by (simp add: sample_start_def hw_init_def open_i2c_def read_buffer_def raw_len_def Let_def upt_rec
        failing_env_def sample_env_def mainHandler_def read_i2c_def read_dump_def timer_expired_def
        timer_set_def zero_timer_def)
  then obtain s where s: "hw_run ?xs hw_init = Running s" "errorCount s = 2" "main_up s"
    "hi_prio_timer s = timer_set 3 3" "low_prio_timer s = timer_set 3 30" by blast
  have "list_all step_ok ?xs" by (simp add: sample_start_def)
  from hw_reachable_run [OF hw_reachable.start this s(1)] s show thesis by (intro that [of s]) simp_all
qed


text \<open>Registers by name, and commands with structures of the right size.\<close>

lemma sample_registers:
  "map_option (\<lambda>x. (d_addr x, d_lenData x, d_eventsHandler x)) (entry_by_name ''tamper'' sock_msgArr_init)
     = Some (10, 1, Fn Handler_TAMPER)"
  "map_option (\<lambda>x. (d_addr x, d_lenData x)) (entry_by_name ''DEFAULT_LED'' sock_msgArr_init) = Some (15, 1)"
  "map_option (\<lambda>x. (d_addr x, d_lenData x)) (entry_by_name ''SHT_TYPE'' sock_msgArr_init) = Some (51, 10)"
  "map_option (\<lambda>x. (d_addr x, d_lenData x)) (entry_by_name ''HW_VERS'' sock_msgArr_init) = Some (2, 1)"
  by code_simp+

lemma sample_number: "strtol ''1'' = 1"
  by code_simp

lemma ok_zero: "data_ok zero_data"
  by (simp add: data_ok_def zero_data_def)

text \<open>A command that sets a register is always carried out.\<close>

lemma ctrl_set_defined:
  assumes "table_ok s" "entry_by_name n sock_msgArr_init = Some x" "n \<noteq> []" "data_ok (fst junk)"
  obtains s1 where "ctrl_run [n, ''set'', v] junk s = Some (Some [], s1)"
proof -
  from register_place [OF assms(2,3)] obtain i where "get_id_by_addr (d_addr x) sock_msgArr_init = Some i"
    by blast
  from ctrl_set [OF assms this, of v] that show thesis by blast
qed

lemma set_ends_monitoring_witness:
  "\<exists>s t s1 s2. hw_run sample_steps hw_init = Running s
    \<and> ctrl_run [''tamper'', ''set'', ''1''] (zero_data, zero_data) s = Some (t, s1)
    \<and> hw_run [Client_pass Read_eof zero_data zero_data] s1 = Running s2
    \<and> reported Handler_TAMPER s2 = reported Handler_TAMPER s"
proof -
  obtain s where s: "hw_run sample_steps hw_init = Running s" "hw_reachable s"
    "handlers s = map d_eventsHandler sock_msgArr_init"
    by (rule sample_hw_run)
  then have cleared: "only_cleared s" by (simp add: only_cleared_def list_all2_same)
  from sample_registers(1) obtain x where x: "entry_by_name ''tamper'' sock_msgArr_init = Some x"
    "d_eventsHandler x = Fn Handler_TAMPER" by auto
  obtain s1 where c: "ctrl_run [''tamper'', ''set'', ''1''] (zero_data, zero_data) s = Some (Some [], s1)"
    by (rule ctrl_set_defined [OF reachable_table_ok [OF s(2)] x(1), of "(zero_data, zero_data)" "''1''"])
      (simp_all add: ok_zero)
  have r: "hw_run [Client_pass Read_eof zero_data zero_data] s1 = Running s1"
    by (simp add: clientHandler_def receive_msg_def of_option_def zero_data_def)
  have "Fn Handler_TAMPER \<notin> set (handlers s1) \<and> reported Handler_TAMPER s1 = reported Handler_TAMPER s
      \<and> only_cleared s1"
    by (rule set_ends_monitoring [OF s(2) cleared x(1) _ x(2) _ c r])
      (simp_all add: ok_zero receive_msg_def, simp add: zero_data_def)
  with s(1) c r show ?thesis by blast
qed

lemma set_reaches_the_bus_witness:
  "\<exists>s t s1 s2. hw_reachable s \<and> ctrl_run [''DEFAULT_LED'', ''set'', ''1''] (zero_data, zero_data) s = Some (t, s1)
    \<and> hw_next (Main_pass (sample_env 5 [])) s1 = Running s2 \<and> bus s2 = bus s @ [[15, 1, 1]]"
proof -
  obtain s where s: "main_up s" "hi_prio_timer s = timer_set 3 3" "low_prio_timer s = timer_set 3 30"
    "hw_reachable s" by (rule failing_run)
  from sample_registers(2) obtain x where x: "entry_by_name ''DEFAULT_LED'' sock_msgArr_init = Some x"
    "d_addr x = 15" "d_lenData x = 1" by auto
  obtain s1 where c: "ctrl_run [''DEFAULT_LED'', ''set'', ''1''] (zero_data, zero_data) s = Some (Some [], s1)"
    by (rule ctrl_set_defined [OF reachable_table_ok [OF s(4)] x(1), of "(zero_data, zero_data)" "''1''"])
      (simp_all add: ok_zero)
  have "\<not> timer_expired (hi_prio_timer s) (e_hi (sample_env 5 []))"
    "\<not> timer_expired (low_prio_timer s) (e_low (sample_env 5 []))"
    by (simp_all add: s timer_expired_def timer_set_def sample_env_def)
  from set_reaches_the_bus [OF s(4,1) x(1) _ _ c this] obtain s2 where
    "hw_next (Main_pass (sample_env 5 [])) s1 = Running s2" "bus s2 = bus s @ [[15, 1, 1]]"
    by (auto simp: ok_zero x sample_number)
  with s(4) c show ?thesis by blast
qed

lemma get_prints_twelve_octets_witness:
  "\<exists>s'. ctrl_run [''HW_VERS'', ''get''] (zero_data, zero_data) hw_init = Some (Some (''0'' @ [NL]), s')
    \<and> hw_log s' = []"
proof -
  from sample_registers(4) obtain x where x: "entry_by_name ''HW_VERS'' sock_msgArr_init = Some x"
    "d_addr x = 2" by auto
  have i: "get_id_by_addr 2 sock_msgArr_init = Some 2"
    by code_simp
  have e: "sock_msgArr_init ! 2 = entry 2 ''HW_VERS'' 1 TYPE_UINT 0 Null"
    by (simp add: sock_msgArr_init_def listed_registers_def)
  have p: "print_response ((entry 2 ''HW_VERS'' 1 TYPE_UINT 0 Null)\<lparr>d_value := take 12 (0 # replicate 31 0) @ replicate 20 0\<rparr>)
      = Some (''0'' @ [NL])"
    by code_simp
  have tbl: "sock_msgArr hw_init = sock_msgArr_init" "hw_log hw_init = []" by (simp_all add: hw_init_def)
  have v: "d_value (entry 2 ''HW_VERS'' 1 TYPE_UINT 0 Null) = 0 # replicate 31 0" by (simp add: entry_def)
  from get_prints_twelve_octets [OF hw_reachable.start x(1), of "(zero_data, zero_data)" 2]
  show ?thesis
    unfolding tbl x(2) e v p by (auto simp: ok_zero i)
qed

lemma client_chooses_handler_witness:
  "\<exists>s1. clientHandler (Read_ok (entry 15 [] 1 TYPE_UINT 0 (Wild 4096)\<lparr>d_opcode := I2C_OPCODE_WRITE\<rparr>))
      zero_data zero_data hw_init = Some (SOCKET_READ_OK, s1)
    \<and> i2c_events_handler (\<lambda>_. zero_data) s1 = None"
proof -
  let ?m = "entry 15 [] 1 TYPE_UINT 0 (Wild 4096)\<lparr>d_opcode := I2C_OPCODE_WRITE\<rparr>"
  have "get_id_by_addr 15 sock_msgArr_init = Some 12" by code_simp
  with client_chooses_handler [OF hw_reachable.start ok_zero ok_zero, of ?m 12 "\<lambda>_. zero_data"]
  show ?thesis by (auto simp: entry_def data_ok_def)
qed

end
