(* ===== verification/Spec2Isabelle.thy ===== *)
theory Spec2Isabelle
  imports MSTP_System MSTP_Quiescence AR_Settings PSE_Ports DM_Properties HW_Properties
begin

text \<open>
  A verification development for five daemons of the switch firmware: the multiple spanning tree
  daemon, \<^verbatim>\<open>src/tf_pack/mstpd/src\<close>, the automatic PoE restart daemon,
  \<^verbatim>\<open>src/tf_pack/tf_ar_poe\<close>, the PoE controller daemon,
  \<^verbatim>\<open>src/tf_pack/realtek-poe-tfortis\<close>, which carries out what the restart daemon asks for,
  the device monitor, \<^verbatim>\<open>src/tf_pack/tf_device_monitor\<close>, and the hardware daemon with its control
  program, \<^verbatim>\<open>src/tf_pack/tf_hwsys\<close>.

  The multiple spanning tree daemon.

  The program. \<^verbatim>\<open>mstp.c\<close> (with the types of \<^verbatim>\<open>mstp.h\<close>) is IEEE 802.1Q-2005 clause 13:
  for every bridge it keeps a list of trees (the CIST and the MSTIs), a list of ports and one
  per-tree port for every pair, and ten state machines on them. Kernel events, timers,
  frames and management requests enter through the functions \<^verbatim>\<open>MSTP_IN_...\<close>; each changes
  the data and calls \<open>br_state_machines_run\<close>, which runs all machines until none has
  anything to do. Results leave through \<^verbatim>\<open>MSTP_OUT_...\<close> of \<^verbatim>\<open>bridge_track.c\<close>, which
  tells the kernel about port states, flushes and ageing times and sends frames.
  \<^verbatim>\<open>hmac_md5.c\<close> computes the digest of the MST configuration.

  The model. A bridge is a record \<open>bridge_t\<close> with the lists of its trees and ports; a port
  \<open>port_t\<close> has the list of its \<open>per_tree_port_t\<close>, entry \<open>k\<close> for tree \<open>k\<close>. A pointer to a
  port or tree is its position in the list. Every C function is a definition of the same
  name which returns the changed structure; the calls to the kernel are appended to the
  port's \<open>outs\<close>. Integers are words of their width in C. Multi-octet fields of frames that C
  keeps in network order are words here, compared as numbers, which is what \<^verbatim>\<open>memcmp\<close> on the
  network order does. A loop of the C code over ports or trees is a fold over the positions.

  State machines. In C each machine \<^verbatim>\<open>X\<close> has a function \<^verbatim>\<open>X_run\<close>, which finds the
  transition that is due and calls the entry function \<^verbatim>\<open>X_to_Y\<close> of the new state, which
  calls \<^verbatim>\<open>X_run\<close> again unless a comment says that nothing can be due; with \<^verbatim>\<open>dry_run\<close> it
  only reports whether one is due, by branches of its own. Here \<open>X_step\<close> yields \<open>Stay\<close>, \<open>Enter t\<close> (the entry
  function re-runs the machine) or \<open>Last t\<close> (it does not), and \<open>sm_run\<close> of
  \<^verbatim>\<open>MSTP_Prelude\<close> iterates it as a \<open>partial_function\<close>: \<open>None\<close> is a run that never returns
  (in C, unbounded recursion), so that returning is something to be proved. \<open>X_run_dry\<close> are the branches of the dry run, proved to
  report exactly when \<open>X_step\<close> is not \<open>Stay\<close> (for Port Transmit: on an enabled port; for Topology
  Change: except for pending notifications in \<^verbatim>\<open>LEARNING\<close>). The locales
  \<open>sm_machine\<close> and \<open>sm_quiescent\<close> carry the invariant and termination proofs and are
  interpreted on every machine; \<open>framed_machine\<close> of \<^verbatim>\<open>MSTP_Frame\<close> says that a machine
  leaves the configuration alone. The clock read by \<open>br_state_machines_run\<close> to limit its
  passes to one second is the argument \<open>clk\<close>, the number of passes that fit, arbitrary in
  every theorem. Allocation is taken to succeed.

  The daemon around the protocol. \<^verbatim>\<open>bridge_track.c\<close> keeps the list \<^verbatim>\<open>bridges\<close> and, in the members
  \<^verbatim>\<open>sysdeps\<close>, number, address and state of the interfaces. \<open>mstpd\<close> is that list, a \<open>bridge_sys\<close> for each
  bridge with \<open>br_ifs\<close>, the \<^verbatim>\<open>sysdeps\<close> of its ports in their order, and \<open>protocol\<close>, the \<open>bridge_t\<close>.
  \<open>track_step\<close> is one call from the daemon's loop: a notification of the kernel
  (\<open>bridge_notify\<close>), a frame (\<open>packet_rcv\<close>), a second, the end, or a command of the control program
  (\<open>CTL_...\<close>); \<open>kernel\<close> is what the kernel answers meanwhile, another one in each step.
  \<open>mstpd_reachable\<close> takes steps in any order. What the daemon tracks, \<open>tracked\<close>, is the set of
  its bridges and the map from interfaces to bridges; \<open>spec_step\<close> says what each step does to it, and
  every step is shown to do just that.

  The automatic PoE restart daemon tests the device at each port (link, ping or speed), and
  switches its power off and on when tests fail, when an alarm is due or on command. All its
  threads work on one array \<open>portInfoArr\<close>, entry \<open>i\<close> for port \<open>i + 1\<close>: the test threads of
  \<^verbatim>\<open>test_module.c\<close> write error codes and events, the events thread of \<^verbatim>\<open>events_module.c\<close>
  runs per port a state machine (idle, regular, reboot) with a second one for the phases of a
  restart, and \<^verbatim>\<open>client_module.c\<close> answers commands. \<open>daemon\<close> is that array with the options
  and the list of requests made to the PoE controller. The functions are definitions of the same
  names over it; the clock, the state files and the answers of ubus are their arguments, and
  \<open>None\<close> is a null pointer or an access out of bounds. A handler's work on one port is one step
  \<open>daemon_next\<close>; \<open>daemon_reachable\<close> takes the steps of all threads in any order.

  The PoE controller daemon (\<^verbatim>\<open>main.c\<close>, one file) talks to a microcontroller over a
  serial line, in frames of 12 octets. Commands wait in \<open>cmd_pending\<close>; the one at the head has
  been sent, and its reply, or a pause the controller asks for, lets the next one go. \<open>pse\<close> is
  that queue with the octets received, the frames written so far and the state read from the
  controller; \<open>config\<close> is the configuration of the ports. \<open>pse_next\<close> is the reaction to an event:
  bytes, the end of a pause, the poll every two seconds, a reload or a request over ubus. The
  locale \<open>command_queue\<close> says what it takes for a property of the queue to survive everything that
  queues commands; it is interpreted for the invariant, for a queue that waits for a lost reply,
  and for the absence of certain commands.

  The device monitor answers requests in UDP datagrams: to find the switch, and to change its
  settings. \<^verbatim>\<open>state_handler.c\<close> is a state machine, one call of \<open>client_handler\<close> per
  state; \<^verbatim>\<open>run_CLIcmd.c\<close> and \<^verbatim>\<open>net_utils.c\<close> run scripts and move datagrams through one
  buffer; \<^verbatim>\<open>settings_module.c\<close> has the commands for settings. \<open>dm\<close> is the record of all its
  variables, with the datagrams sent and the command lines run so far; \<open>env\<close> is what the system
  answers during one call; \<^term>\<open>None\<close> is an access outside an array or through a null pointer.
  \<open>client_app\<close> is the loop over a list of such answers, and \<open>dm_reachable\<close> the states at its head.
  The locale \<open>loop_invariant\<close> says what an invariant of the loop has to satisfy; it is interpreted for
  the layout of the data, for the codes after the start, and for runs without a search.

  The hardware daemon reads dumps of the registers of a microcontroller into the table
  \<^verbatim>\<open>sock_msgArr\<close> of \<^verbatim>\<open>i2c_module.c\<close>, every 3 and every 30 seconds; every 3 seconds it calls the event
  handlers of \<^verbatim>\<open>events_handlers.c\<close> on the table, each of which compares its register with a
  reference and logs what it finds; and it lets clients read the table and write registers. The
  control program \<^verbatim>\<open>hwsys_ctrl.c\<close> is such a client, and drives GPIO lines itself. \<open>hw\<close> is the
  record of all variables with what has been logged, written to the bus and answered; a pass of one
  of the threads of \<^verbatim>\<open>main_app.c\<close> is a step \<open>hw_next\<close>, which gets what bus, clock and sockets do as an
  argument, and ends in \<open>Running\<close>, \<open>Exited\<close> or \<open>Undefined\<close>; \<open>hw_run\<close> is a sequence of passes in
  any order, \<open>hw_reachable\<close> the states they lead to. A structure given to clients is a record
  \<open>i2c_data\<close>, copied member by member: \<open>memcpy_data\<close> says which octets belong to which, for the
  target with pointers of 32 bits; local variables without a value are arguments called \<open>junk\<close>.
  The locale \<open>register_monitor\<close> is the contract between the passes and the handler of one register:
  what the handler reports is a function of the samples it has seen. \<open>range_register\<close> and
  \<open>edge_register\<close> extend it for handlers that compare with limits and that report changes; they are
  interpreted for five and seven registers.

  The theories, in order of dependence.
  \<^item> \<^verbatim>\<open>MSTP_Prelude\<close>: integer types, list updates, the state-machine interface.
  \<^item> \<^verbatim>\<open>MSTP_Types\<close>: the types, constants and macros of \<^verbatim>\<open>mstp.h\<close>.
  \<^item> \<^verbatim>\<open>MSTP_Vectors\<close>: comparison of priority vectors; it is the lexicographic order.
  \<^item> \<^verbatim>\<open>MSTP_State\<close>: access to the structures, path costs, the calls to the kernel.
  \<^item> \<^verbatim>\<open>MSTP_Procedures\<close>: the procedures of 13.26 (\<^verbatim>\<open>mstp.c\<close> 1640-2600, 2804-2860).
  \<^item> \<^verbatim>\<open>MSTP_Transmit\<close>: \<open>txConfig\<close>, \<open>txMstp\<close>, \<open>txTcn\<close> and the frames they build.
  \<^item> \<^verbatim>\<open>MSTP_PortMachines\<close>: Port Receive, Port Protocol Migration, Bridge Detection and
    Port Transmit; that they return and come to rest, and the transmit limit.
  \<^item> \<^verbatim>\<open>MSTP_PortInfo\<close>: Port Information, which always returns and comes to rest.
  \<^item> \<^verbatim>\<open>MSTP_Roles\<close>: \<open>updtRolesTree\<close> and Port Role Selection; the root is the best vector
    on offer, and the roles are those of 13.26.23.
  \<^item> \<^verbatim>\<open>MSTP_RoleTransitions\<close>, \<^verbatim>\<open>MSTP_RoleSafety\<close>: Port Role Transitions; what has to
    hold before a port forwards or agrees, that roles and states belong together, when the
    machine comes to rest, and a state of the Master role in which it does not return.
  \<^item> \<^verbatim>\<open>MSTP_StateMachines\<close>: Port State Transition and Topology Change, likewise.
  \<^item> \<^verbatim>\<open>MSTP_Bridge\<close>: timers, BEGIN, a pass over all machines, \<open>br_state_machines_run\<close>.
  \<^item> \<^verbatim>\<open>MSTP_Md5\<close>: MD5 and HMAC-MD5 in their streaming form, with the 32-bit indices and lengths of
    the code and \<^term>\<open>None\<close> for reading or writing beyond its objects, equal to the reference
    definitions of RFC 1321 and RFC 2104 over whole messages exactly where they do not wrap.
  \<^item> \<^verbatim>\<open>MSTP_Api\<close>, \<^verbatim>\<open>MSTP_Config\<close>: the entry points \<^verbatim>\<open>MSTP_IN_...\<close>.
  \<^item> \<^verbatim>\<open>MSTP_Frame\<close>: no machine changes the configuration, or which trees exist.
  \<^item> \<^verbatim>\<open>MSTP_Invariant\<close>: every history of calls keeps the bridge well formed.
  \<^item> \<^verbatim>\<open>MSTP_Exchange\<close>: a transmitted frame is valid, and is read as what was sent.
  \<^item> \<^verbatim>\<open>MSTP_Quiescence\<close>: what a dry pass that reports nothing says about an actual one.
  \<^item> \<^verbatim>\<open>MSTP_Track\<close>, \<^verbatim>\<open>MSTP_Control\<close>: the list of bridges, notifications and frames; the commands.
  \<^item> \<^verbatim>\<open>MSTP_Static\<close>, \<^verbatim>\<open>MSTP_Tracking\<close>, \<^verbatim>\<open>MSTP_Daemon\<close>, \<^verbatim>\<open>MSTP_Manage\<close>, \<^verbatim>\<open>MSTP_System\<close>: which
    entry points leave number of ports and state of a bridge alone; the invariant of the list; what
    notifications and commands do to what is tracked; all steps together, the simulation, and
    that a frame sent is a frame delivered.
  \<^item> \<^verbatim>\<open>AR_Types\<close>, \<^verbatim>\<open>AR_Text\<close>: the types of the PoE restart daemon; settings in JSON text,
    addresses, times and command lines.
  \<^item> \<^verbatim>\<open>AR_Port\<close>, \<^verbatim>\<open>AR_Config\<close>, \<^verbatim>\<open>AR_Events\<close>: \<^verbatim>\<open>port_module.c\<close>; \<^verbatim>\<open>init_module.c\<close>;
    events, tests, commands and their interleaving.
  \<^item> \<^verbatim>\<open>AR_Invariant\<close>: what holds of the ports however the threads interleave.
  \<^item> \<^verbatim>\<open>AR_Reboot\<close>: ports do not interfere, a restart is a power cycle, there are only so many,
    and what an interruption does to one.
  \<^item> \<^verbatim>\<open>AR_Settings\<close>: invalid alarm times, and counters beyond 32 bits.
  \<^item> \<^verbatim>\<open>PSE_Protocol\<close>, \<^verbatim>\<open>PSE_Setup\<close>: the queue, frames and replies of the PoE controller
    daemon; its configuration, the commands it queues, and requests.
  \<^item> \<^verbatim>\<open>PSE_Invariant\<close>, \<^verbatim>\<open>PSE_Properties\<close>: commands go out in order, one at a time and at most six
    times each; which replies are believed, which go out of bounds, and what a lost one does.
  \<^item> \<^verbatim>\<open>PSE_Ports\<close>: the setup reaches exactly the ports that are switched on.
  \<^item> \<^verbatim>\<open>DM_Types\<close>, \<^verbatim>\<open>DM_Info\<close>, \<^verbatim>\<open>DM_Settings\<close>, \<^verbatim>\<open>DM_Client\<close>: the data of the device
    monitor; what it reads, receives and sends; settings; its state machine, loop and options.
  \<^item> \<^verbatim>\<open>DM_Invariant\<close>, \<^verbatim>\<open>DM_Properties\<close>: what holds in every state; how searches and requests
    for settings are answered, and which of them lead outside the buffers or to the shell.
  \<^item> \<^verbatim>\<open>HW_Types\<close>, \<^verbatim>\<open>HW_Gpio\<close>, \<^verbatim>\<open>HW_Table\<close>: the registers and structures of the hardware daemon;
    GPIO lines; its variables, access to the table, dumps.
  \<^item> \<^verbatim>\<open>HW_Handlers\<close>, \<^verbatim>\<open>HW_Daemon\<close>, \<^verbatim>\<open>HW_Ctrl\<close>: the event handlers; timers, bus, clients and
    threads; the control program.
  \<^item> \<^verbatim>\<open>HW_Reports\<close>, \<^verbatim>\<open>HW_Invariant\<close>: what a handler may change and log; the layout of the table
    in every reachable state.
  \<^item> \<^verbatim>\<open>HW_Monitors\<close>, \<^verbatim>\<open>HW_Registers\<close>: the locales above and their interpretations.
  \<^item> \<^verbatim>\<open>HW_Bus\<close>, \<^verbatim>\<open>HW_Control\<close>, \<^verbatim>\<open>HW_Properties\<close>: dumps are stored, failures never add up to a
    reset; what reading and setting registers does; which changes are reported, and what clients
    can make the daemon do.

  Not modelled. Logging, except by the hardware daemon, whose log is its output. The control socket, netlink and sockets of mstpd
  (\<^verbatim>\<open>ctl_*.c\<close>, \<^verbatim>\<open>libnetlink.c\<close>, \<^verbatim>\<open>netif_utils.c\<close>, \<^verbatim>\<open>epoll_loop.c\<close>,
  \<^verbatim>\<open>brmon.c\<close>, \<^verbatim>\<open>main.c\<close>, and the sockets of \<^verbatim>\<open>packet.c\<close>), which only move data between the kernel and
  these functions. The rest of the repository: the
  vendor's switch SDK, kernel drivers, the web interface and its translations are generated,
  vendored or not C; the syslog daemon is a separate program. Of the PoE
  controller daemon: the global budget and the measurements as floating-point numbers, the reply to
  a request for information, and the set-up of the serial line. Of the device
  monitor: reading JSON text, which nothing calls, and what an access out of bounds does. Of the PoE
  restart daemon: sockets, threads and pipes, the JSON library, and what an
  overrun of one of its fixed buffers does (that of the alarm times is \<^term>\<open>None\<close>); steps of different threads that overlap within the
  work on one port are taken one after the other, and local time has a fixed offset. Of the
  hardware daemon: creating sockets and threads, and what an undefined access does; passes of
  different threads are taken one after the other, and a message arrives as the 60 octets that the
  receiver reads at once.
\<close>

end
